(* ===== verification/Akb_Prelude.thy ===== *)
theory Akb_Prelude
  imports Main "HOL-Library.Word"
begin

text \<open>
  Shared vocabulary of the development: the machine types of the C sources, byte order
  conversions, the numeric value of a little-endian array of 32-bit digits, and the arithmetic
  facts about carries, truncations and shifts that the component theories use.
\<close>

unbundle bit_operations_syntax

section \<open>Machine types\<close>

text \<open>
  \<open>uint8_t\<close>, \<open>uint32_t\<close> and \<open>uint64_t\<close> of the sources. Signed 64-bit accumulators are
  \<open>u64\<close> values read with \<open>sint\<close> and shifted with \<open>signed_drop_bit\<close> (the compilers the project
  is built with shift negative values arithmetically).
\<close>

type_synonym u8 = "8 word"
type_synonym u32 = "32 word"
type_synonym u64 = "64 word"
type_synonym bytes = "u8 list"

named_theorems unat_word_simps \<open>moving word expressions to natural numbers\<close>
named_theorems layout_simps \<open>lengths of encoded fields and layout sums\<close>

section \<open>Truncation and shifts as arithmetic\<close>

lemma u8_lt: "unat (x :: u8) < 256"
  using unsigned_less [of x] by simp

lemma u32_lt: "unat (x :: u32) < 4294967296"
  using unsigned_less [of x] by simp

lemma u64_lt: "unat (x :: u64) < 18446744073709551616"
  using unsigned_less [of x] by simp

lemma unat_ucast_64_32 [unat_word_simps]:
  "unat (ucast (x :: u64) :: u32) = unat x mod 2 ^ 32"
  by (simp add: unsigned_ucast_eq take_bit_eq_mod)

lemma unat_ucast_32_8 [unat_word_simps]:
  "unat (ucast (x :: u32) :: u8) = unat x mod 2 ^ 8"
  by (simp add: unsigned_ucast_eq take_bit_eq_mod)

lemma unat_ucast_64_8 [unat_word_simps]:
  "unat (ucast (x :: u64) :: u8) = unat x mod 2 ^ 8"
  by (simp add: unsigned_ucast_eq take_bit_eq_mod)

lemma unat_ucast_32_64 [unat_word_simps]:
  "unat (ucast (x :: u32) :: u64) = unat x"
  using u32_lt [of x] by (simp add: unsigned_ucast_eq take_bit_eq_mod)

lemma unat_ucast_8_32 [unat_word_simps]:
  "unat (ucast (x :: u8) :: u32) = unat x"
  using u8_lt [of x] by (simp add: unsigned_ucast_eq take_bit_eq_mod)

lemma unat_drop_bit [unat_word_simps]:
  "unat (drop_bit n (x :: 'a::len word)) = unat x div 2 ^ n"
  unfolding unat_drop_bit_eq by (rule drop_bit_eq_div)

lemma unat_add_exact:
  "unat x + unat y < 2 ^ LENGTH('a) \<Longrightarrow> unat (x + y :: 'a::len word) = unat x + unat y"
  using unat_add_lem by blast

lemma unat_mult_exact:
  "unat x * unat y < 2 ^ LENGTH('a) \<Longrightarrow> unat (x * y :: 'a::len word) = unat x * unat y"
  using unat_mult_lem by blast

lemma word_take_bit_eq_and:
  "(x :: 'a::len word) AND mask n = take_bit n x"
  by (simp add: take_bit_eq_mask)

lemma unat_and_mask [unat_word_simps]:
  "unat ((x :: 'a::len word) AND mask n) = unat x mod 2 ^ n"
  unfolding word_take_bit_eq_and unsigned_take_bit_eq by (rule take_bit_eq_mod)

text \<open>Two's complement reading of 32- and 64-bit values.\<close>

lemma sint_u32: "sint (x :: u32) = (if uint x < 2 ^ 31 then uint x else uint x - 2 ^ 32)"
proof -
  have lt: "uint x < 2 ^ 32" using uint_lt2p [of x] by simp
  have "sint x = (uint x + 2 ^ 31) mod 2 ^ 32 - 2 ^ 31"
    by (simp add: sint_uint signed_take_bit_eq_take_bit_shift take_bit_eq_mod)
  moreover have "(uint x + 2 ^ 31) mod 2 ^ 32 =
      (if uint x < 2 ^ 31 then uint x + 2 ^ 31 else uint x - 2 ^ 31)"
  proof (cases "uint x < 2 ^ 31")
    case True
    then show ?thesis by (simp add: mod_pos_pos_trivial)
  next
    case False
    have "(uint x + 2 ^ 31) mod 2 ^ 32 = (uint x - 2 ^ 31 + 2 ^ 32) mod 2 ^ 32"
      by (simp add: add.commute)
    also have "\<dots> = (uint x - 2 ^ 31) mod 2 ^ 32" by (rule mod_add_self2)
    also have "\<dots> = uint x - 2 ^ 31"
      using False lt by (intro mod_pos_pos_trivial) auto
    finally show ?thesis using False by simp
  qed
  ultimately show ?thesis by simp
qed

lemma sint_u64: "sint (x :: u64) = (if uint x < 2 ^ 63 then uint x else uint x - 2 ^ 64)"
proof -
  have lt: "uint x < 2 ^ 64" using uint_lt2p [of x] by simp
  have "sint x = (uint x + 2 ^ 63) mod 2 ^ 64 - 2 ^ 63"
    by (simp add: sint_uint signed_take_bit_eq_take_bit_shift take_bit_eq_mod)
  moreover have "(uint x + 2 ^ 63) mod 2 ^ 64 =
      (if uint x < 2 ^ 63 then uint x + 2 ^ 63 else uint x - 2 ^ 63)"
  proof (cases "uint x < 2 ^ 63")
    case True
    then show ?thesis by (simp add: mod_pos_pos_trivial)
  next
    case False
    have "(uint x + 2 ^ 63) mod 2 ^ 64 = (uint x - 2 ^ 63 + 2 ^ 64) mod 2 ^ 64"
      by (simp add: add.commute)
    also have "\<dots> = (uint x - 2 ^ 63) mod 2 ^ 64" by (rule mod_add_self2)
    also have "\<dots> = uint x - 2 ^ 63"
      using False lt by (intro mod_pos_pos_trivial) auto
    finally show ?thesis using False by simp
  qed
  ultimately show ?thesis by simp
qed

lemma uint_less_iff: "uint (x :: 'a::len word) < int n \<longleftrightarrow> unat x < n"
  by (metis of_nat_less_iff uint_nat)

text \<open>
  A signed 64-bit accumulator holding \<open>k\<close> is \<open>of_int k\<close>: storing its low word and shifting it
  arithmetically are \<open>mod\<close> and \<open>div\<close>, as long as \<open>k\<close> is in range.
\<close>

lemma low32_of_int [simp]: "(ucast (of_int k :: u64) :: u32) = of_int k"
  by (rule bit_word_eqI) (simp add: bit_simps bit_of_int_iff)

lemma uint_of_int_u32: "uint (of_int k :: u32) = k mod 2 ^ 32"
  by (simp add: uint_word_of_int)

lemma sint_of_int_u64: "- (2 ^ 63) \<le> k \<Longrightarrow> k < 2 ^ 63 \<Longrightarrow> sint (of_int k :: u64) = k"
  by (simp add: sint_sbintrunc' signed_take_bit_int_eq_self)

lemma asr_of_int_u64:
  assumes "- (2 ^ 63) \<le> k" "k < 2 ^ 63"
  shows "signed_drop_bit n (of_int k :: u64) = of_int (k div 2 ^ n)"
proof -
  have "sint (signed_drop_bit n (of_int k :: u64)) = k div 2 ^ n"
    using assms by (simp add: sint_signed_drop_bit_eq sint_of_int_u64 drop_bit_eq_div)
  then show ?thesis by (metis of_int_sint scast_id)
qed

lemma ucast_of_int_u64: "(ucast (a :: u32) :: u64) = of_int (uint a)"
  by simp
section \<open>Bytes and words\<close>

text \<open>
  \<open>be_word\<close> is the expression \<open>(p[0] << 24) | (p[1] << 16) | (p[2] << 8) | p[3]\<close>, which the
  sources write out wherever four bytes become a word; \<open>be32\<close> is the inverse, the four stores
  \<open>*p++ = tmp >> 24 .. tmp >> 0\<close>. \<open>le32\<close> is the memory representation of a \<open>uint32_t\<close> on the
  little-endian hosts the tools run on.
\<close>

definition be_word :: "u8 \<Rightarrow> u8 \<Rightarrow> u8 \<Rightarrow> u8 \<Rightarrow> u32" where
  "be_word a b c d =
     push_bit 24 (ucast a) OR push_bit 16 (ucast b) OR push_bit 8 (ucast c) OR ucast d"

definition be32 :: "u32 \<Rightarrow> bytes" where
  "be32 w = [ucast (drop_bit 24 w), ucast (drop_bit 16 w), ucast (drop_bit 8 w), ucast w]"

definition le32 :: "u32 \<Rightarrow> bytes" where
  "le32 w = rev (be32 w)"

definition of_le32 :: "bytes \<Rightarrow> u32" where
  "of_le32 bs = be_word (bs ! 3) (bs ! 2) (bs ! 1) (bs ! 0)"

lemma length_be32 [simp, layout_simps]: "length (be32 w) = 4"
  by (simp add: be32_def)

lemma length_le32 [simp, layout_simps]: "length (le32 w) = 4"
  by (simp add: le32_def)

lemma be_word_of_be32:
  "be_word (ucast (drop_bit 24 w)) (ucast (drop_bit 16 w)) (ucast (drop_bit 8 w)) (ucast w) =
     (w :: u32)"
proof (unfold be_word_def, rule bit_word_eqI)
  fix n :: nat assume "n < LENGTH(32)"
  then consider "n < 8" | "8 \<le> n" "n < 16" | "16 \<le> n" "n < 24" | "24 \<le> n" "n < 32"
    by fastforce
  then show "bit (push_bit 24 (ucast (ucast (drop_bit 24 w) :: u8) :: u32) OR
      push_bit 16 (ucast (ucast (drop_bit 16 w) :: u8)) OR
      push_bit 8 (ucast (ucast (drop_bit 8 w) :: u8)) OR ucast (ucast w :: u8)) n = bit w n"
    by cases (auto simp: bit_simps)
qed

lemma of_le32_le32 [simp]: "of_le32 (le32 w) = w"
  by (simp add: of_le32_def le32_def be32_def be_word_of_be32)

lemma of_le32_append [simp]: "length bs \<ge> 4 \<Longrightarrow> of_le32 (bs @ cs) = of_le32 bs"
  unfolding of_le32_def by (auto simp: nth_append)

lemma be32_be_word [simp]: "be32 (be_word a b c d) = [a, b, c, d]"
  unfolding be32_def be_word_def
  by (simp, intro conjI; rule bit_word_eqI) (auto simp: bit_simps dest: bit_imp_le_length)

lemma unat_be_word:
  "unat (be_word a b c d) =
     unat a * 2 ^ 24 + unat b * 2 ^ 16 + unat c * 2 ^ 8 + unat d"
proof -
  have or_add: "x OR y = x + y" if "x AND y = 0" for x y :: u32
    using that by (simp add: disjunctive_add_eq_or)
  have p: "unat (push_bit n (ucast x :: u32)) = unat x * 2 ^ n" if "n \<le> 24" for n and x :: u8
  proof -
    have "unat x * 2 ^ n < 256 * 2 ^ n"
      using u8_lt [of x] by simp
    also have "\<dots> \<le> 256 * 2 ^ 24"
      using that by (intro mult_left_mono power_increasing) auto
    finally show ?thesis
      unfolding unsigned_push_bit_eq unat_ucast_8_32 by (simp add: push_bit_eq_mult take_bit_eq_mod)
  qed
  have "push_bit 8 (ucast c :: u32) AND ucast d = 0"
    by (rule bit_word_eqI) (auto simp: bit_simps dest!: bit_imp_le_length)
  moreover have "push_bit 16 (ucast b :: u32) AND (push_bit 8 (ucast c) OR ucast d) = 0"
    by (rule bit_word_eqI) (auto simp: bit_simps dest!: bit_imp_le_length)
  moreover have "push_bit 24 (ucast a :: u32) AND
      (push_bit 16 (ucast b) OR (push_bit 8 (ucast c) OR ucast d)) = 0"
    by (rule bit_word_eqI) (auto simp: bit_simps dest!: bit_imp_le_length)
  ultimately have "be_word a b c d =
      push_bit 24 (ucast a) + (push_bit 16 (ucast b) + (push_bit 8 (ucast c) + ucast d))"
    by (simp add: be_word_def or_add or.assoc)
  moreover have "unat a < 256" "unat b < 256" "unat c < 256" "unat d < 256"
    by (simp_all add: u8_lt)
  ultimately show ?thesis
    by (simp add: unat_add_exact p unat_ucast_8_32)
qed

section \<open>Little-endian digit arrays\<close>

text \<open>The number an array of 32-bit digits stands for, least significant digit first.\<close>

fun lval :: "u32 list \<Rightarrow> nat" where
  "lval [] = 0"
| "lval (x # xs) = unat x + 2 ^ 32 * lval xs"

lemma lval_append: "lval (xs @ ys) = lval xs + 2 ^ (32 * length xs) * lval ys"
  by (induction xs) (simp_all add: algebra_simps power_add)

lemma lval_less: "lval xs < 2 ^ (32 * length xs)"
proof (induction xs)
  case (Cons x xs)
  have "lval xs + 1 \<le> 2 ^ (32 * length xs)" using Cons.IH by simp
  then have "2 ^ 32 * (lval xs + 1) \<le> 2 ^ 32 * (2 ^ (32 * length xs) :: nat)"
    by (rule mult_left_mono) simp
  then show ?case using u32_lt [of x] by (simp add: power_add)
qed simp

lemma lval_inject: "length xs = length ys \<Longrightarrow> lval xs = lval ys \<longleftrightarrow> xs = ys"
proof (induction xs ys rule: list_induct2)
  case (Cons x xs y ys)
  have "unat x = (unat x + 2 ^ 32 * lval xs) mod 2 ^ 32" by (simp add: u32_lt)
  moreover have "unat y = (unat y + 2 ^ 32 * lval ys) mod 2 ^ 32" by (simp add: u32_lt)
  moreover have "lval xs = (unat x + 2 ^ 32 * lval xs) div 2 ^ 32" by (simp add: u32_lt)
  moreover have "lval ys = (unat y + 2 ^ 32 * lval ys) div 2 ^ 32" by (simp add: u32_lt)
  ultimately show ?case using Cons.IH by (metis lval.simps(2) word_unat_eq_iff list.inject)
qed simp

lemma lval_replicate_0 [simp]: "lval (replicate n 0) = 0"
  by (induction n) simp_all

lemma lval_eq_0_iff: "lval xs = 0 \<longleftrightarrow> (\<forall>x \<in> set xs. x = 0)"
  by (induction xs) (auto simp: unat_eq_zero)

text \<open>Splitting off one digit, and a product of digits with two more digits in a double word.\<close>

lemma digit_step:
  fixes k y B M :: int
  assumes "0 < B" "0 \<le> M"
  shows "(k + B * y) mod (B * M) = k mod B + B * ((y + k div B) mod M)"
proof -
  have "(k + B * y) div B = y + k div B" using assms(1) by simp
  moreover have "(k + B * y) mod B = k mod B" by simp
  ultimately show ?thesis using assms(2) zmod_zmult2_eq [of M "k + B * y" B] by simp
qed

lemma mul_add_u32:
  "unat (x :: u32) * unat (y :: u32) + unat (z :: u32) + unat (w :: u32) < 2 ^ 64"
proof -
  have "unat x \<le> 2 ^ 32 - 1" "unat y \<le> 2 ^ 32 - 1" "unat z \<le> 2 ^ 32 - 1" "unat w \<le> 2 ^ 32 - 1"
    using u32_lt [of x] u32_lt [of y] u32_lt [of z] u32_lt [of w] by simp_all
  then have "unat x * unat y \<le> (2 ^ 32 - 1) * (2 ^ 32 - 1)" by (intro mult_le_mono)
  then show ?thesis using u32_lt [of z] u32_lt [of w] by simp
qed

text \<open>The number a big-endian byte string stands for.\<close>

fun bval :: "bytes \<Rightarrow> nat" where
  "bval [] = 0"
| "bval (b # bs) = unat b * 256 ^ length bs + bval bs"

lemma bval_append: "bval (xs @ ys) = bval xs * 256 ^ length ys + bval ys"
  by (induction xs) (simp_all add: algebra_simps power_add)

lemma bval_less: "bval bs < 256 ^ length bs"
proof (induction bs)
  case (Cons b bs)
  have "unat b * 256 ^ length bs + bval bs < (unat b + 1) * 256 ^ length bs"
    using Cons.IH by simp
  also have "\<dots> \<le> 256 * 256 ^ length bs"
    using u8_lt [of b] by (intro mult_le_mono1) simp
  finally show ?case by simp
qed simp

lemma bval_be32 [simp]: "bval (be32 w) = unat w"
proof -
  have "be32 w = [ucast (drop_bit 24 w), ucast (drop_bit 16 w), ucast (drop_bit 8 w), ucast w]"
    by (simp add: be32_def)
  then show ?thesis
    using unat_be_word [of "ucast (drop_bit 24 w)" "ucast (drop_bit 16 w)" "ucast (drop_bit 8 w)" "ucast w"]
    by (simp add: be_word_of_be32)
qed

lemma bval_digits: "bval (concat (map be32 ws)) = lval (rev ws)"
proof (induction ws)
  case (Cons w ws)
  have "length (concat (map be32 ws)) = 4 * length ws"
    by (induction ws) simp_all
  moreover have "(256 :: nat) ^ (4 * length ws) = 2 ^ (32 * length ws)"
    by (simp add: power_mult)
  ultimately show ?case using Cons.IH by (simp add: bval_append lval_append mult.commute)
qed simp

lemma bval_inject: "length xs = length ys \<Longrightarrow> bval xs = bval ys \<longleftrightarrow> xs = ys"
proof (induction xs ys rule: list_induct2)
  case (Cons x xs y ys)
  let ?B = "256 ^ length ys :: nat"
  have b: "bval xs < ?B" "bval ys < ?B" using bval_less [of xs] bval_less [of ys] Cons.hyps by simp_all
  have "unat x = (unat x * ?B + bval xs) div ?B" "bval xs = (unat x * ?B + bval xs) mod ?B"
    "unat y = (unat y * ?B + bval ys) div ?B" "bval ys = (unat y * ?B + bval ys) mod ?B"
    using b by simp_all
  then show ?case using Cons by (metis bval.simps(2) list.inject word_unat_eq_iff)
qed simp

section \<open>Lists\<close>

text \<open>Zero bytes up to the next multiple of \<open>p\<close>, counted from a position \<open>n\<close>.\<close>

definition pad_len :: "nat \<Rightarrow> nat \<Rightarrow> nat" where
  "pad_len p n = (p - n mod p) mod p"

definition round_up :: "nat \<Rightarrow> nat \<Rightarrow> nat" where
  "round_up p n = n + pad_len p n"

lemma pad_len_less: "0 < p \<Longrightarrow> pad_len p n < p"
  by (simp add: pad_len_def)

lemma round_up_div: "0 < p \<Longrightarrow> round_up p n = (n + p - 1) div p * p"
proof -
  assume p: "0 < p"
  define q r where "q = n div p" and "r = n mod p"
  have n: "n = q * p + r" and r: "r < p"
    using p by (simp_all add: q_def r_def)
  show ?thesis
  proof (cases "r = 0")
    case True
    with n p have "n + p - 1 = q * p + (p - 1)" by simp
    moreover have "(q * p + (p - 1)) div p = q" using p
      by (metis add.right_neutral diff_less div_less div_mult_self3 less_numeral_extra(1) less_not_refl2)
    ultimately show ?thesis using True n p by (simp add: round_up_def pad_len_def)
  next
    case False
    with n have "n + p - 1 = Suc q * p + (r - 1)" by simp
    moreover have "(Suc q * p + (r - 1)) div p = Suc q"
      using p r by (metis add.commute add_cancel_right_right div_less div_mult_self1 less_imp_diff_less
        less_not_refl2 mult.commute)
    moreover have "round_up p n = Suc q * p"
      using False r n p by (simp add: round_up_def pad_len_def)
    ultimately show ?thesis by simp
  qed
qed

lemma mod_eq_if_dvd_add:
  assumes "p dvd x + a" and "p dvd x + (b :: nat)"
  shows "a mod p = b mod p"
  using assms
proof (induction a b rule: linorder_wlog)
  case (le a b)
  have "p dvd (x + b) - (x + a)" using le.prems by (rule dvd_diff_nat [rotated])
  then have "p dvd b - a" by simp
  then show ?case using le.hyps by (simp add: mod_eq_dvd_iff_nat [symmetric])
qed simp

lemma round_up_ge: "n \<le> round_up p n"
  by (simp add: round_up_def)

lemma round_up_dvd: "0 < p \<Longrightarrow> p dvd round_up p n"
  by (simp add: round_up_div)

end
