(* ===== verification/Cstd.thy ===== *)
theory Cstd
  imports Akb_Prelude
begin

text \<open>
  The parts of the C library that the tools call on strings and numbers: NUL-terminated strings,
  \<open>strtoul\<close>, the \<open>printf\<close> conversions \<open>%d\<close>, \<open>%u\<close>, \<open>%0Nx\<close> and \<open>%03o\<close>, and
  \<open>strncpy\<close>. A C string is a \<open>string\<close> without NUL; in memory it is its bytes and a zero byte.
\<close>

section \<open>Strings and bytes\<close>

definition cs :: "string \<Rightarrow> bytes" where
  "cs s = map of_char s"

definition of_bytes :: "bytes \<Rightarrow> string" where
  "of_bytes bs = map (\<lambda>b. char_of (unat b)) bs"

definition cstring :: "string \<Rightarrow> bool" where
  "cstring s \<longleftrightarrow> CHR 0x00 \<notin> set s"

text \<open>What \<open>%s\<close> prints from a memory area: the bytes up to the first zero.\<close>

definition cstr_read :: "bytes \<Rightarrow> bytes" where
  "cstr_read mem = takeWhile (\<lambda>b. b \<noteq> 0) mem"

text \<open>\<open>strncpy(dst, src, n)\<close>: at most \<open>n\<close> bytes of the string, padded with zeros to \<open>n\<close>.\<close>

definition strncpy :: "bytes \<Rightarrow> string \<Rightarrow> nat \<Rightarrow> bytes" where
  "strncpy dst src n =
     take n (cs src) @ replicate (n - length src) 0 @ drop n dst"

lemma length_cs [simp, layout_simps]: "length (cs s) = length s"
  by (simp add: cs_def)

lemma cs_append [simp]: "cs (s @ t) = cs s @ cs t"
  by (simp add: cs_def)

lemma unat_of_char [simp]: "unat (of_char c :: u8) = of_char c"
proof -
  have "(of_char c :: u8) = of_nat (of_char c)" by (simp add: of_nat_of_char)
  then show ?thesis by (simp add: unat_of_nat)
qed

lemma of_char_eq_0_iff: "(of_char c :: u8) = 0 \<longleftrightarrow> c = CHR 0x00"
proof
  assume "(of_char c :: u8) = 0"
  then have "unat (of_char c :: u8) = 0" by (simp only: unsigned_0)
  then have "(of_char c :: nat) = of_char (CHR 0x00)" by simp
  then show "c = CHR 0x00" by (simp only: of_char_eq_iff)
qed simp

lemma zero_notin_cs [simp]: "cstring s \<Longrightarrow> 0 \<notin> set (cs s)"
  by (auto simp: cs_def cstring_def of_char_eq_0_iff eq_commute [of 0])

lemma of_bytes_cs [simp]: "of_bytes (cs s) = s"
  by (simp add: of_bytes_def cs_def o_def)

lemma cs_inject [simp]: "cs s = cs t \<longleftrightarrow> s = t"
  by (metis of_bytes_cs)

lemma cstr_read_terminated [simp]: "0 \<notin> set xs \<Longrightarrow> cstr_read (xs @ 0 # ys) = xs"
  unfolding cstr_read_def by (subst takeWhile_append2) auto

lemma cstr_read_zeros:
  "0 \<notin> set xs \<Longrightarrow> 0 < n \<Longrightarrow> cstr_read (xs @ replicate n 0 @ ys) = xs"
  by (cases n) simp_all

section \<open>Numbers in text\<close>

definition isspace :: "char \<Rightarrow> bool" where
  "isspace c \<longleftrightarrow> c \<in> {CHR '' '', CHR 0x09, CHR 0x0A, CHR 0x0B, CHR 0x0C, CHR 0x0D}"

text \<open>The value of a digit or letter in bases up to 16, as \<open>strtoul\<close> reads it.\<close>

definition digit_val :: "nat \<Rightarrow> char \<Rightarrow> nat option" where
  "digit_val bas c =
     (let n = (of_char c :: nat);
          v = (if 48 \<le> n \<and> n \<le> 57 then n - 48
               else if 97 \<le> n \<and> n \<le> 102 then n - 87
               else if 65 \<le> n \<and> n \<le> 70 then n - 55 else 36)
      in if v < bas then Some v else None)"

fun read_digits :: "nat \<Rightarrow> nat \<Rightarrow> string \<Rightarrow> nat" where
  "read_digits bas acc [] = acc"
| "read_digits bas acc (c # s) =
     (case digit_val bas c of None \<Rightarrow> acc | Some v \<Rightarrow> read_digits bas (acc * bas + v) s)"

definition skip_0x :: "nat \<Rightarrow> string \<Rightarrow> string" where
  "skip_0x bas s =
     (case s of a # x # d # r \<Rightarrow>
        if bas = 16 \<and> a = CHR ''0'' \<and> (x = CHR ''x'' \<or> x = CHR ''X'') \<and> digit_val 16 d \<noteq> None
        then d # r else s
      | _ \<Rightarrow> s)"

text \<open>\<open>strtoul\<close> on a 64-bit \<open>unsigned long\<close>: it saturates, and a minus sign negates modulo \<open>2^64\<close>.\<close>

definition strtoul :: "string \<Rightarrow> nat \<Rightarrow> u64" where
  "strtoul s bas =
     (let s = dropWhile isspace s;
          neg = (case s of c # _ \<Rightarrow> c = CHR ''-'' | [] \<Rightarrow> False);
          s = (case s of c # r \<Rightarrow> if c = CHR ''-'' \<or> c = CHR ''+'' then r else s | [] \<Rightarrow> []);
          v = read_digits bas 0 (skip_0x bas s)
      in if 2 ^ 64 \<le> v then - 1 else if neg then - of_nat v else of_nat v)"

definition hex_digit :: "nat \<Rightarrow> char" where
  "hex_digit n = (if n < 10 then char_of (48 + n) else char_of (87 + n))"

text \<open>
  The digits of a number in a base, least number of them, most significant first; \<open>%0Nx\<close>
  and \<open>%0No\<close> pad with zeros on the left and never cut.
\<close>

fun to_digits :: "nat \<Rightarrow> nat \<Rightarrow> string" where
  "to_digits bas n =
     (if n < bas \<or> bas < 2 then [hex_digit n] else to_digits bas (n div bas) @ [hex_digit (n mod bas)])"

declare to_digits.simps [simp del]

definition fmt_0 :: "nat \<Rightarrow> nat \<Rightarrow> nat \<Rightarrow> string" where
  "fmt_0 width bas n =
     (let d = to_digits bas n in replicate (width - length d) (CHR ''0'') @ d)"

definition fmt_x :: "nat \<Rightarrow> u32 \<Rightarrow> string" where
  "fmt_x width w = fmt_0 width 16 (unat w)"

definition fmt_d :: "int \<Rightarrow> string" where
  "fmt_d i = (if i < 0 then CHR ''-'' # to_digits 10 (nat (- i)) else to_digits 10 (nat i))"

lemma digit_val_hex_digit: "n < bas \<Longrightarrow> bas \<le> 16 \<Longrightarrow> digit_val bas (hex_digit n) = Some n"
  by (auto simp: digit_val_def hex_digit_def Let_def)

lemma read_digits_append:
  assumes "\<And>c. c \<in> set s \<Longrightarrow> digit_val bas c \<noteq> None"
  shows "read_digits bas acc (s @ t) = read_digits bas (read_digits bas acc s) t"
  using assms
proof (induction s arbitrary: acc)
  case (Cons c s)
  then obtain v where "digit_val bas c = Some v" by fastforce
  with Cons show ?case by simp
qed simp

lemma to_digits_digits:
  "2 \<le> bas \<Longrightarrow> bas \<le> 16 \<Longrightarrow> c \<in> set (to_digits bas n) \<Longrightarrow> digit_val bas c \<noteq> None"
proof (induction bas n rule: to_digits.induct)
  case (1 bas n)
  show ?case
  proof (cases "n < bas")
    case True
    then show ?thesis
      using "1.prems" by (simp add: to_digits.simps [of bas n] digit_val_hex_digit)
  next
    case False
    then have "to_digits bas n = to_digits bas (n div bas) @ [hex_digit (n mod bas)]"
      using "1.prems" by (simp add: to_digits.simps [of bas n])
    then show ?thesis
      using "1.IH" "1.prems" False by (auto simp: digit_val_hex_digit)
  qed
qed

lemma read_digits_to_digits:
  assumes "2 \<le> bas" and "bas \<le> 16"
  shows "read_digits bas 0 (to_digits bas n) = n"
  using assms
proof (induction bas n rule: to_digits.induct)
  case (1 bas n)
  show ?case
  proof (cases "n < bas")
    case True
    then show ?thesis
      using "1.prems" by (simp add: to_digits.simps [of bas n] digit_val_hex_digit)
  next
    case False
    then have "to_digits bas n = to_digits bas (n div bas) @ [hex_digit (n mod bas)]"
      using "1.prems" by (simp add: to_digits.simps [of bas n])
    moreover have "read_digits bas 0 (to_digits bas (n div bas)) = n div bas"
      using "1.IH" "1.prems" False by simp
    ultimately show ?thesis
      using "1.prems" to_digits_digits [of bas _ "n div bas"]
      by (simp add: read_digits_append digit_val_hex_digit)
  qed
qed

lemma read_digits_zeros:
  "2 \<le> bas \<Longrightarrow> bas \<le> 16 \<Longrightarrow> read_digits bas 0 (replicate k (CHR ''0'') @ s) = read_digits bas 0 s"
  by (induction k) (simp_all add: digit_val_def)

text \<open>Printing a number and reading it back, in any of the bases the tools use.\<close>

lemma read_digits_fmt_0:
  "2 \<le> bas \<Longrightarrow> bas \<le> 16 \<Longrightarrow> read_digits bas 0 (fmt_0 width bas n) = n"
  by (simp add: fmt_0_def Let_def read_digits_zeros read_digits_to_digits)

lemma to_digits_neq_Nil [simp]: "to_digits bas n \<noteq> []"
  by (subst to_digits.simps) simp

lemma fmt_0_neq_Nil [simp]: "fmt_0 width bas n \<noteq> []"
  by (simp add: fmt_0_def Let_def)

lemma digit_val_not_space_sign:
  assumes "digit_val bas c \<noteq> None" and "bas \<le> 16"
  shows "\<not> isspace c" and "c \<noteq> CHR ''-''" and "c \<noteq> CHR ''+''"
  using assms by (auto simp: digit_val_def isspace_def Let_def)

lemma fmt_0_digits:
  "2 \<le> bas \<Longrightarrow> bas \<le> 16 \<Longrightarrow> c \<in> set (fmt_0 width bas n) \<Longrightarrow> digit_val bas c \<noteq> None"
  using to_digits_digits [of bas c n]
  by (cases "c = CHR ''0''") (simp_all add: fmt_0_def Let_def digit_val_def [of _ "CHR ''0''"])

end
