(* ===== verification/Hash.thy ===== *)
theory Hash
  imports Akb_Prelude
begin

text \<open>
  \<open>libmincrypt/sha.c\<close> and \<open>libmincrypt/sha256.c\<close> with \<open>mincrypt/hash-internal.h\<close>: the hash
  context, both compression functions, the streaming operations \<open>init\<close>, \<open>update\<close>, \<open>final\<close>
  and the one-shot \<open>hash\<close>. The interface \<open>md_hash\<close> collects what a streaming hash over 64-byte
  blocks promises; its lemmas show that \<open>update\<close> may be split anywhere and that
  \<open>init\<close>/\<open>update\<close>/\<open>final\<close> computes the padded block iteration of FIPS 180-4. Both hashes
  interpret it.
\<close>

section \<open>The context and its dispatch table (hash-internal.h)\<close>

datatype hash_vtab = SHA_VTAB | SHA256_VTAB

record hash_ctx =
  ctx_f :: hash_vtab
  ctx_count :: u64
  ctx_buf :: bytes
  ctx_state :: "u32 list"

definition SHA_DIGEST_SIZE :: nat where "SHA_DIGEST_SIZE = 20"
definition SHA256_DIGEST_SIZE :: nat where "SHA256_DIGEST_SIZE = 32"

section \<open>SHA-1 (sha.c)\<close>

definition rol :: "nat \<Rightarrow> u32 \<Rightarrow> u32" where
  "rol bits v = push_bit bits v OR drop_bit (32 - bits) v"

text \<open>The loop \<open>for (t = 0; t < 16; ++t)\<close> of both transforms, four bytes to a word.\<close>

fun load_words :: "bytes \<Rightarrow> u32 list" where
  "load_words (a # b # c # d # p) = be_word a b c d # load_words p"
| "load_words _ = []"

text \<open>The loop that extends \<open>W\<close>: \<open>k\<close> more words, each from four earlier ones.\<close>

fun SHA1_expand :: "nat \<Rightarrow> u32 list \<Rightarrow> u32 list" where
  "SHA1_expand 0 W = W"
| "SHA1_expand (Suc k) W =
     (let t = length W in
      SHA1_expand k (W @ [rol 1 (W ! (t - 3) XOR W ! (t - 8) XOR W ! (t - 14) XOR W ! (t - 16))]))"

definition SHA1_round :: "nat \<Rightarrow> u32 \<Rightarrow> u32 \<times> u32 \<times> u32 \<times> u32 \<times> u32 \<Rightarrow> u32 \<times> u32 \<times> u32 \<times> u32 \<times> u32" where
  "SHA1_round t w = (\<lambda>(A, B, C, D, E).
     let tmp = rol 5 A + E + w;
         tmp = (if t < 20 then tmp + ((D XOR (B AND (C XOR D))) + 0x5A827999)
                else if t < 40 then tmp + ((B XOR C XOR D) + 0x6ED9EBA1)
                else if t < 60 then tmp + (((B AND C) OR (D AND (B OR C))) + 0x8F1BBCDC)
                else tmp + ((B XOR C XOR D) + 0xCA62C1D6))
     in (tmp, A, rol 30 B, C, D))"

definition SHA1_compress :: "u32 list \<Rightarrow> bytes \<Rightarrow> u32 list" where
  "SHA1_compress st blk =
     (let W = SHA1_expand 64 (load_words blk) in
      case fold (\<lambda>t. SHA1_round t (W ! t)) [0..<80] (st ! 0, st ! 1, st ! 2, st ! 3, st ! 4) of
        (A, B, C, D, E) \<Rightarrow>
          [st ! 0 + A, st ! 1 + B, st ! 2 + C, st ! 3 + D, st ! 4 + E] @ drop 5 st)"

definition SHA1_Transform :: "hash_ctx \<Rightarrow> hash_ctx" where
  "SHA1_Transform ctx = ctx\<lparr>ctx_state := SHA1_compress (ctx_state ctx) (ctx_buf ctx)\<rparr>"

definition SHA_init :: "hash_ctx \<Rightarrow> hash_ctx" where
  "SHA_init ctx = ctx\<lparr>ctx_f := SHA_VTAB,
     ctx_state := [0x67452301, 0xEFCDAB89, 0x98BADCFE, 0x10325476, 0xC3D2E1F0]
                    @ drop 5 (ctx_state ctx),
     ctx_count := 0\<rparr>"

fun SHA_update_loop :: "nat \<Rightarrow> hash_ctx \<Rightarrow> bytes \<Rightarrow> hash_ctx" where
  "SHA_update_loop i ctx [] = ctx"
| "SHA_update_loop i ctx (p # ps) =
     (let ctx' = ctx\<lparr>ctx_buf := (ctx_buf ctx)[i := p]\<rparr> in
      if Suc i = 64 then SHA_update_loop 0 (SHA1_Transform ctx') ps
      else SHA_update_loop (Suc i) ctx' ps)"

definition SHA_update :: "hash_ctx \<Rightarrow> bytes \<Rightarrow> hash_ctx" where
  "SHA_update ctx data =
     SHA_update_loop (unat (ctx_count ctx AND 63))
       (ctx\<lparr>ctx_count := ctx_count ctx + of_nat (length data)\<rparr>) data"

lemma SHA_update_loop_count [simp]: "ctx_count (SHA_update_loop i ctx ps) = ctx_count ctx"
  by (induction i ctx ps rule: SHA_update_loop.induct) (simp_all add: Let_def SHA1_Transform_def)

lemma SHA_update_count [simp]:
  "ctx_count (SHA_update ctx ps) = ctx_count ctx + of_nat (length ps)"
  by (simp add: SHA_update_def)

text \<open>
  \<open>while ((ctx->count & 63) != 56)\<close> of \<open>SHA_final\<close> stops: each turn adds one to the count,
  so the distance to 56 modulo 64 shrinks.
\<close>

definition pad_dist :: "u64 \<Rightarrow> nat" where
  "pad_dist c = (120 - unat c mod 64) mod 64"

lemma and_63: "unat ((c :: u64) AND 63) = unat c mod 64"
  using unat_and_mask [of c 6] by (simp add: mask_eq_exp_minus_1)

lemma and_63_Suc:
  "unat ((c + 1 :: u64) AND 63) = (if unat (c AND 63) = 63 then 0 else Suc (unat (c AND 63)))"
proof -
  have "unat (c + 1) mod 64 = Suc (unat c) mod 64"
    by (simp add: unat_word_ariths mod_mod_cancel)
  then show ?thesis unfolding and_63 by (simp add: mod_Suc)
qed

lemma pad_dist_decreases:
  assumes "(c :: u64) AND 63 \<noteq> 56"
  shows "pad_dist (c + 1) < pad_dist c"
proof -
  have "unat (c AND 63) \<noteq> unat (56 :: u64)"
    using assms by (simp only: word_unat_eq_iff not_False_eq_True)
  then have "unat c mod 64 \<noteq> 56" by (simp add: and_63)
  moreover have "unat (c + 1) mod 64 = Suc (unat c) mod 64"
    by (simp add: unat_word_ariths mod_mod_cancel)
  ultimately obtain r where r: "unat c mod 64 = r" "r < 64" "r \<noteq> 56"
      "unat (c + 1) mod 64 = (if r = 63 then 0 else Suc r)"
    by (simp add: mod_Suc)
  have dist: "(120 - n) mod 64 = (if n \<le> 56 then 56 - n else 120 - n)" if "n < 64" for n :: nat
  proof (cases "n \<le> 56")
    case True
    then have "120 - n = (56 - n) + 64" by simp
    then have "(120 - n) mod 64 = (56 - n) mod 64" by (simp only: mod_add_self2)
    then show ?thesis using True by simp
  next
    case False
    then show ?thesis using that by simp
  qed
  show ?thesis
    unfolding pad_dist_def r(1) r(4) using r(2,3) by (auto simp: dist)
qed


function SHA_pad_loop :: "hash_ctx \<Rightarrow> hash_ctx" where
  "SHA_pad_loop ctx =
     (if ctx_count ctx AND 63 \<noteq> 56 then SHA_pad_loop (SHA_update ctx [0]) else ctx)"
  by pat_completeness auto
termination
  by (relation "measure (\<lambda>ctx. pad_dist (ctx_count ctx))") (simp_all add: pad_dist_decreases)

declare SHA_pad_loop.simps [simp del]

text \<open>The eight one-byte updates with \<open>(uint8_t)(cnt >> ((7 - i) * 8))\<close>.\<close>

definition SHA_len_loop :: "u64 \<Rightarrow> hash_ctx \<Rightarrow> hash_ctx" where
  "SHA_len_loop cnt ctx =
     fold (\<lambda>i ctx. SHA_update ctx [ucast (drop_bit ((7 - i) * 8) cnt)]) [0..<8] ctx"

definition SHA_final :: "hash_ctx \<Rightarrow> hash_ctx" where
  "SHA_final ctx =
     (let cnt = ctx_count ctx * 8;
          ctx = SHA_update ctx [0x80];
          ctx = SHA_pad_loop ctx;
          ctx = SHA_len_loop cnt ctx
      in ctx\<lparr>ctx_buf := concat (map be32 (take 5 (ctx_state ctx))) @ drop 20 (ctx_buf ctx)\<rparr>)"

text \<open>
  The local context of \<open>SHA_hash\<close> is uninitialised memory; \<open>ctx0\<close> is whatever it holds.
  \<open>digest\<close> is the caller's buffer, whose first \<open>SHA_DIGEST_SIZE\<close> bytes are overwritten.
\<close>

definition SHA_hash :: "hash_ctx \<Rightarrow> bytes \<Rightarrow> bytes \<Rightarrow> bytes" where
  "SHA_hash ctx0 data digest =
     (let ctx = SHA_final (SHA_update (SHA_init ctx0) data)
      in take SHA_DIGEST_SIZE (ctx_buf ctx) @ drop SHA_DIGEST_SIZE digest)"

section \<open>SHA-256 (sha256.c)\<close>

definition ror :: "u32 \<Rightarrow> nat \<Rightarrow> u32" where
  "ror v bits = drop_bit bits v OR push_bit (32 - bits) v"

definition shr :: "u32 \<Rightarrow> nat \<Rightarrow> u32" where
  "shr v bits = drop_bit bits v"

definition K256 :: "u32 list" where
  "K256 = concat [
    [0x428a2f98, 0x71374491, 0xb5c0fbcf, 0xe9b5dba5],
    [0x3956c25b, 0x59f111f1, 0x923f82a4, 0xab1c5ed5],
    [0xd807aa98, 0x12835b01, 0x243185be, 0x550c7dc3],
    [0x72be5d74, 0x80deb1fe, 0x9bdc06a7, 0xc19bf174],
    [0xe49b69c1, 0xefbe4786, 0x0fc19dc6, 0x240ca1cc],
    [0x2de92c6f, 0x4a7484aa, 0x5cb0a9dc, 0x76f988da],
    [0x983e5152, 0xa831c66d, 0xb00327c8, 0xbf597fc7],
    [0xc6e00bf3, 0xd5a79147, 0x06ca6351, 0x14292967],
    [0x27b70a85, 0x2e1b2138, 0x4d2c6dfc, 0x53380d13],
    [0x650a7354, 0x766a0abb, 0x81c2c92e, 0x92722c85],
    [0xa2bfe8a1, 0xa81a664b, 0xc24b8b70, 0xc76c51a3],
    [0xd192e819, 0xd6990624, 0xf40e3585, 0x106aa070],
    [0x19a4c116, 0x1e376c08, 0x2748774c, 0x34b0bcb5],
    [0x391c0cb3, 0x4ed8aa4a, 0x5b9cca4f, 0x682e6ff3],
    [0x748f82ee, 0x78a5636f, 0x84c87814, 0x8cc70208],
    [0x90befffa, 0xa4506ceb, 0xbef9a3f7, 0xc67178f2]]"

fun SHA256_expand :: "nat \<Rightarrow> u32 list \<Rightarrow> u32 list" where
  "SHA256_expand 0 W = W"
| "SHA256_expand (Suc k) W =
     (let t = length W;
          s0 = ror (W ! (t - 15)) 7 XOR ror (W ! (t - 15)) 18 XOR shr (W ! (t - 15)) 3;
          s1 = ror (W ! (t - 2)) 17 XOR ror (W ! (t - 2)) 19 XOR shr (W ! (t - 2)) 10
      in SHA256_expand k (W @ [W ! (t - 16) + s0 + W ! (t - 7) + s1]))"

definition SHA256_round ::
  "u32 \<Rightarrow> u32 \<Rightarrow> u32 \<times> u32 \<times> u32 \<times> u32 \<times> u32 \<times> u32 \<times> u32 \<times> u32
     \<Rightarrow> u32 \<times> u32 \<times> u32 \<times> u32 \<times> u32 \<times> u32 \<times> u32 \<times> u32" where
  "SHA256_round k w = (\<lambda>(A, B, C, D, E, F, G, H).
     let s0 = ror A 2 XOR ror A 13 XOR ror A 22;
         maj = (A AND B) XOR (A AND C) XOR (B AND C);
         t2 = s0 + maj;
         s1 = ror E 6 XOR ror E 11 XOR ror E 25;
         ch = (E AND F) XOR (NOT E AND G);
         t1 = H + s1 + ch + k + w
     in (t1 + t2, A, B, C, D + t1, E, F, G))"

definition SHA256_compress :: "u32 list \<Rightarrow> bytes \<Rightarrow> u32 list" where
  "SHA256_compress st blk =
     (let W = SHA256_expand 48 (load_words blk) in
      case fold (\<lambda>t. SHA256_round (K256 ! t) (W ! t)) [0..<64]
             (st ! 0, st ! 1, st ! 2, st ! 3, st ! 4, st ! 5, st ! 6, st ! 7) of
        (A, B, C, D, E, F, G, H) \<Rightarrow>
          [st ! 0 + A, st ! 1 + B, st ! 2 + C, st ! 3 + D,
           st ! 4 + E, st ! 5 + F, st ! 6 + G, st ! 7 + H] @ drop 8 st)"

definition SHA256_Transform :: "hash_ctx \<Rightarrow> hash_ctx" where
  "SHA256_Transform ctx = ctx\<lparr>ctx_state := SHA256_compress (ctx_state ctx) (ctx_buf ctx)\<rparr>"

definition SHA256_init :: "hash_ctx \<Rightarrow> hash_ctx" where
  "SHA256_init ctx = ctx\<lparr>ctx_f := SHA256_VTAB,
     ctx_state := [0x6a09e667, 0xbb67ae85, 0x3c6ef372, 0xa54ff53a,
                   0x510e527f, 0x9b05688c, 0x1f83d9ab, 0x5be0cd19] @ drop 8 (ctx_state ctx),
     ctx_count := 0\<rparr>"

fun SHA256_update_loop :: "nat \<Rightarrow> hash_ctx \<Rightarrow> bytes \<Rightarrow> hash_ctx" where
  "SHA256_update_loop i ctx [] = ctx"
| "SHA256_update_loop i ctx (p # ps) =
     (let ctx' = ctx\<lparr>ctx_buf := (ctx_buf ctx)[i := p]\<rparr> in
      if Suc i = 64 then SHA256_update_loop 0 (SHA256_Transform ctx') ps
      else SHA256_update_loop (Suc i) ctx' ps)"

definition SHA256_update :: "hash_ctx \<Rightarrow> bytes \<Rightarrow> hash_ctx" where
  "SHA256_update ctx data =
     SHA256_update_loop (unat (ctx_count ctx AND 63))
       (ctx\<lparr>ctx_count := ctx_count ctx + of_nat (length data)\<rparr>) data"

lemma SHA256_update_loop_count [simp]: "ctx_count (SHA256_update_loop i ctx ps) = ctx_count ctx"
  by (induction i ctx ps rule: SHA256_update_loop.induct)
    (simp_all add: Let_def SHA256_Transform_def)

lemma SHA256_update_count [simp]:
  "ctx_count (SHA256_update ctx ps) = ctx_count ctx + of_nat (length ps)"
  by (simp add: SHA256_update_def)

function SHA256_pad_loop :: "hash_ctx \<Rightarrow> hash_ctx" where
  "SHA256_pad_loop ctx =
     (if ctx_count ctx AND 63 \<noteq> 56 then SHA256_pad_loop (SHA256_update ctx [0]) else ctx)"
  by pat_completeness auto
termination
  by (relation "measure (\<lambda>ctx. pad_dist (ctx_count ctx))") (simp_all add: pad_dist_decreases)

declare SHA256_pad_loop.simps [simp del]

definition SHA256_len_loop :: "u64 \<Rightarrow> hash_ctx \<Rightarrow> hash_ctx" where
  "SHA256_len_loop cnt ctx =
     fold (\<lambda>i ctx. SHA256_update ctx [ucast (drop_bit ((7 - i) * 8) cnt)]) [0..<8] ctx"

definition SHA256_final :: "hash_ctx \<Rightarrow> hash_ctx" where
  "SHA256_final ctx =
     (let cnt = ctx_count ctx * 8;
          ctx = SHA256_update ctx [0x80];
          ctx = SHA256_pad_loop ctx;
          ctx = SHA256_len_loop cnt ctx
      in ctx\<lparr>ctx_buf := concat (map be32 (take 8 (ctx_state ctx))) @ drop 32 (ctx_buf ctx)\<rparr>)"

definition SHA256_hash :: "hash_ctx \<Rightarrow> bytes \<Rightarrow> bytes \<Rightarrow> bytes" where
  "SHA256_hash ctx0 data digest =
     (let ctx = SHA256_final (SHA256_update (SHA256_init ctx0) data)
      in take SHA256_DIGEST_SIZE (ctx_buf ctx) @ drop SHA256_DIGEST_SIZE digest)"

section \<open>Dispatch through the context's table\<close>

definition HASH_init :: "hash_ctx \<Rightarrow> hash_ctx" where
  "HASH_init ctx = (case ctx_f ctx of SHA_VTAB \<Rightarrow> SHA_init ctx | SHA256_VTAB \<Rightarrow> SHA256_init ctx)"

definition HASH_update :: "hash_ctx \<Rightarrow> bytes \<Rightarrow> hash_ctx" where
  "HASH_update ctx data =
     (case ctx_f ctx of SHA_VTAB \<Rightarrow> SHA_update ctx data | SHA256_VTAB \<Rightarrow> SHA256_update ctx data)"

definition HASH_final :: "hash_ctx \<Rightarrow> hash_ctx" where
  "HASH_final ctx = (case ctx_f ctx of SHA_VTAB \<Rightarrow> SHA_final ctx | SHA256_VTAB \<Rightarrow> SHA256_final ctx)"

definition HASH_size :: "hash_ctx \<Rightarrow> nat" where
  "HASH_size ctx =
     (case ctx_f ctx of SHA_VTAB \<Rightarrow> SHA_DIGEST_SIZE | SHA256_VTAB \<Rightarrow> SHA256_DIGEST_SIZE)"


section \<open>What a streaming block hash computes\<close>

text \<open>
  The reference: pad the message with a one bit, zeros and the 64-bit bit count, cut it into
  64-byte blocks, and iterate the compression function over them from the initial value.
\<close>

definition be64 :: "u64 \<Rightarrow> bytes" where
  "be64 w = map (\<lambda>i. ucast (drop_bit ((7 - i) * 8) w)) [0..<8]"

definition md_pad :: "bytes \<Rightarrow> bytes" where
  "md_pad m = m @ [0x80] @ replicate (pad_len 64 (length m + 9)) 0 @ be64 (of_nat (8 * length m))"

definition blocks64 :: "bytes \<Rightarrow> bytes list" where
  "blocks64 m = map (\<lambda>i. take 64 (drop (64 * i) m)) [0..<length m div 64]"

definition md_digest :: "(u32 list \<Rightarrow> bytes \<Rightarrow> u32 list) \<Rightarrow> u32 list \<Rightarrow> bytes \<Rightarrow> bytes" where
  "md_digest ref iv m = concat (map be32 (foldl ref iv (blocks64 (md_pad m))))"

text \<open>One byte entering a context whose compression function is \<open>cmpr\<close>.\<close>

definition absorb1 :: "(u32 list \<Rightarrow> bytes \<Rightarrow> u32 list) \<Rightarrow> hash_ctx \<Rightarrow> u8 \<Rightarrow> hash_ctx" where
  "absorb1 cmpr c x =
     (let i = unat (ctx_count c AND 63); b = (ctx_buf c)[i := x]
      in c\<lparr>ctx_count := ctx_count c + 1, ctx_buf := b,
           ctx_state := (if i = 63 then cmpr (ctx_state c) b else ctx_state c)\<rparr>)"

lemma length_be64 [simp, layout_simps]: "length (be64 w) = 8"
  by (simp add: be64_def)

lemma blocks64_snoc:
  "blocks64 (m @ [x]) =
     (if length m mod 64 = 63 then blocks64 m @ [drop (64 * (length m div 64)) m @ [x]]
      else blocks64 m)"
proof -
  have "map (\<lambda>i. take 64 (drop (64 * i) (m @ [x]))) [0..<length m div 64] = blocks64 m"
    unfolding blocks64_def
  proof (rule map_cong [OF refl])
    fix i assume "i \<in> set [0..<length m div 64]"
    then have "Suc i \<le> length m div 64" by simp
    then have "64 * Suc i \<le> 64 * (length m div 64)" by (rule mult_le_mono2)
    also have "\<dots> \<le> length m" by simp
    finally show "take 64 (drop (64 * i) (m @ [x])) = take 64 (drop (64 * i) m)" by simp
  qed
  moreover have "take 64 (drop (64 * (length m div 64)) (m @ [x])) =
      drop (64 * (length m div 64)) m @ [x]" if "length m mod 64 = 63"
  proof -
    have "length m - 64 * (length m div 64) = 63"
      using that minus_mult_div_eq_mod [of "length m" 64] by simp
    then show ?thesis by simp
  qed
  ultimately show ?thesis by (simp add: blocks64_def div_Suc mod_Suc)
qed

text \<open>
  The state of a context that has absorbed the message \<open>m\<close>: the count, the partial block at
  the front of the buffer and the chaining value of the whole blocks.
\<close>

definition absorbed ::
  "(u32 list \<Rightarrow> bytes \<Rightarrow> u32 list) \<Rightarrow> u32 list \<Rightarrow> bytes \<Rightarrow> hash_ctx \<Rightarrow> bool" where
  "absorbed ref iv m c \<longleftrightarrow>
     ctx_count c = of_nat (length m) \<and> length (ctx_buf c) = 64 \<and> length (ctx_state c) = 8 \<and>
     take (length m mod 64) (ctx_buf c) = drop (64 * (length m div 64)) m \<and>
     take (length iv) (ctx_state c) = foldl ref iv (blocks64 m)"

lemma count_and_63: "unat ((of_nat n :: u64) AND 63) = n mod 64"
proof -
  have "unat (of_nat n :: u64) = n mod 2 ^ 64" by (simp add: unat_of_nat)
  then show ?thesis unfolding and_63 by (simp add: mod_mod_cancel)
qed

lemma pad_len_8: "pad_len 64 (n + 8) = (if n mod 64 \<le> 56 then 56 - n mod 64 else 120 - n mod 64)"
proof -
  define r where "r = n mod 64"
  have r: "r < 64" by (simp add: r_def)
  have "(n + 8) mod 64 = (r + 8) mod 64" by (simp add: r_def mod_add_left_eq)
  also have "\<dots> = (if r < 56 then r + 8 else r - 56)"
    using r by (auto simp: mod_if)
  finally have "pad_len 64 (n + 8) = (64 - (if r < 56 then r + 8 else r - 56)) mod 64"
    by (simp add: pad_len_def)
  also have "\<dots> = (if r \<le> 56 then 56 - r else 120 - r)"
    using r by (auto simp: mod_if)
  finally show ?thesis by (simp add: r_def)
qed

text \<open>
  The interface. \<open>cmpr\<close> updates the eight-word state in place; \<open>ref\<close> is the standard's
  compression function on the words the hash uses, and \<open>iv\<close> its initial value.
\<close>

locale md_hash =
  fixes init :: "hash_ctx \<Rightarrow> hash_ctx"
    and upd :: "hash_ctx \<Rightarrow> bytes \<Rightarrow> hash_ctx"
    and pad :: "hash_ctx \<Rightarrow> hash_ctx"
    and fin :: "hash_ctx \<Rightarrow> hash_ctx"
    and cmpr :: "u32 list \<Rightarrow> bytes \<Rightarrow> u32 list"
    and ref :: "u32 list \<Rightarrow> bytes \<Rightarrow> u32 list"
    and iv :: "u32 list"
  assumes upd_bytewise: "upd c xs = foldl (absorb1 cmpr) c xs"
    and cmpr_ref: "length st = 8 \<Longrightarrow> length blk = 64 \<Longrightarrow>
      cmpr st blk = ref (take (length iv) st) blk @ drop (length iv) st"
    and length_ref: "length st = length iv \<Longrightarrow> length (ref st blk) = length iv"
    and length_iv: "length iv \<le> 8"
    and init_spec: "init c = c\<lparr>ctx_f := ctx_f (init c), ctx_count := 0,
      ctx_state := iv @ drop (length iv) (ctx_state c)\<rparr>"
    and pad_rec: "pad c = (if ctx_count c AND 63 \<noteq> 56 then pad (upd c [0]) else c)"
    and fin_spec: "fin c =
      (let d = upd (pad (upd c [0x80])) (be64 (ctx_count c * 8))
       in d\<lparr>ctx_buf := concat (map be32 (take (length iv) (ctx_state d)))
                        @ drop (4 * length iv) (ctx_buf d)\<rparr>)"
begin

text \<open>Feeding a message in pieces is feeding it at once.\<close>

lemma upd_append: "upd (upd c xs) ys = upd c (xs @ ys)"
  by (simp add: upd_bytewise)

lemma upd_Nil: "upd c [] = c"
  by (simp add: upd_bytewise)

lemma init_absorbed:
  assumes "length (ctx_buf c) = 64" and "length (ctx_state c) = 8"
  shows "absorbed ref iv [] (init c)"
  using assms length_iv by (subst init_spec) (simp add: absorbed_def blocks64_def)

lemma length_foldl_ref: "length (foldl ref iv bs) = length iv"
  by (induction bs rule: rev_induct) (simp_all add: length_ref)

lemma absorb1_absorbed:
  assumes "absorbed ref iv m c"
  shows "absorbed ref iv (m @ [x]) (absorb1 cmpr c x)"
proof -
  define i where "i = length m mod 64"
  define q where "q = length m div 64"
  have len: "length m = 64 * q + i" and i: "i < 64" by (simp_all add: q_def i_def)
  from assms have c: "ctx_count c = of_nat (length m)" "length (ctx_buf c) = 64"
      "length (ctx_state c) = 8" "take i (ctx_buf c) = drop (64 * q) m"
      "take (length iv) (ctx_state c) = foldl ref iv (blocks64 m)"
    by (simp_all add: absorbed_def i_def q_def)
  have idx: "unat (ctx_count c AND 63) = i"
    by (simp add: c(1) count_and_63 i_def)
  have front: "take (Suc i) ((ctx_buf c)[i := x]) = drop (64 * q) m @ [x]"
    using i c(2,4) by (simp add: take_Suc_conv_app_nth)
  show ?thesis
  proof (cases "i = 63")
    case True
    have blk: "(ctx_buf c)[i := x] = drop (64 * q) m @ [x]"
      using front True c(2) by simp
    have "cmpr (ctx_state c) ((ctx_buf c)[i := x]) =
        ref (foldl ref iv (blocks64 m)) (drop (64 * q) m @ [x]) @ drop (length iv) (ctx_state c)"
      using cmpr_ref [of "ctx_state c" "(ctx_buf c)[i := x]"] c(2,3,5) blk by (metis length_list_update)
    moreover have "blocks64 (m @ [x]) = blocks64 m @ [drop (64 * q) m @ [x]]"
      using True by (simp add: blocks64_snoc i_def q_def)
    moreover have "length (ref (foldl ref iv (blocks64 m)) (drop (64 * q) m @ [x])) = length iv"
      by (simp add: length_ref length_foldl_ref)
    moreover have "Suc (length m) mod 64 = 0" "Suc (length m) div 64 = Suc q"
      using True by (simp_all add: mod_Suc div_Suc i_def q_def)
    moreover have "absorb1 cmpr c x = c\<lparr>ctx_count := ctx_count c + 1, ctx_buf := (ctx_buf c)[i := x],
        ctx_state := cmpr (ctx_state c) ((ctx_buf c)[i := x])\<rparr>"
      using idx True by (simp add: absorb1_def Let_def)
    moreover have "length m = 64 * q + 63" using len True by simp
    ultimately show ?thesis
      using c(1,2,3) length_iv by (simp add: absorbed_def)
  next
    case False
    have "Suc (length m) mod 64 = Suc i" "Suc (length m) div 64 = q"
      using False by (simp_all add: mod_Suc div_Suc i_def q_def)
    moreover have "blocks64 (m @ [x]) = blocks64 m"
      using False by (simp add: blocks64_snoc i_def)
    moreover have "absorb1 cmpr c x = c\<lparr>ctx_count := ctx_count c + 1, ctx_buf := (ctx_buf c)[i := x]\<rparr>"
      using idx False by (simp add: absorb1_def Let_def)
    moreover have "64 * q \<le> length m" using len by simp
    ultimately show ?thesis
      using c(1,2,3,5) front by (simp add: absorbed_def)
  qed
qed

lemma upd_absorbed: "absorbed ref iv m c \<Longrightarrow> absorbed ref iv (m @ xs) (upd c xs)"
proof (induction xs arbitrary: m c)
  case (Cons x xs)
  have "absorbed ref iv ((m @ [x]) @ xs) (upd (absorb1 cmpr c x) xs)"
    using Cons.prems by (intro Cons.IH absorb1_absorbed)
  then show ?case by (simp add: upd_bytewise)
qed (simp add: upd_bytewise)

text \<open>The padding loop appends zeros until 56 bytes of the last block are used.\<close>

lemma pad_absorbed:
  assumes "absorbed ref iv m c"
  shows "absorbed ref iv (m @ replicate (pad_len 64 (length m + 8)) 0) (pad c)"
  using assms
proof (induction "pad_len 64 (length m + 8)" arbitrary: m c)
  case 0
  have "unat (ctx_count c AND 63) = length m mod 64"
    using "0.prems" by (simp add: absorbed_def count_and_63)
  moreover have "length m mod 64 = 56"
    using "0.hyps" mod_less_divisor [of 64 "length m"] by (simp add: pad_len_8 split: if_splits)
  ultimately have "unat (ctx_count c AND 63) = unat (56 :: u64)" by simp
  then have "ctx_count c AND 63 = 56" by (simp only: word_unat_eq_iff)
  then show ?case using "0" by (subst pad_rec) simp
next
  case (Suc n)
  have cnt: "unat (ctx_count c AND 63) = length m mod 64"
    using Suc.prems by (simp add: absorbed_def count_and_63)
  have "length m mod 64 \<noteq> 56"
    using Suc.hyps(2) by (auto simp: pad_len_8)
  with cnt have "ctx_count c AND 63 \<noteq> 56" by auto
  then have step: "pad c = pad (upd c [0])" by (subst pad_rec) simp
  have "n = pad_len 64 (length (m @ [0 :: u8]) + 8)"
    using Suc.hyps(2) \<open>length m mod 64 \<noteq> 56\<close>
    by (simp add: pad_len_8 [of "length m"] pad_len_8 [of "Suc (length m)", simplified] mod_Suc
          split: if_splits; linarith)
  moreover have "absorbed ref iv (m @ [0]) (upd c [0])"
    using Suc.prems by (rule upd_absorbed)
  ultimately have "absorbed ref iv ((m @ [0]) @ replicate n 0) (pad (upd c [0]))"
    using Suc.hyps(1) by metis
  then show ?case
    by (simp add: step flip: Suc.hyps(2))
qed

lemma fin_digest:
  assumes "absorbed ref iv m c"
  shows "take (4 * length iv) (ctx_buf (fin c)) = md_digest ref iv m"
    and "length (ctx_buf (fin c)) = 64"
proof -
  define d where "d = upd (pad (upd c [0x80])) (be64 (ctx_count c * 8))"
  have "absorbed ref iv (m @ [0x80]) (upd c [0x80])"
    using assms by (rule upd_absorbed)
  from pad_absorbed [OF this]
  have "absorbed ref iv ((m @ [0x80]) @ replicate (pad_len 64 (length m + 9)) 0)
      (pad (upd c [0x80]))" by (simp add: add.commute)
  from upd_absorbed [OF this, of "be64 (ctx_count c * 8)"]
  have d: "absorbed ref iv (md_pad m) d"
    using assms by (simp add: absorbed_def md_pad_def d_def mult.commute)
  have len: "length (concat (map be32 (foldl ref iv bs))) = 4 * length iv" for bs
    by (simp add: length_concat o_def sum_list_triv length_foldl_ref)
  from d have out: "ctx_buf (fin c) = md_digest ref iv m @ drop (4 * length iv) (ctx_buf d)"
    by (subst fin_spec) (simp add: d_def [symmetric] absorbed_def md_digest_def)
  show "take (4 * length iv) (ctx_buf (fin c)) = md_digest ref iv m"
    using len by (simp add: out md_digest_def)
  show "length (ctx_buf (fin c)) = 64"
    using d length_iv len by (simp add: out absorbed_def md_digest_def)
qed

lemma hash_digest:
  assumes "length (ctx_buf c) = 64" and "length (ctx_state c) = 8"
  shows "take (4 * length iv) (ctx_buf (fin (upd (init c) m))) = md_digest ref iv m"
  using fin_digest(1) [OF upd_absorbed [OF init_absorbed [OF assms]], of m] by simp

lemma length_md_digest: "length (md_digest ref iv m) = 4 * length iv"
  by (simp add: md_digest_def length_concat o_def sum_list_triv length_foldl_ref)

end


section \<open>The standard's compression functions\<close>

text \<open>
  FIPS 180-4, sections 4.1.1 and 6.1.2 (SHA-1) and 4.1.2 and 6.2.2 (SHA-256): the message
  schedule as a function of the word index and the rotations as word rotations. The code
  computes the schedule in an array and uses cheaper forms of the choice and majority functions.
\<close>

function fips_sha1_W :: "bytes \<Rightarrow> nat \<Rightarrow> u32" where
  "fips_sha1_W blk t =
     (if t < 16 then be_word (blk ! (4 * t)) (blk ! (4 * t + 1)) (blk ! (4 * t + 2)) (blk ! (4 * t + 3))
      else word_rotl 1 (fips_sha1_W blk (t - 3) XOR fips_sha1_W blk (t - 8)
                          XOR fips_sha1_W blk (t - 14) XOR fips_sha1_W blk (t - 16)))"
  by pat_completeness auto
termination
  by (relation "measure snd") auto

declare fips_sha1_W.simps [simp del]

definition fips_sha1_f :: "nat \<Rightarrow> u32 \<Rightarrow> u32 \<Rightarrow> u32 \<Rightarrow> u32" where
  "fips_sha1_f t x y z =
     (if t < 20 then (x AND y) XOR (NOT x AND z)
      else if t < 40 then x XOR y XOR z
      else if t < 60 then (x AND y) XOR (x AND z) XOR (y AND z)
      else x XOR y XOR z)"

definition fips_sha1_K :: "nat \<Rightarrow> u32" where
  "fips_sha1_K t =
     (if t < 20 then 0x5A827999 else if t < 40 then 0x6ED9EBA1
      else if t < 60 then 0x8F1BBCDC else 0xCA62C1D6)"

definition fips_sha1_step ::
  "bytes \<Rightarrow> nat \<Rightarrow> u32 \<times> u32 \<times> u32 \<times> u32 \<times> u32 \<Rightarrow> u32 \<times> u32 \<times> u32 \<times> u32 \<times> u32" where
  "fips_sha1_step blk t = (\<lambda>(a, b, c, d, e).
     (word_rotl 5 a + fips_sha1_f t b c d + e + fips_sha1_K t + fips_sha1_W blk t,
      a, word_rotl 30 b, c, d))"

definition fips_sha1_compress :: "u32 list \<Rightarrow> bytes \<Rightarrow> u32 list" where
  "fips_sha1_compress H blk =
     (case fold (fips_sha1_step blk) [0..<80] (H ! 0, H ! 1, H ! 2, H ! 3, H ! 4) of
        (a, b, c, d, e) \<Rightarrow> [a + H ! 0, b + H ! 1, c + H ! 2, d + H ! 3, e + H ! 4])"

definition fips_sha1_iv :: "u32 list" where
  "fips_sha1_iv = [0x67452301, 0xEFCDAB89, 0x98BADCFE, 0x10325476, 0xC3D2E1F0]"

function fips_sha256_W :: "bytes \<Rightarrow> nat \<Rightarrow> u32" where
  "fips_sha256_W blk t =
     (if t < 16 then be_word (blk ! (4 * t)) (blk ! (4 * t + 1)) (blk ! (4 * t + 2)) (blk ! (4 * t + 3))
      else (let x = fips_sha256_W blk (t - 2); y = fips_sha256_W blk (t - 15)
            in (word_rotr 17 x XOR word_rotr 19 x XOR drop_bit 10 x) + fips_sha256_W blk (t - 7)
               + (word_rotr 7 y XOR word_rotr 18 y XOR drop_bit 3 y) + fips_sha256_W blk (t - 16)))"
  by pat_completeness auto
termination
  by (relation "measure snd") auto

declare fips_sha256_W.simps [simp del]

definition fips_sha256_step ::
  "bytes \<Rightarrow> nat \<Rightarrow> u32 \<times> u32 \<times> u32 \<times> u32 \<times> u32 \<times> u32 \<times> u32 \<times> u32
     \<Rightarrow> u32 \<times> u32 \<times> u32 \<times> u32 \<times> u32 \<times> u32 \<times> u32 \<times> u32" where
  "fips_sha256_step blk t = (\<lambda>(a, b, c, d, e, f, g, h).
     let T1 = h + (word_rotr 6 e XOR word_rotr 11 e XOR word_rotr 25 e)
                + ((e AND f) XOR (NOT e AND g)) + K256 ! t + fips_sha256_W blk t;
         T2 = (word_rotr 2 a XOR word_rotr 13 a XOR word_rotr 22 a)
                + ((a AND b) XOR (a AND c) XOR (b AND c))
     in (T1 + T2, a, b, c, d + T1, e, f, g))"

definition fips_sha256_compress :: "u32 list \<Rightarrow> bytes \<Rightarrow> u32 list" where
  "fips_sha256_compress H blk =
     (case fold (fips_sha256_step blk) [0..<64]
             (H ! 0, H ! 1, H ! 2, H ! 3, H ! 4, H ! 5, H ! 6, H ! 7) of
        (a, b, c, d, e, f, g, h) \<Rightarrow>
          [a + H ! 0, b + H ! 1, c + H ! 2, d + H ! 3, e + H ! 4, f + H ! 5, g + H ! 6, h + H ! 7])"

definition fips_sha256_iv :: "u32 list" where
  "fips_sha256_iv = [0x6a09e667, 0xbb67ae85, 0x3c6ef372, 0xa54ff53a,
                     0x510e527f, 0x9b05688c, 0x1f83d9ab, 0x5be0cd19]"

lemma rol_rotl: "0 < n \<Longrightarrow> n < 32 \<Longrightarrow> rol n v = word_rotl n v"
  unfolding rol_def
  by (rule bit_word_eqI, auto simp: bit_simps bit_word_rotl_iff mod_if)
    (auto simp: add.commute dest: bit_imp_le_length)

lemma ror_rotr: "0 < n \<Longrightarrow> n < 32 \<Longrightarrow> ror v n = word_rotr n v"
  unfolding ror_def
  by (rule bit_word_eqI, auto simp: bit_simps bit_word_rotr_iff mod_if)
    (auto simp: add.commute dest: bit_imp_le_length)

lemma sha1_choice: "D XOR (B AND (C XOR D)) = (B AND C) XOR (NOT B AND (D :: u32))"
  by (rule bit_word_eqI) (auto simp: bit_simps)

lemma sha1_majority:
  "(B AND C) OR (D AND (B OR C)) = (B AND C) XOR (B AND D) XOR (C AND (D :: u32))"
  by (rule bit_word_eqI) (auto simp: bit_simps)

lemma load_words_nth:
  "length blk = 4 * n \<Longrightarrow> t < n \<Longrightarrow>
     length (load_words blk) = n \<and>
     load_words blk ! t =
       be_word (blk ! (4 * t)) (blk ! (4 * t + 1)) (blk ! (4 * t + 2)) (blk ! (4 * t + 3))"
proof (induction blk arbitrary: n t rule: load_words.induct)
  case (1 a b c d p)
  then obtain n' where n': "n = Suc n'" "length p = 4 * n'" by (cases n) auto
  have len: "length (load_words p) = n'"
    using "1.IH" [OF n'(2)] n'(2) by (cases n') auto
  show ?case
  proof (cases t)
    case 0
    then show ?thesis using len n' by simp
  next
    case (Suc t')
    then have "load_words p ! t' =
        be_word (p ! (4 * t')) (p ! (4 * t' + 1)) (p ! (4 * t' + 2)) (p ! (4 * t' + 3))"
      using "1.IH" [OF n'(2)] "1.prems" n' by simp
    then show ?thesis using Suc len n' by (simp add: add.commute)
  qed
qed auto


text \<open>The array the code fills holds the schedule of the standard.\<close>

lemma be32_load_words:
  "length bs = 4 * n \<Longrightarrow> concat (map be32 (load_words bs)) = bs \<and> length (load_words bs) = n"
proof (induction bs arbitrary: n rule: load_words.induct)
  case (1 a b c d p)
  then obtain n' where "n = Suc n'" "length p = 4 * n'" by (cases n) auto
  then show ?case using "1.IH" by simp
qed (auto, arith+)

lemma SHA1_expand_schedule:
  assumes "length W = n" and "16 \<le> n" and "\<And>t. t < n \<Longrightarrow> W ! t = fips_sha1_W blk t"
  shows "t < n + k \<Longrightarrow> SHA1_expand k W ! t = fips_sha1_W blk t"
  using assms
proof (induction k arbitrary: W n t)
  case (Suc k)
  define w where "w = rol 1 (W ! (n - 3) XOR W ! (n - 8) XOR W ! (n - 14) XOR W ! (n - 16))"
  have "w = fips_sha1_W blk n"
    using Suc.prems by (simp add: w_def rol_rotl fips_sha1_W.simps [of blk n])
  then have "(W @ [w]) ! t = fips_sha1_W blk t" if "t < Suc n" for t
    using that Suc.prems by (auto simp: nth_append less_Suc_eq)
  then have "SHA1_expand k (W @ [w]) ! t = fips_sha1_W blk t"
    using Suc.prems by (intro Suc.IH [of t "Suc n"]) auto
  then show ?case using Suc.prems(2) by (simp add: Let_def w_def)
qed auto

lemma SHA256_expand_schedule:
  assumes "length W = n" and "16 \<le> n" and "\<And>t. t < n \<Longrightarrow> W ! t = fips_sha256_W blk t"
  shows "t < n + k \<Longrightarrow> SHA256_expand k W ! t = fips_sha256_W blk t"
  using assms
proof (induction k arbitrary: W n t)
  case (Suc k)
  define w where "w = W ! (n - 16)
      + (ror (W ! (n - 15)) 7 XOR ror (W ! (n - 15)) 18 XOR shr (W ! (n - 15)) 3)
      + W ! (n - 7)
      + (ror (W ! (n - 2)) 17 XOR ror (W ! (n - 2)) 19 XOR shr (W ! (n - 2)) 10)"
  have "w = fips_sha256_W blk n"
    using Suc.prems
    by (simp add: w_def ror_rotr shr_def Let_def fips_sha256_W.simps [of blk n] add.commute add.left_commute)
  then have "(W @ [w]) ! t = fips_sha256_W blk t" if "t < Suc n" for t
    using that Suc.prems by (auto simp: nth_append less_Suc_eq)
  then have "SHA256_expand k (W @ [w]) ! t = fips_sha256_W blk t"
    using Suc.prems by (intro Suc.IH [of t "Suc n"]) auto
  then show ?case using Suc.prems(2) by (simp add: Let_def w_def)
qed auto

lemma SHA1_round_fips:
  "w = fips_sha1_W blk t \<Longrightarrow> SHA1_round t w = fips_sha1_step blk t"
  by (auto simp: SHA1_round_def fips_sha1_step_def fips_sha1_f_def fips_sha1_K_def Let_def
        rol_rotl sha1_choice sha1_majority fun_eq_iff ac_simps)

lemma SHA256_round_fips:
  "w = fips_sha256_W blk t \<Longrightarrow> SHA256_round (K256 ! t) w = fips_sha256_step blk t"
  by (auto simp: SHA256_round_def fips_sha256_step_def Let_def ror_rotr fun_eq_iff ac_simps)

lemma SHA1_compress_fips:
  assumes "length st = 8" and "length blk = 64"
  shows "SHA1_compress st blk = fips_sha1_compress (take 5 st) blk @ drop 5 st"
proof -
  have "SHA1_expand 64 (load_words blk) ! t = fips_sha1_W blk t" if "t < 80" for t
    using assms(2) that load_words_nth [of blk 16] load_words_nth [of blk 16 0]
    by (intro SHA1_expand_schedule [of _ 16]) (auto simp: fips_sha1_W.simps)
  then have "fold (\<lambda>t. SHA1_round t (SHA1_expand 64 (load_words blk) ! t)) [0..<80] s =
      fold (fips_sha1_step blk) [0..<80] s" for s
    by (intro fold_cong) (simp_all add: SHA1_round_fips)
  then show ?thesis
    using assms(1)
    by (simp add: SHA1_compress_def fips_sha1_compress_def Let_def add.commute split: prod.split)
qed

lemma SHA256_compress_fips:
  assumes "length st = 8" and "length blk = 64"
  shows "SHA256_compress st blk = fips_sha256_compress (take 8 st) blk @ drop 8 st"
proof -
  have "SHA256_expand 48 (load_words blk) ! t = fips_sha256_W blk t" if "t < 64" for t
    using assms(2) that load_words_nth [of blk 16] load_words_nth [of blk 16 0]
    by (intro SHA256_expand_schedule [of _ 16]) (auto simp: fips_sha256_W.simps)
  then have "fold (\<lambda>t. SHA256_round (K256 ! t) (SHA256_expand 48 (load_words blk) ! t)) [0..<64] s =
      fold (fips_sha256_step blk) [0..<64] s" for s
    by (intro fold_cong) (simp_all add: SHA256_round_fips)
  then show ?thesis
    using assms(1)
    by (simp add: SHA256_compress_def fips_sha256_compress_def Let_def add.commute split: prod.split)
qed

section \<open>Both hashes are streaming block hashes\<close>

lemma SHA_update_loop_absorb:
  "i = unat (n AND 63) \<Longrightarrow>
     SHA_update_loop i (c\<lparr>ctx_count := n + of_nat (length ps)\<rparr>) ps =
     foldl (absorb1 SHA1_compress) (c\<lparr>ctx_count := n\<rparr>) ps"
proof (induction ps arbitrary: i n c)
  case (Cons p ps)
  let ?b = "(ctx_buf c)[i := p]"
  let ?c' = "if i = 63 then c\<lparr>ctx_buf := ?b, ctx_state := SHA1_compress (ctx_state c) ?b\<rparr>
             else c\<lparr>ctx_buf := ?b\<rparr>"
  have "(if i = 63 then 0 else Suc i) = unat ((n + 1) AND 63)"
    using Cons.prems by (simp add: and_63_Suc)
  then have IH: "SHA_update_loop (if i = 63 then 0 else Suc i)
        (?c'\<lparr>ctx_count := n + 1 + of_nat (length ps)\<rparr>) ps =
      foldl (absorb1 SHA1_compress) (?c'\<lparr>ctx_count := n + 1\<rparr>) ps"
    by (rule Cons.IH)
  have "absorb1 SHA1_compress (c\<lparr>ctx_count := n\<rparr>) p = ?c'\<lparr>ctx_count := n + 1\<rparr>"
    by (simp add: absorb1_def Let_def Cons.prems [symmetric])
  with IH show ?case
    by (cases c; cases "i = 63") (simp_all add: SHA1_Transform_def add.assoc)
qed simp

lemma SHA_update_bytewise: "SHA_update c xs = foldl (absorb1 SHA1_compress) c xs"
  using SHA_update_loop_absorb [where n = "ctx_count c" and c = c and ps = xs] by (simp add: SHA_update_def)

lemma SHA256_update_loop_absorb:
  "i = unat (n AND 63) \<Longrightarrow>
     SHA256_update_loop i (c\<lparr>ctx_count := n + of_nat (length ps)\<rparr>) ps =
     foldl (absorb1 SHA256_compress) (c\<lparr>ctx_count := n\<rparr>) ps"
proof (induction ps arbitrary: i n c)
  case (Cons p ps)
  let ?b = "(ctx_buf c)[i := p]"
  let ?c' = "if i = 63 then c\<lparr>ctx_buf := ?b, ctx_state := SHA256_compress (ctx_state c) ?b\<rparr>
             else c\<lparr>ctx_buf := ?b\<rparr>"
  have "(if i = 63 then 0 else Suc i) = unat ((n + 1) AND 63)"
    using Cons.prems by (simp add: and_63_Suc)
  then have IH: "SHA256_update_loop (if i = 63 then 0 else Suc i)
        (?c'\<lparr>ctx_count := n + 1 + of_nat (length ps)\<rparr>) ps =
      foldl (absorb1 SHA256_compress) (?c'\<lparr>ctx_count := n + 1\<rparr>) ps"
    by (rule Cons.IH)
  have "absorb1 SHA256_compress (c\<lparr>ctx_count := n\<rparr>) p = ?c'\<lparr>ctx_count := n + 1\<rparr>"
    by (simp add: absorb1_def Let_def Cons.prems [symmetric])
  with IH show ?case
    by (cases c; cases "i = 63") (simp_all add: SHA256_Transform_def add.assoc)
qed simp

lemma SHA256_update_bytewise: "SHA256_update c xs = foldl (absorb1 SHA256_compress) c xs"
  using SHA256_update_loop_absorb [where n = "ctx_count c" and c = c and ps = xs] by (simp add: SHA256_update_def)

lemma foldl_as_updates:
  assumes "\<And>c xs. upd c xs = foldl (absorb1 cmpr) c xs"
  shows "fold (\<lambda>i c. upd c [g i]) is c = upd c (map g is)"
  by (induction "is" arbitrary: c) (simp_all add: assms)

lemma length_fips_iv [simp]: "length fips_sha1_iv = 5" "length fips_sha256_iv = 8"
  by (simp_all add: fips_sha1_iv_def fips_sha256_iv_def)

lemma length_fips_compress [simp]:
  "length (fips_sha1_compress H blk) = 5" "length (fips_sha256_compress H blk) = 8"
  by (simp_all add: fips_sha1_compress_def fips_sha256_compress_def split: prod.split)

interpretation sha1: md_hash SHA_init SHA_update SHA_pad_loop SHA_final
  SHA1_compress fips_sha1_compress fips_sha1_iv
proof
  show "SHA_final c =
      (let d = SHA_update (SHA_pad_loop (SHA_update c [0x80])) (be64 (ctx_count c * 8))
       in d\<lparr>ctx_buf := concat (map be32 (take (length fips_sha1_iv) (ctx_state d)))
                        @ drop (4 * length fips_sha1_iv) (ctx_buf d)\<rparr>)" for c
    by (simp add: SHA_final_def SHA_len_loop_def be64_def Let_def
          foldl_as_updates [where upd = SHA_update, OF SHA_update_bytewise])
qed (simp_all add: SHA_update_bytewise SHA1_compress_fips SHA_init_def fips_sha1_iv_def [symmetric]
       SHA_pad_loop.simps [symmetric])

interpretation sha256: md_hash SHA256_init SHA256_update SHA256_pad_loop SHA256_final
  SHA256_compress fips_sha256_compress fips_sha256_iv
proof
  show "SHA256_final c =
      (let d = SHA256_update (SHA256_pad_loop (SHA256_update c [0x80])) (be64 (ctx_count c * 8))
       in d\<lparr>ctx_buf := concat (map be32 (take (length fips_sha256_iv) (ctx_state d)))
                        @ drop (4 * length fips_sha256_iv) (ctx_buf d)\<rparr>)" for c
    by (simp add: SHA256_final_def SHA256_len_loop_def be64_def Let_def
          foldl_as_updates [where upd = SHA256_update, OF SHA256_update_bytewise])
qed (simp_all add: SHA256_update_bytewise SHA256_compress_fips SHA256_init_def
       fips_sha256_iv_def [symmetric] SHA256_pad_loop.simps [symmetric])

section \<open>The digests\<close>

lemma absorb1_f [simp]: "ctx_f (absorb1 cmpr c x) = ctx_f c"
  by (simp add: absorb1_def Let_def)

lemma foldl_absorb1_f: "ctx_f (foldl (absorb1 cmpr) c xs) = ctx_f c"
  by (induction xs arbitrary: c) simp_all

lemma SHA_update_f [simp]: "ctx_f (SHA_update c xs) = ctx_f c" "ctx_f (SHA256_update c xs) = ctx_f c"
  by (simp_all add: SHA_update_bytewise SHA256_update_bytewise foldl_absorb1_f)

lemma init_f [simp]: "ctx_f (SHA_init c) = SHA_VTAB" "ctx_f (SHA256_init c) = SHA256_VTAB"
  by (simp_all add: SHA_init_def SHA256_init_def)

text \<open>Updating through the table piece by piece is one update with the whole message.\<close>

lemma HASH_update_pieces:
  "ctx_f c = SHA_VTAB \<Longrightarrow> fold (\<lambda>d c. HASH_update c d) ds c = SHA_update c (concat ds)"
  "ctx_f c = SHA256_VTAB \<Longrightarrow> fold (\<lambda>d c. HASH_update c d) ds c = SHA256_update c (concat ds)"
  by (induction ds arbitrary: c)
    (simp_all add: HASH_update_def sha1.upd_Nil sha1.upd_append sha256.upd_Nil sha256.upd_append)

definition demo_ctx :: hash_ctx where
  "demo_ctx = \<lparr>ctx_f = SHA_VTAB, ctx_count = 0, ctx_buf = replicate 64 0, ctx_state = replicate 8 0\<rparr>"

text \<open>
  C5. \<open>SHA_hash\<close> is the SHA-1 of FIPS 180-4, whatever the uninitialised local context and the
  digest buffer held: the standard's padding, block split, message schedule, round function and
  initial value, written big-endian over the first twenty bytes of the caller's buffer.
\<close>

theorem SHA_hash_fips:
  assumes "length (ctx_buf ctx0) = 64" and "length (ctx_state ctx0) = 8"
  shows "SHA_hash ctx0 data digest =
    md_digest fips_sha1_compress fips_sha1_iv data @ drop SHA_DIGEST_SIZE digest"
  using sha1.hash_digest [OF assms, of data] by (simp add: SHA_hash_def SHA_DIGEST_SIZE_def)

theorem SHA_hash_fips_witness:
  "SHA_hash demo_ctx [0x61, 0x62, 0x63] (replicate 20 0) =
    md_digest fips_sha1_compress fips_sha1_iv [0x61, 0x62, 0x63]"
  using SHA_hash_fips [of demo_ctx "[0x61, 0x62, 0x63]" "replicate 20 0"]
  by (simp add: demo_ctx_def SHA_DIGEST_SIZE_def)



text \<open>
  C7. Streaming: however a message is cut into pieces for \<open>HASH_update\<close>, the first
  \<open>HASH_size\<close> bytes \<open>HASH_final\<close> leaves in the buffer are the digest of the whole message, with
  the algorithm the context was initialised for.
\<close>

theorem HASH_streaming:
  assumes "length (ctx_buf ctx0) = 64" and "length (ctx_state ctx0) = 8"
    and "ctx = SHA_init ctx0 \<or> ctx = SHA256_init ctx0"
    and "ctx' = fold (\<lambda>d c. HASH_update c d) ds ctx"
  shows "take (HASH_size ctx') (ctx_buf (HASH_final ctx')) =
    (case ctx_f ctx of
       SHA_VTAB \<Rightarrow> md_digest fips_sha1_compress fips_sha1_iv (concat ds)
     | SHA256_VTAB \<Rightarrow> md_digest fips_sha256_compress fips_sha256_iv (concat ds))"
  using assms(3)
proof
  assume c: "ctx = SHA_init ctx0"
  then have "ctx' = SHA_update (SHA_init ctx0) (concat ds)"
    using assms(4) by (simp add: HASH_update_pieces)
  then show ?thesis
    using sha1.hash_digest [OF assms(1,2), of "concat ds"] c
    by (simp add: HASH_final_def HASH_size_def SHA_DIGEST_SIZE_def)
next
  assume c: "ctx = SHA256_init ctx0"
  then have "ctx' = SHA256_update (SHA256_init ctx0) (concat ds)"
    using assms(4) by (simp add: HASH_update_pieces)
  then show ?thesis
    using sha256.hash_digest [OF assms(1,2), of "concat ds"] c
    by (simp add: HASH_final_def HASH_size_def SHA256_DIGEST_SIZE_def)
qed

theorem HASH_streaming_witness:
  "take 32 (ctx_buf (HASH_final (HASH_update (HASH_update (SHA256_init demo_ctx) [1]) [2, 3]))) =
    md_digest fips_sha256_compress fips_sha256_iv [1, 2, 3]"
  using HASH_streaming [of demo_ctx "SHA256_init demo_ctx" _ "[[1], [2, 3]]", OF _ _ _ refl]
  by (simp add: demo_ctx_def HASH_size_def SHA256_DIGEST_SIZE_def HASH_update_def)

end
