(* ===== verification/Bootimg.thy ===== *)
theory Bootimg
  imports Cstd Hash
begin

text \<open>
  \<open>mkbootimg/bootimg.h\<close>, the packed image header and its layout, and the file operations that
  \<open>mkbootimg.c\<close> and \<open>unmkbootimg.c\<close> share. The host is little-endian, so a \<open>uint32_t\<close> of the
  header is four bytes, least significant first.
\<close>

section \<open>The image header (bootimg.h)\<close>

definition BOOT_MAGIC :: bytes where "BOOT_MAGIC = cs ''ANDROID!''"
definition BOOT_MAGIC_SIZE :: nat where "BOOT_MAGIC_SIZE = 8"
definition BOOT_NAME_SIZE :: nat where "BOOT_NAME_SIZE = 16"
definition BOOT_ARGS_SIZE :: nat where "BOOT_ARGS_SIZE = 512"
definition BOOT_EXTRA_ARGS_SIZE :: nat where "BOOT_EXTRA_ARGS_SIZE = 1024"

lemmas boot_sizes =
  BOOT_MAGIC_SIZE_def BOOT_NAME_SIZE_def BOOT_ARGS_SIZE_def BOOT_EXTRA_ARGS_SIZE_def

text \<open>The field \<open>id[8]\<close> is only ever written and read as raw bytes, so it is its 32 bytes.\<close>

record boot_img_hdr =
  hdr_magic :: bytes
  kernel_size :: u32
  kernel_addr :: u32
  ramdisk_size :: u32
  ramdisk_addr :: u32
  second_size :: u32
  second_addr :: u32
  tags_addr :: u32
  page_size :: u32
  hdr_unused :: u32
  os_version :: u32
  hdr_name :: bytes
  hdr_cmdline :: bytes
  hdr_id :: bytes
  extra_cmdline :: bytes

text \<open>\<open>memset(&hdr, 0, sizeof(hdr))\<close>.\<close>

definition zero_hdr :: boot_img_hdr where
  "zero_hdr = \<lparr>hdr_magic = replicate BOOT_MAGIC_SIZE 0, kernel_size = 0, kernel_addr = 0,
     ramdisk_size = 0, ramdisk_addr = 0, second_size = 0, second_addr = 0, tags_addr = 0,
     page_size = 0, hdr_unused = 0, os_version = 0, hdr_name = replicate BOOT_NAME_SIZE 0,
     hdr_cmdline = replicate BOOT_ARGS_SIZE 0, hdr_id = replicate 32 0,
     extra_cmdline = replicate BOOT_EXTRA_ARGS_SIZE 0\<rparr>"

text \<open>The memory of the packed structure.\<close>

definition hdr_bytes :: "boot_img_hdr \<Rightarrow> bytes" where
  "hdr_bytes h =
     hdr_magic h @ le32 (kernel_size h) @ le32 (kernel_addr h) @ le32 (ramdisk_size h)
     @ le32 (ramdisk_addr h) @ le32 (second_size h) @ le32 (second_addr h) @ le32 (tags_addr h)
     @ le32 (page_size h) @ le32 (hdr_unused h) @ le32 (os_version h) @ hdr_name h
     @ hdr_cmdline h @ hdr_id h @ extra_cmdline h"

definition sizeof_hdr :: nat where
  "sizeof_hdr = BOOT_MAGIC_SIZE + 10 * 4 + BOOT_NAME_SIZE + BOOT_ARGS_SIZE + 8 * 4
                  + BOOT_EXTRA_ARGS_SIZE"

definition hdr_wf :: "boot_img_hdr \<Rightarrow> bool" where
  "hdr_wf h \<longleftrightarrow>
     length (hdr_magic h) = BOOT_MAGIC_SIZE \<and> length (hdr_name h) = BOOT_NAME_SIZE \<and>
     length (hdr_cmdline h) = BOOT_ARGS_SIZE \<and> length (hdr_id h) = 32 \<and>
     length (extra_cmdline h) = BOOT_EXTRA_ARGS_SIZE"

text \<open>\<open>(boot_img_hdr *)file_data\<close>: the fields read at their offsets of the packed structure.\<close>

definition hdr_of_bytes :: "bytes \<Rightarrow> boot_img_hdr" where
  "hdr_of_bytes d = \<lparr>hdr_magic = take 8 d, kernel_size = of_le32 (drop 8 d),
     kernel_addr = of_le32 (drop 12 d), ramdisk_size = of_le32 (drop 16 d),
     ramdisk_addr = of_le32 (drop 20 d), second_size = of_le32 (drop 24 d),
     second_addr = of_le32 (drop 28 d), tags_addr = of_le32 (drop 32 d),
     page_size = of_le32 (drop 36 d), hdr_unused = of_le32 (drop 40 d),
     os_version = of_le32 (drop 44 d), hdr_name = take 16 (drop 48 d),
     hdr_cmdline = take 512 (drop 64 d), hdr_id = take 32 (drop 576 d),
     extra_cmdline = take 1024 (drop 608 d)\<rparr>"

lemma sizeof_hdr_eq [simp]: "sizeof_hdr = 1632"
  by (simp add: sizeof_hdr_def boot_sizes)

lemma length_hdr_bytes [layout_simps]: "hdr_wf h \<Longrightarrow> length (hdr_bytes h) = sizeof_hdr"
  by (simp add: hdr_bytes_def hdr_wf_def boot_sizes)

lemma hdr_of_bytes_hdr_bytes:
  assumes "hdr_wf h"
  shows "hdr_of_bytes (hdr_bytes h @ rest) = h"
  using assms by (simp add: hdr_of_bytes_def hdr_bytes_def hdr_wf_def boot_sizes)

section \<open>Files\<close>

text \<open>
  The part of the operating system the image tools use: the contents of files, which paths can be
  created, and how many more bytes the disk takes before \<open>fwrite\<close> comes back short. Allocation is
  taken to succeed; \<open>fwrite\<close> reaches the file at once.
\<close>

record os_state =
  files :: "string \<Rightarrow> bytes option"
  creatable :: "string \<Rightarrow> bool"
  capacity :: nat

text \<open>
  \<open>load_file\<close>: \<open>sz\<close> is an \<open>int\<close> that receives \<open>ftell\<close>'s \<open>long\<close>, so a file of 2 GiB or more is
  refused (negative size) or, beyond 4 GiB, read in part.
\<close>

definition load_file :: "os_state \<Rightarrow> string \<Rightarrow> (bytes \<times> u32) option" where
  "load_file os fn =
     (case files os fn of
        None \<Rightarrow> None
      | Some content \<Rightarrow>
          (let sz = (of_nat (length content) :: u32) in
           if sint sz < 0 then None
           else (let data = take (unat sz) content in
                 if length data \<noteq> unat sz then None else Some (data, sz))))"

text \<open>\<open>fopen(fn, "wb")\<close> and \<open>fwrite\<close>, which reports how many bytes went in.\<close>

definition fopen_wb :: "os_state \<Rightarrow> string \<Rightarrow> os_state option" where
  "fopen_wb os fn = (if creatable os fn then Some (os\<lparr>files := (files os)(fn \<mapsto> [])\<rparr>) else None)"

definition fwrite :: "os_state \<Rightarrow> string \<Rightarrow> bytes \<Rightarrow> nat \<times> os_state" where
  "fwrite os fn data =
     (let n = min (length data) (capacity os);
          old = (case files os fn of None \<Rightarrow> [] | Some c \<Rightarrow> c)
      in (n, os\<lparr>files := (files os)(fn \<mapsto> old @ take n data), capacity := capacity os - n\<rparr>))"

definition unlink :: "os_state \<Rightarrow> string \<Rightarrow> os_state" where
  "unlink os fn = os\<lparr>files := (files os)(fn := None)\<rparr>"

lemma fwrite_room:
  assumes "length data \<le> capacity os" and "files os fn = Some old"
  shows "fwrite os fn data =
     (length data, os\<lparr>files := (files os)(fn \<mapsto> old @ data), capacity := capacity os - length data\<rparr>)"
  using assms by (simp add: fwrite_def Let_def min_def)

lemma load_file_small:
  assumes "files os fn = Some d" and "length d < 2 ^ 31"
  shows "load_file os fn = Some (d, of_nat (length d))"
proof -
  have u: "unat (of_nat (length d) :: u32) = length d"
    using assms(2) by (simp add: unat_of_nat)
  have "sint (of_nat (length d) :: u32) = int (length d)"
    using assms(2) uint_nat [of "of_nat (length d) :: u32"] by (simp only: sint_u32 u) simp
  then show ?thesis
    using assms u by (simp add: load_file_def Let_def)
qed

lemma load_file_size:
  "load_file os fn = Some (d, sz) \<Longrightarrow> length d = unat sz \<and> unat sz < 2 ^ 31"
proof -
  assume a: "load_file os fn = Some (d, sz)"
  then have s: "0 \<le> sint sz" and l: "length d = unat sz"
    by (auto simp: load_file_def Let_def split: option.splits if_splits)
  have "unat sz < 2 ^ 31"
    using s uint_lt2p [of sz] uint_less_iff [of sz "2 ^ 31"] by (auto simp: sint_u32 split: if_splits)
  with l show ?thesis by simp
qed

end
