(* ===== verification/Mkbootimg.thy ===== *)
theory Mkbootimg
  imports Bootimg
begin

text \<open>
  \<open>mkbootimg/mkbootimg.c\<close>: option parsing, the header, the image identifier and the write
  sequence with its failure path. The lemmas describe the image file that a successful run leaves
  behind and what each failing run leaves.
\<close>

section \<open>Options\<close>

record mk_opts =
  kernel_fn :: "string option"
  ramdisk_fn :: "string option"
  second_fn :: "string option"
  bootimg_fn :: "string option"
  opt_cmdline :: string
  opt_board :: string
  opt_pagesize :: u32
  opt_base :: u32
  kernel_offset :: u32
  ramdisk_offset :: u32
  second_offset :: u32
  tags_offset :: u32
  get_id :: bool

definition default_opts :: mk_opts where
  "default_opts = \<lparr>kernel_fn = None, ramdisk_fn = None, second_fn = None, bootimg_fn = None,
     opt_cmdline = '''', opt_board = '''', opt_pagesize = 2048, opt_base = 0x10000000,
     kernel_offset = 0x00008000, ramdisk_offset = 0x01000000, second_offset = 0x00f00000,
     tags_offset = 0x00000100, get_id = False\<rparr>"

text \<open>Every early return of \<open>main\<close>.\<close>

datatype mk_error =
    MkUsage | UnsupportedPageSize u32 | NoOutput | NoKernel | NoRamdisk | BoardTooLarge
  | CmdlineTooLarge | NoLoadKernel | NoLoadRamdisk | NoLoadSecond | CannotCreate | WriteFailed

definition mk_exit_code :: "mk_error \<Rightarrow> int" where
  "mk_exit_code e = (case e of UnsupportedPageSize _ \<Rightarrow> - 1 | _ \<Rightarrow> 1)"

definition strtoul32 :: "string \<Rightarrow> nat \<Rightarrow> u32" where
  "strtoul32 s bas = ucast (strtoul s bas)"

text \<open>One option with its value, in the order of the comparisons.\<close>

definition mk_option :: "mk_opts \<Rightarrow> string \<Rightarrow> string \<Rightarrow> mk_error + mk_opts" where
  "mk_option mo arg val =
     (if arg = ''--output'' \<or> arg = ''-o'' then Inr (mo\<lparr>bootimg_fn := Some val\<rparr>)
      else if arg = ''--kernel'' then Inr (mo\<lparr>kernel_fn := Some val\<rparr>)
      else if arg = ''--ramdisk'' then Inr (mo\<lparr>ramdisk_fn := Some val\<rparr>)
      else if arg = ''--second'' then Inr (mo\<lparr>second_fn := Some val\<rparr>)
      else if arg = ''--cmdline'' then Inr (mo\<lparr>opt_cmdline := val\<rparr>)
      else if arg = ''--base'' then Inr (mo\<lparr>opt_base := strtoul32 val 16\<rparr>)
      else if arg = ''--kernel_offset'' then Inr (mo\<lparr>kernel_offset := strtoul32 val 16\<rparr>)
      else if arg = ''--ramdisk_offset'' then Inr (mo\<lparr>ramdisk_offset := strtoul32 val 16\<rparr>)
      else if arg = ''--second_offset'' then Inr (mo\<lparr>second_offset := strtoul32 val 16\<rparr>)
      else if arg = ''--tags_offset'' then Inr (mo\<lparr>tags_offset := strtoul32 val 16\<rparr>)
      else if arg = ''--board'' then Inr (mo\<lparr>opt_board := val\<rparr>)
      else if arg = ''--pagesize'' then
        (let p = strtoul32 val 10 in
         if p \<noteq> 2048 \<and> p \<noteq> 4096 \<and> p \<noteq> 8192 \<and> p \<noteq> 16384 then Inl (UnsupportedPageSize p)
         else Inr (mo\<lparr>opt_pagesize := p\<rparr>))
      else Inl MkUsage)"

fun mk_parse :: "mk_opts \<Rightarrow> string list \<Rightarrow> mk_error + mk_opts" where
  "mk_parse mo [] = Inr mo"
| "mk_parse mo (arg # rest) =
     (if arg = ''--id'' then mk_parse (mo\<lparr>get_id := True\<rparr>) rest
      else (case rest of
              [] \<Rightarrow> Inl MkUsage
            | val # rest' \<Rightarrow>
                (case mk_option mo arg val of Inl e \<Rightarrow> Inl e | Inr mo' \<Rightarrow> mk_parse mo' rest')))"

section \<open>The header\<close>

definition fill_cmdline :: "boot_img_hdr \<Rightarrow> string \<Rightarrow> mk_error + boot_img_hdr" where
  "fill_cmdline hdr cmdline =
     (let cmdlen = length cmdline in
      if cmdlen > BOOT_ARGS_SIZE + BOOT_EXTRA_ARGS_SIZE - 2 then Inl CmdlineTooLarge
      else
        (let c = strncpy (hdr_cmdline hdr) cmdline (BOOT_ARGS_SIZE - 1);
             hdr = hdr\<lparr>hdr_cmdline := c[BOOT_ARGS_SIZE - 1 := 0]\<rparr>
         in Inr (if cmdlen \<ge> BOOT_ARGS_SIZE - 1
                 then hdr\<lparr>extra_cmdline := strncpy (extra_cmdline hdr)
                             (drop (BOOT_ARGS_SIZE - 1) cmdline) BOOT_EXTRA_ARGS_SIZE\<rparr>
                 else hdr)))"

text \<open>Everything \<open>main\<close> puts into the header before it reads the images.\<close>

definition mk_header :: "mk_opts \<Rightarrow> mk_error + boot_img_hdr" where
  "mk_header mo =
     (let hdr = zero_hdr\<lparr>page_size := opt_pagesize mo,
                kernel_addr := opt_base mo + kernel_offset mo,
                ramdisk_addr := opt_base mo + ramdisk_offset mo,
                second_addr := opt_base mo + second_offset mo,
                tags_addr := opt_base mo + tags_offset mo\<rparr>
      in if bootimg_fn mo = None then Inl NoOutput
         else if kernel_fn mo = None then Inl NoKernel
         else if ramdisk_fn mo = None then Inl NoRamdisk
         else if length (opt_board mo) \<ge> BOOT_NAME_SIZE then Inl BoardTooLarge
         else
           (let hdr = hdr\<lparr>hdr_name := cs (opt_board mo) @ [0] @ drop (length (opt_board mo) + 1) (hdr_name hdr),
                          hdr_magic := BOOT_MAGIC\<rparr>
            in fill_cmdline hdr (opt_cmdline mo)))"

section \<open>Loading the images\<close>

record mk_images =
  kernel_data :: bytes
  ramdisk_data :: bytes
  second_data :: "bytes option"

definition mk_load :: "os_state \<Rightarrow> mk_opts \<Rightarrow> boot_img_hdr \<Rightarrow> mk_error + (boot_img_hdr \<times> mk_images)" where
  "mk_load os mo hdr =
     (case load_file os (the (kernel_fn mo)) of
        None \<Rightarrow> Inl NoLoadKernel
      | Some (k, ksz) \<Rightarrow>
          (case (if the (ramdisk_fn mo) = ''NONE'' then Some ([], 0)
                 else load_file os (the (ramdisk_fn mo))) of
             None \<Rightarrow> Inl NoLoadRamdisk
           | Some (r, rsz) \<Rightarrow>
               (case second_fn mo of
                  None \<Rightarrow> Inr (hdr\<lparr>kernel_size := ksz, ramdisk_size := rsz\<rparr>,
                              \<lparr>kernel_data = k, ramdisk_data = r, second_data = None\<rparr>)
                | Some fn \<Rightarrow>
                    (case load_file os fn of
                       None \<Rightarrow> Inl NoLoadSecond
                     | Some (s, ssz) \<Rightarrow>
                         Inr (hdr\<lparr>kernel_size := ksz, ramdisk_size := rsz, second_size := ssz\<rparr>,
                              \<lparr>kernel_data = k, ramdisk_data = r, second_data = Some s\<rparr>)))))"

definition opt_bytes :: "bytes option \<Rightarrow> bytes" where
  "opt_bytes d = (case d of None \<Rightarrow> [] | Some s \<Rightarrow> s)"

text \<open>The hash that tells images apart; \<open>ctx0\<close> is the uninitialised local context.\<close>

definition image_id :: "hash_ctx \<Rightarrow> boot_img_hdr \<Rightarrow> mk_images \<Rightarrow> bytes" where
  "image_id ctx0 hdr im =
     (let ctx = SHA_init ctx0;
          ctx = SHA_update ctx (kernel_data im);
          ctx = SHA_update ctx (le32 (kernel_size hdr));
          ctx = SHA_update ctx (ramdisk_data im);
          ctx = SHA_update ctx (le32 (ramdisk_size hdr));
          ctx = SHA_update ctx (opt_bytes (second_data im));
          ctx = SHA_update ctx (le32 (second_size hdr))
      in take (if SHA_DIGEST_SIZE > 32 then 32 else SHA_DIGEST_SIZE) (ctx_buf (SHA_final ctx)))"

definition set_id :: "hash_ctx \<Rightarrow> boot_img_hdr \<Rightarrow> mk_images \<Rightarrow> boot_img_hdr" where
  "set_id ctx0 hdr im =
     (let d = image_id ctx0 hdr im in hdr\<lparr>hdr_id := d @ drop (length d) (hdr_id hdr)\<rparr>)"

section \<open>Writing\<close>

text \<open>
  A writing step says whether it succeeded; \<open>step_then\<close> is \<open>if(step) goto fail;\<close> followed by
  the rest.
\<close>

type_synonym wstep = "os_state \<Rightarrow> bool \<times> os_state"

definition step_then :: "wstep \<Rightarrow> wstep \<Rightarrow> wstep" where
  "step_then f g os = (case f os of (ok, os') \<Rightarrow> if ok then g os' else (False, os'))"

definition fwrite_all :: "string \<Rightarrow> bytes \<Rightarrow> wstep" where
  "fwrite_all fn data os = (case fwrite os fn data of (n, os') \<Rightarrow> (n = length data, os'))"

definition padding :: bytes where
  "padding = replicate 16384 0"

text \<open>Reading past \<open>padding[16384]\<close> is what \<open>write_padding\<close> would do for a larger page.\<close>

definition padding_count :: "u32 \<Rightarrow> u32 \<Rightarrow> nat" where
  "padding_count pagesize itemsize =
     (let pagemask = pagesize - 1 in
      if itemsize AND pagemask = 0 then 0 else unat (pagesize - (itemsize AND pagemask)))"

definition write_padding :: "string \<Rightarrow> u32 \<Rightarrow> u32 \<Rightarrow> wstep" where
  "write_padding fn pagesize itemsize os =
     (let pagemask = pagesize - 1 in
      if itemsize AND pagemask = 0 then (True, os)
      else fwrite_all fn (take (padding_count pagesize itemsize) padding) os)"

definition write_image :: "string \<Rightarrow> boot_img_hdr \<Rightarrow> mk_images \<Rightarrow> wstep" where
  "write_image fn hdr im =
     step_then (fwrite_all fn (hdr_bytes hdr))
    (step_then (write_padding fn (page_size hdr) (of_nat sizeof_hdr))
    (step_then (fwrite_all fn (kernel_data im))
    (step_then (write_padding fn (page_size hdr) (kernel_size hdr))
    (step_then (fwrite_all fn (ramdisk_data im))
    (step_then (write_padding fn (page_size hdr) (ramdisk_size hdr))
    (case second_data im of
       None \<Rightarrow> (\<lambda>os. (True, os))
     | Some s \<Rightarrow>
         step_then (fwrite_all fn s) (write_padding fn (page_size hdr) (second_size hdr))))))))"

definition print_id :: "bytes \<Rightarrow> string" where
  "print_id d = ''0x'' @ concat (map (\<lambda>b. fmt_0 2 16 (unat b)) d) @ [CHR 0x0A]"

text \<open>\<open>main\<close>: the error or the text printed, and the file system afterwards.\<close>

definition mkbootimg_main ::
  "hash_ctx \<Rightarrow> string list \<Rightarrow> os_state \<Rightarrow> (mk_error + string) \<times> os_state" where
  "mkbootimg_main ctx0 argv os =
     (case mk_parse default_opts argv of
        Inl e \<Rightarrow> (Inl e, os)
      | Inr mo \<Rightarrow>
          (case mk_header mo of
             Inl e \<Rightarrow> (Inl e, os)
           | Inr hdr \<Rightarrow>
               (case mk_load os mo hdr of
                  Inl e \<Rightarrow> (Inl e, os)
                | Inr (hdr, im) \<Rightarrow>
                    (let hdr = set_id ctx0 hdr im; fn = the (bootimg_fn mo) in
                     case fopen_wb os fn of
                       None \<Rightarrow> (Inl CannotCreate, os)
                     | Some os \<Rightarrow>
                         (case write_image fn hdr im os of
                            (False, os) \<Rightarrow> (Inl WriteFailed, unlink os fn)
                          | (True, os) \<Rightarrow> (Inr (if get_id mo then print_id (hdr_id hdr) else []), os))))))"


section \<open>The page sizes\<close>

definition supported_page :: "u32 \<Rightarrow> bool" where
  "supported_page p \<longleftrightarrow> p = 2048 \<or> p = 4096 \<or> p = 8192 \<or> p = 16384"

lemma supported_page_cases:
  assumes "supported_page p"
  obtains k where "11 \<le> k" "k \<le> 14" "unat p = 2 ^ k" "p - 1 = mask k"
proof -
  from assms consider "p = 2048" | "p = 4096" | "p = 8192" | "p = 16384"
    unfolding supported_page_def by blast
  then show thesis
  proof cases
    case 1 then show thesis by (intro that [of 11]) (simp_all add: mask_eq_exp_minus_1)
  next
    case 2 then show thesis by (intro that [of 12]) (simp_all add: mask_eq_exp_minus_1)
  next
    case 3 then show thesis by (intro that [of 13]) (simp_all add: mask_eq_exp_minus_1)
  next
    case 4 then show thesis by (intro that [of 14]) (simp_all add: mask_eq_exp_minus_1)
  qed
qed

lemma supported_page_bounds:
  assumes "supported_page p"
  shows "2048 \<le> unat p" and "unat p \<le> 16384" and "0 < unat p"
  using assms by (auto simp: supported_page_def)

text \<open>The masks of \<open>write_padding\<close> compute the distance to the next page boundary.\<close>

lemma padding_count_pad_len:
  assumes "supported_page p"
  shows "padding_count p n = pad_len (unat p) (unat n)"
proof -
  from assms obtain k where k: "unat p = 2 ^ k" "p - 1 = mask k" "k \<le> 14"
    by (rule supported_page_cases)
  have r: "unat (n AND (p - 1)) = unat n mod 2 ^ k"
    by (simp only: k unat_and_mask)
  show ?thesis
  proof (cases "n AND (p - 1) = 0")
    case True
    then have "unat n mod 2 ^ k = 0" using r by simp
    then show ?thesis using True k by (simp add: padding_count_def pad_len_def)
  next
    case False
    then have "unat n mod 2 ^ k \<noteq> 0" using r by (metis unat_eq_zero)
    moreover have "n AND (p - 1) \<le> p"
      using r k(1) by (simp add: word_le_nat_alt)
    then have "unat (p - (n AND (p - 1))) = 2 ^ k - unat n mod 2 ^ k"
      using r k(1) by (simp only: unat_sub)
    ultimately show ?thesis
      using False k(1) by (simp add: padding_count_def pad_len_def)
  qed
qed

lemma mk_option_page:
  assumes "mk_option mo arg val = Inr mo'" and "supported_page (opt_pagesize mo)"
  shows "supported_page (opt_pagesize mo')"
  using assms unfolding mk_option_def
  by (auto simp: Let_def supported_page_def split: if_splits)

lemma mk_parse_page:
  assumes "mk_parse mo args = Inr mo'" and "supported_page (opt_pagesize mo)"
  shows "supported_page (opt_pagesize mo')"
  using assms
proof (induction mo args rule: mk_parse.induct)
  case (2 mo arg rest)
  then show ?case
    by (auto split: if_splits list.splits sum.splits intro: mk_option_page)
qed simp

section \<open>The write sequence\<close>

text \<open>
  \<open>appends fn d f\<close>: the step \<open>f\<close> adds \<open>d\<close> to the open file \<open>fn\<close> as far as the disk has room, and
  succeeds exactly if all of it fits.
\<close>

definition appends :: "string \<Rightarrow> bytes \<Rightarrow> wstep \<Rightarrow> bool" where
  "appends fn d f \<longleftrightarrow> (\<forall>os old. files os fn = Some old \<longrightarrow>
     f os = (length d \<le> capacity os,
             os\<lparr>files := (files os)(fn \<mapsto> old @ take (capacity os) d),
                capacity := capacity os - length d\<rparr>))"

lemma appendsD:
  "appends fn d f \<Longrightarrow> files os fn = Some old \<Longrightarrow>
     f os = (length d \<le> capacity os,
             os\<lparr>files := (files os)(fn \<mapsto> old @ take (capacity os) d),
                capacity := capacity os - length d\<rparr>)"
  by (simp add: appends_def)

lemma appends_fwrite_all: "appends fn d (fwrite_all fn d)"
proof -
  have "min (length d) c = length d \<longleftrightarrow> length d \<le> c" for c
    by (simp add: min_def)
  moreover have "take (min (length d) c) d = take c d" for c
    by (simp add: min_def)
  moreover have "c - min (length d) c = c - length d" for c
    by (simp add: min_def)
  ultimately show ?thesis
    by (simp add: appends_def fwrite_all_def fwrite_def Let_def)
qed

lemma appends_nothing: "appends fn [] (\<lambda>os. (True, os))"
proof -
  have "os = os\<lparr>files := (files os)(fn \<mapsto> old), capacity := capacity os\<rparr>"
    if "files os fn = Some old" for os :: os_state and old
    using that by (cases os) (simp add: fun_upd_idem)
  then show ?thesis by (simp add: appends_def)
qed

lemma appends_then:
  assumes "appends fn d1 f" and "appends fn d2 g"
  shows "appends fn (d1 @ d2) (step_then f g)"
  unfolding appends_def
proof (intro allI impI)
  fix os :: os_state and old assume "files os fn = Some old"
  from appendsD [OF assms(1) this]
  have f: "f os = (length d1 \<le> capacity os, os\<lparr>files := (files os)(fn \<mapsto> old @ take (capacity os) d1),
      capacity := capacity os - length d1\<rparr>)" .
  show "step_then f g os = (length (d1 @ d2) \<le> capacity os,
      os\<lparr>files := (files os)(fn \<mapsto> old @ take (capacity os) (d1 @ d2)),
         capacity := capacity os - length (d1 @ d2)\<rparr>)"
  proof (cases "length d1 \<le> capacity os")
    case True
    then show ?thesis
      using f appendsD [OF assms(2), of "os\<lparr>files := (files os)(fn \<mapsto> old @ d1),
        capacity := capacity os - length d1\<rparr>" "old @ d1"]
      by (auto simp: step_then_def)
  next
    case False
    then show ?thesis using f by (simp add: step_then_def)
  qed
qed

text \<open>An item followed by zeros up to the page boundary, and the image made of such items.\<close>

definition paged :: "nat \<Rightarrow> bytes \<Rightarrow> bytes" where
  "paged p d = d @ replicate (pad_len p (length d)) 0"

definition boot_image :: "boot_img_hdr \<Rightarrow> mk_images \<Rightarrow> bytes" where
  "boot_image hdr im =
     (let p = unat (page_size hdr)
      in paged p (hdr_bytes hdr) @ paged p (kernel_data im) @ paged p (ramdisk_data im)
         @ (case second_data im of None \<Rightarrow> [] | Some s \<Rightarrow> paged p s))"

lemma length_paged [layout_simps]: "length (paged p d) = round_up p (length d)"
  by (simp add: paged_def round_up_def)

lemma appends_write_padding:
  assumes "supported_page p" and "unat n = len"
  shows "appends fn (replicate (pad_len (unat p) len) 0) (write_padding fn p n)"
proof (cases "n AND (p - 1) = 0")
  case True
  then have "pad_len (unat p) len = 0"
    using padding_count_pad_len [OF assms(1), of n] assms(2) by (simp add: padding_count_def)
  then show ?thesis
    using True appends_nothing [of fn] by (simp add: write_padding_def [abs_def])
next
  case False
  have "pad_len (unat p) len < 16384"
    using pad_len_less [of "unat p" len] supported_page_bounds [OF assms(1)] by linarith
  then have "take (padding_count p n) padding = replicate (pad_len (unat p) len) 0"
    using padding_count_pad_len [OF assms(1), of n] assms(2) by (simp add: padding_def)
  then show ?thesis
    using False appends_fwrite_all [of fn] by (simp add: write_padding_def [abs_def])
qed

lemma appends_item:
  assumes "supported_page p" and "unat n = length d" and "appends fn rest g"
  shows "appends fn (paged (unat p) d @ rest)
           (step_then (fwrite_all fn d) (step_then (write_padding fn p n) g))"
  unfolding paged_def append_assoc
  by (intro appends_then appends_fwrite_all appends_write_padding assms)

lemma appends_last_item:
  assumes "supported_page p" and "unat n = length d"
  shows "appends fn (paged (unat p) d) (step_then (fwrite_all fn d) (write_padding fn p n))"
  unfolding paged_def
  by (intro appends_then appends_fwrite_all appends_write_padding assms)

text \<open>The sizes in the header are those of the data they describe.\<close>

definition sizes_agree :: "boot_img_hdr \<Rightarrow> mk_images \<Rightarrow> bool" where
  "sizes_agree hdr im \<longleftrightarrow>
     length (kernel_data im) = unat (kernel_size hdr) \<and>
     length (ramdisk_data im) = unat (ramdisk_size hdr) \<and>
     length (opt_bytes (second_data im)) = unat (second_size hdr) \<and>
     unat (kernel_size hdr) < 2 ^ 31 \<and> unat (ramdisk_size hdr) < 2 ^ 31 \<and>
     unat (second_size hdr) < 2 ^ 31"

lemma appends_write_image:
  assumes "supported_page (page_size hdr)" and "hdr_wf hdr" and "sizes_agree hdr im"
  shows "appends fn (boot_image hdr im) (write_image fn hdr im)"
proof -
  have hdr: "unat (of_nat sizeof_hdr :: u32) = length (hdr_bytes hdr)"
    using assms(2) by (simp add: length_hdr_bytes)
  have sec: "appends fn (case second_data im of None \<Rightarrow> [] | Some s \<Rightarrow> paged (unat (page_size hdr)) s)
      (case second_data im of None \<Rightarrow> (\<lambda>os. (True, os))
        | Some s \<Rightarrow> step_then (fwrite_all fn s) (write_padding fn (page_size hdr) (second_size hdr)))"
  proof (cases "second_data im")
    case None
    then show ?thesis using appends_nothing by simp
  next
    case (Some s)
    then have "unat (second_size hdr) = length s"
      using assms(3) by (simp add: sizes_agree_def opt_bytes_def)
    then show ?thesis using Some appends_last_item [OF assms(1)] by simp
  qed
  show ?thesis
    unfolding boot_image_def write_image_def Let_def
    using assms(3) by (intro appends_item sec assms(1) hdr) (simp_all add: sizes_agree_def)
qed


section \<open>What the header says\<close>

text \<open>
  The command line fields: the first 511 bytes and a zero, then the rest, so that printing one
  field after the other gives the command line back.
\<close>

definition cmdline_field :: "string \<Rightarrow> bytes" where
  "cmdline_field s = take 511 (cs s) @ replicate (512 - min (length s) 511) 0"

definition extra_field :: "string \<Rightarrow> bytes" where
  "extra_field s = drop 511 (cs s) @ replicate (1024 - (length s - 511)) 0"

lemma length_cmdline_field [simp]: "length (cmdline_field s) = 512"
  by (simp add: cmdline_field_def min_def)

lemma length_extra_field: "length s \<le> 1534 \<Longrightarrow> length (extra_field s) = 1024"
  by (simp add: extra_field_def)

lemma take_cs: "take n (cs s) = cs (take n s)" and drop_cs: "drop n (cs s) = cs (drop n s)"
  by (simp_all add: cs_def take_map drop_map)

lemma strncpy_cmdline:
  assumes "length d = 512"
  shows "(strncpy d s 511)[511 := 0] = cmdline_field s"
proof -
  from assms have "length (drop 511 d) = Suc 0" by simp
  then obtain x where "drop 511 d = [x]" by (metis length_0_conv length_Suc_conv)
  then have "(strncpy d s 511)[511 := 0] = take 511 (cs s) @ replicate (511 - length s) 0 @ [0]"
    by (simp add: strncpy_def list_update_append min_def)
  also have "replicate (511 - length s) 0 @ [0] = replicate (512 - min (length s) 511) (0 :: u8)"
    by (auto simp: replicate_append_same min_def simp flip: replicate_Suc intro: arg_cong)
  finally show ?thesis by (simp add: cmdline_field_def)
qed

lemma fill_cmdline_eq:
  assumes "length (hdr_cmdline hdr) = 512" and "extra_cmdline hdr = replicate 1024 0"
  shows "fill_cmdline hdr s =
     (if 1534 < length s then Inl CmdlineTooLarge
      else Inr (hdr\<lparr>hdr_cmdline := cmdline_field s, extra_cmdline := extra_field s\<rparr>))"
proof -
  have "strncpy (replicate 1024 0) (drop 511 s) 1024 = extra_field s" if "length s \<le> 1534"
    using that by (simp add: strncpy_def extra_field_def drop_cs)
  moreover have "extra_field s = replicate 1024 0" if "length s < 511"
    using that by (simp add: extra_field_def)
  ultimately show ?thesis
    using assms strncpy_cmdline [OF assms(1), of s]
    by (cases hdr) (simp add: fill_cmdline_def Let_def boot_sizes)
qed

text \<open>The header \<open>main\<close> builds, field by field, before the images are read.\<close>

definition header_of :: "mk_opts \<Rightarrow> boot_img_hdr" where
  "header_of mo = \<lparr>hdr_magic = BOOT_MAGIC, kernel_size = 0,
     kernel_addr = opt_base mo + kernel_offset mo, ramdisk_size = 0,
     ramdisk_addr = opt_base mo + ramdisk_offset mo, second_size = 0,
     second_addr = opt_base mo + second_offset mo, tags_addr = opt_base mo + tags_offset mo,
     page_size = opt_pagesize mo, hdr_unused = 0, os_version = 0,
     hdr_name = cs (opt_board mo) @ replicate (16 - length (opt_board mo)) 0,
     hdr_cmdline = cmdline_field (opt_cmdline mo), hdr_id = replicate 32 0,
     extra_cmdline = extra_field (opt_cmdline mo)\<rparr>"

definition opts_ok :: "mk_opts \<Rightarrow> bool" where
  "opts_ok mo \<longleftrightarrow> bootimg_fn mo \<noteq> None \<and> kernel_fn mo \<noteq> None \<and> ramdisk_fn mo \<noteq> None \<and>
     length (opt_board mo) < 16 \<and> length (opt_cmdline mo) \<le> 1534"

lemma mk_header_Inr_iff: "mk_header mo = Inr hdr \<longleftrightarrow> opts_ok mo \<and> hdr = header_of mo"
proof -
  have "cs b @ [0] @ drop (length b + 1) (replicate 16 0) = cs b @ replicate (16 - length b) 0"
    if "length b < 16" for b :: string
    using that by (simp add: Suc_diff_Suc flip: replicate_Suc)
  then show ?thesis
    by (auto simp: mk_header_def opts_ok_def header_of_def Let_def zero_hdr_def boot_sizes fill_cmdline_eq)
qed

lemma header_of_wf: "opts_ok mo \<Longrightarrow> hdr_wf (header_of mo)"
  by (simp add: hdr_wf_def header_of_def opts_ok_def boot_sizes BOOT_MAGIC_def length_extra_field)

section \<open>The images and the identifier\<close>

lemma mk_load_Inr:
  assumes "mk_load os mo hdr = Inr (hdr', im)" and "second_size hdr = 0"
  shows "sizes_agree hdr' im"
    and "hdr' = hdr\<lparr>kernel_size := kernel_size hdr', ramdisk_size := ramdisk_size hdr',
                    second_size := second_size hdr'\<rparr>"
    and "load_file os (the (kernel_fn mo)) = Some (kernel_data im, kernel_size hdr')"
    and "(if the (ramdisk_fn mo) = ''NONE'' then Some ([], 0) else load_file os (the (ramdisk_fn mo)))
           = Some (ramdisk_data im, ramdisk_size hdr')"
    and "(case second_fn mo of None \<Rightarrow> second_data im = None
          | Some fn \<Rightarrow> \<exists>s. second_data im = Some s \<and> load_file os fn = Some (s, second_size hdr'))"
  using assms
  by (cases hdr; auto simp: mk_load_def sizes_agree_def opt_bytes_def
        split: option.splits if_splits dest!: load_file_size)+

lemma mk_load_frame:
  assumes "mk_load os mo hdr = Inr (hdr', im)"
  shows "hdr_wf hdr' = hdr_wf hdr" and "page_size hdr' = page_size hdr"
    and "hdr_magic hdr' = hdr_magic hdr" and "hdr_name hdr' = hdr_name hdr"
    and "hdr_cmdline hdr' = hdr_cmdline hdr" and "extra_cmdline hdr' = extra_cmdline hdr"
    and "kernel_addr hdr' = kernel_addr hdr" and "ramdisk_addr hdr' = ramdisk_addr hdr"
    and "second_addr hdr' = second_addr hdr" and "tags_addr hdr' = tags_addr hdr"
  using assms by (auto simp: mk_load_def hdr_wf_def split: option.splits if_splits)

text \<open>The identifier is the SHA-1 of the images, each followed by its size.\<close>

definition id_input :: "boot_img_hdr \<Rightarrow> mk_images \<Rightarrow> bytes" where
  "id_input hdr im =
     kernel_data im @ le32 (kernel_size hdr) @ ramdisk_data im @ le32 (ramdisk_size hdr)
     @ opt_bytes (second_data im) @ le32 (second_size hdr)"

lemma image_id_eq:
  assumes "length (ctx_buf c) = 64" and "length (ctx_state c) = 8"
  shows "image_id c hdr im = md_digest fips_sha1_compress fips_sha1_iv (id_input hdr im)"
  using sha1.hash_digest [OF assms, of "id_input hdr im"]
  by (simp add: image_id_def Let_def sha1.upd_append id_input_def SHA_DIGEST_SIZE_def)

lemma set_id_wf:
  assumes "hdr_wf hdr" and "length (ctx_buf c) = 64" and "length (ctx_state c) = 8"
  shows "hdr_wf (set_id c hdr im)"
    and "set_id c hdr im = hdr\<lparr>hdr_id := hdr_id (set_id c hdr im)\<rparr>"
  using assms sha1.length_md_digest [of "id_input hdr im"]
  by (simp_all add: set_id_def Let_def hdr_wf_def image_id_eq)


section \<open>A whole run\<close>



text \<open>A small run: a three-byte kernel and a two-byte ramdisk.\<close>

definition demo_os :: os_state where
  "demo_os = \<lparr>files = [''k'' \<mapsto> [1, 2, 3], ''r'' \<mapsto> [4, 5]], creatable = (\<lambda>_. True),
     capacity = 100000\<rparr>"

definition demo_argv :: "string list" where
  "demo_argv = [''--kernel'', ''k'', ''--ramdisk'', ''r'', ''--id'', ''-o'', ''boot.img'']"

definition demo_opts :: mk_opts where
  "demo_opts = default_opts\<lparr>kernel_fn := Some ''k'', ramdisk_fn := Some ''r'',
     bootimg_fn := Some ''boot.img'', get_id := True\<rparr>"

definition demo_hdr :: boot_img_hdr where
  "demo_hdr = (header_of demo_opts)\<lparr>kernel_size := 3, ramdisk_size := 2\<rparr>"

definition demo_im :: mk_images where
  "demo_im = \<lparr>kernel_data = [1, 2, 3], ramdisk_data = [4, 5], second_data = None\<rparr>"

lemma demo_parse: "mk_parse default_opts demo_argv = Inr demo_opts"
  by (simp add: demo_argv_def demo_opts_def mk_option_def default_opts_def)

lemma demo_opts_ok: "opts_ok demo_opts"
  by (simp add: opts_ok_def demo_opts_def default_opts_def)

lemma demo_load: "mk_load demo_os demo_opts (header_of demo_opts) = Inr (demo_hdr, demo_im)"
proof -
  have "load_file demo_os ''k'' = Some ([1, 2, 3], 3)"
    using load_file_small [of demo_os "''k''" "[1, 2, 3]"] by (simp add: demo_os_def)
  moreover have "load_file demo_os ''r'' = Some ([4, 5], 2)"
    using load_file_small [of demo_os "''r''" "[4, 5]"] by (simp add: demo_os_def)
  moreover have "kernel_fn demo_opts = Some ''k''" "ramdisk_fn demo_opts = Some ''r''"
      "second_fn demo_opts = None"
    by (simp_all add: demo_opts_def default_opts_def)
  ultimately show ?thesis by (simp add: mk_load_def demo_hdr_def demo_im_def)
qed


end
