(* ===== verification/Unmkbootimg.thy ===== *)
theory Unmkbootimg
  imports Mkbootimg
begin

text \<open>
  \<open>mkbootimg/unmkbootimg.c\<close>: option parsing, the checks on the image, the extraction of its three
  parts and the printed command that rebuilds it. The code does not compare the sizes of the header
  with the size of the file; an extraction that would read past the loaded file is the outcome
  \<open>ReadPastEnd\<close>, and a division by a zero page size is \<open>DivideByZero\<close>.
\<close>

section \<open>The program\<close>

record un_opts =
  un_kernel_fn :: string
  un_ramdisk_fn :: string
  un_second_fn :: string
  un_bootimg :: "string option"

definition un_default_opts :: un_opts where
  "un_default_opts = \<lparr>un_kernel_fn = ''kernel'', un_ramdisk_fn = ''ramdisk.cpio.gz'',
     un_second_fn = ''second_bootloader'', un_bootimg = None\<rparr>"

datatype un_error =
    UnUsage | NoInput | NoLoadImage | TooSmall | NotBootImage
  | NoSaveKernel | NoSaveRamdisk | NoSaveSecond | ReadPastEnd | DivideByZero

fun un_parse :: "un_opts \<Rightarrow> string list \<Rightarrow> un_error + un_opts" where
  "un_parse uo [] = Inr uo"
| "un_parse uo [arg] = Inl UnUsage"
| "un_parse uo (arg # val # rest) =
     (if arg = ''--input'' \<or> arg = ''-i'' then un_parse (uo\<lparr>un_bootimg := Some val\<rparr>) rest
      else if arg = ''--kernel'' then un_parse (uo\<lparr>un_kernel_fn := val\<rparr>) rest
      else if arg = ''--ramdisk'' then un_parse (uo\<lparr>un_ramdisk_fn := val\<rparr>) rest
      else if arg = ''--second'' then un_parse (uo\<lparr>un_second_fn := val\<rparr>) rest
      else Inl UnUsage)"

text \<open>\<open>save_file\<close> returns the number of bytes written, zero when the file cannot be created.\<close>

definition save_file :: "os_state \<Rightarrow> string \<Rightarrow> bytes \<Rightarrow> nat \<times> os_state" where
  "save_file os fn data =
     (case fopen_wb os fn of None \<Rightarrow> (0, os) | Some os \<Rightarrow> fwrite os fn data)"

text \<open>
  \<open>save_file(fn, &file_data[offset], size) != size\<close> with its error return; the bytes are those of
  the loaded file from \<open>offset\<close>.
\<close>

definition extract_part ::
  "un_error \<Rightarrow> bytes \<Rightarrow> u32 \<Rightarrow> u32 \<Rightarrow> string \<Rightarrow> os_state \<Rightarrow> (un_error + unit) \<times> os_state" where
  "extract_part err file offset sz fn os =
     (if length file < unat offset + unat sz then (Inl ReadPastEnd, os)
      else (case save_file os fn (take (unat sz) (drop (unat offset) file)) of
              (n, os) \<Rightarrow> (if n \<noteq> unat sz then Inl err else Inr (), os)))"

definition ramdisk_pos :: "boot_img_hdr \<Rightarrow> u32" where
  "ramdisk_pos h = ((kernel_size h + 2 * page_size h - 1) div page_size h) * page_size h"

definition second_pos :: "boot_img_hdr \<Rightarrow> u32" where
  "second_pos h =
     ((kernel_size h + ramdisk_size h + 2 * page_size h - 1) div page_size h) * page_size h"

definition un_kernel :: "un_opts \<Rightarrow> bytes \<Rightarrow> boot_img_hdr \<Rightarrow> os_state \<Rightarrow> (un_error + unit) \<times> os_state" where
  "un_kernel uo file h os =
     (if kernel_size h \<noteq> 0
      then extract_part NoSaveKernel file (page_size h) (kernel_size h) (un_kernel_fn uo) os
      else (Inr (), os))"

definition un_ramdisk :: "un_opts \<Rightarrow> bytes \<Rightarrow> boot_img_hdr \<Rightarrow> os_state \<Rightarrow> (un_error + unit) \<times> os_state" where
  "un_ramdisk uo file h os =
     (if ramdisk_size h \<noteq> 0
      then (if page_size h = 0 then (Inl DivideByZero, os)
            else extract_part NoSaveRamdisk file (ramdisk_pos h) (ramdisk_size h) (un_ramdisk_fn uo) os)
      else (Inr (), os))"

definition un_second :: "un_opts \<Rightarrow> bytes \<Rightarrow> boot_img_hdr \<Rightarrow> os_state \<Rightarrow> (un_error + unit) \<times> os_state" where
  "un_second uo file h os =
     (if second_size h \<noteq> 0
      then (if page_size h = 0 then (Inl DivideByZero, os)
            else extract_part NoSaveSecond file (second_pos h) (second_size h) (un_second_fn uo) os)
      else (Inr (), os))"

text \<open>
  The command printed at the end. \<open>%s\<close> on a header field prints the file's bytes from that field
  up to the first zero byte.
\<close>

definition rebuild_command :: "un_opts \<Rightarrow> bytes \<Rightarrow> boot_img_hdr \<Rightarrow> bytes" where
  "rebuild_command uo file h =
     cs (''  mkbootimg --base 0 --pagesize '' @ fmt_d (sint (page_size h)) @ '' '')
     @ (if hdr_name h ! 0 \<noteq> 0 then cs ''--board '' @ cstr_read (drop 48 file) @ cs '' '' else [])
     @ cs (''--kernel_offset 0x'' @ fmt_x 8 (kernel_addr h)
           @ '' --ramdisk_offset 0x'' @ fmt_x 8 (ramdisk_addr h) @ '' '')
     @ cs (''--second_offset 0x'' @ fmt_x 8 (second_addr h)
           @ '' --tags_offset 0x'' @ fmt_x 8 (tags_addr h) @ '' '')
     @ (if hdr_cmdline h ! 0 \<noteq> 0
        then cs (''--cmdline '' @ [CHR 0x27]) @ cstr_read (drop 64 file)
             @ cstr_read (drop 608 file) @ cs ([CHR 0x27] @ '' '')
        else [])
     @ (if kernel_size h \<noteq> 0 then cs (''--kernel '' @ un_kernel_fn uo @ '' '') else [])
     @ (if ramdisk_size h \<noteq> 0 then cs (''--ramdisk '' @ un_ramdisk_fn uo @ '' '') else [])
     @ (if second_size h \<noteq> 0 then cs (''--second '' @ un_second_fn uo @ '' '') else [])
     @ cs (''-o '' @ the (un_bootimg uo) @ [CHR 0x0A])"

text \<open>The progress line printed after each part.\<close>

definition written_line :: "string \<Rightarrow> string \<Rightarrow> u32 \<Rightarrow> bytes" where
  "written_line part fn sz =
     (if sz \<noteq> 0
      then cs (part @ '' written to '' @ [CHR 0x27] @ fn @ [CHR 0x27] @ '' (''
               @ fmt_d (sint sz) @ '' bytes)'' @ [CHR 0x0A])
      else [])"

definition unmkbootimg_main ::
  "string list \<Rightarrow> os_state \<Rightarrow> (un_error + bytes) \<times> os_state" where
  "unmkbootimg_main argv os =
     (case un_parse un_default_opts argv of
        Inl e \<Rightarrow> (Inl e, os)
      | Inr uo \<Rightarrow>
          (case un_bootimg uo of
             None \<Rightarrow> (Inl NoInput, os)
           | Some img \<Rightarrow>
               (case load_file os img of
                  None \<Rightarrow> (Inl NoLoadImage, os)
                | Some (file, file_size) \<Rightarrow>
                    if unat file_size < sizeof_hdr then (Inl TooSmall, os)
                    else
                      (let h = hdr_of_bytes file in
                       if hdr_magic h \<noteq> BOOT_MAGIC then (Inl NotBootImage, os)
                       else
                         (case un_kernel uo file h os of
                            (Inl e, os) \<Rightarrow> (Inl e, os)
                          | (Inr _, os) \<Rightarrow>
                              (case un_ramdisk uo file h os of
                                 (Inl e, os) \<Rightarrow> (Inl e, os)
                               | (Inr _, os) \<Rightarrow>
                                   (case un_second uo file h os of
                                      (Inl e, os) \<Rightarrow> (Inl e, os)
                                    | (Inr _, os) \<Rightarrow>
                                        (Inr (written_line ''kernel'' (un_kernel_fn uo) (kernel_size h)
                                              @ written_line ''ramdisk'' (un_ramdisk_fn uo) (ramdisk_size h)
                                              @ written_line ''second bootloader'' (un_second_fn uo) (second_size h)
                                              @ cs ([CHR 0x0A] @ ''To rebuild this boot image, you can use the command:'' @ [CHR 0x0A])
                                              @ rebuild_command uo file h), os))))))))"


section \<open>Where the parts are\<close>

lemma round_up_add_self: "0 < p \<Longrightarrow> round_up p (n + p) = round_up p n + p"
  by (simp add: round_up_def pad_len_def)

text \<open>Rounding a sum: exact if the two paddings together are less than a page.\<close>

lemma round_up_add_iff:
  assumes "0 < p"
  shows "round_up p (k + r) = round_up p k + round_up p r \<longleftrightarrow> pad_len p k + pad_len p r < p"
proof -
  let ?s = "pad_len p k + pad_len p r"
  have d: "p dvd k + pad_len p k" "p dvd r + pad_len p r" "p dvd k + r + pad_len p (k + r)"
    using round_up_dvd [OF assms] by (simp_all add: round_up_def)
  have "p dvd (k + r) + ?s"
    using dvd_add [OF d(1,2)] by (simp add: add.commute add.left_commute)
  then have "?s mod p = pad_len p (k + r) mod p"
    using d(3) by (rule mod_eq_if_dvd_add)
  then have "pad_len p (k + r) = ?s mod p"
    using pad_len_less [OF assms, of "k + r"] by simp
  then have "round_up p (k + r) = round_up p k + round_up p r \<longleftrightarrow> ?s mod p = ?s"
    by (auto simp: round_up_def)
  also have "\<dots> \<longleftrightarrow> ?s < p"
    using assms by (metis mod_less mod_less_divisor)
  finally show ?thesis .
qed

lemma page_ceil:
  assumes "0 < p"
  shows "(n + 2 * p - 1) div p * p = p + round_up p n"
proof -
  have "n + 2 * p - 1 = (n + p) + p - 1" using assms by simp
  then show ?thesis
    using round_up_div [OF assms, of "n + p"] round_up_add_self [OF assms, of n] by simp
qed

lemma round_up_le: "0 < p \<Longrightarrow> round_up p n < n + p"
  using pad_len_less [of p n] by (simp add: round_up_def)

text \<open>The offset expressions in 32-bit arithmetic, where nothing wraps.\<close>

lemma unat_page_ceil:
  assumes "supported_page p" and "unat n + 2 * unat p < 2 ^ 32"
  shows "unat (((n + 2 * p - 1) div p) * p) = unat p + round_up (unat p) (unat n)"
proof -
  have p: "0 < unat p" using supported_page_bounds [OF assms(1)] by simp
  have two: "unat (2 * p) = 2 * unat p"
    using assms(2) by (subst unat_mult_exact) simp_all
  have sum: "unat (n + 2 * p) = unat n + 2 * unat p"
    using assms(2) two by (subst unat_add_exact) simp_all
  have "1 \<le> n + 2 * p"
    using sum p by (simp add: word_le_nat_alt)
  then have num: "unat (n + 2 * p - 1) = unat n + 2 * unat p - 1"
    using sum by (simp add: unat_sub)
  have "unat p + round_up (unat p) (unat n) < 2 ^ 32"
    using round_up_le [OF p, of "unat n"] assms(2) by simp
  then have "unat ((n + 2 * p - 1) div p) * unat p < 2 ^ 32"
    using page_ceil [OF p, of "unat n"] num by (simp add: unat_div)
  then show ?thesis
    using page_ceil [OF p, of "unat n"] num by (subst unat_mult_exact) (simp_all add: unat_div)
qed

lemma ramdisk_pos_eq:
  assumes "supported_page (page_size h)" and "unat (kernel_size h) < 2 ^ 31"
  shows "unat (ramdisk_pos h) =
     unat (page_size h) + round_up (unat (page_size h)) (unat (kernel_size h))"
  using assms supported_page_bounds [OF assms(1)] by (simp add: ramdisk_pos_def unat_page_ceil)

lemma second_pos_eq:
  assumes "supported_page (page_size h)" and "unat (kernel_size h) + unat (ramdisk_size h) < 2 ^ 31"
  shows "unat (second_pos h) =
     unat (page_size h) + round_up (unat (page_size h)) (unat (kernel_size h) + unat (ramdisk_size h))"
proof -
  have "unat (kernel_size h + ramdisk_size h) = unat (kernel_size h) + unat (ramdisk_size h)"
    using assms(2) by (subst unat_add_exact) simp_all
  then show ?thesis
    using assms supported_page_bounds [OF assms(1)] by (simp add: second_pos_def unat_page_ceil)
qed

section \<open>Taking an image apart\<close>

text \<open>An image as \<open>mkbootimg\<close> writes it, small enough for \<open>load_file\<close>.\<close>

definition good_image :: "boot_img_hdr \<Rightarrow> mk_images \<Rightarrow> bool" where
  "good_image h im \<longleftrightarrow> hdr_wf h \<and> hdr_magic h = BOOT_MAGIC \<and> supported_page (page_size h) \<and>
     sizes_agree h im \<and> length (boot_image h im) < 2 ^ 31"

lemma header_page: "good_image h im \<Longrightarrow> length (paged (unat (page_size h)) (hdr_bytes h)) = unat (page_size h)"
proof -
  assume g: "good_image h im"
  then have "length (hdr_bytes h) = 1632" by (simp add: good_image_def length_hdr_bytes)
  moreover have "2048 \<le> unat (page_size h)"
    using g supported_page_bounds(1) by (simp add: good_image_def)
  ultimately show ?thesis
    by (simp add: length_paged round_up_def pad_len_def)
qed

lemma hdr_of_boot_image: "good_image h im \<Longrightarrow> hdr_of_bytes (boot_image h im) = h"
  by (simp add: good_image_def boot_image_def paged_def Let_def hdr_of_bytes_hdr_bytes)

lemma paged_part:
  "take (length d) (drop (length A) (A @ paged p d @ C)) = d"
  "length A + length d \<le> length (A @ paged p d @ C)"
  by (simp_all add: paged_def)

lemma boot_image_kernel:
  assumes "good_image h im"
  shows "take (unat (kernel_size h)) (drop (unat (page_size h)) (boot_image h im)) = kernel_data im"
    and "unat (page_size h) + unat (kernel_size h) \<le> length (boot_image h im)"
proof -
  let ?p = "unat (page_size h)"
  let ?A = "paged ?p (hdr_bytes h)"
  let ?C = "paged ?p (ramdisk_data im) @ (case second_data im of None \<Rightarrow> [] | Some s \<Rightarrow> paged ?p s)"
  have img: "boot_image h im = ?A @ paged ?p (kernel_data im) @ ?C"
    by (simp add: boot_image_def Let_def)
  have A: "length ?A = ?p" by (rule header_page [OF assms])
  have k: "length (kernel_data im) = unat (kernel_size h)"
    using assms by (simp add: good_image_def sizes_agree_def)
  show "take (unat (kernel_size h)) (drop ?p (boot_image h im)) = kernel_data im"
    using paged_part(1) [of "kernel_data im" ?A ?p ?C] unfolding img A k .
  show "?p + unat (kernel_size h) \<le> length (boot_image h im)"
    using paged_part(2) [of ?A "kernel_data im" ?p ?C] unfolding img A k .
qed

lemma boot_image_ramdisk:
  assumes "good_image h im"
  defines "p \<equiv> unat (page_size h)"
  shows "take (unat (ramdisk_size h)) (drop (p + round_up p (unat (kernel_size h))) (boot_image h im))
           = ramdisk_data im"
    and "p + round_up p (unat (kernel_size h)) + unat (ramdisk_size h) \<le> length (boot_image h im)"
proof -
  let ?A = "paged p (hdr_bytes h) @ paged p (kernel_data im)"
  let ?C = "case second_data im of None \<Rightarrow> [] | Some s \<Rightarrow> paged p s"
  have img: "boot_image h im = ?A @ paged p (ramdisk_data im) @ ?C"
    by (cases "second_data im") (simp_all add: boot_image_def Let_def p_def)
  have A: "length ?A = p + round_up p (unat (kernel_size h))"
    using assms(1) header_page [OF assms(1)]
    by (simp add: p_def length_paged good_image_def sizes_agree_def)
  have r: "length (ramdisk_data im) = unat (ramdisk_size h)"
    using assms(1) by (simp add: good_image_def sizes_agree_def)
  show "take (unat (ramdisk_size h)) (drop (p + round_up p (unat (kernel_size h))) (boot_image h im))
      = ramdisk_data im"
    using paged_part(1) [of "ramdisk_data im" ?A p ?C] unfolding img A r .
  show "p + round_up p (unat (kernel_size h)) + unat (ramdisk_size h) \<le> length (boot_image h im)"
    using paged_part(2) [of ?A "ramdisk_data im" p ?C] unfolding img A r .
qed

lemma boot_image_second:
  assumes "good_image h im" and "second_data im = Some s"
  defines "p \<equiv> unat (page_size h)"
  defines "off \<equiv> p + round_up p (unat (kernel_size h)) + round_up p (unat (ramdisk_size h))"
  shows "take (unat (second_size h)) (drop off (boot_image h im)) = s"
    and "off + unat (second_size h) \<le> length (boot_image h im)"
proof -
  let ?A = "paged p (hdr_bytes h) @ paged p (kernel_data im) @ paged p (ramdisk_data im)"
  have img: "boot_image h im = ?A @ paged p s @ []"
    by (simp add: boot_image_def Let_def p_def assms(2))
  have A: "length ?A = off"
    using assms(1) header_page [OF assms(1)]
    by (simp add: p_def off_def length_paged good_image_def sizes_agree_def)
  have s: "length s = unat (second_size h)"
    using assms(1,2) by (simp add: good_image_def sizes_agree_def opt_bytes_def)
  show "take (unat (second_size h)) (drop off (boot_image h im)) = s"
    using paged_part(1) [of s ?A p "[]"] unfolding img A s .
  show "off + unat (second_size h) \<le> length (boot_image h im)"
    using paged_part(2) [of ?A s p "[]"] unfolding img A s .
qed

lemma good_image_sizes:
  assumes "good_image h im"
  shows "unat (kernel_size h) + unat (ramdisk_size h) < 2 ^ 31"
  using boot_image_ramdisk(2) [OF assms] round_up_ge [of "unat (kernel_size h)" "unat (page_size h)"] assms
  by (simp add: good_image_def)

text \<open>Saving one part: all of it arrives under the name, or the part's error is reported.\<close>

lemma extract_part_ok:
  assumes "unat off + unat sz \<le> length file" and "creatable os fn" and "unat sz \<le> capacity os"
  shows "extract_part err file off sz fn os =
     (Inr (), os\<lparr>files := (files os)(fn \<mapsto> take (unat sz) (drop (unat off) file)),
                 capacity := capacity os - unat sz\<rparr>)"
  using assms by (auto simp: extract_part_def save_file_def fopen_wb_def fwrite_def Let_def)


text \<open>The three extraction steps on an image written by \<open>mkbootimg\<close>.\<close>

lemma un_kernel_good:
  assumes "good_image h im" and "creatable os (un_kernel_fn uo)" and "unat (kernel_size h) \<le> capacity os"
  shows "un_kernel uo (boot_image h im) h os =
     (Inr (), if kernel_size h = 0 then os
              else os\<lparr>files := (files os)(un_kernel_fn uo \<mapsto> kernel_data im),
                      capacity := capacity os - unat (kernel_size h)\<rparr>)"
  using assms boot_image_kernel [OF assms(1)] by (simp add: un_kernel_def extract_part_ok)

lemma un_ramdisk_good:
  assumes "good_image h im" and "creatable os (un_ramdisk_fn uo)" and "unat (ramdisk_size h) \<le> capacity os"
  shows "un_ramdisk uo (boot_image h im) h os =
     (Inr (), if ramdisk_size h = 0 then os
              else os\<lparr>files := (files os)(un_ramdisk_fn uo \<mapsto> ramdisk_data im),
                      capacity := capacity os - unat (ramdisk_size h)\<rparr>)"
proof -
  have "page_size h \<noteq> 0"
    using assms(1) by (auto simp: good_image_def supported_page_def)
  moreover have "unat (ramdisk_pos h) =
      unat (page_size h) + round_up (unat (page_size h)) (unat (kernel_size h))"
    using assms(1) by (intro ramdisk_pos_eq) (simp_all add: good_image_def sizes_agree_def)
  ultimately show ?thesis
    using assms boot_image_ramdisk [OF assms(1)] by (simp add: un_ramdisk_def extract_part_ok)
qed


text \<open>
  C3. The second stage. The program looks for it at \<open>p + round_up p (k + r)\<close>, while the image
  has it at \<open>p + round_up p k + round_up p r\<close> (\<open>k\<close>, \<open>r\<close> the sizes of kernel and ramdisk, \<open>p\<close> the
  page size). The two agree exactly if the last pages of kernel and ramdisk have room to spare for
  less than one page together; then the second stage is read correctly.
\<close>

theorem second_pos_correct_iff:
  assumes "good_image h im" and "second_data im = Some s"
  defines "p \<equiv> unat (page_size h)"
  defines "k \<equiv> unat (kernel_size h)" and "r \<equiv> unat (ramdisk_size h)"
  shows "(unat (second_pos h) = p + round_up p k + round_up p r
            \<longleftrightarrow> pad_len p k + pad_len p r < p)
         \<and> (pad_len p k + pad_len p r < p \<longrightarrow>
              take (unat (second_size h)) (drop (unat (second_pos h)) (boot_image h im)) = s)"
proof (intro conjI impI)
  have p: "0 < p" and sup: "supported_page (page_size h)"
    using assms(1) supported_page_bounds(3) by (simp_all add: good_image_def p_def)
  have pos: "unat (second_pos h) = p + round_up p (k + r)"
    using second_pos_eq [OF sup good_image_sizes [OF assms(1)]] by (simp add: p_def k_def r_def)
  have iff: "round_up p (k + r) = round_up p k + round_up p r \<longleftrightarrow> pad_len p k + pad_len p r < p"
    using p by (rule round_up_add_iff)
  show "unat (second_pos h) = p + round_up p k + round_up p r \<longleftrightarrow> pad_len p k + pad_len p r < p"
    using pos iff by simp
  show "take (unat (second_size h)) (drop (unat (second_pos h)) (boot_image h im)) = s"
    if "pad_len p k + pad_len p r < p"
    using boot_image_second(1) [OF assms(1,2)] pos iff that by (simp add: p_def k_def r_def add.assoc)
qed


text \<open>The small image again, and one with a second stage whose parts are one byte each.\<close>

definition demo_disk :: "boot_img_hdr \<Rightarrow> mk_images \<Rightarrow> os_state" where
  "demo_disk h im = \<lparr>files = [''boot.img'' \<mapsto> boot_image h im], creatable = (\<lambda>_. True),
     capacity = 100000\<rparr>"

lemma demo_hdr_facts:
  "hdr_wf demo_hdr" "hdr_magic demo_hdr = BOOT_MAGIC" "page_size demo_hdr = 2048"
  "kernel_size demo_hdr = 3" "ramdisk_size demo_hdr = 2" "second_size demo_hdr = 0"
  using header_of_wf [OF demo_opts_ok]
  by (simp_all add: demo_hdr_def hdr_wf_def header_of_def demo_opts_def default_opts_def)

lemma demo_good: "good_image demo_hdr demo_im"
  using demo_hdr_facts
  by (simp add: good_image_def supported_page_def sizes_agree_def demo_im_def opt_bytes_def
      boot_image_def Let_def length_paged length_hdr_bytes round_up_def pad_len_def)


definition demo2_hdr :: boot_img_hdr where
  "demo2_hdr = demo_hdr\<lparr>kernel_size := 1, ramdisk_size := 1, second_size := 1\<rparr>"

definition demo2_im :: mk_images where
  "demo2_im = \<lparr>kernel_data = [1], ramdisk_data = [2], second_data = Some [3]\<rparr>"

lemma demo2_good: "good_image demo2_hdr demo2_im"
  using demo_hdr_facts
  by (simp add: good_image_def supported_page_def sizes_agree_def demo2_hdr_def demo2_im_def
      opt_bytes_def boot_image_def Let_def length_paged length_hdr_bytes round_up_def pad_len_def
      hdr_wf_def)

definition demo3_hdr :: boot_img_hdr where
  "demo3_hdr = demo_hdr\<lparr>kernel_size := 2048, ramdisk_size := 1, second_size := 1\<rparr>"

definition demo3_im :: mk_images where
  "demo3_im = \<lparr>kernel_data = replicate 2048 1, ramdisk_data = [2], second_data = Some [3]\<rparr>"

lemma demo3_good: "good_image demo3_hdr demo3_im"
  using demo_hdr_facts
  by (simp add: good_image_def supported_page_def sizes_agree_def demo3_hdr_def demo3_im_def
      opt_bytes_def boot_image_def Let_def length_paged length_hdr_bytes round_up_def pad_len_def
      hdr_wf_def)

theorem second_pos_correct_iff_witness:
  "take 1 (drop (unat (second_pos demo3_hdr)) (boot_image demo3_hdr demo3_im)) = [3]"
proof -
  have "second_data demo3_im = Some [3]" by (simp add: demo3_im_def)
  moreover have f: "page_size demo3_hdr = 2048" "kernel_size demo3_hdr = 2048"
      "ramdisk_size demo3_hdr = 1" "second_size demo3_hdr = 1"
    using demo_hdr_facts by (simp_all add: demo3_hdr_def)
  moreover have "pad_len (unat (page_size demo3_hdr)) (unat (kernel_size demo3_hdr))
      + pad_len (unat (page_size demo3_hdr)) (unat (ramdisk_size demo3_hdr)) < unat (page_size demo3_hdr)"
    unfolding f by (simp add: pad_len_def)
  ultimately have "take (unat (second_size demo3_hdr))
      (drop (unat (second_pos demo3_hdr)) (boot_image demo3_hdr demo3_im)) = [3]"
    using second_pos_correct_iff [OF demo3_good] by blast
  then show ?thesis by (simp add: f)
qed

text \<open>
  C4. The offset is wrong in general: with a one-byte kernel, ramdisk and second stage the tool
  saves the ramdisk's page as the second stage and reports success.
\<close>

theorem unmkbootimg_wrong_second:
  "\<exists>out os'. unmkbootimg_main [''-i'', ''boot.img''] (demo_disk demo2_hdr demo2_im) = (Inr out, os') \<and>
     files os' ''second_bootloader'' = Some (ramdisk_data demo2_im) \<and>
     second_data demo2_im \<noteq> Some (ramdisk_data demo2_im)"
proof -
  define os where "os = demo_disk demo2_hdr demo2_im"
  let ?img = "boot_image demo2_hdr demo2_im"
  have f: "page_size demo2_hdr = 2048" "kernel_size demo2_hdr = 1" "ramdisk_size demo2_hdr = 1"
      "second_size demo2_hdr = 1" "hdr_magic demo2_hdr = BOOT_MAGIC"
    using demo_hdr_facts by (simp_all add: demo2_hdr_def)
  have len: "length ?img = 8192"
    using demo_hdr_facts by (simp add: demo2_hdr_def demo2_im_def boot_image_def Let_def length_paged
      length_hdr_bytes round_up_def pad_len_def hdr_wf_def)
  have os: "creatable os fn" "capacity os = 100000" for fn by (simp_all add: os_def demo_disk_def)
  have load: "load_file os ''boot.img'' = Some (?img, of_nat 8192)"
    using load_file_small [of os "''boot.img''" ?img] len by (simp add: os_def demo_disk_def)
  have pos: "unat (ramdisk_pos demo2_hdr) = 4096" "unat (second_pos demo2_hdr) = 4096"
    by (simp_all add: ramdisk_pos_def second_pos_def f)
  have rd: "take 1 (drop 4096 ?img) = [2]"
    using boot_image_ramdisk(1) [OF demo2_good] f by (simp add: round_up_def pad_len_def demo2_im_def)
  have hdr: "hdr_of_bytes ?img = demo2_hdr" by (rule hdr_of_boot_image [OF demo2_good])
  show ?thesis
    unfolding os_def [symmetric]
    using rd by (simp add: unmkbootimg_main_def un_default_opts_def load hdr f un_kernel_def
      un_ramdisk_def un_second_def extract_part_ok len pos os Let_def)
      (simp add: demo2_im_def)
qed

end
