(* ===== verification/Montgomery.thy ===== *)
theory Montgomery
  imports Akb_Prelude
begin

text \<open>
  The interface of a Montgomery multiplication, which \<open>libmincrypt/rsa.c\<close> provides on digit arrays
  for any public key and \<open>libmincrypt/p256_ec.c\<close> on limbs for one fixed prime, and the facts the
  exponentiations and point formulas built on it need.
\<close>

section \<open>Residues\<close>

lemma mod_cancel_coprime:
  fixes N :: int
  assumes "coprime c N" and "(c * x) mod N = (c * y) mod N"
  shows "x mod N = y mod N"
proof -
  have "N dvd c * (x - y)"
    using assms(2) by (simp add: mod_eq_dvd_iff right_diff_distrib)
  then have "N dvd x - y"
    using assms(1) by (simp add: coprime_dvd_mult_right_iff coprime_commute)
  then show ?thesis by (simp add: mod_eq_dvd_iff)
qed

text \<open>\<open>mrep N R v u\<close>: the stored value \<open>v\<close> stands for \<open>u\<close>, that is \<open>v = u R\<close> modulo \<open>N\<close>.\<close>

definition mrep :: "int \<Rightarrow> int \<Rightarrow> int \<Rightarrow> int \<Rightarrow> bool" where
  "mrep N R v u \<longleftrightarrow> v mod N = (u * R) mod N"

lemma mrep_cong: "u mod N = u' mod N \<Longrightarrow> mrep N R v u \<Longrightarrow> mrep N R v u'"
  unfolding mrep_def by (metis mod_mult_left_eq)

section \<open>The interface\<close>

locale montgomery =
  fixes wf :: "'k \<Rightarrow> bool"
    and N :: "'k \<Rightarrow> int"
    and R :: "'k \<Rightarrow> int"
    and ok :: "'k \<Rightarrow> 'a \<Rightarrow> bool"
    and val :: "'a \<Rightarrow> int"
    and mul :: "'k \<Rightarrow> 'a \<Rightarrow> 'a \<Rightarrow> 'a"
  assumes mul_ok: "wf k \<Longrightarrow> ok k a \<Longrightarrow> ok k b \<Longrightarrow> ok k (mul k a b)"
    and mul_val: "wf k \<Longrightarrow> ok k a \<Longrightarrow> ok k b \<Longrightarrow>
      (R k * val (mul k a b)) mod N k = (val a * val b) mod N k"
    and R_coprime: "wf k \<Longrightarrow> coprime (R k) (N k)"
begin

lemma mul_rep:
  assumes "wf k" "ok k a" "ok k b"
    and "mrep (N k) (R k) (val a) u" and "mrep (N k) (R k) (val b) v"
  shows "mrep (N k) (R k) (val (mul k a b)) (u * v)"
proof -
  have "(R k * val (mul k a b)) mod N k = (val a mod N k * (val b mod N k)) mod N k"
    using mul_val [OF assms(1-3)] by (simp add: mod_mult_eq)
  also have "\<dots> = (R k * (u * v * R k)) mod N k"
    using assms(4,5) by (simp add: mrep_def mod_mult_eq ac_simps)
  finally show ?thesis
    unfolding mrep_def by (rule mod_cancel_coprime [OF R_coprime [OF assms(1)]])
qed

lemma mul_enter:
  assumes "wf k" "ok k a" "ok k rr" and "val rr mod N k = (R k * R k) mod N k"
  shows "mrep (N k) (R k) (val (mul k a rr)) (val a)"
proof -
  have "(R k * val (mul k a rr)) mod N k = (val a * (val rr mod N k)) mod N k"
    using mul_val [OF assms(1-3)] by (simp add: mod_mult_right_eq)
  also have "\<dots> = (R k * (val a * R k)) mod N k"
    by (simp add: assms(4) mod_mult_right_eq ac_simps)
  finally show ?thesis
    unfolding mrep_def by (rule mod_cancel_coprime [OF R_coprime [OF assms(1)]])
qed

lemma mul_leave:
  assumes "wf k" "ok k a" "ok k b" and "mrep (N k) (R k) (val a) u"
  shows "val (mul k a b) mod N k = (u * val b) mod N k"
proof -
  have "(R k * val (mul k a b)) mod N k = (val a mod N k * val b) mod N k"
    using mul_val [OF assms(1-3)] by (simp add: mod_mult_left_eq)
  also have "\<dots> = (u * R k * val b) mod N k"
    using assms(4) by (simp add: mrep_def mod_mult_left_eq)
  also have "\<dots> = (R k * (u * val b)) mod N k"
    by (simp add: ac_simps)
  finally show ?thesis
    by (rule mod_cancel_coprime [OF R_coprime [OF assms(1)]])
qed

lemma square_rep:
  assumes "wf k" "ok k a" "mrep (N k) (R k) (val a) u"
  shows "ok k (((\<lambda>x. mul k x x) ^^ m) a) \<and>
    mrep (N k) (R k) (val (((\<lambda>x. mul k x x) ^^ m) a)) (u ^ 2 ^ m)"
proof (induction m)
  case (Suc m)
  then have "mrep (N k) (R k) (val (((\<lambda>x. mul k x x) ^^ Suc m) a)) (u ^ 2 ^ m * u ^ 2 ^ m)"
    by (simp add: mul_rep assms(1))
  moreover have "u ^ 2 ^ m * u ^ 2 ^ m = u ^ 2 ^ Suc m"
    by (simp add: mult_2 flip: power_add)
  ultimately show ?case using Suc mul_ok assms(1) by simp
qed (simp add: assms)

end

section \<open>Fields in Montgomery form\<close>

text \<open>
  A provider that also adds, subtracts and squares. \<open>res\<close> is the residue an element stands for; the client's
  view of the provider is ordinary arithmetic on residues.
\<close>

definition res :: "int \<Rightarrow> int \<Rightarrow> int \<Rightarrow> int" where
  "res N Ri v = (v * Ri) mod N"

lemma res_cong: "v mod N = w mod N \<Longrightarrow> res N Ri v = res N Ri w"
  unfolding res_def by (metis mod_mult_left_eq)

locale montgomery_field = montgomery wf N R ok val mul
  for wf :: "'k \<Rightarrow> bool"
    and N :: "'k \<Rightarrow> int"
    and R :: "'k \<Rightarrow> int"
    and ok :: "'k \<Rightarrow> 'a \<Rightarrow> bool"
    and val :: "'a \<Rightarrow> int"
    and mul :: "'k \<Rightarrow> 'a \<Rightarrow> 'a \<Rightarrow> 'a" +
  fixes Ri :: "'k \<Rightarrow> int"
    and add :: "'k \<Rightarrow> 'a \<Rightarrow> 'a \<Rightarrow> 'a"
    and sub :: "'k \<Rightarrow> 'a \<Rightarrow> 'a \<Rightarrow> 'a"
    and sqr :: "'k \<Rightarrow> 'a \<Rightarrow> 'a"
  assumes Ri: "wf k \<Longrightarrow> (R k * Ri k) mod N k = 1 mod N k"
    and add_ok: "wf k \<Longrightarrow> ok k a \<Longrightarrow> ok k b \<Longrightarrow> ok k (add k a b)"
    and add_val: "wf k \<Longrightarrow> ok k a \<Longrightarrow> ok k b \<Longrightarrow> val (add k a b) mod N k = (val a + val b) mod N k"
    and sub_ok: "wf k \<Longrightarrow> ok k a \<Longrightarrow> ok k b \<Longrightarrow> ok k (sub k a b)"
    and sub_val: "wf k \<Longrightarrow> ok k a \<Longrightarrow> ok k b \<Longrightarrow> val (sub k a b) mod N k = (val a - val b) mod N k"
    and sqr_ok: "wf k \<Longrightarrow> ok k a \<Longrightarrow> ok k (sqr k a)"
    and sqr_val: "wf k \<Longrightarrow> ok k a \<Longrightarrow> (R k * val (sqr k a)) mod N k = (val a * val a) mod N k"
begin

lemma res_add:
  assumes "wf k" "ok k a" "ok k b"
  shows "res (N k) (Ri k) (val (add k a b)) = (res (N k) (Ri k) (val a) + res (N k) (Ri k) (val b)) mod N k"
  unfolding res_cong [OF add_val [OF assms]] by (simp add: res_def distrib_right mod_add_eq)

lemma res_sub:
  assumes "wf k" "ok k a" "ok k b"
  shows "res (N k) (Ri k) (val (sub k a b)) = (res (N k) (Ri k) (val a) - res (N k) (Ri k) (val b)) mod N k"
  unfolding res_cong [OF sub_val [OF assms]] by (simp add: res_def left_diff_distrib mod_diff_eq)

lemma res_product:
  assumes "wf k" "(R k * v) mod N k = (x * y) mod N k"
  shows "res (N k) (Ri k) v = (res (N k) (Ri k) x * res (N k) (Ri k) y) mod N k"
proof -
  have "res (N k) (Ri k) v = (v * Ri k * (1 mod N k)) mod N k"
    by (simp add: res_def mod_mult_right_eq)
  also have "\<dots> = (v * Ri k * (R k * Ri k)) mod N k"
    unfolding Ri [OF assms(1), symmetric] by (rule mod_mult_right_eq)
  also have "\<dots> = ((R k * v) mod N k * (Ri k * Ri k)) mod N k"
    unfolding mod_mult_left_eq by (simp only: ac_simps)
  also have "\<dots> = ((x * Ri k) * (y * Ri k)) mod N k"
    unfolding assms(2) mod_mult_left_eq by (simp only: ac_simps)
  finally show ?thesis by (simp add: res_def mod_mult_eq)
qed

lemma res_mul:
  assumes "wf k" "ok k a" "ok k b"
  shows "res (N k) (Ri k) (val (mul k a b)) = (res (N k) (Ri k) (val a) * res (N k) (Ri k) (val b)) mod N k"
  by (rule res_product [OF assms(1) mul_val [OF assms]])

lemma res_sqr:
  assumes "wf k" "ok k a"
  shows "res (N k) (Ri k) (val (sqr k a)) = (res (N k) (Ri k) (val a) * res (N k) (Ri k) (val a)) mod N k"
  by (rule res_product [OF assms(1) sqr_val [OF assms]])

lemma res_sqrs:
  assumes "wf k" "ok k a"
  shows "ok k ((sqr k ^^ n) a) \<and> res (N k) (Ri k) (val ((sqr k ^^ n) a)) = (res (N k) (Ri k) (val a) ^ 2 ^ n) mod N k"
proof (induction n)
  case (Suc n)
  have "res (N k) (Ri k) (val ((sqr k ^^ Suc n) a)) = (res (N k) (Ri k) (val a) ^ 2 ^ n * res (N k) (Ri k) (val a) ^ 2 ^ n) mod N k"
    using Suc res_sqr [OF assms(1), of "(sqr k ^^ n) a"] by (simp add: mod_mult_eq)
  moreover have "x ^ 2 ^ n * x ^ 2 ^ n = x ^ 2 ^ Suc n" for x :: int by (simp add: mult_2 flip: power_add)
  ultimately show ?case using Suc sqr_ok assms(1) by simp
qed (simp add: assms res_def)

end

end
