(* ===== verification/Rsa.thy ===== *)
theory Rsa
  imports Hash Montgomery
begin

text \<open>
  \<open>libmincrypt/rsa.c\<close>: Montgomery arithmetic on arrays of 32-bit digits, the public
  exponentiation and the PKCS #1 v1.5 signature check. The arrays are lists of \<open>key->len\<close> words,
  least significant first; words beyond \<open>key->len\<close> are neither read nor written by this code.
  No call of \<open>montMul\<close> passes an input as its output, so results are returned as values.
\<close>

section \<open>Operations\<close>

definition RSANUMBYTES :: int where "RSANUMBYTES = 256"
definition RSANUMWORDS :: int where "RSANUMWORDS = 64"

record RSAPublicKey =
  key_len :: int
  n0inv :: u32
  key_n :: "u32 list"
  key_rr :: "u32 list"
  exponent :: int

definition klen :: "RSAPublicKey \<Rightarrow> nat" where
  "klen key = nat (key_len key)"

definition modulus :: "RSAPublicKey \<Rightarrow> u32 list" where
  "modulus key = take (klen key) (key_n key)"

text \<open>\<open>a[] -= mod\<close>, with the signed accumulator \<open>A\<close>.\<close>

fun subM_loop :: "u64 \<Rightarrow> u32 list \<Rightarrow> u32 list \<Rightarrow> u32 list" where
  "subM_loop A (n # ns) (a # as) =
     (let A = A + (ucast a - ucast n)
      in ucast A # subM_loop (signed_drop_bit 32 A) ns as)"
| "subM_loop A _ as = as"

definition subM :: "RSAPublicKey \<Rightarrow> u32 list \<Rightarrow> u32 list" where
  "subM key a = subM_loop 0 (modulus key) a"

text \<open>\<open>return a[] >= mod\<close>, from the most significant digit down.\<close>

fun geM_loop :: "u32 list \<Rightarrow> u32 list \<Rightarrow> bool" where
  "geM_loop (n # ns) (a # as) =
     (if a < n then False else if a > n then True else geM_loop ns as)"
| "geM_loop _ _ = True"

definition geM :: "RSAPublicKey \<Rightarrow> u32 list \<Rightarrow> bool" where
  "geM key a = geM_loop (rev (modulus key)) (rev (take (klen key) a))"

text \<open>The loop of \<open>montMulAdd\<close>: the words stored and the two accumulators at its end.\<close>

fun montMulAdd_loop ::
  "u32 \<Rightarrow> u32 \<Rightarrow> u32 list \<Rightarrow> u32 list \<Rightarrow> u32 list \<Rightarrow> u64 \<Rightarrow> u64 \<Rightarrow> u32 list \<times> u64 \<times> u64" where
  "montMulAdd_loop a d0 (n # ns) (b # bs) (c # cs) A B =
     (let A = drop_bit 32 A + ucast a * ucast b + ucast c;
          B = drop_bit 32 B + ucast d0 * ucast n + ucast (ucast A :: u32)
      in case montMulAdd_loop a d0 ns bs cs A B of (cs', A', B') \<Rightarrow> (ucast B # cs', A', B'))"
| "montMulAdd_loop a d0 _ _ _ A B = ([], A, B)"

definition montMulAdd :: "RSAPublicKey \<Rightarrow> u32 list \<Rightarrow> u32 \<Rightarrow> u32 list \<Rightarrow> u32 list" where
  "montMulAdd key c a b =
     (let A = ucast a * ucast (b ! 0) + ucast (c ! 0) :: u64;
          d0 = ucast A * n0inv key;
          B = ucast d0 * ucast (modulus key ! 0) + ucast (ucast A :: u32) :: u64
      in case montMulAdd_loop a d0 (tl (modulus key)) (tl b) (tl c) A B of (cs, A, B) \<Rightarrow>
           (let A = drop_bit 32 A + drop_bit 32 B; c = cs @ [ucast A]
            in if drop_bit 32 A \<noteq> 0 then subM key c else c))"

definition montMul :: "RSAPublicKey \<Rightarrow> u32 list \<Rightarrow> u32 list \<Rightarrow> u32 list" where
  "montMul key a b =
     fold (\<lambda>i c. montMulAdd key c (a ! i) b) [0..<klen key] (replicate (klen key) 0)"

text \<open>The conversion loops of \<open>modpow\<close>.\<close>

definition modpow_words :: "RSAPublicKey \<Rightarrow> bytes \<Rightarrow> u32 list" where
  "modpow_words key inout =
     map (\<lambda>i. let p = (klen key - 1 - i) * 4
               in be_word (inout ! (p + 0)) (inout ! (p + 1)) (inout ! (p + 2)) (inout ! (p + 3)))
       [0..<klen key]"

definition modpow_bytes :: "RSAPublicKey \<Rightarrow> u32 list \<Rightarrow> bytes" where
  "modpow_bytes key aaa = concat (map (\<lambda>i. be32 (aaa ! i)) (rev [0..<klen key]))"

text \<open>
  \<open>modpow\<close>, in place. With an exponent other than 3 and 65537 the pointer \<open>aaa\<close> stays null and
  is dereferenced: \<open>None\<close>.
\<close>

definition modpow :: "RSAPublicKey \<Rightarrow> bytes \<Rightarrow> bytes option" where
  "modpow key inout =
     (let a = modpow_words key inout;
          rr = take (klen key) (key_rr key);
          aaa =
            (if exponent key = 65537 then
               (let aR = montMul key a rr;
                    aR = fold (\<lambda>_ aR. let aaR = montMul key aR aR in montMul key aaR aaR) [0..<8] aR
                in Some (montMul key aR a))
             else if exponent key = 3 then
               (let aR = montMul key a rr; aaR = montMul key aR aR in Some (montMul key aaR a))
             else None)
      in case aaa of
           None \<Rightarrow> None
         | Some aaa \<Rightarrow>
             (let aaa = (if geM key aaa then subM key aaa else aaa)
              in Some (modpow_bytes key aaa @ drop (4 * klen key) inout)))"

definition kExpectedPadShaRsa2048 :: bytes where
  "kExpectedPadShaRsa2048 = [
    0xdc, 0xbd, 0xbe, 0x42, 0xd5, 0xf5, 0xa7, 0x2e,
    0x6e, 0xfc, 0xf5, 0x5d, 0xaf, 0x9d, 0xea, 0x68,
    0x7c, 0xfb, 0xf1, 0x67]"

definition kExpectedPadSha256Rsa2048 :: bytes where
  "kExpectedPadSha256Rsa2048 = [
    0xab, 0x28, 0x8d, 0x8a, 0xd7, 0xd9, 0x59, 0x92,
    0xba, 0xcc, 0xf8, 0x67, 0x20, 0xe1, 0x15, 0x2e,
    0x39, 0x8d, 0x80, 0x36, 0xd6, 0x6f, 0xf0, 0xfd,
    0x90, 0xe8, 0x7d, 0x8b, 0xe1, 0x7c, 0x87, 0x59]"

text \<open>\<open>buf[i] ^= *hash++\<close> over the last \<open>hash_len\<close> bytes.\<close>

definition xor_tail :: "bytes \<Rightarrow> bytes \<Rightarrow> nat \<Rightarrow> bytes" where
  "xor_tail buf hash hash_len =
     (let k = length buf - hash_len
      in take k buf @ map2 (\<lambda>x h. x XOR h) (drop k buf) (take hash_len hash))"

text \<open>
  \<open>RSA_verify\<close>. \<open>ctx0\<close> is the uninitialised hash context inside \<open>SHA_hash\<close>, which reads all of
  \<open>buf\<close> before it writes the digest over the start of it.
\<close>

definition RSA_verify :: "hash_ctx \<Rightarrow> RSAPublicKey \<Rightarrow> bytes \<Rightarrow> int \<Rightarrow> bytes \<Rightarrow> int \<Rightarrow> bool" where
  "RSA_verify ctx0 key signature len hash hash_len =
     (if key_len key \<noteq> RSANUMWORDS then False
      else if len \<noteq> RSANUMBYTES then False
      else if hash_len \<noteq> int SHA_DIGEST_SIZE \<and> hash_len \<noteq> int SHA256_DIGEST_SIZE then False
      else if exponent key \<noteq> 3 \<and> exponent key \<noteq> 65537 then False
      else
        (case modpow key (take (nat len) signature) of
           None \<Rightarrow> False
         | Some buf \<Rightarrow>
             (let buf = xor_tail buf hash (nat hash_len) in
              if hash_len = int SHA_DIGEST_SIZE
              then take (nat hash_len) (SHA_hash ctx0 buf buf) = kExpectedPadShaRsa2048
              else take (nat hash_len) (SHA256_hash ctx0 buf buf) = kExpectedPadSha256Rsa2048)))"

section \<open>Digit arithmetic\<close>

lemma subM_loop_val:
  assumes "length ns = length as" and "s = 0 \<or> s = - 1"
  shows "length (subM_loop (of_int s) ns as) = length as"
    and "int (lval (subM_loop (of_int s) ns as)) =
      (int (lval as) - int (lval ns) + s) mod 2 ^ (32 * length as)"
proof -
  have "length (subM_loop (of_int s) ns as) = length as \<and>
      int (lval (subM_loop (of_int s) ns as)) =
      (int (lval as) - int (lval ns) + s) mod 2 ^ (32 * length as)"
    using assms
  proof (induction ns as arbitrary: s rule: list_induct2)
    case (Cons n ns a as)
    define k where "k = s + uint a - uint n"
    have r: "0 \<le> uint a" "uint a < 2 ^ 32" "0 \<le> uint n" "uint n < 2 ^ 32"
      using uint_lt2p [of a] uint_lt2p [of n] by simp_all
    have k: "- (2 ^ 32) \<le> k" "k < 2 ^ 32" using r Cons.prems unfolding k_def by linarith+
    have A: "of_int s + (ucast a - ucast n) = (of_int k :: u64)"
      by (simp add: k_def)
    have sh: "signed_drop_bit 32 (of_int k :: u64) = of_int (k div 2 ^ 32)"
      using k by (intro asr_of_int_u64) auto
    have "k div 2 ^ 32 = 0 \<or> k div 2 ^ 32 = - 1"
    proof (cases "0 \<le> k")
      case True then show ?thesis using k by simp
    next
      case False
      then have "(k + 2 ^ 32) div 2 ^ 32 = 0" using k by simp
      moreover have "(k + 2 ^ 32) div 2 ^ 32 = k div 2 ^ 32 + 1" by (rule div_add_self2) simp
      ultimately show ?thesis by simp
    qed
    note IH = Cons.IH [OF this]
    have step: "subM_loop (of_int s) (n # ns) (a # as) =
        of_int k # subM_loop (of_int (k div 2 ^ 32)) ns as"
      by (simp only: subM_loop.simps Let_def A sh low32_of_int)
    have v: "int (lval (of_int k # xs)) = k mod 2 ^ 32 + 2 ^ 32 * int (lval xs)" for xs
      by (simp add: uint_of_int_u32)
    have d: "int (lval (a # as)) - int (lval (n # ns)) + s =
        k + 2 ^ 32 * (int (lval as) - int (lval ns))"
      by (simp add: k_def algebra_simps)
    have m: "(2 :: int) ^ (32 * Suc (length as)) = 2 ^ 32 * 2 ^ (32 * length as)"
      by (simp add: power_add)
    have "(k + 2 ^ 32 * (int (lval as) - int (lval ns))) mod (2 ^ 32 * 2 ^ (32 * length as)) =
        k mod 2 ^ 32 + 2 ^ 32 * ((int (lval as) - int (lval ns) + k div 2 ^ 32) mod 2 ^ (32 * length as))"
      by (rule digit_step) simp_all
    then show ?case
      using IH by (simp only: step v d m length_Cons simp_thms)
  qed simp
  then show "length (subM_loop (of_int s) ns as) = length as"
    and "int (lval (subM_loop (of_int s) ns as)) =
      (int (lval as) - int (lval ns) + s) mod 2 ^ (32 * length as)" by blast+
qed

lemma geM_loop_val:
  "length ns = length as \<Longrightarrow> geM_loop ns as \<longleftrightarrow> lval (rev ns) \<le> lval (rev as)"
proof (induction ns as rule: list_induct2)
  case (Cons n ns a as)
  have b: "lval (rev ns) < 2 ^ (32 * length as)" "lval (rev as) < 2 ^ (32 * length as)"
    using lval_less [of "rev ns"] lval_less [of "rev as"] Cons.hyps by simp_all
  have lt: "lval (rev xs) + 2 ^ (32 * length as) * unat x < lval (rev ys) + 2 ^ (32 * length as) * unat y"
    if "x < y" "lval (rev xs) < 2 ^ (32 * length as)" for x y :: u32 and xs ys
  proof -
    have "Suc (unat x) \<le> unat y" using that by (simp add: word_less_nat_alt)
    then have "2 ^ (32 * length as) * Suc (unat x) \<le> 2 ^ (32 * length as) * unat y"
      by (rule mult_le_mono2)
    then show ?thesis using that(2) by simp
  qed
  show ?case
  proof (cases a n rule: linorder_cases)
    case less
    then show ?thesis using lt [OF less b(2), of ns] Cons.hyps by (simp add: lval_append not_le)
  next
    case equal
    then show ?thesis using Cons by (simp add: lval_append)
  next
    case greater
    then show ?thesis using lt [OF greater b(1), of as] Cons.hyps by (simp add: lval_append not_less_iff_gr_or_eq)
  qed
qed simp

lemma mac_val:
  fixes A :: u64 and a b c :: u32
  shows "unat (drop_bit 32 A + ucast a * ucast b + ucast c) = unat A div 2 ^ 32 + unat a * unat b + unat c"
proof -
  have h: "unat A div 2 ^ 32 < 2 ^ 32" using u64_lt [of A] by (simp add: less_mult_imp_div_less)
  define w :: u32 where "w = of_nat (unat A div 2 ^ 32)"
  have w: "unat w = unat A div 2 ^ 32" using h by (simp add: w_def unat_of_nat)
  have m: "unat (ucast a * ucast b :: u64) = unat a * unat b"
    using mul_add_u32 [of a b 0 0] by (simp add: unat_mult_exact unat_ucast_32_64)
  have s: "unat (drop_bit 32 A + ucast a * ucast b) = unat A div 2 ^ 32 + unat a * unat b"
    using mul_add_u32 [of a b w 0] w m by (simp add: unat_add_exact unat_drop_bit)
  show ?thesis
    using mul_add_u32 [of a b c w] w s by (simp add: unat_add_exact unat_ucast_32_64)
qed

lemma montMulAdd_loop_val:
  assumes "length bs = length ns" "length cs = length ns"
    and "montMulAdd_loop a d0 ns bs cs A B = (cs', A', B')"
  shows "length cs' = length ns \<and>
    lval cs' + 2 ^ (32 * length ns) * (unat A' div 2 ^ 32 + unat B' div 2 ^ 32) =
      unat A div 2 ^ 32 + unat B div 2 ^ 32 + unat a * lval bs + unat d0 * lval ns + lval cs"
  using assms
proof (induction ns arbitrary: bs cs A B cs' A' B')
  case Nil
  then show ?case by simp
next
  case (Cons n ns)
  obtain b bs' c cs0 where l: "bs = b # bs'" "cs = c # cs0" "length bs' = length ns" "length cs0 = length ns"
    using Cons.prems(1,2) by (cases bs; cases cs) auto
  define A1 where "A1 = drop_bit 32 A + ucast a * ucast b + ucast c"
  define B1 where "B1 = drop_bit 32 B + ucast d0 * ucast n + ucast (ucast A1 :: u32)"
  have A1: "unat A1 = unat A div 2 ^ 32 + unat a * unat b + unat c"
    unfolding A1_def by (rule mac_val)
  have B1: "unat B1 = unat B div 2 ^ 32 + unat d0 * unat n + unat A1 mod 2 ^ 32"
    unfolding B1_def mac_val by (simp add: unat_ucast_64_32)
  obtain cs1 A2 B2 where rec: "montMulAdd_loop a d0 ns bs' cs0 A1 B1 = (cs1, A2, B2)"
    by (cases "montMulAdd_loop a d0 ns bs' cs0 A1 B1")
  have res: "cs' = ucast B1 # cs1" "A' = A2" "B' = B2"
    using Cons.prems(3) rec by (simp_all add: l(1,2) A1_def [symmetric] B1_def [symmetric] Let_def)
  have IH: "length cs1 = length ns"
    "lval cs1 + 2 ^ (32 * length ns) * (unat A2 div 2 ^ 32 + unat B2 div 2 ^ 32) =
      unat A1 div 2 ^ 32 + unat B1 div 2 ^ 32 + unat a * lval bs' + unat d0 * lval ns + lval cs0"
    using Cons.IH [OF l(3,4) rec] by auto
  have "lval cs' + 2 ^ (32 * length (n # ns)) * (unat A' div 2 ^ 32 + unat B' div 2 ^ 32)
     = unat B1 mod 2 ^ 32 + 2 ^ 32 * (lval cs1 + 2 ^ (32 * length ns) * (unat A2 div 2 ^ 32 + unat B2 div 2 ^ 32))"
    by (simp add: res unat_ucast_64_32 power_add algebra_simps)
  also have "\<dots> = (unat B1 mod 2 ^ 32 + 2 ^ 32 * (unat B1 div 2 ^ 32)) + 2 ^ 32 * (unat A1 div 2 ^ 32)
      + 2 ^ 32 * (unat a * lval bs' + unat d0 * lval ns + lval cs0)"
    unfolding IH(2) by (simp only: algebra_simps)
  also have "\<dots> = unat B div 2 ^ 32 + unat d0 * unat n + (unat A1 mod 2 ^ 32 + 2 ^ 32 * (unat A1 div 2 ^ 32))
      + 2 ^ 32 * (unat a * lval bs' + unat d0 * lval ns + lval cs0)"
    by (simp only: mod_mult_div_eq B1 add.assoc)
  finally show ?case
    by (simp add: IH(1) res mod_mult_div_eq A1 l(1,2) algebra_simps)
qed

text \<open>A public key the way the format asks for it.\<close>

definition key_ok :: "RSAPublicKey \<Rightarrow> bool" where
  "key_ok key \<longleftrightarrow>
     0 < key_len key \<and> klen key \<le> length (key_n key) \<and> klen key \<le> length (key_rr key) \<and>
     (unat (key_n key ! 0) * unat (n0inv key) + 1) mod 2 ^ 32 = 0"

definition kmod :: "RSAPublicKey \<Rightarrow> nat" where
  "kmod key = lval (modulus key)"

definition kR :: "RSAPublicKey \<Rightarrow> nat" where
  "kR key = 2 ^ (32 * klen key)"

lemma length_modulus: "key_ok key \<Longrightarrow> length (modulus key) = klen key" "key_ok key \<Longrightarrow> 0 < klen key"
  by (simp_all add: key_ok_def modulus_def klen_def)

lemma kmod_less: "key_ok key \<Longrightarrow> kmod key < kR key"
  using lval_less [of "modulus key"] by (simp add: kmod_def kR_def length_modulus)

lemma modulus_Cons: "key_ok key \<Longrightarrow> modulus key = modulus key ! 0 # tl (modulus key)"
  using length_modulus [of key] by (cases "modulus key") auto

lemma modulus_0: "key_ok key \<Longrightarrow> modulus key ! 0 = key_n key ! 0"
  using length_modulus [of key] by (simp add: modulus_def)

lemma subM_val:
  assumes "key_ok key" "length a = klen key"
  shows "length (subM key a) = klen key"
    and "int (lval (subM key a)) = (int (lval a) - int (kmod key)) mod int (kR key)"
  using subM_loop_val [of "modulus key" a 0] assms
  by (simp_all add: subM_def kmod_def kR_def length_modulus)

lemma geM_val:
  assumes "key_ok key" "length a = klen key"
  shows "geM key a \<longleftrightarrow> kmod key \<le> lval a"
  using geM_loop_val [of "rev (modulus key)" "rev a"] assms
  by (simp add: geM_def kmod_def length_modulus)

lemma mont_zero:
  assumes "(n0 * m + 1) mod W = 0"
  shows "((x * m) mod W * n0 + x mod W) mod W = (0 :: nat)"
proof -
  have "((x * m) mod W * n0 + x mod W) mod W = (x * m * n0 + x) mod W"
    by (intro mod_add_cong) (simp_all add: mod_mult_left_eq)
  also have "x * m * n0 + x = x * (n0 * m + 1)" by (simp add: algebra_simps)
  also have "\<dots> mod W = (x * ((n0 * m + 1) mod W)) mod W" by (simp only: mod_mult_right_eq)
  finally show ?thesis using assms by simp
qed

text \<open>One reduction step in numbers: at most one subtraction of the modulus brings it below \<open>R\<close>.\<close>

lemma redc_range:
  fixes x h R b c n :: nat and a d :: u32
  assumes T: "2 ^ 32 * (x + R * h) = unat a * b + c + unat d * n"
    and "b < R" "c < R" "n < R"
  shows "x + R * h < R + n"
proof -
  have "unat a * b + c + unat d * n \<le> (2 ^ 32 - 1) * (R - 1) + (R - 1) + (2 ^ 32 - 1) * n"
    using u32_lt [of a] u32_lt [of d] assms(2,3) by (intro add_mono mult_mono) auto
  also have "\<dots> < 2 ^ 32 * (R + n)"
    using assms(2) by (simp add: algebra_simps)
  finally show ?thesis using T by simp
qed

lemma redc_val:
  fixes x h R b c n r :: nat and a d :: u32
  assumes T: "2 ^ 32 * (x + R * h) = unat a * b + c + unat d * n"
    and lt: "b < R" "c < R" "n < R"
    and r: "int r = (if h = 0 then int x else (int x - int n) mod int R)"
  shows "(2 ^ 32 * int r) mod int n = (int (unat a) * int b + int c) mod int n"
proof -
  have range: "x + R * h < R + n" using T lt by (rule redc_range)
  have T': "2 ^ 32 * (int x + int R * int h) = int (unat a) * int b + int c + int (unat d) * int n"
    using T by (metis (mono_tags) of_nat_add of_nat_mult of_nat_numeral of_nat_power)
  show ?thesis
  proof (cases "h = 0")
    case True
    then show ?thesis using T' r by simp
  next
    case False
    have "h = 1"
    proof (rule ccontr)
      assume "h \<noteq> 1"
      then have "R * 2 \<le> R * h" using False by (intro mult_le_mono2) simp
      then show False using range lt by linarith
    qed
    then have x: "x < n" using range by simp
    have "(int x - int n) mod int R = (int x - int n + int R) mod int R" by simp
    also have "\<dots> = int x - int n + int R"
      using x lt by (intro mod_pos_pos_trivial) auto
    finally have "(int x - int n) mod int R = int x - int n + int R" .
    then have "2 ^ 32 * int r = int (unat a) * int b + int c + (int (unat d) - 2 ^ 32) * int n"
      using T' r \<open>h = 1\<close> by (simp add: algebra_simps)
    then show ?thesis by simp
  qed
qed

lemma montMulAdd_val:
  assumes key: "key_ok key" and "length b = klen key" "length c = klen key"
  shows "length (montMulAdd key c a b) = klen key"
    and "(2 ^ 32 * int (lval (montMulAdd key c a b))) mod int (kmod key) =
      (int (unat a) * int (lval b) + int (lval c)) mod int (kmod key)"
proof -
  define n where "n = modulus key"
  obtain n0 ns b0 bs c0 cs where l: "n = n0 # ns" "b = b0 # bs" "c = c0 # cs"
      "length ns = klen key - 1" "length bs = length ns" "length cs = length ns"
    using modulus_Cons [OF key] length_modulus [OF key] assms(2,3)
    by (cases b; cases c; cases "modulus key") (auto simp: n_def)
  define A :: u64 where "A = ucast a * ucast b0 + ucast c0"
  define d0 :: u32 where "d0 = ucast A * n0inv key"
  define B :: u64 where "B = ucast d0 * ucast n0 + ucast (ucast A :: u32)"
  have A: "unat A = unat a * unat b0 + unat c0"
    using mac_val [of 0 a b0 c0] by (simp add: A_def)
  have B: "unat B = unat d0 * unat n0 + unat A mod 2 ^ 32"
    using mac_val [of 0 d0 n0 "ucast A"] by (simp add: B_def unat_ucast_64_32)
  have d0: "unat d0 = (unat A * unat (n0inv key)) mod 2 ^ 32"
    by (simp add: d0_def unat_word_ariths unat_ucast_64_32 mod_mult_left_eq)
  have n0: "(unat n0 * unat (n0inv key) + 1) mod 2 ^ 32 = 0"
    using key modulus_0 [OF key] l(1) unfolding key_ok_def n_def by simp
  have "2 ^ 32 dvd unat B"
    unfolding dvd_eq_mod_eq_0 B d0 by (rule mont_zero [OF n0])
  then have "2 ^ 32 * (unat B div 2 ^ 32) = unat B" by (rule dvd_mult_div_cancel)
  moreover have "2 ^ 32 * (unat A div 2 ^ 32) + unat A mod 2 ^ 32 = unat A" by (rule mult_div_mod_eq)
  ultimately have lo: "2 ^ 32 * (unat A div 2 ^ 32 + unat B div 2 ^ 32) =
      unat a * unat b0 + unat c0 + unat d0 * unat n0"
    unfolding distrib_left using A B by linarith
  obtain cs' A' B' where loop: "montMulAdd_loop a d0 ns bs cs A B = (cs', A', B')"
    by (cases "montMulAdd_loop a d0 ns bs cs A B")
  define S where "S = drop_bit 32 A' + drop_bit 32 B'"
  have S: "unat S = unat A' div 2 ^ 32 + unat B' div 2 ^ 32"
    unfolding S_def using u64_lt [of A'] u64_lt [of B']
    by (subst unat_add_exact) (simp_all add: unat_drop_bit)
  have lv: "length cs' = length ns"
    "lval cs' + 2 ^ (32 * length ns) * unat S =
      unat A div 2 ^ 32 + unat B div 2 ^ 32 + unat a * lval bs + unat d0 * lval ns + lval cs"
    using montMulAdd_loop_val [OF l(5,6) loop] by (simp_all add: S)
  define c' where "c' = cs' @ [ucast S :: u32]"
  have len: "length c' = klen key" "klen key = Suc (length ns)"
    using lv(1) l(4) length_modulus(2) [OF key] by (simp_all add: c'_def)
  have "2 ^ 32 * (lval cs' + 2 ^ (32 * length ns) * unat S) =
      2 ^ 32 * (unat A div 2 ^ 32 + unat B div 2 ^ 32)
        + 2 ^ 32 * (unat a * lval bs + unat d0 * lval ns + lval cs)"
    unfolding lv(2) by (simp only: algebra_simps)
  also have "\<dots> = unat a * lval b + lval c + unat d0 * lval n"
    unfolding lo by (simp add: l algebra_simps)
  finally have T: "2 ^ 32 * (lval cs' + 2 ^ (32 * length ns) * unat S) =
      unat a * lval b + lval c + unat d0 * lval n" .
  have c': "lval c' + kR key * (unat S div 2 ^ 32) = lval cs' + 2 ^ (32 * length ns) * unat S"
  proof -
    have "lval c' = lval cs' + 2 ^ (32 * length ns) * (unat S mod 2 ^ 32)"
      using lv(1) by (simp add: c'_def lval_append unat_ucast_64_32)
    moreover have "kR key = 2 ^ (32 * length ns) * 2 ^ 32"
      by (simp add: kR_def len(2) power_add)
    ultimately show ?thesis
      by (simp only: add.assoc mult.assoc distrib_left [symmetric] mod_mult_div_eq)
  qed
  have res: "montMulAdd key c a b = (if drop_bit 32 S \<noteq> 0 then subM key c' else c')"
    using loop by (simp add: montMulAdd_def l(2,3) Let_def A_def [symmetric] d0_def [symmetric]
        B_def [symmetric] S_def [symmetric] c'_def [symmetric] l(1) [unfolded n_def])
  then show "length (montMulAdd key c a b) = klen key"
    using len subM_val(1) [OF key] by simp
  have "lval b < kR key" "lval c < kR key"
    using lval_less [of b] lval_less [of c] assms(2,3) by (simp_all add: kR_def)
  moreover have "int (lval (montMulAdd key c a b)) =
      (if unat S div 2 ^ 32 = 0 then int (lval c') else (int (lval c') - int (lval n)) mod int (kR key))"
    using res subM_val(2) [OF key len(1)]
    by (simp add: word_unat_eq_iff [of "drop_bit 32 S"] unat_drop_bit kmod_def n_def)
  moreover have "lval n < kR key" using kmod_less [OF key] by (simp add: kmod_def n_def)
  moreover have "2 ^ 32 * (lval c' + kR key * (unat S div 2 ^ 32)) =
      unat a * lval b + lval c + unat d0 * lval n" unfolding c' by (rule T)
  ultimately show "(2 ^ 32 * int (lval (montMulAdd key c a b))) mod int (kmod key) =
      (int (unat a) * int (lval b) + int (lval c)) mod int (kmod key)"
    unfolding kmod_def n_def [symmetric] by (intro redc_val)
qed

section \<open>Montgomery multiplication and exponentiation\<close>

lemma montMul_prefix:
  assumes key: "key_ok key" and "length a = klen key" "length b = klen key" "i \<le> klen key"
  defines "c \<equiv> fold (\<lambda>i c. montMulAdd key c (a ! i) b) [0..<i] (replicate (klen key) 0)"
  shows "length c = klen key \<and>
    (2 ^ (32 * i) * int (lval c)) mod int (kmod key) =
      (int (lval (take i a)) * int (lval b)) mod int (kmod key)"
  using assms(4) unfolding c_def
proof (induction i)
  case (Suc i)
  define d where "d = fold (\<lambda>i c. montMulAdd key c (a ! i) b) [0..<i] (replicate (klen key) 0)"
  let ?n = "int (kmod key)"
  have d: "length d = klen key"
    "(2 ^ (32 * i) * int (lval d)) mod ?n = (int (lval (take i a)) * int (lval b)) mod ?n"
    using Suc by (simp_all add: d_def)
  define e where "e = montMulAdd key d (a ! i) b"
  have e: "length e = klen key"
    "(2 ^ 32 * int (lval e)) mod ?n = (int (unat (a ! i)) * int (lval b) + int (lval d)) mod ?n"
    unfolding e_def using montMulAdd_val [OF key assms(3) d(1)] by blast+
  have "(2 ^ (32 * Suc i) * int (lval e)) mod ?n = (2 ^ (32 * i) * ((2 ^ 32 * int (lval e)) mod ?n)) mod ?n"
    by (simp add: mod_mult_right_eq power_add ac_simps)
  also have "\<dots> = (2 ^ (32 * i) * (int (unat (a ! i)) * int (lval b)) + 2 ^ (32 * i) * int (lval d)) mod ?n"
    unfolding e(2) by (simp only: mod_mult_right_eq distrib_left)
  also have "\<dots> = (2 ^ (32 * i) * (int (unat (a ! i)) * int (lval b)) + int (lval (take i a)) * int (lval b)) mod ?n"
    using d(2) by (intro mod_add_cong) simp_all
  also have "\<dots> = (int (lval (take (Suc i) a)) * int (lval b)) mod ?n"
    using assms(2) Suc.prems by (simp add: take_Suc_conv_app_nth lval_append algebra_simps)
  finally show ?case using e(1) by (simp add: d_def e_def)
qed simp

lemma montMul_val:
  assumes "key_ok key" and "length a = klen key" "length b = klen key"
  shows "length (montMul key a b) = klen key"
    and "(int (kR key) * int (lval (montMul key a b))) mod int (kmod key) =
      (int (lval a) * int (lval b)) mod int (kmod key)"
  using montMul_prefix [OF assms order_refl] assms(2) by (simp_all add: montMul_def kR_def)

lemma key_ok_odd:
  assumes "key_ok key" shows "odd (kmod key)"
proof -
  have "even (unat (key_n key ! 0) * unat (n0inv key) + 1)"
  proof (rule dvd_trans)
    show "2 ^ 32 dvd unat (key_n key ! 0) * unat (n0inv key) + 1"
      using assms by (simp add: key_ok_def dvd_eq_mod_eq_0)
  qed simp
  then have "odd (unat (modulus key ! 0))" using modulus_0 [OF assms] by auto
  then show ?thesis
    unfolding kmod_def by (subst modulus_Cons [OF assms]) simp
qed

interpretation rsa: montgomery key_ok "\<lambda>key. int (kmod key)" "\<lambda>key. int (kR key)"
  "\<lambda>key a. length a = klen key" "\<lambda>a. int (lval a)" montMul
proof
  fix key assume "key_ok key"
  then have "coprime (2 :: int) (int (kmod key))" using key_ok_odd by (simp add: coprime_left_2_iff_odd)
  then show "coprime (int (kR key)) (int (kmod key))" by (simp add: kR_def)
qed (simp_all add: montMul_val)

text \<open>A key with its Montgomery constant and a modulus that uses all its digits.\<close>

definition key_good :: "RSAPublicKey \<Rightarrow> bool" where
  "key_good key \<longleftrightarrow> key_ok key \<and> kR key \<le> 2 * kmod key \<and>
     lval (take (klen key) (key_rr key)) mod kmod key = kR key ^ 2 mod kmod key"

lemma modpow_words_eq:
  assumes "length inout = 4 * klen key"
  shows "modpow_words key inout = rev (load_words inout)"
    and "length (modpow_words key inout) = klen key"
    and "lval (modpow_words key inout) = bval inout"
proof -
  have len: "length (load_words inout) = klen key"
    using be32_load_words [OF assms] by simp
  show eq: "modpow_words key inout = rev (load_words inout)"
    using len load_words_nth [OF assms]
    by (intro nth_equalityI) (auto simp: modpow_words_def rev_nth Let_def mult.commute)
  show "length (modpow_words key inout) = klen key" by (simp add: modpow_words_def)
  have "lval (rev (load_words inout)) = bval (concat (map be32 (load_words inout)))"
    by (simp only: bval_digits)
  then show "lval (modpow_words key inout) = bval inout"
    using be32_load_words [OF assms] eq by simp
qed

lemma modpow_bytes_eq:
  assumes "length aaa = klen key"
  shows "modpow_bytes key aaa = concat (map be32 (rev aaa))"
    and "bval (modpow_bytes key aaa) = lval aaa"
    and "length (modpow_bytes key aaa) = 4 * klen key"
proof -
  have "map (\<lambda>i. be32 (aaa ! i)) (rev [0..<klen key]) = map be32 (rev aaa)"
    using assms by (intro nth_equalityI) (simp_all add: rev_nth)
  then show eq: "modpow_bytes key aaa = concat (map be32 (rev aaa))"
    by (simp add: modpow_bytes_def)
  show "bval (modpow_bytes key aaa) = lval aaa"
    using bval_digits [of "rev aaa"] by (simp add: eq)
  show "length (modpow_bytes key aaa) = 4 * klen key"
    by (simp add: modpow_bytes_def length_concat o_def sum_list_triv)
qed

text \<open>The final conditional subtraction.\<close>

lemma reduce_once:
  assumes "key_good key" "length a = klen key"
  defines "r \<equiv> (if geM key a then subM key a else a)"
  shows "length r = klen key" and "lval r = lval a mod kmod key"
proof -
  have key: "key_ok key" using assms(1) by (simp add: key_good_def)
  show "length r = klen key" using assms(2) subM_val(1) [OF key] by (simp add: r_def)
  have lt: "lval a < 2 * kmod key"
    using lval_less [of a] assms(1,2) by (simp add: key_good_def kR_def)
  show "lval r = lval a mod kmod key"
  proof (cases "kmod key \<le> lval a")
    case True
    then have "int (lval r) = (int (lval a) - int (kmod key)) mod int (kR key)"
      using subM_val(2) [OF key assms(2)] geM_val [OF key assms(2)] by (simp add: r_def)
    also have "\<dots> = int (lval a) - int (kmod key)"
      using True lt kmod_less [OF key] by (intro mod_pos_pos_trivial) auto
    also have "\<dots> = int (lval a - kmod key)" using True by simp
    finally have "lval r = lval a - kmod key" by (simp only: of_nat_eq_iff)
    then show ?thesis using True lt by (simp add: mod_if)
  next
    case False
    then show ?thesis using geM_val [OF key assms(2)] by (simp add: r_def)
  qed
qed

lemma modpow_power:
  assumes good: "key_good key" and e: "exponent key = 3 \<or> exponent key = 65537"
    and len: "length inout = 4 * klen key"
  obtains out where "modpow key inout = Some out" and "length out = 4 * klen key"
    and "bval out = bval inout ^ nat (exponent key) mod kmod key"
proof -
  have key: "key_ok key" using good by (simp add: key_good_def)
  define a where "a = modpow_words key inout"
  have a: "length a = klen key" "lval a = bval inout"
    using modpow_words_eq [OF len] by (simp_all add: a_def)
  define rr where "rr = take (klen key) (key_rr key)"
  have rr: "length rr = klen key" using key by (simp add: rr_def key_ok_def)
  have "int (lval rr) mod int (kmod key) = (int (kR key) * int (kR key)) mod int (kmod key)"
    using good by (metis key_good_def of_nat_mod of_nat_mult power2_eq_square rr_def)
  note aR = rsa.mul_enter [OF key a(1) rr this]
  note laR = rsa.mul_ok [OF key a(1) rr]
  define aaa where "aaa = (if exponent key = 65537
      then montMul key (((\<lambda>x. montMul key x x) ^^ 16) (montMul key a rr)) a
      else montMul key (montMul key (montMul key a rr) (montMul key a rr)) a)"
  have "length aaa = klen key \<and>
      int (lval aaa) mod int (kmod key) = (int (lval a) ^ nat (exponent key)) mod int (kmod key)"
    using e
  proof
    assume e3: "exponent key = 3"
    have "int (lval a) ^ 3 = int (lval a) * int (lval a) * int (lval a)" by (simp add: power3_eq_cube)
    then show ?thesis
      using e3 rsa.mul_leave [OF key rsa.mul_ok [OF key laR laR] a(1) rsa.mul_rep [OF key laR laR aR aR]]
        montMul_val(1) [OF key] a laR by (simp add: aaa_def)
  next
    assume e6: "exponent key = 65537"
    have "int (lval a) ^ 65537 = int (lval a) ^ 2 ^ 16 * int (lval a)"
      by (simp flip: power_Suc2)
    then show ?thesis
      using e6 rsa.square_rep [OF key laR aR, of 16] a
        rsa.mul_leave [OF key _ a(1), of "((\<lambda>x. montMul key x x) ^^ 16) (montMul key a rr)"]
        montMul_val(1) [OF key] by (simp add: aaa_def)
  qed
  then have aaa: "length aaa = klen key" "lval aaa mod kmod key = lval a ^ nat (exponent key) mod kmod key"
    by (auto simp flip: of_nat_power of_nat_mod simp del: of_nat_power of_nat_mod)
  define r where "r = (if geM key aaa then subM key aaa else aaa)"
  have r: "length r = klen key" "lval r = lval a ^ nat (exponent key) mod kmod key"
    using reduce_once [OF good aaa(1)] aaa(2) by (simp_all add: r_def)
  have sq: "fold (\<lambda>_ x. montMul key (montMul key x x) (montMul key x x)) [0..<8] y =
      ((\<lambda>x. montMul key x x) ^^ 16) y" for y
    by (simp add: numeral_nat upt_rec funpow_swap1)
  have "modpow key inout = Some (modpow_bytes key r)"
    using e len sq unfolding modpow_def Let_def a_def [symmetric] rr_def [symmetric]
    by (auto simp: aaa_def r_def)
  then show thesis
    by (rule that) (simp_all add: modpow_bytes_eq(2,3) r a(2))
qed

text \<open>
  C12. \<open>montMul\<close> is a Montgomery multiplication for every key with an odd modulus and its inverse:
  the result has \<open>len\<close> digits and is \<open>a b / R\<close> modulo \<open>n\<close>, for all digit arrays \<open>a\<close> and \<open>b\<close>, reduced
  or not. In particular no 64-bit accumulator overflows on the way.
\<close>

theorem montMul_correct:
  assumes "key_ok key" and "length a = klen key" and "length b = klen key"
  shows "length (montMul key a b) = klen key \<and>
    (kR key * lval (montMul key a b)) mod kmod key = (lval a * lval b) mod kmod key"
proof -
  have "int ((kR key * lval (montMul key a b)) mod kmod key) = int ((lval a * lval b) mod kmod key)"
    using montMul_val(2) [OF assms] by (simp add: of_nat_mod)
  then show ?thesis using montMul_val(1) [OF assms] by (simp only: of_nat_eq_iff simp_thms)
qed

text \<open>
  C11. \<open>modpow\<close> computes \<open>s\<^sup>e mod n\<close> on big-endian byte strings of the key's length, for both
  supported exponents, fully reduced.
\<close>

theorem modpow_correct:
  assumes "key_good key" and "exponent key = 3 \<or> exponent key = 65537"
    and "length inout = 4 * klen key"
  shows "\<exists>out. modpow key inout = Some out \<and> length out = 4 * klen key \<and>
    bval out = bval inout ^ nat (exponent key) mod kmod key"
  using modpow_power [OF assms] by metis

text \<open>A one-digit key, n = 0xfffffffb.\<close>

definition demo_key :: RSAPublicKey where
  "demo_key = \<lparr>key_len = 1, n0inv = 0xcccccccd, key_n = [0xfffffffb], key_rr = [25], exponent = 3\<rparr>"

lemma demo_key_good: "key_good demo_key"
  by (simp add: key_good_def key_ok_def demo_key_def klen_def kmod_def kR_def modulus_def)

theorem montMul_correct_witness:
  "length (montMul demo_key [0xfffffffe] [0xffffffff]) = klen demo_key \<and>
    (kR demo_key * lval (montMul demo_key [0xfffffffe] [0xffffffff])) mod kmod demo_key =
    (lval [0xfffffffe] * lval [0xffffffff]) mod kmod demo_key"
  using montMul_correct [of demo_key "[0xfffffffe]" "[0xffffffff]"] demo_key_good
  by (simp add: key_good_def demo_key_def klen_def)

theorem modpow_correct_witness:
  "\<exists>out. modpow demo_key [0, 0, 0, 7] = Some out \<and> length out = 4 \<and> bval out = 343"
  using modpow_correct [OF demo_key_good, of "[0, 0, 0, 7]"]
  by (simp add: demo_key_def klen_def kmod_def modulus_def)

end
