(* ===== verification/Hash_Eval.thy ===== *)
theory Hash_Eval
  imports Hash
begin

text \<open>
  Running the hashes inside the logic: both compression functions as loops over a window of sixteen
  schedule words, and the same loops on integers, where the simplifier computes quickly.
\<close>

section \<open>Rolling message schedule\<close>

fun sha1_run :: "nat list \<Rightarrow> u32 list \<Rightarrow> u32 \<times> u32 \<times> u32 \<times> u32 \<times> u32 \<Rightarrow> u32 \<times> u32 \<times> u32 \<times> u32 \<times> u32" where
  "sha1_run [] ws s = s"
| "sha1_run (t # ts) ws s =
     sha1_run ts (tl ws @ [rol 1 (ws ! 13 XOR ws ! 8 XOR ws ! 2 XOR ws ! 0)]) (SHA1_round t (ws ! 0) s)"

fun sha256_run :: "u32 list \<Rightarrow> u32 list \<Rightarrow>
    u32 \<times> u32 \<times> u32 \<times> u32 \<times> u32 \<times> u32 \<times> u32 \<times> u32 \<Rightarrow> u32 \<times> u32 \<times> u32 \<times> u32 \<times> u32 \<times> u32 \<times> u32 \<times> u32" where
  "sha256_run [] ws s = s"
| "sha256_run (k # ks) ws s =
     sha256_run ks
       (tl ws @ [ws ! 0 + (ror (ws ! 1) 7 XOR ror (ws ! 1) 18 XOR shr (ws ! 1) 3) + ws ! 9
                   + (ror (ws ! 14) 17 XOR ror (ws ! 14) 19 XOR shr (ws ! 14) 10)])
       (SHA256_round k (ws ! 0) s)"

lemma window_step:
  assumes "length ws = 16" and "\<And>j. j < 16 \<Longrightarrow> ws ! j = W (t + j)" and "x = W (t + 16)" and "j < 16"
  shows "(tl ws @ [x]) ! j = W (Suc t + j)"
proof (cases "j = 15")
  case True
  then show ?thesis using assms(1,3) by (simp add: nth_append add.commute)
next
  case False
  then have "Suc j < 16" using assms(4) by simp
  then show ?thesis using assms(1) assms(2) [of "Suc j"] by (simp add: nth_append nth_tl)
qed

lemma sha1_run_fips:
  assumes "length ws = 16" and "\<And>j. j < 16 \<Longrightarrow> ws ! j = fips_sha1_W blk (t + j)"
  shows "sha1_run [t..<t + n] ws s = fold (fips_sha1_step blk) [t..<t + n] s"
  using assms
proof (induction n arbitrary: t ws s)
  case (Suc n)
  let ?w = "rol 1 (ws ! 13 XOR ws ! 8 XOR ws ! 2 XOR ws ! 0)"
  have "?w = fips_sha1_W blk (t + 16)"
    using Suc.prems(2) by (subst fips_sha1_W.simps) (simp add: rol_rotl add.commute [of t])
  then have "sha1_run [Suc t..<Suc t + n] (tl ws @ [?w]) s' = fold (fips_sha1_step blk) [Suc t..<Suc t + n] s'" for s'
    using Suc.prems by (intro Suc.IH window_step [OF Suc.prems]) simp_all
  moreover have "SHA1_round t (ws ! 0) = fips_sha1_step blk t"
    using Suc.prems(2) [of 0] by (intro SHA1_round_fips) simp
  ultimately show ?case by (simp add: upt_conv_Cons del: upt_Suc)
qed simp

lemma sha256_run_fips:
  assumes "length ws = 16" and "\<And>j. j < 16 \<Longrightarrow> ws ! j = fips_sha256_W blk (t + j)"
  shows "sha256_run (map ((!) K256) [t..<t + n]) ws s = fold (fips_sha256_step blk) [t..<t + n] s"
  using assms
proof (induction n arbitrary: t ws s)
  case (Suc n)
  let ?w = "ws ! 0 + (ror (ws ! 1) 7 XOR ror (ws ! 1) 18 XOR shr (ws ! 1) 3) + ws ! 9
                   + (ror (ws ! 14) 17 XOR ror (ws ! 14) 19 XOR shr (ws ! 14) 10)"
  have "?w = fips_sha256_W blk (t + 16)"
    using Suc.prems(2) [of 0] Suc.prems(2) [of 1] Suc.prems(2) [of 9] Suc.prems(2) [of 14]
    by (subst fips_sha256_W.simps) (simp add: ror_rotr shr_def Let_def algebra_simps)
  then have "sha256_run (map ((!) K256) [Suc t..<Suc t + n]) (tl ws @ [?w]) s' =
      fold (fips_sha256_step blk) [Suc t..<Suc t + n] s'" for s'
    using Suc.prems by (intro Suc.IH window_step [OF Suc.prems]) simp_all
  moreover have "SHA256_round (K256 ! t) (ws ! 0) = fips_sha256_step blk t"
    using Suc.prems(2) [of 0] by (intro SHA256_round_fips) simp
  ultimately show ?case by (simp add: upt_conv_Cons del: upt_Suc)
qed simp

section \<open>Words as numbers\<close>

text \<open>Rotation to the right, and the low 32 bits, by shifts and multiplications of numerals.\<close>

definition rotr_n :: "nat \<Rightarrow> int \<Rightarrow> int" where
  "rotr_n n v = (let h = drop_bit n v in (v - h * 2 ^ n) * 2 ^ (32 - n) + h)"

definition low :: "int \<Rightarrow> int" where
  "low v = (let h = drop_bit 32 v in v - h * 4294967296)"

lemma low_mod: "low v = v mod 2 ^ 32"
  by (simp add: low_def Let_def drop_bit_eq_div minus_div_mult_eq_mod)

lemma uint_ror:
  assumes "0 < n" "n < 32"
  shows "uint (ror v n) = rotr_n n (uint v)"
proof -
  have split: "(2 :: nat) ^ 32 = 2 ^ n * 2 ^ (32 - n)" using assms by (simp flip: power_add)
  have "drop_bit n v AND push_bit (32 - n) v = 0"
    by (rule bit_word_eqI) (use assms in \<open>auto simp: bit_simps dest: bit_imp_le_length\<close>)
  then have r: "ror v n = push_bit (32 - n) v + drop_bit n v"
    by (simp add: ror_def disjunctive_add_eq_or add.commute)
  have "unat (push_bit (32 - n) v) = (unat v * 2 ^ (32 - n)) mod 2 ^ 32"
    unfolding unsigned_push_bit_eq by (simp add: push_bit_eq_mult take_bit_eq_mod)
  then have p: "unat (push_bit (32 - n) v) = unat v mod 2 ^ n * 2 ^ (32 - n)"
    unfolding split by (simp only: mult_mod_left)
  have d: "unat (drop_bit n v) = unat v div 2 ^ n" by (rule unat_drop_bit)
  have "unat v < 2 ^ n * 2 ^ (32 - n)" using u32_lt [of v] unfolding split [symmetric] by simp
  then have "unat v div 2 ^ n < 2 ^ (32 - n)"
    by (simp add: less_mult_imp_div_less mult.commute)
  moreover have "unat v mod 2 ^ n + 1 \<le> 2 ^ n" by (simp add: Suc_leI)
  then have "(unat v mod 2 ^ n + 1) * 2 ^ (32 - n) \<le> 2 ^ n * 2 ^ (32 - n)" by (rule mult_le_mono1)
  ultimately have "unat v mod 2 ^ n * 2 ^ (32 - n) + unat v div 2 ^ n < 2 ^ 32"
    unfolding split add_mult_distrib by linarith
  then have "unat (push_bit (32 - n) v) + unat (drop_bit n v) < 2 ^ LENGTH(32)"
    unfolding p d by simp
  then have "unat (ror v n) = unat v mod 2 ^ n * 2 ^ (32 - n) + unat v div 2 ^ n"
    unfolding r by (simp only: unat_add_exact p d)
  then have "int (unat (ror v n)) = int (unat v mod 2 ^ n * 2 ^ (32 - n) + unat v div 2 ^ n)"
    by (rule arg_cong)
  then have "uint (ror v n) = uint v mod 2 ^ n * 2 ^ (32 - n) + uint v div 2 ^ n"
    by (simp add: of_nat_mod of_nat_div)
  then show ?thesis
    by (simp add: rotr_n_def Let_def drop_bit_eq_div minus_div_mult_eq_mod)
qed

lemma uint_rol: "0 < n \<Longrightarrow> n < 32 \<Longrightarrow> uint (rol n v) = rotr_n (32 - n) (uint v)"
  using uint_ror [of "32 - n" v] by (simp add: rol_def ror_def or.commute)

lemma uint_add_low: "uint (x + y :: u32) = low (uint x + uint y)"
  by (simp add: low_mod uint_word_ariths)

lemma low_low: "low (low x + y) = low (x + y)" "low (x + low y) = low (x + y)"
  by (simp_all add: low_mod mod_add_left_eq mod_add_right_eq)

lemma uint_logic:
  "uint (x XOR y) = uint x XOR uint y" "uint (x AND y) = uint x AND uint y"
  for x y :: u32
  by (simp_all add: unsigned_xor_eq unsigned_and_eq)

section \<open>The loops on numbers\<close>

fun st5 :: "u32 \<times> u32 \<times> u32 \<times> u32 \<times> u32 \<Rightarrow> int \<times> int \<times> int \<times> int \<times> int" where
  "st5 (a, b, c, d, e) = (uint a, uint b, uint c, uint d, uint e)"

fun st8 :: "u32 \<times> u32 \<times> u32 \<times> u32 \<times> u32 \<times> u32 \<times> u32 \<times> u32
    \<Rightarrow> int \<times> int \<times> int \<times> int \<times> int \<times> int \<times> int \<times> int" where
  "st8 (a, b, c, d, e, f, g, h) = (uint a, uint b, uint c, uint d, uint e, uint f, uint g, uint h)"

fun sha1_step_n :: "nat \<Rightarrow> int \<Rightarrow> int \<times> int \<times> int \<times> int \<times> int \<Rightarrow> int \<times> int \<times> int \<times> int \<times> int" where
  "sha1_step_n t w (a, b, c, d, e) =
     (low (rotr_n 27 a + e + w +
        (if t < 20 then (d XOR (b AND (c XOR d))) + 0x5A827999
         else if t < 40 then (b XOR c XOR d) + 0x6ED9EBA1
         else if t < 60 then ((b AND c) XOR (d AND (b XOR c))) + 0x8F1BBCDC
         else (b XOR c XOR d) + 0xCA62C1D6)),
      a, rotr_n 2 b, c, d)"

fun sha1_run_n :: "nat list \<Rightarrow> int list \<Rightarrow> int \<times> int \<times> int \<times> int \<times> int \<Rightarrow> int \<times> int \<times> int \<times> int \<times> int" where
  "sha1_run_n [] ws s = s"
| "sha1_run_n (t # ts) ws s =
     sha1_run_n ts (tl ws @ [rotr_n 31 (ws ! 13 XOR ws ! 8 XOR ws ! 2 XOR ws ! 0)]) (sha1_step_n t (ws ! 0) s)"

fun sha256_step_n :: "int \<Rightarrow> int \<Rightarrow> int \<times> int \<times> int \<times> int \<times> int \<times> int \<times> int \<times> int
    \<Rightarrow> int \<times> int \<times> int \<times> int \<times> int \<times> int \<times> int \<times> int" where
  "sha256_step_n k w (a, b, c, d, e, f, g, h) =
     (let t1 = h + (rotr_n 6 e XOR rotr_n 11 e XOR rotr_n 25 e) + (g XOR (e AND (f XOR g))) + k + w
      in (low (t1 + ((rotr_n 2 a XOR rotr_n 13 a XOR rotr_n 22 a) + ((a AND b) XOR (c AND (a XOR b))))),
          a, b, c, low (d + t1), e, f, g))"

fun sha256_run_n :: "int list \<Rightarrow> int list \<Rightarrow> int \<times> int \<times> int \<times> int \<times> int \<times> int \<times> int \<times> int
    \<Rightarrow> int \<times> int \<times> int \<times> int \<times> int \<times> int \<times> int \<times> int" where
  "sha256_run_n [] ws s = s"
| "sha256_run_n (k # ks) ws s =
     sha256_run_n ks
       (tl ws @ [low (ws ! 0 + (rotr_n 7 (ws ! 1) XOR rotr_n 18 (ws ! 1) XOR drop_bit 3 (ws ! 1)) + ws ! 9
                   + (rotr_n 17 (ws ! 14) XOR rotr_n 19 (ws ! 14) XOR drop_bit 10 (ws ! 14)))])
       (sha256_step_n k (ws ! 0) s)"

lemma sha1_maj: "((b AND c) OR (d AND (b OR c))) = (b AND c) XOR (d AND (b XOR c))" for b c d :: u32
  by (rule bit_word_eqI) (auto simp: bit_simps)

lemma sha256_choice: "(e AND f) XOR (NOT e AND g) = g XOR (e AND (f XOR g))" for e f g :: u32
  by (rule bit_word_eqI) (auto simp: bit_simps)

lemma sha256_maj: "(a AND b) XOR (a AND c) XOR (b AND c) = (a AND b) XOR (c AND (a XOR b))" for a b c :: u32
  by (rule bit_word_eqI) (auto simp: bit_simps)

lemma uint_drop: "uint (drop_bit n (x :: u32)) = drop_bit n (uint x)"
  using uint_lt2p [of x] by (simp add: unsigned_drop_bit_eq take_bit_int_eq_self)

lemmas uint_round = uint_add_low low_low uint_logic uint_ror uint_rol uint_drop

lemma sha1_step_n: "sha1_step_n t (uint w) (st5 s) = st5 (SHA1_round t w s)"
  by (cases s) (simp add: SHA1_round_def Let_def sha1_maj uint_round add.assoc)

lemma sha256_step_n: "sha256_step_n (uint k) (uint w) (st8 s) = st8 (SHA256_round k w s)"
  by (cases s rule: st8.cases) (simp add: SHA256_round_def Let_def sha256_choice sha256_maj uint_round add.assoc add.left_commute add.commute)

lemma sha1_run_n:
  "length ws = 16 \<Longrightarrow> sha1_run_n ts (map uint ws) (st5 s) = st5 (sha1_run ts ws s)"
proof (induction ts arbitrary: ws s)
  case (Cons t ts)
  let ?w = "rol 1 (ws ! 13 XOR ws ! 8 XOR ws ! 2 XOR ws ! 0)"
  have "length (tl ws @ [?w]) = 16" using Cons.prems by simp
  from Cons.IH [OF this] show ?case
    using Cons.prems by (simp add: sha1_step_n uint_rol uint_logic map_tl)
qed simp

lemma sha256_run_n:
  "length ws = 16 \<Longrightarrow> sha256_run_n (map uint ks) (map uint ws) (st8 s) = st8 (sha256_run ks ws s)"
proof (induction ks arbitrary: ws s)
  case (Cons k ks)
  let ?w = "ws ! 0 + (ror (ws ! 1) 7 XOR ror (ws ! 1) 18 XOR shr (ws ! 1) 3) + ws ! 9
                   + (ror (ws ! 14) 17 XOR ror (ws ! 14) 19 XOR shr (ws ! 14) 10)"
  have "length (tl ws @ [?w]) = 16" using Cons.prems by simp
  from Cons.IH [OF this] show ?case
    using Cons.prems by (simp add: sha256_step_n uint_round shr_def map_tl)
qed simp


lemma sha1_run_n_Cons:
  "sha1_run_n (t # ts) [w0, w1, w2, w3, w4, w5, w6, w7, w8, w9, w10, w11, w12, w13, w14, w15] s =
    sha1_run_n ts [w1, w2, w3, w4, w5, w6, w7, w8, w9, w10, w11, w12, w13, w14, w15,
      rotr_n 31 (w13 XOR w8 XOR w2 XOR w0)] (sha1_step_n t w0 s)"
  by simp

lemma sha256_run_n_Cons:
  "sha256_run_n (k # ks) [w0, w1, w2, w3, w4, w5, w6, w7, w8, w9, w10, w11, w12, w13, w14, w15] s =
    sha256_run_n ks [w1, w2, w3, w4, w5, w6, w7, w8, w9, w10, w11, w12, w13, w14, w15,
      low (w0 + (rotr_n 7 w1 XOR rotr_n 18 w1 XOR drop_bit 3 w1) + w9
             + (rotr_n 17 w14 XOR rotr_n 19 w14 XOR drop_bit 10 w14))] (sha256_step_n k w0 s)"
  by simp

lemma sha1_run_n_cong: "ws = ws' \<Longrightarrow> s = s' \<Longrightarrow> sha1_run_n ts ws s = sha1_run_n ts ws' s'"
  by simp

lemma sha256_run_n_cong: "ws = ws' \<Longrightarrow> s = s' \<Longrightarrow> sha256_run_n ts ws s = sha256_run_n ts ws' s'"
  by simp

declare sha1_run_n.simps(2) [simp del] sha256_run_n.simps(2) [simp del]
section \<open>Whole messages\<close>

definition sha1_block_n :: "int list \<Rightarrow> int list \<Rightarrow> int list" where
  "sha1_block_n H ws =
     (case sha1_run_n [0..<80] ws (H ! 0, H ! 1, H ! 2, H ! 3, H ! 4) of
        (a, b, c, d, e) \<Rightarrow> [low (a + H ! 0), low (b + H ! 1), low (c + H ! 2), low (d + H ! 3), low (e + H ! 4)])"

definition sha256_block_n :: "int list \<Rightarrow> int list \<Rightarrow> int list" where
  "sha256_block_n H ws =
     (case sha256_run_n (map uint K256) ws (H ! 0, H ! 1, H ! 2, H ! 3, H ! 4, H ! 5, H ! 6, H ! 7) of
        (a, b, c, d, e, f, g, h) \<Rightarrow>
          [low (a + H ! 0), low (b + H ! 1), low (c + H ! 2), low (d + H ! 3),
           low (e + H ! 4), low (f + H ! 5), low (g + H ! 6), low (h + H ! 7)])"

lemma block_window:
  assumes "length blk = 64" "j < 16"
  shows "load_words blk ! j = be_word (blk ! (4 * j)) (blk ! (4 * j + 1)) (blk ! (4 * j + 2)) (blk ! (4 * j + 3))"
  using load_words_nth [of blk 16 j] assms by simp

lemma sha1_block_n:
  assumes "length H = 5" "length blk = 64"
  shows "sha1_block_n (map uint H) (map uint (load_words blk)) = map uint (fips_sha1_compress H blk)"
proof -
  have len: "length (load_words blk) = 16" using load_words_nth [of blk 16 0] assms(2) by simp
  have "sha1_run [0..<0 + 80] (load_words blk) s = fold (fips_sha1_step blk) [0..<0 + 80] s" for s
    using len block_window [OF assms(2)]
    by (intro sha1_run_fips) (auto simp: fips_sha1_W.simps)
  with sha1_run_n [OF len, of "[0..<80]" "(H ! 0, H ! 1, H ! 2, H ! 3, H ! 4)"] assms(1)
  show ?thesis
    by (simp add: sha1_block_n_def fips_sha1_compress_def uint_add_low del: upt_eq_Cons_conv split: prod.splits)
qed

lemma sha256_block_n:
  assumes "length H = 8" "length blk = 64"
  shows "sha256_block_n (map uint H) (map uint (load_words blk)) = map uint (fips_sha256_compress H blk)"
proof -
  have len: "length (load_words blk) = 16" using load_words_nth [of blk 16 0] assms(2) by simp
  have k: "map ((!) K256) [0..<0 + 64] = K256"
    by (intro nth_equalityI) (simp_all add: K256_def)
  have "sha256_run (map ((!) K256) [0..<0 + 64]) (load_words blk) s = fold (fips_sha256_step blk) [0..<0 + 64] s" for s
    using len block_window [OF assms(2)]
    by (intro sha256_run_fips) (auto simp: fips_sha256_W.simps)
  with sha256_run_n [OF len, of K256 "(H ! 0, H ! 1, H ! 2, H ! 3, H ! 4, H ! 5, H ! 6, H ! 7)"] assms(1)
  show ?thesis unfolding k
    by (simp add: sha256_block_n_def fips_sha256_compress_def uint_add_low split: prod.splits)
qed

lemma sha1_chain_n:
  assumes "length H = 5" "\<forall>b \<in> set bs. length b = 64"
  shows "map uint (foldl fips_sha1_compress H bs) =
    foldl sha1_block_n (map uint H) (map (\<lambda>b. map uint (load_words b)) bs)"
  using assms
proof (induction bs arbitrary: H)
  case (Cons b bs)
  then show ?case using sha1_block_n [of H b] by simp
qed simp

lemma sha256_chain_n:
  assumes "length H = 8" "\<forall>b \<in> set bs. length b = 64"
  shows "map uint (foldl fips_sha256_compress H bs) =
    foldl sha256_block_n (map uint H) (map (\<lambda>b. map uint (load_words b)) bs)"
  using assms
proof (induction bs arbitrary: H)
  case (Cons b bs)
  then show ?case using sha256_block_n [of H b] by simp
qed simp

lemma rounds_80: "[0..<80] = [
    0, 1, 2, 3, 4, 5, 6, 7, 8, 9, 10, 11, 12, 13, 14, 15, 16, 17, 18, 19,
    20, 21, 22, 23, 24, 25, 26, 27, 28, 29, 30, 31, 32, 33, 34, 35, 36, 37, 38, 39,
    40, 41, 42, 43, 44, 45, 46, 47, 48, 49, 50, 51, 52, 53, 54, 55, 56, 57, 58, 59,
    60, 61, 62, 63, 64, 65, 66, 67, 68, 69, 70, 71, 72, 73, 74, 75, 76, 77, 78, 79]"
  by code_simp

lemma K256_numbers: "map uint K256 = [
    1116352408, 1899447441, 3049323471, 3921009573, 961987163, 1508970993, 2453635748, 2870763221,
    3624381080, 310598401, 607225278, 1426881987, 1925078388, 2162078206, 2614888103, 3248222580,
    3835390401, 4022224774, 264347078, 604807628, 770255983, 1249150122, 1555081692, 1996064986,
    2554220882, 2821834349, 2952996808, 3210313671, 3336571891, 3584528711, 113926993, 338241895,
    666307205, 773529912, 1294757372, 1396182291, 1695183700, 1986661051, 2177026350, 2456956037,
    2730485921, 2820302411, 3259730800, 3345764771, 3516065817, 3600352804, 4094571909, 275423344,
    430227734, 506948616, 659060556, 883997877, 958139571, 1322822218, 1537002063, 1747873779,
    1955562222, 2024104815, 2227730452, 2361852424, 2428436474, 2756734187, 3204031479, 3329325298]"
  by (simp add: K256_def)

lemmas sha1_eval = sha1_block_n_def [unfolded rounds_80] rotr_n_def low_def sha1_run_n_Cons
lemmas sha256_eval = sha256_block_n_def [unfolded K256_numbers] rotr_n_def low_def sha256_run_n_Cons

end
