(* ===== verification/Rsa_Padding.thy ===== *)
theory Rsa_Padding
  imports Rsa Hash_Eval
begin

text \<open>
  The two padding constants of \<open>libmincrypt/rsa.c\<close>: the PKCS #1 v1.5 paddings the source quotes in
  its comments, hashed inside the logic, and what \<open>RSA_verify\<close> accepts.
\<close>

section \<open>The paddings\<close>

text \<open>The tables \<open>sha_padding\<close> and \<open>sha256_padding\<close>, with zeros where the hash goes.\<close>

definition sha_padding :: bytes where
  "sha_padding = [0x00, 0x01] @ replicate 218 0xff @
     [0, 48, 33, 48, 9, 6, 5, 43, 14, 3, 2, 26, 5, 0, 4, 20] @
     replicate 20 0"

definition sha256_padding :: bytes where
  "sha256_padding = [0x00, 0x01] @ replicate 202 0xff @
     [0, 48, 49, 48, 13, 6, 9, 96, 134, 72, 1, 101, 3, 4, 2, 1,
      5, 0, 4, 32] @ replicate 32 0"

lemma length_paddings [simp]: "length sha_padding = 256" "length sha256_padding = 256"
  by (simp_all add: sha_padding_def sha256_padding_def)

section \<open>Their digests, block by block\<close>

lemma sha1_pad_block1:
  "sha1_block_n [0x67452301, 0xefcdab89, 0x98badcfe, 0x10325476, 0xc3d2e1f0]
     [0x0001ffff, 0xffffffff, 0xffffffff, 0xffffffff, 0xffffffff, 0xffffffff, 0xffffffff, 0xffffffff, 0xffffffff, 0xffffffff, 0xffffffff, 0xffffffff, 0xffffffff, 0xffffffff, 0xffffffff, 0xffffffff] =
   [0x4003f2f0, 0x75c62e8b, 0x9044a738, 0xdaa81547, 0xe09843a8]"
  by (simp add: sha1_eval cong: sha1_run_n_cong)

lemma sha1_pad_block2:
  "sha1_block_n [0x4003f2f0, 0x75c62e8b, 0x9044a738, 0xdaa81547, 0xe09843a8]
     [0xffffffff, 0xffffffff, 0xffffffff, 0xffffffff, 0xffffffff, 0xffffffff, 0xffffffff, 0xffffffff, 0xffffffff, 0xffffffff, 0xffffffff, 0xffffffff, 0xffffffff, 0xffffffff, 0xffffffff, 0xffffffff] =
   [0x69b147d3, 0x0f655e90, 0xbd4c7e23, 0x3100d38e, 0x2778430e]"
  by (simp add: sha1_eval cong: sha1_run_n_cong)

lemma sha1_pad_block3:
  "sha1_block_n [0x69b147d3, 0x0f655e90, 0xbd4c7e23, 0x3100d38e, 0x2778430e]
     [0xffffffff, 0xffffffff, 0xffffffff, 0xffffffff, 0xffffffff, 0xffffffff, 0xffffffff, 0xffffffff, 0xffffffff, 0xffffffff, 0xffffffff, 0xffffffff, 0xffffffff, 0xffffffff, 0xffffffff, 0xffffffff] =
   [0x7bf5ba85, 0xcd86fe7d, 0x3bc37161, 0x0eeece7e, 0x4f86ba5c]"
  by (simp add: sha1_eval cong: sha1_run_n_cong)

lemma sha1_pad_block4:
  "sha1_block_n [0x7bf5ba85, 0xcd86fe7d, 0x3bc37161, 0x0eeece7e, 0x4f86ba5c]
     [0xffffffff, 0xffffffff, 0xffffffff, 0xffffffff, 0xffffffff, 0xffffffff, 0xffffffff, 0x00302130, 0x0906052b, 0x0e03021a, 0x05000414, 0, 0, 0, 0, 0] =
   [0x1cf8f9a1, 0x46ad33c4, 0xd22449ba, 0x0c6a1830, 0xa008d5e2]"
  by (simp add: sha1_eval cong: sha1_run_n_cong)

lemma sha1_pad_block5:
  "sha1_block_n [0x1cf8f9a1, 0x46ad33c4, 0xd22449ba, 0x0c6a1830, 0xa008d5e2]
     [0x80000000, 0, 0, 0, 0, 0, 0, 0, 0, 0, 0, 0, 0, 0, 0, 0x00000800] =
   [0xdcbdbe42, 0xd5f5a72e, 0x6efcf55d, 0xaf9dea68, 0x7cfbf167]"
  by (simp add: sha1_eval cong: sha1_run_n_cong)

lemma sha256_pad_block1:
  "sha256_block_n [0x6a09e667, 0xbb67ae85, 0x3c6ef372, 0xa54ff53a, 0x510e527f, 0x9b05688c, 0x1f83d9ab, 0x5be0cd19]
     [0x0001ffff, 0xffffffff, 0xffffffff, 0xffffffff, 0xffffffff, 0xffffffff, 0xffffffff, 0xffffffff, 0xffffffff, 0xffffffff, 0xffffffff, 0xffffffff, 0xffffffff, 0xffffffff, 0xffffffff, 0xffffffff] =
   [0x4718c213, 0xaa28e37d, 0x5a33b2de, 0x4c08d13b, 0x03f3ee48, 0x5e20bb95, 0x5d155fec, 0xc2968de2]"
  by (simp add: sha256_eval cong: sha256_run_n_cong)

lemma sha256_pad_block2:
  "sha256_block_n [0x4718c213, 0xaa28e37d, 0x5a33b2de, 0x4c08d13b, 0x03f3ee48, 0x5e20bb95, 0x5d155fec, 0xc2968de2]
     [0xffffffff, 0xffffffff, 0xffffffff, 0xffffffff, 0xffffffff, 0xffffffff, 0xffffffff, 0xffffffff, 0xffffffff, 0xffffffff, 0xffffffff, 0xffffffff, 0xffffffff, 0xffffffff, 0xffffffff, 0xffffffff] =
   [0x79fc2b77, 0x1560fe71, 0x7c24e21f, 0x6952e49a, 0x6381733c, 0xbec6dcd3, 0xbeaad129, 0x3be24a03]"
  by (simp add: sha256_eval cong: sha256_run_n_cong)

lemma sha256_pad_block3:
  "sha256_block_n [0x79fc2b77, 0x1560fe71, 0x7c24e21f, 0x6952e49a, 0x6381733c, 0xbec6dcd3, 0xbeaad129, 0x3be24a03]
     [0xffffffff, 0xffffffff, 0xffffffff, 0xffffffff, 0xffffffff, 0xffffffff, 0xffffffff, 0xffffffff, 0xffffffff, 0xffffffff, 0xffffffff, 0xffffffff, 0xffffffff, 0xffffffff, 0xffffffff, 0xffffffff] =
   [0x3f049b79, 0x255691d5, 0x6e1b3482, 0x3b497317, 0xa7436f2d, 0xc29c3e44, 0xc8e469e4, 0x73460b63]"
  by (simp add: sha256_eval cong: sha256_run_n_cong)

lemma sha256_pad_block4:
  "sha256_block_n [0x3f049b79, 0x255691d5, 0x6e1b3482, 0x3b497317, 0xa7436f2d, 0xc29c3e44, 0xc8e469e4, 0x73460b63]
     [0xffffffff, 0xffffffff, 0xffffffff, 0x00303130, 0x0d060960, 0x86480165, 0x03040201, 0x05000420, 0, 0, 0, 0, 0, 0, 0, 0] =
   [0x228a00e4, 0x836ab0c8, 0xbe03161c, 0x8413c4c9, 0xe72758fd, 0x8237606d, 0xe42e7fb4, 0x46b6cedc]"
  by (simp add: sha256_eval cong: sha256_run_n_cong)

lemma sha256_pad_block5:
  "sha256_block_n [0x228a00e4, 0x836ab0c8, 0xbe03161c, 0x8413c4c9, 0xe72758fd, 0x8237606d, 0xe42e7fb4, 0x46b6cedc]
     [0x80000000, 0, 0, 0, 0, 0, 0, 0, 0, 0, 0, 0, 0, 0, 0, 0x00000800] =
   [0xab288d8a, 0xd7d95992, 0xbaccf867, 0x20e1152e, 0x398d8036, 0xd66ff0fd, 0x90e87d8b, 0xe17c8759]"
  by (simp add: sha256_eval cong: sha256_run_n_cong)

lemma replicate_numeral: "replicate (numeral k) x = x # replicate (pred_numeral k) x"
  by (simp add: numeral_eq_Suc)

lemma uint_be_word: "uint (be_word a b c d) = uint a * 2 ^ 24 + uint b * 2 ^ 16 + uint c * 2 ^ 8 + uint d"
  using arg_cong [OF unat_be_word, of int a b c d] by simp

lemma sha1_pad_words:
  "map (\<lambda>b. map uint (load_words b)) (blocks64 (md_pad sha_padding)) =
     [[0x0001ffff, 0xffffffff, 0xffffffff, 0xffffffff, 0xffffffff, 0xffffffff, 0xffffffff, 0xffffffff, 0xffffffff, 0xffffffff, 0xffffffff, 0xffffffff, 0xffffffff, 0xffffffff, 0xffffffff, 0xffffffff],
      [0xffffffff, 0xffffffff, 0xffffffff, 0xffffffff, 0xffffffff, 0xffffffff, 0xffffffff, 0xffffffff, 0xffffffff, 0xffffffff, 0xffffffff, 0xffffffff, 0xffffffff, 0xffffffff, 0xffffffff, 0xffffffff],
      [0xffffffff, 0xffffffff, 0xffffffff, 0xffffffff, 0xffffffff, 0xffffffff, 0xffffffff, 0xffffffff, 0xffffffff, 0xffffffff, 0xffffffff, 0xffffffff, 0xffffffff, 0xffffffff, 0xffffffff, 0xffffffff],
      [0xffffffff, 0xffffffff, 0xffffffff, 0xffffffff, 0xffffffff, 0xffffffff, 0xffffffff, 0x00302130, 0x0906052b, 0x0e03021a, 0x05000414, 0, 0, 0, 0, 0],
      [0x80000000, 0, 0, 0, 0, 0, 0, 0, 0, 0, 0, 0, 0, 0, 0, 0x00000800]]"
  by (simp add: blocks64_def md_pad_def sha_padding_def pad_len_def be64_def upt_rec)
    (simp add: replicate_numeral uint_be_word)

lemma sha256_pad_words:
  "map (\<lambda>b. map uint (load_words b)) (blocks64 (md_pad sha256_padding)) =
     [[0x0001ffff, 0xffffffff, 0xffffffff, 0xffffffff, 0xffffffff, 0xffffffff, 0xffffffff, 0xffffffff, 0xffffffff, 0xffffffff, 0xffffffff, 0xffffffff, 0xffffffff, 0xffffffff, 0xffffffff, 0xffffffff],
      [0xffffffff, 0xffffffff, 0xffffffff, 0xffffffff, 0xffffffff, 0xffffffff, 0xffffffff, 0xffffffff, 0xffffffff, 0xffffffff, 0xffffffff, 0xffffffff, 0xffffffff, 0xffffffff, 0xffffffff, 0xffffffff],
      [0xffffffff, 0xffffffff, 0xffffffff, 0xffffffff, 0xffffffff, 0xffffffff, 0xffffffff, 0xffffffff, 0xffffffff, 0xffffffff, 0xffffffff, 0xffffffff, 0xffffffff, 0xffffffff, 0xffffffff, 0xffffffff],
      [0xffffffff, 0xffffffff, 0xffffffff, 0x00303130, 0x0d060960, 0x86480165, 0x03040201, 0x05000420, 0, 0, 0, 0, 0, 0, 0, 0],
      [0x80000000, 0, 0, 0, 0, 0, 0, 0, 0, 0, 0, 0, 0, 0, 0, 0x00000800]]"
  by (simp add: blocks64_def md_pad_def sha256_padding_def pad_len_def be64_def upt_rec)
    (simp add: replicate_numeral uint_be_word)

section \<open>The constants\<close>

lemma blocks64_length: "b \<in> set (blocks64 m) \<Longrightarrow> length b = 64"
proof -
  assume "b \<in> set (blocks64 m)"
  then obtain i where i: "i < length m div 64" "b = take 64 (drop (64 * i) m)"
    by (auto simp: blocks64_def)
  then have "64 * Suc i \<le> 64 * (length m div 64)" by (intro mult_le_mono2) simp
  also have "\<dots> \<le> length m" by simp
  finally show ?thesis using i(2) by simp
qed

lemma words_of_uint: "map uint ws = ns \<Longrightarrow> ws = map word_of_int ns"
  by (auto simp: o_def intro: map_idI [symmetric])

lemma kExpectedPadSha_digest:
  "md_digest fips_sha1_compress fips_sha1_iv sha_padding = kExpectedPadShaRsa2048"
proof -
  have "map uint (foldl fips_sha1_compress fips_sha1_iv (blocks64 (md_pad sha_padding))) =
      foldl sha1_block_n (map uint fips_sha1_iv)
        (map (\<lambda>b. map uint (load_words b)) (blocks64 (md_pad sha_padding)))"
    by (rule sha1_chain_n) (simp_all add: blocks64_length)
  also have "\<dots> = [0xdcbdbe42, 0xd5f5a72e, 0x6efcf55d, 0xaf9dea68, 0x7cfbf167]"
    unfolding sha1_pad_words by (simp add: fips_sha1_iv_def sha1_pad_block1 sha1_pad_block2
        sha1_pad_block3 sha1_pad_block4 sha1_pad_block5)
  finally have "foldl fips_sha1_compress fips_sha1_iv (blocks64 (md_pad sha_padding)) =
      [0xdcbdbe42, 0xd5f5a72e, 0x6efcf55d, 0xaf9dea68, 0x7cfbf167]"
    by (drule_tac words_of_uint) simp
  then show ?thesis by (simp add: md_digest_def kExpectedPadShaRsa2048_def be32_def)
qed

lemma kExpectedPadSha256_digest:
  "md_digest fips_sha256_compress fips_sha256_iv sha256_padding = kExpectedPadSha256Rsa2048"
proof -
  have "map uint (foldl fips_sha256_compress fips_sha256_iv (blocks64 (md_pad sha256_padding))) =
      foldl sha256_block_n (map uint fips_sha256_iv)
        (map (\<lambda>b. map uint (load_words b)) (blocks64 (md_pad sha256_padding)))"
    by (rule sha256_chain_n) (simp_all add: blocks64_length)
  also have "\<dots> = [0xab288d8a, 0xd7d95992, 0xbaccf867, 0x20e1152e,
      0x398d8036, 0xd66ff0fd, 0x90e87d8b, 0xe17c8759]"
    unfolding sha256_pad_words by (simp add: fips_sha256_iv_def sha256_pad_block1 sha256_pad_block2
        sha256_pad_block3 sha256_pad_block4 sha256_pad_block5)
  finally have "foldl fips_sha256_compress fips_sha256_iv (blocks64 (md_pad sha256_padding)) =
      [0xab288d8a, 0xd7d95992, 0xbaccf867, 0x20e1152e, 0x398d8036, 0xd66ff0fd, 0x90e87d8b, 0xe17c8759]"
    by (drule_tac words_of_uint) simp
  then show ?thesis by (simp add: md_digest_def kExpectedPadSha256Rsa2048_def be32_def)
qed

end
