(* ===== verification/Rsa_Verify.thy ===== *)
theory Rsa_Verify
  imports Rsa_Padding
begin

text \<open>
  What \<open>RSA_verify\<close> of \<open>libmincrypt/rsa.c\<close> accepts: the PKCS #1 v1.5 encoding of the hash, up to a
  collision of the hash function on the padding.
\<close>

section \<open>The encoded message\<close>

definition hash_padding :: "nat \<Rightarrow> bytes" where
  "hash_padding n = (if n = SHA_DIGEST_SIZE then sha_padding else sha256_padding)"

definition hash_digest :: "nat \<Rightarrow> bytes \<Rightarrow> bytes" where
  "hash_digest n m = (if n = SHA_DIGEST_SIZE then md_digest fips_sha1_compress fips_sha1_iv m
     else md_digest fips_sha256_compress fips_sha256_iv m)"

text \<open>EMSA-PKCS1-v1_5: the padding with the hash in place of its zeros.\<close>

definition pkcs1 :: "bytes \<Rightarrow> bytes" where
  "pkcs1 hash = take (256 - length hash) (hash_padding (length hash)) @ hash"

lemma xor_eq_0: "x XOR y = 0 \<longleftrightarrow> x = (y :: u8)"
  by (metis xor.assoc xor.left_neutral xor_self_eq)

lemma map2_xor_zeros:
  "length xs = length ys \<Longrightarrow> map2 (\<lambda>x h. x XOR h) xs ys = replicate (length ys) 0 \<longleftrightarrow> xs = (ys :: bytes)"
  by (induction xs ys rule: list_induct2) (auto simp: xor_eq_0)

lemma xor_tail_padding:
  assumes "length em = 256" "length hash = SHA_DIGEST_SIZE \<or> length hash = SHA256_DIGEST_SIZE"
  shows "xor_tail em hash (length hash) = hash_padding (length hash) \<longleftrightarrow> em = pkcs1 hash"
proof -
  let ?k = "256 - length hash"
  have le: "length hash \<le> 256" using assms(2) by (auto simp: SHA_DIGEST_SIZE_def SHA256_DIGEST_SIZE_def)
  have pad: "hash_padding (length hash) = take ?k (hash_padding (length hash)) @ replicate (length hash) 0"
    "length (hash_padding (length hash)) = 256"
    using assms(2) by (auto simp: hash_padding_def SHA_DIGEST_SIZE_def SHA256_DIGEST_SIZE_def
        sha_padding_def sha256_padding_def)
  have "xor_tail em hash (length hash) = hash_padding (length hash) \<longleftrightarrow>
      take ?k em = take ?k (hash_padding (length hash)) \<and>
      map2 (\<lambda>x h. x XOR h) (drop ?k em) hash = replicate (length hash) 0"
    using assms(1) le pad(2) by (subst pad(1)) (simp add: xor_tail_def Let_def)
  also have "\<dots> \<longleftrightarrow> take ?k em = take ?k (hash_padding (length hash)) \<and> drop ?k em = hash"
    using assms(1) le by (subst map2_xor_zeros) simp_all
  also have "\<dots> \<longleftrightarrow> em = pkcs1 hash"
    using pad(2) by (metis (no_types, lifting) append_eq_append_conv append_take_drop_id length_take
        assms(1) pkcs1_def)
  finally show ?thesis .
qed

lemma hash_prefix:
  assumes "length (ctx_buf ctx0) = 64" "length (ctx_state ctx0) = 8"
  shows "take SHA_DIGEST_SIZE (SHA_hash ctx0 m buf) = md_digest fips_sha1_compress fips_sha1_iv m"
    and "take SHA256_DIGEST_SIZE (SHA256_hash ctx0 m buf) =
      md_digest fips_sha256_compress fips_sha256_iv m"
  using sha1.hash_digest [OF assms, of m] sha1.length_md_digest [of m]
    sha256.hash_digest [OF assms, of m] sha256.length_md_digest [of m]
  by (simp_all add: SHA_hash_def SHA256_hash_def SHA_DIGEST_SIZE_def SHA256_DIGEST_SIZE_def)

lemma RSA_verify_digest:
  assumes "length (ctx_buf ctx0) = 64" "length (ctx_state ctx0) = 8"
    and "key_len key = RSANUMWORDS" "exponent key = 3 \<or> exponent key = 65537"
    and "length signature = 256" "modpow key signature = Some em"
    and "length hash = SHA_DIGEST_SIZE \<or> length hash = SHA256_DIGEST_SIZE"
  shows "RSA_verify ctx0 key signature RSANUMBYTES hash (int (length hash)) \<longleftrightarrow>
    hash_digest (length hash) (xor_tail em hash (length hash)) =
    hash_digest (length hash) (hash_padding (length hash))"
  using assms(7)
proof
  assume "length hash = SHA_DIGEST_SIZE"
  then show ?thesis
    using assms(3-6) hash_prefix(1) [OF assms(1,2)]
    by (auto simp: RSA_verify_def RSANUMBYTES_def hash_digest_def hash_padding_def Let_def
        kExpectedPadSha_digest)
next
  assume h: "length hash = SHA256_DIGEST_SIZE"
  then have "length hash \<noteq> SHA_DIGEST_SIZE" by (simp add: SHA_DIGEST_SIZE_def SHA256_DIGEST_SIZE_def)
  then show ?thesis
    using h assms(3-6) hash_prefix(2) [OF assms(1,2)]
    by (auto simp: RSA_verify_def RSANUMBYTES_def hash_digest_def hash_padding_def Let_def
        kExpectedPadSha256_digest)
qed

text \<open>
  C8. For a well-formed 2048-bit key, \<open>RSA_verify\<close> accepts a signature exactly if its \<open>e\<close>-th power
  modulo \<open>n\<close> is the PKCS #1 v1.5 encoding of the given hash, unless a second preimage of the
  padding's digest under the hash function is at hand: the block the code hashes then differs
  from the padding but has its digest.
\<close>

theorem RSA_verify_iff:
  assumes "length (ctx_buf ctx0) = 64" "length (ctx_state ctx0) = 8"
    and "key_good key" "key_len key = RSANUMWORDS" "exponent key = 3 \<or> exponent key = 65537"
    and "length signature = 256"
    and "length hash = SHA_DIGEST_SIZE \<or> length hash = SHA256_DIGEST_SIZE"
    and "length em = 256" "bval em = bval signature ^ nat (exponent key) mod kmod key"
    and "x = xor_tail em hash (length hash)" "pad = hash_padding (length hash)"
  shows "RSA_verify ctx0 key signature RSANUMBYTES hash (int (length hash)) \<longleftrightarrow>
    em = pkcs1 hash \<or> (x \<noteq> pad \<and> hash_digest (length hash) x = hash_digest (length hash) pad)"
proof -
  have k: "klen key = 64" using assms(4) by (simp add: klen_def RSANUMWORDS_def)
  obtain out where out: "modpow key signature = Some out" "length out = 256"
      "bval out = bval signature ^ nat (exponent key) mod kmod key"
    using modpow_power [of key signature] assms(3,5,6) k by auto
  then have "out = em" using assms(8,9) by (simp add: bval_inject [symmetric])
  then have "RSA_verify ctx0 key signature RSANUMBYTES hash (int (length hash)) \<longleftrightarrow>
      hash_digest (length hash) x = hash_digest (length hash) pad"
    using RSA_verify_digest [OF assms(1,2,4,5,6) out(1) assms(7)] assms(10,11) by simp
  then show ?thesis using xor_tail_padding [OF assms(8,7)] assms(10,11) by metis
qed

text \<open>The key with the modulus \<open>2\<^sup>2\<^sup>0\<^sup>4\<^sup>8 - 1\<close>; its Montgomery radix is congruent to one.\<close>

definition demo_key64 :: RSAPublicKey where
  "demo_key64 = \<lparr>key_len = 64, n0inv = 1, key_n = replicate 64 0xffffffff,
     key_rr = 1 # replicate 63 0, exponent = 3\<rparr>"

lemma lval_replicate_max: "lval (replicate n 0xffffffff) + 1 = 2 ^ (32 * n)"
  by (induction n) (simp_all add: power_add)

lemma demo_key64_good: "key_good demo_key64"
proof -
  have m: "kmod demo_key64 + 1 = kR demo_key64"
    using lval_replicate_max [of 64] by (simp add: kmod_def kR_def modulus_def demo_key64_def klen_def)
  have ok: "key_ok demo_key64" by (simp add: key_ok_def demo_key64_def klen_def)
  have R: "1 < kmod demo_key64" "kR demo_key64 mod kmod demo_key64 = 1"
  proof -
    have "(2 :: nat) ^ 2 \<le> kR demo_key64"
      unfolding kR_def demo_key64_def klen_def by (intro power_increasing) simp_all
    then show lt: "1 < kmod demo_key64" using m by simp
    have "kR demo_key64 mod kmod demo_key64 = (1 + kmod demo_key64) mod kmod demo_key64"
      using m by (simp only: add.commute)
    also have "\<dots> = 1 mod kmod demo_key64" by (rule mod_add_self2)
    finally show "kR demo_key64 mod kmod demo_key64 = 1" using lt by (simp only: mod_less)
  qed
  have "kR demo_key64 ^ 2 mod kmod demo_key64 = (kR demo_key64 mod kmod demo_key64) ^ 2 mod kmod demo_key64"
    by (simp only: power_mod)
  then have "kR demo_key64 ^ 2 mod kmod demo_key64 = 1" using R by simp
  moreover have "lval (take (klen demo_key64) (key_rr demo_key64)) = 1"
    by (simp add: demo_key64_def klen_def)
  ultimately show ?thesis using ok R m by (simp add: key_good_def)
qed

lemma demo_em: "bval (replicate n 0 @ [1]) = 1"
  by (induction n) simp_all

theorem RSA_verify_iff_witness:
  "RSA_verify demo_ctx demo_key64 (replicate 255 0 @ [1]) RSANUMBYTES (replicate 20 7) 20 \<longleftrightarrow>
    replicate 255 0 @ [1] = pkcs1 (replicate 20 7) \<or>
    (xor_tail (replicate 255 0 @ [1]) (replicate 20 7) 20 \<noteq> hash_padding 20 \<and>
     hash_digest 20 (xor_tail (replicate 255 0 @ [1]) (replicate 20 7) 20) = hash_digest 20 (hash_padding 20))"
proof -
  have "1 < kmod demo_key64"
    using demo_key64_good lval_replicate_max [of 64]
    by (simp add: kmod_def modulus_def demo_key64_def klen_def)
  then show ?thesis
    using RSA_verify_iff [of demo_ctx demo_key64 "replicate 255 0 @ [1]" "replicate 20 7" "replicate 255 0 @ [1]",
        OF _ _ demo_key64_good _ _ _ _ _ _ refl refl]
    by (simp add: demo_ctx_def demo_key64_def RSANUMWORDS_def SHA_DIGEST_SIZE_def demo_em)
qed

end
