(* ===== verification/P256.thy ===== *)
theory P256
  imports Hash
begin

text \<open>
  \<open>libmincrypt/p256.c\<close>: 256-bit integers as eight 32-bit digits. The theory has every routine of the
  file, including the modular multiplication with its run-time assertions, the binary Euclidean
  inverse as a loop that need not end, and the curve equation check.
\<close>

section \<open>Digits\<close>

type_synonym p256_int = "u32 list"

definition P256_NDIGITS :: nat where "P256_NDIGITS = 8"
definition P256_NBYTES :: nat where "P256_NBYTES = 32"

definition SECP256r1_n :: p256_int where
  "SECP256r1_n = [0xfc632551, 0xf3b9cac2, 0xa7179e84, 0xbce6faad, - 1, - 1, 0, - 1]"

definition SECP256r1_p :: p256_int where
  "SECP256r1_p = [- 1, - 1, - 1, 0, 0, 0, 1, - 1]"

definition SECP256r1_b :: p256_int where
  "SECP256r1_b = [0x27d2604b, 0x3bce3c3e, 0xcc53b0f6, 0x651d06b0,
                  0x769886bc, 0xb3ebbd55, 0xaa3a93e7, 0x5ac635d8]"

definition p256_init :: p256_int where
  "p256_init = replicate P256_NDIGITS 0"

definition p256_clear :: p256_int where
  "p256_clear = p256_init"

definition p256_get_bit :: "p256_int \<Rightarrow> nat \<Rightarrow> u32" where
  "p256_get_bit scalar bt = drop_bit (bt mod 32) (scalar ! (bt div 32)) AND 1"

definition p256_is_zero :: "p256_int \<Rightarrow> bool" where
  "p256_is_zero a = (fold (\<lambda>d result. result OR d) a 0 = 0)"

definition p256_is_odd :: "p256_int \<Rightarrow> bool" where
  "p256_is_odd a = (a ! 0 AND 1 \<noteq> 0)"

definition p256_is_even :: "p256_int \<Rightarrow> bool" where
  "p256_is_even a = (\<not> (a ! 0 AND 1 \<noteq> 0))"

section \<open>Carry and borrow loops\<close>

text \<open>\<open>carry += *c; carry += x; *c++ = (p256_digit)carry; carry >>= 32;\<close> for the digits of two arrays.\<close>

fun carry_loop :: "u64 \<Rightarrow> u32 list \<Rightarrow> u64 list \<Rightarrow> u32 list \<times> u64" where
  "carry_loop carry (c # cs) (x # xs) =
     (let carry = carry + ucast c; carry = carry + x
      in case carry_loop (drop_bit 32 carry) cs xs of (r, carry') \<Rightarrow> (ucast carry # r, carry'))"
| "carry_loop carry _ _ = ([], carry)"

text \<open>The signed counterpart; \<open>borrow\<close> is an \<open>int64_t\<close>.\<close>

fun borrow_loop :: "u64 \<Rightarrow> u32 list \<Rightarrow> u32 list \<Rightarrow> u32 list \<times> u64" where
  "borrow_loop borrow (c # cs) (m # ms) =
     (let borrow = borrow + ucast c; borrow = borrow - ucast m
      in case borrow_loop (signed_drop_bit 32 borrow) cs ms of (r, borrow') \<Rightarrow> (ucast borrow # r, borrow'))"
| "borrow_loop borrow _ _ = ([], borrow)"

definition mulAdd :: "p256_int \<Rightarrow> u32 \<Rightarrow> u32 \<Rightarrow> u32 list \<Rightarrow> u32 \<times> u32 list" where
  "mulAdd a b tp c =
     (case carry_loop 0 c (map (\<lambda>d. ucast d * ucast b) a) of (c', carry) \<Rightarrow> (tp + ucast carry, c'))"

text \<open>\<open>None\<close>: the assertion that the borrow out of the top digit is zero fails.\<close>

definition subTop :: "u32 \<Rightarrow> u32 list \<Rightarrow> u32 \<Rightarrow> u32 list \<Rightarrow> (u32 \<times> u32 list) option" where
  "subTop top_a a top_c c =
     (case borrow_loop 0 c a of (c', borrow) \<Rightarrow>
        (let borrow = borrow + ucast top_c; borrow = borrow - ucast top_a
         in if signed_drop_bit 32 borrow = 0 then Some (ucast borrow, c') else None))"

definition subM256 :: "p256_int \<Rightarrow> u32 \<Rightarrow> u32 list \<Rightarrow> u32 \<Rightarrow> u32 \<times> u32 list" where
  "subM256 MOD tp c msk =
     (case borrow_loop 0 c (map (\<lambda>d. d AND msk) MOD) of (c', borrow) \<Rightarrow> (tp + ucast borrow, c'))"

definition addM256 :: "p256_int \<Rightarrow> u32 \<Rightarrow> u32 list \<Rightarrow> u32 \<Rightarrow> u32 \<times> u32 list" where
  "addM256 MOD tp c msk =
     (case carry_loop 0 c (map (\<lambda>d. ucast (d AND msk)) MOD) of (c', carry) \<Rightarrow> (tp + ucast carry, c'))"

section \<open>Modular multiplication\<close>

text \<open>\<open>tmp + i\<close> as the array a routine reads and writes: eight digits from index \<open>i\<close>.\<close>

definition window :: "nat \<Rightarrow> u32 list \<Rightarrow> u32 list" where
  "window i tmp = take 8 (drop i tmp)"

definition set_window :: "nat \<Rightarrow> u32 list \<Rightarrow> u32 list \<Rightarrow> u32 list" where
  "set_window i w tmp = take i tmp @ w @ drop (i + 8) tmp"

definition modmul_mul_step :: "p256_int \<Rightarrow> p256_int \<Rightarrow> nat \<Rightarrow> u32 \<times> u32 list \<Rightarrow> u32 \<times> u32 list" where
  "modmul_mul_step a b i = (\<lambda>(tp, tmp).
     (let tmp = (if i \<noteq> 0 then tmp[i + P256_NDIGITS - 1 := tp] else tmp)
      in case mulAdd a (b ! i) 0 (window i tmp) of (tp, w) \<Rightarrow> (tp, set_window i w tmp)))"

text \<open>One turn of the reduction loop, with its three assertions.\<close>

definition modmul_reduce_step :: "p256_int \<Rightarrow> nat \<Rightarrow> u32 \<times> u32 list \<Rightarrow> (u32 \<times> u32 list) option" where
  "modmul_reduce_step MOD i = (\<lambda>(tp, tmp).
     (case mulAdd MOD tp 0 (replicate P256_NDIGITS 0) of (top_reducer, reducer) \<Rightarrow>
        (case subTop top_reducer reducer tp (window i tmp) of
           None \<Rightarrow> None
         | Some (tp, w) \<Rightarrow>
             if \<not> tp \<le> 1 then None
             else
               (case subM256 MOD tp w (NOT (tp - 1)) of (tp, w) \<Rightarrow>
                  if tp \<noteq> 0 then None
                  else
                    (let tmp = set_window i w tmp
                     in Some (tmp ! (i + P256_NDIGITS - 1), tmp))))))"

fun modmul_reduce :: "p256_int \<Rightarrow> nat \<Rightarrow> u32 \<times> u32 list \<Rightarrow> (u32 \<times> u32 list) option" where
  "modmul_reduce MOD 0 s = modmul_reduce_step MOD 0 s"
| "modmul_reduce MOD (Suc i) s =
     (case modmul_reduce_step MOD (Suc i) s of None \<Rightarrow> None | Some s \<Rightarrow> modmul_reduce MOD i s)"

definition p256_modmul :: "p256_int \<Rightarrow> p256_int \<Rightarrow> u32 \<Rightarrow> p256_int \<Rightarrow> p256_int option" where
  "p256_modmul MOD a top_b b =
     (case fold (modmul_mul_step a b) [0..<P256_NDIGITS] (0, replicate (P256_NDIGITS * 2 + 1) 0) of
        (tp, tmp) \<Rightarrow>
          (let i = P256_NDIGITS; tmp = tmp[i + P256_NDIGITS - 1 := tp]
           in case mulAdd a top_b 0 (window i tmp) of (tp, w) \<Rightarrow>
             (case modmul_reduce MOD i (tp, set_window i w tmp) of
                None \<Rightarrow> None
              | Some (tp, tmp) \<Rightarrow>
                  (case subM256 MOD 0 (window 0 tmp) (- 1) of (msk, w) \<Rightarrow>
                     Some (snd (addM256 MOD 0 w msk))))))"

section \<open>Shifts, comparison, addition and subtraction\<close>

text \<open>
  With \<open>n\<close> a multiple of 32 the code shifts a digit by its width, which C leaves undefined: \<open>None\<close>.
\<close>

definition p256_shl :: "p256_int \<Rightarrow> nat \<Rightarrow> (u32 \<times> p256_int) option" where
  "p256_shl a n =
     (let n = n mod 32;
          b = push_bit n (a ! 0)
              # map (\<lambda>i. push_bit n (a ! i) OR drop_bit (32 - n) (a ! (i - 1))) [1..<P256_NDIGITS];
          tp = ucast (drop_bit 32 (push_bit n (ucast (a ! (P256_NDIGITS - 1)) :: u64)))
      in if n = 0 then None else Some (tp, b))"

definition p256_shr :: "p256_int \<Rightarrow> nat \<Rightarrow> p256_int option" where
  "p256_shr a n =
     (let n = n mod 32;
          b = map (\<lambda>i. drop_bit n (a ! i) OR push_bit (32 - n) (a ! (i + 1))) [0..<P256_NDIGITS - 1]
              @ [drop_bit n (a ! (P256_NDIGITS - 1))]
      in if n = 0 then None else Some b)"

definition p256_shr1 :: "p256_int \<Rightarrow> int \<Rightarrow> p256_int" where
  "p256_shr1 a highbit =
     map (\<lambda>i. drop_bit 1 (a ! i) OR push_bit 31 (a ! (i + 1))) [0..<P256_NDIGITS - 1]
     @ [drop_bit 1 (a ! (P256_NDIGITS - 1)) OR push_bit 31 (of_int highbit)]"

fun p256_cmp_loop :: "u64 \<Rightarrow> u32 \<Rightarrow> u32 list \<Rightarrow> u32 list \<Rightarrow> u64 \<times> u32" where
  "p256_cmp_loop borrow notzero (a # as) (b # bs) =
     (let borrow = borrow + (ucast a - ucast b);
          notzero = notzero OR (if (ucast borrow :: u32) \<noteq> 0 then 1 else 0)
      in p256_cmp_loop (signed_drop_bit 32 borrow) notzero as bs)"
| "p256_cmp_loop borrow notzero _ _ = (borrow, notzero)"

definition p256_cmp :: "p256_int \<Rightarrow> p256_int \<Rightarrow> int" where
  "p256_cmp a b =
     (case p256_cmp_loop 0 0 a b of (borrow, notzero) \<Rightarrow> sint ((ucast borrow :: u32) OR notzero))"

definition p256_sub :: "p256_int \<Rightarrow> p256_int \<Rightarrow> int \<times> p256_int" where
  "p256_sub a b =
     (case borrow_loop 0 a b of (c, borrow) \<Rightarrow> (sint (ucast borrow :: u32), c))"

definition p256_add :: "p256_int \<Rightarrow> p256_int \<Rightarrow> int \<times> p256_int" where
  "p256_add a b =
     (case carry_loop 0 a (map ucast b) of (c, carry) \<Rightarrow> (sint (ucast carry :: u32), c))"

definition p256_add_d :: "p256_int \<Rightarrow> u32 \<Rightarrow> int \<times> p256_int" where
  "p256_add_d a d =
     (case carry_loop (ucast d) a (replicate P256_NDIGITS 0) of (b, carry) \<Rightarrow>
        (sint (ucast carry :: u32), b))"

definition p256_mod :: "p256_int \<Rightarrow> p256_int \<Rightarrow> p256_int" where
  "p256_mod MOD inp =
     (case subM256 MOD 0 inp (- 1) of (msk, w) \<Rightarrow> snd (addM256 MOD 0 w msk))"

section \<open>Modular inverse\<close>

record modinv_state =
  inv_R :: p256_int
  inv_S :: p256_int
  inv_U :: p256_int
  inv_V :: p256_int

definition half_mod :: "p256_int \<Rightarrow> p256_int \<Rightarrow> p256_int" where
  "half_mod MOD R =
     (if p256_is_even R then p256_shr1 R 0
      else case p256_add R MOD of (carry, R) \<Rightarrow> p256_shr1 R carry)"

definition sub_mod :: "p256_int \<Rightarrow> p256_int \<Rightarrow> p256_int \<Rightarrow> p256_int" where
  "sub_mod MOD S R =
     (case p256_sub S R of (borrow, S) \<Rightarrow> if borrow \<noteq> 0 then snd (p256_add S MOD) else S)"

text \<open>One turn of the loop: \<open>Inr\<close> the state to go on with, \<open>Inl\<close> the state at the \<open>break\<close>.\<close>

definition modinv_step :: "p256_int \<Rightarrow> modinv_state \<Rightarrow> modinv_state + modinv_state" where
  "modinv_step MOD s =
     (if p256_is_even (inv_U s) then
        Inr (s\<lparr>inv_U := p256_shr1 (inv_U s) 0, inv_R := half_mod MOD (inv_R s)\<rparr>)
      else if p256_is_even (inv_V s) then
        Inr (s\<lparr>inv_V := p256_shr1 (inv_V s) 0, inv_S := half_mod MOD (inv_S s)\<rparr>)
      else if fst (p256_sub (inv_V s) (inv_U s)) = 0 then
        (let s = s\<lparr>inv_V := snd (p256_sub (inv_V s) (inv_U s)),
                   inv_S := sub_mod MOD (inv_S s) (inv_R s)\<rparr>
         in if p256_is_zero (inv_V s) then Inl s else Inr s)
      else
        Inr (s\<lparr>inv_U := snd (p256_sub (inv_U s) (inv_V s)),
               inv_R := sub_mod MOD (inv_R s) (inv_S s)\<rparr>))"

partial_function (option) modinv_loop :: "p256_int \<Rightarrow> modinv_state \<Rightarrow> modinv_state option" where
  "modinv_loop MOD s =
     (case modinv_step MOD s of Inl s' \<Rightarrow> Some s' | Inr s' \<Rightarrow> modinv_loop MOD s')"

definition p256_modinv_vartime :: "p256_int \<Rightarrow> p256_int \<Rightarrow> p256_int option" where
  "p256_modinv_vartime MOD a =
     (case modinv_loop MOD \<lparr>inv_R = replicate 8 0, inv_S = 1 # replicate 7 0, inv_U = MOD, inv_V = a\<rparr> of
        None \<Rightarrow> None | Some s \<Rightarrow> Some (p256_mod MOD (inv_R s)))"

section \<open>The curve equation\<close>

definition p256_is_valid_point :: "p256_int \<Rightarrow> p256_int \<Rightarrow> bool option" where
  "p256_is_valid_point x y =
     (if p256_cmp SECP256r1_p x \<le> 0 \<or> p256_cmp SECP256r1_p y \<le> 0 \<or> p256_is_zero x \<or> p256_is_zero y
      then Some False
      else
        (case p256_modmul SECP256r1_p y 0 y of
           None \<Rightarrow> None
         | Some y2 \<Rightarrow>
             (case p256_modmul SECP256r1_p x 0 x of
                None \<Rightarrow> None
              | Some x3 \<Rightarrow>
                  (case p256_modmul SECP256r1_p x 0 x3 of
                     None \<Rightarrow> None
                   | Some x3 \<Rightarrow>
                       (let x3 = sub_mod SECP256r1_p x3 x;
                            x3 = sub_mod SECP256r1_p x3 x;
                            x3 = sub_mod SECP256r1_p x3 x
                        in case p256_add x3 SECP256r1_b of (carry, x3) \<Rightarrow>
                          (let x3 = (if carry \<noteq> 0 then snd (p256_sub x3 SECP256r1_p) else x3)
                           in Some (p256_cmp y2 x3 = 0)))))))"

definition p256_from_bin :: "bytes \<Rightarrow> p256_int" where
  "p256_from_bin src =
     rev (map (\<lambda>k. be_word (src ! (4 * k)) (src ! (4 * k + 1)) (src ! (4 * k + 2)) (src ! (4 * k + 3)))
       [0..<P256_NDIGITS])"

end
