(* ===== verification/P256_Arith.thy ===== *)
theory P256_Arith
  imports P256
begin

text \<open>
  The routines of \<open>P256\<close> as arithmetic: what each leaves in its digits, that no accumulator overflows
  and that no assertion of \<open>p256_modmul\<close> fails for the moduli it is called with.
\<close>

section \<open>The digit loops\<close>

fun dval :: "u64 list \<Rightarrow> nat" where
  "dval [] = 0"
| "dval (x # xs) = unat x + 2 ^ 32 * dval xs"

lemma dval_products: "dval (map (\<lambda>d. ucast d * ucast (b :: u32)) a) = lval a * unat b"
proof (induction a)
  case (Cons d a)
  have "unat (ucast d * ucast b :: u64) = unat d * unat b"
    using mul_add_u32 [of d b 0 0] by (simp add: unat_mult_exact unat_ucast_32_64)
  then show ?case using Cons by (simp add: algebra_simps)
qed simp

lemma dval_zeros: "dval (replicate n 0) = 0"
  by (induction n) simp_all

lemma dval_ucast: "dval (map (\<lambda>d :: u32. ucast (f d)) a) = lval (map f a)" for f :: "u32 \<Rightarrow> u32"
  by (induction a) (simp_all add: unat_ucast_32_64)

lemma carry_loop_val:
  assumes "length xs = length cs" and "\<forall>x \<in> set xs. unat x \<le> 18446744065119617025"
    and "unat carry < 2 ^ 32" and "carry_loop carry cs xs = (r, k)"
  shows "length r = length cs \<and> unat k < 2 ^ 32 \<and>
    lval r + 2 ^ (32 * length cs) * unat k = unat carry + lval cs + dval xs"
  using assms
proof (induction cs arbitrary: xs carry r k)
  case (Cons c cs)
  obtain x xs' where xs: "xs = x # xs'" "length xs' = length cs"
      "unat x \<le> 18446744065119617025" "\<forall>x \<in> set xs'. unat x \<le> 18446744065119617025"
    using Cons.prems(1,2) by (cases xs) auto
  define t where "t = carry + ucast c + x"
  have c1: "unat (carry + ucast c) = unat carry + unat c"
    using Cons.prems(3) u32_lt [of c] by (subst unat_add_exact) (simp_all add: unat_ucast_32_64)
  have t: "unat t = unat carry + unat c + unat x"
    unfolding t_def using c1 Cons.prems(3) u32_lt [of c] xs(3) by (subst unat_add_exact) simp_all
  have hi: "unat (drop_bit 32 t) = unat t div 2 ^ 32" "unat t div 2 ^ 32 < 2 ^ 32"
    using u64_lt [of t] by (simp_all add: unat_drop_bit less_mult_imp_div_less)
  obtain r' k' where rec: "carry_loop (drop_bit 32 t) cs xs' = (r', k')"
    by (cases "carry_loop (drop_bit 32 t) cs xs'")
  have res: "r = ucast t # r'" "k = k'"
    using Cons.prems(4) rec by (simp_all add: xs(1) t_def [symmetric] Let_def)
  have IH: "length r' = length cs" "unat k' < 2 ^ 32"
      "lval r' + 2 ^ (32 * length cs) * unat k' = unat t div 2 ^ 32 + lval cs + dval xs'"
    using Cons.IH [OF xs(2,4) _ rec] hi by auto
  have "lval r + 2 ^ (32 * length (c # cs)) * unat k =
      unat t mod 2 ^ 32 + 2 ^ 32 * (lval r' + 2 ^ (32 * length cs) * unat k')"
    by (simp add: res unat_ucast_64_32 power_add algebra_simps)
  also have "\<dots> = (unat t mod 2 ^ 32 + 2 ^ 32 * (unat t div 2 ^ 32)) + 2 ^ 32 * (lval cs + dval xs')"
    unfolding IH(3) by (simp only: algebra_simps)
  also have "\<dots> = unat carry + lval (c # cs) + dval xs"
    by (simp add: mod_mult_div_eq t xs(1) algebra_simps)
  finally show ?case using IH res by simp
qed simp

lemma borrow_step:
  fixes c m :: u32 and s k :: int
  assumes "s = 0 \<or> s = - 1" and k_def: "k = s + uint c - uint m"
  shows "of_int s + ucast c - ucast m = (of_int k :: u64)"
    and "signed_drop_bit 32 (of_int k :: u64) = of_int (k div 2 ^ 32)"
    and "k div 2 ^ 32 = 0 \<or> k div 2 ^ 32 = - 1"
proof -
  have r: "0 \<le> uint c" "uint c < 2 ^ 32" "0 \<le> uint m" "uint m < 2 ^ 32"
    using uint_lt2p [of c] uint_lt2p [of m] by simp_all
  have k: "- (2 ^ 32) \<le> k" "k < 2 ^ 32" using r assms(1) unfolding k_def by linarith+
  show "of_int s + ucast c - ucast m = (of_int k :: u64)" by (simp add: k_def)
  show "signed_drop_bit 32 (of_int k :: u64) = of_int (k div 2 ^ 32)"
    using k by (intro asr_of_int_u64) auto
  show "k div 2 ^ 32 = 0 \<or> k div 2 ^ 32 = - 1"
  proof (cases "0 \<le> k")
    case True then show ?thesis using k by simp
  next
    case False
    then have "(k + 2 ^ 32) div 2 ^ 32 = 0" using k by simp
    moreover have "(k + 2 ^ 32) div 2 ^ 32 = k div 2 ^ 32 + 1" by (rule div_add_self2) simp
    ultimately show ?thesis by simp
  qed
qed

lemma borrow_loop_val:
  assumes "length ms = length cs" and "s = 0 \<or> s = - 1" and "borrow_loop (of_int s) cs ms = (r, B)"
  shows "length r = length cs \<and> (\<exists>s'. (s' = 0 \<or> s' = - 1) \<and> B = of_int s' \<and>
    int (lval r) + 2 ^ (32 * length cs) * s' = int (lval cs) - int (lval ms) + s)"
  using assms
proof (induction cs arbitrary: ms s r B)
  case Nil
  then show ?case by auto
next
  case (Cons c cs)
  obtain m ms' where ms: "ms = m # ms'" "length ms' = length cs"
    using Cons.prems(1) by (cases ms) auto
  define k where "k = s + uint c - uint m"
  note step = borrow_step [OF Cons.prems(2) k_def]
  obtain r' B' where rec: "borrow_loop (of_int (k div 2 ^ 32)) cs ms' = (r', B')"
    by (cases "borrow_loop (of_int (k div 2 ^ 32)) cs ms'")
  have "borrow_loop (of_int s) (c # cs) ms = (of_int k # r', B')"
    by (simp only: ms borrow_loop.simps Let_def step(1,2) low32_of_int rec prod.case)
  then have res: "r = of_int k # r'" "B = B'" using Cons.prems(3) by simp_all
  obtain s' where IH: "length r' = length cs" "s' = 0 \<or> s' = - 1" "B' = of_int s'"
      "int (lval r') + 2 ^ (32 * length cs) * s' = int (lval cs) - int (lval ms') + k div 2 ^ 32"
    using Cons.IH [OF ms(2) step(3) rec] by blast
  have "int (lval r) + 2 ^ (32 * length (c # cs)) * s' =
      k mod 2 ^ 32 + 2 ^ 32 * (int (lval r') + 2 ^ (32 * length cs) * s')"
    by (simp add: res uint_of_int_u32 power_add algebra_simps)
  also have "\<dots> = (k mod 2 ^ 32 + 2 ^ 32 * (k div 2 ^ 32)) + 2 ^ 32 * (int (lval cs) - int (lval ms'))"
    unfolding IH(4) by (simp only: algebra_simps)
  also have "\<dots> = int (lval (c # cs)) - int (lval ms) + s"
    by (simp add: mod_mult_div_eq k_def ms(1) algebra_simps)
  finally show ?case using IH res by auto
qed


lemma mulAdd_val:
  assumes "length c = length a" "mulAdd a b 0 c = (t, c')"
  shows "length c' = length a \<and> lval c' + 2 ^ (32 * length a) * unat t = lval c + lval a * unat b"
proof -
  let ?xs = "map (\<lambda>d. ucast d * ucast b) a :: u64 list"
  obtain k where loop: "carry_loop 0 c ?xs = (c', k)" "t = ucast k"
    using assms(2) by (auto simp: mulAdd_def split: prod.splits)
  have "\<forall>x \<in> set ?xs. unat x \<le> 18446744065119617025"
  proof
    fix x assume "x \<in> set ?xs"
    then obtain d :: u32 where x: "x = ucast d * ucast b" by auto
    have "unat x = unat d * unat b"
      unfolding x using mul_add_u32 [of d b 0 0] by (simp add: unat_mult_exact unat_ucast_32_64)
    also have "\<dots> \<le> 4294967295 * 4294967295"
      using u32_lt [of d] u32_lt [of b] by (intro mult_le_mono) simp_all
    finally show "unat x \<le> 18446744065119617025" by simp
  qed
  from carry_loop_val [OF _ this _ loop(1)] assms(1) loop(2) show ?thesis
    by (simp add: dval_products unat_ucast_64_32)
qed

lemma and_mask: "map (\<lambda>d. d AND msk) M = (if msk = 0 then replicate (length M) 0 else M)"
  if "msk = 0 \<or> msk = - 1" for msk :: u32
  using that by (auto simp: map_replicate_const)

definition masked :: "u32 \<Rightarrow> u32 list \<Rightarrow> nat" where
  "masked msk M = (if msk = 0 then 0 else lval M)"

lemma subM256_val:
  assumes "length c = length M" "msk = 0 \<or> msk = - 1" "subM256 M tp c msk = (t, c')"
  shows "length c' = length M \<and> (\<exists>s. (s = 0 \<or> s = - 1) \<and> t = tp + of_int s \<and>
    int (lval c') + 2 ^ (32 * length M) * s = int (lval c) - int (masked msk M))"
proof -
  let ?ms = "map (\<lambda>d. d AND msk) M"
  obtain B where loop: "borrow_loop (of_int 0) c ?ms = (c', B)" "t = tp + ucast B"
    using assms(3) by (auto simp: subM256_def split: prod.splits)
  have "lval ?ms = masked msk M" using assms(2) by (simp add: and_mask masked_def)
  moreover obtain s where "length c' = length c" "s = 0 \<or> s = - 1" "B = of_int s"
      "int (lval c') + 2 ^ (32 * length c) * s = int (lval c) - int (lval ?ms)"
    using borrow_loop_val [OF _ _ loop(1)] assms(1) by auto
  ultimately show ?thesis using loop(2) assms(1) by (auto simp del: of_int_minus)
qed

lemma addM256_val:
  assumes "length c = length M" "msk = 0 \<or> msk = - 1" "addM256 M tp c msk = (t, c')"
  shows "length c' = length M \<and> (\<exists>k. t = tp + k \<and>
    lval c' + 2 ^ (32 * length M) * unat k = lval c + masked msk M)"
proof -
  let ?xs = "map (\<lambda>d. ucast (d AND msk)) M :: u64 list"
  obtain K where loop: "carry_loop 0 c ?xs = (c', K)" "t = tp + ucast K"
    using assms(3) by (auto simp: addM256_def split: prod.splits)
  have "\<forall>x \<in> set ?xs. unat x \<le> 18446744065119617025"
  proof
    fix x assume "x \<in> set ?xs"
    then obtain d :: u32 where "x = ucast d" by auto
    then show "unat x \<le> 18446744065119617025" using u32_lt [of d] by (simp add: unat_ucast_32_64)
  qed
  moreover have "dval ?xs = masked msk M"
    using assms(2) dval_ucast [of "\<lambda>d. d AND msk" M] by (simp add: and_mask masked_def)
  ultimately show ?thesis
    using carry_loop_val [OF _ _ _ loop(1)] assms(1) loop(2) by (auto simp: unat_ucast_64_32)
qed

lemma cond_sub_mod:
  fixes w r c M X k :: nat and s :: int
  assumes "w < X" "r < X" "c < X" "c < 2 * M" "s = 0 \<or> s = - 1"
    and w: "int w + int X * s = int c - int M" and r: "r + X * k = w + (if s = 0 then 0 else M)"
  shows "r = c mod M"
proof (cases "s = 0")
  case True
  then have c: "c = w + M" using w by simp
  have "r = (r + X * k) mod X" using assms(2) by simp
  then have "r = w" using True r assms(1) by simp
  then show ?thesis using c assms(4) by simp
next
  case False
  then have c: "w + M = c + X" using w assms(5) by auto
  then have "c < M" using assms(1) by simp
  have "r = (r + X * k) mod X" using assms(2) by simp
  also have "\<dots> = (c + X) mod X" using False r c by simp
  finally show ?thesis using \<open>c < M\<close> assms(3) by simp
qed

lemma p256_mod_val:
  assumes "length c = length MOD" "lval c < 2 * lval MOD"
  shows "length (p256_mod MOD c) = length MOD" and "lval (p256_mod MOD c) = lval c mod lval MOD"
proof -
  obtain msk w where 1: "subM256 MOD 0 c (- 1) = (msk, w)" by (cases "subM256 MOD 0 c (- 1)")
  obtain t r where 2: "addM256 MOD 0 w msk = (t, r)" by (cases "addM256 MOD 0 w msk")
  have eq: "p256_mod MOD c = r" by (simp add: p256_mod_def 1 2)
  obtain s where s: "length w = length MOD" "s = 0 \<or> s = - 1" "msk = of_int s"
      "int (lval w) + 2 ^ (32 * length MOD) * s = int (lval c) - int (lval MOD)"
    using subM256_val [OF assms(1) _ 1] by (auto simp: masked_def)
  have msk: "msk = 0 \<or> msk = - 1" using s(2,3) by auto
  obtain k :: u32 where k: "length r = length MOD" "lval r + 2 ^ (32 * length MOD) * unat k = lval w + masked msk MOD"
    using addM256_val [OF s(1) msk 2] by blast
  have lt: "lval w < 2 ^ (32 * length MOD)" "lval r < 2 ^ (32 * length MOD)" "lval c < 2 ^ (32 * length MOD)"
    using lval_less [of w] lval_less [of r] lval_less [of c] s(1) k(1) assms(1) by simp_all
  show "length (p256_mod MOD c) = length MOD" using eq k(1) by simp
  have "lval r + 2 ^ (32 * length MOD) * unat k = lval w + (if s = 0 then 0 else lval MOD)"
    using k(2) s(2,3) by (auto simp: masked_def)
  moreover have "int (lval w) + int (2 ^ (32 * length MOD)) * s = int (lval c) - int (lval MOD)"
    using s(4) by simp
  ultimately show "lval (p256_mod MOD c) = lval c mod lval MOD"
    unfolding eq using cond_sub_mod [OF lt assms(2) s(2)] by blast
qed

section \<open>Multiplication\<close>

lemma window_split:
  assumes "i + 8 \<le> length tmp"
  shows "take (i + 8) tmp = take i tmp @ window i tmp" and "length (window i tmp) = 8"
  using assms by (simp_all add: window_def take_add)

lemma lval_window:
  assumes "i + 8 \<le> length tmp"
  shows "lval (take (i + 8) tmp) = lval (take i tmp) + 2 ^ (32 * i) * lval (window i tmp)"
  using assms by (simp add: window_split lval_append)

lemma set_window_take:
  assumes "i + 8 \<le> length tmp" "length w = 8"
  shows "length (set_window i w tmp) = length tmp" and "take (i + 8) (set_window i w tmp) = take i tmp @ w"
    and "take i (set_window i w tmp) = take i tmp" and "window i (set_window i w tmp) = w"
  using assms by (simp_all add: set_window_def window_def)

text \<open>Adding \<open>a * d\<close> at digit \<open>i\<close>, the digit above the window being \<open>tp\<close>.\<close>

lemma mul_step_val:
  assumes "length a = 8" "length tmp = 17" "i \<le> 8"
    and "mulAdd a d 0 (window i (tmp[i + 7 := tp])) = (t, w)"
  shows "lval (take (i + 8) (set_window i w (tmp[i + 7 := tp]))) + 2 ^ (32 * (i + 8)) * unat t =
      lval (take (i + 7) tmp) + 2 ^ (32 * (i + 7)) * unat tp + 2 ^ (32 * i) * (lval a * unat d)"
    and "length w = 8"
proof -
  let ?tmp = "tmp[i + 7 := tp]"
  have len: "i + 8 \<le> length ?tmp" using assms(2,3) by simp
  have m: "length w = 8" "lval w + 2 ^ 256 * unat t = lval (window i ?tmp) + lval a * unat d"
    using mulAdd_val [OF _ assms(4)] assms(1) window_split(2) [OF len] by auto
  then show "length w = 8" by simp
  have "lval (take (i + 8) (set_window i w ?tmp)) + 2 ^ (32 * (i + 8)) * unat t =
      lval (take i ?tmp) + 2 ^ (32 * i) * (lval w + 2 ^ 256 * unat t)"
    using len m(1) by (simp only: set_window_take(2)) (simp add: lval_append distrib_left power_add)
  also have "\<dots> = lval (take (i + 8) ?tmp) + 2 ^ (32 * i) * (lval a * unat d)"
    unfolding m(2) lval_window [OF len] by (simp only: algebra_simps)
  also have "take (i + 8) ?tmp = take (i + 7) tmp @ [tp]"
    using assms(2,3) take_Suc_conv_app_nth [of "i + 7" ?tmp] by (simp add: add.commute)
  finally show "lval (take (i + 8) (set_window i w ?tmp)) + 2 ^ (32 * (i + 8)) * unat t =
      lval (take (i + 7) tmp) + 2 ^ (32 * (i + 7)) * unat tp + 2 ^ (32 * i) * (lval a * unat d)"
    using assms(2,3) by (simp add: lval_append)
qed

lemma modmul_mul_val:
  assumes "length a = 8" "length b = 8" "i \<le> 8"
    and "fold (modmul_mul_step a b) [0..<i] (0, replicate (P256_NDIGITS * 2 + 1) 0) = (tp, tmp)"
  shows "length tmp = 17 \<and> (i = 0 \<longrightarrow> tp = 0 \<and> tmp ! 7 = 0) \<and>
    lval (take (i + 7) tmp) + 2 ^ (32 * (i + 7)) * unat tp = lval a * lval (take i b)"
  using assms(3,4)
proof (induction i arbitrary: tp tmp)
  case 0
  then have "tp = 0" "tmp = replicate 17 0" by (auto simp: P256_NDIGITS_def)
  then show ?case by simp
next
  case (Suc i)
  obtain tp' tmp' where prev: "fold (modmul_mul_step a b) [0..<i] (0, replicate (P256_NDIGITS * 2 + 1) 0) = (tp', tmp')"
    by fastforce
  have IH: "length tmp' = 17" "i = 0 \<Longrightarrow> tp' = 0 \<and> tmp' ! 7 = 0"
      "lval (take (i + 7) tmp') + 2 ^ (32 * (i + 7)) * unat tp' = lval a * lval (take i b)"
    using Suc.IH [OF _ prev] Suc.prems(1) by auto
  obtain t w where step: "mulAdd a (b ! i) 0 (window i (tmp'[i + 7 := tp'])) = (t, w)" by fastforce
  have upd: "(if i \<noteq> 0 then tmp'[i + P256_NDIGITS - 1 := tp'] else tmp') = tmp'[i + 7 := tp']"
  proof (cases "i = 0")
    case True
    then have "tmp'[7 := tp'] = tmp'" using IH(2) by (metis list_update_id)
    then show ?thesis using True by simp
  qed (simp add: P256_NDIGITS_def add.commute)
  have res: "tp = t" "tmp = set_window i w (tmp'[i + 7 := tp'])"
  proof -
    have "modmul_mul_step a b i (tp', tmp') = (t, set_window i w (tmp'[i + 7 := tp']))"
      by (simp only: modmul_mul_step_def Let_def prod.case upd step)
    then show "tp = t" "tmp = set_window i w (tmp'[i + 7 := tp'])"
      using Suc.prems(2) prev by simp_all
  qed
  have "i \<le> 8" using Suc.prems(1) by simp
  note s = mul_step_val [OF assms(1) IH(1) this step]
  have "length tmp = 17" using res s(2) IH(1) Suc.prems(1) by (simp add: set_window_take)
  moreover have "lval (take (i + 8) tmp) + 2 ^ (32 * (i + 8)) * unat tp =
      lval a * lval (take i b) + 2 ^ (32 * i) * (lval a * unat (b ! i))"
    using s(1) IH(3) res by simp
  moreover have "lval (take (Suc i) b) = lval (take i b) + 2 ^ (32 * i) * unat (b ! i)"
    using assms(2) Suc.prems(1) by (simp add: take_Suc_conv_app_nth lval_append)
  ultimately show ?case by (simp add: algebra_simps)
qed


section \<open>Reduction\<close>

text \<open>The moduli the routine is for: the most significant digit is all ones.\<close>

definition mod_ok :: "p256_int \<Rightarrow> bool" where
  "mod_ok MOD \<longleftrightarrow> length MOD = 8 \<and> MOD ! 7 = - 1"

lemma mod_ok_bounds:
  assumes "mod_ok MOD"
  shows "length MOD = 8" and "2 ^ 256 - 2 ^ 224 \<le> lval MOD" and "lval MOD < 2 ^ 256" and "0 < lval MOD"
proof -
  show len: "length MOD = 8" using assms by (simp add: mod_ok_def)
  have "MOD = take 7 MOD @ [MOD ! 7]"
    using len take_Suc_conv_app_nth [of 7 MOD] by simp
  moreover have "MOD ! 7 = - 1" using assms by (simp add: mod_ok_def)
  ultimately have "lval MOD = lval (take 7 MOD) + 2 ^ 224 * unat (- 1 :: u32)"
    using lval_append [of "take 7 MOD" "[MOD ! 7]"] len by simp
  moreover have "unat (- 1 :: u32) = 2 ^ 32 - 1"
    by (simp add: unsigned_minus_1_eq_mask mask_eq_exp_minus_1)
  ultimately have "lval MOD = lval (take 7 MOD) + 2 ^ 224 * (2 ^ 32 - 1)" by simp
  then show "2 ^ 256 - 2 ^ 224 \<le> lval MOD" "0 < lval MOD" by simp_all
  show "lval MOD < 2 ^ 256" using lval_less [of MOD] len by simp
qed

lemma reduce_arith:
  fixes w t M X Y :: nat
  assumes "w < X" "M < X" "X \<le> M + Y" "t < 2 ^ 32" "2 ^ 32 * Y = X" "0 < Y"
  shows "M * t \<le> w + X * t" "w + X * t - M * t < 2 * X" "X \<le> w + X * t - M * t \<Longrightarrow> w + X * t - M * t - M < X"
proof -
  define D where "D = X - M"
  have D: "X = M + D" "D \<le> Y" using assms(2,3) by (simp_all add: D_def)
  show "M * t \<le> w + X * t" using D(1) by (simp add: algebra_simps)
  have e: "w + X * t - M * t = w + D * t" using D(1) by (simp add: algebra_simps)
  have "D * t \<le> Y * (2 ^ 32 - 1)" using D(2) assms(4) by (intro mult_le_mono) simp_all
  also have "\<dots> = X - Y" using assms(5) by (simp add: algebra_simps diff_mult_distrib2)
  finally have "D * t + Y \<le> X" using assms(5,6) by simp
  then show "w + X * t - M * t < 2 * X" "X \<le> w + X * t - M * t \<Longrightarrow> w + X * t - M * t - M < X"
    unfolding e using assms(1,3) by linarith+
qed

lemma subTop_val:
  assumes "length a = n" "length c = n" "lval a + 2 ^ (32 * n) * unat ta \<le> lval c + 2 ^ (32 * n) * unat tc"
  obtains t c' where "subTop ta a tc c = Some (t, c')" "length c' = n"
    "lval c' + 2 ^ (32 * n) * unat t = lval c + 2 ^ (32 * n) * unat tc - (lval a + 2 ^ (32 * n) * unat ta)"
proof -
  obtain c' B where loop: "borrow_loop (of_int 0) c a = (c', B)" by fastforce
  obtain s where s: "length c' = n" "s = 0 \<or> s = - 1" "B = of_int s"
      "int (lval c') + 2 ^ (32 * n) * s = int (lval c) - int (lval a)"
    using borrow_loop_val [OF _ _ loop] assms(1,2) by auto
  define k where "k = s + int (unat tc) - int (unat ta)"
  let ?X = "2 ^ (32 * n) :: int"
  have lt: "0 \<le> int (lval c')" "int (lval c') < ?X"
    using lval_less [of c'] s(1) by (simp_all flip: of_nat_power)
  have v: "int (lval c') + ?X * k = (int (lval c) + ?X * int (unat tc)) - (int (lval a) + ?X * int (unat ta))"
    using s(4) by (simp add: k_def algebra_simps)
  have "int (lval a + 2 ^ (32 * n) * unat ta) \<le> int (lval c + 2 ^ (32 * n) * unat tc)"
    using assms(3) by (simp only: of_nat_le_iff)
  then have "0 \<le> int (lval c') + ?X * k" unfolding v by simp
  have "- 1 < k"
  proof (rule ccontr)
    assume "\<not> - 1 < k"
    then have "?X * k \<le> ?X * (- 1)" by (intro mult_left_mono) simp_all
    then show False using \<open>0 \<le> int (lval c') + ?X * k\<close> lt(2) by simp
  qed
  have p32: "(2 :: int) ^ 32 = 4294967296" by simp
  have "k < 2 ^ 32" using s(2) u32_lt [of tc] unfolding k_def p32 by linarith
  with \<open>- 1 < k\<close> have k: "0 \<le> k" "k < 2 ^ 32" by simp_all
  have B: "B + ucast tc - ucast ta = (of_int k :: u64)" by (simp add: s(3) k_def)
  have "signed_drop_bit 32 (of_int k :: u64) = 0"
    using asr_of_int_u64 [of k 32] k by simp
  then have "subTop ta a tc c = Some (of_int k, c')"
    using loop B by (simp add: subTop_def Let_def)
  moreover have "int (unat (of_int k :: u32)) = k"
    using k by (simp add: uint_of_int_u32)
  then have "int (lval c' + 2 ^ (32 * n) * unat (of_int k :: u32)) =
      int (lval c + 2 ^ (32 * n) * unat tc) - int (lval a + 2 ^ (32 * n) * unat ta)"
    using v by simp
  then have "lval c' + 2 ^ (32 * n) * unat (of_int k :: u32) =
      lval c + 2 ^ (32 * n) * unat tc - (lval a + 2 ^ (32 * n) * unat ta)"
    using assms(3) by (simp only: of_nat_diff [symmetric] of_nat_eq_iff)
  ultimately show thesis using s(1) that by blast
qed


lemma reduce_digit:
  assumes MOD: "mod_ok MOD" and "length w = 8"
  obtains red tr t c' c'' where "mulAdd MOD tp 0 (replicate 8 0) = (tr, red)"
    "subTop tr red tp w = Some (t, c')" "t \<le> 1" "subM256 MOD t c' (NOT (t - 1)) = (0, c'')"
    "length c'' = 8" "lval c'' + lval MOD * (unat tp + unat t) = lval w + 2 ^ 256 * unat tp"
proof -
  note b = mod_ok_bounds [OF MOD]
  let ?X = "2 ^ 256 :: nat" and ?M = "lval MOD"
  obtain tr red where m: "mulAdd MOD tp 0 (replicate 8 0) = (tr, red)" by fastforce
  have red: "length red = 8" "lval red + ?X * unat tr = ?M * unat tp"
    using mulAdd_val [OF _ m] b(1) by auto
  have w: "lval w < ?X" using lval_less [of w] assms(2) by simp
  note ar = reduce_arith [of "lval w" ?X ?M "2 ^ 224" "unat tp", OF w b(3)]
  have ar1: "?M * unat tp \<le> lval w + ?X * unat tp" "lval w + ?X * unat tp - ?M * unat tp < 2 * ?X"
    and ar2: "?X \<le> lval w + ?X * unat tp - ?M * unat tp \<Longrightarrow> lval w + ?X * unat tp - ?M * unat tp - ?M < ?X"
    using ar b(2) u32_lt [of tp] by simp_all
  define Z where "Z = lval w + ?X * unat tp - ?M * unat tp"
  have "lval red + 2 ^ (32 * 8) * unat tr \<le> lval w + 2 ^ (32 * 8) * unat tp"
    using red(2) ar1(1) by simp
  then obtain t c' where s: "subTop tr red tp w = Some (t, c')" "length c' = 8"
      "lval c' + 2 ^ (32 * 8) * unat t = lval w + 2 ^ (32 * 8) * unat tp - (lval red + 2 ^ (32 * 8) * unat tr)"
    by (rule subTop_val [OF red(1) assms(2)])
  have s3: "lval c' + ?X * unat t = Z" using s(3) red(2) by (simp add: Z_def)
  have c': "lval c' < ?X" using lval_less [of c'] s(2) by simp
  have t01: "t = 0 \<or> t = 1"
  proof -
    have "unat t < 2" using s3 ar1(2) c' by (auto simp: Z_def intro: ccontr)
    then have "unat t = unat (0 :: u32) \<or> unat t = unat (1 :: u32)" by auto
    then show ?thesis by (simp only: word_unat_eq_iff)
  qed
  obtain t2 c'' where m2: "subM256 MOD t c' (NOT (t - 1)) = (t2, c'')" by fastforce
  have "NOT (t - 1) = 0 \<or> NOT (t - 1) = - 1" using t01 by auto
  then obtain q where q: "length c'' = 8" "q = 0 \<or> q = - 1" "t2 = t + of_int q"
      "int (lval c'') + 2 ^ (32 * 8) * q = int (lval c') - int (masked (NOT (t - 1)) MOD)"
    using subM256_val [OF _ _ m2] s(2) b(1) by auto
  have c'': "lval c'' < ?X" using lval_less [of c''] q(1) by simp
  have fin: "t2 = 0 \<and> lval c'' + ?M * unat t = Z"
    using t01
  proof
    assume t: "t = 0"
    then have e: "int (lval c'') + int ?X * q = int (lval c')" using q(4) by (simp add: masked_def)
    then have "q = 0" using q(2) c' c'' by auto
    then show ?thesis using t q(3) e s3 by simp
  next
    assume t: "t = 1"
    then have e: "int (lval c'') + int ?X * q = int (lval c') - int ?M" using q(4) by (simp add: masked_def)
    have z: "Z = lval c' + ?X" using s3 t by simp
    then have "Z - ?M < ?X" using ar2 by (simp add: Z_def)
    then have "lval c' < ?M" using z b(3) by simp
    then have "q = - 1" using q(2) e by auto
    then show ?thesis using t q(3) e z by simp
  qed
  show thesis
  proof (rule that [OF m s(1) _ _ q(1)])
    show "t \<le> 1" using t01 by auto
    show "subM256 MOD t c' (NOT (t - 1)) = (0, c'')" using m2 fin by simp
    show "lval c'' + lval MOD * (unat tp + unat t) = lval w + 2 ^ 256 * unat tp"
      using fin ar1(1) unfolding Z_def distrib_left by linarith
  qed
qed

lemma modmul_reduce_step_val:
  assumes MOD: "mod_ok MOD" and len: "length tmp = 17" and i: "i \<le> 8"
  obtains tmp' where "modmul_reduce_step MOD i (tp, tmp) = Some (tmp' ! (i + 7), tmp')" "length tmp' = 17"
    "lval (take (i + 8) tmp') mod lval MOD =
       (lval (take (i + 8) tmp) + 2 ^ (32 * (i + 8)) * unat tp) mod lval MOD"
proof -
  have win: "i + 8 \<le> length tmp" "length (window i tmp) = 8" using len i by (simp_all add: window_def)
  obtain red tr t c' c'' where d: "mulAdd MOD tp 0 (replicate 8 0) = (tr, red)"
      "subTop tr red tp (window i tmp) = Some (t, c')" "t \<le> 1" "subM256 MOD t c' (NOT (t - 1)) = (0, c'')"
      "length c'' = 8" "lval c'' + lval MOD * (unat tp + unat t) = lval (window i tmp) + 2 ^ 256 * unat tp"
    using reduce_digit [OF MOD win(2)] by metis
  define tmp' where "tmp' = set_window i c'' tmp"
  have "modmul_reduce_step MOD i (tp, tmp) = Some (tmp' ! (i + 7), tmp')"
    using d by (simp add: modmul_reduce_step_def P256_NDIGITS_def tmp'_def Let_def add.commute)
  moreover have "length tmp' = 17" using set_window_take(1) [OF win(1) d(5)] len by (simp add: tmp'_def)
  moreover have "lval (take (i + 8) tmp') + lval MOD * (2 ^ (32 * i) * (unat tp + unat t)) =
      lval (take (i + 8) tmp) + 2 ^ (32 * (i + 8)) * unat tp"
  proof -
    have "lval (take (i + 8) tmp') + lval MOD * (2 ^ (32 * i) * (unat tp + unat t)) =
        lval (take i tmp) + 2 ^ (32 * i) * (lval c'' + lval MOD * (unat tp + unat t))"
      using win(1) d(5) len i by (simp add: tmp'_def set_window_take(2) lval_append algebra_simps)
    then show ?thesis
      unfolding d(6) lval_window [OF win(1)] by (simp add: algebra_simps power_add)
  qed
  then have "lval (take (i + 8) tmp') mod lval MOD =
      (lval (take (i + 8) tmp) + 2 ^ (32 * (i + 8)) * unat tp) mod lval MOD"
    by (metis mod_mult_self2)
  ultimately show thesis by (rule that)
qed

lemma modmul_reduce_val:
  assumes MOD: "mod_ok MOD" and "length tmp = 17" and "i \<le> 8"
  shows "\<exists>tp' tmp'. modmul_reduce MOD i (tp, tmp) = Some (tp', tmp') \<and> length tmp' = 17 \<and>
    lval (take 8 tmp') mod lval MOD =
       (lval (take (i + 8) tmp) + 2 ^ (32 * (i + 8)) * unat tp) mod lval MOD"
  using assms(2,3)
proof (induction i arbitrary: tp tmp)
  case 0
  then show ?case using modmul_reduce_step_val [OF MOD, of tmp 0 tp] by fastforce
next
  case (Suc i)
  obtain tmp1 where s: "modmul_reduce_step MOD (Suc i) (tp, tmp) = Some (tmp1 ! (Suc i + 7), tmp1)"
      "length tmp1 = 17" "lval (take (Suc i + 8) tmp1) mod lval MOD =
       (lval (take (Suc i + 8) tmp) + 2 ^ (32 * (Suc i + 8)) * unat tp) mod lval MOD"
    using modmul_reduce_step_val [OF MOD Suc.prems] by metis
  have "take (Suc i + 8) tmp1 = take (i + 8) tmp1 @ [tmp1 ! (Suc i + 7)]"
    using s(2) Suc.prems(2) take_Suc_conv_app_nth [of "i + 8" tmp1] by (simp add: add.commute)
  then have "lval (take (Suc i + 8) tmp1) =
      lval (take (i + 8) tmp1) + 2 ^ (32 * (i + 8)) * unat (tmp1 ! (Suc i + 7))"
    using s(2) Suc.prems(2) by (simp add: lval_append)
  then show ?case
    using Suc.IH [OF s(2), of "tmp1 ! (Suc i + 7)"] Suc.prems(2) s(1,3) by simp
qed

lemma p256_modmul_val:
  assumes MOD: "mod_ok MOD" and a: "length a = 8" and b: "length b = 8"
  obtains c where "p256_modmul MOD a top_b b = Some c" "length c = 8"
    "lval c = (lval a * (lval b + 2 ^ 256 * unat top_b)) mod lval MOD"
proof -
  note bd = mod_ok_bounds [OF MOD]
  obtain tp tmp where f: "fold (modmul_mul_step a b) [0..<8] (0, replicate (P256_NDIGITS * 2 + 1) 0) = (tp, tmp)"
    by fastforce
  have v: "length tmp = 17" "lval (take 15 tmp) + 2 ^ 480 * unat tp = lval a * lval b"
    using modmul_mul_val [OF a b _ f] b by auto
  obtain t w where m: "mulAdd a top_b 0 (window 8 (tmp[15 := tp])) = (t, w)" by fastforce
  define tmp1 where "tmp1 = set_window 8 w (tmp[15 := tp])"
  have w: "length w = 8" and e: "lval (take 16 tmp1) + 2 ^ 512 * unat t =
      lval a * lval b + 2 ^ 256 * (lval a * unat top_b)"
    using mul_step_val [OF a v(1), of 8 top_b tp t w] m v(2) by (simp_all add: tmp1_def)
  have len: "length tmp1 = 17" using v(1) w by (simp add: tmp1_def set_window_def)
  obtain tp' tmp' where r: "modmul_reduce MOD 8 (t, tmp1) = Some (tp', tmp')" "length tmp' = 17"
      "lval (take 8 tmp') mod lval MOD = (lval (take 16 tmp1) + 2 ^ 512 * unat t) mod lval MOD"
    using modmul_reduce_val [OF MOD len, of 8 t] by auto
  have win: "window 0 tmp' = take 8 tmp'" by (simp add: window_def)
  have "lval (take 8 tmp') < 2 * lval MOD"
    using lval_less [of "take 8 tmp'"] r(2) bd(2) by simp
  then have fin: "length (p256_mod MOD (take 8 tmp')) = 8"
      "lval (p256_mod MOD (take 8 tmp')) = lval (take 8 tmp') mod lval MOD"
    using p256_mod_val [of "take 8 tmp'" MOD] r(2) bd(1) by simp_all
  have "p256_modmul MOD a top_b b = Some (p256_mod MOD (take 8 tmp'))"
    using f m r(1) win unfolding p256_modmul_def P256_NDIGITS_def Let_def p256_mod_def
    by (simp add: tmp1_def P256_NDIGITS_def split: prod.splits)
  moreover have "lval a * lval b + 2 ^ 256 * (lval a * unat top_b) =
      lval a * (lval b + 2 ^ 256 * unat top_b)"
    by (simp add: algebra_simps)
  then have "lval (p256_mod MOD (take 8 tmp')) = (lval a * (lval b + 2 ^ 256 * unat top_b)) mod lval MOD"
    by (simp only: fin r(3) e)
  ultimately show thesis using fin(1) that by blast
qed


section \<open>Addition, subtraction, comparison\<close>

lemma p256_sub_val:
  assumes "length a = 8" "length b = 8"
  shows "length (snd (p256_sub a b)) = 8"
    and "lval b \<le> lval a \<Longrightarrow> fst (p256_sub a b) = 0 \<and> lval (snd (p256_sub a b)) = lval a - lval b"
    and "lval a < lval b \<Longrightarrow> fst (p256_sub a b) = - 1 \<and> lval (snd (p256_sub a b)) + lval b = lval a + 2 ^ 256"
proof -
  obtain c B where loop: "borrow_loop (of_int 0) a b = (c, B)" by fastforce
  obtain s where s: "length c = 8" "s = 0 \<or> s = - 1" "B = of_int s"
      "int (lval c) + 2 ^ 256 * s = int (lval a) - int (lval b)"
    using borrow_loop_val [OF _ _ loop] assms by auto
  have c: "int (lval c) < 2 ^ 256" "0 \<le> int (lval c)"
    using lval_less [of c] s(1) by (simp_all flip: of_nat_power)
  have "sint (of_int s :: u32) = s" using s(2) by auto
  then have eq: "p256_sub a b = (s, c)" using loop s(3) by (simp add: p256_sub_def)
  show "length (snd (p256_sub a b)) = 8" using eq s(1) by simp
  show "fst (p256_sub a b) = 0 \<and> lval (snd (p256_sub a b)) = lval a - lval b" if "lval b \<le> lval a"
  proof -
    have "s = 0" using s(2,4) c that by auto
    then show ?thesis using eq s(4) that by simp
  qed
  show "fst (p256_sub a b) = - 1 \<and> lval (snd (p256_sub a b)) + lval b = lval a + 2 ^ 256" if "lval a < lval b"
  proof -
    have "s = - 1" using s(2,4) c that by auto
    then show ?thesis using eq s(4) by simp
  qed
qed

lemma p256_carry_val:
  assumes "length a = 8" "length xs = 8" "\<forall>x \<in> set xs. unat x < 2 ^ 32" "unat k0 < 2 ^ 32"
    "carry_loop k0 a xs = (c, k)" "dval xs + unat k0 \<le> 2 ^ 256"
  shows "length c = 8" and "sint (ucast k :: u32) = int (unat k)" and "unat k \<le> 1"
    and "lval c + 2 ^ 256 * unat k = lval a + dval xs + unat k0"
proof -
  have "\<forall>x \<in> set xs. unat x \<le> 18446744065119617025" using assms(3) by fastforce
  then have v: "length c = 8" "unat k < 2 ^ 32" "lval c + 2 ^ 256 * unat k = lval a + dval xs + unat k0"
    using carry_loop_val [of xs a k0 c k] assms by auto
  then show "length c = 8" "lval c + 2 ^ 256 * unat k = lval a + dval xs + unat k0" by simp_all
  have "lval a < 2 ^ 256" using lval_less [of a] assms(1) by simp
  then show k: "unat k \<le> 1" using v(3) assms(6) by simp
  then have u: "unat (ucast k :: u32) = unat k" using unat_ucast_64_32 [of k] by simp
  have "uint (ucast k :: u32) = int (unat (ucast k :: u32))" by simp
  also have "\<dots> = int (unat k)" by (simp only: u)
  finally have e: "uint (ucast k :: u32) = int (unat k)" .
  have "int (unat k) \<le> int 1" using k by (simp only: of_nat_le_iff)
  then show "sint (ucast k :: u32) = int (unat k)" unfolding sint_u32 e by simp
qed


lemma p256_add_val:
  assumes "length a = 8" "length b = 8"
  shows "length (snd (p256_add a b)) = 8"
    and "lval a + lval b < 2 ^ 256 \<Longrightarrow> fst (p256_add a b) = 0 \<and> lval (snd (p256_add a b)) = lval a + lval b"
    and "2 ^ 256 \<le> lval a + lval b \<Longrightarrow>
      fst (p256_add a b) = 1 \<and> lval (snd (p256_add a b)) + 2 ^ 256 = lval a + lval b"
proof -
  obtain c k where loop: "carry_loop 0 a (map ucast b) = (c, k)" by fastforce
  have "\<forall>x \<in> set (map ucast b :: u64 list). unat x < 2 ^ 32"
    by (auto simp: unat_ucast_32_64 u32_lt)
  moreover have "dval (map ucast b) = lval b" using dval_ucast [of "\<lambda>d. d" b] by simp
  moreover have "lval b < 2 ^ 256" using lval_less [of b] assms(2) by simp
  ultimately have v: "length c = 8" "sint (ucast k :: u32) = int (unat k)" "unat k \<le> 1"
      "lval c + 2 ^ 256 * unat k = lval a + lval b"
    using p256_carry_val [OF assms(1) _ _ _ loop] assms(2) by auto
  have eq: "p256_add a b = (int (unat k), c)" using loop v(2) by (simp add: p256_add_def)
  have c: "lval c < 2 ^ 256" using lval_less [of c] v(1) by simp
  show "length (snd (p256_add a b)) = 8" using eq v(1) by simp
  show "fst (p256_add a b) = 0 \<and> lval (snd (p256_add a b)) = lval a + lval b" if "lval a + lval b < 2 ^ 256"
  proof -
    have "unat k = 0" using v(3,4) that by (cases "unat k") auto
    then show ?thesis using eq v(4) by simp
  qed
  show "fst (p256_add a b) = 1 \<and> lval (snd (p256_add a b)) + 2 ^ 256 = lval a + lval b"
    if "2 ^ 256 \<le> lval a + lval b"
  proof -
    have "unat k \<noteq> 0" using v(4) c that by auto
    then have "unat k = 1" using v(3) by simp
    then show ?thesis using eq v(4) by simp
  qed
qed

lemma p256_add_d_val:
  assumes "length a = 8"
  shows "length (snd (p256_add_d a d)) = 8"
    and "int (lval (snd (p256_add_d a d))) + 2 ^ 256 * fst (p256_add_d a d) = int (lval a) + int (unat d)"
    and "fst (p256_add_d a d) = 0 \<or> fst (p256_add_d a d) = 1"
proof -
  obtain c k where loop: "carry_loop (ucast d) a (replicate 8 0) = (c, k)" by fastforce
  have z: "dval (replicate 8 0) = 0" by (rule dval_zeros)
  have d: "unat (ucast d :: u64) = unat d" by (rule unat_ucast_32_64)
  have "unat d < 2 ^ 32" using u32_lt [of d] by simp
  moreover from this have "unat d \<le> 2 ^ 256" by (rule less_imp_le [OF less_le_trans]) simp
  ultimately have "unat (ucast d :: u64) < 2 ^ 32" "dval (replicate 8 0) + unat (ucast d :: u64) \<le> 2 ^ 256"
    by (simp_all only: d z add_0)
  moreover have "\<forall>x \<in> set (replicate 8 (0 :: u64)). unat x < 2 ^ 32" by simp
  ultimately have v: "length c = 8" "sint (ucast k :: u32) = int (unat k)" "unat k \<le> 1"
      "lval c + 2 ^ 256 * unat k = lval a + unat d"
    using p256_carry_val [OF assms length_replicate _ _ loop] unfolding d z add_0_right by blast+
  have eq: "p256_add_d a d = (int (unat k), c)" using loop v(2) by (simp add: p256_add_d_def P256_NDIGITS_def)
  then show "length (snd (p256_add_d a d)) = 8" using v(1) by simp
  have "int (lval c + 2 ^ 256 * unat k) = int (lval a + unat d)" by (simp only: v(4))
  then show "int (lval (snd (p256_add_d a d))) + 2 ^ 256 * fst (p256_add_d a d) = int (lval a) + int (unat d)"
    using eq by simp
  have "unat k = 0 \<or> unat k = 1" using v(3) by auto
  then show "fst (p256_add_d a d) = 0 \<or> fst (p256_add_d a d) = 1"
    unfolding eq fst_conv by (elim disjE) (simp_all only: int_ops simp_thms)
qed

lemma p256_cmp_loop_val:
  assumes "length bs = length as" "s = 0 \<or> s = - 1" "nz = 0 \<or> nz = 1"
    and "p256_cmp_loop (of_int s) nz as bs = (B, nz')"
  shows "\<exists>s' r. (s' = 0 \<or> s' = - 1) \<and> B = of_int s' \<and> length r = length as \<and>
    int (lval r) + 2 ^ (32 * length as) * s' = int (lval as) - int (lval bs) + s \<and>
    nz' = (if nz = 0 \<and> lval r = 0 then 0 else 1)"
  using assms
proof (induction as arbitrary: bs s nz)
  case Nil
  then show ?case by auto
next
  case (Cons a as)
  obtain b bs' where bs: "bs = b # bs'" "length bs' = length as"
    using Cons.prems(1) by (cases bs) auto
  define k where "k = s + uint a - uint b"
  note step = borrow_step [OF Cons.prems(2) k_def]
  define nz1 :: u32 where "nz1 = nz OR (if (of_int k :: u32) \<noteq> 0 then 1 else 0)"
  have nz1: "nz1 = 0 \<or> nz1 = 1" "nz1 = 0 \<longleftrightarrow> nz = 0 \<and> (of_int k :: u32) = 0"
    using Cons.prems(3) by (auto simp: nz1_def)
  have A: "of_int s + (ucast a - ucast b) = (of_int k :: u64)" using step(1) by (simp only: add_diff_eq)
  have rec: "p256_cmp_loop (of_int (k div 2 ^ 32)) nz1 as bs' = (B, nz')"
    using Cons.prems(4)
    by (simp only: bs p256_cmp_loop.simps Let_def A step(2) low32_of_int nz1_def)
  obtain s' r' where IH: "s' = 0 \<or> s' = - 1" "B = of_int s'" "length r' = length as"
      "int (lval r') + 2 ^ (32 * length as) * s' = int (lval as) - int (lval bs') + k div 2 ^ 32"
      "nz' = (if nz1 = 0 \<and> lval r' = 0 then 0 else 1)"
    using Cons.IH [OF bs(2) step(3) nz1(1) rec] by blast
  let ?r = "of_int k # r'"
  have "int (lval ?r) + 2 ^ (32 * length (a # as)) * s' =
      k mod 2 ^ 32 + 2 ^ 32 * (int (lval r') + 2 ^ (32 * length as) * s')"
    by (simp add: uint_of_int_u32 power_add algebra_simps)
  also have "\<dots> = (k mod 2 ^ 32 + 2 ^ 32 * (k div 2 ^ 32)) + 2 ^ 32 * (int (lval as) - int (lval bs'))"
    unfolding IH(4) by (simp only: algebra_simps)
  also have "\<dots> = int (lval (a # as)) - int (lval bs) + s"
    by (simp add: mod_mult_div_eq k_def bs(1) algebra_simps)
  finally have v: "int (lval ?r) + 2 ^ (32 * length (a # as)) * s' = int (lval (a # as)) - int (lval bs) + s" .
  have z: "lval ?r = 0 \<longleftrightarrow> (of_int k :: u32) = 0 \<and> lval r' = 0" by (simp add: unat_eq_zero)
  have "nz' = (if nz = 0 \<and> lval ?r = 0 then 0 else 1)" unfolding z using nz1(2) IH(5) by auto
  then show ?case using IH(1,2,3) v by (intro exI [of _ s'] exI [of _ ?r]) simp
qed

lemma p256_cmp_val:
  assumes "length a = 8" "length b = 8"
  shows "p256_cmp a b = (if lval a < lval b then - 1 else if lval a = lval b then 0 else 1)"
proof -
  obtain B nz' where loop: "p256_cmp_loop (of_int 0) 0 a b = (B, nz')" by fastforce
  obtain s r where s: "s = 0 \<or> s = - 1" "B = of_int s" "length r = 8"
      "int (lval r) + 2 ^ 256 * s = int (lval a) - int (lval b)" "nz' = (if lval r = 0 then 0 else 1)"
    using p256_cmp_loop_val [OF _ _ _ loop] assms by auto
  have r: "int (lval r) < 2 ^ 256" using lval_less [of r] s(3) by (simp flip: of_nat_power)
  have eq: "p256_cmp a b = sint ((of_int s :: u32) OR nz')" using loop s(2) by (simp add: p256_cmp_def)
  show ?thesis
  proof (cases "s = 0")
    case True
    then have "int (lval r) = int (lval a) - int (lval b)" using s(4) by simp
    then show ?thesis using eq True s(5) by auto
  next
    case False
    then have "lval a < lval b" using s(1,4) r by auto
    then show ?thesis using eq False s(1) by auto
  qed
qed

text \<open>
  C13. \<open>p256_modmul\<close> returns \<open>a * (top_b | b) mod MOD\<close>, fully reduced, for every modulus whose most
  significant digit is all ones (as for the curve's prime and order), and none of the three
  assertions in its reduction loop fails.
\<close>

theorem p256_modmul_correct:
  assumes "length MOD = P256_NDIGITS" "MOD ! 7 = - 1" "length a = P256_NDIGITS" "length b = P256_NDIGITS"
  shows "\<exists>c. p256_modmul MOD a top_b b = Some c \<and> length c = P256_NDIGITS \<and>
    lval c = (lval a * (lval b + 2 ^ 256 * unat top_b)) mod lval MOD"
proof -
  have "mod_ok MOD" "length a = 8" "length b = 8"
    using assms by (simp_all add: mod_ok_def P256_NDIGITS_def)
  then show ?thesis using p256_modmul_val [of MOD a b top_b] by (metis P256_NDIGITS_def)
qed

theorem p256_modmul_correct_witness:
  "\<exists>c. p256_modmul SECP256r1_p (replicate 8 7) 5 (replicate 8 9) = Some c \<and> length c = P256_NDIGITS \<and>
    lval c = (lval (replicate 8 7) * (lval (replicate 8 9) + 2 ^ 256 * unat (5 :: u32))) mod lval SECP256r1_p"
  by (rule p256_modmul_correct) (simp_all add: SECP256r1_p_def P256_NDIGITS_def)

end
