(* ===== verification/P256_Inverse.thy ===== *)
theory P256_Inverse
  imports P256_Arith
begin

text \<open>
  Shifts, parity and the binary Euclidean inverse of \<open>P256\<close>: the loop's invariant, that it ends for
  every nonzero argument and what it returns, and that it does not end for zero.
\<close>

section \<open>Bits and shifts\<close>

lemma fold_or_zero: "fold (\<lambda>d r. r OR d) as (r :: u32) = 0 \<longleftrightarrow> r = 0 \<and> (\<forall>x \<in> set as. x = 0)"
proof (induction as arbitrary: r)
  case (Cons a as)
  have "r OR a = 0 \<longleftrightarrow> r = 0 \<and> a = 0" by (simp add: or_eq_0_iff)
  then show ?case using Cons by auto
qed simp

lemma p256_is_zero_val: "p256_is_zero a \<longleftrightarrow> lval a = 0"
  by (simp add: p256_is_zero_def fold_or_zero lval_eq_0_iff)

lemma p256_is_even_val: "a \<noteq> [] \<Longrightarrow> p256_is_even a \<longleftrightarrow> even (lval a)"
proof (cases a)
  case (Cons x xs)
  have "x AND 1 = 0 \<longleftrightarrow> even (unat x)"
    using unat_and_mask [of x 1] by (simp add: mask_eq_exp_minus_1 even_iff_mod_2_eq_zero word_unat_eq_iff)
  then show ?thesis using Cons by (simp add: p256_is_even_def)
qed simp

text \<open>Right shift of digits with the digit above them given.\<close>

fun shr_digits :: "nat \<Rightarrow> u32 list \<Rightarrow> u32 \<Rightarrow> u32 list" where
  "shr_digits n [] h = []"
| "shr_digits n (a # as) h =
     (drop_bit n a OR push_bit (32 - n) (hd (as @ [h]))) # shr_digits n as h"

lemma length_shr_digits [simp]: "length (shr_digits n as h) = length as"
  by (induction as) simp_all

lemma shr_digits_nth:
  "i < length as \<Longrightarrow> shr_digits n as h ! i =
     drop_bit n (as ! i) OR push_bit (32 - n) ((as @ [h]) ! Suc i)"
proof (induction as arbitrary: i)
  case (Cons a as)
  then show ?case by (cases i) (simp_all add: hd_conv_nth)
qed simp

lemma shift_or_val:
  assumes "0 < n" "n < 32"
  shows "unat (drop_bit n a OR push_bit (32 - n) b) =
    unat (a :: u32) div 2 ^ n + unat (b :: u32) mod 2 ^ n * 2 ^ (32 - n)"
    and "unat a div 2 ^ n + unat b mod 2 ^ n * 2 ^ (32 - n) < 2 ^ 32"
proof -
  have split: "(2 :: nat) ^ 32 = 2 ^ n * 2 ^ (32 - n)" using assms by (simp flip: power_add)
  have "unat a < 2 ^ n * 2 ^ (32 - n)" using u32_lt [of a] unfolding split [symmetric] by simp
  then have d: "unat a div 2 ^ n < 2 ^ (32 - n)" by (simp add: less_mult_imp_div_less mult.commute)
  have "unat b mod 2 ^ n + 1 \<le> 2 ^ n" by (simp add: Suc_leI)
  then have "(unat b mod 2 ^ n + 1) * 2 ^ (32 - n) \<le> 2 ^ n * 2 ^ (32 - n)" by (rule mult_le_mono1)
  then show lt: "unat a div 2 ^ n + unat b mod 2 ^ n * 2 ^ (32 - n) < 2 ^ 32"
    unfolding split add_mult_distrib using d by linarith
  have "drop_bit n a AND push_bit (32 - n) b = 0"
    by (rule bit_word_eqI) (use assms in \<open>auto simp: bit_simps dest: bit_imp_le_length\<close>)
  then have r: "drop_bit n a OR push_bit (32 - n) b = drop_bit n a + push_bit (32 - n) b"
    by (simp add: disjunctive_add_eq_or)
  have "unat (push_bit (32 - n) b) = (unat b * 2 ^ (32 - n)) mod 2 ^ 32"
    unfolding unsigned_push_bit_eq by (simp add: push_bit_eq_mult take_bit_eq_mod)
  then have p: "unat (push_bit (32 - n) b) = unat b mod 2 ^ n * 2 ^ (32 - n)"
    unfolding split by (simp only: mult_mod_left)
  have dv: "unat (drop_bit n a) = unat a div 2 ^ n" by (rule unat_drop_bit)
  have "unat (drop_bit n a) + unat (push_bit (32 - n) b) < 2 ^ LENGTH(32)"
    unfolding p dv using lt by simp
  then show "unat (drop_bit n a OR push_bit (32 - n) b) =
    unat a div 2 ^ n + unat b mod 2 ^ n * 2 ^ (32 - n)"
    unfolding r by (simp only: unat_add_exact p dv)
qed

lemma nat_digit_step:
  fixes a B M y :: nat
  assumes "a < B"
  shows "(a + B * y) mod (B * M) = a + B * (y mod M)"
  using assms by (simp add: mod_mult2_eq)

lemma shr_digits_val:
  assumes n: "0 < n" "n < 32"
  shows "lval (shr_digits n as h) = ((lval as + 2 ^ (32 * length as) * unat h) div 2 ^ n) mod 2 ^ (32 * length as)"
proof (induction as)
  case (Cons a as)
  have split: "(2 :: nat) ^ 32 = 2 ^ n * 2 ^ (32 - n)" using n by (simp flip: power_add)
  define A where "A = lval as + 2 ^ (32 * length as) * unat h"
  define c where "c = unat a div 2 ^ n + unat (hd (as @ [h])) mod 2 ^ n * 2 ^ (32 - n)"
  have "unat (hd (as @ [h])) mod 2 ^ n = A mod 2 ^ n"
  proof -
    have "A = unat (hd (as @ [h])) + 2 ^ 32 * lval (tl (as @ [h]))"
      unfolding A_def by (cases as) (simp_all add: lval_append algebra_simps power_add)
    then show ?thesis unfolding split by (simp add: mult.assoc)
  qed
  then have c: "c = unat a div 2 ^ n + A mod 2 ^ n * 2 ^ (32 - n)" by (simp add: c_def)
  have lt: "c < 2 ^ 32" unfolding c_def by (rule shift_or_val(2) [OF n])
  have "(unat a + 2 ^ 32 * A) div 2 ^ n = unat a div 2 ^ n + 2 ^ (32 - n) * A"
  proof -
    have "unat a + 2 ^ 32 * A = unat a + 2 ^ n * (2 ^ (32 - n) * A)" by (simp only: split mult.assoc)
    then show ?thesis by (simp only:) simp
  qed
  also have "2 ^ (32 - n) * A = A mod 2 ^ n * 2 ^ (32 - n) + 2 ^ 32 * (A div 2 ^ n)"
  proof -
    have "A = A mod 2 ^ n + 2 ^ n * (A div 2 ^ n)" by simp
    then have "2 ^ (32 - n) * A = 2 ^ (32 - n) * (A mod 2 ^ n) + 2 ^ (32 - n) * (2 ^ n * (A div 2 ^ n))"
      by (metis distrib_left)
    moreover have "2 ^ (32 - n) * (2 ^ n * (A div 2 ^ n)) = 2 ^ 32 * (A div 2 ^ n)"
      unfolding split by (simp only: ac_simps)
    ultimately show ?thesis by (simp only: mult.commute)
  qed
  finally have "(unat a + 2 ^ 32 * A) div 2 ^ n = c + 2 ^ 32 * (A div 2 ^ n)" by (simp add: c)
  moreover have "lval (a # as) + 2 ^ (32 * length (a # as)) * unat h = unat a + 2 ^ 32 * A"
    by (simp add: A_def power_add algebra_simps)
  moreover have "(2 :: nat) ^ (32 * length (a # as)) = 2 ^ 32 * 2 ^ (32 * length as)" by (simp add: power_add)
  moreover have "lval (shr_digits n (a # as) h) = c + 2 ^ 32 * lval (shr_digits n as h)"
    using shift_or_val(1) [OF n, of a "hd (as @ [h])"] by (simp add: c_def)
  ultimately show ?case
    using Cons nat_digit_step [OF lt, of "A div 2 ^ n" "2 ^ (32 * length as)"] by (simp only: A_def)
qed simp

lemma shr_digits_eq:
  assumes "length a = 8"
  shows "shr_digits n a h = map (\<lambda>i. drop_bit n (a ! i) OR push_bit (32 - n) (a ! (i + 1))) [0..<7]
    @ [drop_bit n (a ! 7) OR push_bit (32 - n) h]"
proof (rule nth_equalityI)
  fix i assume "i < length (shr_digits n a h)"
  then have "i < 8" using assms by simp
  then show "shr_digits n a h ! i = (map (\<lambda>i. drop_bit n (a ! i) OR push_bit (32 - n) (a ! (i + 1))) [0..<7]
    @ [drop_bit n (a ! 7) OR push_bit (32 - n) h]) ! i"
    using assms by (cases "i = 7") (simp_all add: shr_digits_nth nth_append)
qed (simp add: assms)

lemma p256_shr1_val:
  assumes "length a = 8" "h = 0 \<or> h = 1"
  shows "length (p256_shr1 a h) = 8" and "lval (p256_shr1 a h) = (lval a + 2 ^ 256 * nat h) div 2"
proof -
  have eq: "p256_shr1 a h = shr_digits 1 a (of_int h)"
    using shr_digits_eq [OF assms(1), of 1 "of_int h"] by (simp add: p256_shr1_def P256_NDIGITS_def)
  then show "length (p256_shr1 a h) = 8" using assms(1) by simp
  have h: "unat (of_int h :: u32) = nat h" using assms(2) by auto
  have "lval a < 2 ^ 256" using lval_less [of a] assms(1) by simp
  then have "(lval a + 2 ^ 256 * nat h) div 2 < 2 ^ 256" using assms(2) by auto
  then show "lval (p256_shr1 a h) = (lval a + 2 ^ 256 * nat h) div 2"
    using shr_digits_val [of 1 a "of_int h"] assms(1) by (simp only: eq h) simp
qed

lemma p256_shr_val:
  assumes "length a = 8" "n mod 32 \<noteq> 0"
  obtains b where "p256_shr a n = Some b" "length b = 8" "lval b = lval a div 2 ^ (n mod 32)"
proof -
  let ?n = "n mod 32"
  have "p256_shr a n = Some (shr_digits ?n a 0)"
    using shr_digits_eq [OF assms(1), of ?n 0] assms(2) by (simp add: p256_shr_def P256_NDIGITS_def Let_def)
  moreover have "lval a < 2 ^ 256" using lval_less [of a] assms(1) by simp
  then have "lval a div 2 ^ ?n < 2 ^ 256" by (rule le_less_trans [OF div_le_dividend])
  then have "lval (shr_digits ?n a 0) = lval a div 2 ^ ?n"
    using shr_digits_val [of ?n a 0] assms by simp
  ultimately show thesis using that assms(1) by simp
qed


text \<open>Left shift of digits with the digit below them given.\<close>

fun shl_digits :: "nat \<Rightarrow> u32 \<Rightarrow> u32 list \<Rightarrow> u32 list" where
  "shl_digits n p [] = []"
| "shl_digits n p (a # as) = (drop_bit (32 - n) p OR push_bit n a) # shl_digits n a as"

lemma length_shl_digits [simp]: "length (shl_digits n p as) = length as"
  by (induction n p as rule: shl_digits.induct) simp_all

lemma shl_digits_nth:
  "i < length as \<Longrightarrow> shl_digits n p as ! i = drop_bit (32 - n) ((p # as) ! i) OR push_bit n (as ! i)"
proof (induction n p as arbitrary: i rule: shl_digits.induct)
  case (2 n p a as)
  then show ?case by (cases i) simp_all
qed simp

lemma shl_digits_val:
  assumes n: "0 < n" "n < 32"
  shows "lval (shl_digits n p as) + 2 ^ (32 * length as) * (unat (last (p # as)) div 2 ^ (32 - n)) =
    2 ^ n * lval as + unat p div 2 ^ (32 - n)"
  using n
proof (induction n p as rule: shl_digits.induct)
  case (2 n p a as)
  have split: "(2 :: nat) ^ 32 = 2 ^ (32 - n) * 2 ^ n" using 2 by (simp flip: power_add)
  have d: "unat (drop_bit (32 - n) p OR push_bit n a) =
      unat p div 2 ^ (32 - n) + unat a mod 2 ^ (32 - n) * 2 ^ n"
    using shift_or_val(1) [of "32 - n" p a] 2 by simp
  have "lval (shl_digits n p (a # as)) + 2 ^ (32 * length (a # as)) * (unat (last (p # a # as)) div 2 ^ (32 - n)) =
      unat p div 2 ^ (32 - n) + unat a mod 2 ^ (32 - n) * 2 ^ n +
      2 ^ 32 * (lval (shl_digits n a as) + 2 ^ (32 * length as) * (unat (last (a # as)) div 2 ^ (32 - n)))"
    by (simp add: d power_add algebra_simps)
  also have "\<dots> = unat p div 2 ^ (32 - n) + 2 ^ n * (unat a mod 2 ^ (32 - n) + 2 ^ (32 - n) * (unat a div 2 ^ (32 - n)))
      + 2 ^ 32 * (2 ^ n * lval as)"
    unfolding 2(1) [OF 2(2,3)] split by (simp only: algebra_simps)
  also have "\<dots> = 2 ^ n * lval (a # as) + unat p div 2 ^ (32 - n)"
    by (simp only: mod_mult_div_eq) (simp add: algebra_simps)
  finally show ?case .
qed simp

lemma p256_shl_val:
  assumes "length a = 8" "n mod 32 \<noteq> 0"
  obtains t b where "p256_shl a n = Some (t, b)" "length b = 8"
    "lval b + 2 ^ 256 * unat t = lval a * 2 ^ (n mod 32)"
proof -
  define m where "m = n mod 32"
  have m: "0 < m" "m < 32" using assms(2) by (simp_all add: m_def)
  have split: "(2 :: nat) ^ 32 = 2 ^ (32 - m) * 2 ^ m" using m by (simp flip: power_add)
  let ?b = "shl_digits m 0 a"
  let ?t = "ucast (drop_bit 32 (push_bit m (ucast (a ! 7) :: u64))) :: u32"
  have b: "push_bit m (a ! 0) # map (\<lambda>i. push_bit m (a ! i) OR drop_bit (32 - m) (a ! (i - 1))) [1..<8] = ?b"
  proof (rule nth_equalityI)
    fix i assume "i < length (push_bit m (a ! 0) # map (\<lambda>i. push_bit m (a ! i) OR drop_bit (32 - m) (a ! (i - 1))) [1..<8])"
    then have "i < 8" by simp
    then show "(push_bit m (a ! 0) # map (\<lambda>i. push_bit m (a ! i) OR drop_bit (32 - m) (a ! (i - 1))) [1..<8]) ! i = ?b ! i"
      using assms(1) by (cases i) (simp_all add: shl_digits_nth or.commute)
  qed (simp add: assms(1))
  have "unat (push_bit m (ucast (a ! 7) :: u64)) = unat (a ! 7) * 2 ^ m"
  proof -
    have "unat (a ! 7) * 2 ^ m < 2 ^ 32 * 2 ^ m" using u32_lt [of "a ! 7"] by simp
    also have "\<dots> \<le> 2 ^ 32 * 2 ^ 32" using m by (intro mult_le_mono2 power_increasing) simp_all
    finally show ?thesis
      unfolding unsigned_push_bit_eq unat_ucast_32_64 by (simp add: push_bit_eq_mult take_bit_eq_mod)
  qed
  moreover have "unat (a ! 7) * 2 ^ m div 2 ^ 32 = unat (a ! 7) div 2 ^ (32 - m)"
    unfolding split by simp
  ultimately have t0: "unat (drop_bit 32 (push_bit m (ucast (a ! 7) :: u64))) = unat (a ! 7) div 2 ^ (32 - m)"
    by (simp only: unat_drop_bit)
  have "unat (a ! 7) div 2 ^ (32 - m) < 2 ^ 32"
    using u32_lt [of "a ! 7"] by (intro le_less_trans [OF div_le_dividend]) simp
  then have t: "unat ?t = unat (a ! 7) div 2 ^ (32 - m)" by (simp only: unat_ucast_64_32 t0 mod_less)
  have "p256_shl a n = Some (?t, ?b)"
    using assms(2) b unfolding p256_shl_def Let_def P256_NDIGITS_def m_def [symmetric] by simp
  moreover have "a \<noteq> []" using assms(1) by auto
  then have "last (0 # a) = a ! 7" using assms(1) by (simp add: last_conv_nth)
  then have "lval ?b + 2 ^ 256 * unat ?t = lval a * 2 ^ m"
    using shl_digits_val [OF m, of 0 a] assms(1) unfolding t by (simp add: mult.commute)
  ultimately show thesis using that assms(1) by (simp add: m_def)
qed

lemma p256_from_bin_val:
  assumes "length src = 32"
  shows "length (p256_from_bin src) = 8" and "lval (p256_from_bin src) = bval src"
proof -
  have len: "length src = 4 * 8" using assms by simp
  have "p256_from_bin src = rev (load_words src)"
    unfolding p256_from_bin_def using be32_load_words [OF len] load_words_nth [OF len]
    by (intro arg_cong [of _ _ rev] nth_equalityI) (simp_all add: P256_NDIGITS_def)
  then show "length (p256_from_bin src) = 8" "lval (p256_from_bin src) = bval src"
    using be32_load_words [OF len] bval_digits [of "load_words src"] by simp_all
qed


section \<open>The modular inverse\<close>

lemma half_mod_val:
  assumes "length R = 8" "length MOD = 8" "odd (lval MOD)" "lval R < lval MOD"
  shows "length (half_mod MOD R) = 8" and "lval (half_mod MOD R) < lval MOD"
    and "2 * lval (half_mod MOD R) = (if even (lval R) then lval R else lval R + lval MOD)"
proof -
  have ev: "p256_is_even R \<longleftrightarrow> even (lval R)" using assms(1) by (intro p256_is_even_val) auto
  have "length (half_mod MOD R) = 8 \<and>
      2 * lval (half_mod MOD R) = (if even (lval R) then lval R else lval R + lval MOD)"
  proof (cases "even (lval R)")
    case True
    then show ?thesis using p256_shr1_val [OF assms(1), of 0] ev by (simp add: half_mod_def)
  next
    case False
    obtain k R' where add: "p256_add R MOD = (k, R')" by fastforce
    have sum: "length R' = 8" "k = 0 \<or> k = 1" "lval R' + 2 ^ 256 * nat k = lval R + lval MOD"
      using p256_add_val [OF assms(1,2)] add by (cases "lval R + lval MOD < 2 ^ 256"; auto)+
    then show ?thesis
      using p256_shr1_val [OF sum(1,2)] ev False assms(3) add by (simp add: half_mod_def)
  qed
  then show "length (half_mod MOD R) = 8"
      "2 * lval (half_mod MOD R) = (if even (lval R) then lval R else lval R + lval MOD)" by simp_all
  then show "lval (half_mod MOD R) < lval MOD" using assms(4) by (simp split: if_splits)
qed

lemma sub_mod_val:
  assumes "length S = 8" "length R = 8" "length MOD = 8" "lval S < lval MOD" "lval R < lval MOD"
  shows "length (sub_mod MOD S R) = 8"
    and "lval (sub_mod MOD S R) = (if lval R \<le> lval S then lval S - lval R else lval S + lval MOD - lval R)"
proof -
  obtain k D where sub: "p256_sub S R = (k, D)" by fastforce
  have lens: "length D = 8" using p256_sub_val(1) [OF assms(1,2)] sub by simp
  have "lval D < 2 ^ 256" "lval MOD < 2 ^ 256" using lval_less [of D] lval_less [of MOD] lens assms(3) by simp_all
  note v = p256_sub_val(2,3) [OF assms(1,2)] p256_add_val [OF lens assms(3)]
  show "length (sub_mod MOD S R) = 8" using sub lens v(3) by (simp add: sub_mod_def)
  show "lval (sub_mod MOD S R) = (if lval R \<le> lval S then lval S - lval R else lval S + lval MOD - lval R)"
  proof (cases "lval R \<le> lval S")
    case True
    then show ?thesis using sub v(1) by (simp add: sub_mod_def)
  next
    case False
    then have "k = - 1" "lval D + lval R = lval S + 2 ^ 256" using sub v(2) by simp_all
    moreover from this have "2 ^ 256 \<le> lval D + lval MOD" using assms(5) by simp
    ultimately have "lval (sub_mod MOD S R) + 2 ^ 256 = lval D + lval MOD"
        "lval D + lval R = lval S + 2 ^ 256"
      using sub v(5) by (simp_all add: sub_mod_def)
    then have "lval (sub_mod MOD S R) = lval S + lval MOD - lval R" by linarith
    then show ?thesis using False by simp
  qed
qed

text \<open>The invariant of the loop, on the numbers the four variables stand for.\<close>

definition modinv_inv :: "p256_int \<Rightarrow> nat \<Rightarrow> modinv_state \<Rightarrow> bool" where
  "modinv_inv MOD a s \<longleftrightarrow>
     length (inv_R s) = 8 \<and> length (inv_S s) = 8 \<and> length (inv_U s) = 8 \<and> length (inv_V s) = 8 \<and>
     lval (inv_R s) < lval MOD \<and> lval (inv_S s) < lval MOD \<and>
     0 < lval (inv_U s) \<and> 0 < lval (inv_V s) \<and> (odd (lval (inv_U s)) \<or> odd (lval (inv_V s))) \<and>
     gcd (lval (inv_U s)) (lval (inv_V s)) = gcd (lval MOD) a \<and>
     (int a * int (lval (inv_R s))) mod int (lval MOD) = int (lval (inv_U s)) mod int (lval MOD) \<and>
     (int a * int (lval (inv_S s))) mod int (lval MOD) = int (lval (inv_V s)) mod int (lval MOD)"

text \<open>Halving a representative and subtracting two, modulo an odd \<open>M\<close>.\<close>

lemma half_cong:
  fixes M a r u r' u' :: int
  assumes "odd M" "(a * r) mod M = u mod M" "2 * r' = r \<or> 2 * r' = r + M" "2 * u' = u"
  shows "(a * r') mod M = u' mod M"
proof -
  have "M dvd a * r - u" using assms(2) by (simp add: mod_eq_dvd_iff)
  moreover have "a * r - u = 2 * (a * r' - u') \<or> a * r - u = 2 * (a * r' - u') - a * M"
    using assms(3,4) by (auto simp: algebra_simps)
  ultimately have "M dvd 2 * (a * r' - u')"
    by (metis dvd_add_right_iff dvd_triv_right diff_add_cancel add.commute)
  moreover have "coprime M 2" using assms(1) by simp
  ultimately have "M dvd a * r' - u'" by (metis coprime_dvd_mult_right_iff)
  then show ?thesis by (simp add: mod_eq_dvd_iff)
qed

lemma diff_cong:
  fixes M a r s u v t :: int
  assumes "(a * r) mod M = u mod M" "(a * s) mod M = v mod M" "t = s - r \<or> t = s - r + M"
  shows "(a * t) mod M = (v - u) mod M"
proof -
  have "M dvd a * r - u" "M dvd a * s - v" using assms(1,2) by (simp_all add: mod_eq_dvd_iff)
  then have "M dvd (a * s - v) - (a * r - u)" by (rule dvd_diff [rotated])
  moreover have "a * t - (v - u) = ((a * s - v) - (a * r - u)) \<or>
      a * t - (v - u) = ((a * s - v) - (a * r - u)) + a * M"
  proof (rule disjE [OF assms(3)])
    assume t: "t = s - r + M"
    have "a * t - (v - u) = ((a * s - v) - (a * r - u)) + a * M" unfolding t by (simp add: algebra_simps)
    then show ?thesis by simp
  next
    assume t: "t = s - r"
    have "a * t - (v - u) = (a * s - v) - (a * r - u)" unfolding t by (simp add: algebra_simps)
    then show ?thesis by simp
  qed
  ultimately have "M dvd a * t - (v - u)"
    by (elim disjE) (simp_all only: dvd_add_left_iff dvd_triv_right)
  then show ?thesis by (simp add: mod_eq_dvd_iff)
qed


lemma gcd_half: "odd v \<Longrightarrow> gcd (2 * u) v = gcd u (v :: nat)"
  by (simp add: gcd_mult_left_left_cancel)

lemma modinv_step_inv:
  assumes inv: "modinv_inv MOD a s" and MOD: "length MOD = 8" "odd (lval MOD)"
  shows "case modinv_step MOD s of
      Inr s' \<Rightarrow> modinv_inv MOD a s' \<and>
        lval (inv_U s') + lval (inv_V s') < lval (inv_U s) + lval (inv_V s)
    | Inl s' \<Rightarrow> length (inv_R s') = 8 \<and> lval (inv_R s') < lval MOD \<and>
        (a * lval (inv_R s')) mod lval MOD = gcd (lval MOD) a mod lval MOD"
proof -
  note i = inv [unfolded modinv_inv_def]
  have len: "length (inv_R s) = 8" "length (inv_S s) = 8" "length (inv_U s) = 8" "length (inv_V s) = 8"
    and lt: "lval (inv_R s) < lval MOD" "lval (inv_S s) < lval MOD"
    and pos: "0 < lval (inv_U s)" "0 < lval (inv_V s)" using i by simp_all
  have evU: "p256_is_even (inv_U s) \<longleftrightarrow> even (lval (inv_U s))"
    and evV: "p256_is_even (inv_V s) \<longleftrightarrow> even (lval (inv_V s))"
    using len by (auto intro!: p256_is_even_val)
  note hR = half_mod_val [OF len(1) MOD lt(1)] and hS = half_mod_val [OF len(2) MOD lt(2)]
  have cR: "(int a * int (lval (inv_R s))) mod int (lval MOD) = int (lval (inv_U s)) mod int (lval MOD)"
    and cS: "(int a * int (lval (inv_S s))) mod int (lval MOD) = int (lval (inv_V s)) mod int (lval MOD)"
    using i by simp_all
  have M: "odd (int (lval MOD))" using MOD(2) by simp
  consider (U) "even (lval (inv_U s))" | (V) "odd (lval (inv_U s))" "even (lval (inv_V s))"
    | (ge) "odd (lval (inv_U s))" "odd (lval (inv_V s))" "lval (inv_U s) \<le> lval (inv_V s)"
    | (lt) "odd (lval (inv_U s))" "odd (lval (inv_V s))" "lval (inv_V s) < lval (inv_U s)"
    by linarith
  then show ?thesis
  proof cases
    case U
    let ?U = "p256_shr1 (inv_U s) 0"
    have u: "length ?U = 8" "2 * lval ?U = lval (inv_U s)" using p256_shr1_val [OF len(3), of 0] U by simp_all
    have V: "odd (lval (inv_V s))" using U i by simp
    have "gcd (lval ?U) (lval (inv_V s)) = gcd (lval MOD) a"
      using gcd_half [OF V, of "lval ?U"] i u(2) by simp
    moreover have "(int a * int (lval (half_mod MOD (inv_R s)))) mod int (lval MOD) = int (lval ?U) mod int (lval MOD)"
      using hR(3) u(2) by (intro half_cong [OF M cR]) (auto split: if_splits)
    ultimately show ?thesis
      using U V u hR(1,2) len lt pos cS i by (auto simp: modinv_step_def evU modinv_inv_def)
  next
    case V
    let ?V = "p256_shr1 (inv_V s) 0"
    have v: "length ?V = 8" "2 * lval ?V = lval (inv_V s)" using p256_shr1_val [OF len(4), of 0] V by simp_all
    have "gcd (lval ?V) (lval (inv_U s)) = gcd (lval MOD) a"
      using gcd_half [OF V(1), of "lval ?V"] i v(2) by (simp add: gcd.commute)
    moreover have "(int a * int (lval (half_mod MOD (inv_S s)))) mod int (lval MOD) = int (lval ?V) mod int (lval MOD)"
      using hS(3) v(2) by (intro half_cong [OF M cS]) (auto split: if_splits)
    ultimately show ?thesis
      using V v hS(1,2) len lt pos cR i by (auto simp: modinv_step_def evU evV modinv_inv_def gcd.commute)
  next
    case ge
    let ?V = "snd (p256_sub (inv_V s) (inv_U s))" and ?S = "sub_mod MOD (inv_S s) (inv_R s)"
    have v: "length ?V = 8" "fst (p256_sub (inv_V s) (inv_U s)) = 0" "lval ?V = lval (inv_V s) - lval (inv_U s)"
      using p256_sub_val [OF len(4,3)] ge(3) by simp_all
    note S = sub_mod_val [OF len(2,1) MOD(1) lt(2,1)]
    have g: "gcd (lval (inv_U s)) (lval ?V) = gcd (lval MOD) a"
      using gcd_diff1_nat [OF ge(3)] i v(3) by (simp add: gcd.commute)
    have "(int a * int (lval ?S)) mod int (lval MOD) = (int (lval (inv_V s)) - int (lval (inv_U s))) mod int (lval MOD)"
      using S(2) lt by (intro diff_cong [OF cR cS]) (auto split: if_splits simp: of_nat_diff)
    then have c: "(int a * int (lval ?S)) mod int (lval MOD) = int (lval ?V) mod int (lval MOD)"
      using v(3) ge(3) by (simp add: of_nat_diff)
    have Slt: "lval ?S < lval MOD" using S(2) lt by (auto split: if_splits)
    show ?thesis
    proof (cases "lval ?V = 0")
      case True
      have "int ((a * lval (inv_R s)) mod lval MOD) = int (lval (inv_U s) mod lval MOD)"
        using cR by (simp add: of_nat_mod)
      then have "(a * lval (inv_R s)) mod lval MOD = gcd (lval MOD) a mod lval MOD"
        using g True by (simp only: of_nat_eq_iff gcd_0_right normalize_nat_def id_apply)
      then show ?thesis
        using ge True v(2) len lt by (simp add: modinv_step_def evU evV p256_is_zero_val Let_def)
    next
      case False
      then show ?thesis
        using ge v S(1) Slt len lt pos cR c g
        by (simp add: modinv_step_def evU evV p256_is_zero_val Let_def modinv_inv_def)
    qed
  next
    case lt': lt
    let ?U = "snd (p256_sub (inv_U s) (inv_V s))" and ?R = "sub_mod MOD (inv_R s) (inv_S s)"
    have u: "length ?U = 8" "lval ?U = lval (inv_U s) - lval (inv_V s)"
      using p256_sub_val [OF len(3,4)] lt'(3) by simp_all
    have n: "fst (p256_sub (inv_V s) (inv_U s)) \<noteq> 0" using p256_sub_val(3) [OF len(4,3)] lt'(3) by simp
    note R = sub_mod_val [OF len(1,2) MOD(1) lt(1,2)]
    have "gcd (lval ?U) (lval (inv_V s)) = gcd (lval MOD) a"
      using gcd_diff1_nat [OF less_imp_le [OF lt'(3)]] i u(2) by simp
    moreover have "(int a * int (lval ?R)) mod int (lval MOD) = (int (lval (inv_U s)) - int (lval (inv_V s))) mod int (lval MOD)"
      using R(2) lt by (intro diff_cong [OF cS cR]) (auto split: if_splits simp: of_nat_diff)
    then have "(int a * int (lval ?R)) mod int (lval MOD) = int (lval ?U) mod int (lval MOD)"
      using u(2) lt'(3) by (simp add: of_nat_diff)
    moreover have "lval ?R < lval MOD" using R(2) lt by (auto split: if_splits)
    ultimately show ?thesis
      using lt' n u R(1) len lt pos cS by (simp add: modinv_step_def evU evV modinv_inv_def)
  qed
qed

text \<open>From a state with the invariant the loop ends: \<open>U + V\<close> shrinks.\<close>

lemma modinv_loop_ends:
  assumes "modinv_inv MOD a s" "length MOD = 8" "odd (lval MOD)"
  shows "\<exists>s'. modinv_loop MOD s = Some s' \<and> length (inv_R s') = 8 \<and> lval (inv_R s') < lval MOD \<and>
    (a * lval (inv_R s')) mod lval MOD = gcd (lval MOD) a mod lval MOD"
  using assms(1)
proof (induction "lval (inv_U s) + lval (inv_V s)" arbitrary: s rule: less_induct)
  case less
  note st = modinv_step_inv [OF less.prems assms(2,3)]
  show ?case
  proof (cases "modinv_step MOD s")
    case (Inl s')
    then show ?thesis using st by (subst modinv_loop.simps) simp
  next
    case (Inr s')
    then show ?thesis using st less.hyps [of s'] by (subst modinv_loop.simps) simp
  qed
qed

lemma p256_modinv_val:
  assumes "length MOD = 8" "odd (lval MOD)" "1 < lval MOD" "length a = 8" "0 < lval a"
  obtains b where "p256_modinv_vartime MOD a = Some b" "length b = 8" "lval b < lval MOD"
    "(lval a * lval b) mod lval MOD = gcd (lval MOD) (lval a) mod lval MOD"
proof -
  let ?s = "\<lparr>inv_R = replicate 8 0, inv_S = 1 # replicate 7 0, inv_U = MOD, inv_V = a\<rparr>"
  have "modinv_inv MOD (lval a) ?s" using assms by (simp add: modinv_inv_def)
  from modinv_loop_ends [OF this assms(1,2)] obtain s' where s: "modinv_loop MOD ?s = Some s'"
      "length (inv_R s') = 8" "lval (inv_R s') < lval MOD"
      "(lval a * lval (inv_R s')) mod lval MOD = gcd (lval MOD) (lval a) mod lval MOD" by blast
  then have "lval (p256_mod MOD (inv_R s')) = lval (inv_R s')" "length (p256_mod MOD (inv_R s')) = 8"
    using p256_mod_val [of "inv_R s'" MOD] assms(1) by simp_all
  then show thesis using s by (intro that [of "p256_mod MOD (inv_R s')"]) (simp_all add: p256_modinv_vartime_def)
qed


text \<open>With a zero argument \<open>V\<close> stays zero, hence even, and the loop never reaches its exit.\<close>

definition zero_stuck :: "modinv_state \<Rightarrow> bool" where
  "zero_stuck s \<longleftrightarrow> odd (lval (inv_U s)) \<and> length (inv_U s) = 8 \<and> length (inv_V s) = 8 \<and> lval (inv_V s) = 0"

lemma zero_stuck_step:
  assumes "zero_stuck s"
  obtains s' where "modinv_step MOD s = Inr s'" "zero_stuck s'"
proof -
  have ne: "inv_U s \<noteq> []" "inv_V s \<noteq> []" using assms by (auto simp: zero_stuck_def)
  let ?s = "s\<lparr>inv_V := p256_shr1 (inv_V s) 0, inv_S := half_mod MOD (inv_S s)\<rparr>"
  have "modinv_step MOD s = Inr ?s"
    using assms ne by (simp add: modinv_step_def p256_is_even_val zero_stuck_def)
  moreover have "zero_stuck ?s"
    using assms p256_shr1_val [of "inv_V s" 0] by (simp add: zero_stuck_def)
  ultimately show thesis by (rule that)
qed

lemma modinv_loop_zero:
  assumes "modinv_loop MOD s = Some s'"
  shows "\<not> zero_stuck s"
proof (rule modinv_loop.raw_induct [of "\<lambda>MOD s y. \<not> zero_stuck s", OF _ assms])
  fix f MOD s y
  assume IH: "\<And>MOD s y. f MOD s = Some y \<Longrightarrow> \<not> zero_stuck s"
    and st: "(case modinv_step MOD s of Inl s' \<Rightarrow> Some s' | Inr s' \<Rightarrow> f MOD s') = Some y"
  show "\<not> zero_stuck s"
  proof
    assume "zero_stuck s"
    then obtain s' where "modinv_step MOD s = Inr s'" "zero_stuck s'" by (rule zero_stuck_step)
    then show False using IH st by simp
  qed
qed

text \<open>
  C14. \<open>p256_modinv_vartime\<close> for an odd modulus: called with zero its loop runs forever; for every other argument it ends,
  and the result is reduced and is the inverse up to the greatest common divisor of the argument and the
  modulus, hence the inverse when they are coprime.
\<close>

theorem p256_modinv_correct:
  assumes "length MOD = P256_NDIGITS" "odd (lval MOD)" "1 < lval MOD" "length a = P256_NDIGITS"
  shows "if lval a = 0 then p256_modinv_vartime MOD a = None
    else \<exists>b. p256_modinv_vartime MOD a = Some b \<and> length b = P256_NDIGITS \<and> lval b < lval MOD \<and>
      (lval a * lval b) mod lval MOD = gcd (lval MOD) (lval a) mod lval MOD"
proof (cases "lval a = 0")
  case True
  then have "zero_stuck \<lparr>inv_R = replicate 8 0, inv_S = 1 # replicate 7 0, inv_U = MOD, inv_V = a\<rparr>"
    using assms by (simp add: zero_stuck_def P256_NDIGITS_def)
  then have "modinv_loop MOD \<lparr>inv_R = replicate 8 0, inv_S = 1 # replicate 7 0, inv_U = MOD, inv_V = a\<rparr> = None"
    using modinv_loop_zero by (metis option.exhaust)
  then show ?thesis using True by (simp add: p256_modinv_vartime_def)
next
  case False
  then show ?thesis using p256_modinv_val [of MOD a] assms by (metis P256_NDIGITS_def neq0_conv)
qed

theorem p256_modinv_correct_witness:
  "p256_modinv_vartime SECP256r1_n (replicate 8 0) = None \<and>
   (\<exists>b. p256_modinv_vartime SECP256r1_n (2 # replicate 7 0) = Some b \<and> (2 * lval b) mod lval SECP256r1_n = 1)"
proof
  have n: "length SECP256r1_n = P256_NDIGITS" "odd (lval SECP256r1_n)" "1 < lval SECP256r1_n"
    by (simp_all add: SECP256r1_n_def P256_NDIGITS_def)
  show "p256_modinv_vartime SECP256r1_n (replicate 8 0) = None"
    using p256_modinv_correct [OF n, of "replicate 8 0"] by (simp add: P256_NDIGITS_def)
  have "gcd (lval SECP256r1_n) 2 = 1" using n(2) by (simp add: coprime_iff_gcd_eq_1 [symmetric])
  then show "\<exists>b. p256_modinv_vartime SECP256r1_n (2 # replicate 7 0) = Some b \<and> (2 * lval b) mod lval SECP256r1_n = 1"
    using p256_modinv_correct [OF n, of "2 # replicate 7 0"] n(3) by (auto simp: P256_NDIGITS_def)
qed

end
