(* ===== verification/Dsa_Sig.thy ===== *)
theory Dsa_Sig
  imports P256_Inverse "HOL-Library.Monad_Syntax"
begin

text \<open>
  \<open>libmincrypt/dsa_sig.c\<close>: unpacking an ASN.1 sequence of two integers. Every read of the signature goes
  through \<open>rd\<close>, so that \<open>None\<close> is an access outside the buffer the caller passed; \<open>Some None\<close> is
  the return value 0 and \<open>Some (Some x)\<close> the return value 1 with the outputs \<open>x\<close>.
\<close>

section \<open>Model\<close>

definition rd :: "'a list \<Rightarrow> nat \<Rightarrow> 'a option" where
  "rd buf i = (if i < length buf then Some (buf ! i) else None)"

text \<open>\<open>src\<close> holds the bytes from the pointer to the end of the buffer.\<close>

fun trim_loop :: "bytes \<Rightarrow> int \<Rightarrow> (bytes \<times> int) option" where
  "trim_loop [] src_len = None"
| "trim_loop (b # src) src_len =
     (if b = 0 \<and> src_len > 0 then trim_loop src (src_len - 1) else Some (b # src, src_len))"

definition trim_to_p256_bytes :: "bytes \<Rightarrow> int \<Rightarrow> bytes option option" where
  "trim_to_p256_bytes src src_len =
     do {
       (src, src_len) \<leftarrow> trim_loop src src_len;
       if src_len > int P256_NBYTES \<or> src_len < 1 then Some None
       else if nat src_len > length src then None
       else Some (Some (replicate (P256_NBYTES - nat src_len) 0 @ take (nat src_len) src))
     }"

definition dsa_sig_unpack :: "bytes \<Rightarrow> int \<Rightarrow> (p256_int \<times> p256_int) option option" where
  "dsa_sig_unpack sig sig_len =
     (if sig_len < 8 then Some None
      else do {
        b0 \<leftarrow> rd sig 0;
        if b0 \<noteq> 0x30 then Some None
        else do {
          b2 \<leftarrow> rd sig 2;
          if b2 \<noteq> 0x02 then Some None
          else do {
            b1 \<leftarrow> rd sig 1;
            let seq_len = int (unat b1);
            if seq_len \<le> 0 \<or> seq_len + 2 \<noteq> sig_len then Some None
            else do {
              b3 \<leftarrow> rd sig 3;
              let r_len = int (unat b3);
              if r_len < 1 \<or> r_len > seq_len - 5 then Some None
              else do {
                b4 \<leftarrow> rd sig (4 + nat r_len);
                if b4 \<noteq> 0x02 then Some None
                else do {
                  b5 \<leftarrow> rd sig (5 + nat r_len);
                  let s_len = int (unat b5);
                  if s_len < 1 \<or> s_len \<noteq> seq_len - 4 - r_len then Some None
                  else do {
                    r_res \<leftarrow> trim_to_p256_bytes (drop 4 sig) r_len;
                    case r_res of
                      None \<Rightarrow> Some None
                    | Some r_bytes \<Rightarrow> do {
                        s_res \<leftarrow> trim_to_p256_bytes (drop (6 + nat r_len) sig) s_len;
                        case s_res of
                          None \<Rightarrow> Some None
                        | Some s_bytes \<Rightarrow>
                            Some (Some (p256_from_bin r_bytes, p256_from_bin s_bytes))
                      }
                  }
                }
              }
            }
          }
        }
      })"

section \<open>Trimming\<close>

text \<open>The DER form of a pair of integers, given by their content bytes.\<close>

definition der_sig :: "bytes \<Rightarrow> bytes \<Rightarrow> bytes" where
  "der_sig rb sb =
     [0x30, of_nat (4 + length rb + length sb), 0x02, of_nat (length rb)] @ rb
     @ [0x02, of_nat (length sb)] @ sb"

lemma bval_zeros [simp]: "bval (replicate n 0 @ xs) = bval xs"
  by (induction n) simp_all

lemma bval_cons_ge: "b \<noteq> 0 \<Longrightarrow> 256 ^ length bs \<le> bval (b # bs)"
proof -
  assume "b \<noteq> 0"
  then have "1 \<le> unat b" using unat_eq_zero [of b] by linarith
  then have "1 * 256 ^ length bs \<le> unat b * 256 ^ length bs" by (rule mult_le_mono1)
  then show ?thesis unfolding bval.simps by linarith
qed

lemma trim_zero:
  "bval xs = 0 \<Longrightarrow> trim_to_p256_bytes (xs @ rest) (int (length xs)) = (if rest = [] then None else Some None)"
proof (induction xs)
  case Nil
  then show ?case by (cases rest) (auto simp: trim_to_p256_bytes_def)
next
  case (Cons x xs)
  then have "x = 0" "bval xs = 0" by (auto simp: unat_eq_zero)
  then show ?case using Cons.IH by (simp add: trim_to_p256_bytes_def)
qed

lemma trim_nonzero:
  "0 < bval xs \<Longrightarrow> trim_to_p256_bytes (xs @ rest) (int (length xs)) =
     Some (if bval xs < 2 ^ 256
           then Some (replicate (32 - length (dropWhile (\<lambda>b. b = 0) xs)) 0 @ dropWhile (\<lambda>b. b = 0) xs)
           else None) \<and> (bval xs < 2 ^ 256 \<longrightarrow> length (dropWhile (\<lambda>b. b = 0) xs) \<le> 32)"
proof (induction xs)
  case (Cons x xs)
  show ?case
  proof (cases "x = 0")
    case True
    then show ?thesis using Cons by (simp add: trim_to_p256_bytes_def)
  next
    case False
    have "(2 :: nat) ^ 256 = 256 ^ 32" by simp
    then have "bval (x # xs) < 2 ^ 256 \<longleftrightarrow> length xs < 32"
      using bval_cons_ge [OF False, of xs] bval_less [of "x # xs"]
        power_increasing [of "Suc (length xs)" 32 "256 :: nat"] power_increasing [of 32 "length xs" "256 :: nat"]
      by (cases "length xs < 32") (auto simp del: bval.simps power_Suc)
    moreover have "nat (1 + int (length xs)) = Suc (length xs)" by simp
    ultimately show ?thesis using False
      by (auto simp: trim_to_p256_bytes_def P256_NBYTES_def simp del: bval.simps)
  qed
qed simp

lemma bval_dropWhile [simp]: "bval (dropWhile (\<lambda>b. b = 0) xs) = bval xs"
  by (induction xs) simp_all

text \<open>The three outcomes of trimming a field that is followed by \<open>rest\<close>.\<close>

definition trimmed :: "bytes \<Rightarrow> bytes" where
  "trimmed xs = replicate (32 - length (dropWhile (\<lambda>b. b = 0) xs)) 0 @ dropWhile (\<lambda>b. b = 0) xs"

lemma trim_cases:
  "trim_to_p256_bytes (xs @ rest) (int (length xs)) =
     (if bval xs = 0 then if rest = [] then None else Some None
      else if bval xs < 2 ^ 256 then Some (Some (trimmed xs)) else Some None)"
  using trim_zero [of xs rest] trim_nonzero [of xs rest] by (simp add: trimmed_def)

lemma trimmed_val:
  assumes "0 < bval xs" "bval xs < 2 ^ 256"
  shows "length (trimmed xs) = 32" "bval (trimmed xs) = bval xs"
  using trim_nonzero [of xs "[]"] assms by (simp_all add: trimmed_def)

section \<open>The whole sequence\<close>

lemma unpack_der:
  assumes "rb \<noteq> []" "sb \<noteq> []" "length rb + length sb \<le> 251"
  shows "dsa_sig_unpack (der_sig rb sb) (int (length (der_sig rb sb))) =
    (if bval rb = 0 \<or> \<not> bval rb < 2 ^ 256 then Some None
     else if bval sb = 0 then None
     else if bval sb < 2 ^ 256 then Some (Some (p256_from_bin (trimmed rb), p256_from_bin (trimmed sb)))
     else Some None)"
proof -
  have l: "1 \<le> length rb" "1 \<le> length sb" using assms(1,2) by (simp_all add: Suc_le_eq)
  have u: "unat (of_nat k :: u8) = k" if "k \<le> 255" for k
    using that by (simp add: unsigned_of_nat take_bit_eq_mod)
  have n: "unat (of_nat (4 + length rb + length sb) :: u8) = 4 + length rb + length sb"
    "unat (of_nat (length rb) :: u8) = length rb" "unat (of_nat (length sb) :: u8) = length sb"
    using assms(3) l u [of "4 + length rb + length sb"] by (simp_all only: u)
  let ?sig = "der_sig rb sb"
  have len: "length ?sig = 6 + length rb + length sb" by (simp add: der_sig_def)
  have r: "rd ?sig 0 = Some 0x30" "rd ?sig 2 = Some 2" "rd ?sig 1 = Some (of_nat (4 + length rb + length sb))"
    "rd ?sig 3 = Some (of_nat (length rb))" "rd ?sig (4 + length rb) = Some 2"
    "rd ?sig (5 + length rb) = Some (of_nat (length sb))"
    by (simp_all add: rd_def len) (simp_all add: der_sig_def nth_append nth_Cons')
  have d: "drop 4 ?sig = rb @ [2, of_nat (length sb)] @ sb" "drop (6 + length rb) ?sig = sb @ []"
    by (simp_all add: der_sig_def numeral_eq_Suc)
  show ?thesis
    unfolding dsa_sig_unpack_def len r bind.bind_lunit Let_def n nat_int d trim_cases
    using l assms(2) by simp
qed

lemma sig_shape:
  assumes "8 \<le> length sig" "sig ! 0 = 0x30" "sig ! 2 = 2" "unat (sig ! 1) + 2 = length sig"
    and "1 \<le> r" "unat (sig ! 3) = r" "r + 5 \<le> unat (sig ! 1)" "sig ! (4 + r) = 2"
    and "unat (sig ! (5 + r)) + 4 + r = unat (sig ! 1)"
  obtains rb sb where "sig = der_sig rb sb" "rb \<noteq> []" "sb \<noteq> []" "length rb + length sb \<le> 251"
proof -
  obtain b0 b1 b2 b3 t where s: "sig = b0 # b1 # b2 # b3 # t"
    using assms(1) by (auto simp: Suc_le_length_iff numeral_eq_Suc)
  define rb where "rb = take r t"
  have tl: "r + 3 \<le> length t" using assms(4,7) s by simp
  obtain c0 c1 sb where c: "drop r t = c0 # c1 # sb"
    using tl by (cases "drop r t"; cases "tl (drop r t)") (auto dest!: arg_cong [where f = length])
  have t: "t = rb @ c0 # c1 # sb" unfolding rb_def using c append_take_drop_id [of r t] by simp
  have rb: "length rb = r" using tl by (simp add: rb_def)
  have "c0 = 2" using assms(8) rb by (simp add: s t nth_append)
  have "c1 = sig ! (5 + r)" using rb by (simp add: s t nth_append nth_Cons')
  then have c1: "unat c1 = length sb" using assms(4,9) rb by (simp add: s t)
  have "unat b1 = 4 + r + length sb" using assms(4) rb by (simp add: s t)
  then have "unat b1 = 4 + length rb + length sb" "unat b3 = length rb" using rb assms(6) s by simp_all
  moreover have self: "of_nat (unat x) = x" for x :: u8 by simp
  ultimately have w: "b1 = of_nat (4 + length rb + length sb)" "b3 = of_nat (length rb)" "c1 = of_nat (length sb)"
    using c1 by (metis self)+
  have "sig = der_sig rb sb"
    using assms(2,3) \<open>c0 = 2\<close> unfolding der_sig_def w [symmetric] by (simp add: s t)
  moreover have "length rb + length sb \<le> 251" using \<open>unat b1 = 4 + r + length sb\<close> u8_lt [of b1] rb by simp
  moreover have "rb \<noteq> []" "sb \<noteq> []" using rb assms(5) tl t by auto
  ultimately show ?thesis using that by blast
qed

lemma unpack_shape:
  assumes "dsa_sig_unpack sig (int (length sig)) \<noteq> Some None"
  obtains rb sb where "sig = der_sig rb sb" "rb \<noteq> []" "sb \<noteq> []" "length rb + length sb \<le> 251"
proof -
  have 8: "8 \<le> length sig" and 0: "sig ! 0 = 0x30" and 2: "sig ! 2 = 2"
    using assms by (auto simp: dsa_sig_unpack_def rd_def split: if_splits)
  have g: "uint (sig ! 1) + 2 = int (length sig)" "1 \<le> uint (sig ! 3)" "uint (sig ! 3) + 5 \<le> uint (sig ! 1)"
    using assms 8 0 2 by (auto simp: dsa_sig_unpack_def rd_def Let_def split: if_splits)
  have i: "4 + unat (sig ! 3) < length sig" "5 + unat (sig ! 3) < length sig"
    using g unfolding uint_nat by linarith+
  have s: "sig ! (4 + unat (sig ! 3)) = 2"
    "uint (sig ! (5 + unat (sig ! 3))) + 4 + uint (sig ! 3) = uint (sig ! 1)"
    using assms 8 0 2 g i by (auto simp: dsa_sig_unpack_def rd_def Let_def split: if_splits)
  have n: "unat (sig ! 1) + 2 = length sig" "1 \<le> unat (sig ! 3)" "unat (sig ! 3) + 5 \<le> unat (sig ! 1)"
    "unat (sig ! (5 + unat (sig ! 3))) + 4 + unat (sig ! 3) = unat (sig ! 1)"
    using g s(2) unfolding uint_nat by linarith+
  show ?thesis by (rule sig_shape [OF 8 0 2 n(1,2) refl n(3) s(1) n(4) that])
qed

text \<open>
  C17. \<open>dsa_sig_unpack\<close> accepts exactly the DER sequences of two positive integers below \<open>2 ^ 256\<close>, and
  returns their values.
\<close>

theorem dsa_sig_unpack_iff:
  "dsa_sig_unpack sig (int (length sig)) = Some (Some (r, s)) \<longleftrightarrow>
    length r = P256_NDIGITS \<and> length s = P256_NDIGITS \<and> 0 < lval r \<and> 0 < lval s \<and>
    (\<exists>rb sb. sig = der_sig rb sb \<and> length rb + length sb \<le> 251 \<and> bval rb = lval r \<and> bval sb = lval s)"
    (is "?L \<longleftrightarrow> ?R")
proof
  assume L: ?L
  then obtain rb sb where d: "sig = der_sig rb sb" "rb \<noteq> []" "sb \<noteq> []" "length rb + length sb \<le> 251"
    using unpack_shape [of sig] by auto
  have v: "0 < bval rb" "bval rb < 2 ^ 256" "0 < bval sb" "bval sb < 2 ^ 256"
      "r = p256_from_bin (trimmed rb)" "s = p256_from_bin (trimmed sb)"
    using L unpack_der [OF d(2-4)] unfolding d(1) by (auto split: if_splits)
  then show ?R
    using d p256_from_bin_val [OF trimmed_val(1) [OF v(1,2)]] p256_from_bin_val [OF trimmed_val(1) [OF v(3,4)]]
    by (auto simp: P256_NDIGITS_def trimmed_val)
next
  assume R: ?R
  then obtain rb sb where d: "sig = der_sig rb sb" "length rb + length sb \<le> 251" "bval rb = lval r"
    "bval sb = lval s" and l: "length r = 8" "length s = 8" and p: "0 < bval rb" "0 < bval sb"
    by (auto simp: P256_NDIGITS_def)
  have b: "bval rb < 2 ^ 256" "bval sb < 2 ^ 256"
    using d(3,4) lval_less [of r] lval_less [of s] l by simp_all
  have n: "rb \<noteq> []" "sb \<noteq> []" using p by auto
  note fr = p256_from_bin_val [OF trimmed_val(1) [OF p(1) b(1)]] p256_from_bin_val [OF trimmed_val(1) [OF p(2) b(2)]]
  have "p256_from_bin (trimmed rb) = r" "p256_from_bin (trimmed sb) = s"
    using fr l d(3,4) trimmed_val(2) [OF p(1) b(1)] trimmed_val(2) [OF p(2) b(2)]
    by (metis lval_inject)+
  then show ?L using unpack_der [OF n d(2)] p b unfolding d(1) by simp
qed

text \<open>
  C18. \<open>dsa_sig_unpack\<close> reads outside its buffer exactly when the sequence is well formed, its first
  integer is acceptable and its second one is zero: the trimming loop then looks one byte past the end.
\<close>

theorem dsa_sig_unpack_overread_iff:
  "dsa_sig_unpack sig (int (length sig)) = None \<longleftrightarrow>
    (\<exists>rb sb. sig = der_sig rb sb \<and> length rb + length sb \<le> 251 \<and>
      0 < bval rb \<and> bval rb < 2 ^ 256 \<and> sb \<noteq> [] \<and> bval sb = 0)"
    (is "?L \<longleftrightarrow> ?R")
proof
  assume L: ?L
  then obtain rb sb where d: "sig = der_sig rb sb" "rb \<noteq> []" "sb \<noteq> []" "length rb + length sb \<le> 251"
    using unpack_shape [of sig] by auto
  then show ?R using L unpack_der [OF d(2-4)] by (auto split: if_splits)
next
  assume ?R
  then obtain rb sb where d: "sig = der_sig rb sb" "length rb + length sb \<le> 251" "0 < bval rb" "bval rb < 2 ^ 256"
    "sb \<noteq> []" "bval sb = 0" by blast
  then have "rb \<noteq> []" by auto
  then show ?L using unpack_der [of rb sb] d by simp
qed

end
