(* ===== verification/P256_Field.thy ===== *)
theory P256_Field
  imports P256
begin

text \<open>
  The field arithmetic of \<open>libmincrypt/p256_ec.c\<close>: elements of the field of the curve as nine limbs,
  alternately 29 and 28 bits wide, in Montgomery form for \<open>R = 2 ^ 257\<close>. All arithmetic is on 32- and
  64-bit words, as in the source; the theories \<open>P256_Limbs\<close> and \<open>P256_Reduce\<close> show that no step loses a
  bit and give the integer each operation computes.
\<close>

section \<open>Field elements\<close>

type_synonym limb = u32
type_synonym felem = "limb list"

definition NLIMBS :: nat where "NLIMBS = 9"

definition kBottom28Bits :: limb where "kBottom28Bits = 0xfffffff"
definition kBottom29Bits :: limb where "kBottom29Bits = 0x1fffffff"

definition kOne :: felem where
  "kOne = [2, 0, 0, 0xffff800, 0x1fffffff, 0xfffffff, 0x1fbfffff, 0x1ffffff, 0]"

definition kZero :: felem where "kZero = replicate NLIMBS 0"

definition kP :: felem where
  "kP = [0x1fffffff, 0xfffffff, 0x1fffffff, 0x3ff, 0, 0, 0x200000, 0xf000000, 0xfffffff]"

definition k2P :: felem where
  "k2P = [0x1ffffffe, 0xfffffff, 0x1fffffff, 0x7ff, 0, 0, 0x400000, 0xe000000, 0x1fffffff]"

text \<open>One row for each field element of the table.\<close>

definition kPrecomputed_rows :: "felem list" where
  "kPrecomputed_rows =
    [[0x11522878, 0xe730d41, 0xdb60179, 0x4afe2ff, 0x12883add, 0xcaddd88, 0x119e7edc, 0xd4a6eab, 0x3120bee],
     [0x1d2aac15, 0xf25357c, 0x19e45cdd, 0x5c721d0, 0x1992c5a5, 0xa237487, 0x154ba21, 0x14b10bb, 0xae3fe3],
     [0xd41a576, 0x922fc51, 0x234994f, 0x60b60d3, 0x164586ae, 0xce95f18, 0x1fe49073, 0x3fa36cc, 0x5ebcd2c],
     [0xb402f2f, 0x15c70bf, 0x1561925c, 0x5a26704, 0xda91e90, 0xcdc1c7f, 0x1ea12446, 0xe1ade1e, 0xec91f22],
     [0x26f7778, 0x566847e, 0xa0bec9e, 0x234f453, 0x1a31f21a, 0xd85e75c, 0x56c7109, 0xa267a00, 0xb57c050],
     [0x98fb57, 0xaa837cc, 0x60c0792, 0xcfa5e19, 0x61bab9e, 0x589e39b, 0xa324c5, 0x7d6dee7, 0x2976e4b],
     [0x1fc4124a, 0xa8c244b, 0x1ce86762, 0xcd61c7e, 0x1831c8e0, 0x75774e1, 0x1d96a5a9, 0x843a649, 0xc3ab0fa],
     [0x6e2e7d5, 0x7673a2a, 0x178b65e8, 0x4003e9b, 0x1a1f11c2, 0x7816ea, 0xf643e11, 0x58c43df, 0xf423fc2],
     [0x19633ffa, 0x891f2b2, 0x123c231c, 0x46add8c, 0x54700dd, 0x59e2b17, 0x172db40f, 0x83e277d, 0xb0dd609],
     [0xfd1da12, 0x35c6e52, 0x19ede20c, 0xd19e0c0, 0x97d0f40, 0xb015b19, 0x449e3f5, 0xe10c9e, 0x33ab581],
     [0x56a67ab, 0x577734d, 0x1dddc062, 0xc57b10d, 0x149b39d, 0x26a9e7b, 0xc35df9f, 0x48764cd, 0x76dbcca],
     [0xca4b366, 0xe9303ab, 0x1a7480e7, 0x57e9e81, 0x1e13eb50, 0xf466cf3, 0x6f16b20, 0x4ba3173, 0xc168c33],
     [0x15cb5439, 0x6a38e11, 0x73658bd, 0xb29564f, 0x3f6dc5b, 0x53b97e, 0x1322c4c0, 0x65dd7ff, 0x3a1e4f6],
     [0x14e614aa, 0x9246317, 0x1bc83aca, 0xad97eed, 0xd38ce4a, 0xf82b006, 0x341f077, 0xa6add89, 0x4894acd],
     [0x9f162d5, 0xf8410ef, 0x1b266a56, 0xd7f223, 0x3e0cb92, 0xe39b672, 0x6a2901a, 0x69a8556, 0x7e7c0],
     [0x9b7d8d3, 0x309a80, 0x1ad05f7f, 0xc2fb5dd, 0xcbfd41d, 0x9ceb638, 0x1051825c, 0xda0cf5b, 0x812e881],
     [0x6f35669, 0x6a56f2c, 0x1df8d184, 0x345820, 0x1477d477, 0x1645db1, 0xbe80c51, 0xc22be3e, 0xe35e65a],
     [0x1aeb7aa0, 0xc375315, 0xf67bc99, 0x7fdd7b9, 0x191fc1be, 0x61235d, 0x2c184e9, 0x1c5a839, 0x47a1e26],
     [0xb7cb456, 0x93e225d, 0x14f3c6ed, 0xccc1ac9, 0x17fe37f3, 0x4988989, 0x1a90c502, 0x2f32042, 0xa17769b],
     [0xafd8c7c, 0x8191c6e, 0x1dcdb237, 0x16200c0, 0x107b32a1, 0x66c08db, 0x10d06a02, 0x3fc93, 0x5620023],
     [0x16722b27, 0x68b5c59, 0x270fcfc, 0xfad0ecc, 0xe5de1c2, 0xeab466b, 0x2fc513c, 0x407f75c, 0xbaab133],
     [0x9705fe9, 0xb88b8e7, 0x734c993, 0x1e1ff8f, 0x19156970, 0xabd0f00, 0x10469ea7, 0x3293ac0, 0xcdc98aa],
     [0x1d843fd, 0xe14bfe8, 0x15be825f, 0x8b5212, 0xeb3fb67, 0x81cbd29, 0xbc62f16, 0x2b6fcc7, 0xf5a4e29],
     [0x13560b66, 0xc0b6ac2, 0x51ae690, 0xd41e271, 0xf3e9bd4, 0x1d70aab, 0x1029f72, 0x73e1c35, 0xee70fbc],
     [0xad81baf, 0x9ecc49a, 0x86c741e, 0xfe6be30, 0x176752e7, 0x23d416, 0x1f83de85, 0x27de188, 0x66f70b8],
     [0x181cd51f, 0x96b6e4c, 0x188f2335, 0xa5df759, 0x17a77eb6, 0xfeb0e73, 0x154ae914, 0x2f3ec51, 0x3826b59],
     [0xb91f17d, 0x1c72949, 0x1362bf0a, 0xe23fddf, 0xa5614b0, 0xf7d8f, 0x79061, 0x823d9d2, 0x8213f39],
     [0x1128ae0b, 0xd095d05, 0xb85c0c2, 0x1ecb2ef, 0x24ddc84, 0xe35e901, 0x18411a4a, 0xf5ddc3d, 0x3786689],
     [0x52260e8, 0x5ae3564, 0x542b10d, 0x8d93a45, 0x19952aa4, 0x996cc41, 0x1051a729, 0x4be3499, 0x52b23aa],
     [0x109f307e, 0x6f5b6bb, 0x1f84e1e7, 0x77a0cfa, 0x10c4df3f, 0x25a02ea, 0xb048035, 0xe31de66, 0xc6ecaa3],
     [0x28ea335, 0x2886024, 0x1372f020, 0xf55d35, 0x15e4684c, 0xf2a9e17, 0x1a4a7529, 0xcb7beb1, 0xb2a78a1],
     [0x1ab21f1f, 0x6361ccf, 0x6c9179d, 0xb135627, 0x1267b974, 0x4408bad, 0x1cbff658, 0xe3d6511, 0xc7d76f],
     [0x1cc7a69, 0xe7ee31b, 0x54fab4f, 0x2b914f, 0x1ad27a30, 0xcd3579e, 0xc50124c, 0x50daa90, 0xb13f72],
     [0xb06aa75, 0x70f5cc6, 0x1649e5aa, 0x84a5312, 0x329043c, 0x41c4011, 0x13d32411, 0xb04a838, 0xd760d2d],
     [0x1713b532, 0xbaa0c03, 0x84022ab, 0x6bcf5c1, 0x2f45379, 0x18ae070, 0x18c9e11e, 0x20bca9a, 0x66f496b],
     [0x3eef294, 0x67500d2, 0xd7f613c, 0x2dbbeb, 0xb741038, 0xe04133f, 0x1582968d, 0xbe985f7, 0x1acbc1a],
     [0x1a6a939f, 0x33e50f6, 0xd665ed4, 0xb4b7bd6, 0x1e5a3799, 0x6b33847, 0x17fa56ff, 0x65ef930, 0x21dc4a],
     [0x2b37659, 0x450fe17, 0xb357b65, 0xdf5efac, 0x15397bef, 0x9d35a7f, 0x112ac15f, 0x624e62e, 0xa90ae2f],
     [0x107eecd2, 0x1f69bbe, 0x77d6bce, 0x5741394, 0x13c684fc, 0x950c910, 0x725522b, 0xdc78583, 0x40eeabb],
     [0x1fde328a, 0xbd61d96, 0xd28c387, 0x9e77d89, 0x12550c40, 0x759cb7d, 0x367ef34, 0xae2a960, 0x91b8bdc],
     [0x93462a9, 0xf469ef, 0xb2e9aef, 0xd2ca771, 0x54e1f42, 0x7aaa49, 0x6316abb, 0x2413c8e, 0x5425bf9],
     [0x1bed3e3a, 0xf272274, 0x1f5e7326, 0x6416517, 0xea27072, 0x9cedea7, 0x6e7633, 0x7c91952, 0xd806dce],
     [0x8e2a7e1, 0xe421e1a, 0x418c9e1, 0x1dbc890, 0x1b395c36, 0xa1dc175, 0x1dc4ef73, 0x8956f34, 0xe4b5cf2],
     [0x1b0d3a18, 0x3194a36, 0x6c2641f, 0xe44124c, 0xa2f4eaa, 0xa8c25ba, 0xf927ed7, 0x627b614, 0x7371cca],
     [0xba16694, 0x417bc03, 0x7c0a7e3, 0x9c35c19, 0x1168a205, 0x8b6b00d, 0x10e3edc9, 0x9c19bf2, 0x5882229],
     [0x1b2b4162, 0xa5cef1a, 0x1543622b, 0x9bd433e, 0x364e04d, 0x7480792, 0x5c9b5b3, 0xe85ff25, 0x408ef57],
     [0x1814cfa4, 0x121b41b, 0xd248a0f, 0x3b05222, 0x39bb16a, 0xc75966d, 0xa038113, 0xa4a1769, 0x11fbc6c],
     [0x917e50e, 0xeec3da8, 0x169d6eac, 0x10c1699, 0xa416153, 0xf724912, 0x15cd60b7, 0x4acbad9, 0x5efc5fa],
     [0xf150ed7, 0x122b51, 0x1104b40a, 0xcb7f442, 0xfbb28ff, 0x6ac53ca, 0x196142cc, 0x7bf0fa9, 0x957651],
     [0x4e0f215, 0xed439f8, 0x3f46bd5, 0x5ace82f, 0x110916b6, 0x6db078, 0xffd7d57, 0xf2ecaac, 0xca86dec],
     [0x15d6b2da, 0x965ecc9, 0x1c92b4c2, 0x1f3811, 0x1cb080f5, 0x2d8b804, 0x19d1c12d, 0xf20bd46, 0x1951fa7],
     [0xa3656c3, 0x523a425, 0xfcd0692, 0xd44ddc8, 0x131f0f5b, 0xaf80e4a, 0xcd9fc74, 0x99bb618, 0x2db944c],
     [0xa673090, 0x1c210e1, 0x178c8d23, 0x1474383, 0x10b8743d, 0x985a55b, 0x2e74779, 0x576138, 0x9587927],
     [0x133130fa, 0xbe05516, 0x9f4d619, 0xbb62570, 0x99ec591, 0xd9468fe, 0x1d07782d, 0xfc72e0b, 0x701b298],
     [0x1863863b, 0x85954b8, 0x121a0c36, 0x9e7fedf, 0xf64b429, 0x9b9d71e, 0x14e2f5d8, 0xf858d3a, 0x942eea8],
     [0xda5b765, 0x6edafff, 0xa9d18cc, 0xc65e4ba, 0x1c747e86, 0xe4ea915, 0x1981d7a1, 0x8395659, 0x52ed4e2],
     [0x87d43b7, 0x37ab11b, 0x19d292ce, 0xf8d4692, 0x18c3053f, 0x8863e13, 0x4c146c0, 0x6bdf55a, 0x4e4457d],
     [0x16152289, 0xac78ec2, 0x1a59c5a2, 0x2028b97, 0x71c2d01, 0x295851f, 0x404747b, 0x878558d, 0x7d29aa4],
     [0x13d8341f, 0x8daefd7, 0x139c972d, 0x6b7ea75, 0xd4a9dde, 0xff163d8, 0x81d55d7, 0xa5bef68, 0xb7b30d8],
     [0xbe73d6f, 0xaa88141, 0xd976c81, 0x7e7a9cc, 0x18beb771, 0xd773cbd, 0x13f51951, 0x9d0c177, 0x1c49a78]]"

definition kPrecomputed :: "limb list" where
  "kPrecomputed = concat kPrecomputed_rows"

section \<open>Carries\<close>

definition NON_ZERO_TO_ALL_ONES :: "u32 \<Rightarrow> u32" where
  "NON_ZERO_TO_ALL_ONES x = drop_bit 31 (x - 1) - 1"

text \<open>\<open>a[i] += d\<close>.\<close>

definition add_at :: "nat \<Rightarrow> limb \<Rightarrow> limb list \<Rightarrow> limb list" where
  "add_at i d a = a[i := a ! i + d]"

definition felem_reduce_carry :: "felem \<Rightarrow> limb \<Rightarrow> felem" where
  "felem_reduce_carry inout carry =
     (let carry_mask = NON_ZERO_TO_ALL_ONES carry;
          inout = add_at 0 (push_bit 1 carry) inout;
          inout = add_at 3 (0x10000000 AND carry_mask) inout;
          inout = add_at 3 (- push_bit 11 carry) inout;
          inout = add_at 4 ((0x20000000 - 1) AND carry_mask) inout;
          inout = add_at 5 ((0x10000000 - 1) AND carry_mask) inout;
          inout = add_at 6 ((0x20000000 - 1) AND carry_mask) inout;
          inout = add_at 6 (- push_bit 22 carry) inout;
          inout = add_at 7 (- (1 AND carry_mask)) inout
      in add_at 7 (push_bit 25 carry) inout)"

text \<open>
  The loops of \<open>felem_sum\<close>, \<open>felem_diff\<close>, \<open>felem_scalar_3\<close> and \<open>felem_is_zero_vartime\<close> differ in what they
  store in \<open>out[i]\<close> before the carry is added; \<open>raw\<close> is that value. Even limbs keep 29 bits, odd ones 28.
\<close>

definition limb_bits :: "nat \<Rightarrow> nat" where
  "limb_bits i = (if even i then 29 else 28)"

definition limb_mask :: "nat \<Rightarrow> limb" where
  "limb_mask i = (if even i then kBottom29Bits else kBottom28Bits)"

fun limb_loop :: "nat \<Rightarrow> limb \<Rightarrow> limb list \<Rightarrow> limb list \<times> limb" where
  "limb_loop i carry [] = ([], carry)"
| "limb_loop i carry (raw # raws) =
     (let v = raw + carry
      in case limb_loop (Suc i) (drop_bit (limb_bits i) v) raws of
        (out, carry') \<Rightarrow> ((v AND limb_mask i) # out, carry'))"

definition felem_sum :: "felem \<Rightarrow> felem \<Rightarrow> felem" where
  "felem_sum inp in2 =
     (case limb_loop 0 0 (map2 (+) inp in2) of (out, carry) \<Rightarrow> felem_reduce_carry out carry)"

definition zero31 :: felem where
  "zero31 =
    (let two31m3 = push_bit 31 1 - push_bit 3 1;
         two30m2 = push_bit 30 1 - push_bit 2 1;
         two30p13m2 = push_bit 30 1 + push_bit 13 1 - push_bit 2 1;
         two31m2 = push_bit 31 1 - push_bit 2 1;
         two31p24m2 = push_bit 31 1 + push_bit 24 1 - push_bit 2 1;
         two30m27m2 = push_bit 30 1 - push_bit 27 1 - push_bit 2 1
     in [two31m3, two30m2, two31m2, two30p13m2, two31m2, two30m2, two31p24m2, two30m27m2, two31m2])"

definition felem_diff :: "felem \<Rightarrow> felem \<Rightarrow> felem" where
  "felem_diff inp in2 =
     (case limb_loop 0 0 (map2 (+) (map2 (-) inp in2) zero31) of
        (out, carry) \<Rightarrow> felem_reduce_carry out carry)"

definition felem_scalar_3 :: "felem \<Rightarrow> felem" where
  "felem_scalar_3 out =
     (case limb_loop 0 0 (map (\<lambda>x. x * 3) out) of (out, carry) \<Rightarrow> felem_reduce_carry out carry)"

text \<open>The loops of \<open>felem_scalar_4\<close> (\<open>k = 2\<close>) and \<open>felem_scalar_8\<close> (\<open>k = 3\<close>).\<close>

fun shift_loop :: "nat \<Rightarrow> nat \<Rightarrow> limb \<Rightarrow> limb list \<Rightarrow> limb list \<times> limb" where
  "shift_loop k i carry [] = ([], carry)"
| "shift_loop k i carry (x # xs) =
     (let next_carry = drop_bit (limb_bits i - k) x;
          v = push_bit k x;
          v = v AND limb_mask i;
          v = v + carry
      in case shift_loop k (Suc i) (next_carry + drop_bit (limb_bits i) v) xs of
        (out, carry') \<Rightarrow> ((v AND limb_mask i) # out, carry'))"

definition felem_scalar_4 :: "felem \<Rightarrow> felem" where
  "felem_scalar_4 out = (case shift_loop 2 0 0 out of (out, carry) \<Rightarrow> felem_reduce_carry out carry)"

definition felem_scalar_8 :: "felem \<Rightarrow> felem" where
  "felem_scalar_8 out = (case shift_loop 3 0 0 out of (out, carry) \<Rightarrow> felem_reduce_carry out carry)"

section \<open>Montgomery reduction\<close>

text \<open>
  The three phases of \<open>felem_reduce_degree\<close>: cutting the 64-bit words into limbs, cancelling the nine low
  limbs with multiples of the prime, and copying the high limbs down. \<open>lo\<close> and \<open>hi\<close> are the casts
  \<open>(limb) t\<close> and \<open>(limb) (t >> 32)\<close>.
\<close>

definition lo :: "u64 \<Rightarrow> limb" where "lo t = ucast t"
definition hi :: "u64 \<Rightarrow> limb" where "hi t = ucast (drop_bit 32 t)"

definition degree_step :: "u64 list \<Rightarrow> nat \<Rightarrow> limb list \<times> limb \<Rightarrow> limb list \<times> limb" where
  "degree_step tmp i = (\<lambda>(tmp2, carry).
     (let v = drop_bit 25 (hi (tmp ! (i - 2)));
          v = v + drop_bit (if even i then 28 else 29) (lo (tmp ! (i - 1)));
          v = v + (push_bit (if even i then 4 else 3) (hi (tmp ! (i - 1))) AND limb_mask i);
          v = v + (lo (tmp ! i) AND limb_mask i);
          v = v + carry
      in (tmp2 @ [v AND limb_mask i], drop_bit (limb_bits i) v)))"

definition degree_split :: "u64 list \<Rightarrow> limb list" where
  "degree_split tmp =
     (let t0 = lo (tmp ! 0 AND ucast kBottom29Bits);
          t1 = drop_bit 29 (lo (tmp ! 0));
          t1 = t1 OR (push_bit 3 (hi (tmp ! 0)) AND kBottom28Bits);
          t1 = t1 + (lo (tmp ! 1) AND kBottom28Bits);
          carry = drop_bit 28 t1;
          t1 = t1 AND kBottom28Bits
      in case fold (degree_step tmp) [2..<17] ([t0, t1], carry) of
        (tmp2, carry) \<Rightarrow>
          (let t17 = drop_bit 25 (hi (tmp ! 15));
               t17 = t17 + drop_bit 29 (lo (tmp ! 16));
               t17 = t17 + push_bit 3 (hi (tmp ! 16));
               t17 = t17 + carry
           in tmp2 @ [t17]))"

definition eliminate_even :: "nat \<Rightarrow> limb list \<Rightarrow> limb list" where
  "eliminate_even i tmp2 =
     (let tmp2 = add_at (i + 1) (drop_bit 29 (tmp2 ! i)) tmp2;
          x = tmp2 ! i AND kBottom29Bits;
          xMask = NON_ZERO_TO_ALL_ONES x;
          tmp2 = tmp2[i := 0];
          tmp2 = add_at (i + 3) (push_bit 10 x AND kBottom28Bits) tmp2;
          tmp2 = add_at (i + 4) (drop_bit 18 x) tmp2;
          tmp2 = add_at (i + 6) (push_bit 21 x AND kBottom29Bits) tmp2;
          tmp2 = add_at (i + 7) (drop_bit 8 x) tmp2;
          tmp2 = add_at (i + 7) (0x10000000 AND xMask) tmp2;
          tmp2 = add_at (i + 8) ((x - 1) AND xMask) tmp2;
          tmp2 = add_at (i + 7) (- (push_bit 24 x AND kBottom28Bits)) tmp2;
          tmp2 = add_at (i + 8) (- drop_bit 4 x) tmp2;
          tmp2 = add_at (i + 8) (0x20000000 AND xMask) tmp2;
          tmp2 = add_at (i + 8) (- x) tmp2;
          tmp2 = add_at (i + 8) (push_bit 28 x AND kBottom29Bits) tmp2
      in add_at (i + 9) ((drop_bit 1 x - 1) AND xMask) tmp2)"

definition eliminate_odd :: "nat \<Rightarrow> limb list \<Rightarrow> limb list" where
  "eliminate_odd i tmp2 =
     (let tmp2 = add_at (i + 2) (drop_bit 28 (tmp2 ! (i + 1))) tmp2;
          x = tmp2 ! (i + 1) AND kBottom28Bits;
          xMask = NON_ZERO_TO_ALL_ONES x;
          tmp2 = tmp2[i + 1 := 0];
          tmp2 = add_at (i + 4) (push_bit 11 x AND kBottom29Bits) tmp2;
          tmp2 = add_at (i + 5) (drop_bit 18 x) tmp2;
          tmp2 = add_at (i + 7) (push_bit 21 x AND kBottom28Bits) tmp2;
          tmp2 = add_at (i + 8) (drop_bit 7 x) tmp2;
          tmp2 = add_at (i + 8) (0x20000000 AND xMask) tmp2;
          tmp2 = add_at (i + 9) ((x - 1) AND xMask) tmp2;
          tmp2 = add_at (i + 8) (- (push_bit 25 x AND kBottom29Bits)) tmp2;
          tmp2 = add_at (i + 9) (- drop_bit 4 x) tmp2;
          tmp2 = add_at (i + 9) (0x10000000 AND xMask) tmp2;
          tmp2 = add_at (i + 9) (- x) tmp2
      in add_at (i + 10) ((x - 1) AND xMask) tmp2)"

definition degree_eliminate :: "limb list \<Rightarrow> limb list" where
  "degree_eliminate tmp2 =
     eliminate_even 8 (fold (\<lambda>i tmp2. eliminate_odd i (eliminate_even i tmp2)) [0, 2, 4, 6] tmp2)"

text \<open>One turn of the copy-down loop writes two limbs.\<close>

definition degree_copy_step :: "limb list \<Rightarrow> nat \<Rightarrow> limb list \<times> limb \<Rightarrow> limb list \<times> limb" where
  "degree_copy_step tmp2 i = (\<lambda>(out, carry).
     (let v = tmp2 ! (i + 9);
          v = v + carry;
          v = v + (push_bit 28 (tmp2 ! (i + 10)) AND kBottom29Bits);
          carry = drop_bit 29 v;
          v = v AND kBottom29Bits;
          w = drop_bit 1 (tmp2 ! (i + 1 + 9));
          w = w + carry;
          carry = drop_bit 28 w;
          w = w AND kBottom28Bits
      in (out @ [v, w], carry)))"

definition degree_copy :: "limb list \<Rightarrow> felem" where
  "degree_copy tmp2 =
     (case fold (degree_copy_step tmp2) [0, 2, 4, 6] ([], 0) of
        (out, carry) \<Rightarrow>
          (let v = tmp2 ! 17;
               v = v + carry;
               carry = drop_bit 29 v;
               v = v AND kBottom29Bits
           in felem_reduce_carry (out @ [v]) carry))"

definition felem_reduce_degree :: "u64 list \<Rightarrow> felem" where
  "felem_reduce_degree tmp = degree_copy (degree_eliminate (degree_split tmp))"

section \<open>Products\<close>

definition square_words :: "felem \<Rightarrow> u64 list" where
  "square_words inp =
     [ucast (inp ! 0) * ucast (inp ! 0),
      ucast (inp ! 0) * ucast (push_bit 1 (inp ! 1)),
      ucast (inp ! 0) * ucast (push_bit 1 (inp ! 2)) + ucast (inp ! 1) * ucast (push_bit 1 (inp ! 1)),
      ucast (inp ! 0) * ucast (push_bit 1 (inp ! 3)) + ucast (inp ! 1) * ucast (push_bit 1 (inp ! 2)),
      ucast (inp ! 0) * ucast (push_bit 1 (inp ! 4)) + ucast (inp ! 1) * ucast (push_bit 2 (inp ! 3)) +
        ucast (inp ! 2) * ucast (inp ! 2),
      ucast (inp ! 0) * ucast (push_bit 1 (inp ! 5)) + ucast (inp ! 1) * ucast (push_bit 1 (inp ! 4)) +
        ucast (inp ! 2) * ucast (push_bit 1 (inp ! 3)),
      ucast (inp ! 0) * ucast (push_bit 1 (inp ! 6)) + ucast (inp ! 1) * ucast (push_bit 2 (inp ! 5)) +
        ucast (inp ! 2) * ucast (push_bit 1 (inp ! 4)) + ucast (inp ! 3) * ucast (push_bit 1 (inp ! 3)),
      ucast (inp ! 0) * ucast (push_bit 1 (inp ! 7)) + ucast (inp ! 1) * ucast (push_bit 1 (inp ! 6)) +
        ucast (inp ! 2) * ucast (push_bit 1 (inp ! 5)) + ucast (inp ! 3) * ucast (push_bit 1 (inp ! 4)),
      ucast (inp ! 0) * ucast (push_bit 1 (inp ! 8)) + ucast (inp ! 1) * ucast (push_bit 2 (inp ! 7)) +
        ucast (inp ! 2) * ucast (push_bit 1 (inp ! 6)) + ucast (inp ! 3) * ucast (push_bit 2 (inp ! 5)) +
        ucast (inp ! 4) * ucast (inp ! 4),
      ucast (inp ! 1) * ucast (push_bit 1 (inp ! 8)) + ucast (inp ! 2) * ucast (push_bit 1 (inp ! 7)) +
        ucast (inp ! 3) * ucast (push_bit 1 (inp ! 6)) + ucast (inp ! 4) * ucast (push_bit 1 (inp ! 5)),
      ucast (inp ! 2) * ucast (push_bit 1 (inp ! 8)) + ucast (inp ! 3) * ucast (push_bit 2 (inp ! 7)) +
        ucast (inp ! 4) * ucast (push_bit 1 (inp ! 6)) + ucast (inp ! 5) * ucast (push_bit 1 (inp ! 5)),
      ucast (inp ! 3) * ucast (push_bit 1 (inp ! 8)) + ucast (inp ! 4) * ucast (push_bit 1 (inp ! 7)) +
        ucast (inp ! 5) * ucast (push_bit 1 (inp ! 6)),
      ucast (inp ! 4) * ucast (push_bit 1 (inp ! 8)) + ucast (inp ! 5) * ucast (push_bit 2 (inp ! 7)) +
        ucast (inp ! 6) * ucast (inp ! 6),
      ucast (inp ! 5) * ucast (push_bit 1 (inp ! 8)) + ucast (inp ! 6) * ucast (push_bit 1 (inp ! 7)),
      ucast (inp ! 6) * ucast (push_bit 1 (inp ! 8)) + ucast (inp ! 7) * ucast (push_bit 1 (inp ! 7)),
      ucast (inp ! 7) * ucast (push_bit 1 (inp ! 8)),
      ucast (inp ! 8) * ucast (inp ! 8)]"

definition felem_square :: "felem \<Rightarrow> felem" where
  "felem_square inp = felem_reduce_degree (square_words inp)"

definition mul_words :: "felem \<Rightarrow> felem \<Rightarrow> u64 list" where
  "mul_words inp in2 =
     [ucast (inp ! 0) * ucast (in2 ! 0),
      ucast (inp ! 0) * ucast (push_bit 0 (in2 ! 1)) + ucast (inp ! 1) * ucast (push_bit 0 (in2 ! 0)),
      ucast (inp ! 0) * ucast (push_bit 0 (in2 ! 2)) + ucast (inp ! 1) * ucast (push_bit 1 (in2 ! 1)) +
        ucast (inp ! 2) * ucast (push_bit 0 (in2 ! 0)),
      ucast (inp ! 0) * ucast (push_bit 0 (in2 ! 3)) + ucast (inp ! 1) * ucast (push_bit 0 (in2 ! 2)) +
        ucast (inp ! 2) * ucast (push_bit 0 (in2 ! 1)) + ucast (inp ! 3) * ucast (push_bit 0 (in2 ! 0)),
      ucast (inp ! 0) * ucast (push_bit 0 (in2 ! 4)) + ucast (inp ! 1) * ucast (push_bit 1 (in2 ! 3)) +
        ucast (inp ! 2) * ucast (push_bit 0 (in2 ! 2)) + ucast (inp ! 3) * ucast (push_bit 1 (in2 ! 1)) +
        ucast (inp ! 4) * ucast (push_bit 0 (in2 ! 0)),
      ucast (inp ! 0) * ucast (push_bit 0 (in2 ! 5)) + ucast (inp ! 1) * ucast (push_bit 0 (in2 ! 4)) +
        ucast (inp ! 2) * ucast (push_bit 0 (in2 ! 3)) + ucast (inp ! 3) * ucast (push_bit 0 (in2 ! 2)) +
        ucast (inp ! 4) * ucast (push_bit 0 (in2 ! 1)) + ucast (inp ! 5) * ucast (push_bit 0 (in2 ! 0)),
      ucast (inp ! 0) * ucast (push_bit 0 (in2 ! 6)) + ucast (inp ! 1) * ucast (push_bit 1 (in2 ! 5)) +
        ucast (inp ! 2) * ucast (push_bit 0 (in2 ! 4)) + ucast (inp ! 3) * ucast (push_bit 1 (in2 ! 3)) +
        ucast (inp ! 4) * ucast (push_bit 0 (in2 ! 2)) + ucast (inp ! 5) * ucast (push_bit 1 (in2 ! 1)) +
        ucast (inp ! 6) * ucast (push_bit 0 (in2 ! 0)),
      ucast (inp ! 0) * ucast (push_bit 0 (in2 ! 7)) + ucast (inp ! 1) * ucast (push_bit 0 (in2 ! 6)) +
        ucast (inp ! 2) * ucast (push_bit 0 (in2 ! 5)) + ucast (inp ! 3) * ucast (push_bit 0 (in2 ! 4)) +
        ucast (inp ! 4) * ucast (push_bit 0 (in2 ! 3)) + ucast (inp ! 5) * ucast (push_bit 0 (in2 ! 2)) +
        ucast (inp ! 6) * ucast (push_bit 0 (in2 ! 1)) + ucast (inp ! 7) * ucast (push_bit 0 (in2 ! 0)),
      ucast (inp ! 0) * ucast (push_bit 0 (in2 ! 8)) + ucast (inp ! 1) * ucast (push_bit 1 (in2 ! 7)) +
        ucast (inp ! 2) * ucast (push_bit 0 (in2 ! 6)) + ucast (inp ! 3) * ucast (push_bit 1 (in2 ! 5)) +
        ucast (inp ! 4) * ucast (push_bit 0 (in2 ! 4)) + ucast (inp ! 5) * ucast (push_bit 1 (in2 ! 3)) +
        ucast (inp ! 6) * ucast (push_bit 0 (in2 ! 2)) + ucast (inp ! 7) * ucast (push_bit 1 (in2 ! 1)) +
        ucast (inp ! 8) * ucast (push_bit 0 (in2 ! 0)),
      ucast (inp ! 1) * ucast (push_bit 0 (in2 ! 8)) + ucast (inp ! 2) * ucast (push_bit 0 (in2 ! 7)) +
        ucast (inp ! 3) * ucast (push_bit 0 (in2 ! 6)) + ucast (inp ! 4) * ucast (push_bit 0 (in2 ! 5)) +
        ucast (inp ! 5) * ucast (push_bit 0 (in2 ! 4)) + ucast (inp ! 6) * ucast (push_bit 0 (in2 ! 3)) +
        ucast (inp ! 7) * ucast (push_bit 0 (in2 ! 2)) + ucast (inp ! 8) * ucast (push_bit 0 (in2 ! 1)),
      ucast (inp ! 2) * ucast (push_bit 0 (in2 ! 8)) + ucast (inp ! 3) * ucast (push_bit 1 (in2 ! 7)) +
        ucast (inp ! 4) * ucast (push_bit 0 (in2 ! 6)) + ucast (inp ! 5) * ucast (push_bit 1 (in2 ! 5)) +
        ucast (inp ! 6) * ucast (push_bit 0 (in2 ! 4)) + ucast (inp ! 7) * ucast (push_bit 1 (in2 ! 3)) +
        ucast (inp ! 8) * ucast (push_bit 0 (in2 ! 2)),
      ucast (inp ! 3) * ucast (push_bit 0 (in2 ! 8)) + ucast (inp ! 4) * ucast (push_bit 0 (in2 ! 7)) +
        ucast (inp ! 5) * ucast (push_bit 0 (in2 ! 6)) + ucast (inp ! 6) * ucast (push_bit 0 (in2 ! 5)) +
        ucast (inp ! 7) * ucast (push_bit 0 (in2 ! 4)) + ucast (inp ! 8) * ucast (push_bit 0 (in2 ! 3)),
      ucast (inp ! 4) * ucast (push_bit 0 (in2 ! 8)) + ucast (inp ! 5) * ucast (push_bit 1 (in2 ! 7)) +
        ucast (inp ! 6) * ucast (push_bit 0 (in2 ! 6)) + ucast (inp ! 7) * ucast (push_bit 1 (in2 ! 5)) +
        ucast (inp ! 8) * ucast (push_bit 0 (in2 ! 4)),
      ucast (inp ! 5) * ucast (push_bit 0 (in2 ! 8)) + ucast (inp ! 6) * ucast (push_bit 0 (in2 ! 7)) +
        ucast (inp ! 7) * ucast (push_bit 0 (in2 ! 6)) + ucast (inp ! 8) * ucast (push_bit 0 (in2 ! 5)),
      ucast (inp ! 6) * ucast (push_bit 0 (in2 ! 8)) + ucast (inp ! 7) * ucast (push_bit 1 (in2 ! 7)) +
        ucast (inp ! 8) * ucast (push_bit 0 (in2 ! 6)),
      ucast (inp ! 7) * ucast (push_bit 0 (in2 ! 8)) + ucast (inp ! 8) * ucast (push_bit 0 (in2 ! 7)),
      ucast (inp ! 8) * ucast (push_bit 0 (in2 ! 8))]"

definition felem_mul :: "felem \<Rightarrow> felem \<Rightarrow> felem" where
  "felem_mul inp in2 = felem_reduce_degree (mul_words inp in2)"

definition felem_assign :: "felem \<Rightarrow> felem" where
  "felem_assign inp = inp"

text \<open>\<open>felem_square\<close> repeated \<open>n\<close> times.\<close>

definition squares :: "nat \<Rightarrow> felem \<Rightarrow> felem" where
  "squares n ftmp = (felem_square ^^ n) ftmp"

definition felem_inv :: "felem \<Rightarrow> felem" where
  "felem_inv inp =
     (let ftmp = felem_square inp;
          ftmp = felem_mul inp ftmp;
          e2 = felem_assign ftmp;
          ftmp = felem_square ftmp;
          ftmp = felem_square ftmp;
          ftmp = felem_mul ftmp e2;
          e4 = felem_assign ftmp;
          ftmp = felem_square ftmp;
          ftmp = felem_square ftmp;
          ftmp = felem_square ftmp;
          ftmp = felem_square ftmp;
          ftmp = felem_mul ftmp e4;
          e8 = felem_assign ftmp;
          ftmp = squares 8 ftmp;
          ftmp = felem_mul ftmp e8;
          e16 = felem_assign ftmp;
          ftmp = squares 16 ftmp;
          ftmp = felem_mul ftmp e16;
          e32 = felem_assign ftmp;
          ftmp = squares 32 ftmp;
          e64 = felem_assign ftmp;
          ftmp = felem_mul ftmp inp;
          ftmp = squares 192 ftmp;
          ftmp2 = felem_mul e64 e32;
          ftmp2 = squares 16 ftmp2;
          ftmp2 = felem_mul ftmp2 e16;
          ftmp2 = squares 8 ftmp2;
          ftmp2 = felem_mul ftmp2 e8;
          ftmp2 = squares 4 ftmp2;
          ftmp2 = felem_mul ftmp2 e4;
          ftmp2 = felem_square ftmp2;
          ftmp2 = felem_square ftmp2;
          ftmp2 = felem_mul ftmp2 e2;
          ftmp2 = felem_square ftmp2;
          ftmp2 = felem_square ftmp2;
          ftmp2 = felem_mul ftmp2 inp
      in felem_mul ftmp2 ftmp)"

section \<open>Comparison with zero\<close>

text \<open>
  The \<open>do\<close> loop of \<open>felem_is_zero_vartime\<close> goes on while its last carry is not zero.
\<close>

partial_function (option) minimal_loop :: "felem \<Rightarrow> felem option" where
  "minimal_loop tmp =
     (case limb_loop 0 0 tmp of
        (tmp, carry) \<Rightarrow>
          (let tmp = felem_reduce_carry tmp carry
           in if carry \<noteq> 0 then minimal_loop tmp else Some tmp))"

definition felem_is_zero_vartime :: "felem \<Rightarrow> bool option" where
  "felem_is_zero_vartime inp =
     (case minimal_loop (felem_assign inp) of
        None \<Rightarrow> None
      | Some tmp \<Rightarrow> Some (tmp = kZero \<or> tmp = kP \<or> tmp = k2P))"

end
