(* ===== verification/P256_Limbs.thy ===== *)
theory P256_Limbs
  imports P256_Field
begin

text \<open>
  What the limb loops of \<open>p256_ec.c\<close> compute. The integer a limb list stands for is \<open>lsum\<close>; every
  operation is shown to keep the limb bounds its comment promises and to change that integer by a
  multiple of the prime only.
\<close>

section \<open>Words as integers\<close>

lemma uint_of_int_id: "0 \<le> z \<Longrightarrow> z < 2 ^ 32 \<Longrightarrow> uint (of_int z :: u32) = z"
  by (simp add: uint_word_of_int)

lemma uint_add_int:
  assumes "0 \<le> uint w + z" "uint w + z < 2 ^ 32"
  shows "uint (w + of_int z :: u32) = uint w + z"
proof -
  have "w + of_int z = of_int (uint w + z)" by simp
  then show ?thesis using uint_of_int_id [OF assms] by (simp only:)
qed

lemma word_of_uint: "(x :: 'a::len word) = of_int (uint x)"
  by simp

lemma push_bit_of_int: "push_bit n (of_int k :: u32) = of_int (k * 2 ^ n)"
  by (simp add: push_bit_eq_mult)

lemma uint_and_mask_u32: "uint ((x :: u32) AND mask n) = uint x mod 2 ^ n"
  unfolding word_take_bit_eq_and unsigned_take_bit_eq by (rule take_bit_eq_mod)

lemma uint_drop_bit_u32: "uint (drop_bit n (x :: 'a::len word)) = uint x div 2 ^ n"
  unfolding uint_nat unat_drop_bit by (simp only: zdiv_int of_nat_power of_nat_numeral)

lemma int_div_less:
  assumes "0 < q" "m < q * n"
  shows "m div q < (n :: int)"
proof (rule ccontr)
  assume "\<not> m div q < n"
  then have "q * n \<le> q * (m div q)" using assms(1) by (intro mult_left_mono) simp_all
  also have "\<dots> \<le> m" using mult_div_mod_eq [of q m] pos_mod_sign [OF assms(1), of m] by linarith
  finally show False using assms(2) by simp
qed

lemma bottom_masks: "kBottom28Bits = mask 28" "kBottom29Bits = mask 29"
  by (simp_all add: kBottom28Bits_def kBottom29Bits_def mask_eq_exp_minus_1)

lemma limb_mask_eq: "limb_mask i = mask (limb_bits i)"
  by (simp add: limb_mask_def limb_bits_def bottom_masks)

lemma limb_bits_cases: "limb_bits i = 28 \<or> limb_bits i = 29"
  by (simp add: limb_bits_def)

lemma all_ones_cases:
  assumes "uint x \<le> 2 ^ 31"
  shows "NON_ZERO_TO_ALL_ONES x = (if x = 0 then 0 else - 1)"
proof (cases "x = 0")
  case True
  then show ?thesis by (simp add: NON_ZERO_TO_ALL_ONES_def)
next
  case False
  then have "0 < uint x" by (simp add: word_neq_0_conv word_less_def)
  then have "uint (of_int (uint x - 1) :: u32) = uint x - 1"
    using assms by (intro uint_of_int_id) simp_all
  then have "uint (x - 1) = uint x - 1" by simp
  then have "uint (drop_bit 31 (x - 1)) = 0"
    unfolding uint_drop_bit_u32 using assms \<open>0 < uint x\<close> by simp
  then have "drop_bit 31 (x - 1) = 0" by (simp only: unsigned_eq_0_iff)
  then show ?thesis using False by (simp add: NON_ZERO_TO_ALL_ONES_def)
qed

section \<open>The value of a limb list\<close>

text \<open>\<open>lsum i xs\<close> weighs \<open>xs\<close> as limbs number \<open>i\<close>, \<open>i + 1\<close> and so on, relative to limb \<open>i\<close>.\<close>

fun lsum :: "nat \<Rightarrow> int list \<Rightarrow> int" where
  "lsum i [] = 0"
| "lsum i (x # xs) = x + 2 ^ limb_bits i * lsum (Suc i) xs"

fun lbits :: "nat \<Rightarrow> nat \<Rightarrow> nat" where
  "lbits i 0 = 0"
| "lbits i (Suc n) = limb_bits i + lbits (Suc i) n"

definition fval :: "felem \<Rightarrow> int" where
  "fval x = lsum 0 (map uint x)"

lemma lsum_map2: "length xs = length ys \<Longrightarrow> lsum i (map2 (\<lambda>x y. f x + g y) xs ys) = lsum i (map f xs) + lsum i (map g ys)"
  by (induction xs ys arbitrary: i rule: list_induct2) (simp_all add: algebra_simps)

lemma lsum_append: "lsum i (xs @ ys) = lsum i xs + 2 ^ lbits i (length xs) * lsum (i + length xs) ys"
  by (induction xs arbitrary: i) (simp_all add: algebra_simps power_add)

lemma lsum_scale: "lsum i (map (\<lambda>x. c * f x) xs) = c * lsum i (map f xs)"
  by (induction xs arbitrary: i) (simp_all add: algebra_simps)

definition felem_ok :: "felem \<Rightarrow> bool" where
  "felem_ok x \<longleftrightarrow> length x = 9 \<and> (\<forall>j < 9. uint (x ! j) < 2 ^ (limb_bits j + 1)) \<and> uint (x ! 8) < 2 ^ 29"

section \<open>Carry propagation\<close>

lemma limb_loop_val:
  assumes "\<forall>r \<in> set raws. uint r < 2 ^ 32 - 16" "uint carry < 16" "limb_loop i carry raws = (out, c)"
  shows "length out = length raws"
    and "lsum i (map uint out) + 2 ^ lbits i (length raws) * uint c = lsum i (map uint raws) + uint carry"
    and "\<forall>j < length raws. uint (out ! j) < 2 ^ limb_bits (i + j)"
    and "uint c < 16"
    and "raws \<noteq> [] \<Longrightarrow> uint c < 2 ^ (32 - limb_bits (i + length raws - 1))"
proof -
  have "length out = length raws \<and>
    lsum i (map uint out) + 2 ^ lbits i (length raws) * uint c = lsum i (map uint raws) + uint carry \<and>
    (\<forall>j < length raws. uint (out ! j) < 2 ^ limb_bits (i + j)) \<and> uint c < 16 \<and>
    (raws \<noteq> [] \<longrightarrow> uint c < 2 ^ (32 - limb_bits (i + length raws - 1)))"
    using assms
  proof (induction raws arbitrary: i carry out)
    case Nil
    then show ?case by simp
  next
    case (Cons raw raws)
    define v where "v = raw + carry"
    have v: "uint v = uint raw + uint carry"
      unfolding v_def using Cons.prems(1,2) by (intro iffD1 [OF uint_add_lem]) simp
    have vlt: "uint v < 2 ^ 32" using uint_lt2p [of v] by simp
    let ?b = "limb_bits i"
    define k where "k = drop_bit ?b v"
    have k: "uint k = uint v div 2 ^ ?b" by (simp add: k_def uint_drop_bit_u32)
    have kb: "uint k < 2 ^ (32 - ?b)" "uint k < 16"
      using k vlt limb_bits_cases [of i] by (auto simp: div_less_iff_less_mult)
    obtain out' where rec: "limb_loop (Suc i) k raws = (out', c)" and out: "out = (v AND limb_mask i) # out'"
      using Cons.prems(3) by (auto simp: Let_def v_def k_def split: prod.splits)
    have IH: "length out' = length raws"
      "lsum (Suc i) (map uint out') + 2 ^ lbits (Suc i) (length raws) * uint c = lsum (Suc i) (map uint raws) + uint k"
      "\<forall>j < length raws. uint (out' ! j) < 2 ^ limb_bits (Suc i + j)" "uint c < 16"
      "raws \<noteq> [] \<longrightarrow> uint c < 2 ^ (32 - limb_bits (Suc i + length raws - 1))"
      using Cons.IH [of k "Suc i" out'] Cons.prems(1) kb(2) rec by simp_all
    have m: "uint (v AND limb_mask i) = uint v mod 2 ^ ?b"
      by (simp add: limb_mask_eq uint_and_mask_u32)
    have "lsum i (map uint out) + 2 ^ lbits i (length (raw # raws)) * uint c =
        uint v mod 2 ^ ?b + 2 ^ ?b * (lsum (Suc i) (map uint out') + 2 ^ lbits (Suc i) (length raws) * uint c)"
      by (simp add: out m power_add algebra_simps)
    also have "\<dots> = (uint v mod 2 ^ ?b + 2 ^ ?b * (uint v div 2 ^ ?b)) + 2 ^ ?b * lsum (Suc i) (map uint raws)"
      unfolding IH(2) k by (simp add: algebra_simps)
    also have "\<dots> = lsum i (map uint (raw # raws)) + uint carry" by (simp add: v)
    finally have "lsum i (map uint out) + 2 ^ lbits i (length (raw # raws)) * uint c =
      lsum i (map uint (raw # raws)) + uint carry" .
    moreover have "uint (out ! j) < 2 ^ limb_bits (i + j)" if "j < length (raw # raws)" for j
      using that IH(3) by (cases j) (simp_all add: out m)
    moreover have "uint c < 2 ^ (32 - limb_bits (i + length (raw # raws) - 1))"
    proof (cases raws)
      case Nil
      then show ?thesis using rec kb(1) by simp
    qed (use IH(5) in simp)
    ultimately show ?case using IH(1,4) by (simp add: out)
  qed
  then show "length out = length raws"
    "lsum i (map uint out) + 2 ^ lbits i (length raws) * uint c = lsum i (map uint raws) + uint carry"
    "\<forall>j < length raws. uint (out ! j) < 2 ^ limb_bits (i + j)" "uint c < 16"
    "raws \<noteq> [] \<Longrightarrow> uint c < 2 ^ (32 - limb_bits (i + length raws - 1))"
    by blast+
qed

lemma felem_list: "length x = 9 \<Longrightarrow> x = [x ! 0, x ! 1, x ! 2, x ! 3, x ! 4, x ! 5, x ! 6, x ! 7, x ! 8]"
  by (rule nth_equalityI) (auto simp: less_Suc_eq nth_Cons' numeral_eq_Suc)

lemma felem_list_ex: "length x = 9 \<Longrightarrow> \<exists>a b c d e f g h i. x = [a, b, c, d, e, f, g, h, i]"
  using felem_list by blast

lemma limb_bits_simps [simp]:
  "limb_bits 0 = 29" "limb_bits (Suc 0) = 28" "limb_bits 2 = 29" "limb_bits 3 = 28" "limb_bits 4 = 29"
  "limb_bits 5 = 28" "limb_bits 6 = 29" "limb_bits 7 = 28" "limb_bits 8 = 29" "limb_bits (Suc (Suc n)) = limb_bits n"
  by (simp_all add: limb_bits_def)

lemma all_less_9: "(\<forall>j < 9. P j) \<longleftrightarrow> P 0 \<and> P (Suc 0) \<and> P 2 \<and> P 3 \<and> P 4 \<and> P 5 \<and> P 6 \<and> P 7 \<and> P (8 :: nat)"
proof -
  have "{..<9 :: nat} = {0, Suc 0, 2, 3, 4, 5, 6, 7, 8}" by auto
  then have "(\<forall>j < 9. P j) \<longleftrightarrow> (\<forall>j \<in> {0, Suc 0, 2, 3, 4, 5, 6, 7, 8}. P j)"
    by (metis lessThan_iff)
  then show ?thesis by simp
qed

lemma felem_ok_list:
  "felem_ok [x0, x1, x2, x3, x4, x5, x6, x7, x8] \<longleftrightarrow>
    uint x0 < 2 ^ 30 \<and> uint x1 < 2 ^ 29 \<and> uint x2 < 2 ^ 30 \<and> uint x3 < 2 ^ 29 \<and> uint x4 < 2 ^ 30 \<and>
    uint x5 < 2 ^ 29 \<and> uint x6 < 2 ^ 30 \<and> uint x7 < 2 ^ 29 \<and> uint x8 < 2 ^ 29"
  by (auto simp: felem_ok_def all_less_9)

text \<open>The prime, and the effect of \<open>felem_reduce_carry\<close>.\<close>

definition fp :: int where "fp = 2 ^ 256 - 2 ^ 224 + 2 ^ 192 + 2 ^ 96 - 1"

lemma felem_reduce_carry_val:
  assumes "length x = 9" "\<forall>j < 9. uint (x ! j) < 2 ^ limb_bits j" "uint c \<le> 8"
  shows "fval (felem_reduce_carry x c) = fval x + uint c * (2 ^ 257 - 2 * fp)" and "felem_ok (felem_reduce_carry x c)"
proof -
  obtain x0 x1 x2 x3 x4 x5 x6 x7 x8 where x: "x = [x0, x1, x2, x3, x4, x5, x6, x7, x8]"
    using felem_list_ex [OF assms(1)] by blast
  have b: "uint x0 < 2 ^ 29" "uint x1 < 2 ^ 28" "uint x2 < 2 ^ 29" "uint x3 < 2 ^ 28" "uint x4 < 2 ^ 29"
    "uint x5 < 2 ^ 28" "uint x6 < 2 ^ 29" "uint x7 < 2 ^ 28" "uint x8 < 2 ^ 29"
    using assms(2) unfolding all_less_9 x    by simp_all
  have "fval (felem_reduce_carry x c) = fval x + uint c * (2 ^ 257 - 2 * fp) \<and> felem_ok (felem_reduce_carry x c)"
  proof (cases "c = 0")
    case True
    then have "felem_reduce_carry x c = x"
      by (simp add: felem_reduce_carry_def add_at_def NON_ZERO_TO_ALL_ONES_def x)
    moreover have "felem_ok x"
      using b by (simp add: felem_ok_list x)
    ultimately show ?thesis using True by simp
  next
    case False
    then have k: "1 \<le> uint c" by (metis int_one_le_iff_zero_less uint_0_iff uint_ge_0 order_le_less)
    define k where "k = uint c"
    have p: "push_bit n c = of_int (2 ^ n * k)" for n
      by (simp add: push_bit_eq_mult k_def mult.commute)
    have r: "felem_reduce_carry x c =
      [x0 + of_int (2 * k), x1, x2, x3 + of_int (2 ^ 28 - 2 ^ 11 * k), x4 + of_int (2 ^ 29 - 1), x5 + of_int (2 ^ 28 - 1),
       x6 + of_int (2 ^ 29 - 1 - 2 ^ 22 * k), x7 + of_int (- 1 + 2 ^ 25 * k), x8]"
      using False assms(3)
      by (simp add: felem_reduce_carry_def add_at_def all_ones_cases x p add_diff_eq add.assoc [symmetric])
    have u: "uint (x0 + of_int (2 * k)) = uint x0 + 2 * k"
      "uint (x3 + of_int (2 ^ 28 - 2 ^ 11 * k)) = uint x3 + (2 ^ 28 - 2 ^ 11 * k)"
      "uint (x4 + of_int (2 ^ 29 - 1)) = uint x4 + (2 ^ 29 - 1)"
      "uint (x5 + of_int (2 ^ 28 - 1)) = uint x5 + (2 ^ 28 - 1)"
      "uint (x6 + of_int (2 ^ 29 - 1 - 2 ^ 22 * k)) = uint x6 + (2 ^ 29 - 1 - 2 ^ 22 * k)"
      "uint (x7 + of_int (- 1 + 2 ^ 25 * k)) = uint x7 + (- 1 + 2 ^ 25 * k)"
      using b assms(3) k unfolding k_def [symmetric]
      by (intro uint_add_int; simp)+
    have "fval (felem_reduce_carry x c) = fval x + uint c * (2 ^ 257 - 2 * fp)"
      unfolding r fval_def list.map lsum.simps u by (simp add: x fp_def k_def)
    moreover have "felem_ok (felem_reduce_carry x c)"
      unfolding r felem_ok_list u using b k assms(3) unfolding k_def [symmetric] by simp
    ultimately show ?thesis by blast
  qed
  then show "fval (felem_reduce_carry x c) = fval x + uint c * (2 ^ 257 - 2 * fp)" "felem_ok (felem_reduce_carry x c)"
    by blast+
qed

lemma lbits_9: "lbits 0 9 = 257"
proof -
  have "lbits 0 9 = lbits 0 (Suc (Suc (Suc (Suc (Suc (Suc (Suc (Suc (Suc 0)))))))))"
    by (rule arg_cong) simp
  then show ?thesis by simp
qed

lemma limb_norm:
  assumes "length raws = 9" "\<forall>r \<in> set raws. uint r < 2 ^ 32 - 16" "limb_loop 0 0 raws = (out, c)"
  shows "felem_ok (felem_reduce_carry out c)"
    and "fval (felem_reduce_carry out c) = lsum 0 (map uint raws) - 2 * uint c * fp"
    and "fval out + 2 ^ 257 * uint c = lsum 0 (map uint raws)"
    and "length out = 9" "\<forall>j < 9. uint (out ! j) < 2 ^ limb_bits j" "uint c < 8"
proof -
  note l = limb_loop_val [OF assms(2) _ assms(3), simplified, unfolded assms(1)]
  have ne: "raws \<noteq> []" using assms(1) by auto
  show len: "length out = 9" using l(1) .
  show b: "\<forall>j < 9. uint (out ! j) < 2 ^ limb_bits j" using l(3) by simp
  show c: "uint c < 8" using l(5) [OF ne] by simp
  show v: "fval out + 2 ^ 257 * uint c = lsum 0 (map uint raws)"
    using l(2) unfolding lbits_9 fval_def .
  note r = felem_reduce_carry_val [OF len b, of c]
  show "felem_ok (felem_reduce_carry out c)" using r(2) c by simp
  have "fval (felem_reduce_carry out c) = fval out + uint c * (2 ^ 257 - 2 * fp)" using r(1) c by simp
  also have "\<dots> = (fval out + 2 ^ 257 * uint c) - 2 * uint c * fp" by (simp only: algebra_simps)
  finally show "fval (felem_reduce_carry out c) = lsum 0 (map uint raws) - 2 * uint c * fp" unfolding v .
qed

section \<open>Addition, subtraction, small multiples\<close>

lemma felem_okD:
  assumes "felem_ok x"
  shows "length x = 9" "j < 9 \<Longrightarrow> uint (x ! j) < 2 ^ (limb_bits j + 1)" "j < 9 \<Longrightarrow> uint (x ! j) < 2 ^ 30"
    "uint (x ! 8) < 2 ^ 29"
proof -
  show "length x = 9" "uint (x ! 8) < 2 ^ 29" using assms by (simp_all add: felem_ok_def)
  show b: "j < 9 \<Longrightarrow> uint (x ! j) < 2 ^ (limb_bits j + 1)" using assms by (simp add: felem_ok_def)
  show "j < 9 \<Longrightarrow> uint (x ! j) < 2 ^ 30"
    using b limb_bits_cases [of j] by auto
qed

text \<open>Raw limbs given by a function of the index that stays in range.\<close>

lemma raw_limbs:
  fixes raws :: felem
  assumes "length raws = 9" "\<And>j. j < 9 \<Longrightarrow> raws ! j = of_int (f j)" "\<And>j. j < 9 \<Longrightarrow> 0 \<le> f j \<and> f j < 2 ^ 32 - 16"
  shows "\<forall>r \<in> set raws. uint r < 2 ^ 32 - 16" and "map uint raws = map f [0..<9]"
proof -
  have u: "uint (raws ! j) = f j" if "j < 9" for j
  proof -
    have "0 \<le> f j" "f j < 2 ^ 32" using assms(3) [OF that] by simp_all
    then show ?thesis unfolding assms(2) [OF that] by (rule uint_of_int_id)
  qed
  show "\<forall>r \<in> set raws. uint r < 2 ^ 32 - 16"
    using u assms(1,3) by (fastforce simp: in_set_conv_nth)
  show "map uint raws = map f [0..<9]"
    by (rule nth_equalityI) (simp_all add: assms(1) u)
qed

lemma map_uint_upt: "length x = 9 \<Longrightarrow> map uint x = map (\<lambda>j. uint (x ! j)) [0..<9]"
  by (rule nth_equalityI) simp_all

lemma lsum_combine:
  assumes "length a = 9" "length b = 9"
  shows "lsum 0 (map (\<lambda>j. uint (a ! j) + c * uint (b ! j)) [0..<9]) = fval a + c * fval b"
proof -
  have "map (\<lambda>j. uint (a ! j) + c * uint (b ! j)) [0..<9] = map2 (\<lambda>x y. uint x + c * uint y) a b"
    using assms by (intro nth_equalityI) simp_all
  then show ?thesis
    unfolding fval_def using assms by (simp only: lsum_map2 lsum_scale)
qed

lemma felem_sum_val:
  assumes "felem_ok a" "felem_ok b"
  shows "felem_ok (felem_sum a b)" and "\<exists>k. fval (felem_sum a b) = fval a + fval b - 2 * k * fp"
proof -
  let ?f = "\<lambda>j. uint (a ! j) + 1 * uint (b ! j)"
  obtain out c where l: "limb_loop 0 0 (map2 (+) a b) = (out, c)" by fastforce
  have "map2 (+) a b ! j = of_int (?f j)" if "j < 9" for j
    using that felem_okD(1) [OF assms(1)] felem_okD(1) [OF assms(2)] by simp
  moreover have "0 \<le> ?f j \<and> ?f j < 2 ^ 32 - 16" if "j < 9" for j
    using felem_okD(3) [OF assms(1) that] felem_okD(3) [OF assms(2) that] by simp
  ultimately have r: "\<forall>r \<in> set (map2 (+) a b). uint r < 2 ^ 32 - 16" "map uint (map2 (+) a b) = map ?f [0..<9]"
    using raw_limbs [of "map2 (+) a b" ?f] felem_okD(1) [OF assms(1)] felem_okD(1) [OF assms(2)] by simp_all
  have len: "length (map2 (+) a b) = 9" using felem_okD(1) [OF assms(1)] felem_okD(1) [OF assms(2)] by simp
  note n = limb_norm [OF len r(1) l]
  show "felem_ok (felem_sum a b)" using n(1) by (simp add: felem_sum_def l)
  have "fval (felem_sum a b) = fval a + 1 * fval b - 2 * uint c * fp"
    using n(2) unfolding r(2) felem_sum_def l lsum_combine [OF felem_okD(1) [OF assms(1)] felem_okD(1) [OF assms(2)]]
    by simp
  then show "\<exists>k. fval (felem_sum a b) = fval a + fval b - 2 * k * fp" by auto
qed

lemma zero31_list:
  "zero31 = map of_int [2147483640, 1073741820, 2147483644, 1073750012, 2147483644, 1073741820, 2164260860, 939524092, 2147483644]"
  by (simp add: zero31_def)

lemma zero31_bounds: "\<forall>j < 9. 2 ^ (limb_bits j + 1) \<le> uint (zero31 ! j) \<and> uint (zero31 ! j) \<le> 2164260860"
  unfolding all_less_9 by (simp add: zero31_list uint_word_of_int)

lemma zero31_val: "fval zero31 = 8 * fp" "length zero31 = 9"
  by (simp_all add: zero31_list fval_def fp_def uint_word_of_int)

lemma felem_diff_val:
  assumes "felem_ok a" "felem_ok b"
  shows "felem_ok (felem_diff a b)" and "\<exists>k. fval (felem_diff a b) = fval a - fval b + 2 * k * fp"
proof -
  note la = felem_okD(1) [OF assms(1)] and lb = felem_okD(1) [OF assms(2)]
  let ?f = "\<lambda>j. uint (a ! j) - uint (b ! j) + uint (zero31 ! j)"
  let ?raws = "map2 (+) (map2 (-) a b) zero31"
  obtain out c where l: "limb_loop 0 0 ?raws = (out, c)" by fastforce
  have len: "length ?raws = 9" using la lb by (simp add: zero31_val)
  have "?raws ! j = of_int (?f j)" if "j < 9" for j
    using that la lb by (simp add: zero31_val)
  moreover have "0 \<le> ?f j \<and> ?f j < 2 ^ 32 - 16" if "j < 9" for j
  proof -
    have "uint (a ! j) < 1073741824" "(2 ^ 32 :: int) - 16 = 4294967280" using felem_okD(3) [OF assms(1) that] by simp_all
    then show ?thesis
      using felem_okD(2) [OF assms(2) that] zero31_bounds [rule_format, OF that] uint_ge_0 [of "a ! j"] uint_ge_0 [of "b ! j"]
      by linarith
  qed
  ultimately have r: "\<forall>r \<in> set ?raws. uint r < 2 ^ 32 - 16" "map uint ?raws = map ?f [0..<9]"
    using raw_limbs [OF len, of ?f] by blast+
  note n = limb_norm [OF len r(1) l]
  show "felem_ok (felem_diff a b)" using n(1) by (simp add: felem_diff_def l)
  have "map ?f [0..<9] = map2 (\<lambda>x y. x + uint y) (map (\<lambda>j. uint (a ! j) + (- 1) * uint (b ! j)) [0..<9]) zero31"
    using zero31_val(2) by (intro nth_equalityI) simp_all
  then have "lsum 0 (map ?f [0..<9]) = fval a - fval b + 8 * fp"
    using lsum_combine [OF la lb, of "- 1"] zero31_val by (simp add: lsum_map2 fval_def [symmetric])
  then have "fval (felem_diff a b) = fval a - fval b + 8 * fp - 2 * uint c * fp"
    using n(2) unfolding r(2) felem_diff_def l by simp
  then show "\<exists>k. fval (felem_diff a b) = fval a - fval b + 2 * k * fp"
    by (intro exI [of _ "4 - uint c"]) (simp add: algebra_simps)
qed

lemma felem_scalar_3_val:
  assumes "felem_ok a"
  shows "felem_ok (felem_scalar_3 a)" and "\<exists>k. fval (felem_scalar_3 a) = 3 * fval a - 2 * k * fp"
proof -
  note la = felem_okD(1) [OF assms]
  let ?f = "\<lambda>j. 3 * uint (a ! j)"
  let ?raws = "map (\<lambda>x. x * 3) a"
  obtain out c where l: "limb_loop 0 0 ?raws = (out, c)" by fastforce
  have len: "length ?raws = 9" using la by simp
  have "?raws ! j = of_int (?f j)" if "j < 9" for j
    using that la by (simp add: mult.commute)
  moreover have "0 \<le> ?f j \<and> ?f j < 2 ^ 32 - 16" if "j < 9" for j
    using felem_okD(3) [OF assms that] by simp
  ultimately have r: "\<forall>r \<in> set ?raws. uint r < 2 ^ 32 - 16" "map uint ?raws = map ?f [0..<9]"
    using raw_limbs [OF len, of ?f] by blast+
  note n = limb_norm [OF len r(1) l]
  show "felem_ok (felem_scalar_3 a)" using n(1) by (simp add: felem_scalar_3_def l)
  have "lsum 0 (map ?f [0..<9]) = 3 * fval a"
    using map_uint_upt [OF la] lsum_scale [of 0 3 "\<lambda>j. uint (a ! j)" "[0..<9]"] by (simp add: fval_def)
  then show "\<exists>k. fval (felem_scalar_3 a) = 3 * fval a - 2 * k * fp"
    using n(2) unfolding r(2) felem_scalar_3_def l by auto
qed

text \<open>The multiplications by 4 and 8 shift before they carry.\<close>

lemma shift_loop_val:
  assumes "k \<le> 3" "\<forall>j < length xs. uint (xs ! j) < 2 ^ (limb_bits (i + j) + 1)" "uint carry \<le> 16"
    "shift_loop k i carry xs = (out, c)"
  shows "length out = length xs \<and>
    lsum i (map uint out) + 2 ^ lbits i (length xs) * uint c = 2 ^ k * lsum i (map uint xs) + uint carry \<and>
    (\<forall>j < length xs. uint (out ! j) < 2 ^ limb_bits (i + j)) \<and> uint c \<le> 16 \<and>
    (xs \<noteq> [] \<longrightarrow> uint (last xs) < 2 ^ limb_bits (i + length xs - 1) \<longrightarrow> uint c \<le> 2 ^ k)"
  using assms(2-4)
proof (induction xs arbitrary: i carry out)
  case Nil
  then show ?case by simp
next
  case (Cons x xs)
  let ?b = "limb_bits i"
  define v where "v = push_bit k x AND limb_mask i"
  have x: "uint x < 2 ^ (?b + 1)" using Cons.prems(1) by force
  have kb: "k < ?b" "?b \<le> 29" using assms(1) limb_bits_cases [of i] by auto
  have v: "uint v = (2 ^ k * uint x) mod 2 ^ ?b"
  proof -
    have "push_bit k x = of_int (2 ^ k * uint x)" by (simp add: push_bit_eq_mult mult.commute)
    then have "uint (push_bit k x) = (2 ^ k * uint x) mod 2 ^ 32" by (simp only: uint_of_int_u32)
    moreover have "(2 :: int) ^ ?b dvd 2 ^ 32" using kb(2) by (intro le_imp_power_dvd) simp
    ultimately show ?thesis unfolding v_def limb_mask_eq uint_and_mask_u32 by (simp add: mod_mod_cancel)
  qed
  define n where "n = drop_bit (?b - k) x"
  have n: "uint n = uint x div 2 ^ (?b - k)" by (simp add: n_def uint_drop_bit_u32)
  have dec: "2 ^ k * uint x = uint v + 2 ^ ?b * uint n"
  proof -
    have p: "(2 :: int) ^ ?b = 2 ^ k * 2 ^ (?b - k)" using kb(1) by (simp add: power_add [symmetric])
    have "(2 ^ k * uint x) div 2 ^ ?b = uint n" unfolding n p by (rule div_mult_mult1) simp
    then show ?thesis using mult_div_mod_eq [of "2 ^ ?b" "2 ^ k * uint x"] v by simp
  qed
  have k8: "(2 :: int) ^ k \<le> 8" using power_increasing [of k 3 "2 :: int"] assms(1) by simp
  have nk: "uint n < 2 ^ k * 2" "uint x < 2 ^ ?b \<Longrightarrow> uint n < 2 ^ k"
  proof -
    have lt: "uint n < 2 ^ k * e" if "uint x < 2 ^ ?b * e" for e
    proof -
      have "2 ^ k * uint x < 2 ^ k * (2 ^ ?b * e)" using that by (intro mult_strict_left_mono) simp_all
      then have "2 ^ ?b * uint n < 2 ^ k * (2 ^ ?b * e)"
        unfolding dec using uint_ge_0 [of v] by linarith
      then have "2 ^ ?b * uint n < 2 ^ ?b * (2 ^ k * e)" by (simp only: mult.left_commute)
      then show ?thesis by (simp only: mult_less_cancel_left_pos zero_less_power zero_less_numeral)
    qed
    show "uint n < 2 ^ k * 2" using lt [of 2] x by simp
    show "uint x < 2 ^ ?b \<Longrightarrow> uint n < 2 ^ k" using lt [of 1] by simp
  qed
  define w where "w = v + carry"
  have vb: "uint v < 2 ^ ?b" by (simp add: v)
  have b29: "(2 :: int) ^ ?b \<le> 536870912" "268435456 \<le> (2 :: int) ^ ?b" using limb_bits_cases [of i] by auto
  have w: "uint w = uint v + uint carry"
    unfolding w_def using vb b29 Cons.prems(2) by (intro iffD1 [OF uint_add_lem]) simp
  have "uint w < 2 ^ ?b * 2" using w vb b29 Cons.prems(2) by linarith
  then have w1: "uint w div 2 ^ ?b \<le> 1" using int_div_less [of "2 ^ ?b" "uint w" 2] by simp
  define t where "t = n + drop_bit ?b w"
  have t: "uint t = uint n + uint w div 2 ^ ?b"
    unfolding t_def using nk(1) k8 w1
    by (subst iffD1 [OF uint_add_lem]) (simp_all add: uint_drop_bit_u32)
  have tb: "uint t \<le> 16" "uint x < 2 ^ ?b \<Longrightarrow> uint t \<le> 2 ^ k" using t nk w1 k8 by linarith+
  obtain out' where rec: "shift_loop k (Suc i) t xs = (out', c)" and out: "out = (w AND limb_mask i) # out'"
    using Cons.prems(3) by (auto simp: Let_def v_def w_def n_def t_def split: prod.splits)
  have "\<forall>j < length xs. uint (xs ! j) < 2 ^ (limb_bits (Suc i + j) + 1)"
    using Cons.prems(1) by force
  note IH = Cons.IH [OF this tb(1) rec]
  have m: "uint (w AND limb_mask i) = uint w mod 2 ^ ?b" by (simp add: limb_mask_eq uint_and_mask_u32)
  have "lsum i (map uint out) + 2 ^ lbits i (length (x # xs)) * uint c =
      uint w mod 2 ^ ?b + 2 ^ ?b * (lsum (Suc i) (map uint out') + 2 ^ lbits (Suc i) (length xs) * uint c)"
    by (simp add: out m power_add algebra_simps)
  also have "\<dots> = (uint w mod 2 ^ ?b + 2 ^ ?b * (uint w div 2 ^ ?b)) + 2 ^ ?b * uint n + 2 ^ ?b * (2 ^ k * lsum (Suc i) (map uint xs))"
    using IH t by (simp add: algebra_simps)
  also have "\<dots> = 2 ^ k * lsum i (map uint (x # xs)) + uint carry" using w dec by (simp add: algebra_simps)
  finally have "lsum i (map uint out) + 2 ^ lbits i (length (x # xs)) * uint c =
    2 ^ k * lsum i (map uint (x # xs)) + uint carry" .
  moreover have "uint (out ! j) < 2 ^ limb_bits (i + j)" if "j < length (x # xs)" for j
    using that IH by (cases j) (simp_all add: out m)
  moreover have "uint c \<le> 2 ^ k" if "uint (last (x # xs)) < 2 ^ limb_bits (i + length (x # xs) - 1)"
    using that IH rec tb(2) by (cases xs) simp_all
  ultimately show ?case using IH by (simp add: out)
qed

lemma felem_shift_val:
  assumes "felem_ok a" "k \<le> 3" "shift_loop k 0 0 a = (out, c)"
  shows "felem_ok (felem_reduce_carry out c)"
    and "fval (felem_reduce_carry out c) = 2 ^ k * fval a - 2 * uint c * fp"
proof -
  have la: "length a = 9" "a \<noteq> []" using felem_okD(1) [OF assms(1)] by auto
  have "\<forall>j < length a. uint (a ! j) < 2 ^ (limb_bits (0 + j) + 1)" using felem_okD(2) [OF assms(1)] la by simp
  from shift_loop_val [OF assms(2) this _ assms(3)] la
  have l: "length out = 9" "fval out + 2 ^ 257 * uint c = 2 ^ k * fval a"
    "\<forall>j < 9. uint (out ! j) < 2 ^ limb_bits j" "uint (last a) < 2 ^ 29 \<Longrightarrow> uint c \<le> 2 ^ k"
    by (simp_all add: fval_def lbits_9)
  have "last a = a ! 8" using la by (simp add: last_conv_nth)
  then have "uint c \<le> 2 ^ k" using l(4) felem_okD(4) [OF assms(1)] by simp
  then have "uint c \<le> 8" using power_increasing [of k 3 "2 :: int"] assms(2) by simp
  note r = felem_reduce_carry_val [OF l(1,3) this]
  show "felem_ok (felem_reduce_carry out c)" by (rule r(2))
  show "fval (felem_reduce_carry out c) = 2 ^ k * fval a - 2 * uint c * fp"
    unfolding r(1) using l(2) by (simp add: algebra_simps)
qed

lemma felem_scalar_4_val:
  assumes "felem_ok a"
  shows "felem_ok (felem_scalar_4 a)" and "\<exists>k. fval (felem_scalar_4 a) = 4 * fval a - 2 * k * fp"
proof -
  obtain out c where l: "shift_loop 2 0 0 a = (out, c)" by fastforce
  show "felem_ok (felem_scalar_4 a)" "\<exists>k. fval (felem_scalar_4 a) = 4 * fval a - 2 * k * fp"
    using felem_shift_val [OF assms _ l] by (auto simp: felem_scalar_4_def l)
qed

lemma felem_scalar_8_val:
  assumes "felem_ok a"
  shows "felem_ok (felem_scalar_8 a)" and "\<exists>k. fval (felem_scalar_8 a) = 8 * fval a - 2 * k * fp"
proof -
  obtain out c where l: "shift_loop 3 0 0 a = (out, c)" by fastforce
  show "felem_ok (felem_scalar_8 a)" "\<exists>k. fval (felem_scalar_8 a) = 8 * fval a - 2 * k * fp"
    using felem_shift_val [OF assms _ l] by (auto simp: felem_scalar_8_def l)
qed

section \<open>Comparison with zero\<close>

definition minimal :: "felem \<Rightarrow> bool" where
  "minimal x \<longleftrightarrow> length x = 9 \<and> (\<forall>j < 9. uint (x ! j) < 2 ^ limb_bits j)"

lemma lsum_inject:
  assumes "length xs = length ys" "\<forall>j < length xs. uint (xs ! j) < 2 ^ limb_bits (i + j)"
    "\<forall>j < length xs. uint (ys ! j) < 2 ^ limb_bits (i + j)" "lsum i (map uint xs) = lsum i (map uint ys)"
  shows "xs = (ys :: u32 list)"
  using assms
proof (induction xs ys arbitrary: i rule: list_induct2)
  case (Cons x xs y ys)
  let ?B = "2 ^ limb_bits i :: int"
  have b: "uint x < ?B" "uint y < ?B" using Cons.prems(1,2) by force+
  have e: "uint x + ?B * lsum (Suc i) (map uint xs) = uint y + ?B * lsum (Suc i) (map uint ys)"
    using Cons.prems(3) by simp
  have "uint x = (uint x + ?B * lsum (Suc i) (map uint xs)) mod ?B"
    "uint y = (uint y + ?B * lsum (Suc i) (map uint ys)) mod ?B" using b by simp_all
  then have xy: "uint x = uint y" using e by simp
  then have "lsum (Suc i) (map uint xs) = lsum (Suc i) (map uint ys)" using e by simp
  moreover have "\<forall>j < length xs. uint (xs ! j) < 2 ^ limb_bits (Suc i + j)"
    "\<forall>j < length xs. uint (ys ! j) < 2 ^ limb_bits (Suc i + j)" using Cons.prems(1,2) by force+
  ultimately show ?case using Cons.IH [of "Suc i"] xy by (simp add: word_uint_eq_iff)
qed simp

lemma lsum_nonneg: "0 \<le> lsum i (map uint xs)"
  by (induction xs arbitrary: i) simp_all

lemma lsum_bound:
  "\<forall>j < length xs. uint (xs ! j) < 2 ^ limb_bits (i + j) \<Longrightarrow> lsum i (map uint xs) < 2 ^ lbits i (length xs)"
proof (induction xs arbitrary: i)
  case (Cons x xs)
  have "\<forall>j < length xs. uint (xs ! j) < 2 ^ limb_bits (Suc i + j)" using Cons.prems by force
  from Cons.IH [OF this] have "lsum (Suc i) (map uint xs) + 1 \<le> 2 ^ lbits (Suc i) (length xs)" by simp
  then have "2 ^ limb_bits i * (lsum (Suc i) (map uint xs) + 1) \<le> (2 ^ limb_bits i * 2 ^ lbits (Suc i) (length xs) :: int)"
    by (intro mult_left_mono) simp_all
  moreover have "uint x < 2 ^ limb_bits i" using Cons.prems by force
  ultimately show ?case by (simp add: power_add algebra_simps)
qed simp

lemma minimal_range:
  assumes "minimal x" shows "0 \<le> fval x" "fval x < 2 ^ 257"
  using lsum_nonneg [of 0 x] lsum_bound [of x 0] assms by (simp_all add: fval_def minimal_def lbits_9)

lemma minimal_inject: "minimal x \<Longrightarrow> minimal y \<Longrightarrow> fval x = fval y \<Longrightarrow> x = y"
  using lsum_inject [of x y 0] by (simp add: minimal_def fval_def)

lemma minimal_consts:
  "minimal kZero" "fval kZero = 0" "minimal kP" "fval kP = fp" "minimal k2P" "fval k2P = 2 * fp"
proof -
  have z: "kZero = [0, 0, 0, 0, 0, 0, 0, 0, 0]" by (simp add: kZero_def NLIMBS_def eval_nat_numeral)
  show "minimal kZero" "fval kZero = 0" unfolding z by (simp_all add: minimal_def all_less_9 fval_def)
  show "minimal kP" "fval kP = fp" "minimal k2P" "fval k2P = 2 * fp"
    by (simp_all add: minimal_def all_less_9 kP_def k2P_def fval_def fp_def)
qed

lemma fp_pos: "0 < fp" by (simp add: fp_def)

lemma multiple_of_fp:
  assumes "0 \<le> v" "v < 2 ^ 257"
  shows "v mod fp = 0 \<longleftrightarrow> v = 0 \<or> v = fp \<or> v = 2 * fp"
proof
  assume "v mod fp = 0"
  then obtain q where q: "v = fp * q" by (metis mod_0_imp_dvd dvdE)
  have "2 ^ 257 < 3 * fp" by (simp add: fp_def)
  then have "fp * q < fp * 3" using q assms(2) by linarith
  then have "q < 3" using fp_pos by simp
  moreover have "0 \<le> q" using q assms(1) fp_pos by (simp add: zero_le_mult_iff)
  ultimately have "q = 0 \<or> q = 1 \<or> q = 2" by auto
  then show "v = 0 \<or> v = fp \<or> v = 2 * fp" using q by auto
qed auto

lemma minimal_loop_val:
  "felem_ok x \<Longrightarrow> \<exists>t. minimal_loop x = Some t \<and> minimal t \<and> fval t mod fp = fval x mod fp"
proof (induction "nat (fval x)" arbitrary: x rule: less_induct)
  case less
  obtain out c where l: "limb_loop 0 0 x = (out, c)" by fastforce
  have "\<forall>r \<in> set x. uint r < 2 ^ 32 - 16"
    using felem_okD(1,3) [OF less.prems] by (fastforce simp: in_set_conv_nth)
  note n = limb_norm [OF felem_okD(1) [OF less.prems] this l, folded fval_def]
  show ?case
  proof (cases "c = 0")
    case True
    have "felem_reduce_carry out 0 = out"
      by (simp add: felem_reduce_carry_def add_at_def NON_ZERO_TO_ALL_ONES_def)
    then have "minimal_loop x = Some out" using True by (subst minimal_loop.simps) (simp add: l Let_def)
    moreover have "fval out = fval x" using n(3) True by simp
    ultimately show ?thesis using n(4,5) by (auto simp: minimal_def)
  next
    case False
    then have "1 \<le> uint c" by (metis int_one_le_iff_zero_less uint_0_iff uint_ge_0 order_le_less)
    then have "0 < 2 * uint c * fp" using fp_pos by simp
    then have "fval (felem_reduce_carry out c) < fval x" using n(2) by linarith
    then have "nat (fval (felem_reduce_carry out c)) < nat (fval x)"
      using lsum_nonneg [of 0 "felem_reduce_carry out c"] by (simp add: fval_def)
    from less.hyps [OF this n(1)] obtain t where t: "minimal_loop (felem_reduce_carry out c) = Some t" "minimal t"
      "fval t mod fp = fval (felem_reduce_carry out c) mod fp" by blast
    have "minimal_loop x = Some t" using False t(1) by (subst minimal_loop.simps) (simp add: l Let_def)
    moreover have "fval (felem_reduce_carry out c) mod fp = fval x mod fp"
      unfolding n(2) by (simp add: mod_diff_right_eq [symmetric])
    ultimately show ?thesis using t(2,3) by auto
  qed
qed

lemma felem_is_zero_val:
  assumes "felem_ok x"
  shows "felem_is_zero_vartime x = Some (fval x mod fp = 0)"
proof -
  obtain t where t: "minimal_loop x = Some t" "minimal t" "fval t mod fp = fval x mod fp"
    using minimal_loop_val [OF assms] by blast
  have "t = kZero \<longleftrightarrow> fval t = 0" "t = kP \<longleftrightarrow> fval t = fp" "t = k2P \<longleftrightarrow> fval t = 2 * fp"
    using minimal_inject [OF t(2)] minimal_consts by metis+
  then show ?thesis
    using t multiple_of_fp [OF minimal_range [OF t(2)]] by (simp add: felem_is_zero_vartime_def felem_assign_def)
qed

end
