(* ===== verification/P256_Split.thy ===== *)
theory P256_Split
  imports P256_Limbs
begin

text \<open>
  Correctness of \<open>felem_reduce_degree\<close>, the Montgomery reduction of \<open>p256_ec.c\<close>: for words of a product
  the result times \<open>2 ^ 257\<close> is the product up to a multiple of the prime. The argument follows the three
  phases of the code. The middle phase is done on integers: a limb of the array may be \<open>- 1\<close> (stored as
  \<open>0xffffffff\<close>) for a while, and the proof shows that the carry from its neighbour repairs it.
\<close>

section \<open>Cutting words into limbs\<close>

lemma lbits_Suc: "lbits i (Suc n) = lbits i n + limb_bits (i + n)"
  by (induction n arbitrary: i) simp_all

lemma mid_parts:
  fixes T :: int
  assumes "0 \<le> T" "d \<le> n"
  shows "(T mod 2 ^ (m + d)) div 2 ^ m + ((T div 2 ^ (m + d)) * 2 ^ d) mod 2 ^ n = (T div 2 ^ m) mod 2 ^ n"
proof -
  define h l where "h = T div 2 ^ (m + d)" and "l = (T mod 2 ^ (m + d)) div 2 ^ m"
  have l: "0 \<le> l" "l < 2 ^ d"
  proof -
    show "0 \<le> l" by (simp add: l_def pos_imp_zdiv_nonneg_iff)
    show "l < 2 ^ d" unfolding l_def by (rule int_div_less) (simp_all add: power_add [symmetric])
  qed
  have "T = 2 ^ m * (h * 2 ^ d) + T mod 2 ^ (m + d)"
    unfolding h_def using mult_div_mod_eq [of "2 ^ (m + d)" T] by (simp add: power_add algebra_simps)
  then have "T div 2 ^ m = h * 2 ^ d + l"
    unfolding l_def by (metis div_mult_self4 power_not_zero zero_neq_numeral add.commute)
  moreover have "(h * 2 ^ d + l) mod 2 ^ n = (h * 2 ^ d) mod 2 ^ n + l"
  proof -
    have p: "(2 :: int) ^ n = 2 ^ d * 2 ^ (n - d)" using assms(2) by (simp add: power_add [symmetric])
    have "(l + 2 ^ d * h) mod (2 ^ d * 2 ^ (n - d)) = l mod 2 ^ d + 2 ^ d * ((h + l div 2 ^ d) mod 2 ^ (n - d))"
      by (rule digit_step) simp_all
    also have "\<dots> = l + 2 ^ d * (h mod 2 ^ (n - d))" using l by simp
    also have "2 ^ d * (h mod 2 ^ (n - d)) = (h * 2 ^ d) mod 2 ^ n" unfolding p by (simp add: mult.commute [of h] mod_mult_mult1)
    finally show ?thesis unfolding p by (simp add: algebra_simps)
  qed
  ultimately show ?thesis unfolding h_def [symmetric] l_def [symmetric] by simp
qed

lemma mid_split: "(T :: int) div 2 ^ a = (T div 2 ^ a) mod 2 ^ b + 2 ^ b * (T div 2 ^ (a + b))"
proof -
  have "T div 2 ^ (a + b) = T div 2 ^ a div 2 ^ b" by (simp add: zdiv_zmult2_eq power_add)
  then show ?thesis by simp
qed

lemma uint_lo: "uint (lo t) = uint t mod 2 ^ 32"
  by (simp add: lo_def unsigned_ucast_eq take_bit_eq_mod)

lemma uint_hi: "uint (hi t) = uint t div 2 ^ 32"
proof -
  have "uint t div 2 ^ 32 < 2 ^ 32" using uint_lt2p [of t] by (intro int_div_less) simp_all
  then show ?thesis by (simp add: hi_def unsigned_ucast_eq take_bit_eq_mod uint_drop_bit_u32 pos_imp_zdiv_nonneg_iff)
qed

lemma uint_push_mask: "n \<le> 32 \<Longrightarrow> uint (push_bit d (x :: u32) AND mask n) = (uint x * 2 ^ d) mod 2 ^ n"
proof -
  assume "n \<le> 32"
  have "push_bit d x = of_int (uint x * 2 ^ d)" by (simp add: push_bit_eq_mult)
  then have "uint (push_bit d x) = (uint x * 2 ^ d) mod 2 ^ 32" by (simp only: uint_of_int_u32)
  moreover have "(2 :: int) ^ n dvd 2 ^ 32" using \<open>n \<le> 32\<close> by (rule le_imp_power_dvd)
  ultimately show ?thesis unfolding uint_and_mask_u32 by (simp add: mod_mod_cancel)
qed

text \<open>The middle and the top part of a 64-bit word that starts at limb \<open>i - 1\<close>, and its top two limbs on.\<close>

lemma word_parts:
  "uint (drop_bit 28 (lo t)) + uint (push_bit 4 (hi t) AND mask 29) = (uint t div 2 ^ 28) mod 2 ^ 29"
  "uint (drop_bit 29 (lo t)) + uint (push_bit 3 (hi t) AND mask 28) = (uint t div 2 ^ 29) mod 2 ^ 28"
  "uint (drop_bit 25 (hi t)) = uint t div 2 ^ 57"
  "uint (lo t AND mask 29) = uint t mod 2 ^ 29" "uint (lo t AND mask 28) = uint t mod 2 ^ 28"
proof -
  show "uint (drop_bit 28 (lo t)) + uint (push_bit 4 (hi t) AND mask 29) = (uint t div 2 ^ 28) mod 2 ^ 29"
    using mid_parts [of "uint t" 4 29 28] by (simp only: uint_push_mask uint_lo uint_hi uint_drop_bit_u32) simp
  show "uint (drop_bit 29 (lo t)) + uint (push_bit 3 (hi t) AND mask 28) = (uint t div 2 ^ 29) mod 2 ^ 28"
    using mid_parts [of "uint t" 3 28 29] by (simp only: uint_push_mask uint_lo uint_hi uint_drop_bit_u32) simp
  show "uint (drop_bit 25 (hi t)) = uint t div 2 ^ 57"
    by (simp add: uint_hi uint_drop_bit_u32 div_mult2_eq [symmetric])
  show "uint (lo t AND mask 29) = uint t mod 2 ^ 29" "uint (lo t AND mask 28) = uint t mod 2 ^ 28"
    by (simp_all only: uint_and_mask_u32 uint_lo) (simp_all add: mod_mod_cancel)
qed

lemma uint_add_small:
  "uint (x :: u32) + uint y < 2 ^ 32 \<Longrightarrow> uint (x + y) = uint x + uint y"
  by (rule iffD1 [OF uint_add_lem]) simp

text \<open>
  After \<open>i\<close> limbs: what is cut off so far, plus the carry and the parts of the last two words that reach
  beyond limb \<open>i\<close>, is the sum of the first \<open>i\<close> words.
\<close>

definition tail_parts :: "u64 list \<Rightarrow> nat \<Rightarrow> int" where
  "tail_parts tmp i = uint (tmp ! (i - 1)) div 2 ^ limb_bits (i - 1) + uint (tmp ! (i - 2)) div 2 ^ 57"

definition split_inv :: "u64 list \<Rightarrow> nat \<Rightarrow> limb list \<times> limb \<Rightarrow> bool" where
  "split_inv tmp i = (\<lambda>(tmp2, carry). length tmp2 = i \<and> uint carry < 16 \<and>
     (\<forall>j < i. uint (tmp2 ! j) < 2 ^ limb_bits j) \<and>
     lsum 0 (map uint tmp2) + 2 ^ lbits 0 i * (uint carry + tail_parts tmp i) = lsum 0 (map uint (take i tmp)))"

lemma limb_bits_flip: "0 < i \<Longrightarrow> limb_bits (i - 1) = 57 - limb_bits i"
  by (auto simp: limb_bits_def)

text \<open>The sum \<open>degree_step\<close> cuts.\<close>

lemma degree_step_sum:
  fixes tmp :: "u64 list"
  assumes "2 \<le> i" "uint carry < 16"
  defines "v \<equiv> drop_bit 25 (hi (tmp ! (i - 2))) + drop_bit (if even i then 28 else 29) (lo (tmp ! (i - 1)))
    + (push_bit (if even i then 4 else 3) (hi (tmp ! (i - 1))) AND limb_mask i) + (lo (tmp ! i) AND limb_mask i) + carry"
  shows "uint v = uint (tmp ! (i - 2)) div 2 ^ 57 + (uint (tmp ! (i - 1)) div 2 ^ limb_bits (i - 1)) mod 2 ^ limb_bits i
    + uint (tmp ! i) mod 2 ^ limb_bits i + uint carry"
proof -
  let ?a = "drop_bit 25 (hi (tmp ! (i - 2)))" and ?b = "drop_bit (if even i then 28 else 29) (lo (tmp ! (i - 1)))"
  let ?c = "push_bit (if even i then 4 else 3) (hi (tmp ! (i - 1))) AND limb_mask i" and ?d = "lo (tmp ! i) AND limb_mask i"
  have a: "uint ?a = uint (tmp ! (i - 2)) div 2 ^ 57" by (rule word_parts)
  have bc: "uint ?b + uint ?c = (uint (tmp ! (i - 1)) div 2 ^ limb_bits (i - 1)) mod 2 ^ limb_bits i"
    using word_parts(1,2) [of "tmp ! (i - 1)"] assms(1)
    by (simp add: limb_bits_flip limb_mask_eq) (simp add: limb_bits_def)
  have d: "uint ?d = uint (tmp ! i) mod 2 ^ limb_bits i"
    using word_parts(4,5) [of "tmp ! i"] by (simp add: limb_mask_eq limb_bits_def)
  have l: "uint ?a < 128" "uint ?b + uint ?c < 536870912" "uint ?d < 536870912"
  proof -
    show "uint ?a < 128" unfolding a using uint_lt2p [of "tmp ! (i - 2)"] by (intro int_div_less) simp_all
    show "uint ?b + uint ?c < 536870912" unfolding bc
      using limb_bits_cases [of i] pos_mod_bound [of "2 ^ limb_bits i" "uint (tmp ! (i - 1)) div 2 ^ limb_bits (i - 1)"] by auto
    show "uint ?d < 536870912" unfolding d
      using limb_bits_cases [of i] pos_mod_bound [of "2 ^ limb_bits i" "uint (tmp ! i)"] by auto
  qed
  have p: "0 \<le> uint ?b" "0 \<le> uint ?c" "0 \<le> uint ?d" "(2 :: int) ^ 32 = 4294967296" by simp_all
  have s1: "uint (?a + ?b) = uint ?a + uint ?b" using l p by (intro uint_add_small) linarith
  have s2: "uint (?a + ?b + ?c) = uint ?a + uint ?b + uint ?c"
    using uint_add_small [of "?a + ?b" ?c] l p unfolding s1 by linarith
  have s3: "uint (?a + ?b + ?c + ?d) = uint ?a + uint ?b + uint ?c + uint ?d"
    using uint_add_small [of "?a + ?b + ?c" ?d] l p unfolding s2 by linarith
  have s4: "uint v = uint ?a + uint ?b + uint ?c + uint ?d + uint carry"
    using uint_add_small [of "?a + ?b + ?c + ?d" carry] l p assms(2) unfolding s3 v_def by linarith
  show ?thesis unfolding s4 using a bc d by linarith
qed

lemma degree_step_inv:
  assumes "2 \<le> i" "i < length tmp" "split_inv tmp i s"
  shows "split_inv tmp (Suc i) (degree_step tmp i s)"
proof -
  obtain tmp2 carry where s: "s = (tmp2, carry)" by fastforce
  let ?b = "limb_bits i" and ?T = "\<lambda>j. uint (tmp ! j)"
  have I: "length tmp2 = i" "uint carry < 16" "\<forall>j < i. uint (tmp2 ! j) < 2 ^ limb_bits j"
    "lsum 0 (map uint tmp2) + 2 ^ lbits 0 i * (uint carry + tail_parts tmp i) = lsum 0 (map uint (take i tmp))"
    using assms(3) by (simp_all add: split_inv_def s)
  define v where "v = drop_bit 25 (hi (tmp ! (i - 2))) + drop_bit (if even i then 28 else 29) (lo (tmp ! (i - 1)))
    + (push_bit (if even i then 4 else 3) (hi (tmp ! (i - 1))) AND limb_mask i) + (lo (tmp ! i) AND limb_mask i) + carry"
  have v: "uint v = ?T (i - 2) div 2 ^ 57 + (?T (i - 1) div 2 ^ limb_bits (i - 1)) mod 2 ^ ?b + ?T i mod 2 ^ ?b + uint carry"
    unfolding v_def by (rule degree_step_sum [OF assms(1) I(2)])
  have r: "degree_step tmp i s = (tmp2 @ [v AND limb_mask i], drop_bit ?b v)"
    by (simp add: degree_step_def s Let_def v_def)
  define q m where "q = uint v div 2 ^ ?b" and "m = uint v mod 2 ^ ?b"
  have w: "uint (v AND limb_mask i) = m" "uint (drop_bit ?b v) = q"
    by (simp_all add: limb_mask_eq uint_and_mask_u32 uint_drop_bit_u32 q_def m_def)
  have qm: "m + 2 ^ ?b * q = uint v" "m < 2 ^ ?b" by (simp_all add: q_def m_def)
  have c: "q < 16" unfolding q_def
    using limb_bits_cases [of i] uint_lt2p [of v] by (intro int_div_less) auto
  have mid: "?T (i - 1) div 2 ^ limb_bits (i - 1) =
      (?T (i - 1) div 2 ^ limb_bits (i - 1)) mod 2 ^ ?b + 2 ^ ?b * (?T (i - 1) div 2 ^ 57)"
  proof -
    have "limb_bits (i - 1) + ?b = 57" using assms(1) limb_bits_cases [of i] limb_bits_flip [of i] by linarith
    then show ?thesis using mid_split [of "?T (i - 1)" "limb_bits (i - 1)" ?b] by (simp only:)
  qed
  have "lsum 0 (map uint (tmp2 @ [v AND limb_mask i])) +
      2 ^ lbits 0 (Suc i) * (uint (drop_bit ?b v) + tail_parts tmp (Suc i)) =
      lsum 0 (map uint tmp2) + 2 ^ lbits 0 i * (m + 2 ^ ?b * q + 2 ^ ?b * (?T i div 2 ^ ?b) + 2 ^ ?b * (?T (i - 1) div 2 ^ 57))"
    unfolding w tail_parts_def lbits_Suc map_append lsum_append using I(1) w(1)
    by (simp add: power_add algebra_simps)
  also have "\<dots> = lsum 0 (map uint tmp2) + 2 ^ lbits 0 i * (uint v + 2 ^ ?b * (?T i div 2 ^ ?b) + 2 ^ ?b * (?T (i - 1) div 2 ^ 57))"
    unfolding qm(1) ..
  also have "uint v + 2 ^ ?b * (?T i div 2 ^ ?b) + 2 ^ ?b * (?T (i - 1) div 2 ^ 57) = uint carry + tail_parts tmp i + ?T i"
    unfolding v tail_parts_def using mid mult_div_mod_eq [of "2 ^ ?b" "?T i"] by linarith
  also have "lsum 0 (map uint tmp2) + 2 ^ lbits 0 i * (uint carry + tail_parts tmp i + ?T i) = lsum 0 (map uint (take (Suc i) tmp))"
    using I(4) assms(2) by (simp add: take_Suc_conv_app_nth lsum_append algebra_simps)
  finally have val: "lsum 0 (map uint (tmp2 @ [v AND limb_mask i])) +
      2 ^ lbits 0 (Suc i) * (uint (drop_bit ?b v) + tail_parts tmp (Suc i)) = lsum 0 (map uint (take (Suc i) tmp))" .
  have "\<forall>j < Suc i. uint ((tmp2 @ [v AND limb_mask i]) ! j) < 2 ^ limb_bits j"
    using I(1,3) w(1) qm(2) by (auto simp: nth_append less_Suc_eq)
  then show ?thesis unfolding split_inv_def r using val c I(1) w(2) by (simp del: map_append)
qed

lemma degree_fold_inv:
  assumes "split_inv tmp 2 s" "2 + n \<le> length tmp"
  shows "split_inv tmp (2 + n) (fold (degree_step tmp) [2..<2 + n] s)"
  using assms(2)
proof (induction n)
  case 0
  then show ?case using assms(1) by simp
next
  case (Suc n)
  then show ?case using degree_step_inv [of "2 + n" tmp "fold (degree_step tmp) [2..<2 + n] s"] by simp
qed

lemma degree_split_val:
  assumes "length tmp = 17" "uint (tmp ! 16) < 2 ^ 60"
  shows "length (degree_split tmp) = 18"
    and "lsum 0 (map uint (degree_split tmp)) = lsum 0 (map uint tmp)"
    and "\<forall>j < 17. uint (degree_split tmp ! j) < 2 ^ limb_bits j"
    and "uint (degree_split tmp ! 17) < 2 ^ 31 + 2 ^ 8"
proof -
  let ?T = "\<lambda>j. uint (tmp ! j)"
  define t0 where "t0 = lo (tmp ! 0 AND ucast kBottom29Bits)"
  define a where "a = drop_bit 29 (lo (tmp ! 0)) OR (push_bit 3 (hi (tmp ! 0)) AND kBottom28Bits)"
  define t1 where "t1 = a + (lo (tmp ! 1) AND kBottom28Bits)"
  have t0: "uint t0 = ?T 0 mod 2 ^ 29"
  proof -
    have "(ucast kBottom29Bits :: u64) = mask 29" by (simp add: kBottom29Bits_def mask_eq_exp_minus_1)
    moreover have "uint (tmp ! 0 AND mask 29) = ?T 0 mod 2 ^ 29"
      unfolding word_take_bit_eq_and unsigned_take_bit_eq by (rule take_bit_eq_mod)
    ultimately show ?thesis unfolding t0_def uint_lo by (simp add: mod_mod_cancel)
  qed
  have a: "uint a = (?T 0 div 2 ^ 29) mod 2 ^ 28"
  proof -
    have "drop_bit 29 (lo (tmp ! 0)) AND (push_bit 3 (hi (tmp ! 0)) AND mask 28) = 0"
      by (rule bit_word_eqI) (auto simp: bit_simps dest: bit_imp_le_length)
    then have "a = drop_bit 29 (lo (tmp ! 0)) + (push_bit 3 (hi (tmp ! 0)) AND mask 28)"
      unfolding a_def bottom_masks by (simp only: disjunctive_add_eq_or)
    moreover have "(?T 0 div 2 ^ 29) mod 2 ^ 28 < 2 ^ 32"
      using pos_mod_bound [of "2 ^ 28" "?T 0 div 2 ^ 29"] by simp
    ultimately show ?thesis
      using uint_add_small [of "drop_bit 29 (lo (tmp ! 0))" "push_bit 3 (hi (tmp ! 0)) AND mask 28"]
      unfolding word_parts(2) by (simp only:)
  qed
  have t1: "uint t1 = (?T 0 div 2 ^ 29) mod 2 ^ 28 + ?T 1 mod 2 ^ 28"
    unfolding t1_def using uint_add_small [of a "lo (tmp ! 1) AND kBottom28Bits"] a word_parts(5) [of "tmp ! 1"]
      pos_mod_bound [of "2 ^ 28" "?T 0 div 2 ^ 29"] pos_mod_bound [of "2 ^ 28" "?T 1"]
    by (simp add: bottom_masks)
  have "split_inv tmp 2 ([t0, t1 AND kBottom28Bits], drop_bit 28 t1)"
  proof -
    have w: "uint (t1 AND kBottom28Bits) = uint t1 mod 2 ^ 28" "uint (drop_bit 28 t1) = uint t1 div 2 ^ 28"
      by (simp_all add: bottom_masks uint_and_mask_u32 uint_drop_bit_u32)
    have c: "uint (drop_bit 28 t1) < 16" unfolding w using uint_lt2p [of t1] by (intro int_div_less) auto
    have tk: "map uint (take 2 tmp) = [?T 0, ?T 1]"
      using assms(1) by (cases tmp; cases "tl tmp") auto
    have mid: "?T 0 div 2 ^ 29 = (?T 0 div 2 ^ 29) mod 2 ^ 28 + 2 ^ 28 * (?T 0 div 2 ^ 57)"
      using mid_split [of "?T 0" 29 28] by simp
    define q m where "q = uint t1 div 2 ^ 28" and "m = uint t1 mod 2 ^ 28"
    have qm: "m + 2 ^ 28 * q = uint t1" "m < 2 ^ 28" by (simp_all add: q_def m_def)
    have "?T 0 mod 2 ^ 29 + 2 ^ 29 * (m + 2 ^ 28 * (q + (?T 1 div 2 ^ 28 + ?T 0 div 2 ^ 57))) = ?T 0 + 2 ^ 29 * ?T 1"
    proof -
      define d1 m1 d0 m0 e0 f0 where "d1 = ?T 1 div 2 ^ 28" and "m1 = ?T 1 mod 2 ^ 28" and "d0 = ?T 0 div 2 ^ 29"
        and "m0 = ?T 0 mod 2 ^ 29" and "e0 = (?T 0 div 2 ^ 29) mod 2 ^ 28" and "f0 = ?T 0 div 2 ^ 57"
      note defs = d1_def m1_def d0_def m0_def e0_def f0_def
      have "2 ^ 28 * d1 + m1 = ?T 1" "2 ^ 29 * d0 + m0 = ?T 0" unfolding defs by (rule mult_div_mod_eq)+
      moreover have "m + 2 ^ 28 * q = e0 + m1" "d0 = e0 + 2 ^ 28 * f0" unfolding defs using qm(1) t1 mid by (simp_all only:)
      ultimately show ?thesis unfolding defs [symmetric] by simp
    qed
    then show ?thesis
      unfolding split_inv_def tail_parts_def tk
      using c [unfolded w, folded q_def] qm(2) t0 w [folded q_def m_def]
      by (simp add: less_Suc_eq numeral_2_eq_2 algebra_simps)
  qed
  from degree_fold_inv [OF this, of 15] assms(1)
  have F: "split_inv tmp 17 (fold (degree_step tmp) [2..<17] ([t0, t1 AND kBottom28Bits], drop_bit 28 t1))" by simp
  obtain tmp2 c where f: "fold (degree_step tmp) [2..<17] ([t0, t1 AND kBottom28Bits], drop_bit 28 t1) = (tmp2, c)" by fastforce
  note I = F [unfolded f split_inv_def split_conv]
  define t17 where "t17 = drop_bit 25 (hi (tmp ! 15)) + drop_bit 29 (lo (tmp ! 16)) + push_bit 3 (hi (tmp ! 16)) + c"
  have r: "degree_split tmp = tmp2 @ [t17]"
    unfolding degree_split_def Let_def t0_def [symmetric] a_def [symmetric] t1_def [symmetric] f
    by (simp add: t17_def)
  have h: "uint (drop_bit 25 (hi (tmp ! 15))) = ?T 15 div 2 ^ 57" "?T 15 div 2 ^ 57 < 128"
    using uint_lt2p [of "tmp ! 15"] by (simp only: word_parts, intro int_div_less) simp_all
  have g: "uint (drop_bit 29 (lo (tmp ! 16))) + uint (push_bit 3 (hi (tmp ! 16))) = ?T 16 div 2 ^ 29"
    "?T 16 div 2 ^ 29 < 2 ^ 31"
  proof -
    have m32: "mask 32 = (- 1 :: u32)" by (simp add: mask_eq_exp_minus_1)
    show b: "?T 16 div 2 ^ 29 < 2 ^ 31" using assms(2) by (intro int_div_less) simp_all
    have "(uint t mod 2 ^ 32) div 2 ^ 29 + ((uint t div 2 ^ 32) * 2 ^ 3) mod 2 ^ 32 = (uint t div 2 ^ 29) mod 2 ^ 32" for t :: u64
      using mid_parts [of "uint t" 3 32 29] by simp
    moreover have "uint (push_bit 3 x) = (uint x * 2 ^ 3) mod 2 ^ 32" for x :: u32
      using uint_push_mask [of 32 3 x] by (simp add: m32)
    moreover have "(?T 16 div 2 ^ 29) mod 2 ^ 32 = ?T 16 div 2 ^ 29"
      using b by (intro mod_pos_pos_trivial) (simp_all add: pos_imp_zdiv_nonneg_iff)
    ultimately show "uint (drop_bit 29 (lo (tmp ! 16))) + uint (push_bit 3 (hi (tmp ! 16))) = ?T 16 div 2 ^ 29"
      by (simp only: uint_lo uint_hi uint_drop_bit_u32)
  qed
  have c: "uint c < 16" using I by simp
  have t17: "uint t17 = uint c + tail_parts tmp 17"
  proof -
    let ?a = "drop_bit 25 (hi (tmp ! 15))" and ?b = "drop_bit 29 (lo (tmp ! 16))" and ?d = "push_bit 3 (hi (tmp ! 16))"
    have p: "0 \<le> uint ?b" "0 \<le> uint ?d" "(2 :: int) ^ 32 = 4294967296" "(2 :: int) ^ 31 = 2147483648" by simp_all
    have s1: "uint (?a + ?b) = uint ?a + uint ?b" using h g p by (intro uint_add_small) linarith
    have s2: "uint (?a + ?b + ?d) = uint ?a + uint ?b + uint ?d"
      using uint_add_small [of "?a + ?b" ?d] h g p unfolding s1 by linarith
    have "uint t17 = uint ?a + uint ?b + uint ?d + uint c"
      using uint_add_small [of "?a + ?b + ?d" c] h g p c unfolding s2 t17_def by linarith
    then show ?thesis using h(1) g(1) by (simp add: tail_parts_def limb_bits_def)
  qed
  from c have t17b: "uint t17 < 2 ^ 31 + 2 ^ 8" using t17 h(2) g(2) by (simp add: tail_parts_def limb_bits_def)
  show "length (degree_split tmp) = 18" using I by (simp add: r)
  show "lsum 0 (map uint (degree_split tmp)) = lsum 0 (map uint tmp)"
    using I t17 assms(1) by (simp add: r lsum_append)
  show "\<forall>j < 17. uint (degree_split tmp ! j) < 2 ^ limb_bits j" using I by (simp add: r nth_append)
  show "uint (degree_split tmp ! 17) < 2 ^ 31 + 2 ^ 8" using I t17b by (simp add: r nth_append)
qed

end
