(* ===== verification/P256_Eliminate.thy ===== *)
theory P256_Eliminate
  imports P256_Limbs
begin

text \<open>
  The elimination phase of \<open>felem_reduce_degree\<close> on integers: every step adds a multiple of the prime that
  clears the lowest limb, so the value of the array is kept modulo the prime, and the words of the source
  follow the integers.
\<close>

section \<open>Adding to a run of limbs\<close>

definition bump :: "nat \<Rightarrow> int list \<Rightarrow> int list \<Rightarrow> int list" where
  "bump i ds ts = take i ts @ map2 (+) (take (length ds) (drop i ts)) ds @ drop (i + length ds) ts"

lemma length_bump [simp]: "i + length ds \<le> length ts \<Longrightarrow> length (bump i ds ts) = length ts"
  by (simp add: bump_def)

lemma nth_bump:
  assumes "i + length ds \<le> length ts" "j < length ts"
  shows "bump i ds ts ! j = ts ! j + (if i \<le> j \<and> j < i + length ds then ds ! (j - i) else 0)"
  using assms by (auto simp: bump_def nth_append min_def)

lemma lsum_plus: "length xs = length ys \<Longrightarrow> lsum i (map2 (+) xs ys) = lsum i xs + lsum i ys"
  using lsum_map2 [of xs ys i "\<lambda>x. x" "\<lambda>x. x"] by simp

lemma lsum_bump:
  assumes "i + length ds \<le> length ts"
  shows "lsum 0 (bump i ds ts) = lsum 0 ts + 2 ^ lbits 0 i * lsum i ds"
proof -
  have len: "length (take (length ds) (drop i ts)) = length ds" using assms by simp
  have "ts = take i ts @ take (length ds) (drop i ts) @ drop (i + length ds) ts"
    by (metis append_take_drop_id drop_drop add.commute)
  then have "lsum 0 ts = lsum 0 (take i ts @ take (length ds) (drop i ts) @ drop (i + length ds) ts)" by simp
  moreover have "length (map2 (+) (take (length ds) (drop i ts)) ds) = length ds" using len by simp
  ultimately show ?thesis
    unfolding bump_def lsum_append lsum_plus [OF len] using len assms
    by (simp add: algebra_simps)
qed

lemma lsum_update:
  "j < length ts \<Longrightarrow> lsum i (ts[j := v]) = lsum i ts + 2 ^ lbits i j * (v - ts ! j)"
proof (induction ts arbitrary: i j)
  case (Cons t ts)
  show ?case
  proof (cases j)
    case (Suc k)
    then have "lsum (Suc i) (ts[k := v]) = lsum (Suc i) ts + 2 ^ lbits (Suc i) k * (v - ts ! k)"
      using Cons.IH [of k "Suc i"] Cons.prems by simp
    then show ?thesis using Suc by (simp only: list_update_code lsum.simps) (simp add: algebra_simps power_add)
  qed simp
qed simp

section \<open>Words that hold integers\<close>

lemma and_mask_of_int: "n \<le> 32 \<Longrightarrow> (of_int A :: u32) AND mask n = of_int (A mod 2 ^ n)"
  by (rule bit_word_eqI) (auto simp: bit_simps bit_of_int_iff take_bit_eq_mod [symmetric])

lemma drop_bit_of_int:
  assumes "0 \<le> A" "A < 2 ^ 32"
  shows "drop_bit n (of_int A :: u32) = of_int (A div 2 ^ n)"
proof -
  have "uint (drop_bit n (of_int A :: u32)) = A div 2 ^ n"
    unfolding uint_drop_bit_u32 using uint_of_int_id [OF assms] by simp
  then show ?thesis by (metis word_of_uint)
qed

lemma all_ones_of_int:
  assumes "0 \<le> X" "X \<le> 2 ^ 31"
  shows "NON_ZERO_TO_ALL_ONES (of_int X) = (if X = 0 then 0 else - 1)"
proof -
  have "uint (of_int X :: u32) = X" using assms by (intro uint_of_int_id) simp_all
  then show ?thesis using all_ones_cases [of "of_int X"] assms(2) by (auto simp flip: unsigned_eq_0_iff)
qed

section \<open>One cancelled limb\<close>

definition even_ds :: "int \<Rightarrow> int \<Rightarrow> int list" where
  "even_ds c x = [0, c, 0, (x * 2 ^ 10) mod 2 ^ 28, x div 2 ^ 18, 0, (x * 2 ^ 21) mod 2 ^ 29,
     (if x = 0 then 0 else x div 2 ^ 8 + 2 ^ 28 - (x * 2 ^ 24) mod 2 ^ 28),
     (if x = 0 then 0 else x - 1 - x div 2 ^ 4 + 2 ^ 29 - x + (x * 2 ^ 28) mod 2 ^ 29),
     (if x = 0 then 0 else x div 2 - 1)]"

definition odd_ds :: "int \<Rightarrow> int \<Rightarrow> int list" where
  "odd_ds c x = [0, c, 0, (x * 2 ^ 11) mod 2 ^ 29, x div 2 ^ 18, 0, (x * 2 ^ 21) mod 2 ^ 28,
     (if x = 0 then 0 else x div 2 ^ 7 + 2 ^ 29 - (x * 2 ^ 25) mod 2 ^ 29),
     (if x = 0 then 0 else x - 1 - x div 2 ^ 4 + 2 ^ 28 - x),
     (if x = 0 then 0 else x - 1)]"

definition int_even :: "nat \<Rightarrow> int list \<Rightarrow> int list" where
  "int_even i ts = (bump i (even_ds (ts ! i div 2 ^ 29) (ts ! i mod 2 ^ 29)) ts)[i := 0]"

definition int_odd :: "nat \<Rightarrow> int list \<Rightarrow> int list" where
  "int_odd i ts = (bump i (odd_ds (ts ! i div 2 ^ 28) (ts ! i mod 2 ^ 28)) ts)[i := 0]"

lemma offset_cases:
  fixes i j :: nat
  assumes "\<lbrakk>j < i \<or> i + 10 \<le> j; \<not> (i \<le> j \<and> j < i + 10); i \<noteq> j; Suc i \<noteq> j; i + 2 \<noteq> j; i + 3 \<noteq> j; i + 4 \<noteq> j; i + 5 \<noteq> j;
      i + 6 \<noteq> j; i + 7 \<noteq> j; i + 8 \<noteq> j; i + 9 \<noteq> j\<rbrakk> \<Longrightarrow> P j"
    and "P i" "P (i + 1)" "P (i + 2)" "P (i + 3)" "P (i + 4)" "P (i + 5)" "P (i + 6)" "P (i + 7)" "P (i + 8)" "P (i + 9)"
  shows "P j"
proof -
  have "(j < i \<or> i + 10 \<le> j) \<or> j = i \<or> j = i + 1 \<or> j = i + 2 \<or> j = i + 3 \<or> j = i + 4 \<or> j = i + 5 \<or> j = i + 6
    \<or> j = i + 7 \<or> j = i + 8 \<or> j = i + 9" by presburger
  moreover have "P j" if "j < i \<or> i + 10 \<le> j" using that by (intro assms(1)) auto
  ultimately show ?thesis using assms(2-) by blast
qed

lemma limb_word:
  assumes "0 \<le> X" "X < 2 ^ 29"
  shows "push_bit n (of_int X :: u32) AND mask 28 = of_int ((X * 2 ^ n) mod 2 ^ 28)"
    and "push_bit n (of_int X :: u32) AND mask 29 = of_int ((X * 2 ^ n) mod 2 ^ 29)"
    and "drop_bit n (of_int X :: u32) = of_int (X div 2 ^ n)"
    and "NON_ZERO_TO_ALL_ONES (of_int X) = (if X = 0 then 0 else - 1)"
proof -
  show "push_bit n (of_int X :: u32) AND mask 28 = of_int ((X * 2 ^ n) mod 2 ^ 28)"
    "push_bit n (of_int X :: u32) AND mask 29 = of_int ((X * 2 ^ n) mod 2 ^ 29)"
    unfolding push_bit_of_int by (rule and_mask_of_int; simp)+
  show "drop_bit n (of_int X :: u32) = of_int (X div 2 ^ n)" using assms by (intro drop_bit_of_int) simp_all
  show "NON_ZERO_TO_ALL_ONES (of_int X) = (if X = 0 then 0 else - 1)" using assms by (intro all_ones_of_int) simp_all
qed

lemma sim_even:
  assumes "length ts = 18" "i + 9 < 18" "0 \<le> ts ! i" "ts ! i < 2 ^ 32"
  shows "eliminate_even i (map of_int ts) = map of_int (int_even i ts)"
proof -
  define A where "A = ts ! i"
  define X where "X = A mod 2 ^ 29"
  have X: "0 \<le> X" "X < 2 ^ 29" using pos_mod_bound [of "2 ^ 29" A] by (simp_all add: X_def)
  have A: "0 \<le> A" "A < 2 ^ 32" using assms by (simp_all add: A_def)
  have rd: "drop_bit 29 (map of_int ts ! i :: u32) = of_int (A div 2 ^ 29)"
    using drop_bit_of_int [OF A] assms by (simp add: A_def)
  have rx: "add_at (i + 1) w (map of_int ts) ! i AND kBottom29Bits = (of_int X :: u32)" for w
    using and_mask_of_int [of 29 A] assms by (simp add: A_def X_def bottom_masks add_at_def)
  note w = limb_word [OF X]
  show ?thesis
  proof (rule nth_equalityI)
    show "length (eliminate_even i (map of_int ts)) = length (map of_int (int_even i ts) :: u32 list)"
      using assms by (simp add: eliminate_even_def Let_def add_at_def int_even_def even_ds_def)
  next
    fix j assume "j < length (eliminate_even i (map of_int ts))"
    then have j: "j < 18" using assms by (simp add: eliminate_even_def Let_def add_at_def)
    show "eliminate_even i (map of_int ts) ! j = map of_int (int_even i ts) ! j"
      unfolding eliminate_even_def Let_def rd rx int_even_def A_def [symmetric] X_def [symmetric]
      unfolding bottom_masks w
      using j assms(1,2)
      by (induct j rule: offset_cases [of _ i])
        (simp_all add: add_at_def nth_list_update nth_bump even_ds_def, auto)
  qed
qed

lemma sim_odd:
  assumes "length ts = 18" "k + 10 < 18" "i = k + 1" "0 \<le> ts ! i" "ts ! i < 2 ^ 32"
  shows "eliminate_odd k (map of_int ts) = map of_int (int_odd i ts)"
proof -
  define A where "A = ts ! i"
  define X where "X = A mod 2 ^ 28"
  have X: "0 \<le> X" "X < 2 ^ 29" using pos_mod_bound [of "2 ^ 28" A] by (simp_all add: X_def)
  have A: "0 \<le> A" "A < 2 ^ 32" using assms by (simp_all add: A_def)
  have rd: "drop_bit 28 (map of_int ts ! (k + 1) :: u32) = of_int (A div 2 ^ 28)"
    using drop_bit_of_int [OF A] assms by (simp add: A_def)
  have rx: "add_at (k + 2) w (map of_int ts) ! (k + 1) AND kBottom28Bits = (of_int X :: u32)" for w
    using and_mask_of_int [of 28 A] assms by (simp add: A_def X_def bottom_masks add_at_def)
  note w = limb_word [OF X]
  show ?thesis
  proof (rule nth_equalityI)
    show "length (eliminate_odd k (map of_int ts)) = length (map of_int (int_odd i ts) :: u32 list)"
      using assms by (simp add: eliminate_odd_def Let_def add_at_def int_odd_def odd_ds_def)
  next
    fix j assume "j < length (eliminate_odd k (map of_int ts))"
    then have j: "j < 18" using assms by (simp add: eliminate_odd_def Let_def add_at_def)
    show "eliminate_odd k (map of_int ts) ! j = map of_int (int_odd i ts) ! j"
      unfolding eliminate_odd_def Let_def rd rx int_odd_def A_def [symmetric] X_def [symmetric]
      unfolding bottom_masks w
      using j assms(1,2) unfolding assms(3)
      by (induct j rule: offset_cases [of _ "k + 1"])
        (simp_all add: add_at_def nth_list_update nth_bump odd_ds_def, auto simp: add.commute)
  qed
qed

section \<open>Values\<close>

lemma lsum_parity: "lsum (Suc (Suc i)) xs = lsum i xs"
proof (induction xs arbitrary: i)
  case (Cons x xs)
  then show ?case using Cons.IH [of "Suc i"] by simp
qed simp

lemma lsum_even: "even i \<Longrightarrow> lsum i xs = lsum 0 xs"
  by (induction i rule: nat_induct2) (simp_all add: lsum_parity)

lemma lsum_odd: "odd i \<Longrightarrow> lsum i xs = lsum (Suc 0) xs"
  by (induction i rule: nat_induct2) (auto simp: lsum_parity)

lemma split_mul:
  fixes x :: int
  assumes "n = d + m"
  shows "(x * 2 ^ d) mod 2 ^ n + 2 ^ n * (x div 2 ^ m) = x * 2 ^ d"
proof -
  have "(x * 2 ^ d) div 2 ^ n = x div 2 ^ m"
    unfolding assms power_add mult.commute [of x] by (rule div_mult_mult1) simp
  then show ?thesis using mult_div_mod_eq [of "2 ^ n" "x * 2 ^ d"] by (metis add.commute)
qed

lemma even_ds_val: "lsum 0 (even_ds c x) = 2 ^ 29 * c + x * (fp + 1)"
proof (cases "x = 0")
  case False
  define a b d e f g h k where "a = (x * 2 ^ 10) mod 2 ^ 28" and "b = x div 2 ^ 18" and "d = (x * 2 ^ 21) mod 2 ^ 29"
    and "e = x div 2 ^ 8" and "f = (x * 2 ^ 24) mod 2 ^ 28" and "g = x div 2 ^ 4" and "h = (x * 2 ^ 28) mod 2 ^ 29"
    and "k = x div 2 ^ 1"
  note defs = a_def b_def d_def e_def f_def g_def h_def k_def
  have s: "a + 2 ^ 28 * b = x * 2 ^ 10" "d + 2 ^ 29 * e = x * 2 ^ 21" "f + 2 ^ 28 * g = x * 2 ^ 24" "h + 2 ^ 29 * k = x * 2 ^ 28"
    unfolding defs by (rule split_mul; simp)+
  have r: "even_ds c x = [0, c, 0, a, b, 0, d, e + 2 ^ 28 - f, x - 1 - g + 2 ^ 29 - x + h, k - 1]"
    unfolding even_ds_def defs using False by simp
  show ?thesis unfolding r fp_def using s by simp
qed (simp add: even_ds_def)

lemma odd_ds_val: "lsum (Suc 0) (odd_ds c x) = 2 ^ 28 * c + x * (fp + 1)"
proof (cases "x = 0")
  case False
  define a b d e f g where "a = (x * 2 ^ 11) mod 2 ^ 29" and "b = x div 2 ^ 18" and "d = (x * 2 ^ 21) mod 2 ^ 28"
    and "e = x div 2 ^ 7" and "f = (x * 2 ^ 25) mod 2 ^ 29" and "g = x div 2 ^ 4"
  note defs = a_def b_def d_def e_def f_def g_def
  have s: "a + 2 ^ 29 * b = x * 2 ^ 11" "d + 2 ^ 28 * e = x * 2 ^ 21" "f + 2 ^ 29 * g = x * 2 ^ 25"
    unfolding defs by (rule split_mul; simp)+
  have r: "odd_ds c x = [0, c, 0, a, b, 0, d, e + 2 ^ 29 - f, x - 1 - g + 2 ^ 28 - x, x - 1]"
    unfolding odd_ds_def defs using False by simp
  show ?thesis unfolding r fp_def using s by simp
qed (simp add: odd_ds_def)

lemma int_even_val:
  assumes "even i" "i + 10 \<le> length ts"
  shows "lsum 0 (int_even i ts) = lsum 0 ts + 2 ^ lbits 0 i * (ts ! i mod 2 ^ 29) * fp"
proof -
  define A c x where "A = ts ! i" and "c = A div 2 ^ 29" and "x = A mod 2 ^ 29"
  have A: "A = 2 ^ 29 * c + x" by (simp add: c_def x_def)
  have l: "length (even_ds c x) = 10" by (simp add: even_ds_def)
  have n: "bump i (even_ds c x) ts ! i = A" using assms(2) by (simp add: nth_bump l A_def) (simp add: even_ds_def)
  have "lsum 0 (int_even i ts) = lsum 0 ts + 2 ^ lbits 0 i * lsum i (even_ds c x) + 2 ^ lbits 0 i * (0 - A)"
    unfolding int_even_def A_def [symmetric] c_def [symmetric] x_def [symmetric]
    using assms(2) l by (simp add: lsum_update lsum_bump n)
  also have "lsum i (even_ds c x) = A + x * fp" unfolding lsum_even [OF assms(1)] even_ds_val A by (simp add: algebra_simps)
  finally show ?thesis unfolding A_def [symmetric] x_def [symmetric] by (simp add: algebra_simps)
qed

lemma int_odd_val:
  assumes "odd i" "i + 10 \<le> length ts"
  shows "lsum 0 (int_odd i ts) = lsum 0 ts + 2 ^ lbits 0 i * (ts ! i mod 2 ^ 28) * fp"
proof -
  define A c x where "A = ts ! i" and "c = A div 2 ^ 28" and "x = A mod 2 ^ 28"
  have A: "A = 2 ^ 28 * c + x" by (simp add: c_def x_def)
  have l: "length (odd_ds c x) = 10" by (simp add: odd_ds_def)
  have n: "bump i (odd_ds c x) ts ! i = A" using assms(2) by (simp add: nth_bump l A_def) (simp add: odd_ds_def)
  have "lsum 0 (int_odd i ts) = lsum 0 ts + 2 ^ lbits 0 i * lsum i (odd_ds c x) + 2 ^ lbits 0 i * (0 - A)"
    unfolding int_odd_def A_def [symmetric] c_def [symmetric] x_def [symmetric]
    using assms(2) l by (simp add: lsum_update lsum_bump n)
  also have "lsum i (odd_ds c x) = A + x * fp" unfolding lsum_odd [OF assms(1)] odd_ds_val A by (simp add: algebra_simps)
  finally show ?thesis unfolding A_def [symmetric] x_def [symmetric] by (simp add: algebra_simps)
qed

end
