(* ===== verification/P256_Bounds.thy ===== *)
theory P256_Bounds
  imports P256_Eliminate
begin

text \<open>
  Interval bounds for the limbs in the elimination phase: the table of bounds is carried through all steps,
  and it shows that every limb stays within 32 bits.
\<close>

section \<open>Bounds\<close>

definition within :: "int list \<Rightarrow> int list \<Rightarrow> int list \<Rightarrow> bool" where
  "within L U ts \<longleftrightarrow> length L = length ts \<and> length U = length ts \<and> (\<forall>j < length ts. L ! j \<le> ts ! j \<and> ts ! j \<le> U ! j)"

lemma within_Nil [simp]: "within [] [] []" by (simp add: within_def)

lemma within_Cons [simp]: "within (l # L) (u # U) (t # ts) \<longleftrightarrow> l \<le> t \<and> t \<le> u \<and> within L U ts"
proof
  assume w: "within (l # L) (u # U) (t # ts)"
  have "\<forall>j < length ts. L ! j \<le> ts ! j \<and> ts ! j \<le> U ! j"
    using w by (auto simp: within_def dest: spec [of _ "Suc _"])
  then show "l \<le> t \<and> t \<le> u \<and> within L U ts" using w by (auto simp: within_def)
next
  assume "l \<le> t \<and> t \<le> u \<and> within L U ts"
  then show "within (l # L) (u # U) (t # ts)" by (auto simp: within_def nth_Cons split: nat.split)
qed

lemma within_nth: "within L U ts \<Longrightarrow> j < length ts \<Longrightarrow> L ! j \<le> ts ! j \<and> ts ! j \<le> U ! j"
  by (simp add: within_def)

lemma within_bump:
  assumes "within L U ts" "within dl du ds" "i + length ds \<le> length ts"
  shows "within (bump i dl L) (bump i du U) (bump i ds ts)"
  using assms by (auto simp: within_def nth_bump intro!: add_mono)

lemma within_zero: "within L U ts \<Longrightarrow> within (L[i := 0]) (U[i := 0]) (ts[i := 0])"
  by (cases "i < length ts") (auto simp: within_def nth_list_update)

definition even_lo :: "int list" where "even_lo = [0, 0, 0, 0, 0, 0, 0, 0, 0, - 1]"
definition even_hi :: "int list" where
  "even_hi = [0, 7, 0, 2 ^ 28 - 1, 2 ^ 11 - 1, 0, 2 ^ 29 - 1, 2 ^ 21 + 2 ^ 28, 2 ^ 29 + 2 ^ 28, 2 ^ 28]"
definition odd_lo :: "int list" where "odd_lo = [0, 0, 0, 0, 0, 0, 0, 0, 0, 0]"
definition odd_hi :: "int list" where
  "odd_hi = [0, 15, 0, 2 ^ 29 - 1, 2 ^ 10 - 1, 0, 2 ^ 28 - 1, 2 ^ 21 + 2 ^ 29, 2 ^ 28, 2 ^ 28]"

lemma mod_range: "0 \<le> x mod (2 :: int) ^ n" "x mod (2 :: int) ^ n \<le> 2 ^ n - 1"
  using pos_mod_bound [of "2 ^ n" x] by simp_all

lemma div_range:
  assumes "0 \<le> x" "x < 2 ^ n * b"
  shows "0 \<le> x div (2 :: int) ^ n" "x div (2 :: int) ^ n \<le> b - 1"
  using assms int_div_less [of "2 ^ n" x b] by (simp_all add: pos_imp_zdiv_nonneg_iff)

lemma even_ds_bounds:
  assumes "0 \<le> A" "A < 2 ^ 32"
  shows "within even_lo even_hi (even_ds (A div 2 ^ 29) (A mod 2 ^ 29))"
proof -
  define x c where "x = A mod 2 ^ 29" and "c = A div 2 ^ 29"
  define a b d e f g h k where "a = (x * 2 ^ 10) mod 2 ^ 28" and "b = x div 2 ^ 18" and "d = (x * 2 ^ 21) mod 2 ^ 29"
    and "e = x div 2 ^ 8" and "f = (x * 2 ^ 24) mod 2 ^ 28" and "g = x div 2 ^ 4" and "h = (x * 2 ^ 28) mod 2 ^ 29"
    and "k = x div 2 ^ 1"
  note defs = a_def b_def d_def e_def f_def g_def h_def k_def
  have x: "0 \<le> x" "x < 2 ^ 29" using mod_range [of A 29] by (simp_all add: x_def)
  have 1: "0 \<le> c" "c \<le> 7" using div_range [of A 29 8] assms by (simp_all add: c_def)
  have 2: "0 \<le> b" "b \<le> 2047" using div_range [of x 18 2048] x by (simp_all add: b_def)
  have 3: "0 \<le> e" "e \<le> 2097151" using div_range [of x 8 2097152] x by (simp_all add: e_def)
  have 4: "0 \<le> g" "g \<le> 33554431" using div_range [of x 4 33554432] x by (simp_all add: g_def)
  have 5: "0 \<le> k" "k \<le> 268435455" using div_range [of x 1 268435456] x by (simp_all add: k_def)
  have 6: "0 \<le> h" "h \<le> 268435456"
  proof -
    have "h = 2 ^ 28 * (x mod 2)"
      unfolding h_def mult.commute [of x] by (simp add: mod_mult_mult1 [of "2 ^ 28" x 2, simplified])
    moreover have "x mod 2 \<le> 1" "0 \<le> x mod 2" using pos_mod_bound [of 2 x] by simp_all
    ultimately show "0 \<le> h" "h \<le> 268435456" by simp_all
  qed
  have 7: "0 \<le> a" "a \<le> 268435455" "0 \<le> d" "d \<le> 536870911" "0 \<le> f" "f \<le> 268435455"
    unfolding a_def d_def f_def
    using mod_range [of "x * 2 ^ 10" 28] mod_range [of "x * 2 ^ 21" 29] mod_range [of "x * 2 ^ 24" 28] by simp_all
  have r: "even_ds c x = [0, c, 0, a, b, 0, d, (if x = 0 then 0 else e + 2 ^ 28 - f),
      (if x = 0 then 0 else x - 1 - g + 2 ^ 29 - x + h), (if x = 0 then 0 else k - 1)]"
    unfolding even_ds_def defs by simp
  show ?thesis
    unfolding x_def [symmetric] c_def [symmetric] r even_lo_def even_hi_def within_Cons using 1 2 3 4 5 6 7 by simp
qed

lemma odd_ds_bounds:
  assumes "0 \<le> A" "A < 2 ^ 32"
  shows "within odd_lo odd_hi (odd_ds (A div 2 ^ 28) (A mod 2 ^ 28))"
proof -
  define x c where "x = A mod 2 ^ 28" and "c = A div 2 ^ 28"
  define a b d e f g where "a = (x * 2 ^ 11) mod 2 ^ 29" and "b = x div 2 ^ 18" and "d = (x * 2 ^ 21) mod 2 ^ 28"
    and "e = x div 2 ^ 7" and "f = (x * 2 ^ 25) mod 2 ^ 29" and "g = x div 2 ^ 4"
  note defs = a_def b_def d_def e_def f_def g_def
  have x: "0 \<le> x" "x < 2 ^ 28" using mod_range [of A 28] by (simp_all add: x_def)
  have 1: "0 \<le> c" "c \<le> 15" using div_range [of A 28 16] assms by (simp_all add: c_def)
  have 2: "0 \<le> b" "b \<le> 1023" using div_range [of x 18 1024] x by (simp_all add: b_def)
  have 3: "0 \<le> e" "e \<le> 2097151" using div_range [of x 7 2097152] x by (simp_all add: e_def)
  have 4: "0 \<le> g" "g \<le> 16777215" using div_range [of x 4 16777216] x by (simp_all add: g_def)
  have 7: "0 \<le> a" "a \<le> 536870911" "0 \<le> d" "d \<le> 268435455" "0 \<le> f" "f \<le> 536870911"
    unfolding a_def d_def f_def
    using mod_range [of "x * 2 ^ 11" 29] mod_range [of "x * 2 ^ 21" 28] mod_range [of "x * 2 ^ 25" 29] by simp_all
  have r: "odd_ds c x = [0, c, 0, a, b, 0, d, (if x = 0 then 0 else e + 2 ^ 29 - f),
      (if x = 0 then 0 else x - 1 - g + 2 ^ 28 - x), (if x = 0 then 0 else x - 1)]"
    unfolding odd_ds_def defs by simp
  show ?thesis
    unfolding x_def [symmetric] c_def [symmetric] r odd_lo_def odd_hi_def within_Cons using x 1 2 3 4 7 by simp
qed

section \<open>All nine limbs\<close>

text \<open>
  An odd limb above the cancelled ones may be \<open>- 1\<close>; together with the limb below it, it is not negative.
\<close>

definition pairs :: "nat \<Rightarrow> int list \<Rightarrow> bool" where
  "pairs n ts \<longleftrightarrow> (\<forall>m. odd m \<and> n \<le> m \<and> m < 18 \<longrightarrow> 0 \<le> 2 ^ 29 * ts ! m + ts ! (m - 1))"

definition elim_inv :: "nat \<Rightarrow> int list \<Rightarrow> int list \<Rightarrow> int \<Rightarrow> int list \<Rightarrow> bool" where
  "elim_inv n L U V ts \<longleftrightarrow> length ts = 18 \<and> within L U ts \<and> pairs n ts \<and> (\<exists>k. lsum 0 ts = V + k * fp)"

lemma even_ds_pair:
  assumes "0 \<le> x"
  shows "0 \<le> 2 ^ 29 * even_ds c x ! 9 + even_ds c x ! 8"
proof (cases "x = 0")
  case False
  define g h k where "g = x div 2 ^ 4" and "h = (x * 2 ^ 28) mod 2 ^ 29" and "k = x div 2 ^ 1"
  have "h + 2 ^ 29 * k = x * 2 ^ 28" unfolding h_def k_def by (rule split_mul) simp
  moreover have "g \<le> x" unfolding g_def using zdiv_mono2 [of x 1 "2 ^ 4"] assms by simp
  moreover have "even_ds c x ! 9 = k - 1" "even_ds c x ! 8 = x - 1 - g + 2 ^ 29 - x + h"
    using False by (simp_all add: even_ds_def g_def h_def k_def)
  ultimately show ?thesis using False assms by simp
qed (simp add: even_ds_def)

lemma length_ds [simp]: "length (even_ds c x) = 10" "length (odd_ds c x) = 10"
  by (simp_all add: even_ds_def odd_ds_def)

lemma even_ds_nonneg:
  assumes "0 \<le> A" "A < 2 ^ 32" "k < 9"
  shows "0 \<le> even_ds (A div 2 ^ 29) (A mod 2 ^ 29) ! k"
proof -
  have "\<forall>k < 9. even_lo ! k = 0" unfolding all_less_9 by (simp add: even_lo_def)
  then have "even_lo ! k = 0" using assms(3) by blast
  then show ?thesis using within_nth [OF even_ds_bounds [OF assms(1,2)], of k] assms(3) by simp
qed

lemma odd_ds_nonneg:
  assumes "0 \<le> A" "A < 2 ^ 32" "k < 10"
  shows "0 \<le> odd_ds (A div 2 ^ 28) (A mod 2 ^ 28) ! k"
proof -
  have "\<forall>k < 9. odd_lo ! k = 0" "odd_lo ! 9 = 0" unfolding all_less_9 by (simp_all add: odd_lo_def)
  moreover have "k < 9 \<or> k = 9" using assms(3) by linarith
  ultimately have "odd_lo ! k = 0" by blast
  then show ?thesis using within_nth [OF odd_ds_bounds [OF assms(1,2)], of k] assms(3) by simp
qed

lemma pairs_even:
  assumes "pairs n ts" "length ts = 18" "even i" "i + 1 < n" "i + 10 \<le> 18" "0 \<le> ts ! i" "ts ! i < 2 ^ 32"
  shows "pairs n (int_even i ts)"
  unfolding pairs_def
proof (intro allI impI)
  fix m assume m: "odd m \<and> n \<le> m \<and> m < 18"
  then obtain q where q: "m = Suc q" by (cases m) auto
  let ?ds = "even_ds (ts ! i div 2 ^ 29) (ts ! i mod 2 ^ 29)"
  let ?d = "\<lambda>j. if i \<le> j \<and> j < i + 10 then ?ds ! (j - i) else 0"
  have e: "int_even i ts ! m = ts ! m + ?d m" "int_even i ts ! (m - 1) = ts ! (m - 1) + ?d (m - 1)"
    using m assms(2,4,5) by (simp_all add: int_even_def nth_bump q)
  have "0 \<le> 2 ^ 29 * ?d m + ?d (m - 1)"
  proof (cases "m = i + 9")
    case True
    then show ?thesis using even_ds_pair [of "ts ! i mod 2 ^ 29" "ts ! i div 2 ^ 29"] by simp
  next
    case False
    then have "m - i < 9 \<or> i + 10 < m" using m assms(3) by presburger
    then have "0 \<le> ?d m" "0 \<le> ?d (m - 1)"
      using even_ds_nonneg [OF assms(6,7)] m assms(4) by auto
    then show ?thesis by simp
  qed
  moreover have "0 \<le> 2 ^ 29 * ts ! m + ts ! (m - 1)" using assms(1) m by (simp add: pairs_def)
  ultimately show "0 \<le> 2 ^ 29 * int_even i ts ! m + int_even i ts ! (m - 1)" unfolding e by simp
qed

lemma pairs_odd:
  assumes "pairs n ts" "length ts = 18" "i + 1 < n" "i + 10 \<le> 18" "0 \<le> ts ! i" "ts ! i < 2 ^ 32"
  shows "pairs n (int_odd i ts)"
  unfolding pairs_def
proof (intro allI impI)
  fix m assume m: "odd m \<and> n \<le> m \<and> m < 18"
  then obtain q where q: "m = Suc q" by (cases m) auto
  have "ts ! j \<le> int_odd i ts ! j" if "i < j" "j < 18" for j
    using that assms(2,4) odd_ds_nonneg [OF assms(5,6)] by (auto simp: int_odd_def nth_bump)
  then have "ts ! m \<le> int_odd i ts ! m" "ts ! (m - 1) \<le> int_odd i ts ! (m - 1)" using m assms(3) by (simp_all add: q)
  moreover have "0 \<le> 2 ^ 29 * ts ! m + ts ! (m - 1)" using assms(1) m by (simp add: pairs_def)
  ultimately show "0 \<le> 2 ^ 29 * int_odd i ts ! m + int_odd i ts ! (m - 1)" by simp
qed

lemma elim_inv_nth:
  assumes "elim_inv n L U V ts" "i < 18"
  shows "L ! i \<le> ts ! i" "ts ! i \<le> U ! i"
  using assms by (auto simp: elim_inv_def within_def)

lemma step_even:
  assumes "elim_inv n L U V ts" "0 \<le> L ! i" "U ! i < 2 ^ 32" "even i" "i + 1 < n" "i + 10 \<le> 18"
  shows "eliminate_even i (map of_int ts) = map of_int (int_even i ts)"
    and "elim_inv n ((bump i even_lo L)[i := 0]) ((bump i even_hi U)[i := 0]) V (int_even i ts)"
proof -
  have A: "0 \<le> ts ! i" "ts ! i < 2 ^ 32"
    using elim_inv_nth [OF assms(1), of i] assms(2,3,6) by simp_all
  have ts: "length ts = 18" "within L U ts" "pairs n ts" using assms(1) by (simp_all add: elim_inv_def)
  show "eliminate_even i (map of_int ts) = map of_int (int_even i ts)"
    using sim_even [OF ts(1) _ A] assms(6) by simp
  have "within ((bump i even_lo L)[i := 0]) ((bump i even_hi U)[i := 0]) (int_even i ts)"
    unfolding int_even_def using ts assms(6)
    by (intro within_zero within_bump even_ds_bounds A) simp_all
  moreover obtain k where "lsum 0 ts = V + k * fp" using assms(1) by (auto simp: elim_inv_def)
  then have "lsum 0 (int_even i ts) = V + (k + 2 ^ lbits 0 i * (ts ! i mod 2 ^ 29)) * fp"
    using int_even_val [OF assms(4), of ts] ts(1) assms(6) by (simp add: distrib_right)
  moreover have "length (int_even i ts) = 18" using ts(1) assms(6) by (simp add: int_even_def)
  ultimately show "elim_inv n ((bump i even_lo L)[i := 0]) ((bump i even_hi U)[i := 0]) V (int_even i ts)"
    unfolding elim_inv_def using pairs_even [OF ts(3,1) assms(4-6) A] by blast
qed

lemma step_odd:
  assumes "elim_inv n L U V ts" "0 \<le> L ! i" "U ! i < 2 ^ 32" "odd i" "i + 1 < n" "i + 10 \<le> 18"
  shows "eliminate_odd (i - 1) (map of_int ts) = map of_int (int_odd i ts)"
    and "elim_inv n ((bump i odd_lo L)[i := 0]) ((bump i odd_hi U)[i := 0]) V (int_odd i ts)"
proof -
  have A: "0 \<le> ts ! i" "ts ! i < 2 ^ 32"
    using elim_inv_nth [OF assms(1), of i] assms(2,3,6) by simp_all
  have ts: "length ts = 18" "within L U ts" "pairs n ts" using assms(1) by (simp_all add: elim_inv_def)
  have "i \<noteq> 0" using assms(4) by (cases i) auto
  then show "eliminate_odd (i - 1) (map of_int ts) = map of_int (int_odd i ts)"
    using sim_odd [OF ts(1) _ _ A, of "i - 1"] assms(6) by simp
  have "within ((bump i odd_lo L)[i := 0]) ((bump i odd_hi U)[i := 0]) (int_odd i ts)"
    unfolding int_odd_def using ts assms(6)
    by (intro within_zero within_bump odd_ds_bounds A) simp_all
  moreover obtain k where "lsum 0 ts = V + k * fp" using assms(1) by (auto simp: elim_inv_def)
  then have "lsum 0 (int_odd i ts) = V + (k + 2 ^ lbits 0 i * (ts ! i mod 2 ^ 28)) * fp"
    using int_odd_val [OF assms(4), of ts] ts(1) assms(6) by (simp add: distrib_right)
  moreover have "length (int_odd i ts) = 18" using ts(1) assms(6) by (simp add: int_odd_def)
  ultimately show "elim_inv n ((bump i odd_lo L)[i := 0]) ((bump i odd_hi U)[i := 0]) V (int_odd i ts)"
    unfolding elim_inv_def using pairs_odd [OF ts(3,1) assms(5,6) A] by blast
qed

section \<open>The whole elimination\<close>

definition word_step :: "nat \<Rightarrow> limb list \<Rightarrow> limb list" where
  "word_step i tmp2 = (if even i then eliminate_even i tmp2 else eliminate_odd (i - 1) tmp2)"

definition int_step :: "nat \<Rightarrow> int list \<Rightarrow> int list" where
  "int_step i ts = (if even i then int_even i ts else int_odd i ts)"

definition lo_step :: "nat \<Rightarrow> int list \<Rightarrow> int list" where
  "lo_step i L = (bump i (if even i then even_lo else odd_lo) L)[i := 0]"

definition hi_step :: "nat \<Rightarrow> int list \<Rightarrow> int list" where
  "hi_step i U = (bump i (if even i then even_hi else odd_hi) U)[i := 0]"

text \<open>The bounds at every step leave the limb that is read inside 32 bits.\<close>

fun run_ok :: "nat \<Rightarrow> nat list \<Rightarrow> int list \<Rightarrow> int list \<Rightarrow> bool" where
  "run_ok n [] L U \<longleftrightarrow> True"
| "run_ok n (i # is) L U \<longleftrightarrow> 0 \<le> L ! i \<and> U ! i < 2 ^ 32 \<and> i + 1 < n \<and> i + 10 \<le> 18 \<and>
     run_ok n is (lo_step i L) (hi_step i U)"

lemma elim_run:
  "elim_inv n L U V ts \<Longrightarrow> run_ok n is L U \<Longrightarrow>
    fold word_step is (map of_int ts) = map of_int (fold int_step is ts) \<and>
    elim_inv n (fold lo_step is L) (fold hi_step is U) V (fold int_step is ts)"
proof (induction "is" arbitrary: L U ts)
  case (Cons i "is")
  have c: "0 \<le> L ! i" "U ! i < 2 ^ 32" "i + 1 < n" "i + 10 \<le> 18" using Cons.prems(2) by simp_all
  have "word_step i (map of_int ts) = map of_int (int_step i ts) \<and>
      elim_inv n (lo_step i L) (hi_step i U) V (int_step i ts)"
    using step_even [OF Cons.prems(1) c(1,2) _ c(3,4)] step_odd [OF Cons.prems(1) c(1,2) _ c(3,4)]
    by (simp add: word_step_def int_step_def lo_step_def hi_step_def)
  then show ?case using Cons.IH [of "lo_step i L" "hi_step i U" "int_step i ts"] Cons.prems(2) by simp
qed simp

lemma upt_9: "[0..<9] = [0, Suc 0, 2, 3, 4, 5, 6, 7, 8]" "[0..<8] = [0, Suc 0, 2, 3, 4, 5, 6, 7]"
  by (simp_all add: upt_rec)

lemma degree_eliminate_steps: "degree_eliminate tmp2 = word_step 8 (fold word_step [0..<8] tmp2)"
  unfolding upt_9 by (simp add: degree_eliminate_def word_step_def)

definition start_hi :: "int list" where
  "start_hi = [536870911, 268435455, 536870911, 268435455, 536870911, 268435455, 536870911, 268435455, 536870911,
     268435455, 536870911, 268435455, 536870911, 268435455, 536870911, 268435455, 536870911, 2147483904]"

definition end_lo :: "int list" where
  "end_lo = [0, 0, 0, 0, 0, 0, 0, 0, 0,
     - 1, 0, - 1, 0, - 1, 0, - 1, 0, - 1]"

definition end_hi :: "int list" where
  "end_hi = [0, 0, 0, 0, 0, 0, 0, 0, 0,
     1612710915, 3223324668, 1612710908, 2686453757, 1344274430, 2686451710, 1075838975, 1610612735, 2415919360]"

lemmas step_defs = lo_step_def hi_step_def even_lo_def odd_lo_def even_hi_def odd_hi_def bump_def

lemma replicate_18: "replicate 18 x = [x, x, x, x, x, x, x, x, x, x, x, x, x, x, x, x, x, x]"
  by (simp add: eval_nat_numeral)

lemma elimination_run:
  "run_ok 9 [0..<8] (replicate 18 0) start_hi"
  "run_ok 11 [8] (fold lo_step [0..<8] (replicate 18 0)) (fold hi_step [0..<8] start_hi)"
  "fold lo_step [8] (fold lo_step [0..<8] (replicate 18 0)) = end_lo"
  "fold hi_step [8] (fold hi_step [0..<8] start_hi) = end_hi"
  unfolding upt_9 by (simp_all add: step_defs start_hi_def end_lo_def end_hi_def replicate_18)

lemma degree_eliminate_val:
  assumes "length ts = 18" "within (replicate 18 0) start_hi ts"
  shows "\<exists>ts'. degree_eliminate (map of_int ts) = map of_int ts' \<and> 0 \<le> ts' ! 9 \<and> elim_inv 11 end_lo end_hi (lsum 0 ts) ts'"
proof -
  have "(0 :: int) \<le> ts ! j" if "j < 18" for j
    using within_nth [OF assms(2), of j] assms(1) that by simp
  then have "pairs 9 ts" by (auto simp: pairs_def)
  moreover have "lsum 0 ts = lsum 0 ts + 0 * fp" by simp
  ultimately have "elim_inv 9 (replicate 18 0) start_hi (lsum 0 ts) ts"
    using assms unfolding elim_inv_def by blast
  note r = elim_run [OF this elimination_run(1)]
  define t8 where "t8 = fold int_step [0..<8] ts"
  have i8: "elim_inv 9 (fold lo_step [0..<8] (replicate 18 0)) (fold hi_step [0..<8] start_hi) (lsum 0 ts) t8"
    using r by (simp add: t8_def)
  then have "elim_inv 11 (fold lo_step [0..<8] (replicate 18 0)) (fold hi_step [0..<8] start_hi) (lsum 0 ts) t8"
    by (auto simp: elim_inv_def pairs_def)
  note q = elim_run [OF this elimination_run(2)]
  have t8: "length t8 = 18" "0 \<le> 2 ^ 29 * t8 ! 9 + t8 ! 8"
    using i8 by (auto simp: elim_inv_def pairs_def dest!: spec [of _ 9])
  have "int_step 8 t8 ! 9 = t8 ! 9 + t8 ! 8 div 2 ^ 29"
    using t8(1) by (simp add: int_step_def int_even_def nth_bump) (simp add: even_ds_def)
  also have "\<dots> = (t8 ! 8 + 2 ^ 29 * t8 ! 9) div 2 ^ 29" by simp
  finally have "0 \<le> int_step 8 t8 ! 9" using t8(2) by (simp add: pos_imp_zdiv_nonneg_iff)
  moreover have "degree_eliminate (map of_int ts) = map of_int (int_step 8 t8)"
    using r q by (simp add: degree_eliminate_steps t8_def)
  moreover have "elim_inv 11 end_lo end_hi (lsum 0 ts) (int_step 8 t8)"
    using q unfolding elimination_run(3,4) by simp
  ultimately show ?thesis by blast
qed

end
