(* ===== verification/P256_Reduce.thy ===== *)
theory P256_Reduce
  imports P256_Split P256_Bounds
begin

text \<open>
  The last phase of \<open>felem_reduce_degree\<close>, copying the upper limbs down with carries, and the three phases
  together: the result is the Montgomery reduction of the words.
\<close>

section \<open>Copying down\<close>

definition copy_inv :: "int list \<Rightarrow> nat \<Rightarrow> limb list \<times> limb \<Rightarrow> bool" where
  "copy_inv ts i = (\<lambda>(out, carry). length out = i \<and> uint carry < 16 \<and> (\<forall>j < i. uint (out ! j) < 2 ^ limb_bits j) \<and>
     lsum 0 (map uint out) + 2 ^ lbits 0 i * uint carry = lsum (Suc 0) (take i (drop 9 ts)) \<and>
     0 \<le> ts ! (i + 9) + uint carry)"

lemma lbits_parity [simp]: "lbits (Suc (Suc i)) n = lbits i n"
  by (induction n arbitrary: i) simp_all

lemma lbits_even: "even i \<Longrightarrow> lbits (Suc 0) i = lbits 0 i"
proof (induction i rule: nat_induct2)
  case (step n)
  then show ?case by (simp add: lbits_Suc limb_bits_def del: lbits.simps)
qed simp_all

lemma take2_drop:
  assumes "i + 11 \<le> length ts"
  shows "take (i + 2) (drop 9 ts) = take i (drop 9 ts) @ [ts ! (i + 9), ts ! (i + 10)]"
proof -
  have "take (Suc (Suc i)) (drop 9 ts) = take i (drop 9 ts) @ [drop 9 ts ! i] @ [drop 9 ts ! Suc i]"
    using assms by (simp add: take_Suc_conv_app_nth)
  then show ?thesis using assms by (simp add: add.commute)
qed

lemma copy_step_inv:
  assumes "copy_inv ts i s" "length ts = 18" "even i" "i < 8"
    and "ts ! (i + 9) < 2 ^ 31" "0 \<le> ts ! (i + 10)" "ts ! (i + 10) < 2 ^ 32" "0 \<le> 2 ^ 29 * ts ! (i + 11) + ts ! (i + 10)"
  shows "copy_inv ts (i + 2) (degree_copy_step (map of_int ts) i s)"
proof -
  obtain out carry where s: "s = (out, carry)" by fastforce
  define T T' C where "T = ts ! (i + 9)" and "T' = ts ! (i + 10)" and "C = uint carry"
  have I: "length out = i" "C < 16" "\<forall>j < i. uint (out ! j) < 2 ^ limb_bits j"
    "lsum 0 (map uint out) + 2 ^ lbits 0 i * C = lsum (Suc 0) (take i (drop 9 ts))" "0 \<le> T + C"
    using assms(1) by (simp_all add: copy_inv_def s T_def C_def)
  have T: "T < 2147483648" "0 \<le> T'" "T' < 2 ^ 32" using assms(5-7) by (simp_all add: T_def T'_def)
  define h t where "h = (T' * 2 ^ 28) mod 2 ^ 29" and "t = T' div 2 ^ 1"
  have ht: "h + 2 ^ 29 * t = T' * 2 ^ 28" unfolding h_def t_def by (rule split_mul) simp
  have h: "0 \<le> h" "h \<le> 536870911" using mod_range [of "T' * 2 ^ 28" 29] by (simp_all add: h_def)
  have t: "0 \<le> t" "t \<le> 2147483647" using div_range [of T' 1 "2 ^ 31"] T by (simp_all add: t_def)
  define v where "v = of_int T + carry + (push_bit 28 (of_int T' :: u32) AND kBottom29Bits)"
  have "v = of_int (T + C + h)"
    unfolding v_def bottom_masks push_bit_of_int and_mask_of_int [of 29, simplified] h_def C_def by simp
  then have v: "uint v = T + C + h" using I(2,5) T(1) h by (simp add: uint_of_int_id del: of_int_add)
  define vm vd where "vm = uint v mod 2 ^ 29" and "vd = uint v div 2 ^ 29"
  have vq: "vm + 2 ^ 29 * vd = uint v" by (simp add: vm_def vd_def)
  have vd: "0 \<le> vd" "vd \<le> 7" using div_range [of "uint v" 29 8] uint_lt2p [of v] by (simp_all add: vd_def)
  define w where "w = drop_bit 1 (of_int T' :: u32) + drop_bit 29 v"
  have w: "uint w = t + vd"
  proof -
    have "uint (drop_bit 1 (of_int T' :: u32)) = t" "uint (drop_bit 29 v) = vd"
      unfolding uint_drop_bit_u32 uint_of_int_id [OF T(2,3)] t_def vd_def by simp_all
    then show ?thesis unfolding w_def using t vd uint_add_small [of "drop_bit 1 (of_int T' :: u32)" "drop_bit 29 v"] by simp
  qed
  define wm wd where "wm = uint w mod 2 ^ 28" and "wd = uint w div 2 ^ 28"
  have wq: "wm + 2 ^ 28 * wd = uint w" by (simp add: wm_def wd_def)
  have wd: "0 \<le> wd" "wd \<le> 15" using div_range [of "uint w" 28 16] uint_lt2p [of w] by (simp_all add: wd_def)
  have r: "degree_copy_step (map of_int ts) i s = (out @ [v AND kBottom29Bits, w AND kBottom28Bits], drop_bit 28 w)"
    using assms(2,4) by (simp add: degree_copy_step_def s Let_def v_def w_def T_def T'_def add.commute [of 10] Suc_eq_plus1 [symmetric])
  have u: "uint (v AND kBottom29Bits) = vm" "uint (w AND kBottom28Bits) = wm" "uint (drop_bit 28 w) = wd"
    by (simp_all add: bottom_masks uint_and_mask_u32 uint_drop_bit_u32 vm_def wm_def wd_def)
  have l: "length (out @ [v AND kBottom29Bits, w AND kBottom28Bits]) = i + 2" using I(1) by simp
  have b: "\<forall>j < i + 2. uint ((out @ [v AND kBottom29Bits, w AND kBottom28Bits]) ! j) < 2 ^ limb_bits j"
  proof (intro allI impI)
    fix j assume "j < i + 2"
    then consider "j < i" | "j = i" | "j = Suc i" by linarith
    then show "uint ((out @ [v AND kBottom29Bits, w AND kBottom28Bits]) ! j) < 2 ^ limb_bits j"
      using I(1,3) assms(3) u by cases (simp_all add: nth_append limb_bits_def vm_def wm_def)
  qed
  have "T + C + h + 2 ^ 29 * t = T + C + 2 ^ 28 * T'" using ht by simp
  then have e: "vm + 2 ^ 29 * (wm + 2 ^ 28 * wd) = T + C + 2 ^ 28 * T'" using vq wq v w by simp
  have "lsum 0 (map uint (out @ [v AND kBottom29Bits, w AND kBottom28Bits])) + 2 ^ lbits 0 (i + 2) * wd =
      lsum 0 (map uint out) + 2 ^ lbits 0 i * (vm + 2 ^ 29 * (wm + 2 ^ 28 * wd))"
    using I(1) u assms(3) by (simp add: lsum_append lbits_Suc limb_bits_def power_add algebra_simps)
  also have "\<dots> = lsum (Suc 0) (take i (drop 9 ts)) + 2 ^ lbits 0 i * (T + 2 ^ 28 * T')"
    unfolding e I(4) [symmetric] by (simp add: algebra_simps)
  also have "\<dots> = lsum (Suc 0) (take (i + 2) (drop 9 ts))"
  proof -
    have t: "take (i + 2) (drop 9 ts) = take i (drop 9 ts) @ [T, T']"
      unfolding T_def T'_def using assms(2,4) by (intro take2_drop) simp
    show ?thesis
      unfolding t lsum_append using assms(2-4) lsum_odd [of "Suc i" "[T, T']"] lbits_even [of i]
      by (simp add: limb_bits_def)
  qed
  finally have val: "lsum 0 (map uint (out @ [v AND kBottom29Bits, w AND kBottom28Bits])) + 2 ^ lbits 0 (i + 2) * wd =
      lsum (Suc 0) (take (i + 2) (drop 9 ts))" .
  have "0 \<le> ts ! (i + 11) + wd"
  proof -
    have "t div 2 ^ 28 \<le> wd" unfolding wd_def w using vd by (intro zdiv_mono1) simp_all
    moreover have "t div 2 ^ 28 = T' div 2 ^ 29" unfolding t_def by (simp add: zdiv_zmult2_eq [symmetric])
    moreover have "0 \<le> (T' + 2 ^ 29 * ts ! (i + 11)) div 2 ^ 29"
      using assms(8) by (simp add: pos_imp_zdiv_nonneg_iff T'_def add.commute)
    ultimately show ?thesis by simp
  qed
  then show ?thesis unfolding r copy_inv_def using l b val u(3) wd(2) by (simp add: add.commute [of 2] add.commute [of 11])
qed

lemma end_bounds:
  assumes "elim_inv 11 end_lo end_hi V ts"
  shows "length ts = 18" "i < 9 \<Longrightarrow> ts ! i = 0"
    and "even i \<Longrightarrow> i < 8 \<Longrightarrow> ts ! (i + 9) < 2 ^ 31"
    and "even i \<Longrightarrow> i < 8 \<Longrightarrow> 0 \<le> ts ! (i + 10)" "even i \<Longrightarrow> i < 8 \<Longrightarrow> ts ! (i + 10) < 2 ^ 32"
    and "even i \<Longrightarrow> i < 8 \<Longrightarrow> 0 \<le> 2 ^ 29 * ts ! (i + 11) + ts ! (i + 10)"
    and "ts ! 17 < 2 ^ 32 - 16"
proof -
  show len: "length ts = 18" using assms by (simp add: elim_inv_def)
  note n = elim_inv_nth [OF assms]
  have "\<forall>i < 9. end_lo ! i = 0 \<and> end_hi ! i = 0" unfolding all_less_9 by (simp add: end_lo_def end_hi_def)
  then show "i < 9 \<Longrightarrow> ts ! i = 0" using n [of i] by fastforce
  have ev: "i = 0 \<or> i = 2 \<or> i = 4 \<or> i = 6" if "even i" "i < 8" using that by presburger
  have c: "end_hi ! (i + 9) < 2 ^ 31 \<and> 0 \<le> end_lo ! (i + 10) \<and> end_hi ! (i + 10) < 2 ^ 32" if "even i" "i < 8"
    using ev [OF that] by (elim disjE) (simp_all add: end_lo_def end_hi_def)
  show "ts ! (i + 9) < 2 ^ 31" "0 \<le> ts ! (i + 10)" "ts ! (i + 10) < 2 ^ 32" if "even i" "i < 8"
    using c [OF that] n [of "i + 9"] n [of "i + 10"] that by linarith+
  show "0 \<le> 2 ^ 29 * ts ! (i + 11) + ts ! (i + 10)" if "even i" "i < 8"
  proof -
    have "odd (i + 11)" "11 \<le> i + 11" "i + 11 < 18" using that ev by auto
    then have "0 \<le> 2 ^ 29 * ts ! (i + 11) + ts ! (i + 11 - 1)" using assms unfolding elim_inv_def pairs_def by blast
    then show ?thesis by (simp add: add.commute [of 10])
  qed
  show "ts ! 17 < 2 ^ 32 - 16" using n(2) [of 17] by (simp add: end_hi_def)
qed

lemma copy_fold:
  assumes "elim_inv 11 end_lo end_hi V ts" "0 \<le> ts ! 9"
  shows "copy_inv ts 8 (fold (degree_copy_step (map of_int ts)) [0, 2, 4, 6] ([], 0))"
proof -
  note e = end_bounds [OF assms(1)]
  note st = copy_step_inv [OF _ e(1) _ _ e(3-6)]
  have "copy_inv ts 0 ([], 0)" using assms(2) by (simp add: copy_inv_def)
  from st [OF this] have "copy_inv ts 2 (degree_copy_step (map of_int ts) 0 ([], 0))" by (simp add: numeral_2_eq_2)
  from st [OF this] have "copy_inv ts 4 (degree_copy_step (map of_int ts) 2 (degree_copy_step (map of_int ts) 0 ([], 0)))" by simp
  from st [OF this] have "copy_inv ts 6 (degree_copy_step (map of_int ts) 4 (degree_copy_step (map of_int ts) 2
    (degree_copy_step (map of_int ts) 0 ([], 0))))" by simp
  from st [OF this] show ?thesis by simp
qed

lemma lbits8: "lbits 0 8 = 228"
proof -
  have "lbits 0 9 = lbits 0 8 + limb_bits 8" using lbits_Suc [of 0 8] by simp
  then show ?thesis by (simp add: lbits_9)
qed

lemma lsum_zeros [simp]: "lsum i (replicate n 0) = 0"
  by (induction n arbitrary: i) simp_all

lemma degree_copy_val:
  assumes "elim_inv 11 end_lo end_hi V ts" "0 \<le> ts ! 9"
  shows "felem_ok (degree_copy (map of_int ts))" and "\<exists>k. 2 ^ 257 * fval (degree_copy (map of_int ts)) = V + k * fp"
proof -
  note e = end_bounds [OF assms(1)]
  obtain out carry where f: "fold (degree_copy_step (map of_int ts)) [0, 2, 4, 6] ([], 0) = (out, carry)" by fastforce
  have I: "length out = 8" "uint carry < 16" "\<forall>j < 8. uint (out ! j) < 2 ^ limb_bits j"
    "lsum 0 (map uint out) + 2 ^ lbits 0 8 * uint carry = lsum (Suc 0) (take 8 (drop 9 ts))" "0 \<le> ts ! 17 + uint carry"
    using copy_fold [OF assms] unfolding f copy_inv_def split_conv by simp_all
  define v where "v = (map of_int ts ! 17 :: u32) + carry"
  have "v = of_int (ts ! 17 + uint carry)" using e(1) by (simp add: v_def)
  then have v: "uint v = ts ! 17 + uint carry" using I(2,5) e(7) by (simp add: uint_of_int_id del: of_int_add)
  define m c where "m = uint v mod 2 ^ 29" and "c = uint v div 2 ^ 29"
  have q: "m + 2 ^ 29 * c = uint v" "m < 2 ^ 29" by (simp_all add: m_def c_def)
  have c: "c \<le> 7" using div_range [of "uint v" 29 8] uint_lt2p [of v] by (simp add: c_def)
  have u: "uint (v AND kBottom29Bits) = m" "uint (drop_bit 29 v) = c"
    by (simp_all add: bottom_masks uint_and_mask_u32 uint_drop_bit_u32 m_def c_def)
  have r: "degree_copy (map of_int ts) = felem_reduce_carry (out @ [v AND kBottom29Bits]) (drop_bit 29 v)"
    unfolding degree_copy_def f Let_def split_conv v_def ..
  have l: "length (out @ [v AND kBottom29Bits]) = 9" using I(1) by simp
  have b: "\<forall>j < 9. uint ((out @ [v AND kBottom29Bits]) ! j) < 2 ^ limb_bits j"
  proof (intro allI impI)
    fix j :: nat assume "j < 9"
    then consider "j < 8" | "j = 8" by linarith
    then show "uint ((out @ [v AND kBottom29Bits]) ! j) < 2 ^ limb_bits j"
      using I(1,3) u(1) q(2) by cases (simp_all add: nth_append)
  qed
  note rc = felem_reduce_carry_val [OF l b, of "drop_bit 29 v"]
  show "felem_ok (degree_copy (map of_int ts))" unfolding r using rc(2) c u(2) by simp
  have "fval (degree_copy (map of_int ts)) = fval (out @ [v AND kBottom29Bits]) + c * (2 ^ 257 - 2 * fp)"
    unfolding r using rc(1) c u(2) by simp
  also have "\<dots> = lsum 0 (map uint out) + 2 ^ lbits 0 8 * (m + 2 ^ 29 * c) - 2 * c * fp"
    using I(1) u(1) by (simp add: fval_def lsum_append lbits8) (simp add: algebra_simps)
  also have "lsum 0 (map uint out) + 2 ^ lbits 0 8 * (m + 2 ^ 29 * c) = lsum (Suc 0) (drop 9 ts)"
  proof -
    have "drop 9 ts = take 8 (drop 9 ts) @ [ts ! 17]"
      using e(1) take_Suc_conv_app_nth [of 8 "drop 9 ts"] by simp
    then have "lsum (Suc 0) (drop 9 ts) = lsum (Suc 0) (take 8 (drop 9 ts)) + 2 ^ lbits 0 8 * ts ! 17"
      using lsum_append [of "Suc 0" "take 8 (drop 9 ts)" "[ts ! 17]"] e(1) lbits_even [of 8] by simp
    then show ?thesis using I(4) q(1) v by (simp add: algebra_simps)
  qed
  finally have F: "fval (degree_copy (map of_int ts)) = lsum (Suc 0) (drop 9 ts) - 2 * c * fp" .
  have "2 ^ 257 * lsum (Suc 0) (drop 9 ts) = lsum 0 ts"
  proof -
    have "take 9 ts = replicate 9 0" using e(1,2) by (intro nth_equalityI) simp_all
    then show ?thesis
      using lsum_append [of 0 "take 9 ts" "drop 9 ts", unfolded append_take_drop_id] e(1) lsum_odd [of 9 "drop 9 ts"]
      by (simp add: lbits_9 lsum_zeros)
  qed
  then have "2 ^ 257 * fval (degree_copy (map of_int ts)) = lsum 0 ts + (- (2 ^ 257 * 2 * c)) * fp"
    unfolding F by (simp add: algebra_simps)
  moreover obtain k where "lsum 0 ts = V + k * fp" using assms(1) by (auto simp: elim_inv_def)
  ultimately have "2 ^ 257 * fval (degree_copy (map of_int ts)) = V + (k - 2 ^ 257 * 2 * c) * fp" by (simp add: algebra_simps)
  then show "\<exists>k. 2 ^ 257 * fval (degree_copy (map of_int ts)) = V + k * fp" ..
qed

lemma felem_reduce_degree_val:
  assumes "length tmp = 17" "uint (tmp ! 16) < 2 ^ 60"
  shows "felem_ok (felem_reduce_degree tmp)"
    and "\<exists>k. 2 ^ 257 * fval (felem_reduce_degree tmp) = lsum 0 (map uint tmp) + k * fp"
proof -
  note sp = degree_split_val [OF assms]
  define ts where "ts = map uint (degree_split tmp)"
  have t: "degree_split tmp = map of_int ts" by (simp add: ts_def comp_def)
  have len: "length ts = 18" using sp(1) by (simp add: ts_def)
  have "within (replicate 18 0) start_hi ts"
    unfolding within_def
  proof (intro conjI allI impI)
    show "length (replicate 18 0 :: int list) = length ts" "length start_hi = length ts" using len by (simp_all add: start_hi_def)
    fix j assume j: "j < length ts"
    then show "replicate 18 0 ! j \<le> ts ! j" using sp(1) by (simp add: ts_def)
    have sh: "start_hi = map (\<lambda>j. if j = 17 then 2 ^ 31 + 2 ^ 8 else 2 ^ limb_bits j - 1) [0..<18]"
      by (simp add: start_hi_def upt_rec limb_bits_def)
    have "start_hi ! j = (if j = 17 then 2 ^ 31 + 2 ^ 8 else 2 ^ limb_bits j - 1)"
      unfolding sh using j len by simp
    moreover have "j < 17 \<or> j = 17" using j len by linarith
    ultimately show "ts ! j \<le> start_hi ! j" using sp(1,3,4) by (auto simp: ts_def)
  qed
  from degree_eliminate_val [OF len this] obtain ts' where e:
    "degree_eliminate (map of_int ts) = map of_int ts'" "0 \<le> ts' ! 9" "elim_inv 11 end_lo end_hi (lsum 0 ts) ts'" by blast
  have "lsum 0 ts = lsum 0 (map uint tmp)" using sp(2) by (simp add: ts_def)
  then show "felem_ok (felem_reduce_degree tmp)"
    "\<exists>k. 2 ^ 257 * fval (felem_reduce_degree tmp) = lsum 0 (map uint tmp) + k * fp"
    unfolding felem_reduce_degree_def t e(1) using degree_copy_val [OF e(3,2)] by simp_all
qed

end
