(* ===== verification/P256_Product.thy ===== *)
theory P256_Product
  imports P256_Limbs
begin

text \<open>
  The words \<open>felem_square\<close> and \<open>felem_mul\<close> hand to the reduction: no sum overflows 64 bits, and together they
  are the product of the two elements.
\<close>

section \<open>Products\<close>

lemma uint_add_u64: "uint (x :: u64) + uint y < 2 ^ 64 \<Longrightarrow> uint (x + y) = uint x + uint y"
  by (rule iffD1 [OF uint_add_lem]) simp

lemma uint_sum_list:
  assumes "\<forall>w \<in> set ws. uint (w :: u64) < B" "int (length ws) * B \<le> 2 ^ 64" "0 < B"
  shows "uint (sum_list ws) = sum_list (map uint ws) \<and> sum_list (map uint ws) \<le> int (length ws) * (B - 1)"
  using assms
proof (induction ws)
  case (Cons w ws)
  have IH: "uint (sum_list ws) = sum_list (map uint ws)" "sum_list (map uint ws) \<le> int (length ws) * (B - 1)"
    using Cons by (simp_all add: algebra_simps)
  have w: "uint w \<le> B - 1" using Cons.prems(1) by simp
  have "uint w + uint (sum_list ws) < 2 ^ 64"
    using IH w Cons.prems(2,3) by (simp add: algebra_simps)
  then show ?case using IH w by (simp add: uint_add_u64 algebra_simps)
qed simp

lemma uint_mul_limbs: "uint (ucast (x :: u32) * ucast (y :: u32) :: u64) = uint x * uint y"
proof -
  have "uint x * uint y < 2 ^ 32 * 2 ^ 32"
    using uint_lt2p [of x] uint_lt2p [of y] by (intro mult_strict_mono) simp_all
  moreover have c: "uint (ucast z :: u64) = uint z" for z :: u32
    unfolding uint_nat unat_ucast_32_64 ..
  ultimately have "uint (ucast x :: u64) * uint (ucast y :: u64) < 2 ^ 64" by simp
  then show ?thesis using iffD1 [OF uint_mult_lem, of "ucast x :: u64" "ucast y"] by (simp add: c)
qed

lemma mul_limbs_less:
  assumes "uint x < 2 ^ a" "uint y < 2 ^ b"
  shows "uint (ucast (x :: u32) * ucast (y :: u32) :: u64) < 2 ^ (a + b)"
  unfolding uint_mul_limbs power_add using assms by (intro mult_strict_mono) simp_all

lemma uint_push_limb: "uint (x :: u32) * 2 ^ n < 2 ^ 32 \<Longrightarrow> uint (push_bit n x) = uint x * 2 ^ n"
  using push_bit_of_int [of n "uint x"] uint_of_int_id [of "uint x * 2 ^ n"] by simp

definition tm :: "u32 \<Rightarrow> u32 \<Rightarrow> u64" where
  "tm x y = ucast x * ucast y"

definition mul_terms :: "felem \<Rightarrow> felem \<Rightarrow> u64 list list" where
  "mul_terms a b =
     [[tm (a ! 0) (b ! 0)],
      [tm (a ! 0) (b ! 1), tm (a ! 1) (b ! 0)],
      [tm (a ! 0) (b ! 2), tm (a ! 1) (b ! 1 * 2), tm (a ! 2) (b ! 0)],
      [tm (a ! 0) (b ! 3), tm (a ! 1) (b ! 2), tm (a ! 2) (b ! 1), tm (a ! 3) (b ! 0)],
      [tm (a ! 0) (b ! 4), tm (a ! 1) (b ! 3 * 2), tm (a ! 2) (b ! 2), tm (a ! 3) (b ! 1 * 2), tm (a ! 4) (b ! 0)],
      [tm (a ! 0) (b ! 5), tm (a ! 1) (b ! 4), tm (a ! 2) (b ! 3), tm (a ! 3) (b ! 2), tm (a ! 4) (b ! 1),
        tm (a ! 5) (b ! 0)],
      [tm (a ! 0) (b ! 6), tm (a ! 1) (b ! 5 * 2), tm (a ! 2) (b ! 4), tm (a ! 3) (b ! 3 * 2), tm (a ! 4) (b ! 2),
        tm (a ! 5) (b ! 1 * 2), tm (a ! 6) (b ! 0)],
      [tm (a ! 0) (b ! 7), tm (a ! 1) (b ! 6), tm (a ! 2) (b ! 5), tm (a ! 3) (b ! 4), tm (a ! 4) (b ! 3),
        tm (a ! 5) (b ! 2), tm (a ! 6) (b ! 1), tm (a ! 7) (b ! 0)],
      [tm (a ! 0) (b ! 8), tm (a ! 1) (b ! 7 * 2), tm (a ! 2) (b ! 6), tm (a ! 3) (b ! 5 * 2), tm (a ! 4) (b ! 4),
        tm (a ! 5) (b ! 3 * 2), tm (a ! 6) (b ! 2), tm (a ! 7) (b ! 1 * 2), tm (a ! 8) (b ! 0)],
      [tm (a ! 1) (b ! 8), tm (a ! 2) (b ! 7), tm (a ! 3) (b ! 6), tm (a ! 4) (b ! 5), tm (a ! 5) (b ! 4),
        tm (a ! 6) (b ! 3), tm (a ! 7) (b ! 2), tm (a ! 8) (b ! 1)],
      [tm (a ! 2) (b ! 8), tm (a ! 3) (b ! 7 * 2), tm (a ! 4) (b ! 6), tm (a ! 5) (b ! 5 * 2), tm (a ! 6) (b ! 4),
        tm (a ! 7) (b ! 3 * 2), tm (a ! 8) (b ! 2)],
      [tm (a ! 3) (b ! 8), tm (a ! 4) (b ! 7), tm (a ! 5) (b ! 6), tm (a ! 6) (b ! 5), tm (a ! 7) (b ! 4),
        tm (a ! 8) (b ! 3)],
      [tm (a ! 4) (b ! 8), tm (a ! 5) (b ! 7 * 2), tm (a ! 6) (b ! 6), tm (a ! 7) (b ! 5 * 2), tm (a ! 8) (b ! 4)],
      [tm (a ! 5) (b ! 8), tm (a ! 6) (b ! 7), tm (a ! 7) (b ! 6), tm (a ! 8) (b ! 5)],
      [tm (a ! 6) (b ! 8), tm (a ! 7) (b ! 7 * 2), tm (a ! 8) (b ! 6)],
      [tm (a ! 7) (b ! 8), tm (a ! 8) (b ! 7)],
      [tm (a ! 8) (b ! 8)]]"

lemma mul_words_terms: "mul_words a b = map sum_list (mul_terms a b)"
  by (simp add: mul_words_def mul_terms_def tm_def add.assoc push_bit_eq_mult)

definition square_terms :: "felem \<Rightarrow> u64 list list" where
  "square_terms a =
     [[tm (a ! 0) (a ! 0)],
      [tm (a ! 0) (a ! 1 * 2)],
      [tm (a ! 0) (a ! 2 * 2), tm (a ! 1) (a ! 1 * 2)],
      [tm (a ! 0) (a ! 3 * 2), tm (a ! 1) (a ! 2 * 2)],
      [tm (a ! 0) (a ! 4 * 2), tm (a ! 1) (a ! 3 * 4), tm (a ! 2) (a ! 2)],
      [tm (a ! 0) (a ! 5 * 2), tm (a ! 1) (a ! 4 * 2), tm (a ! 2) (a ! 3 * 2)],
      [tm (a ! 0) (a ! 6 * 2), tm (a ! 1) (a ! 5 * 4), tm (a ! 2) (a ! 4 * 2), tm (a ! 3) (a ! 3 * 2)],
      [tm (a ! 0) (a ! 7 * 2), tm (a ! 1) (a ! 6 * 2), tm (a ! 2) (a ! 5 * 2), tm (a ! 3) (a ! 4 * 2)],
      [tm (a ! 0) (a ! 8 * 2), tm (a ! 1) (a ! 7 * 4), tm (a ! 2) (a ! 6 * 2), tm (a ! 3) (a ! 5 * 4),
        tm (a ! 4) (a ! 4)],
      [tm (a ! 1) (a ! 8 * 2), tm (a ! 2) (a ! 7 * 2), tm (a ! 3) (a ! 6 * 2), tm (a ! 4) (a ! 5 * 2)],
      [tm (a ! 2) (a ! 8 * 2), tm (a ! 3) (a ! 7 * 4), tm (a ! 4) (a ! 6 * 2), tm (a ! 5) (a ! 5 * 2)],
      [tm (a ! 3) (a ! 8 * 2), tm (a ! 4) (a ! 7 * 2), tm (a ! 5) (a ! 6 * 2)],
      [tm (a ! 4) (a ! 8 * 2), tm (a ! 5) (a ! 7 * 4), tm (a ! 6) (a ! 6)],
      [tm (a ! 5) (a ! 8 * 2), tm (a ! 6) (a ! 7 * 2)],
      [tm (a ! 6) (a ! 8 * 2), tm (a ! 7) (a ! 7 * 2)],
      [tm (a ! 7) (a ! 8 * 2)],
      [tm (a ! 8) (a ! 8)]]"

lemma square_words_terms: "square_words a = map sum_list (square_terms a)"
  by (simp add: square_words_def square_terms_def tm_def add.assoc push_bit_eq_mult)

lemma uint_double: "uint (x :: u32) < 2 ^ 31 \<Longrightarrow> uint (x * 2) = uint x * 2"
  using uint_push_limb [of x 1] by (simp add: push_bit_eq_mult)

lemma uint_quadruple: "uint (x :: u32) < 2 ^ 30 \<Longrightarrow> uint (x * 4) = uint x * 4"
  using uint_push_limb [of x 2] by (simp add: push_bit_eq_mult)

lemma map_sum_list:
  assumes "list_all (\<lambda>ts. list_all (\<lambda>w. uint (w :: u64) < B) ts \<and> int (length ts) * B \<le> 2 ^ 64) tss" "0 < B"
  shows "map uint (map sum_list tss) = map (\<lambda>ts. sum_list (map uint ts)) tss"
  using assms uint_sum_list [of _ B] by (simp add: list_all_iff)

lemma mul_words_val:
  assumes "felem_ok a" "felem_ok b"
  shows "lsum 0 (map uint (mul_words a b)) = fval a * fval b" and "uint (mul_words a b ! 16) < 2 ^ 60" "length (mul_words a b) = 17"
proof -
  show "length (mul_words a b) = 17" by (simp add: mul_words_def)
  obtain a0 a1 a2 a3 a4 a5 a6 a7 a8 where a: "a = [a0, a1, a2, a3, a4, a5, a6, a7, a8]"
    using felem_list_ex [OF felem_okD(1) [OF assms(1)]] by blast
  obtain b0 b1 b2 b3 b4 b5 b6 b7 b8 where b: "b = [b0, b1, b2, b3, b4, b5, b6, b7, b8]"
    using felem_list_ex [OF felem_okD(1) [OF assms(2)]] by blast
  have A: "uint a0 < 2 ^ 30" "uint a1 < 2 ^ 30" "uint a2 < 2 ^ 30" "uint a3 < 2 ^ 30" "uint a4 < 2 ^ 30" "uint a5 < 2 ^ 30"
    "uint a6 < 2 ^ 30" "uint a7 < 2 ^ 30" "uint a8 < 2 ^ 30"
    using assms(1) unfolding a felem_ok_list by simp_all
  have B: "uint b0 < 2 ^ 30" "uint b2 < 2 ^ 30" "uint b4 < 2 ^ 30" "uint b6 < 2 ^ 30" "uint b8 < 2 ^ 30"
    "uint b1 < 2 ^ 30" "uint b3 < 2 ^ 30" "uint b5 < 2 ^ 30" "uint b7 < 2 ^ 30"
    using assms(2) unfolding b felem_ok_list by simp_all
  have P: "uint (b1 * 2) = uint b1 * 2" "uint (b3 * 2) = uint b3 * 2" "uint (b5 * 2) = uint b5 * 2" "uint (b7 * 2) = uint b7 * 2"
    using B by (intro uint_double; simp)+
  have Q: "uint (b1 * 2) < 2 ^ 30" "uint (b3 * 2) < 2 ^ 30" "uint (b5 * 2) < 2 ^ 30" "uint (b7 * 2) < 2 ^ 30"
    unfolding P using assms(2) unfolding b felem_ok_list by simp_all
  have less: "uint (tm x y) < 2 ^ 60" if "uint x < 2 ^ 30" "uint y < 2 ^ 30" for x y
    using mul_limbs_less [OF that] by (simp add: tm_def)
  have "list_all (\<lambda>ts. list_all (\<lambda>w. uint w < 2 ^ 60) ts \<and> int (length ts) * 2 ^ 60 \<le> 2 ^ 64) (mul_terms a b)"
    unfolding a b mul_terms_def using A B Q by (simp add: less [simplified])
  from map_sum_list [OF this] have w: "map uint (mul_words a b) = map (\<lambda>ts. sum_list (map uint ts)) (mul_terms a b)"
    by (simp add: mul_words_terms)
  have m: "uint (tm x y) = uint x * uint y" for x y by (simp add: tm_def uint_mul_limbs)
  show "lsum 0 (map uint (mul_words a b)) = fval a * fval b"
    unfolding w unfolding a b mul_terms_def fval_def
    by (simp add: m P) (simp add: algebra_simps)
  show "uint (mul_words a b ! 16) < 2 ^ 60"
    using less [OF A(9) B(5)] by (simp add: mul_words_def a b tm_def)
qed

lemma square_words_val:
  assumes "felem_ok a"
  shows "lsum 0 (map uint (square_words a)) = fval a * fval a" and "uint (square_words a ! 16) < 2 ^ 60" "length (square_words a) = 17"
proof -
  show "length (square_words a) = 17" by (simp add: square_words_def)
  obtain a0 a1 a2 a3 a4 a5 a6 a7 a8 where a: "a = [a0, a1, a2, a3, a4, a5, a6, a7, a8]"
    using felem_list_ex [OF felem_okD(1) [OF assms]] by blast
  have A: "uint a0 < 2 ^ 30" "uint a1 < 2 ^ 29" "uint a2 < 2 ^ 30" "uint a3 < 2 ^ 29" "uint a4 < 2 ^ 30" "uint a5 < 2 ^ 29"
    "uint a6 < 2 ^ 30" "uint a7 < 2 ^ 29" "uint a8 < 2 ^ 29"
    using assms unfolding a felem_ok_list by simp_all
  have P: "uint (a1 * 2) = uint a1 * 2" "uint (a2 * 2) = uint a2 * 2" "uint (a3 * 2) = uint a3 * 2" "uint (a4 * 2) = uint a4 * 2"
    "uint (a5 * 2) = uint a5 * 2" "uint (a6 * 2) = uint a6 * 2" "uint (a7 * 2) = uint a7 * 2" "uint (a8 * 2) = uint a8 * 2"
    using A by (intro uint_double; simp)+
  have F: "uint (a3 * 4) = uint a3 * 4" "uint (a5 * 4) = uint a5 * 4" "uint (a7 * 4) = uint a7 * 4"
    using A by (intro uint_quadruple; simp)+
  have less: "uint (tm x y) < 2 ^ 61" if "uint x < 2 ^ 30" "uint y < 2 ^ 31" for x y
    using mul_limbs_less [OF that] by (simp add: tm_def)
  have "list_all (\<lambda>ts. list_all (\<lambda>w. uint w < 2 ^ 61) ts \<and> int (length ts) * 2 ^ 61 \<le> 2 ^ 64) (square_terms a)"
    unfolding a square_terms_def using A by (simp add: less [simplified] P F)
  from map_sum_list [OF this] have w: "map uint (square_words a) = map (\<lambda>ts. sum_list (map uint ts)) (square_terms a)"
    by (simp add: square_words_terms)
  have m: "uint (tm x y) = uint x * uint y" for x y by (simp add: tm_def uint_mul_limbs)
  show "lsum 0 (map uint (square_words a)) = fval a * fval a"
    unfolding w unfolding a square_terms_def fval_def
    by (simp add: m P F) (simp add: algebra_simps)
  show "uint (square_words a ! 16) < 2 ^ 60"
    using mul_limbs_less [OF A(9,9)] by (simp add: square_words_def a)
qed

end
