(* ===== verification/P256_Felem.thy ===== *)
theory P256_Felem
  imports P256_Reduce P256_Product Montgomery
begin

text \<open>
  The field operations as operations on residues: an element \<open>x\<close> stands for \<open>fel x\<close>, its value divided by
  \<open>R = 2 ^ 257\<close> modulo the prime, and every operation of \<open>p256_ec.c\<close> computes the residue its name says.
\<close>

section \<open>Residues\<close>

definition Rinv :: int where
  "Rinv = 57896044591698151057189056178258047911630868495293109806277698083255169843200"

lemma Rinv: "2 ^ 257 * Rinv = 115792089210356248768974548684794254293921932838497980611635986753331132366849 * fp + 1"
  by (simp add: Rinv_def fp_def)

lemma felem_mul_ok: "felem_ok a \<Longrightarrow> felem_ok b \<Longrightarrow> felem_ok (felem_mul a b)"
  using felem_reduce_degree_val(1) [OF mul_words_val(3,2)] by (simp add: felem_mul_def)

lemma felem_square_ok: "felem_ok a \<Longrightarrow> felem_ok (felem_square a)"
  using felem_reduce_degree_val(1) [OF square_words_val(3,2)] by (simp add: felem_square_def)

lemma felem_mul_val:
  assumes "felem_ok a" "felem_ok b"
  shows "(2 ^ 257 * fval (felem_mul a b)) mod fp = (fval a * fval b) mod fp"
proof -
  obtain k where "2 ^ 257 * fval (felem_mul a b) = fval a * fval b + k * fp"
    using felem_reduce_degree_val(2) [OF mul_words_val(3,2) [OF assms]] mul_words_val(1) [OF assms] by (auto simp: felem_mul_def)
  then show ?thesis by (simp only: mod_mult_self1)
qed

lemma felem_square_val:
  assumes "felem_ok a"
  shows "(2 ^ 257 * fval (felem_square a)) mod fp = (fval a * fval a) mod fp"
proof -
  obtain k where "2 ^ 257 * fval (felem_square a) = fval a * fval a + k * fp"
    using felem_reduce_degree_val(2) [OF square_words_val(3,2) [OF assms]] square_words_val(1) [OF assms] by (auto simp: felem_square_def)
  then show ?thesis by (simp only: mod_mult_self1)
qed

interpretation p256: montgomery_field "\<lambda>_ :: unit. True" "\<lambda>_. fp" "\<lambda>_. 2 ^ 257" "\<lambda>_. felem_ok" fval "\<lambda>_. felem_mul"
  "\<lambda>_. Rinv" "\<lambda>_. felem_sum" "\<lambda>_. felem_diff" "\<lambda>_. felem_square"
proof
  have "odd fp" by (simp add: fp_def)
  then have "coprime (2 :: int) fp" by (simp add: coprime_left_2_iff_odd)
  then show "coprime (2 ^ 257) fp" by (simp only: coprime_power_left_iff simp_thms)
  show "(2 ^ 257 * Rinv) mod fp = 1 mod fp" unfolding Rinv by (simp add: algebra_simps)
  fix a b assume ab: "felem_ok a" "felem_ok b"
  show "fval (felem_sum a b) mod fp = (fval a + fval b) mod fp"
    using felem_sum_val(2) [OF ab] by (auto simp: mod_diff_right_eq [symmetric])
  obtain k where "fval (felem_diff a b) = fval a - fval b + 2 * k * fp" using felem_diff_val(2) [OF ab] by blast
  then show "fval (felem_diff a b) mod fp = (fval a - fval b) mod fp" by (simp only: mod_mult_self1)
qed (rule felem_mul_ok felem_square_ok felem_mul_val felem_square_val felem_sum_val(1) felem_diff_val(1); assumption)+

definition fel :: "felem \<Rightarrow> int" where
  "fel x = res fp Rinv (fval x)"

lemmas fel_sum = p256.res_add [folded fel_def, simplified]
lemmas fel_diff = p256.res_sub [folded fel_def, simplified]
lemmas fel_mul = p256.res_mul [folded fel_def, simplified]
lemmas fel_square = p256.res_sqr [folded fel_def, simplified]
lemmas fel_squares = p256.res_sqrs [folded fel_def squares_def, simplified]

lemma fel_cong: "fval x mod fp = fval y mod fp \<Longrightarrow> fel x = fel y"
  unfolding fel_def by (rule res_cong)

lemma fel_multiple:
  assumes "fval y = c * fval x - 2 * k * fp"
  shows "fel y = (c * fel x) mod fp"
proof -
  have "fval y = c * fval x + (- 2 * k) * fp" using assms by simp
  then have "fel y = (c * fval x * Rinv) mod fp"
    unfolding fel_def by (subst res_cong [of "fval y" fp "c * fval x"]) (simp_all only: mod_mult_self1 res_def)
  then show ?thesis by (simp add: fel_def res_def mod_mult_right_eq mult.assoc)
qed

lemma fel_scalar:
  assumes "felem_ok a"
  shows "fel (felem_scalar_3 a) = (3 * fel a) mod fp" "fel (felem_scalar_4 a) = (4 * fel a) mod fp"
    "fel (felem_scalar_8 a) = (8 * fel a) mod fp"
  using felem_scalar_3_val(2) [OF assms] felem_scalar_4_val(2) [OF assms] felem_scalar_8_val(2) [OF assms]
  by (auto intro: fel_multiple)

lemmas felem_ops_ok = felem_mul_ok felem_square_ok felem_sum_val(1) felem_diff_val(1) felem_scalar_3_val(1)
  felem_scalar_4_val(1) felem_scalar_8_val(1)

lemma fel_range: "0 \<le> fel x" "fel x < fp"
  using fp_pos by (simp_all add: fel_def res_def)

lemma fel_zero_iff: "fel x = 0 \<longleftrightarrow> fval x mod fp = 0"
proof
  assume "fel x = 0"
  then have "(2 ^ 257 * (fval x * Rinv)) mod fp = 0"
    by (metis fel_def res_def mod_mult_right_eq mult_zero_right mod_0)
  moreover have "2 ^ 257 * (fval x * Rinv) = fval x * (2 ^ 257 * Rinv)" by (simp only: ac_simps)
  ultimately have "(fval x * ((2 ^ 257 * Rinv) mod fp)) mod fp = 0" by (simp only: mod_mult_right_eq)
  moreover have "(2 ^ 257 * Rinv) mod fp = 1" unfolding Rinv by (simp add: fp_def)
  ultimately show "fval x mod fp = 0" by simp
next
  assume "fval x mod fp = 0"
  then show "fel x = 0" unfolding fel_def res_def by (metis mod_mult_left_eq mult_zero_left mod_0)
qed

lemma felem_is_zero_fel: "felem_ok x \<Longrightarrow> felem_is_zero_vartime x = Some (fel x = 0)"
  by (simp add: felem_is_zero_val fel_zero_iff)

section \<open>The inverse\<close>

definition pw :: "felem \<Rightarrow> nat \<Rightarrow> felem \<Rightarrow> bool" where
  "pw x e y \<longleftrightarrow> felem_ok y \<and> fel y = (fel x ^ e) mod fp"

lemma pw_self: "felem_ok x \<Longrightarrow> pw x 1 x"
  using fel_range [of x] by (simp add: pw_def)

lemma pw_mul: "pw x a y \<Longrightarrow> pw x b z \<Longrightarrow> pw x (a + b) (felem_mul y z)"
  by (simp add: pw_def felem_mul_ok fel_mul mod_mult_eq power_add)

lemma pw_square: "pw x a y \<Longrightarrow> pw x (2 * a) (felem_square y)"
  by (simp add: pw_def felem_square_ok fel_square mod_mult_eq mult_2 power_add)

lemma pw_squares: "pw x a y \<Longrightarrow> pw x (2 ^ n * a) (squares n y)"
  using fel_squares [of y n] by (simp add: pw_def power_mod power_mult [symmetric] mult.commute)

text \<open>The chain of squarings and multiplications reaches the exponent \<open>p - 2\<close>.\<close>

lemma felem_inv_pw:
  assumes "felem_ok x"
  shows "pw x (2 ^ 256 - 2 ^ 224 + 2 ^ 192 + 2 ^ 96 - 3) (felem_inv x)"
proof -
  note x1 = pw_self [OF assms]
  have e2: "pw x 3 (felem_mul x (felem_square x))" using pw_mul [OF x1 pw_square [OF x1]] by (simp add: numeral_3_eq_3)
  define e2' where "e2' = felem_mul x (felem_square x)"
  note e2 = e2 [folded e2'_def]
  define e4 where "e4 = felem_mul (felem_square (felem_square e2')) e2'"
  have e4: "pw x 15 e4" unfolding e4_def using pw_mul [OF pw_square [OF pw_square [OF e2]] e2] by simp
  define e8 where "e8 = felem_mul (felem_square (felem_square (felem_square (felem_square e4)))) e4"
  have e8: "pw x 255 e8"
    unfolding e8_def using pw_mul [OF pw_square [OF pw_square [OF pw_square [OF pw_square [OF e4]]]] e4] by simp
  define e16 where "e16 = felem_mul (squares 8 e8) e8"
  have e16: "pw x 65535 e16" unfolding e16_def using pw_mul [OF pw_squares [OF e8, of 8] e8] by simp
  define e32 where "e32 = felem_mul (squares 16 e16) e16"
  have e32: "pw x 4294967295 e32" unfolding e32_def using pw_mul [OF pw_squares [OF e16, of 16] e16] by simp
  define e64 where "e64 = squares 32 e32"
  have e64: "pw x (2 ^ 32 * 4294967295) e64" unfolding e64_def by (rule pw_squares [OF e32])
  define h where "h = squares 192 (felem_mul e64 x)"
  note h = pw_squares [OF pw_mul [OF e64 x1], of 192, folded h_def]
  define l where "l = felem_mul (squares 4 (felem_mul (squares 8 (felem_mul (squares 16 (felem_mul e64 e32)) e16)) e8)) e4"
  note l = pw_mul [OF pw_squares [OF pw_mul [OF pw_squares [OF pw_mul [OF pw_squares [OF pw_mul [OF e64 e32], of 16] e16], of 8] e8],
    of 4] e4, folded l_def]
  define r where "r = felem_mul (felem_square (felem_square (felem_mul (felem_square (felem_square l)) e2'))) x"
  note r = pw_mul [OF pw_square [OF pw_square [OF pw_mul [OF pw_square [OF pw_square [OF l]] e2]]] x1, folded r_def]
  have "felem_inv x = felem_mul r h"
    unfolding felem_inv_def felem_assign_def Let_def e2'_def [symmetric] e4_def [symmetric] e8_def [symmetric] e16_def [symmetric]
      e32_def [symmetric] e64_def [symmetric] h_def [symmetric] l_def [symmetric] r_def [symmetric] ..
  then show ?thesis using pw_mul [OF r h] by simp
qed

end
