(* ===== verification/P256_Group.thy ===== *)
theory P256_Group
  imports P256_Field
begin

text \<open>
  The point operations of \<open>libmincrypt/p256_ec.c\<close>: doubling and addition in Jacobian coordinates,
  selection from tables, the two scalar multiplications and the conversions between digits and limbs.
  The output arrays of the source are the results of the definitions; where the source passes the same
  array as input and output, it writes an output only after its last read of that input.
\<close>

section \<open>Jacobian coordinates\<close>

type_synonym point = "felem \<times> felem \<times> felem"

definition point_double :: "point \<Rightarrow> point" where
  "point_double = (\<lambda>(x, y, z).
     (let delta = felem_square z;
          gamma = felem_square y;
          beta = felem_mul x gamma;
          tmp = felem_sum x delta;
          tmp2 = felem_diff x delta;
          alpha = felem_mul tmp tmp2;
          alpha = felem_scalar_3 alpha;
          tmp = felem_sum y z;
          tmp = felem_square tmp;
          tmp = felem_diff tmp gamma;
          z_out = felem_diff tmp delta;
          beta = felem_scalar_4 beta;
          x_out = felem_square alpha;
          x_out = felem_diff x_out beta;
          x_out = felem_diff x_out beta;
          tmp = felem_diff beta x_out;
          tmp = felem_mul alpha tmp;
          tmp2 = felem_square gamma;
          tmp2 = felem_scalar_8 tmp2;
          y_out = felem_diff tmp tmp2
      in (x_out, y_out, z_out)))"

definition point_add_mixed :: "point \<Rightarrow> felem \<Rightarrow> felem \<Rightarrow> point" where
  "point_add_mixed = (\<lambda>(x1, y1, z1) x2 y2.
     (let z1z1 = felem_square z1;
          tmp = felem_sum z1 z1;
          u2 = felem_mul x2 z1z1;
          z1z1z1 = felem_mul z1 z1z1;
          s2 = felem_mul y2 z1z1z1;
          h = felem_diff u2 x1;
          i = felem_sum h h;
          i = felem_square i;
          j = felem_mul h i;
          r = felem_diff s2 y1;
          r = felem_sum r r;
          v = felem_mul x1 i;
          z_out = felem_mul tmp h;
          rr = felem_square r;
          x_out = felem_diff rr j;
          x_out = felem_diff x_out v;
          x_out = felem_diff x_out v;
          tmp = felem_diff v x_out;
          y_out = felem_mul tmp r;
          tmp = felem_mul y1 j;
          y_out = felem_diff y_out tmp;
          y_out = felem_diff y_out tmp
      in (x_out, y_out, z_out)))"

definition point_add :: "point \<Rightarrow> point \<Rightarrow> point" where
  "point_add = (\<lambda>(x1, y1, z1) (x2, y2, z2).
     (let z1z1 = felem_square z1;
          z2z2 = felem_square z2;
          u1 = felem_mul x1 z2z2;
          tmp = felem_sum z1 z2;
          tmp = felem_square tmp;
          tmp = felem_diff tmp z1z1;
          tmp = felem_diff tmp z2z2;
          z2z2z2 = felem_mul z2 z2z2;
          s1 = felem_mul y1 z2z2z2;
          u2 = felem_mul x2 z1z1;
          z1z1z1 = felem_mul z1 z1z1;
          s2 = felem_mul y2 z1z1z1;
          h = felem_diff u2 u1;
          i = felem_sum h h;
          i = felem_square i;
          j = felem_mul h i;
          r = felem_diff s2 s1;
          r = felem_sum r r;
          v = felem_mul u1 i;
          z_out = felem_mul tmp h;
          rr = felem_square r;
          x_out = felem_diff rr j;
          x_out = felem_diff x_out v;
          x_out = felem_diff x_out v;
          tmp = felem_diff v x_out;
          y_out = felem_mul tmp r;
          tmp = felem_mul s1 j;
          y_out = felem_diff y_out tmp;
          y_out = felem_diff y_out tmp
      in (x_out, y_out, z_out)))"

text \<open>\<open>None\<close>: one of the two zero tests does not return.\<close>

definition point_add_or_double_vartime :: "point \<Rightarrow> point \<Rightarrow> point option" where
  "point_add_or_double_vartime = (\<lambda>(x1, y1, z1) (x2, y2, z2).
     (let z1z1 = felem_square z1;
          z2z2 = felem_square z2;
          u1 = felem_mul x1 z2z2;
          tmp = felem_sum z1 z2;
          tmp = felem_square tmp;
          tmp = felem_diff tmp z1z1;
          tmp = felem_diff tmp z2z2;
          z2z2z2 = felem_mul z2 z2z2;
          s1 = felem_mul y1 z2z2z2;
          u2 = felem_mul x2 z1z1;
          z1z1z1 = felem_mul z1 z1z1;
          s2 = felem_mul y2 z1z1z1;
          h = felem_diff u2 u1
      in case felem_is_zero_vartime h of
        None \<Rightarrow> None
      | Some x_equal \<Rightarrow>
          (let i = felem_sum h h;
               i = felem_square i;
               j = felem_mul h i;
               r = felem_diff s2 s1
           in case felem_is_zero_vartime r of
             None \<Rightarrow> None
           | Some y_equal \<Rightarrow>
               if x_equal \<and> y_equal then Some (point_double (x1, y1, z1))
               else
                 (let r = felem_sum r r;
                      v = felem_mul u1 i;
                      z_out = felem_mul tmp h;
                      rr = felem_square r;
                      x_out = felem_diff rr j;
                      x_out = felem_diff x_out v;
                      x_out = felem_diff x_out v;
                      tmp = felem_diff v x_out;
                      y_out = felem_mul tmp r;
                      tmp = felem_mul s1 j;
                      y_out = felem_diff y_out tmp;
                      y_out = felem_diff y_out tmp
                  in Some (x_out, y_out, z_out)))))"

section \<open>Tables\<close>

definition copy_conditional :: "felem \<Rightarrow> felem \<Rightarrow> limb \<Rightarrow> felem" where
  "copy_conditional out inp msk = map2 (\<lambda>i o'. o' XOR (msk AND (i XOR o'))) inp out"

definition index_mask :: "limb \<Rightarrow> limb \<Rightarrow> limb" where
  "index_mask i index =
     (let msk = i XOR index;
          msk = msk OR drop_bit 2 msk;
          msk = msk OR drop_bit 1 msk;
          msk = msk AND 1
      in msk - 1)"

text \<open>\<open>out[j] |= *table & mask\<close> for the limbs of one element; the table pointer moves past them.\<close>

definition or_masked :: "felem \<Rightarrow> limb \<Rightarrow> limb list \<Rightarrow> felem" where
  "or_masked out msk table = map2 (\<lambda>o' t. o' OR (t AND msk)) out (take NLIMBS table)"

definition affine_step :: "limb \<Rightarrow> nat \<Rightarrow> (felem \<times> felem) \<times> limb list \<Rightarrow> (felem \<times> felem) \<times> limb list" where
  "affine_step index i = (\<lambda>((out_x, out_y), table).
     (let msk = index_mask (of_nat i) index;
          out_x = or_masked out_x msk table;
          table = drop NLIMBS table;
          out_y = or_masked out_y msk table
      in ((out_x, out_y), drop NLIMBS table)))"

definition select_affine_point :: "limb list \<Rightarrow> limb \<Rightarrow> felem \<times> felem" where
  "select_affine_point table index =
     fst (fold (affine_step index) [1..<16] ((replicate NLIMBS 0, replicate NLIMBS 0), table))"

definition jacobian_step :: "limb \<Rightarrow> nat \<Rightarrow> point \<times> limb list \<Rightarrow> point \<times> limb list" where
  "jacobian_step index i = (\<lambda>((out_x, out_y, out_z), table).
     (let msk = index_mask (of_nat i) index;
          out_x = or_masked out_x msk table;
          table = drop NLIMBS table;
          out_y = or_masked out_y msk table;
          table = drop NLIMBS table;
          out_z = or_masked out_z msk table
      in ((out_x, out_y, out_z), drop NLIMBS table)))"

definition select_jacobian_point :: "limb list \<Rightarrow> limb \<Rightarrow> point" where
  "select_jacobian_point table index =
     fst (fold (jacobian_step index) [1..<16]
       ((replicate NLIMBS 0, replicate NLIMBS 0, replicate NLIMBS 0), drop (3 * NLIMBS) table))"

section \<open>Scalar multiplication\<close>

definition copy_point :: "point \<Rightarrow> point \<Rightarrow> limb \<Rightarrow> point" where
  "copy_point = (\<lambda>(nx, ny, nz) (px, py, pz) msk.
     (copy_conditional nx px msk, copy_conditional ny py msk, copy_conditional nz pz msk))"

definition zero_point :: point where
  "zero_point = (replicate NLIMBS 0, replicate NLIMBS 0, replicate NLIMBS 0)"

text \<open>
  The part both loops share: \<open>t\<close> is the sum, \<open>p\<close> the selected point; the masks decide which of the two, or
  neither, replaces \<open>n\<close>.
\<close>

definition accumulate :: "point \<Rightarrow> point \<Rightarrow> limb \<Rightarrow> point \<times> limb \<Rightarrow> point \<times> limb" where
  "accumulate t p index = (\<lambda>(n, n_is_infinity_mask).
     (let n = copy_point n p n_is_infinity_mask;
          p_is_noninfinite_mask = NON_ZERO_TO_ALL_ONES index;
          msk = p_is_noninfinite_mask AND NOT n_is_infinity_mask;
          n = copy_point n t msk
      in (n, n_is_infinity_mask AND NOT p_is_noninfinite_mask)))"

definition base_index :: "p256_int \<Rightarrow> nat \<Rightarrow> nat \<Rightarrow> limb" where
  "base_index scalar i j =
     (let bit0 = p256_get_bit scalar (31 - i + j);
          bit1 = p256_get_bit scalar (95 - i + j);
          bit2 = p256_get_bit scalar (159 - i + j);
          bit3 = p256_get_bit scalar (223 - i + j)
      in bit0 OR push_bit 1 bit1 OR push_bit 2 bit2 OR push_bit 3 bit3)"

definition base_add :: "p256_int \<Rightarrow> nat \<Rightarrow> nat \<Rightarrow> point \<times> limb \<Rightarrow> point \<times> limb" where
  "base_add scalar i j = (\<lambda>(n, n_is_infinity_mask).
     (let index = base_index scalar i j;
          table_offset = (if j = 0 then 0 else 30 * NLIMBS)
      in case select_affine_point (drop table_offset kPrecomputed) index of
        (px, py) \<Rightarrow>
          accumulate (point_add_mixed n px py) (px, py, kOne) index (n, n_is_infinity_mask)))"

definition base_step :: "p256_int \<Rightarrow> nat \<Rightarrow> point \<times> limb \<Rightarrow> point \<times> limb" where
  "base_step scalar i = (\<lambda>(n, n_is_infinity_mask).
     (let n = (if i \<noteq> 0 then point_double n else n)
      in base_add scalar i 32 (base_add scalar i 0 (n, n_is_infinity_mask))))"

definition scalar_base_mult :: "p256_int \<Rightarrow> point" where
  "scalar_base_mult scalar = fst (fold (base_step scalar) [0..<32] (zero_point, - 1))"

definition point_to_affine :: "point \<Rightarrow> felem \<times> felem" where
  "point_to_affine = (\<lambda>(nx, ny, nz).
     (let z_inv = felem_inv nz;
          z_inv_sq = felem_square z_inv;
          x_out = felem_mul nx z_inv_sq;
          z_inv = felem_mul z_inv z_inv_sq;
          y_out = felem_mul ny z_inv
      in (x_out, y_out)))"

definition precomp_step :: "felem \<Rightarrow> felem \<Rightarrow> nat \<Rightarrow> point list \<Rightarrow> point list" where
  "precomp_step x y i precomp =
     (let precomp = precomp[i := point_double (precomp ! (i div 2))]
      in precomp[i + 1 := point_add_mixed (precomp ! i) x y])"

definition precomp_table :: "felem \<Rightarrow> felem \<Rightarrow> point list" where
  "precomp_table x y =
     fold (precomp_step x y) [2, 4, 6, 8, 10, 12, 14]
       ((replicate 16 zero_point)[1 := (x, y, kOne)])"

text \<open>The two-dimensional array read as a sequence of limbs.\<close>

definition flatten_table :: "point list \<Rightarrow> limb list" where
  "flatten_table precomp = concat (map (\<lambda>(x, y, z). x @ y @ z) precomp)"

definition window_index :: "p256_int \<Rightarrow> nat \<Rightarrow> limb" where
  "window_index scalar i =
     push_bit 3 (p256_get_bit scalar (255 - i - 0)) OR
     push_bit 2 (p256_get_bit scalar (255 - i - 1)) OR
     push_bit 1 (p256_get_bit scalar (255 - i - 2)) OR
     p256_get_bit scalar (255 - i - 3)"

definition mult_step :: "point list \<Rightarrow> p256_int \<Rightarrow> nat \<Rightarrow> point \<times> limb \<Rightarrow> point \<times> limb" where
  "mult_step precomp scalar i = (\<lambda>(n, n_is_infinity_mask).
     (let n = (if i \<noteq> 0 then (point_double ^^ 4) n else n);
          index = window_index scalar i;
          p = select_jacobian_point (flatten_table precomp) index
      in accumulate (point_add n p) p index (n, n_is_infinity_mask)))"

definition scalar_mult :: "felem \<Rightarrow> felem \<Rightarrow> p256_int \<Rightarrow> point" where
  "scalar_mult x y scalar =
     fst (fold (mult_step (precomp_table x y) scalar) (map (\<lambda>k. 4 * k) [0..<64]) (zero_point, - 1))"

section \<open>Conversions\<close>

definition kR256 :: p256_int where
  "kR256 = [2, 0, 0, 0xfffffffe, 0xffffffff, 0xffffffff, 0xfffffffd, 1]"

definition kRInv :: p256_int where
  "kRInv = [0x80000000, 1, 0xffffffff, 0, 0x80000001, 0xfffffffe, 1, 0x7fffffff]"

definition split_step :: "nat \<Rightarrow> felem \<times> p256_int \<Rightarrow> (felem \<times> p256_int) option" where
  "split_step i = (\<lambda>(out, in_shifted).
     map_option (\<lambda>s. (out @ [in_shifted ! 0 AND limb_mask i], s)) (p256_shr in_shifted (limb_bits i)))"

fun split_loop :: "nat list \<Rightarrow> felem \<times> p256_int \<Rightarrow> (felem \<times> p256_int) option" where
  "split_loop [] s = Some s"
| "split_loop (i # is) s = (case split_step i s of None \<Rightarrow> None | Some s \<Rightarrow> split_loop is s)"

definition to_montgomery :: "p256_int \<Rightarrow> felem option" where
  "to_montgomery inp =
     (case p256_modmul SECP256r1_p inp 0 kR256 of
        None \<Rightarrow> None
      | Some in_shifted \<Rightarrow> map_option fst (split_loop [0..<NLIMBS] ([], in_shifted)))"

text \<open>\<open>top\<close> is an \<open>int\<close>; it goes back into a \<open>p256_digit\<close> when it is passed on.\<close>

definition join_step :: "felem \<Rightarrow> nat \<Rightarrow> p256_int \<times> u32 \<Rightarrow> (p256_int \<times> u32) option" where
  "join_step inp i = (\<lambda>(result, tp).
     (case p256_shl result (limb_bits i) of
        None \<Rightarrow> None
      | Some (tp, tmp) \<Rightarrow>
          (case p256_add_d tmp (inp ! i) of (carry, result) \<Rightarrow> Some (result, tp OR of_int carry))))"

fun join_loop :: "felem \<Rightarrow> nat list \<Rightarrow> p256_int \<times> u32 \<Rightarrow> (p256_int \<times> u32) option" where
  "join_loop inp [] s = Some s"
| "join_loop inp (i # is) s = (case join_step inp i s of None \<Rightarrow> None | Some s \<Rightarrow> join_loop inp is s)"

definition from_montgomery :: "felem \<Rightarrow> p256_int option" where
  "from_montgomery inp =
     (let tmp = p256_init;
          result = snd (p256_add_d tmp (inp ! (NLIMBS - 1)))
      in case join_loop inp (rev [0..<NLIMBS - 1]) (result, 0) of
        None \<Rightarrow> None
      | Some (result, tp) \<Rightarrow> p256_modmul SECP256r1_p kRInv tp result)"

section \<open>Exported operations\<close>

definition affine_out :: "point \<Rightarrow> (p256_int \<times> p256_int) option" where
  "affine_out n =
     (case point_to_affine n of
        (px, py) \<Rightarrow>
          (case from_montgomery px of
             None \<Rightarrow> None
           | Some out_x \<Rightarrow> map_option (Pair out_x) (from_montgomery py)))"

definition p256_base_point_mul :: "p256_int \<Rightarrow> (p256_int \<times> p256_int) option" where
  "p256_base_point_mul n = affine_out (scalar_base_mult n)"

definition p256_points_mul_vartime ::
    "p256_int \<Rightarrow> p256_int \<Rightarrow> p256_int \<Rightarrow> p256_int \<Rightarrow> (p256_int \<times> p256_int) option" where
  "p256_points_mul_vartime n1 n2 in_x in_y =
     (if p256_is_zero n1 \<and> p256_is_zero n2 then Some (p256_clear, p256_clear)
      else
        (case to_montgomery in_x of
           None \<Rightarrow> None
         | Some px \<Rightarrow>
             (case to_montgomery in_y of
                None \<Rightarrow> None
              | Some py \<Rightarrow>
                  (let p1 = scalar_base_mult n1;
                       p2 = scalar_mult px py n2
                   in case (if p256_is_zero n2 then Some p1
                            else if p256_is_zero n1 then Some p2
                            else point_add_or_double_vartime p1 p2) of
                     None \<Rightarrow> None
                   | Some p1 \<Rightarrow> affine_out p1))))"

end
