(* ===== verification/P256_Points.thy ===== *)
theory P256_Points
  imports P256_Felem P256_Group
begin

text \<open>
  The point operations of \<open>p256_ec.c\<close> over residues, and the affine chord and tangent law they implement.
\<close>

section \<open>Formulas over residues\<close>

type_synonym jpoint = "int \<times> int \<times> int"

definition jdouble :: "jpoint \<Rightarrow> jpoint" where
  "jdouble = (\<lambda>(X, Y, Z).
     (let a = 3 * (X + Z ^ 2) * (X - Z ^ 2); b = X * Y ^ 2; X3 = a ^ 2 - 8 * b
      in (X3 mod fp, (a * (4 * b - X3) - 8 * Y ^ 4) mod fp, (2 * Y * Z) mod fp)))"

definition jadd :: "jpoint \<Rightarrow> jpoint \<Rightarrow> jpoint" where
  "jadd = (\<lambda>(X1, Y1, Z1) (X2, Y2, Z2).
     (let U1 = X1 * Z2 ^ 2; S1 = Y1 * Z2 ^ 3; H = X2 * Z1 ^ 2 - U1; r = 2 * (Y2 * Z1 ^ 3 - S1);
          J = 4 * H ^ 3; V = 4 * U1 * H ^ 2; X3 = r ^ 2 - J - 2 * V
      in (X3 mod fp, (r * (V - X3) - 2 * S1 * J) mod fp, (2 * Z1 * Z2 * H) mod fp)))"

definition fel3 :: "point \<Rightarrow> jpoint" where
  "fel3 = (\<lambda>(x, y, z). (fel x, fel y, fel z))"

definition point_ok :: "point \<Rightarrow> bool" where
  "point_ok = (\<lambda>(x, y, z). felem_ok x \<and> felem_ok y \<and> felem_ok z)"

lemmas fel_ops = fel_sum fel_diff fel_mul fel_square fel_scalar

text \<open>Equality of residues, for terms with reductions inside.\<close>

lemma mod_fp_eqI: "a = b \<Longrightarrow> a mod fp = b mod (fp :: int)"
  by simp

lemma point_double_ok: "point_ok P \<Longrightarrow> point_ok (point_double P)"
  by (cases P) (simp add: point_double_def point_ok_def Let_def felem_ops_ok)

lemma point_add_ok: "point_ok P \<Longrightarrow> point_ok Q \<Longrightarrow> point_ok (point_add P Q)"
  by (cases P; cases Q) (simp add: point_add_def point_ok_def Let_def felem_ops_ok)

lemma point_add_mixed_ok: "point_ok P \<Longrightarrow> felem_ok x \<Longrightarrow> felem_ok y \<Longrightarrow> point_ok (point_add_mixed P x y)"
  by (cases P) (simp add: point_add_mixed_def point_ok_def Let_def felem_ops_ok)

lemma point_double_fel:
  assumes "point_ok P"
  shows "fel3 (point_double P) = jdouble (fel3 P)"
proof -
  obtain x y z where P: "P = (x, y, z)" by (cases P)
  have ok: "felem_ok x" "felem_ok y" "felem_ok z" using assms by (simp_all add: P point_ok_def)
  show ?thesis
    unfolding P point_double_def jdouble_def fel3_def Let_def split_conv
    by (simp add: ok felem_ops_ok fel_ops mod_simps) (intro conjI mod_fp_eqI; simp add: power2_eq_square power4_eq_xxxx algebra_simps)
qed

lemma point_add_fel:
  assumes "point_ok P" "point_ok Q"
  shows "fel3 (point_add P Q) = jadd (fel3 P) (fel3 Q)"
proof -
  obtain x1 y1 z1 x2 y2 z2 where P: "P = (x1, y1, z1)" "Q = (x2, y2, z2)" by (cases P; cases Q)
  have ok: "felem_ok x1" "felem_ok y1" "felem_ok z1" "felem_ok x2" "felem_ok y2" "felem_ok z2"
    using assms by (simp_all add: P point_ok_def)
  show ?thesis
    unfolding P point_add_def jadd_def fel3_def Let_def split_conv
    by (simp add: ok felem_ops_ok fel_ops mod_simps)
      (intro conjI mod_fp_eqI; simp add: power2_eq_square power3_eq_cube algebra_simps)
qed

lemma point_add_mixed_fel:
  assumes "point_ok P" "felem_ok x" "felem_ok y"
  shows "fel3 (point_add_mixed P x y) = jadd (fel3 P) (fel x, fel y, 1)"
proof -
  obtain x1 y1 z1 where P: "P = (x1, y1, z1)" by (cases P)
  have ok: "felem_ok x1" "felem_ok y1" "felem_ok z1" using assms by (simp_all add: P point_ok_def)
  show ?thesis
    unfolding P point_add_mixed_def jadd_def fel3_def Let_def split_conv
    by (simp add: ok assms felem_ops_ok fel_ops mod_simps)
      (intro conjI mod_fp_eqI; simp add: power2_eq_square power3_eq_cube algebra_simps)
qed

text \<open>The two coordinates \<open>point_add_or_double_vartime\<close> compares.\<close>

definition same_point :: "jpoint \<Rightarrow> jpoint \<Rightarrow> bool" where
  "same_point = (\<lambda>(X1, Y1, Z1) (X2, Y2, Z2).
     (X2 * Z1 ^ 2 - X1 * Z2 ^ 2) mod fp = 0 \<and> (Y2 * Z1 ^ 3 - Y1 * Z2 ^ 3) mod fp = 0)"

lemma point_add_or_double_val:
  assumes "point_ok P" "point_ok Q"
  shows "\<exists>S. point_add_or_double_vartime P Q = Some S \<and> point_ok S \<and>
    fel3 S = (if same_point (fel3 P) (fel3 Q) then jdouble (fel3 P) else jadd (fel3 P) (fel3 Q))"
proof -
  obtain x1 y1 z1 x2 y2 z2 where P: "P = (x1, y1, z1)" "Q = (x2, y2, z2)" by (cases P; cases Q)
  have ok: "felem_ok x1" "felem_ok y1" "felem_ok z1" "felem_ok x2" "felem_ok y2" "felem_ok z2"
    using assms by (simp_all add: P point_ok_def)
  define h where "h = felem_diff (felem_mul x2 (felem_square z1)) (felem_mul x1 (felem_square z2))"
  define r where "r = felem_diff (felem_mul y2 (felem_mul z1 (felem_square z1))) (felem_mul y1 (felem_mul z2 (felem_square z2)))"
  have hr: "felem_ok h" "felem_ok r" unfolding h_def r_def using ok by (simp_all add: felem_ops_ok)
  have "fel h = (fel x2 * fel z1 ^ 2 - fel x1 * fel z2 ^ 2) mod fp" "fel r = (fel y2 * fel z1 ^ 3 - fel y1 * fel z2 ^ 3) mod fp"
    unfolding h_def r_def using ok
    by (simp_all add: felem_ops_ok fel_ops mod_simps power2_eq_square power3_eq_cube mult.assoc)
  then have eq: "same_point (fel3 P) (fel3 Q) \<longleftrightarrow> fel h = 0 \<and> fel r = 0"
    by (simp add: same_point_def P fel3_def)
  have z: "felem_is_zero_vartime h = Some (fel h = 0)" "felem_is_zero_vartime r = Some (fel r = 0)"
    using hr by (simp_all add: felem_is_zero_fel)
  have "point_add_or_double_vartime P Q = Some (if fel h = 0 \<and> fel r = 0 then point_double P else point_add P Q)"
    unfolding point_add_or_double_vartime_def point_add_def P split_conv Let_def h_def [symmetric] r_def [symmetric]
    by (simp add: z)
  then show ?thesis
    unfolding eq using point_double_ok [OF assms(1)] point_add_ok [OF assms] point_double_fel [OF assms(1)] point_add_fel [OF assms]
    by auto
qed

section \<open>The affine law\<close>

text \<open>
  \<open>(X, Y, Z)\<close> stands for the affine point \<open>(x, y)\<close>; the tangent and the chord law without divisions, the
  slope \<open>l\<close> being given by its equation.
\<close>

definition repr :: "jpoint \<Rightarrow> int \<Rightarrow> int \<Rightarrow> bool" where
  "repr = (\<lambda>(X, Y, Z) x y. (X - x * Z ^ 2) mod fp = 0 \<and> (Y - y * Z ^ 3) mod fp = 0)"

definition tangent :: "int \<Rightarrow> int \<Rightarrow> int \<Rightarrow> int \<Rightarrow> bool" where
  "tangent x y x3 y3 \<longleftrightarrow> (\<exists>l. (2 * y * l - (3 * x ^ 2 - 3)) mod fp = 0 \<and>
     (x3 - (l ^ 2 - 2 * x)) mod fp = 0 \<and> (y3 - (l * (x - x3) - y)) mod fp = 0)"

definition chord :: "int \<Rightarrow> int \<Rightarrow> int \<Rightarrow> int \<Rightarrow> int \<Rightarrow> int \<Rightarrow> bool" where
  "chord x1 y1 x2 y2 x3 y3 \<longleftrightarrow> (\<exists>l. ((x2 - x1) * l - (y2 - y1)) mod fp = 0 \<and>
     (x3 - (l ^ 2 - x1 - x2)) mod fp = 0 \<and> (y3 - (l * (x1 - x3) - y1)) mod fp = 0)"

text \<open>The polynomial identities behind the two laws.\<close>

lemma tangent_parts:
  fixes p :: int
  assumes "p dvd X - x * Z ^ 2" "p dvd Y - y * Z ^ 3" "p dvd 2 * y * l - (3 * x ^ 2 - 3)"
  shows "p dvd 3 * (X + Z ^ 2) * (X - Z ^ 2) - 2 * y * l * Z ^ 4" "p dvd X * Y ^ 2 - x * y ^ 2 * (Z ^ 4) ^ 2"
    "p dvd Y ^ 4 - y ^ 4 * (Z ^ 4) ^ 3" "p dvd 2 * Y * Z - 2 * y * Z ^ 4"
proof -
  show "p dvd 3 * (X + Z ^ 2) * (X - Z ^ 2) - 2 * y * l * Z ^ 4" using assms(1,3) by algebra
  show "p dvd X * Y ^ 2 - x * y ^ 2 * (Z ^ 4) ^ 2" using assms(1,2) by algebra
  show "p dvd Y ^ 4 - y ^ 4 * (Z ^ 4) ^ 3" using assms(2) by algebra
  show "p dvd 2 * Y * Z - 2 * y * Z ^ 4" using assms(2) by algebra
qed

lemma tangent_x:
  fixes p :: int
  assumes "p dvd a - 2 * y * l * w" "p dvd b - x * y ^ 2 * w ^ 2" "p dvd x3 - (l ^ 2 - 2 * x)"
  shows "p dvd a ^ 2 - 8 * b - x3 * (2 * y * w) ^ 2"
  using assms by algebra

lemma tangent_y:
  fixes p :: int
  assumes "p dvd a - 2 * y * l * w" "p dvd b - x * y ^ 2 * w ^ 2" "p dvd Y4 - y ^ 4 * w ^ 3"
    "p dvd X3 - x3 * (2 * y * w) ^ 2" "p dvd y3 - (l * (x - x3) - y)"
  shows "p dvd a * (4 * b - X3) - 8 * Y4 - y3 * (2 * y * w) ^ 3"
  using assms by algebra

lemma chord_parts:
  fixes p :: int
  assumes "p dvd X1 - x1 * Z1 ^ 2" "p dvd Y1 - y1 * Z1 ^ 3" "p dvd X2 - x2 * Z2 ^ 2" "p dvd Y2 - y2 * Z2 ^ 3"
    "p dvd (x2 - x1) * l - (y2 - y1)"
  shows "p dvd X1 * Z2 ^ 2 - x1 * (Z1 * Z2) ^ 2" "p dvd X2 * Z1 ^ 2 - X1 * Z2 ^ 2 - (x2 - x1) * (Z1 * Z2) ^ 2"
    "p dvd Y1 * Z2 ^ 3 - y1 * (Z1 * Z2) ^ 3" "p dvd 2 * (Y2 * Z1 ^ 3 - Y1 * Z2 ^ 3) - 2 * (x2 - x1) * l * (Z1 * Z2) ^ 3"
  using assms by algebra+

lemma chord_x:
  fixes p :: int
  assumes "p dvd U1 - x1 * u ^ 2" "p dvd H - (x2 - x1) * u ^ 2" "p dvd r - 2 * (x2 - x1) * l * u ^ 3"
    "p dvd x3 - (l ^ 2 - x1 - x2)"
  shows "p dvd r ^ 2 - 4 * H ^ 3 - 2 * (4 * U1 * H ^ 2) - x3 * (2 * u * H) ^ 2"
  using assms by algebra

lemma chord_y:
  fixes p :: int
  assumes "p dvd U1 - x1 * u ^ 2" "p dvd H - (x2 - x1) * u ^ 2" "p dvd r - 2 * (x2 - x1) * l * u ^ 3"
    "p dvd S1 - y1 * u ^ 3" "p dvd X3 - x3 * (2 * u * H) ^ 2" "p dvd y3 - (l * (x1 - x3) - y1)"
  shows "p dvd r * (4 * U1 * H ^ 2 - X3) - 2 * S1 * (4 * H ^ 3) - y3 * (2 * u * H) ^ 3"
  using assms by algebra

lemma mod_sub_power: "(a mod p - b * (z mod p) ^ n) mod p = (a - b * z ^ n) mod (p :: int)"
proof -
  have "(a - b * z ^ n) mod p = (a mod p - (b * (z ^ n mod p)) mod p) mod p"
    by (simp add: mod_diff_eq mod_mult_right_eq)
  also have "\<dots> = (a mod p - (b * ((z mod p) ^ n mod p)) mod p) mod p" by (simp only: power_mod)
  finally show ?thesis by (simp only: mod_mult_right_eq mod_diff_right_eq)
qed

lemma repr_mod: "repr (X mod fp, Y mod fp, Z mod fp) x y \<longleftrightarrow> fp dvd X - x * Z ^ 2 \<and> fp dvd Y - y * Z ^ 3"
  by (simp add: repr_def mod_sub_power dvd_eq_mod_eq_0)

lemma dvd_cong_subst:
  fixes p :: int
  assumes "p dvd z - z'" "p dvd a - b * z' ^ n"
  shows "p dvd a - b * z ^ n"
proof -
  have "z mod p = z' mod p" using assms(1) by (simp add: mod_eq_dvd_iff)
  then have "(b * z ^ n) mod p = (b * z' ^ n) mod p" by (metis power_mod mod_mult_right_eq)
  moreover have "a mod p = (b * z' ^ n) mod p" using assms(2) by (simp add: mod_eq_dvd_iff)
  ultimately have "a mod p = (b * z ^ n) mod p" by simp
  then show ?thesis by (simp add: mod_eq_dvd_iff)
qed

lemma jdouble_tangent:
  assumes "repr P x y" "tangent x y x3 y3"
  shows "repr (jdouble P) x3 y3"
proof -
  obtain X Y Z where P: "P = (X, Y, Z)" by (cases P)
  obtain l where l: "fp dvd 2 * y * l - (3 * x ^ 2 - 3)" "fp dvd x3 - (l ^ 2 - 2 * x)" "fp dvd y3 - (l * (x - x3) - y)"
    using assms(2) by (auto simp: tangent_def dvd_eq_mod_eq_0)
  have XY: "fp dvd X - x * Z ^ 2" "fp dvd Y - y * Z ^ 3" using assms(1) by (auto simp: repr_def P dvd_eq_mod_eq_0)
  note t = tangent_parts [OF XY l(1)]
  note x = tangent_x [OF t(1,2) l(2)]
  note y = tangent_y [OF t(1-3) x l(3)]
  show ?thesis
    unfolding P jdouble_def Let_def split_conv repr_mod
    using dvd_cong_subst [OF t(4) x] dvd_cong_subst [OF t(4) y] by blast
qed

lemma jadd_chord:
  assumes "repr P x1 y1" "repr Q x2 y2" "chord x1 y1 x2 y2 x3 y3"
  shows "repr (jadd P Q) x3 y3"
proof -
  obtain X1 Y1 Z1 X2 Y2 Z2 where P: "P = (X1, Y1, Z1)" "Q = (X2, Y2, Z2)" by (cases P; cases Q)
  obtain l where l: "fp dvd (x2 - x1) * l - (y2 - y1)" "fp dvd x3 - (l ^ 2 - x1 - x2)" "fp dvd y3 - (l * (x1 - x3) - y1)"
    using assms(3) by (auto simp: chord_def dvd_eq_mod_eq_0)
  have XY: "fp dvd X1 - x1 * Z1 ^ 2" "fp dvd Y1 - y1 * Z1 ^ 3" "fp dvd X2 - x2 * Z2 ^ 2" "fp dvd Y2 - y2 * Z2 ^ 3"
    using assms(1,2) by (auto simp: repr_def P dvd_eq_mod_eq_0)
  note c = chord_parts [OF XY l(1)]
  note x = chord_x [OF c(1,2,4) l(2)]
  note y = chord_y [OF c(1,2,4,3) x l(3)]
  have z: "2 * Z1 * Z2 * H = 2 * (Z1 * Z2) * H" for H :: int by simp
  show ?thesis
    unfolding P jadd_def Let_def split_conv repr_mod z using x y by blast
qed

end
