(* ===== verification/P256_Invariant.thy ===== *)
theory P256_Invariant
  imports P256_Points
begin

text \<open>
  The curve equation in Jacobian coordinates as an invariant of the point operations of \<open>p256_ec.c\<close>. The
  formulas keep it in every case, the exceptional ones included: the triple \<open>(0, 0, 0)\<close> the source starts
  from satisfies it too.
\<close>

section \<open>Identities\<close>

lemma curve_double:
  fixes X Y Z b p :: int
  assumes "p dvd Y ^ 2 - (X ^ 3 - 3 * X * Z ^ 4 + b * Z ^ 6)"
    "a = 3 * (X + Z ^ 2) * (X - Z ^ 2)" "B = X * Y ^ 2" "X3 = a ^ 2 - 8 * B" "Y3 = a * (4 * B - X3) - 8 * Y ^ 4" "Z3 = 2 * Y * Z"
  shows "p dvd Y3 ^ 2 - (X3 ^ 3 - 3 * X3 * Z3 ^ 4 + b * Z3 ^ 6)"
proof -
  have "Y3 ^ 2 - (X3 ^ 3 - 3 * X3 * Z3 ^ 4 + b * Z3 ^ 6) = 64 * Y ^ 6 * (Y ^ 2 - (X ^ 3 - 3 * X * Z ^ 4 + b * Z ^ 6))"
    unfolding assms by algebra
  then show ?thesis using assms(1) by simp
qed

lemma curve_add_identity:
  fixes U1 S1 U2 S2 t H r :: int
  assumes "H = U2 - U1" "r = 2 * (S2 - S1)" "X3 = r ^ 2 - 4 * H ^ 3 - 2 * (4 * U1 * H ^ 2)" "Y3 = r * (4 * U1 * H ^ 2 - X3) - 2 * S1 * (4 * H ^ 3)"
  shows "Y3 ^ 2 - (X3 ^ 3 - 48 * X3 * H ^ 4 * t + 64 * H ^ 6 * (S1 ^ 2 - U1 ^ 3 + 3 * U1 * t)) =
    16 * H ^ 3 * (X3 - 4 * U1 * H ^ 2) * ((S2 ^ 2 - U2 ^ 3 + 3 * U2 * t) - (S1 ^ 2 - U1 ^ 3 + 3 * U1 * t))"
proof -
  have s: "S2 = S1 + d" "U2 = U1 + H" if "d = S2 - S1" for d using that assms by simp_all
  define d where "d = S2 - S1"
  note s = s [OF d_def]
  have r: "r = 2 * d" using assms d_def by simp
  show ?thesis unfolding assms(3,4) r s by algebra
qed

lemma curve_add:
  fixes X1 Y1 Z1 X2 Y2 Z2 b p :: int
  assumes "p dvd Y1 ^ 2 - (X1 ^ 3 - 3 * X1 * Z1 ^ 4 + b * Z1 ^ 6)" "p dvd Y2 ^ 2 - (X2 ^ 3 - 3 * X2 * Z2 ^ 4 + b * Z2 ^ 6)"
    "U1 = X1 * Z2 ^ 2" "S1 = Y1 * Z2 ^ 3" "H = X2 * Z1 ^ 2 - U1" "r = 2 * (Y2 * Z1 ^ 3 - S1)"
    "X3 = r ^ 2 - 4 * H ^ 3 - 2 * (4 * U1 * H ^ 2)" "Y3 = r * (4 * U1 * H ^ 2 - X3) - 2 * S1 * (4 * H ^ 3)" "Z3 = 2 * Z1 * Z2 * H"
  shows "p dvd Y3 ^ 2 - (X3 ^ 3 - 3 * X3 * Z3 ^ 4 + b * Z3 ^ 6)"
proof -
  define U2 S2 t where d: "U2 = X2 * Z1 ^ 2" "S2 = Y2 * Z1 ^ 3" "t = (Z1 * Z2) ^ 4"
  define c where "c = b * (Z1 * Z2) ^ 6"
  have 1: "p dvd S1 ^ 2 - U1 ^ 3 + 3 * U1 * t - c"
  proof -
    have "S1 ^ 2 - U1 ^ 3 + 3 * U1 * t - c = Z2 ^ 6 * (Y1 ^ 2 - (X1 ^ 3 - 3 * X1 * Z1 ^ 4 + b * Z1 ^ 6))"
      unfolding assms(3,4) d c_def by algebra
    then show ?thesis using assms(1) by simp
  qed
  have 2: "p dvd S2 ^ 2 - U2 ^ 3 + 3 * U2 * t - c"
  proof -
    have "S2 ^ 2 - U2 ^ 3 + 3 * U2 * t - c = Z1 ^ 6 * (Y2 ^ 2 - (X2 ^ 3 - 3 * X2 * Z2 ^ 4 + b * Z2 ^ 6))"
      unfolding d c_def by algebra
    then show ?thesis using assms(2) by simp
  qed
  have "Y3 ^ 2 - (X3 ^ 3 - 3 * X3 * Z3 ^ 4 + b * Z3 ^ 6) =
      (Y3 ^ 2 - (X3 ^ 3 - 48 * X3 * H ^ 4 * t + 64 * H ^ 6 * (S1 ^ 2 - U1 ^ 3 + 3 * U1 * t))) +
      64 * H ^ 6 * (S1 ^ 2 - U1 ^ 3 + 3 * U1 * t - c)"
    unfolding assms(9) d c_def by algebra
  also have "\<dots> = 16 * H ^ 3 * (X3 - 4 * U1 * H ^ 2) * ((S2 ^ 2 - U2 ^ 3 + 3 * U2 * t - c) - (S1 ^ 2 - U1 ^ 3 + 3 * U1 * t - c)) +
      64 * H ^ 6 * (S1 ^ 2 - U1 ^ 3 + 3 * U1 * t - c)"
    using curve_add_identity [of H U2 U1 r S2 S1 X3 Y3 t] assms(5-8) d by simp
  finally show ?thesis by (simp only:) (intro dvd_add dvd_mult dvd_diff 1 2)
qed

section \<open>Jacobian points on the curve\<close>

definition curve_b :: int where
  "curve_b = int (lval SECP256r1_b)"

definition on_jac :: "jpoint \<Rightarrow> bool" where
  "on_jac = (\<lambda>(X, Y, Z). (Y ^ 2 - (X ^ 3 - 3 * X * Z ^ 4 + curve_b * Z ^ 6)) mod fp = 0)"

lemma on_jac_mod: "on_jac (X mod fp, Y mod fp, Z mod fp) \<longleftrightarrow> fp dvd Y ^ 2 - (X ^ 3 - 3 * X * Z ^ 4 + curve_b * Z ^ 6)"
proof -
  have "((Y mod fp) ^ 2 - ((X mod fp) ^ 3 - 3 * (X mod fp) * (Z mod fp) ^ 4 + curve_b * (Z mod fp) ^ 6)) mod fp =
      (Y ^ 2 - (X ^ 3 - 3 * X * Z ^ 4 + curve_b * Z ^ 6)) mod fp"
    by (intro mod_diff_cong mod_add_cong mod_mult_cong) (simp_all add: power_mod)
  then show ?thesis by (simp add: on_jac_def dvd_eq_mod_eq_0)
qed

lemma on_jac_dvd: "on_jac (X, Y, Z) \<longleftrightarrow> fp dvd Y ^ 2 - (X ^ 3 - 3 * X * Z ^ 4 + curve_b * Z ^ 6)"
  by (simp add: on_jac_def dvd_eq_mod_eq_0)

lemma jdouble_on_jac:
  assumes "on_jac P"
  shows "on_jac (jdouble P)"
proof -
  obtain X Y Z where P: "P = (X, Y, Z)" by (cases P)
  show ?thesis
    unfolding P jdouble_def Let_def split_conv on_jac_mod
    by (rule curve_double [OF assms [unfolded P on_jac_dvd] refl refl refl refl refl])
qed

lemma jadd_on_jac:
  assumes "on_jac P" "on_jac Q"
  shows "on_jac (jadd P Q)"
proof -
  obtain X1 Y1 Z1 X2 Y2 Z2 where P: "P = (X1, Y1, Z1)" and Q: "Q = (X2, Y2, Z2)" by (cases P; cases Q)
  show ?thesis
    unfolding P Q jadd_def Let_def split_conv on_jac_mod
    by (rule curve_add [OF assms(1) [unfolded P on_jac_dvd] assms(2) [unfolded Q on_jac_dvd] refl refl refl refl refl refl refl])
qed

definition good_point :: "point \<Rightarrow> bool" where
  "good_point P \<longleftrightarrow> point_ok P \<and> on_jac (fel3 P)"

lemma good_point_double: "good_point P \<Longrightarrow> good_point (point_double P)"
  by (simp add: good_point_def point_double_ok point_double_fel jdouble_on_jac)

lemma good_point_add: "good_point P \<Longrightarrow> good_point Q \<Longrightarrow> good_point (point_add P Q)"
  by (simp add: good_point_def point_add_ok point_add_fel jadd_on_jac)

end
