(* ===== verification/P256_Theorems.thy ===== *)
theory P256_Theorems
  imports P256_Invariant
begin

text \<open>
  What the field and point arithmetic of \<open>p256_ec.c\<close> guarantees. \<open>felem_ok\<close> is the documented range of the
  limbs, \<open>fel\<close> the residue an element in Montgomery form stands for, \<open>repr\<close> the affine point of a
  Jacobian triple and \<open>on_jac\<close> the curve equation in Jacobian coordinates.
\<close>

section \<open>Concrete elements for the witnesses\<close>

lemma felem_ok_kOne: "felem_ok kOne"
  by (simp add: kOne_def felem_ok_def all_less_9 limb_bits_def)

lemma felem_ok_kZero: "felem_ok kZero"
  by (simp add: kZero_def NLIMBS_def felem_ok_def all_less_9 limb_bits_def)

lemma fel_kZero: "fel kZero = 0"
  by (simp add: fel_zero_iff kZero_def NLIMBS_def fval_def numeral_eq_Suc)

lemma fel_kOne: "fel kOne = 1"
proof -
  have "fval kOne = 2 ^ 257 + (- 2) * fp" by (simp add: kOne_def fval_def fp_def limb_bits_def)
  then have "fel kOne = (2 ^ 257 * Rinv) mod fp"
    unfolding fel_def by (subst res_cong [of "fval kOne" fp "2 ^ 257"]) (simp_all only: mod_mult_self1 res_def)
  then show ?thesis unfolding Rinv by (simp add: fp_def)
qed

section \<open>Field\<close>

text \<open>
  C25. Every field operation keeps the limbs within their documented bounds (odd limbs below \<open>2 ^ 29\<close>, even
  ones below \<open>2 ^ 30\<close>), so the bounds hold along any sequence of operations.
\<close>

theorem felem_bounds:
  assumes "felem_ok a" "felem_ok b"
  shows "felem_ok (felem_sum a b) \<and> felem_ok (felem_diff a b) \<and> felem_ok (felem_mul a b) \<and> felem_ok (felem_square a) \<and>
    felem_ok (felem_scalar_3 a) \<and> felem_ok (felem_scalar_4 a) \<and> felem_ok (felem_scalar_8 a) \<and> felem_ok (felem_inv a)"
  using assms felem_inv_pw [OF assms(1)] by (simp add: felem_ops_ok pw_def)

theorem felem_bounds_witness: "felem_ok (felem_diff kZero kOne) \<and> felem_ok (felem_inv kZero)"
  using felem_bounds [OF felem_ok_kZero felem_ok_kOne] by simp

text \<open>
  C24. On limbs within the bounds, the operations compute addition, subtraction, multiplication and the small
  multiples in the field of the prime \<open>p\<close>: the residue of the result is the operation on the residues. No
  product or carry overflows its word.
\<close>

theorem felem_arithmetic:
  assumes "felem_ok a" "felem_ok b"
  shows "fel (felem_sum a b) = (fel a + fel b) mod fp \<and> fel (felem_diff a b) = (fel a - fel b) mod fp \<and>
    fel (felem_mul a b) = (fel a * fel b) mod fp \<and> fel (felem_square a) = (fel a) ^ 2 mod fp \<and>
    fel (felem_scalar_3 a) = (3 * fel a) mod fp \<and> fel (felem_scalar_4 a) = (4 * fel a) mod fp \<and>
    fel (felem_scalar_8 a) = (8 * fel a) mod fp"
  using assms by (simp add: fel_sum fel_diff fel_mul fel_square fel_scalar power2_eq_square)

theorem felem_arithmetic_witness: "fel (felem_sum kOne kOne) = 2"
  using felem_arithmetic [OF felem_ok_kOne felem_ok_kOne] by (simp add: fel_kOne fp_def)

text \<open>
  C26. \<open>felem_is_zero_vartime\<close> ends for every element within the bounds, and answers whether it is zero
  modulo the prime, although zero has several representations.
\<close>

theorem felem_is_zero_correct:
  assumes "felem_ok x"
  shows "felem_is_zero_vartime x = Some (fval x mod fp = 0)"
  using assms by (rule felem_is_zero_val)

theorem felem_is_zero_correct_witness: "felem_is_zero_vartime k2P = Some True"
proof -
  have "felem_ok k2P" by (simp add: k2P_def felem_ok_def all_less_9 limb_bits_def)
  then have "felem_is_zero_vartime k2P = Some (fval k2P mod fp = 0)" by (rule felem_is_zero_correct)
  moreover have "fval k2P = 2 * fp" by (simp add: k2P_def fval_def fp_def limb_bits_def)
  ultimately show ?thesis by simp
qed

section \<open>Points\<close>





end
