(* ===== verification/P256_Curve.thy ===== *)
theory P256_Curve
  imports P256_Inverse
begin

text \<open>
  The curve test \<open>p256_is_valid_point\<close> of \<open>libmincrypt/p256.c\<close>, against the curve equation over the
  integers. The code adds \<open>b\<close> and reduces only when the addition carries out of 256 bits; the sum it
  compares is unreduced when it falls between the prime and \<open>2 ^ 256\<close>.
\<close>

section \<open>The curve\<close>

definition p256_p :: nat where "p256_p = 2 ^ 256 - 2 ^ 224 + 2 ^ 192 + 2 ^ 96 - 1"
definition p256_b :: nat where
  "p256_b = 0x5ac635d8aa3a93e7b3ebbd55769886bc651d06b0cc53b0f63bce3c3e27d2604b"

lemma unat_minus_1_u32: "unat (- 1 :: u32) = 4294967295"
  by (simp add: unsigned_minus_1_eq_mask mask_eq_exp_minus_1)

lemma curve_constants:
  "length SECP256r1_p = 8" "lval SECP256r1_p = p256_p" "length SECP256r1_b = 8" "lval SECP256r1_b = p256_b"
  "mod_ok SECP256r1_p" "p256_b < p256_p" "p256_p < 2 ^ 256" "2 ^ 255 < p256_p"
  by (simp_all add: SECP256r1_p_def SECP256r1_b_def p256_p_def p256_b_def mod_ok_def unat_minus_1_u32)

text \<open>The affine curve equation \<open>y\<^sup>2 = x\<^sup>3 - 3 x + b\<close>.\<close>

definition on_curve :: "nat \<Rightarrow> nat \<Rightarrow> bool" where
  "on_curve x y \<longleftrightarrow> int y ^ 2 mod int p256_p = (int x ^ 3 - 3 * int x + int p256_b) mod int p256_p"

text \<open>The reduced value of \<open>x\<^sup>3 - 3 x\<close>.\<close>

definition curve_w :: "nat \<Rightarrow> nat" where
  "curve_w x = nat ((int x ^ 3 - 3 * int x) mod int p256_p)"

lemma curve_w_less: "curve_w x < p256_p"
  using curve_constants(8) by (simp add: curve_w_def nat_less_iff)

lemma on_curve_w: "on_curve x y \<longleftrightarrow> y ^ 2 mod p256_p = (curve_w x + p256_b) mod p256_p"
proof -
  have "int (curve_w x) = (int x ^ 3 - 3 * int x) mod int p256_p"
    using curve_constants(8) by (simp add: curve_w_def)
  then have "(int x ^ 3 - 3 * int x + int p256_b) mod int p256_p = int ((curve_w x + p256_b) mod p256_p)"
    by (simp add: of_nat_mod mod_add_left_eq)
  moreover have "int y ^ 2 mod int p256_p = int (y ^ 2 mod p256_p)" by (simp add: of_nat_mod)
  ultimately show ?thesis unfolding on_curve_def by (simp only: of_nat_eq_iff)
qed

text \<open>One subtraction of \<open>x\<close> modulo \<open>p\<close>.\<close>

lemma sub_mod_p:
  assumes "length c = 8" "length x = 8" "int (lval c) = z mod int p256_p" "lval x < p256_p"
  shows "length (sub_mod SECP256r1_p c x) = 8"
    and "int (lval (sub_mod SECP256r1_p c x)) = (z - int (lval x)) mod int p256_p"
proof -
  have p: "0 < int p256_p" using curve_constants(8) by simp
  have c: "lval c < p256_p" using assms(3) p by (metis of_nat_less_iff pos_mod_bound)
  note v = sub_mod_val [OF assms(1,2) curve_constants(1), unfolded curve_constants(2), OF c assms(4)]
  show "length (sub_mod SECP256r1_p c x) = 8" by (rule v(1))
  have "int (lval (sub_mod SECP256r1_p c x)) = (int (lval c) - int (lval x)) mod int p256_p"
  proof (cases "lval x \<le> lval c")
    case True
    then show ?thesis using v(2) c by (simp add: of_nat_diff)
  next
    case False
    then have "int (lval (sub_mod SECP256r1_p c x)) = int (lval c) - int (lval x) + int p256_p"
      using v(2) assms(4) by (simp add: of_nat_diff)
    also have "\<dots> = (int (lval c) - int (lval x) + int p256_p) mod int p256_p"
      using False assms(4) by (intro mod_pos_pos_trivial [symmetric]) auto
    finally show ?thesis by simp
  qed
  also have "\<dots> = (z - int (lval x)) mod int p256_p"
    unfolding assms(3) by (rule mod_diff_left_eq)
  finally show "int (lval (sub_mod SECP256r1_p c x)) = (z - int (lval x)) mod int p256_p" .
qed

lemma modmul_p:
  assumes "length a = 8" "length b = 8"
  obtains c where "p256_modmul SECP256r1_p a 0 b = Some c" "length c = 8" "lval c = (lval a * lval b) mod p256_p"
  using p256_modmul_val [OF curve_constants(5) assms, of 0] curve_constants(2) by auto

lemma p256_is_valid_point_val:
  assumes "length x = 8" "length y = 8"
  shows "p256_is_valid_point x y = Some (0 < lval x \<and> lval x < p256_p \<and> 0 < lval y \<and> lval y < p256_p \<and>
    lval y ^ 2 mod p256_p =
      (if curve_w (lval x) + p256_b < 2 ^ 256 then curve_w (lval x) + p256_b
       else curve_w (lval x) + p256_b - p256_p))"
proof (cases "lval x < p256_p \<and> lval y < p256_p \<and> 0 < lval x \<and> 0 < lval y")
  case False
  then show ?thesis
    using p256_cmp_val [OF curve_constants(1) assms(1)] p256_cmp_val [OF curve_constants(1) assms(2)]
    by (auto simp: p256_is_valid_point_def p256_is_zero_val curve_constants(2))
next
  case True
  then have x: "lval x < p256_p" and y: "lval y < p256_p" by simp_all
  have c0: "\<not> (p256_cmp SECP256r1_p x \<le> 0 \<or> p256_cmp SECP256r1_p y \<le> 0 \<or> p256_is_zero x \<or> p256_is_zero y)"
    using True p256_cmp_val [OF curve_constants(1) assms(1)] p256_cmp_val [OF curve_constants(1) assms(2)]
    by (auto simp: p256_is_zero_val curve_constants(2))
  obtain y2 where y2: "p256_modmul SECP256r1_p y 0 y = Some y2" "length y2 = 8" "lval y2 = (lval y * lval y) mod p256_p"
    using modmul_p [OF assms(2,2)] .
  obtain x2 where x2: "p256_modmul SECP256r1_p x 0 x = Some x2" "length x2 = 8" "lval x2 = (lval x * lval x) mod p256_p"
    using modmul_p [OF assms(1,1)] .
  obtain x3 where x3: "p256_modmul SECP256r1_p x 0 x2 = Some x3" "length x3 = 8" "lval x3 = (lval x * lval x2) mod p256_p"
    using modmul_p [OF assms(1) x2(2)] .
  define d1 where "d1 = sub_mod SECP256r1_p x3 x"
  define d2 where "d2 = sub_mod SECP256r1_p d1 x"
  define d3 where "d3 = sub_mod SECP256r1_p d2 x"
  have "int (lval x3) = (int (lval x) ^ 3) mod int p256_p"
    by (simp add: x3(3) x2(3) of_nat_mod mod_mult_right_eq power3_eq_cube mult.assoc)
  from sub_mod_p [OF x3(2) assms(1) this x, folded d1_def]
  have d1: "length d1 = 8" "int (lval d1) = (int (lval x) ^ 3 - int (lval x)) mod int p256_p" by simp_all
  from sub_mod_p [OF d1(1) assms(1) d1(2) x, folded d2_def]
  have d2: "length d2 = 8" "int (lval d2) = (int (lval x) ^ 3 - int (lval x) - int (lval x)) mod int p256_p" by simp_all
  from sub_mod_p [OF d2(1) assms(1) d2(2) x, folded d3_def]
  have d3: "length d3 = 8" "int (lval d3) = (int (lval x) ^ 3 - 3 * int (lval x)) mod int p256_p"
    by (simp_all add: algebra_simps)
  then have w: "lval d3 = curve_w (lval x)" by (simp add: curve_w_def)
  obtain k e where add: "p256_add d3 SECP256r1_b = (k, e)" by fastforce
  note av = p256_add_val [OF d3(1) curve_constants(3), unfolded add curve_constants(4) w fst_conv snd_conv]
  define r where "r = (if k \<noteq> 0 then snd (p256_sub e SECP256r1_p) else e)"
  have r: "length r = 8 \<and> lval r = (if curve_w (lval x) + p256_b < 2 ^ 256 then curve_w (lval x) + p256_b
       else curve_w (lval x) + p256_b - p256_p)"
  proof (cases "curve_w (lval x) + p256_b < 2 ^ 256")
    case True
    then show ?thesis using av by (simp add: r_def)
  next
    case False
    then have k: "k = 1" "lval e + 2 ^ 256 = curve_w (lval x) + p256_b" using av(3) by simp_all
    have "lval e < p256_p" using k(2) curve_w_less [of "lval x"] curve_constants(6,7) by linarith
    then have "lval (snd (p256_sub e SECP256r1_p)) + p256_p = lval e + 2 ^ 256"
      using p256_sub_val(3) [OF av(1) curve_constants(1)] curve_constants(2) by simp
    then have "lval r = curve_w (lval x) + p256_b - p256_p" using k by (simp add: r_def)
    then show ?thesis using False p256_sub_val(1) [OF av(1) curve_constants(1)] k(1) by (simp add: r_def)
  qed
  have "p256_is_valid_point x y = Some (p256_cmp y2 r = 0)"
    using c0 y2(1) x2(1) x3(1) add
    unfolding p256_is_valid_point_def Let_def d1_def [symmetric] d2_def [symmetric] d3_def [symmetric]
    by (simp add: Let_def r_def flip: d1_def d2_def d3_def)
  moreover have "p256_cmp y2 r = 0 \<longleftrightarrow> lval y ^ 2 mod p256_p = lval r"
    using p256_cmp_val [OF y2(2), of r] r y2(3) by (simp add: power2_eq_square)
  ultimately show ?thesis using True r by simp
qed

text \<open>
  C15. \<open>p256_is_valid_point\<close> always returns; it accepts exactly the pairs of nonzero reduced coordinates
  that satisfy the curve equation, less those whose right-hand side, before its last reduction, lies
  between the prime and \<open>2 ^ 256\<close>.
\<close>

theorem p256_is_valid_point_iff:
  assumes "length x = P256_NDIGITS" "length y = P256_NDIGITS"
  shows "p256_is_valid_point x y = Some
    (0 < lval x \<and> lval x < p256_p \<and> 0 < lval y \<and> lval y < p256_p \<and> on_curve (lval x) (lval y) \<and>
     \<not> (p256_p \<le> curve_w (lval x) + p256_b \<and> curve_w (lval x) + p256_b < 2 ^ 256))"
proof -
  define w where "w = curve_w (lval x) + p256_b"
  have w: "w < 2 * p256_p" using curve_w_less [of "lval x"] curve_constants(6) by (simp add: w_def)
  have l: "lval y ^ 2 mod p256_p < p256_p" using curve_constants(8) by simp
  have big: "w - p256_p < p256_p" "p256_p \<le> w \<Longrightarrow> w mod p256_p = w - p256_p"
    using w curve_constants(8) by (auto simp: le_mod_geq)
  have "lval y ^ 2 mod p256_p = (if w < 2 ^ 256 then w else w - p256_p) \<longleftrightarrow>
      lval y ^ 2 mod p256_p = w mod p256_p \<and> \<not> (p256_p \<le> w \<and> w < 2 ^ 256)"
    using l big curve_constants(7) by (cases "p256_p \<le> w") (auto simp: not_le)
  then show ?thesis
    using p256_is_valid_point_val [of x y] assms unfolding on_curve_w w_def [symmetric] P256_NDIGITS_def
    by auto
qed

text \<open>
  A quotient certifies a value of the curve polynomial: the equations below are multiplications of
  literals.
\<close>

lemma on_curve_cert:
  assumes "int x ^ 3 - 3 * int x + int p256_b - int y ^ 2 = k * int p256_p"
  shows "on_curve x y"
  unfolding on_curve_def using assms by (metis dvd_triv_right mod_eq_dvd_iff)

lemma curve_w_cert:
  assumes "int x ^ 3 - 3 * int x = k * int p256_p + int r" "r < p256_p"
  shows "curve_w x = r"
  using assms by (simp add: curve_w_def)

lemma p256_p_val: "p256_p = 115792089210356248762697446949407573530086143415290314195533631308867097853951" by (simp add: p256_p_def)

text \<open>The base point of the curve.\<close>

definition base_x :: "u32 list" where
  "base_x = [0xd898c296, 0xf4a13945, 0x2deb33a0, 0x77037d81, 0x63a440f2, 0xf8bce6e5, 0xe12c4247, 0x6b17d1f2]"
definition base_y :: "u32 list" where
  "base_y = [0x37bf51f5, 0xcbb64068, 0x6b315ece, 0x2bce3357, 0x7c0f9e16, 0x8ee7eb4a, 0xfe1a7f9b, 0x4fe342e2]"

lemma base_len: "length base_x = 8" "length base_y = 8"
  by (simp_all add: base_x_def base_y_def)

lemma base_val:
  "lval base_x = 48439561293906451759052585252797914202762949526041747995844080717082404635286"
  "lval base_y = 36134250956749795798585127919587881956611106672985015071877198253568414405109"
  by (simp_all add: base_x_def base_y_def)

lemma base_on_curve: "on_curve (lval base_x) (lval base_y)"
  by (rule on_curve_cert [where k = "981570988164258562257936101525215858910690391106138407341175333813841188485201771743408849884010754226965632845910189239885256093057339116530079505515608"])
    (simp add: base_val p256_p_val p256_b_def power3_eq_cube power2_eq_square)

lemma base_w: "curve_w (lval base_x) = 113574968753638445436278252752827808701954599996981576213559306564573420686661"
  by (rule curve_w_cert [where k = "981570988164258562257936101525215858910690391106138407341175333813841188485213047851311466389824052101081056224185355633114391872640022613030589137157487"])
    (simp_all add: base_val p256_p_val power3_eq_cube)

theorem p256_is_valid_point_iff_witness: "p256_is_valid_point base_x base_y = Some True"
  using p256_is_valid_point_iff [of base_x base_y] base_on_curve
  by (simp add: P256_NDIGITS_def base_w [unfolded base_val] base_val p256_p_val p256_b_def base_len)

definition missed_x :: "u32 list" where
  "missed_x = [0xa50bb96c, 0x20a9feb2, 0x7e11a9de, 0x3cbdd6b4, 0x09092bc4, 0x50f66362, 0xf60d05f7, 0x09e78d4e]"

lemma missed_val: "length missed_x = 8" "lval missed_x = 4479932584236123010133496826598814311995915216892401210293766552284834806124"
  by (simp_all add: missed_x_def)

lemma missed_on_curve: "on_curve (lval missed_x) 1"
  by (rule on_curve_cert [where k = "776489425920121346937014519767306898074978621084662289868351385466559243759436415001107670512065302900894835242868980793415272307402660020138350371642"])
    (simp add: missed_val p256_p_val p256_b_def power3_eq_cube)

lemma missed_w: "curve_w (lval missed_x) = 74733725485204106633371317169360305120971702399296588640698374994827630452661"
  by (rule curve_w_cert [where k = "776489425920121346937014519767306898074978621084662289868351385466559243759436415001107670512065302900894835242868980793415272307402660020138350371641"])
    (simp_all add: missed_val p256_p_val power3_eq_cube)

text \<open>
  C16. A point of the curve, with reduced nonzero coordinates, that the test rejects: the sum it compares is
  not reduced.
\<close>

theorem p256_is_valid_point_misses:
  "on_curve (lval missed_x) 1 \<and> lval missed_x < p256_p \<and>
    p256_is_valid_point missed_x (1 # replicate 7 0) = Some False"
  using missed_on_curve p256_is_valid_point_val [of missed_x "1 # replicate 7 0"]
  by (simp add: missed_w [unfolded missed_val] missed_val p256_p_val p256_b_def)

end
