(* ===== verification/P256_Scalar.thy ===== *)
theory P256_Scalar
  imports P256_Theorems P256_Curve
begin

text \<open>
  What the scalar multiplications of \<open>p256_ec.c\<close> are built from: masks that are all zeros or all ones, the
  selection of a table entry without branches, the conditional copies of \<open>accumulate\<close>, and the bits of a
  scalar that make an index.
\<close>

section \<open>Masks\<close>

lemma felem_ok_length: "felem_ok x \<Longrightarrow> length x = 9"
  by (simp add: felem_ok_def)

lemma copy_conditional_cases:
  assumes "length out = length inp"
  shows "copy_conditional out inp 0 = out" "copy_conditional out inp (- 1) = inp"
  using assms by (auto simp: copy_conditional_def xor.left_commute intro!: nth_equalityI)

lemma copy_point_cases:
  assumes "point_ok n" "point_ok p"
  shows "copy_point n p 0 = n" "copy_point n p (- 1) = p"
  using assms by (auto simp: copy_point_def point_ok_def felem_ok_length copy_conditional_cases split: prod.splits)

lemma less_16_cases:
  assumes "unat (x :: u32) < 16"
  shows "x \<in> {0, 1, 2, 3, 4, 5, 6, 7, 8, 9, 10, 11, 12, 13, 14, 15}"
proof -
  have "x = of_nat (unat x)" by simp
  moreover have "unat x \<in> {0, 1, 2, 3, 4, 5, 6, 7, 8, 9, 10, 11, 12, 13, 14, 15}"
    using assms unfolding insert_iff empty_iff by presburger
  ultimately show ?thesis by (elim insertE emptyE) simp_all
qed

lemma less_16_take_bit: "unat (x :: u32) < 16 \<longleftrightarrow> take_bit 4 x = x"
proof
  assume "unat x < 16"
  then have "unat (take_bit 4 x) = unat x" by (simp add: unsigned_take_bit_eq take_bit_nat_eq_self)
  then show "take_bit 4 x = x" by (simp only: word_unat_eq_iff)
next
  assume "take_bit 4 x = x"
  then have "unat x = take_bit 4 (unat x)" by (metis unsigned_take_bit_eq)
  also have "\<dots> < 2 ^ 4" by (rule take_bit_nat_less_exp)
  finally show "unat x < 16" by simp
qed

lemma xor_zero_iff: "x XOR y = 0 \<longleftrightarrow> x = (y :: u32)"
proof
  assume "x XOR y = 0"
  then have "(x XOR y) XOR y = y" by simp
  then show "x = y" by (simp add: xor.assoc)
qed simp

lemma index_mask_cases:
  assumes "unat (i :: u32) < 16" "unat index < 16"
  shows "index_mask i index = (if i = index then - 1 else 0)"
proof -
  define x where "x = i XOR index"
  have "take_bit 4 x = x" using assms by (simp add: x_def less_16_take_bit)
  then have "unat x < 16" by (simp only: less_16_take_bit)
  from less_16_cases [OF this]
  have "((x OR drop_bit 2 x) OR drop_bit 1 (x OR drop_bit 2 x)) AND 1 = (if x = 0 then 0 else 1)"
    by (elim insertE emptyE) simp_all
  moreover have "x = 0 \<longleftrightarrow> i = index"
    unfolding x_def by (rule xor_zero_iff)
  ultimately show ?thesis unfolding index_mask_def Let_def x_def [symmetric] by simp
qed

lemma index_mask_nat:
  assumes "n < 16" "unat index < 16"
  shows "index_mask (of_nat n) index = (if unat index = n then - 1 else 0)"
proof -
  have "unat (of_nat n :: u32) = n" using assms(1) by (simp add: unsigned_of_nat take_bit_nat_eq_self)
  then show ?thesis using index_mask_cases [of "of_nat n" index] assms by (metis word_unat_eq_iff)
qed

lemma all_ones_index: "unat (index :: u32) < 16 \<Longrightarrow> NON_ZERO_TO_ALL_ONES index = (if index = 0 then 0 else - 1)"
  using uint_less_iff [of index 16] by (intro all_ones_cases) simp

section \<open>Selection\<close>

lemma or_masked_cases:
  assumes "length out = 9" "9 \<le> length table"
  shows "or_masked out 0 table = out" "or_masked (replicate 9 0) (- 1) table = take 9 table"
  using assms by (auto simp: or_masked_def NLIMBS_def intro!: nth_equalityI)

text \<open>What one masked round makes of an output: the table entry, or nothing new.\<close>

definition picked :: "nat \<Rightarrow> nat \<Rightarrow> felem \<Rightarrow> felem" where
  "picked k n e = (if 1 \<le> k \<and> k \<le> n then e else replicate 9 0)"

lemma picked_step:
  assumes "9 \<le> length table" "length e = 9" "k = Suc n \<Longrightarrow> e = take 9 table"
  shows "or_masked (picked k n e) (if k = Suc n then - 1 else 0) table = picked k (Suc n) e"
  using assms by (auto simp: picked_def or_masked_cases)

lemma fold_upt_Suc: "fold f [1..<Suc (Suc n)] s = f (Suc n) (fold f [1..<Suc n] s)"
  by simp

lemma affine_fold:
  assumes "unat index < 16" "n \<le> 15" "18 * 15 \<le> length table"
  shows "fold (affine_step index) [1..<Suc n] ((replicate 9 0, replicate 9 0), table) =
    ((picked (unat index) n (take 9 (drop (18 * (unat index - 1)) table)),
      picked (unat index) n (take 9 (drop (18 * (unat index - 1) + 9) table))), drop (18 * n) table)"
  using assms(2)
proof (induction n)
  case (Suc n)
  have mk: "index_mask (of_nat (Suc n)) index = (if unat index = Suc n then - 1 else 0)"
    using Suc.prems assms(1) by (intro index_mask_nat) simp_all
  have IH: "fold (affine_step index) [1..<Suc n] ((replicate 9 0, replicate 9 0), table) =
    ((picked (unat index) n (take 9 (drop (18 * (unat index - 1)) table)),
      picked (unat index) n (take 9 (drop (18 * (unat index - 1) + 9) table))), drop (18 * n) table)" using Suc by simp
  show ?case
    unfolding fold_upt_Suc IH
    unfolding affine_step_def Let_def split_conv mk NLIMBS_def
    using Suc.prems assms(1,3) by (simp add: picked_step add.commute)
qed (auto simp: picked_def)

lemma jacobian_fold:
  assumes "unat index < 16" "n \<le> 15" "27 * 15 \<le> length table"
  shows "fold (jacobian_step index) [1..<Suc n] ((replicate 9 0, replicate 9 0, replicate 9 0), table) =
    ((picked (unat index) n (take 9 (drop (27 * (unat index - 1)) table)),
      picked (unat index) n (take 9 (drop (27 * (unat index - 1) + 9) table)),
      picked (unat index) n (take 9 (drop (27 * (unat index - 1) + 18) table))), drop (27 * n) table)"
  using assms(2)
proof (induction n)
  case (Suc n)
  have mk: "index_mask (of_nat (Suc n)) index = (if unat index = Suc n then - 1 else 0)"
    using Suc.prems assms(1) by (intro index_mask_nat) simp_all
  have IH: "fold (jacobian_step index) [1..<Suc n] ((replicate 9 0, replicate 9 0, replicate 9 0), table) =
    ((picked (unat index) n (take 9 (drop (27 * (unat index - 1)) table)),
      picked (unat index) n (take 9 (drop (27 * (unat index - 1) + 9) table)),
      picked (unat index) n (take 9 (drop (27 * (unat index - 1) + 18) table))), drop (27 * n) table)" using Suc by simp
  show ?case
    unfolding fold_upt_Suc IH
    unfolding jacobian_step_def Let_def split_conv mk NLIMBS_def
    using Suc.prems assms(1,3) by (simp add: picked_step add.commute)
qed (auto simp: picked_def)

lemma upt_16: "[1..<16] = [1..<Suc 15]" by simp

lemma select_affine_val:
  assumes "unat index < 16" "18 * 15 \<le> length table"
  shows "select_affine_point table index =
    (if index = 0 then (replicate 9 0, replicate 9 0)
     else (take 9 (drop (18 * (unat index - 1)) table), take 9 (drop (18 * (unat index - 1) + 9) table)))"
proof -
  have "1 \<le> unat index" if "index \<noteq> 0" using that unat_eq_zero [of index] by linarith
  then show ?thesis
    unfolding select_affine_point_def NLIMBS_def upt_16 affine_fold [OF assms(1) order.refl assms(2)]
    using assms(1) by (auto simp: picked_def)
qed

text \<open>A table of points, stored limb after limb.\<close>

lemma flatten_parts:
  assumes "\<forall>P \<in> set pc. point_ok P" "k < length pc"
  shows "(take 9 (drop (27 * k) (flatten_table pc)), take 9 (drop (27 * k + 9) (flatten_table pc)),
    take 9 (drop (27 * k + 18) (flatten_table pc))) = pc ! k"
  using assms
proof (induction pc arbitrary: k)
  case (Cons P pc)
  obtain x y z where P: "P = (x, y, z)" by (cases P)
  have l: "length x = 9" "length y = 9" "length z = 9" using Cons.prems(1) by (auto simp: P point_ok_def felem_ok_length)
  show ?case
  proof (cases k)
    case 0
    then show ?thesis using l by (simp add: flatten_table_def P)
  next
    case (Suc j)
    then show ?thesis using Cons.IH [of j] Cons.prems l
      by (simp add: flatten_table_def P add.commute [of 9] add.commute [of 18])
  qed
qed simp

lemma length_flatten: "\<forall>P \<in> set pc. point_ok P \<Longrightarrow> length (flatten_table pc) = 27 * length pc"
  by (induction pc) (auto simp: flatten_table_def point_ok_def felem_ok_length)

lemma select_jacobian_val:
  assumes "unat index < 16" "\<forall>P \<in> set pc. point_ok P" "length pc = 16" "pc ! 0 = zero_point"
  shows "select_jacobian_point (flatten_table pc) index = pc ! unat index"
proof (cases "index = 0")
  case True
  then show ?thesis
    unfolding select_jacobian_point_def NLIMBS_def upt_16
    using jacobian_fold [OF assms(1) order.refl, of "drop (3 * 9) (flatten_table pc)"] length_flatten [OF assms(2)] assms(3,4)
    by (simp add: picked_def zero_point_def NLIMBS_def)
next
  case False
  then have k: "1 \<le> unat index" using unat_eq_zero [of index] by linarith
  then have "27 * (unat index - 1) + 27 = 27 * unat index" by linarith
  then show ?thesis
    unfolding select_jacobian_point_def NLIMBS_def upt_16
    using jacobian_fold [OF assms(1) order.refl, of "drop (3 * 9) (flatten_table pc)"] length_flatten [OF assms(2)] assms(1,3)
      k flatten_parts [OF assms(2), of "unat index"]
    by (simp add: picked_def add.commute add.left_commute)
qed

section \<open>Bits of the scalar\<close>

lemma lval_bit:
  "k < 32 * length xs \<Longrightarrow> (lval xs div 2 ^ k) mod 2 = (unat (xs ! (k div 32)) div 2 ^ (k mod 32)) mod 2"
proof (induction xs arbitrary: k)
  case (Cons x xs)
  show ?case
  proof (cases "k < 32")
    case True
    then have "2 ^ 32 * lval xs = 2 ^ k * (2 ^ (32 - k) * lval xs)" by (simp flip: power_add mult.assoc)
    then have "lval (x # xs) div 2 ^ k = unat x div 2 ^ k + 2 ^ (32 - k) * lval xs" by (simp only: lval.simps) simp
    moreover have "even ((2 :: nat) ^ (32 - k) * lval xs)" using True by simp
    ultimately show ?thesis using True by (auto simp: mod2_eq_if)
  next
    case False
    then obtain j where k: "k = 32 + j" by (metis add_diff_inverse_nat)
    have "lval (x # xs) div 2 ^ 32 = lval xs" using u32_lt [of x] by simp
    then have "lval (x # xs) div 2 ^ k = lval xs div 2 ^ j" unfolding k power_add div_mult2_eq by (simp only:)
    moreover have "(32 + j) div 32 = Suc (j div 32)" by simp
    ultimately show ?thesis using Cons.IH [of j] Cons.prems by (simp add: k)
  qed
qed simp

lemma and_1_u32: "unat ((x :: u32) AND 1) = unat x mod 2"
  by (simp add: and_one_eq unat_mod)

lemma get_bit_val:
  assumes "length s = 8" "b < 256"
  shows "unat (p256_get_bit s b) = (lval s div 2 ^ b) mod 2"
  using lval_bit [of b s] assms by (simp add: p256_get_bit_def and_1_u32 unat_drop_bit)

lemma bit_word:
  assumes "length s = 8" "b < 256"
  shows "p256_get_bit s b \<in> {0, 1}"
proof -
  define w where "w = p256_get_bit s b"
  have "unat w < 2" using get_bit_val [OF assms] by (simp add: w_def)
  then have "unat w = 0 \<or> unat w = 1" by linarith
  then have "w = 0 \<or> w = 1" by (auto simp: word_unat_eq_iff)
  then show ?thesis by (simp add: w_def)
qed

lemma four_bits:
  assumes "a \<in> {0, 1}" "b \<in> {0, 1}" "c \<in> {0, 1}" "d \<in> {0, 1 :: u32}"
  shows "unat (push_bit 3 a OR push_bit 2 b OR push_bit 1 c OR d) = 8 * unat a + 4 * unat b + 2 * unat c + unat d"
  using assms by (elim insertE emptyE) simp_all

lemma mod_16: "(n :: nat) mod 16 = 8 * (n div 8 mod 2) + 4 * (n div 4 mod 2) + 2 * (n div 2 mod 2) + n mod 2"
  using mod_mult2_eq [of n 2 8] mod_mult2_eq [of "n div 2" 2 4] mod_mult2_eq [of "n div 4" 2 2]
  by (simp add: div_mult2_eq [symmetric])

lemma window_index_val:
  assumes "length s = 8" "i \<le> 252"
  shows "unat (window_index s i) = (lval s div 2 ^ (252 - i)) mod 16"
proof -
  let ?N = "lval s div 2 ^ (252 - i)"
  have b: "unat (p256_get_bit s (252 - i + k)) = ?N div 2 ^ k mod 2" if "k < 4" for k
  proof -
    have "252 - i + k < 256" using that by linarith
    then show ?thesis using get_bit_val [OF assms(1), of "252 - i + k"] by (simp add: power_add div_mult2_eq)
  qed
  have e: "255 - i - 0 = 252 - i + 3" "255 - i - 1 = 252 - i + 2" "255 - i - 2 = 252 - i + 1" "255 - i - 3 = 252 - i + 0"
    using assms(2) by linarith+
  have w: "p256_get_bit s (252 - i + k) \<in> {0, 1}" if "k < 4" for k using that by (intro bit_word assms(1)) linarith
  have k: "3 < (4 :: nat)" "2 < (4 :: nat)" "1 < (4 :: nat)" "0 < (4 :: nat)" by simp_all
  show ?thesis
    unfolding window_index_def e four_bits [OF w [OF k(1)] w [OF k(2)] w [OF k(3)] w [OF k(4)]] b [OF k(1)] b [OF k(2)] b [OF k(3)] b [OF k(4)]
    by (subst mod_16 [of ?N]) simp
qed

end
