(* ===== verification/P256_Prime.thy ===== *)
theory P256_Prime
  imports Main
begin

text \<open>
  The prime of the curve is one. Fermat's little theorem for primes of any size, and Pocklington's criterion, which
  reduces the primality of \<open>n\<close> to that of a few large prime factors of \<open>n - 1\<close> and two powers modulo \<open>n\<close>.
\<close>

section \<open>Primes\<close>

definition is_prime :: "nat \<Rightarrow> bool" where
  "is_prime n \<longleftrightarrow> 1 < n \<and> (\<forall>d. d dvd n \<longrightarrow> d = 1 \<or> d = n)"

lemma is_prime_coprime: "is_prime p \<Longrightarrow> \<not> p dvd a \<Longrightarrow> coprime a p"
  unfolding is_prime_def by (metis coprime_iff_gcd_eq_1 gcd_dvd1 gcd_dvd2)

lemma least_divisor:
  assumes "1 < (n :: nat)"
  obtains r where "is_prime r" "r dvd n" "is_prime n \<or> r * r \<le> n"
proof -
  define r where "r = (LEAST d. 1 < d \<and> d dvd n)"
  have r: "1 < r \<and> r dvd n" unfolding r_def by (rule LeastI [of _ n]) (use assms in simp)
  have least: "r \<le> d" if "1 < d" "d dvd n" for d unfolding r_def using that by (intro Least_le) simp
  have p: "is_prime r"
    unfolding is_prime_def
  proof (intro conjI allI impI)
    fix d assume "d dvd r"
    then have "d dvd n" using r dvd_trans by blast
    then have l: "1 < d \<Longrightarrow> r \<le> d" using least by simp
    have u: "d \<le> r" using \<open>d dvd r\<close> r by (intro dvd_imp_le) simp_all
    have z: "d \<noteq> 0" using \<open>d dvd r\<close> r by (metis dvd_0_left_iff not_less_zero)
    show "d = 1 \<or> d = r"
    proof (cases "1 < d")
      case True
      then show ?thesis using l u by (metis le_antisym)
    next
      case False
      then show ?thesis using z by (metis less_one linorder_neqE_nat)
    qed
  qed (use r in simp)
  obtain k where k: "n = r * k" using r by (auto elim: dvdE)
  have "is_prime n \<or> r * r \<le> n"
  proof (cases "k \<le> 1")
    case True
    then have "n = r" using k assms by (cases "k = 0") auto
    then show ?thesis using p by simp
  next
    case False
    then have "r \<le> k" using least [of k] k by simp
    then show ?thesis using k by simp
  qed
  then show ?thesis using that p r by blast
qed

section \<open>Fermat\<close>

lemma prime_mult_inj:
  assumes "is_prime p" "\<not> p dvd a"
  shows "inj_on (\<lambda>x. (a * x) mod p) {1..<p}"
proof (rule inj_onI)
  fix x y
  assume xy: "x \<in> {1..<p}" "y \<in> {1..<p}" "(a * x) mod p = (a * y) mod p"
  have c: "coprime p a" using is_prime_coprime [OF assms] by (simp add: coprime_commute)
  have "int p dvd int (a * x) - int (a * y)" using xy(3) by (metis mod_eq_dvd_iff zmod_int)
  then have "int p dvd int a * (int x - int y)" by (simp add: right_diff_distrib)
  then have "int p dvd int x - int y" using c by (simp add: coprime_dvd_mult_right_iff)
  moreover have "\<bar>int x - int y\<bar> < int p" using xy(1,2) by auto
  ultimately show "x = y" using zdvd_not_zless [of "\<bar>int x - int y\<bar>" "int p"] by auto
qed

lemma prime_mult_image:
  assumes "is_prime p" "\<not> p dvd a"
  shows "(\<lambda>x. (a * x) mod p) ` {1..<p} = {1..<p}"
proof (rule card_subset_eq)
  show "(\<lambda>x. (a * x) mod p) ` {1..<p} \<subseteq> {1..<p}"
  proof
    fix y assume "y \<in> (\<lambda>x. (a * x) mod p) ` {1..<p}"
    then obtain x where x: "y = (a * x) mod p" "x \<in> {1..<p}" by blast
    have c: "coprime p a" using is_prime_coprime [OF assms] by (simp add: coprime_commute)
    have "\<not> p dvd x" using x(2) by (auto dest: dvd_imp_le)
    then have "\<not> p dvd a * x" using c by (simp add: coprime_dvd_mult_right_iff)
    then show "y \<in> {1..<p}" using x assms(1) by (auto simp: is_prime_def dvd_eq_mod_eq_0)
  qed
qed (use card_image [OF prime_mult_inj [OF assms]] in simp_all)

lemma prod_mod: "finite A \<Longrightarrow> (\<Prod>x\<in>A. f x mod p) mod p = (\<Prod>x\<in>A. f x) mod (p :: nat)"
  by (induction A rule: finite_induct) (simp_all, metis mod_mult_eq mod_mult_left_eq mod_mult_right_eq)

lemma prime_dvd_prod: "is_prime p \<Longrightarrow> finite A \<Longrightarrow> \<forall>x \<in> A. \<not> p dvd x \<Longrightarrow> coprime (\<Prod>x\<in>A. x) p"
  by (rule prod_coprime_left) (simp add: is_prime_coprime)

lemma fermat:
  assumes "is_prime p" "\<not> p dvd a"
  shows "a ^ (p - 1) mod p = 1"
proof -
  let ?S = "{1..<p}"
  have "(\<Prod>x\<in>?S. x) = (\<Prod>x\<in>?S. (a * x) mod p)"
    using prod.reindex [OF prime_mult_inj [OF assms], of "\<lambda>x. x"] unfolding prime_mult_image [OF assms] by simp
  then have "(\<Prod>x\<in>?S. x) mod p = (\<Prod>x\<in>?S. a * x) mod p" using prod_mod [of ?S "\<lambda>x. a * x" p] by simp
  also have "(\<Prod>x\<in>?S. a * x) = a ^ (p - 1) * (\<Prod>x\<in>?S. x)" by (simp add: prod.distrib)
  finally have e: "(\<Prod>x\<in>?S. x) mod p = (a ^ (p - 1) * (\<Prod>x\<in>?S. x)) mod p" .
  define P where "P = (\<Prod>x\<in>?S. x)"
  have "\<forall>x \<in> ?S. \<not> p dvd x" by (auto dest: dvd_imp_le)
  then have c: "coprime p P" using prime_dvd_prod [OF assms(1), of ?S] by (simp add: P_def coprime_commute)
  have "int p dvd int (a ^ (p - 1) * P) - int P" using e [folded P_def] by (metis mod_eq_dvd_iff zmod_int)
  then have "int p dvd (int (a ^ (p - 1)) - 1) * int P" by (simp add: left_diff_distrib)
  then have "int p dvd int (a ^ (p - 1)) - 1" using c by (simp add: coprime_dvd_mult_left_iff)
  then have "int (a ^ (p - 1)) mod int p = 1 mod int p" by (simp add: mod_eq_dvd_iff)
  then have "a ^ (p - 1) mod p = 1 mod p" by (metis of_nat_1 of_nat_eq_iff zmod_int)
  then show ?thesis using assms(1) by (simp add: is_prime_def)
qed

section \<open>Pocklington's criterion\<close>

lemma power_gcd_one:
  assumes "(a :: nat) ^ u mod r = 1" "a ^ v mod r = 1"
  shows "a ^ gcd u v mod r = 1"
  using assms
proof (induction u v rule: gcd_nat_induct)
  case (step u v)
  have "a ^ u mod r = (a ^ v) ^ (u div v) * a ^ (u mod v) mod r"
    by (metis mult_div_mod_eq power_add power_mult)
  also have "\<dots> = ((a ^ v mod r) ^ (u div v) mod r) * a ^ (u mod v) mod r"
    by (simp add: power_mod mod_mult_left_eq)
  finally have "a ^ (u mod v) mod r = 1" using step.prems by (cases "r = 1") auto
  then show ?case using step.IH step.prems(2) by (simp add: gcd_red_nat [of u v])
qed simp

lemma pocklington_divisor:
  assumes "is_prime q" "n = m * q + 1" "2 ^ m mod n = b" "2 ^ u mod n = 1" "n = u + 1" "((b + (n - 1)) * i) mod n = 1"
    and "is_prime r" "r dvd n"
  shows "q dvd r - 1"
proof (rule ccontr)
  assume "\<not> q dvd r - 1"
  then have c: "coprime (r - 1) q" using is_prime_coprime [OF assms(1)] by simp
  have r: "1 < r" using assms(7) by (simp add: is_prime_def)
  have m: "0 < m" using assms(2,8) r by (cases m) auto
  let ?a = "2 :: nat"
  have "?a ^ (m * q) mod n = 1" using assms(2,4,5) by simp
  then have 1: "?a ^ (m * q) mod r = 1" using assms(8) r by (metis mod_mod_cancel mod_less)
  have "\<not> r dvd ?a"
  proof
    assume "r dvd ?a"
    moreover have "0 < m * q" using m assms(1) by (simp add: is_prime_def)
    ultimately have "r dvd ?a ^ (m * q)" by (meson dvd_power dvd_trans)
    then show False using 1 r by (simp add: dvd_eq_mod_eq_0)
  qed
  then have "?a ^ (r - 1) mod r = 1" using fermat [OF assms(7)] by simp
  from power_gcd_one [OF this 1] have g: "?a ^ gcd (r - 1) m mod r = 1"
    using c by (simp add: gcd_mult_right_right_cancel)
  obtain k where k: "m = gcd (r - 1) m * k" by (metis dvdE gcd_dvd2)
  have "(2 :: nat) ^ m mod r = (?a ^ gcd (r - 1) m mod r) ^ k mod r" by (subst k) (simp only: power_mult power_mod)
  then have "(2 :: nat) ^ m mod r = 1" using g r by simp
  then have "b mod r = 1" using assms(3,8) by (metis mod_mod_cancel)
  moreover have "(n - 1 + 1) mod r = 0" using assms(2,8) by simp
  ultimately have "(b + (n - 1)) mod r = 0" by (subst mod_add_left_eq [symmetric]) (simp add: add.commute)
  then have "((b + (n - 1)) * i) mod r = 0" by (metis mod_mult_left_eq mult_zero_left mod_0)
  moreover have "((b + (n - 1)) * i) mod r = 1 mod r" using assms(6,8) by (metis mod_mod_cancel)
  ultimately show False using r by simp
qed

lemma pocklington:
  assumes "1 < n" "\<And>r. is_prime r \<Longrightarrow> r dvd n \<Longrightarrow> F dvd r - 1" "n < F * F"
  shows "is_prime n"
proof (rule least_divisor [OF assms(1)])
  fix r
  assume r: "is_prime r" "r dvd n" "is_prime n \<or> r * r \<le> n"
  have "F \<le> r - 1" using assms(2) [OF r(1,2)] r(1) by (intro dvd_imp_le) (auto simp: is_prime_def)
  then have "F * F \<le> r * r" by (intro mult_mono) simp_all
  then show ?thesis using r(3) assms(3) by linarith
qed

lemma trial_division:
  assumes "1 < n" "list_all (\<lambda>d. n mod d \<noteq> 0) [2..<k]" "n < k * k"
  shows "is_prime n"
proof (rule least_divisor [OF assms(1)])
  fix r
  assume r: "is_prime r" "r dvd n" "is_prime n \<or> r * r \<le> n"
  show ?thesis
  proof (rule ccontr)
    assume "\<not> ?thesis"
    then have "r * r < k * k" using r(3) assms(3) by linarith
    then have "r < k" by (meson linorder_not_less mult_le_mono)
    moreover have "2 \<le> r" using r(1) by (simp add: is_prime_def)
    ultimately have "n mod r \<noteq> 0" using assms(2) \<open>r < k\<close> by (simp add: list_all_iff)
    then show False using r(2) by (simp add: dvd_eq_mod_eq_0)
  qed
qed

section \<open>Powers of two\<close>

text \<open>
  A chain of squarings modulo \<open>n\<close>: each step has the next bit of the exponent, and the quotient and the remainder,
  so that it is checked by one multiplication.
\<close>

fun chain :: "nat \<Rightarrow> nat \<Rightarrow> nat \<Rightarrow> (bool \<times> nat \<times> nat) list \<Rightarrow> nat \<Rightarrow> nat \<Rightarrow> bool" where
  "chain n e x [] e' x' \<longleftrightarrow> e = e' \<and> x = x'"
| "chain n e x ((b, q, y) # l) e' x' \<longleftrightarrow>
     (if b then 2 else 1) * x ^ 2 = q * n + y \<and> chain n (2 * e + (if b then 1 else 0)) y l e' x'"

lemma chain_step:
  assumes "2 ^ e mod n = x mod n" "(if b then 2 else 1) * x ^ 2 = q * n + y"
  shows "2 ^ (2 * e + (if b then 1 else 0)) mod n = y mod (n :: nat)"
proof -
  have "(2 :: nat) ^ (2 * e + (if b then 1 else 0)) = (if b then 2 else 1) * (2 ^ e) ^ 2" by (simp add: power_mult mult.commute [of 2 e])
  also have "\<dots> mod n = (if b then 2 else 1) * (x ^ 2) mod n" using assms(1) by (metis mod_mult_right_eq power_mod)
  also have "\<dots> = y mod n" unfolding assms(2) by simp
  finally show ?thesis .
qed

lemma chain_mod: "2 ^ e mod n = x mod n \<Longrightarrow> chain n e x l e' x' \<Longrightarrow> 2 ^ e' mod n = x' mod (n :: nat)"
proof (induction n e x l e' x' rule: chain.induct)
  case (2 n e x b q y l e' x')
  then show ?case using chain_step [of e n x b q y] by simp
qed simp

lemma chain_power:
  assumes "2 ^ e mod n = x" "chain n e x l e' x'" "x' < n"
  shows "2 ^ e' mod n = (x' :: nat)"
  using chain_mod [of e n x l e' x'] assms by auto

text \<open>A multiple of the prime of the curve is a sum of shifts.\<close>

lemma chain_p:
  "z = q * 115792089210356248762697446949407573530086143415290314195533631308867097853951 + (y :: nat) \<longleftrightarrow>
   z + (q * 26959946667150639794667015087019630673637144422540572481103610249216 + q) = q * 115792089237316195423570985008687907853269984665640564039457584007913129639936 + (q * 6277101735386680763835789423207666416102355444464034512896 + (q * 79228162514264337593543950336 + y))"
  by simp linarith

text \<open>Addition of binary numerals by three bits at a time, which makes the checks below faster.\<close>

lemma add_num_3:
  "num.Bit0 (num.Bit0 (num.Bit0 m)) + num.Bit0 (num.Bit0 (num.Bit0 n)) = num.Bit0 (num.Bit0 (num.Bit0 (m + n)))"
  "num.Bit0 (num.Bit0 (num.Bit0 m)) + num.Bit1 (num.Bit0 (num.Bit0 n)) = num.Bit1 (num.Bit0 (num.Bit0 (m + n)))"
  "num.Bit0 (num.Bit0 (num.Bit0 m)) + num.Bit0 (num.Bit1 (num.Bit0 n)) = num.Bit0 (num.Bit1 (num.Bit0 (m + n)))"
  "num.Bit0 (num.Bit0 (num.Bit0 m)) + num.Bit1 (num.Bit1 (num.Bit0 n)) = num.Bit1 (num.Bit1 (num.Bit0 (m + n)))"
  "num.Bit0 (num.Bit0 (num.Bit0 m)) + num.Bit0 (num.Bit0 (num.Bit1 n)) = num.Bit0 (num.Bit0 (num.Bit1 (m + n)))"
  "num.Bit0 (num.Bit0 (num.Bit0 m)) + num.Bit1 (num.Bit0 (num.Bit1 n)) = num.Bit1 (num.Bit0 (num.Bit1 (m + n)))"
  "num.Bit0 (num.Bit0 (num.Bit0 m)) + num.Bit0 (num.Bit1 (num.Bit1 n)) = num.Bit0 (num.Bit1 (num.Bit1 (m + n)))"
  "num.Bit0 (num.Bit0 (num.Bit0 m)) + num.Bit1 (num.Bit1 (num.Bit1 n)) = num.Bit1 (num.Bit1 (num.Bit1 (m + n)))"
  "num.Bit1 (num.Bit0 (num.Bit0 m)) + num.Bit0 (num.Bit0 (num.Bit0 n)) = num.Bit1 (num.Bit0 (num.Bit0 (m + n)))"
  "num.Bit1 (num.Bit0 (num.Bit0 m)) + num.Bit1 (num.Bit0 (num.Bit0 n)) = num.Bit0 (num.Bit1 (num.Bit0 (m + n)))"
  "num.Bit1 (num.Bit0 (num.Bit0 m)) + num.Bit0 (num.Bit1 (num.Bit0 n)) = num.Bit1 (num.Bit1 (num.Bit0 (m + n)))"
  "num.Bit1 (num.Bit0 (num.Bit0 m)) + num.Bit1 (num.Bit1 (num.Bit0 n)) = num.Bit0 (num.Bit0 (num.Bit1 (m + n)))"
  "num.Bit1 (num.Bit0 (num.Bit0 m)) + num.Bit0 (num.Bit0 (num.Bit1 n)) = num.Bit1 (num.Bit0 (num.Bit1 (m + n)))"
  "num.Bit1 (num.Bit0 (num.Bit0 m)) + num.Bit1 (num.Bit0 (num.Bit1 n)) = num.Bit0 (num.Bit1 (num.Bit1 (m + n)))"
  "num.Bit1 (num.Bit0 (num.Bit0 m)) + num.Bit0 (num.Bit1 (num.Bit1 n)) = num.Bit1 (num.Bit1 (num.Bit1 (m + n)))"
  "num.Bit1 (num.Bit0 (num.Bit0 m)) + num.Bit1 (num.Bit1 (num.Bit1 n)) = num.Bit0 (num.Bit0 (num.Bit0 (m + n + num.One)))"
  "num.Bit0 (num.Bit1 (num.Bit0 m)) + num.Bit0 (num.Bit0 (num.Bit0 n)) = num.Bit0 (num.Bit1 (num.Bit0 (m + n)))"
  "num.Bit0 (num.Bit1 (num.Bit0 m)) + num.Bit1 (num.Bit0 (num.Bit0 n)) = num.Bit1 (num.Bit1 (num.Bit0 (m + n)))"
  "num.Bit0 (num.Bit1 (num.Bit0 m)) + num.Bit0 (num.Bit1 (num.Bit0 n)) = num.Bit0 (num.Bit0 (num.Bit1 (m + n)))"
  "num.Bit0 (num.Bit1 (num.Bit0 m)) + num.Bit1 (num.Bit1 (num.Bit0 n)) = num.Bit1 (num.Bit0 (num.Bit1 (m + n)))"
  "num.Bit0 (num.Bit1 (num.Bit0 m)) + num.Bit0 (num.Bit0 (num.Bit1 n)) = num.Bit0 (num.Bit1 (num.Bit1 (m + n)))"
  "num.Bit0 (num.Bit1 (num.Bit0 m)) + num.Bit1 (num.Bit0 (num.Bit1 n)) = num.Bit1 (num.Bit1 (num.Bit1 (m + n)))"
  "num.Bit0 (num.Bit1 (num.Bit0 m)) + num.Bit0 (num.Bit1 (num.Bit1 n)) = num.Bit0 (num.Bit0 (num.Bit0 (m + n + num.One)))"
  "num.Bit0 (num.Bit1 (num.Bit0 m)) + num.Bit1 (num.Bit1 (num.Bit1 n)) = num.Bit1 (num.Bit0 (num.Bit0 (m + n + num.One)))"
  "num.Bit1 (num.Bit1 (num.Bit0 m)) + num.Bit0 (num.Bit0 (num.Bit0 n)) = num.Bit1 (num.Bit1 (num.Bit0 (m + n)))"
  "num.Bit1 (num.Bit1 (num.Bit0 m)) + num.Bit1 (num.Bit0 (num.Bit0 n)) = num.Bit0 (num.Bit0 (num.Bit1 (m + n)))"
  "num.Bit1 (num.Bit1 (num.Bit0 m)) + num.Bit0 (num.Bit1 (num.Bit0 n)) = num.Bit1 (num.Bit0 (num.Bit1 (m + n)))"
  "num.Bit1 (num.Bit1 (num.Bit0 m)) + num.Bit1 (num.Bit1 (num.Bit0 n)) = num.Bit0 (num.Bit1 (num.Bit1 (m + n)))"
  "num.Bit1 (num.Bit1 (num.Bit0 m)) + num.Bit0 (num.Bit0 (num.Bit1 n)) = num.Bit1 (num.Bit1 (num.Bit1 (m + n)))"
  "num.Bit1 (num.Bit1 (num.Bit0 m)) + num.Bit1 (num.Bit0 (num.Bit1 n)) = num.Bit0 (num.Bit0 (num.Bit0 (m + n + num.One)))"
  "num.Bit1 (num.Bit1 (num.Bit0 m)) + num.Bit0 (num.Bit1 (num.Bit1 n)) = num.Bit1 (num.Bit0 (num.Bit0 (m + n + num.One)))"
  "num.Bit1 (num.Bit1 (num.Bit0 m)) + num.Bit1 (num.Bit1 (num.Bit1 n)) = num.Bit0 (num.Bit1 (num.Bit0 (m + n + num.One)))"
  "num.Bit0 (num.Bit0 (num.Bit1 m)) + num.Bit0 (num.Bit0 (num.Bit0 n)) = num.Bit0 (num.Bit0 (num.Bit1 (m + n)))"
  "num.Bit0 (num.Bit0 (num.Bit1 m)) + num.Bit1 (num.Bit0 (num.Bit0 n)) = num.Bit1 (num.Bit0 (num.Bit1 (m + n)))"
  "num.Bit0 (num.Bit0 (num.Bit1 m)) + num.Bit0 (num.Bit1 (num.Bit0 n)) = num.Bit0 (num.Bit1 (num.Bit1 (m + n)))"
  "num.Bit0 (num.Bit0 (num.Bit1 m)) + num.Bit1 (num.Bit1 (num.Bit0 n)) = num.Bit1 (num.Bit1 (num.Bit1 (m + n)))"
  "num.Bit0 (num.Bit0 (num.Bit1 m)) + num.Bit0 (num.Bit0 (num.Bit1 n)) = num.Bit0 (num.Bit0 (num.Bit0 (m + n + num.One)))"
  "num.Bit0 (num.Bit0 (num.Bit1 m)) + num.Bit1 (num.Bit0 (num.Bit1 n)) = num.Bit1 (num.Bit0 (num.Bit0 (m + n + num.One)))"
  "num.Bit0 (num.Bit0 (num.Bit1 m)) + num.Bit0 (num.Bit1 (num.Bit1 n)) = num.Bit0 (num.Bit1 (num.Bit0 (m + n + num.One)))"
  "num.Bit0 (num.Bit0 (num.Bit1 m)) + num.Bit1 (num.Bit1 (num.Bit1 n)) = num.Bit1 (num.Bit1 (num.Bit0 (m + n + num.One)))"
  "num.Bit1 (num.Bit0 (num.Bit1 m)) + num.Bit0 (num.Bit0 (num.Bit0 n)) = num.Bit1 (num.Bit0 (num.Bit1 (m + n)))"
  "num.Bit1 (num.Bit0 (num.Bit1 m)) + num.Bit1 (num.Bit0 (num.Bit0 n)) = num.Bit0 (num.Bit1 (num.Bit1 (m + n)))"
  "num.Bit1 (num.Bit0 (num.Bit1 m)) + num.Bit0 (num.Bit1 (num.Bit0 n)) = num.Bit1 (num.Bit1 (num.Bit1 (m + n)))"
  "num.Bit1 (num.Bit0 (num.Bit1 m)) + num.Bit1 (num.Bit1 (num.Bit0 n)) = num.Bit0 (num.Bit0 (num.Bit0 (m + n + num.One)))"
  "num.Bit1 (num.Bit0 (num.Bit1 m)) + num.Bit0 (num.Bit0 (num.Bit1 n)) = num.Bit1 (num.Bit0 (num.Bit0 (m + n + num.One)))"
  "num.Bit1 (num.Bit0 (num.Bit1 m)) + num.Bit1 (num.Bit0 (num.Bit1 n)) = num.Bit0 (num.Bit1 (num.Bit0 (m + n + num.One)))"
  "num.Bit1 (num.Bit0 (num.Bit1 m)) + num.Bit0 (num.Bit1 (num.Bit1 n)) = num.Bit1 (num.Bit1 (num.Bit0 (m + n + num.One)))"
  "num.Bit1 (num.Bit0 (num.Bit1 m)) + num.Bit1 (num.Bit1 (num.Bit1 n)) = num.Bit0 (num.Bit0 (num.Bit1 (m + n + num.One)))"
  "num.Bit0 (num.Bit1 (num.Bit1 m)) + num.Bit0 (num.Bit0 (num.Bit0 n)) = num.Bit0 (num.Bit1 (num.Bit1 (m + n)))"
  "num.Bit0 (num.Bit1 (num.Bit1 m)) + num.Bit1 (num.Bit0 (num.Bit0 n)) = num.Bit1 (num.Bit1 (num.Bit1 (m + n)))"
  "num.Bit0 (num.Bit1 (num.Bit1 m)) + num.Bit0 (num.Bit1 (num.Bit0 n)) = num.Bit0 (num.Bit0 (num.Bit0 (m + n + num.One)))"
  "num.Bit0 (num.Bit1 (num.Bit1 m)) + num.Bit1 (num.Bit1 (num.Bit0 n)) = num.Bit1 (num.Bit0 (num.Bit0 (m + n + num.One)))"
  "num.Bit0 (num.Bit1 (num.Bit1 m)) + num.Bit0 (num.Bit0 (num.Bit1 n)) = num.Bit0 (num.Bit1 (num.Bit0 (m + n + num.One)))"
  "num.Bit0 (num.Bit1 (num.Bit1 m)) + num.Bit1 (num.Bit0 (num.Bit1 n)) = num.Bit1 (num.Bit1 (num.Bit0 (m + n + num.One)))"
  "num.Bit0 (num.Bit1 (num.Bit1 m)) + num.Bit0 (num.Bit1 (num.Bit1 n)) = num.Bit0 (num.Bit0 (num.Bit1 (m + n + num.One)))"
  "num.Bit0 (num.Bit1 (num.Bit1 m)) + num.Bit1 (num.Bit1 (num.Bit1 n)) = num.Bit1 (num.Bit0 (num.Bit1 (m + n + num.One)))"
  "num.Bit1 (num.Bit1 (num.Bit1 m)) + num.Bit0 (num.Bit0 (num.Bit0 n)) = num.Bit1 (num.Bit1 (num.Bit1 (m + n)))"
  "num.Bit1 (num.Bit1 (num.Bit1 m)) + num.Bit1 (num.Bit0 (num.Bit0 n)) = num.Bit0 (num.Bit0 (num.Bit0 (m + n + num.One)))"
  "num.Bit1 (num.Bit1 (num.Bit1 m)) + num.Bit0 (num.Bit1 (num.Bit0 n)) = num.Bit1 (num.Bit0 (num.Bit0 (m + n + num.One)))"
  "num.Bit1 (num.Bit1 (num.Bit1 m)) + num.Bit1 (num.Bit1 (num.Bit0 n)) = num.Bit0 (num.Bit1 (num.Bit0 (m + n + num.One)))"
  "num.Bit1 (num.Bit1 (num.Bit1 m)) + num.Bit0 (num.Bit0 (num.Bit1 n)) = num.Bit1 (num.Bit1 (num.Bit0 (m + n + num.One)))"
  "num.Bit1 (num.Bit1 (num.Bit1 m)) + num.Bit1 (num.Bit0 (num.Bit1 n)) = num.Bit0 (num.Bit0 (num.Bit1 (m + n + num.One)))"
  "num.Bit1 (num.Bit1 (num.Bit1 m)) + num.Bit0 (num.Bit1 (num.Bit1 n)) = num.Bit1 (num.Bit0 (num.Bit1 (m + n + num.One)))"
  "num.Bit1 (num.Bit1 (num.Bit1 m)) + num.Bit1 (num.Bit1 (num.Bit1 n)) = num.Bit0 (num.Bit1 (num.Bit1 (m + n + num.One)))"
  "num.One + num.Bit0 (num.Bit0 (num.Bit0 n)) = num.Bit1 (num.Bit0 (num.Bit0 n))"
  "num.Bit0 (num.Bit0 (num.Bit0 n)) + num.One = num.Bit1 (num.Bit0 (num.Bit0 n))"
  "num.One + num.Bit1 (num.Bit0 (num.Bit0 n)) = num.Bit0 (num.Bit1 (num.Bit0 n))"
  "num.Bit1 (num.Bit0 (num.Bit0 n)) + num.One = num.Bit0 (num.Bit1 (num.Bit0 n))"
  "num.One + num.Bit0 (num.Bit1 (num.Bit0 n)) = num.Bit1 (num.Bit1 (num.Bit0 n))"
  "num.Bit0 (num.Bit1 (num.Bit0 n)) + num.One = num.Bit1 (num.Bit1 (num.Bit0 n))"
  "num.One + num.Bit1 (num.Bit1 (num.Bit0 n)) = num.Bit0 (num.Bit0 (num.Bit1 n))"
  "num.Bit1 (num.Bit1 (num.Bit0 n)) + num.One = num.Bit0 (num.Bit0 (num.Bit1 n))"
  "num.One + num.Bit0 (num.Bit0 (num.Bit1 n)) = num.Bit1 (num.Bit0 (num.Bit1 n))"
  "num.Bit0 (num.Bit0 (num.Bit1 n)) + num.One = num.Bit1 (num.Bit0 (num.Bit1 n))"
  "num.One + num.Bit1 (num.Bit0 (num.Bit1 n)) = num.Bit0 (num.Bit1 (num.Bit1 n))"
  "num.Bit1 (num.Bit0 (num.Bit1 n)) + num.One = num.Bit0 (num.Bit1 (num.Bit1 n))"
  "num.One + num.Bit0 (num.Bit1 (num.Bit1 n)) = num.Bit1 (num.Bit1 (num.Bit1 n))"
  "num.Bit0 (num.Bit1 (num.Bit1 n)) + num.One = num.Bit1 (num.Bit1 (num.Bit1 n))"
  "num.One + num.Bit1 (num.Bit1 (num.Bit1 n)) = num.Bit0 (num.Bit0 (num.Bit0 (n + num.One)))"
  "num.Bit1 (num.Bit1 (num.Bit1 n)) + num.One = num.Bit0 (num.Bit0 (num.Bit0 (n + num.One)))"
  "num.Bit0 num.One + num.Bit0 (num.Bit0 (num.Bit0 n)) = num.Bit0 (num.Bit1 (num.Bit0 n))"
  "num.Bit0 (num.Bit0 (num.Bit0 n)) + num.Bit0 num.One = num.Bit0 (num.Bit1 (num.Bit0 n))"
  "num.Bit0 num.One + num.Bit1 (num.Bit0 (num.Bit0 n)) = num.Bit1 (num.Bit1 (num.Bit0 n))"
  "num.Bit1 (num.Bit0 (num.Bit0 n)) + num.Bit0 num.One = num.Bit1 (num.Bit1 (num.Bit0 n))"
  "num.Bit0 num.One + num.Bit0 (num.Bit1 (num.Bit0 n)) = num.Bit0 (num.Bit0 (num.Bit1 n))"
  "num.Bit0 (num.Bit1 (num.Bit0 n)) + num.Bit0 num.One = num.Bit0 (num.Bit0 (num.Bit1 n))"
  "num.Bit0 num.One + num.Bit1 (num.Bit1 (num.Bit0 n)) = num.Bit1 (num.Bit0 (num.Bit1 n))"
  "num.Bit1 (num.Bit1 (num.Bit0 n)) + num.Bit0 num.One = num.Bit1 (num.Bit0 (num.Bit1 n))"
  "num.Bit0 num.One + num.Bit0 (num.Bit0 (num.Bit1 n)) = num.Bit0 (num.Bit1 (num.Bit1 n))"
  "num.Bit0 (num.Bit0 (num.Bit1 n)) + num.Bit0 num.One = num.Bit0 (num.Bit1 (num.Bit1 n))"
  "num.Bit0 num.One + num.Bit1 (num.Bit0 (num.Bit1 n)) = num.Bit1 (num.Bit1 (num.Bit1 n))"
  "num.Bit1 (num.Bit0 (num.Bit1 n)) + num.Bit0 num.One = num.Bit1 (num.Bit1 (num.Bit1 n))"
  "num.Bit0 num.One + num.Bit0 (num.Bit1 (num.Bit1 n)) = num.Bit0 (num.Bit0 (num.Bit0 (n + num.One)))"
  "num.Bit0 (num.Bit1 (num.Bit1 n)) + num.Bit0 num.One = num.Bit0 (num.Bit0 (num.Bit0 (n + num.One)))"
  "num.Bit0 num.One + num.Bit1 (num.Bit1 (num.Bit1 n)) = num.Bit1 (num.Bit0 (num.Bit0 (n + num.One)))"
  "num.Bit1 (num.Bit1 (num.Bit1 n)) + num.Bit0 num.One = num.Bit1 (num.Bit0 (num.Bit0 (n + num.One)))"
  "num.Bit1 num.One + num.Bit0 (num.Bit0 (num.Bit0 n)) = num.Bit1 (num.Bit1 (num.Bit0 n))"
  "num.Bit0 (num.Bit0 (num.Bit0 n)) + num.Bit1 num.One = num.Bit1 (num.Bit1 (num.Bit0 n))"
  "num.Bit1 num.One + num.Bit1 (num.Bit0 (num.Bit0 n)) = num.Bit0 (num.Bit0 (num.Bit1 n))"
  "num.Bit1 (num.Bit0 (num.Bit0 n)) + num.Bit1 num.One = num.Bit0 (num.Bit0 (num.Bit1 n))"
  "num.Bit1 num.One + num.Bit0 (num.Bit1 (num.Bit0 n)) = num.Bit1 (num.Bit0 (num.Bit1 n))"
  "num.Bit0 (num.Bit1 (num.Bit0 n)) + num.Bit1 num.One = num.Bit1 (num.Bit0 (num.Bit1 n))"
  "num.Bit1 num.One + num.Bit1 (num.Bit1 (num.Bit0 n)) = num.Bit0 (num.Bit1 (num.Bit1 n))"
  "num.Bit1 (num.Bit1 (num.Bit0 n)) + num.Bit1 num.One = num.Bit0 (num.Bit1 (num.Bit1 n))"
  "num.Bit1 num.One + num.Bit0 (num.Bit0 (num.Bit1 n)) = num.Bit1 (num.Bit1 (num.Bit1 n))"
  "num.Bit0 (num.Bit0 (num.Bit1 n)) + num.Bit1 num.One = num.Bit1 (num.Bit1 (num.Bit1 n))"
  "num.Bit1 num.One + num.Bit1 (num.Bit0 (num.Bit1 n)) = num.Bit0 (num.Bit0 (num.Bit0 (n + num.One)))"
  "num.Bit1 (num.Bit0 (num.Bit1 n)) + num.Bit1 num.One = num.Bit0 (num.Bit0 (num.Bit0 (n + num.One)))"
  "num.Bit1 num.One + num.Bit0 (num.Bit1 (num.Bit1 n)) = num.Bit1 (num.Bit0 (num.Bit0 (n + num.One)))"
  "num.Bit0 (num.Bit1 (num.Bit1 n)) + num.Bit1 num.One = num.Bit1 (num.Bit0 (num.Bit0 (n + num.One)))"
  "num.Bit1 num.One + num.Bit1 (num.Bit1 (num.Bit1 n)) = num.Bit0 (num.Bit1 (num.Bit0 (n + num.One)))"
  "num.Bit1 (num.Bit1 (num.Bit1 n)) + num.Bit1 num.One = num.Bit0 (num.Bit1 (num.Bit0 (n + num.One)))"
  "num.Bit0 (num.Bit0 num.One) + num.Bit0 (num.Bit0 (num.Bit0 n)) = num.Bit0 (num.Bit0 (num.Bit1 n))"
  "num.Bit0 (num.Bit0 (num.Bit0 n)) + num.Bit0 (num.Bit0 num.One) = num.Bit0 (num.Bit0 (num.Bit1 n))"
  "num.Bit0 (num.Bit0 num.One) + num.Bit1 (num.Bit0 (num.Bit0 n)) = num.Bit1 (num.Bit0 (num.Bit1 n))"
  "num.Bit1 (num.Bit0 (num.Bit0 n)) + num.Bit0 (num.Bit0 num.One) = num.Bit1 (num.Bit0 (num.Bit1 n))"
  "num.Bit0 (num.Bit0 num.One) + num.Bit0 (num.Bit1 (num.Bit0 n)) = num.Bit0 (num.Bit1 (num.Bit1 n))"
  "num.Bit0 (num.Bit1 (num.Bit0 n)) + num.Bit0 (num.Bit0 num.One) = num.Bit0 (num.Bit1 (num.Bit1 n))"
  "num.Bit0 (num.Bit0 num.One) + num.Bit1 (num.Bit1 (num.Bit0 n)) = num.Bit1 (num.Bit1 (num.Bit1 n))"
  "num.Bit1 (num.Bit1 (num.Bit0 n)) + num.Bit0 (num.Bit0 num.One) = num.Bit1 (num.Bit1 (num.Bit1 n))"
  "num.Bit0 (num.Bit0 num.One) + num.Bit0 (num.Bit0 (num.Bit1 n)) = num.Bit0 (num.Bit0 (num.Bit0 (n + num.One)))"
  "num.Bit0 (num.Bit0 (num.Bit1 n)) + num.Bit0 (num.Bit0 num.One) = num.Bit0 (num.Bit0 (num.Bit0 (n + num.One)))"
  "num.Bit0 (num.Bit0 num.One) + num.Bit1 (num.Bit0 (num.Bit1 n)) = num.Bit1 (num.Bit0 (num.Bit0 (n + num.One)))"
  "num.Bit1 (num.Bit0 (num.Bit1 n)) + num.Bit0 (num.Bit0 num.One) = num.Bit1 (num.Bit0 (num.Bit0 (n + num.One)))"
  "num.Bit0 (num.Bit0 num.One) + num.Bit0 (num.Bit1 (num.Bit1 n)) = num.Bit0 (num.Bit1 (num.Bit0 (n + num.One)))"
  "num.Bit0 (num.Bit1 (num.Bit1 n)) + num.Bit0 (num.Bit0 num.One) = num.Bit0 (num.Bit1 (num.Bit0 (n + num.One)))"
  "num.Bit0 (num.Bit0 num.One) + num.Bit1 (num.Bit1 (num.Bit1 n)) = num.Bit1 (num.Bit1 (num.Bit0 (n + num.One)))"
  "num.Bit1 (num.Bit1 (num.Bit1 n)) + num.Bit0 (num.Bit0 num.One) = num.Bit1 (num.Bit1 (num.Bit0 (n + num.One)))"
  "num.Bit1 (num.Bit0 num.One) + num.Bit0 (num.Bit0 (num.Bit0 n)) = num.Bit1 (num.Bit0 (num.Bit1 n))"
  "num.Bit0 (num.Bit0 (num.Bit0 n)) + num.Bit1 (num.Bit0 num.One) = num.Bit1 (num.Bit0 (num.Bit1 n))"
  "num.Bit1 (num.Bit0 num.One) + num.Bit1 (num.Bit0 (num.Bit0 n)) = num.Bit0 (num.Bit1 (num.Bit1 n))"
  "num.Bit1 (num.Bit0 (num.Bit0 n)) + num.Bit1 (num.Bit0 num.One) = num.Bit0 (num.Bit1 (num.Bit1 n))"
  "num.Bit1 (num.Bit0 num.One) + num.Bit0 (num.Bit1 (num.Bit0 n)) = num.Bit1 (num.Bit1 (num.Bit1 n))"
  "num.Bit0 (num.Bit1 (num.Bit0 n)) + num.Bit1 (num.Bit0 num.One) = num.Bit1 (num.Bit1 (num.Bit1 n))"
  "num.Bit1 (num.Bit0 num.One) + num.Bit1 (num.Bit1 (num.Bit0 n)) = num.Bit0 (num.Bit0 (num.Bit0 (n + num.One)))"
  "num.Bit1 (num.Bit1 (num.Bit0 n)) + num.Bit1 (num.Bit0 num.One) = num.Bit0 (num.Bit0 (num.Bit0 (n + num.One)))"
  "num.Bit1 (num.Bit0 num.One) + num.Bit0 (num.Bit0 (num.Bit1 n)) = num.Bit1 (num.Bit0 (num.Bit0 (n + num.One)))"
  "num.Bit0 (num.Bit0 (num.Bit1 n)) + num.Bit1 (num.Bit0 num.One) = num.Bit1 (num.Bit0 (num.Bit0 (n + num.One)))"
  "num.Bit1 (num.Bit0 num.One) + num.Bit1 (num.Bit0 (num.Bit1 n)) = num.Bit0 (num.Bit1 (num.Bit0 (n + num.One)))"
  "num.Bit1 (num.Bit0 (num.Bit1 n)) + num.Bit1 (num.Bit0 num.One) = num.Bit0 (num.Bit1 (num.Bit0 (n + num.One)))"
  "num.Bit1 (num.Bit0 num.One) + num.Bit0 (num.Bit1 (num.Bit1 n)) = num.Bit1 (num.Bit1 (num.Bit0 (n + num.One)))"
  "num.Bit0 (num.Bit1 (num.Bit1 n)) + num.Bit1 (num.Bit0 num.One) = num.Bit1 (num.Bit1 (num.Bit0 (n + num.One)))"
  "num.Bit1 (num.Bit0 num.One) + num.Bit1 (num.Bit1 (num.Bit1 n)) = num.Bit0 (num.Bit0 (num.Bit1 (n + num.One)))"
  "num.Bit1 (num.Bit1 (num.Bit1 n)) + num.Bit1 (num.Bit0 num.One) = num.Bit0 (num.Bit0 (num.Bit1 (n + num.One)))"
  "num.Bit0 (num.Bit1 num.One) + num.Bit0 (num.Bit0 (num.Bit0 n)) = num.Bit0 (num.Bit1 (num.Bit1 n))"
  "num.Bit0 (num.Bit0 (num.Bit0 n)) + num.Bit0 (num.Bit1 num.One) = num.Bit0 (num.Bit1 (num.Bit1 n))"
  "num.Bit0 (num.Bit1 num.One) + num.Bit1 (num.Bit0 (num.Bit0 n)) = num.Bit1 (num.Bit1 (num.Bit1 n))"
  "num.Bit1 (num.Bit0 (num.Bit0 n)) + num.Bit0 (num.Bit1 num.One) = num.Bit1 (num.Bit1 (num.Bit1 n))"
  "num.Bit0 (num.Bit1 num.One) + num.Bit0 (num.Bit1 (num.Bit0 n)) = num.Bit0 (num.Bit0 (num.Bit0 (n + num.One)))"
  "num.Bit0 (num.Bit1 (num.Bit0 n)) + num.Bit0 (num.Bit1 num.One) = num.Bit0 (num.Bit0 (num.Bit0 (n + num.One)))"
  "num.Bit0 (num.Bit1 num.One) + num.Bit1 (num.Bit1 (num.Bit0 n)) = num.Bit1 (num.Bit0 (num.Bit0 (n + num.One)))"
  "num.Bit1 (num.Bit1 (num.Bit0 n)) + num.Bit0 (num.Bit1 num.One) = num.Bit1 (num.Bit0 (num.Bit0 (n + num.One)))"
  "num.Bit0 (num.Bit1 num.One) + num.Bit0 (num.Bit0 (num.Bit1 n)) = num.Bit0 (num.Bit1 (num.Bit0 (n + num.One)))"
  "num.Bit0 (num.Bit0 (num.Bit1 n)) + num.Bit0 (num.Bit1 num.One) = num.Bit0 (num.Bit1 (num.Bit0 (n + num.One)))"
  "num.Bit0 (num.Bit1 num.One) + num.Bit1 (num.Bit0 (num.Bit1 n)) = num.Bit1 (num.Bit1 (num.Bit0 (n + num.One)))"
  "num.Bit1 (num.Bit0 (num.Bit1 n)) + num.Bit0 (num.Bit1 num.One) = num.Bit1 (num.Bit1 (num.Bit0 (n + num.One)))"
  "num.Bit0 (num.Bit1 num.One) + num.Bit0 (num.Bit1 (num.Bit1 n)) = num.Bit0 (num.Bit0 (num.Bit1 (n + num.One)))"
  "num.Bit0 (num.Bit1 (num.Bit1 n)) + num.Bit0 (num.Bit1 num.One) = num.Bit0 (num.Bit0 (num.Bit1 (n + num.One)))"
  "num.Bit0 (num.Bit1 num.One) + num.Bit1 (num.Bit1 (num.Bit1 n)) = num.Bit1 (num.Bit0 (num.Bit1 (n + num.One)))"
  "num.Bit1 (num.Bit1 (num.Bit1 n)) + num.Bit0 (num.Bit1 num.One) = num.Bit1 (num.Bit0 (num.Bit1 (n + num.One)))"
  "num.Bit1 (num.Bit1 num.One) + num.Bit0 (num.Bit0 (num.Bit0 n)) = num.Bit1 (num.Bit1 (num.Bit1 n))"
  "num.Bit0 (num.Bit0 (num.Bit0 n)) + num.Bit1 (num.Bit1 num.One) = num.Bit1 (num.Bit1 (num.Bit1 n))"
  "num.Bit1 (num.Bit1 num.One) + num.Bit1 (num.Bit0 (num.Bit0 n)) = num.Bit0 (num.Bit0 (num.Bit0 (n + num.One)))"
  "num.Bit1 (num.Bit0 (num.Bit0 n)) + num.Bit1 (num.Bit1 num.One) = num.Bit0 (num.Bit0 (num.Bit0 (n + num.One)))"
  "num.Bit1 (num.Bit1 num.One) + num.Bit0 (num.Bit1 (num.Bit0 n)) = num.Bit1 (num.Bit0 (num.Bit0 (n + num.One)))"
  "num.Bit0 (num.Bit1 (num.Bit0 n)) + num.Bit1 (num.Bit1 num.One) = num.Bit1 (num.Bit0 (num.Bit0 (n + num.One)))"
  "num.Bit1 (num.Bit1 num.One) + num.Bit1 (num.Bit1 (num.Bit0 n)) = num.Bit0 (num.Bit1 (num.Bit0 (n + num.One)))"
  "num.Bit1 (num.Bit1 (num.Bit0 n)) + num.Bit1 (num.Bit1 num.One) = num.Bit0 (num.Bit1 (num.Bit0 (n + num.One)))"
  "num.Bit1 (num.Bit1 num.One) + num.Bit0 (num.Bit0 (num.Bit1 n)) = num.Bit1 (num.Bit1 (num.Bit0 (n + num.One)))"
  "num.Bit0 (num.Bit0 (num.Bit1 n)) + num.Bit1 (num.Bit1 num.One) = num.Bit1 (num.Bit1 (num.Bit0 (n + num.One)))"
  "num.Bit1 (num.Bit1 num.One) + num.Bit1 (num.Bit0 (num.Bit1 n)) = num.Bit0 (num.Bit0 (num.Bit1 (n + num.One)))"
  "num.Bit1 (num.Bit0 (num.Bit1 n)) + num.Bit1 (num.Bit1 num.One) = num.Bit0 (num.Bit0 (num.Bit1 (n + num.One)))"
  "num.Bit1 (num.Bit1 num.One) + num.Bit0 (num.Bit1 (num.Bit1 n)) = num.Bit1 (num.Bit0 (num.Bit1 (n + num.One)))"
  "num.Bit0 (num.Bit1 (num.Bit1 n)) + num.Bit1 (num.Bit1 num.One) = num.Bit1 (num.Bit0 (num.Bit1 (n + num.One)))"
  "num.Bit1 (num.Bit1 num.One) + num.Bit1 (num.Bit1 (num.Bit1 n)) = num.Bit0 (num.Bit1 (num.Bit1 (n + num.One)))"
  "num.Bit1 (num.Bit1 (num.Bit1 n)) + num.Bit1 (num.Bit1 num.One) = num.Bit0 (num.Bit1 (num.Bit1 (n + num.One)))"
  "num.One + num.One = num.Bit0 num.One" "num.One + num.Bit0 num.One = num.Bit1 num.One" "num.One + num.Bit1 num.One = num.Bit0 (num.Bit0 num.One)"
  "num.One + num.Bit0 (num.Bit0 num.One) = num.Bit1 (num.Bit0 num.One)" "num.One + num.Bit1 (num.Bit0 num.One) = num.Bit0 (num.Bit1 num.One)"
  "num.One + num.Bit0 (num.Bit1 num.One) = num.Bit1 (num.Bit1 num.One)"
  "num.One + num.Bit1 (num.Bit1 num.One) = num.Bit0 (num.Bit0 (num.Bit0 num.One))" "num.Bit0 num.One + num.One = num.Bit1 num.One"
  "num.Bit0 num.One + num.Bit0 num.One = num.Bit0 (num.Bit0 num.One)" "num.Bit0 num.One + num.Bit1 num.One = num.Bit1 (num.Bit0 num.One)"
  "num.Bit0 num.One + num.Bit0 (num.Bit0 num.One) = num.Bit0 (num.Bit1 num.One)"
  "num.Bit0 num.One + num.Bit1 (num.Bit0 num.One) = num.Bit1 (num.Bit1 num.One)"
  "num.Bit0 num.One + num.Bit0 (num.Bit1 num.One) = num.Bit0 (num.Bit0 (num.Bit0 num.One))"
  "num.Bit0 num.One + num.Bit1 (num.Bit1 num.One) = num.Bit1 (num.Bit0 (num.Bit0 num.One))" "num.Bit1 num.One + num.One = num.Bit0 (num.Bit0 num.One)"
  "num.Bit1 num.One + num.Bit0 num.One = num.Bit1 (num.Bit0 num.One)" "num.Bit1 num.One + num.Bit1 num.One = num.Bit0 (num.Bit1 num.One)"
  "num.Bit1 num.One + num.Bit0 (num.Bit0 num.One) = num.Bit1 (num.Bit1 num.One)"
  "num.Bit1 num.One + num.Bit1 (num.Bit0 num.One) = num.Bit0 (num.Bit0 (num.Bit0 num.One))"
  "num.Bit1 num.One + num.Bit0 (num.Bit1 num.One) = num.Bit1 (num.Bit0 (num.Bit0 num.One))"
  "num.Bit1 num.One + num.Bit1 (num.Bit1 num.One) = num.Bit0 (num.Bit1 (num.Bit0 num.One))"
  "num.Bit0 (num.Bit0 num.One) + num.One = num.Bit1 (num.Bit0 num.One)" "num.Bit0 (num.Bit0 num.One) + num.Bit0 num.One = num.Bit0 (num.Bit1 num.One)"
  "num.Bit0 (num.Bit0 num.One) + num.Bit1 num.One = num.Bit1 (num.Bit1 num.One)"
  "num.Bit0 (num.Bit0 num.One) + num.Bit0 (num.Bit0 num.One) = num.Bit0 (num.Bit0 (num.Bit0 num.One))"
  "num.Bit0 (num.Bit0 num.One) + num.Bit1 (num.Bit0 num.One) = num.Bit1 (num.Bit0 (num.Bit0 num.One))"
  "num.Bit0 (num.Bit0 num.One) + num.Bit0 (num.Bit1 num.One) = num.Bit0 (num.Bit1 (num.Bit0 num.One))"
  "num.Bit0 (num.Bit0 num.One) + num.Bit1 (num.Bit1 num.One) = num.Bit1 (num.Bit1 (num.Bit0 num.One))"
  "num.Bit1 (num.Bit0 num.One) + num.One = num.Bit0 (num.Bit1 num.One)" "num.Bit1 (num.Bit0 num.One) + num.Bit0 num.One = num.Bit1 (num.Bit1 num.One)"
  "num.Bit1 (num.Bit0 num.One) + num.Bit1 num.One = num.Bit0 (num.Bit0 (num.Bit0 num.One))"
  "num.Bit1 (num.Bit0 num.One) + num.Bit0 (num.Bit0 num.One) = num.Bit1 (num.Bit0 (num.Bit0 num.One))"
  "num.Bit1 (num.Bit0 num.One) + num.Bit1 (num.Bit0 num.One) = num.Bit0 (num.Bit1 (num.Bit0 num.One))"
  "num.Bit1 (num.Bit0 num.One) + num.Bit0 (num.Bit1 num.One) = num.Bit1 (num.Bit1 (num.Bit0 num.One))"
  "num.Bit1 (num.Bit0 num.One) + num.Bit1 (num.Bit1 num.One) = num.Bit0 (num.Bit0 (num.Bit1 num.One))"
  "num.Bit0 (num.Bit1 num.One) + num.One = num.Bit1 (num.Bit1 num.One)"
  "num.Bit0 (num.Bit1 num.One) + num.Bit0 num.One = num.Bit0 (num.Bit0 (num.Bit0 num.One))"
  "num.Bit0 (num.Bit1 num.One) + num.Bit1 num.One = num.Bit1 (num.Bit0 (num.Bit0 num.One))"
  "num.Bit0 (num.Bit1 num.One) + num.Bit0 (num.Bit0 num.One) = num.Bit0 (num.Bit1 (num.Bit0 num.One))"
  "num.Bit0 (num.Bit1 num.One) + num.Bit1 (num.Bit0 num.One) = num.Bit1 (num.Bit1 (num.Bit0 num.One))"
  "num.Bit0 (num.Bit1 num.One) + num.Bit0 (num.Bit1 num.One) = num.Bit0 (num.Bit0 (num.Bit1 num.One))"
  "num.Bit0 (num.Bit1 num.One) + num.Bit1 (num.Bit1 num.One) = num.Bit1 (num.Bit0 (num.Bit1 num.One))"
  "num.Bit1 (num.Bit1 num.One) + num.One = num.Bit0 (num.Bit0 (num.Bit0 num.One))"
  "num.Bit1 (num.Bit1 num.One) + num.Bit0 num.One = num.Bit1 (num.Bit0 (num.Bit0 num.One))"
  "num.Bit1 (num.Bit1 num.One) + num.Bit1 num.One = num.Bit0 (num.Bit1 (num.Bit0 num.One))"
  "num.Bit1 (num.Bit1 num.One) + num.Bit0 (num.Bit0 num.One) = num.Bit1 (num.Bit1 (num.Bit0 num.One))"
  "num.Bit1 (num.Bit1 num.One) + num.Bit1 (num.Bit0 num.One) = num.Bit0 (num.Bit0 (num.Bit1 num.One))"
  "num.Bit1 (num.Bit1 num.One) + num.Bit0 (num.Bit1 num.One) = num.Bit1 (num.Bit0 (num.Bit1 num.One))"
  "num.Bit1 (num.Bit1 num.One) + num.Bit1 (num.Bit1 num.One) = num.Bit0 (num.Bit1 (num.Bit1 num.One))"
  for m n :: num
  by (simp_all add: num_eq_iff nat_of_num_add)

lemmas chain_unfold = chain.simps if_True if_False simp_thms

lemmas chain_arith = power_numeral pow.simps sqr.simps numeral_times_numeral mult_num_simps numeral_plus_numeral add_num_3
  power_one mult_zero_left add_0 mult_1 mult_1_right add_0_right numeral_plus_one numeral_less_iff less_num_simps simp_thms

section \<open>The prime of the curve\<close>

lemma prime_704251: "is_prime 704251"
  by (rule trial_division [of _ 840]) simp_all

lemma prime_78283: "is_prime 78283"
  by (rule trial_division [of _ 280]) simp_all

lemma start_pow_46076956964474543: "2 ^ 40 mod 46076956964474543 = (1099511627776 :: nat)"
  by simp

lemma pow_46076956964474543_0: "2 ^ 686600163 mod 46076956964474543 = (24823787889741117 :: nat)"
  by (rule chain_power [OF start_pow_46076956964474543, of
    "[(True, 52474203, 45853157391698123),
     (True, 91260889663737239, 19781201866839481),
     (True, 16984452666800196, 20607469331288294),
     (False, 9216489547419713, 33342173216564277),
     (True, 48254077006886556, 44308601194121550),
     (True, 85216223861891847, 16810986098054079),
     (False, 6133418355011160, 44432230107638361),
     (False, 42846212128553890, 42009166450144051),
     (True, 76600981579428127, 39633424311710241),
     (False, 34090973583241658, 10398523786165787),
     (True, 4693421790628388, 24994209099532054),
     (False, 13557980597390239, 31753900021273139),
     (True, 43766352336957498, 36693339991853228),
     (True, 58441411432435278, 39712061661912014),
     (True, 68452777498106487, 3277935140411951),
     (True, 466387517432274, 24021430967652020),
     (True, 25046321795016214, 45011476944920598),
     (True, 87941270007270464, 9951093605557256),
     (True, 4298211968421025, 36162514070032497),
     (False, 28381375638012719, 32352452050342592),
     (False, 22715934875575888, 11029800128659280),
     (False, 2640289179078595, 27904717256411315),
     (True, 33798813830549555, 29469003422580085),
     (True, 37694423413837531, 24823787889741117)]"])
    (simp_all only: chain_unfold, simp_all only: chain_arith)

lemma pow_46076956964474543_1: "2 ^ 11519239241118635 mod 46076956964474543 = (2321269074807401 :: nat)"
  by (rule chain_power [OF pow_46076956964474543_0, of
    "[(False, 13373722697659165, 3004122947271094),
     (False, 195862645384305, 4248082903709221),
     (False, 391653649582376, 34595899886972673),
     (False, 25975593178000678, 40774287081024775),
     (True, 72163727663163544, 36173547293940858),
     (True, 56797393319001193, 42392323168422529),
     (False, 39002338305490734, 6010608209371279),
     (False, 784066774948175, 6686671538286816),
     (True, 1940734770979243, 10474813503924763),
     (False, 2381270925217572, 28099567834336573),
     (True, 34272476504264604, 41696332596792686),
     (True, 75464365121282176, 44564005854543624),
     (False, 43100732961488138, 40408808821582442),
     (False, 35437926850033684, 25156410092176952),
     (True, 27469043548761588, 37137402157766324),
     (True, 59864484544455633, 16943860155495233),
     (True, 12461517247778731, 44174209625103645),
     (False, 42350036212397965, 2757658764781030),
     (True, 330086115228350, 4252899488827750),
     (False, 392542286940011, 32955911192422527),
     (True, 47142526506697058, 15673766340136964),
     (False, 5331666140075620, 35775274694195636),
     (True, 55553593976787054, 42535347567922670),
     (True, 78531913212885393, 2321269074807401)]"])
    (simp_all only: chain_unfold, simp_all only: chain_arith)

lemma pow_46076956964474543_2: "2 ^ 46076956964474542 mod 46076956964474543 = (1 :: nat)"
  by (rule chain_power [OF pow_46076956964474543_1, of
    "[(True, 233882203714607, 1),
     (False, 0, 1)]"])
    (simp_all only: chain_unfold, simp_all only: chain_arith)

lemma start_pow_46076956964474543_a: "2 ^ 30 mod 46076956964474543 = (1073741824 :: nat)"
  by simp

lemma pow_46076956964474543_a_0: "2 ^ 511147625 mod 46076956964474543 = (12716800389186098 :: nat)"
  by (rule chain_power [OF start_pow_46076956964474543_a, of
    "[(False, 25, 997580494983401),
     (True, 43195857952972, 8423536945861806),
     (True, 3079889791029650, 8334088915963322),
     (True, 3014827481456045, 40458778522588933),
     (False, 35525626416735107, 32143329018197388),
     (True, 44846433811533399, 44549030730283431),
     (True, 86143542011156762, 25727308254953756),
     (True, 28729952394891616, 33802484520883584),
     (False, 24797817283496566, 9734072145765718),
     (True, 4112778567908734, 40792398397752486),
     (True, 72227849956494448, 616951621523128),
     (True, 16521460112632, 6552893801081592),
     (True, 1863856469573749, 21908279110937221),
     (True, 20833523966124256, 40672794719590674),
     (True, 71804925467513595, 5668044331636467),
     (False, 697240630933290, 2758185708005619),
     (False, 165106137666858, 32358000579777267),
     (True, 45447454454430953, 2757682940249099),
     (True, 330091902761905, 19225339577939187),
     (False, 8021659984448366, 24876368965274231),
     (True, 26860876831496549, 19538947962430615),
     (False, 8285496973528819, 16730443886923508),
     (False, 6074788160800328, 5290122180975960),
     (True, 1214723997994514, 12716800389186098)]"])
    (simp_all only: chain_unfold, simp_all only: chain_arith)

lemma pow_46076956964474543_a_1: "2 ^ 65426896042 mod 46076956964474543 = (14924512230972257 :: nat)"
  by (rule chain_power [OF pow_46076956964474543_a_0, of
    "[(False, 3509715545301482, 4095184227292878),
     (True, 727935825640503, 31205492965830639),
     (False, 21133834684249973, 42315869224210982),
     (True, 77723569704531868, 17693734480572324),
     (False, 6794464315652841, 36384313024634313),
     (True, 57461183267603436, 1859688112634190),
     (False, 75057905385101, 14924512230972257)]"])
    (simp_all only: chain_unfold, simp_all only: chain_arith)

lemma start_pow_46076956964474543_b: "2 ^ 34 mod 46076956964474543 = (17179869184 :: nat)"
  by simp

lemma pow_46076956964474543_b_0: "2 ^ 574799487 mod 46076956964474543 = (13316355983131142 :: nat)"
  by (rule chain_power [OF start_pow_46076956964474543_b, of
    "[(False, 6405, 24995821893377941),
     (True, 27119460714699002, 42972849594292876),
     (False, 40077859388099384, 39480953442369864),
     (False, 33829180297656676, 43286598019379428),
     (False, 40665219483482677, 6769587281615573),
     (False, 994581998953279, 21808818714241832),
     (True, 20644791021133299, 34985207262325091),
     (False, 26563488733240877, 5263571614664070),
     (True, 1202561452313706, 13291104010943442),
     (False, 3833878308541884, 8826044355548352),
     (True, 3381258837304178, 8151386791291154),
     (True, 2884092657093881, 714644211732049),
     (True, 22167972149544, 34246912970418410),
     (True, 50908355293848246, 36688367161654622),
     (True, 58425572071791754, 35317790497607346),
     (False, 27070935404753206, 27780946408528858),
     (False, 16749825383403631, 36159911025518531),
     (True, 56754579794908453, 16784922914783943),
     (True, 12228830018981352, 29182875945532362),
     (True, 36965993614072572, 24541500930063492),
     (True, 26142580047752319, 39850398257752911),
     (True, 68930517374483315, 17409943162197797),
     (True, 13156516440295892, 30707415481829062),
     (True, 40929151041840222, 13316355983131142)]"])
    (simp_all only: chain_unfold, simp_all only: chain_arith)

lemma pow_46076956964474543_b_1: "2 ^ 588594675274 mod 46076956964474543 = (26474877516403237 :: nat)"
  by (rule chain_power [OF pow_46076956964474543_b_0, of
    "[(True, 7696920471818087, 37536058901989087),
     (False, 30578315294994476, 22837641639469101),
     (False, 11319277791173046, 23722564158980223),
     (True, 24426962514509044, 19907205528992566),
     (False, 8600759643895279, 23419728929881859),
     (False, 11903644235274210, 28553537527859851),
     (True, 35388817277299922, 27012214050598756),
     (False, 15835674835860676, 12376220611976468),
     (True, 6648478837454752, 11899979553131712),
     (False, 3073326076505749, 26474877516403237)]"])
    (simp_all only: chain_unfold, simp_all only: chain_arith)

lemma prime_46076956964474543: "is_prime 46076956964474543"
proof (rule pocklington [of _ "704251 * 78283"])
  fix r :: nat
  assume r: "is_prime r" "r dvd 46076956964474543"
  have d0: "704251 dvd r - 1"
    by (rule pocklington_divisor [OF prime_704251 _ pow_46076956964474543_a_1 pow_46076956964474543_2 _ _ r, of 14499061334772664]) simp_all
  have d1: "78283 dvd r - 1"
    by (rule pocklington_divisor [OF prime_78283 _ pow_46076956964474543_b_1 pow_46076956964474543_2 _ _ r, of 41560644167870315]) simp_all
  show "704251 * 78283 dvd r - 1" by (rule divides_mult [OF d0 d1], rule is_prime_coprime [OF prime_78283]) simp
qed simp_all

lemma prime_3677: "is_prime 3677"
  by (rule trial_division [of _ 61]) simp_all

lemma prime_197: "is_prime 197"
  by (rule trial_division [of _ 15]) simp_all

lemma start_pow_66417393611: "2 ^ 30 mod 66417393611 = (1073741824 :: nat)"
  by simp

lemma pow_66417393611_0: "2 ^ 518885887 mod 66417393611 = (31696540149 :: nat)"
  by (rule chain_power [OF start_pow_66417393611, of
    "[(True, 34717457, 2471726725),
     (True, 183970874, 54740765236),
     (True, 90233934688, 3569793024),
     (False, 191868749, 10215901937),
     (True, 3142690392, 9828818426),
     (True, 2909047356, 26063392436),
     (False, 10227748912, 30161012864),
     (True, 27393026059, 7763855943),
     (True, 1815110645, 50831749403),
     (False, 38903464994, 31133103075),
     (False, 14593618544, 32937733241),
     (True, 32668980580, 58577653782),
     (False, 51663296857, 10550722897),
     (False, 1676033153, 21393687126),
     (False, 6891114269, 22626604517),
     (True, 15416540882, 57582501676),
     (True, 99845667497, 31807456285),
     (True, 30465341089, 42887620071),
     (True, 55387537973, 11933999579),
     (True, 4288646037, 5460084875),
     (True, 897732513, 11094356807),
     (True, 3706401178, 2554396740),
     (True, 196482949, 49062216361),
     (True, 72484057063, 31696540149)]"])
    (simp_all only: chain_unfold, simp_all only: chain_arith)

lemma pow_66417393611_1: "2 ^ 66417393610 mod 66417393611 = (1 :: nat)"
  by (rule chain_power [OF pow_66417393611_0, of
    "[(True, 30253239484, 17663347678),
     (False, 4697472066, 9708621358),
     (False, 1419166329, 342840145),
     (True, 3539415, 10839564485),
     (False, 1769057047, 13560988508),
     (True, 5537718338, 66417393610),
     (False, 66417393609, 1)]"])
    (simp_all only: chain_unfold, simp_all only: chain_arith)

lemma start_pow_66417393611_a: "2 ^ 34 mod 66417393611 = (17179869184 :: nat)"
  by simp

lemma pow_66417393611_a_0: "2 ^ 18062930 mod 66417393611 = (66219752670 :: nat)"
  by (rule chain_power [OF start_pow_66417393611_a, of
    "[(False, 4443834500, 50711446356),
     (True, 77439075871, 38631697291),
     (True, 44940277070, 21325677592),
     (True, 13694741694, 24490919894),
     (False, 9030844552, 4386013964),
     (False, 289639768, 15748271048),
     (True, 7468165416, 16020479432),
     (True, 7728570703, 30676106715),
     (True, 28336659180, 1319683470),
     (True, 52443023, 21240755747),
     (False, 6792945043, 4891207736),
     (False, 360205539, 52080834367),
     (True, 81677800374, 5135570864),
     (False, 397096101, 57655295785),
     (True, 100098270989, 54722281171),
     (False, 45086503606, 14508269975),
     (False, 3169198401, 36917684614),
     (True, 41040919047, 15758649275),
     (False, 3739005905, 66219752670)]"])
    (simp_all only: chain_unfold, simp_all only: chain_arith)

lemma start_pow_66417393611_b: "2 ^ 20 mod 66417393611 = (1048576 :: nat)"
  by simp

lemma pow_66417393611_b_0: "2 ^ 337144130 mod 66417393611 = (34676449721 :: nat)"
  by (rule chain_power [OF start_pow_66417393611_b, of
    "[(False, 16, 36833330000),
     (False, 20426790711, 26894452579),
     (False, 10890393919, 27015899732),
     (True, 21977942784, 13990190624),
     (True, 5893800495, 50593381307),
     (False, 38539456201, 19785296438),
     (False, 5893907210, 66254652534),
     (False, 66092310217, 58266797569),
     (False, 51116424694, 58386079727),
     (True, 102651854297, 32330092591),
     (True, 31474733653, 52577295579),
     (False, 41621205833, 26722812278),
     (True, 21503665146, 9431316362),
     (False, 1339253522, 4536867102),
     (False, 309906215, 37059686039),
     (True, 41357248595, 16411292497),
     (False, 4055120304, 51362517265),
     (True, 79440280214, 53472847696),
     (False, 43051154001, 27418020805),
     (False, 11318539075, 17653998200),
     (False, 4692500495, 49375902555),
     (False, 36706947089, 52591879646),
     (True, 83288598191, 38628612931),
     (False, 22466550640, 34676449721)]"])
    (simp_all only: chain_unfold, simp_all only: chain_arith)

lemma prime_66417393611: "is_prime 66417393611"
proof (rule pocklington [of _ "3677 * 197"])
  fix r :: nat
  assume r: "is_prime r" "r dvd 66417393611"
  have d0: "3677 dvd r - 1"
    by (rule pocklington_divisor [OF prime_3677 _ pow_66417393611_a_0 pow_66417393611_1 _ _ r, of 49445954925]) simp_all
  have d1: "197 dvd r - 1"
    by (rule pocklington_divisor [OF prime_197 _ pow_66417393611_b_0 pow_66417393611_1 _ _ r, of 51215684949]) simp_all
  show "3677 * 197 dvd r - 1" by (rule divides_mult [OF d0 d1], rule is_prime_coprime [OF prime_197]) simp
qed simp_all

lemma start_pow_11290956913871: "2 ^ 41 mod 11290956913871 = (2199023255552 :: nat)"
  by simp

lemma pow_11290956913871_0: "2 ^ 689145319 mod 11290956913871 = (6562189248676 :: nat)"
  by (rule chain_power [OF start_pow_11290956913871, of
    "[(False, 428281085061, 8844897043573),
     (False, 6928748759575, 7934499041504),
     (False, 5575813947379, 10622485387907),
     (True, 19987180303146, 2858131343132),
     (False, 723491802945, 2687454419329),
     (False, 639663343954, 3712742224307),
     (True, 2441680528816, 4965157653762),
     (True, 4366820405881, 7693966629937),
     (True, 10485758284997, 1237408754551),
     (False, 135611218563, 7080815824228),
     (False, 4440540613085, 601111193949),
     (False, 32002129690, 8890392284611),
     (False, 7000210485009, 6161277761482),
     (True, 6724203084593, 7251737583145),
     (False, 4657505858532, 11112753593653),
     (True, 21874725654392, 6644426897386),
     (True, 7820135907253, 3966782059629),
     (True, 2787250014082, 2782612103860),
     (True, 1371527706573, 300332225117),
     (False, 7988644906, 9867320772563),
     (False, 8623185791191, 11088396078608),
     (True, 21778938407787, 5247395721851),
     (True, 4877383214149, 6342976171623),
     (True, 7126649587042, 6562189248676)]"])
    (simp_all only: chain_unfold, simp_all only: chain_arith)

lemma pow_11290956913871_1: "2 ^ 11290956913870 mod 11290956913871 = (1 :: nat)"
  by (rule chain_power [OF pow_11290956913871_0, of
    "[(False, 3813877607002, 1868867228234),
     (True, 618665847971, 10040266411771),
     (True, 17856227844691, 4112203104021),
     (True, 2995355397724, 7277875307278),
     (False, 4691140829987, 2583906719607),
     (False, 591320468810, 6497206370939),
     (True, 7477433657498, 1898828128684),
     (True, 638661238331, 8343556354411),
     (False, 6165547629865, 6997646799506),
     (False, 4336838861769, 1436354146237),
     (True, 365445240673, 6381435445155),
     (True, 7213333405010, 6884296054340),
     (True, 8394954037169, 1),
     (False, 0, 1)]"])
    (simp_all only: chain_unfold, simp_all only: chain_arith)

lemma start_pow_11290956913871_a: "2 ^ 42 mod 11290956913871 = (4398046511104 :: nat)"
  by simp

lemma pow_11290956913871_a_0: "2 ^ 170 mod 11290956913871 = (11005834445932 :: nat)"
  by (rule chain_power [OF start_pow_11290956913871_a, of
    "[(True, 3426248680494, 3013434865358),
     (False, 804253329192, 11005834445932)]"])
    (simp_all only: chain_unfold, simp_all only: chain_arith)

lemma prime_11290956913871: "is_prime 11290956913871"
proof (rule pocklington [of _ "66417393611"])
  fix r :: nat
  assume r: "is_prime r" "r dvd 11290956913871"
  have d0: "66417393611 dvd r - 1"
    by (rule pocklington_divisor [OF prime_66417393611 _ pow_11290956913871_a_0 pow_11290956913871_1 _ _ r, of 4247528171144]) simp_all
  then show "66417393611 dvd r - 1" .
qed simp_all

lemma start_pow_q2: "2 ^ 138 mod 774023187263532362759620327192479577272145303 = (348449143727040986586495598010130648530944 :: nat)"
  by simp

lemma pow_q2_0: "2 ^ 2329241303 mod 774023187263532362759620327192479577272145303 = (615079658254454451186315932480380806105904328 :: nat)"
  by (rule chain_power [OF start_pow_q2, of
    "[(True, 313729117582027110826139101361861816458, 653010844115837810551117026803960700558265498),
     (True, 1101835628569339888777279450691941411759360807, 98797327324734728596169436771797483607036487),
     (False, 12610619484177634972670157063568148406738779, 475002379202207489637891037739300363296496132),
     (True, 582998711047497868810071996474858638228197220, 172633813525265783142222159877647521001265188),
     (False, 38503282669914871922881813783557852925074766, 642307598742133791477736989268221606209951246),
     (True, 1066012125193406133728258826100869277121476366, 615812982172069860931070881094651019961496134),
     (False, 489940915532990028231755955001969205630686463, 137638004614951134981280422938897283125812667),
     (True, 48950007250713936033392583195074319268230662, 360933193051342584081132088799831352571425192),
     (False, 168306030090392691097471052417592660956232852, 734587505818930357924299907981992054806142708),
     (True, 1394322063174969327075726721714408062653915131, 575567085197901594565646211398528754860866835),
     (True, 855988489787756650852795138346433163825980431, 234666129367458002229120197624250004539268857),
     (False, 71145403882526607897003086322503862551832189, 417634580432423479049565273862918978849528182),
     (False, 225340333006822347189801301314715022933879767, 53035115821104233449590134112962906856440723),
     (True, 7267801679435451061904429880188818991942987, 117901529609712492780639591626614598269685397),
     (True, 35918228066149919914534457882391314239258643, 354058290873531186889541978679516781815491389),
     (False, 161955449654514697422583859034920372695590690, 659920812705363290873884044653571238439120251),
     (True, 1125277604618926339429294418869357305281850419, 230590772716421888886603320005830695997174045),
     (True, 137391502830658698867508751467460386125619913, 718994909075523711891189280722286623757105411),
     (False, 667878802318764296799638631817933231374929357, 462692961937113894182700360579101463901118750),
     (True, 553174066485039013402000948515823247155928869, 686329074848032480277851562832052439902672693),
     (False, 608570397803054672188522287752039403305928366, 291235612183375439419898557712902185826507351),
     (True, 219161862847262065064217005291209696796126335, 136761961713889100705237001781596316849219897),
     (True, 48328873035332356670942000848157651291667703, 735868460517897155429387168218205795513132209),
     (True, 1399189068481004469171049143504257451995353878, 615079658254454451186315932480380806105904328)]"])
    (simp_all only: chain_unfold, simp_all only: chain_arith)

lemma pow_q2_1: "2 ^ 39078184458672824 mod 774023187263532362759620327192479577272145303 = (102922799461549437623850937378191219044018630 :: nat)"
  by (rule chain_power [OF pow_q2_0, of
    "[(False, 488774745025317328478827607363898051436712941, 105477348683297689673238318274812677036665461),
     (False, 14373563051244951706139394566220118129247711, 195844006788174048230038136628564391558191088),
     (True, 99105235155668907089791042030293181757275743, 325677991749767653653693413971375622911962359),
     (False, 137032269905435391068065630314982552554056328, 422695448550058678636364226407949600970217497),
     (False, 230834741342319605077398364369345688274612068, 207416815349965474930706911634651307031628405),
     (False, 55581972217163082218396669743626012386027234, 421496912069271052857953341973873873439662123),
     (False, 229527551379985824394215308978988935348453957, 295108739608396177412716655576738938691553158),
     (False, 112514934470050769035790874199488931308312273, 373948911480051826599518020762182827385569245),
     (False, 180663564991503207570658840775843014274220641, 409368917339535250707003133280934914256070802),
     (True, 433017804224219299295196159567256433210941106, 363625345183154555709122662332585631066321290),
     (False, 170826137815106676294095177238049298915075069, 393712892579192151791995736384620004586513193),
     (True, 400530227863311179834691543402908489965528285, 242801873879714664422594045277569939449715143),
     (True, 152328123832882466438134525203958273168232509, 630876632870847195324656154423338428550765671),
     (False, 514203362963270619338503005012747235313073507, 359877199046738462003049143604397971928292620),
     (True, 334645267802890472141435169082402103996741515, 78654977221323582094200254066980571080574755),
     (False, 7992790840748511726473752378919963253222124, 613693225541226637333197036675803952481026453),
     (True, 973147526514517536919035250578176858213741173, 478694797768871296322655838445851469681861999),
     (False, 296048895151460266246681323472062134725760360, 31001927167473581875562186497852252602686921),
     (True, 2483438491023146418643519628873985584145404, 759507444225123101908662524585618426521283070),
     (True, 1490527848068141443681260547056402700560132465, 53338527590446309208503070397740533729687905),
     (True, 7351197153601970796419466639242391857869390, 627683305310867779876630917367249709330602880),
     (False, 509011019629616314588408938334678844659856975, 544431915239507458333185930042275820866255975),
     (False, 382942158850908663449835717334715069064250543, 494775365281639912339900587868631712730551096),
     (False, 316273034345458214179044383187321475014464662, 102922799461549437623850937378191219044018630)]"])
    (simp_all only: chain_unfold, simp_all only: chain_arith)

lemma pow_q2_2: "2 ^ 655623141550997041826014 mod 774023187263532362759620327192479577272145303 = (375126594605326142839060149611940398772739156 :: nat)"
  by (rule chain_power [OF pow_q2_1, of
    "[(False, 13685769138845808413657313811434971202941763, 752040758959973359906368531878062468204087711),
     (False, 730682636442174476874034978408180040982742444, 669409213928204255369346891607046241587878989),
     (False, 578934459671953424311745042094235051997749878, 47869075302439965691562579967872401841139087),
     (False, 2960438922265123859724286010471454865798681, 427111350845167871159275538983449194301448226),
     (False, 235682998936663617025706961455765536559440706, 426712233274286999991200164384342790513643158),
     (False, 235242733062899125149036265855225481426832709, 127660884132402063895277161029780580839097137),
     (True, 42110628223125383921232183474235069315405792, 641914361462160685354503961013388754811398562),
     (True, 1064707244515870234139725814010426225059634892, 371228952151198295683991726322421030078623412),
     (True, 356089939378924735455090871040257359835561554, 188695529959075657923299014067169134540562626),
     (True, 92002419597834636076441817203994630557762847, 137616823205802956702587295028768293257074111),
     (False, 24467471182887518176647110857991990399189017, 11140196522879708702669163428045949560703170),
     (False, 160336254275709908699627975197773189470940, 90830619158706458380071300479738479472054080),
     (True, 21317711181034733872964291502565940015877242, 197430956909030731868025215978260018054398474),
     (False, 50358934186223985517830249570720738895802698, 203003066567729660140812636510103401298101182),
     (False, 53241615644094639880516984557358270768596681, 303522073477263113573828930129144555074257781),
     (False, 119021820797948533251976822547842394021198140, 113232564199788018112417533833047991805707541),
     (True, 33129791991344385795520983228697173008454071, 460652313401762456295013784299092685534654849),
     (True, 548305418582111461895285208074982063959100926, 330004855179502554419876797861926672004575024),
     (False, 140697599547448806692915258791265097224254597, 640412572491077969189464638813016491594892685),
     (True, 1059731206385690511591920169409719252368605765, 669270920158382238076158518021118864729546655),
     (True, 1157390558681397016392924772030788531251608691, 42522222317715607375811190839278600193749677),
     (True, 4672054844324999411955911687670393826675675, 436190962179335855693792379794847218619604133),
     (True, 491619782501828182140645833601829231403748906, 185621697415163940894152797097503415902074860),
     (False, 44514705913526611224607236334701129339405348, 375126594605326142839060149611940398772739156)]"])
    (simp_all only: chain_unfold, simp_all only: chain_arith)

lemma pow_q2_3: "2 ^ 10999531060399652386076074992508 mod 774023187263532362759620327192479577272145303 = (538574841175226319769183366202207213935122474 :: nat)"
  by (rule chain_power [OF pow_q2_2, of
    "[(False, 181803289999215041913469698937159680497577703, 311425186970500483050157619936305873466613327),
     (False, 125300699869848206942289451914061189815874987, 563659164584674045651261365352444627386772868),
     (True, 820935752437920427966490405223091762067075628, 633286985780381975936204806394109887735915564),
     (True, 1036280082969284623289053829796582737207229406, 521543554796154953984247397370796424188496174),
     (True, 702841165549732268173359518270872785842165799, 28229163979788310305718047965731374680184455),
     (False, 1029537243987577612138702225915382722096425, 344095076748822129022925863343355111446805250),
     (False, 152968830638487776965328374770975630272578855, 589581107083272079247904877402209151342194435),
     (False, 449089752799856439818510531874230803358827955, 504809713224863048610604888607449714806623860),
     (False, 329231540810941242865525014111293984129228239, 287911310485463250031453927963693218262488183),
     (True, 214187182165730633824077797163342920777886392, 12942639513622912874249171832552596578866202),
     (True, 432834365522851498797067385987816757167889, 513607167680974068842174875178822842062034241),
     (False, 340806744596216608447487075120964638083435789, 554255086272875250821613495100830865977997014),
     (False, 396885656288175476260306619555729513136065180, 139723770709550319086421292705266580754066656),
     (False, 25222412483940316017931640069695457070867686, 259060378344116729730881723200405880811643478),
     (True, 173411548212307305888839888876581749656949091, 285249468098735152192725796126057767334103395),
     (True, 210245016918099483880358769841984334874074216, 343352233849847473836496695608680990743244602),
     (False, 152309076045214101247138998663851765564403623, 442789452828869227427083770368527437406505635),
     (True, 506606269069652129511327126215066997459699431, 620208949698351178239432048285932823635083857),
     (True, 993921493865962602557640710528695930690576761, 21015447372287791154528859005652145976889315),
     (True, 1141177772254590581878352588578254193670695, 97183562868347665734081532360304620549342865),
     (True, 24404036073328786547674246141266519863999873, 125916975669103308202973787562462881423269931),
     (True, 40967983963651878828797463759419614633451901, 629182978551043000964149380599149834443918519),
     (False, 511446203437287480888790641420404790904572085, 432273057516670619105133720643630884353486606),
     (False, 241413951583843748815549520771720176771796854, 538574841175226319769183366202207213935122474)]"])
    (simp_all only: chain_unfold, simp_all only: chain_arith)

lemma pow_q2_4: "2 ^ 184541508499034014406113702581519979780 mod 774023187263532362759620327192479577272145303 = (398906710203340974171861853547482040727835161 :: nat)"
  by (rule chain_power [OF pow_q2_3, of
    "[(True, 749493979818365043269144269032251057136268584, 590406242494692085609284455750598836677700400),
     (True, 900695320017641724117418078749210619139357570, 251863977594990527144903494423647309207326290),
     (True, 163911015209346594630824258198605915017329767, 658715548515285012798627670318130802359193799),
     (False, 560585497948474743336143598807107128315241394, 309107461025436306962452254668792194551780019),
     (False, 123442584193618620429919765048278332900576559, 161075356047329340434976158661206741843887984),
     (False, 33520016909958935720919326691387721819555172, 469477225561557906996194280171762419930427140),
     (True, 569514890374815396010815909435199960792489856, 604383534439793797226628592354864781711612832),
     (True, 943846289652742388955313982687197481876411100, 184134120411872061985620838418467205972057148),
     (False, 43804080882540805084130630492877412844436471, 323586374282717648969397470990699756713348191),
     (False, 135277784108274988662082641343716716823269855, 745143783263854538355000370549063126463231416),
     (False, 717341892172188147978766981536474020429302655, 642197410105679440539397448594578480645685591),
     (True, 1065646405256916595442101849890734133082151406, 101909425505912529337232573435626804572292544),
     (False, 13417596756580322199360756424338669706604614, 73148686998369365045868192068128396139763894),
     (True, 13825762580840213119660409393841608390598193, 561979496315373167567909610891732939546848993),
     (False, 408025185130988437068532064246118081717089054, 621637259713883294821877036025278556266300687),
     (True, 998504667620549831526620653715143993490838025, 534921765246168837292004618233794432755797363),
     (False, 369680520742144875600075127807927226353217751, 595836191919417421551922459831377929046880216),
     (False, 458669421592093202035630014376015023187323833, 749432915180561347147272044224778171361300257),
     (False, 725623861917729717423150848538694436968542184, 504990413523749236239158244374923287575304297),
     (False, 329467284633246992814714618312090456966465528, 307512036163845176223320411454834634190049225),
     (False, 122171601499371946695975504479826511773079797, 644090210391023180772317063678112270325357134),
     (True, 1071937393990000478643622378015469839050318204, 762482151968381180223733611344421461415392100),
     (False, 751113198721772783983148587908230586300315217, 67187843816337057350790453074876654016434249),
     (False, 5832133237051910052470816029748235424758280, 398906710203340974171861853547482040727835161)]"])
    (simp_all only: chain_unfold, simp_all only: chain_arith)

lemma pow_q2_5: "2 ^ 774023187263532362759620327192479577272145302 mod 774023187263532362759620327192479577272145303 = (1 :: nat)"
  by (rule chain_power [OF pow_q2_4, of
    "[(False, 205583716435970664964403946051424390956156235, 181176027372098156790468656868694708298481716),
     (False, 42407971020071505607669158394780393128818665, 594929514169410497256536948481603012167824161),
     (True, 914549157322193128260616297615961096068591525, 516375056064153342761543840908637751676350767),
     (True, 688979872729505869568116309551334024685941100, 395932302985622608951321689193641167543323278),
     (True, 405058636813488203924599987292238966095965293, 237897106827382306013166886051227810092361789),
     (False, 73118007791115419961404988553531651390731817, 444264080539184826189641108520412389338074970),
     (True, 509986203268942554930943386170472527672589039, 700119014962813998881049552005613558867867983),
     (True, 1266542509780429877437347923744891264119052655, 233306284062645919181577457091184179965047113),
     (False, 70323244934763922431924494810876893717136941, 212389229523864137361985178330663398208696646),
     (True, 116557709277983884176895801074654845445033834, 502544294954263427066804252904295891504116930),
     (False, 326283207721387722124697351121087571006253993, 603378410070459833190495627390971170292680021),
     (True, 940709559428746875021582464885534533871289027, 331579578425484647897677899756234175131630701),
     (False, 142043570060891530551603519238637796438884216, 534434255099578696205279707501370893500513953),
     (True, 738013996799287800889877729010124963611238732, 96352772467335355799665156928087647369896622),
     (True, 23988575316365077373401647466305525152297126, 347487966773755365765417175630619033432722590),
     (False, 156000348619333250799038007042163701128629895, 318214937387581239325713247714952940146674915),
     (False, 130823918511508250344232831232479503125286016, 754687564828789143237089473245498088904274377),
     (True, 1471669918625555310183642643757231540724904445, 740990870988525653139161063928233276966904423),
     (False, 709368246227218485711961400254547926204919197, 253305631452207238524435491352464615258881238),
     (True, 165792818564634432318196406526438226095584446, 596427262250668417994262779378187792758068150),
     (True, 919159748723944700958510141302579984684350033, 1),
     (False, 0, 1)]"])
    (simp_all only: chain_unfold, simp_all only: chain_arith)

lemma start_pow_q2_a: "2 ^ 108 mod 774023187263532362759620327192479577272145303 = (324518553658426726783156020576256 :: nat)"
  by simp

lemma pow_q2_a_0: "2 ^ 1821295668 mod 774023187263532362759620327192479577272145303 = (77865764342143585602053436343071759881369429 :: nat)"
  by (rule chain_power [OF start_pow_q2_a, of
    "[(True, 272116632683515247507, 95613366238908855394262845905597831709445451),
     (False, 11810906900419715098510847946896820751679087, 400768612284886720613760649881437818054215040),
     (False, 207507324374339395331423212792013036881134922, 484001531868916959803455810155250078230630234),
     (False, 302649179903315203916896056842067228522756404, 112749277468702447020299683119849916873124344),
     (True, 32847593661005535987372980375477234223852002, 651052677833881222666442522335497329259414066),
     (True, 1095237445826935617081473429580957505791267175, 400644751151329068062353970545036536182975687),
     (True, 414758160392058889620142031953483456209551766, 32841636669751965011305424150842453213988840),
     (False, 1393463551087099664499272429622397120196491, 569508351404506165922817602941813755181813827),
     (True, 838062134717548798601957890845727229287981650, 250749977422674704178486886291583784979081908),
     (True, 162464257433323064179557371106903742501326566, 103452794605069437616037790482122174939821430),
     (False, 13827080231841686434285802811477785834595250, 713519533413213498957669069300107678093634150),
     (False, 657745314274251474093277932155595692004059067, 31840289362946223073448525439660763027610199),
     (False, 1309785085767689852945488222039426637034738, 110766855399678847088025205373978081294283987),
     (True, 31702658155526353137358655772075954011552865, 391466357908596080588811192070535693063289243),
     (False, 197986199762314451328635190504047621096056881, 487223394928707677470701707840471397294533106),
     (False, 306691893049235243323889535355943166568265844, 9418851166583297077365090018719748230076504),
     (False, 114615115875130422903375615430282419853555, 316244199460498112380527653051264327751759851),
     (False, 129208524160608494707683437670199819233745842, 496866230891550498521802919549831603579462075),
     (True, 637903503312805698118778400642176176654737564, 406884280742807862189248145431561983986349358),
     (True, 427777411942635999791999216535761656343136566, 213299274987226874122020918044600413329574830),
     (False, 58779351134071861772030445776612204381208592, 525698557708634447988073436961681624793485524),
     (True, 714084482543663843885467488776718244656936752, 23111334106005390808541712443978370170233296),
     (False, 690074629479479662155678027756371695092297, 58831329561222490098220749096934529286992625),
     (False, 4471604203715874997650325736578287123240532, 77865764342143585602053436343071759881369429)]"])
    (simp_all only: chain_unfold, simp_all only: chain_arith)

lemma pow_q2_a_1: "2 ^ 30556270823541602 mod 774023187263532362759620327192479577272145303 = (692475992280937415632211173043170942333138479 :: nat)"
  by (rule chain_power [OF pow_q2_a_0, of
    "[(False, 7833198483396257990878927381238989161230002, 240156503310238767518122019643157483628805435),
     (False, 74513460360411678254333535358018998300036691, 361760379881010467105241628997756807902226852),
     (False, 169078361740467320885448859055163359223709406, 589542442673096904948285204948140917390009886),
     (True, 898061705209943766208678898020595261072854928, 138297246956000103386495941819795604899862808),
     (True, 49420040201191000964481129840609682118071331, 701988318685989453203722107934027083292681435),
     (False, 636657412439767721250894045145919410271777382, 485236386683235273471823756400749050420722479),
     (False, 304195474807186718069812587144540960591042514, 198084196404639156572948400123100402277493699),
     (True, 101385461084158671616081984609253339851178835, 547671384664506484997390174861759664011143197),
     (False, 387512868497847270869373788340503108931379755, 584114984410880723429330099383999802206840044),
     (False, 440801155091440510869435956162543815646108470, 89042989782460390362912153964621859462905526),
     (False, 10243432186353701041578117532357872487619043, 518632507193563281508051357630903934795531647),
     (False, 347508552642753994117337358032601020516031991, 440333577437715869290497501107876647830144336),
     (True, 501002198925293361902915908474023024240980763, 305364001359579372923237825464749499421955603),
     (False, 120470775114628762543360698822172653732500444, 406125474690862201103948996785254722623079077),
     (True, 426183359638092083136031666786119469832574460, 236915431741518972977734354157472692703582478),
     (True, 145031628821631339052184194366278346447910347, 509875752768106672515832265707930956596090827),
     (False, 335872732934459370690266224147350310561937476, 428853190925548364739620967801255271360468701),
     (True, 475218475087897113627194399762676358327202204, 444987098925558286593654435639686527851406990),
     (True, 511647509967338376952520906359797483802417512, 583898660918274004224138569901083715305974064),
     (False, 440474719404076687513248534904302329330319196, 426267962045226324146417492118890051158539708),
     (False, 234753142355573205557116286749114969702654138, 596088241764009549888254272293320798722511450),
     (False, 459057555143153323692825199596548397246782517, 422904611074787878732291010872251692517034849),
     (True, 462126491844810730163162256630364428986707949, 544016631550043354026372081814440911407792055),
     (False, 382358177730264651655148226073627432342199982, 692475992280937415632211173043170942333138479)]"])
    (simp_all only: chain_unfold, simp_all only: chain_arith)

lemma pow_q2_a_2: "2 ^ 512649155761055344498080 mod 774023187263532362759620327192479577272145303 = (430225240564197957104648266730757558935603636 :: nat)"
  by (rule chain_power [OF pow_q2_a_1, of
    "[(False, 619520200138662348778880646749107436626090497, 240922878629263637219534368674295217178947850),
     (False, 74989786355390748538717535248558277084147738, 80085583880035813069314099080919064364847886),
     (True, 16572373672889914808862456186190702225987108, 285464713444696685209293279987855423856584268),
     (False, 105281216329140518028143415171660360275266662, 356013286177246056238505592110143753049307238),
     (True, 327497837326593055721383942827966971028178976, 241620080341026581610501094393170122476627560),
     (False, 75424437128816090430168725313530629865335753, 358658586606785562066138409089799342254635441),
     (True, 332382760267310422789691479344800380807447710, 117958786072792374634077219556620791931922832),
     (False, 17976561220289891181785303854683674741824953, 287561249415689905129037706872828109195754465),
     (False, 106833326864352164108954179720040363928107665, 38857842693000593504608943283730344859388730),
     (False, 1950758018105589060580459953365328150592882, 298261168387342642949359739397986785749479654),
     (False, 114931601574223338914003294432227982786231152, 401002084624241947465362178496844166670880660),
     (True, 415498332657156099984958152017287249130297712, 86154879164575628652523755770650778611624464),
     (False, 9589716853450576322739786230681852538790077, 675316971730409085585745652656422695204728965),
     (True, 1178396254302023563253122861636930222865427501, 191455127098461652852046234075054225735764647),
     (False, 47356547317242219393462360993932748874703039, 639569620663936429939460883215853295191358792),
     (True, 1056943270969328628371367962685962989907043020, 297957859518709471578374555649474230039463468),
     (True, 229395934152407716413203622755210481311840605, 455146780759537905497473010965622506677745733),
     (False, 267638741893709438073816615779670453138244774, 612457267914003182303783991388437551691310767),
     (True, 969231700530369542819424378801043128091024301, 67953255594218580811323575445867324164248375),
     (False, 5965770821644681773603318300804205542492340, 328302050295435099934055226102198491445661605),
     (False, 139249363587204376848962381046827519440320603, 283755160617062646014244728377241004250598316),
     (False, 104024004063073795883454428160490823452261547, 300795467605351061914788673682837200238472115),
     (False, 116893027005813334251824370279087654656190836, 337161642390522478602966483741700161743529917),
     (False, 146866366499135023750189665330249502444577651, 430225240564197957104648266730757558935603636)]"])
    (simp_all only: chain_unfold, simp_all only: chain_arith)

lemma pow_q2_a_3: "2 ^ 16798487535978261528513091914 mod 774023187263532362759620327192479577272145303 = (239904036708680826588713273592995675716678834 :: nat)"
  by (rule chain_power [OF pow_q2_a_2, of
    "[(False, 239132057881753052830553867344560612988006423, 263502441708385124240452816678106125343139327),
     (False, 89704724520921622350578671720025624185177779, 644479625869934597692853421618541529959190892),
     (True, 1073233967653826708173719960533693425033041883, 354968763690068437261692523074461347330785779),
     (True, 325578936830364890225468237365479815166650048, 45618179300750674852408397124994046369349138),
     (False, 2688573568542089663595487595129505313227664, 200637042223526432902561872607756901214080852),
     (False, 52007773635984624830843115927056647688622043, 255810333028184965639646902562849808648331875),
     (True, 169087767810529041451333835678174334372777221, 379956552485052794446043662768770151521488287),
     (False, 186515060726693610307934584734562350594151149, 264674088108136638837485767246971240005791222),
     (True, 181008460905507428547181274820380276812386712, 446768241644900214462340769419376516614092832),
     (False, 257875816935335978445417520944351431137225325, 85147835877578913603177696271565284662381749),
     (False, 9366843363268196869855105433160517793838893, 434461736120868508344059530312523575339629422),
     (True, 487729575183625387368265062565331129937241497, 340294223611286303295578898243681161390869577),
     (False, 149608126124239145860540795845944643436040223, 733441407777606067535821801811503021615636360),
     (True, 1389974635112952956670179748561900578976120791, 255890411632606141942613659393873266076804527),
     (False, 84596823251511471855172242340971591071183465, 239904036708680826588713273592995675716678834)]"])
    (simp_all only: chain_unfold, simp_all only: chain_arith)

lemma start_pow_q2_b: "2 ^ 108 mod 774023187263532362759620327192479577272145303 = (324518553658426726783156020576256 :: nat)"
  by simp

lemma pow_q2_b_0: "2 ^ 1814569245 mod 774023187263532362759620327192479577272145303 = (193002671355313773369723884529191285728066771 :: nat)"
  by (rule chain_power [OF start_pow_q2_b, of
    "[(False, 136058316341757623753, 434818276751220609076941586549038704490795377),
     (False, 244265206660442447161664216737643015360678823, 100192153071221680153440162470359454513553760),
     (True, 25938415546792424416427901599001629610141865, 254005988299497710665337058067526154096865105),
     (False, 83355438381767382721393759472390403914591539, 679031996316039293149359968842167285064269708),
     (True, 1191397001040899739476775682165638126773608165, 308936753092393984856417494422570099265611533),
     (False, 123306276842550984051686961961342763779521026, 723141022329617180610157657578531843646969211),
     (False, 675603711595115885608725931443957542126719953, 271414800873640914876790062654629558976631762),
     (False, 95172851854368314433579691141017004262983760, 760398152340079377278783571091480463497945364),
     (False, 747012957229851661429640870885216418259110971, 609308792481850602430911228680956894815673283),
     (False, 479646101957522637727096770012431660812684344, 741550176791528232908599000419945213558761857),
     (True, 1420879047935609120511121467154874416276932186, 707667352639532149447281716877392626006754540),
     (False, 647000103139466394253370058538508924132300202, 250046043883034052669803385931926299250360394),
     (False, 80776680970758724307209771323944965507943745, 745480112320285948068470720885004174493855501),
     (False, 717989599032325445709136654946362226924408640, 630469499244463148976014412723172376439343081),
     (False, 513539899086033111563650453728953614532782524, 192682628174317021787083737572401603395487789),
     (True, 95931480635402677876329073053066344952354712, 161751467185649628262868548229046332835499306),
     (False, 33802006925927356905273686737835527644751625, 140683062818347448183735398268641841981114261),
     (False, 25569937037574286940985834154963790676272849, 209796997329574183186530185895646472735797874),
     (False, 56864937398212084362808968929894967858227002, 657195987905598011495936069346908964880848270),
     (True, 1116004206659931274346545413098510361706056972, 437596877984843916312882797155761153943783284),
     (True, 494794034010986944143603823662838784753226870, 145866197094930941489095823533866885551757702),
     (True, 54977545388942097975583366492297118357820706, 324128344368485815727852724600628862978597690),
     (False, 135731313159338386793251868115863070502326848, 756421784303841506433622259111561600619341156),
     (True, 1478441279756128967139355128893242054930990267, 193002671355313773369723884529191285728066771)]"])
    (simp_all only: chain_unfold, simp_all only: chain_arith)

lemma pow_q2_b_1: "2 ^ 30443420186575015 mod 774023187263532362759620327192479577272145303 = (430636698749147700956301540749987400699274089 :: nat)"
  by (rule chain_power [OF pow_q2_b_0, of
    "[(True, 96250427023976749440745464124461773130794568, 727118453825897791483986748422190303729618778),
     (True, 1366112164580818624439197785511128176263646426, 756214441723178436797066892942776791931789490),
     (True, 1477630880522954301520392038606365917941461629, 344700927595987837083814626236666523061841613),
     (True, 307015943296489723198265070811224609848412314, 74426588272859342018333076540771034934422396),
     (True, 14313051942336057012252921422467813748490049, 518830726734661501778770092656440621115171785),
     (False, 347774236526027005112651397668989998224597697, 365082863243992125584491945662884738756919034),
     (False, 172198325873991711432272369986202143723724572, 1682859239255920047757212947523992096007840),
     (False, 3658824781672587303324493592484589264912, 514033011085997162150236686369641511317957264),
     (False, 341372120156103643956443006140040503033076269, 160369623422766201386791852701801456481251189),
     (False, 33226932396798430592793816806764303313096979, 457624974934074228357729460662840510695574084),
     (False, 270561168101170129292706183719116381912151583, 132644658144428704723337118143042383394974407),
     (False, 22731367255877704586105126011532585782866835, 11825973246049181391973717658207962165275644),
     (False, 180684048640334747382968627445558322453590, 180683489410027468885548137447271360545626966),
     (False, 42177707183167779787091143256983257209976416, 733450405019638653342506306437704307671191108),
     (False, 695004368700282667480313580925870556833755416, 421274697944927382104028026012461695143056616),
     (False, 229285600288051354032595614359735990501863336, 24515456199413784551771466092889843741060648),
     (True, 1552944672859652128932640843740219186194330, 164548154158633926771955463601223144673627818),
     (False, 34980986981459682678046225731985428850308437, 405349437157784362729078039102070740952619713),
     (True, 424556186191332861940631805463354719509779708, 673633073395255531773982538896466589095493214),
     (False, 586263467346797104910233099476313549538212654, 122440311161677066212390069423523295118785634),
     (False, 19368450511630587672617037621680579454392309, 337047441791538739693335457141593624231107329),
     (True, 293533785259957254921035028111622586653584442, 387967362717879130502926101494677851030852556),
     (True, 388925492184303679163837485934047223693874267, 131353804598961728018535205289829133786848371),
     (True, 44582183755039873499491184977122197019349631, 430636698749147700956301540749987400699274089)]"])
    (simp_all only: chain_unfold, simp_all only: chain_arith)

lemma pow_q2_b_2: "2 ^ 510755836248929330833080 mod 774023187263532362759620327192479577272145303 = (226431674150622850915951612572109271830045738 :: nat)"
  by (rule chain_power [OF pow_q2_b_1, of
    "[(False, 239589678140255189921500563866535794891768292, 673273749871840202591720591194602833514647445),
     (False, 585638194986211217944824099249639767976165999, 216926396872772775354922042985259547068875328),
     (True, 121590831991915928246436933066907129520362786, 184154340741156634941250995896512388548321010),
     (True, 87627403860354106024634874175981487124366387, 172931893556442208549584306165369791941709939),
     (True, 77272723352755907990073172815430099507088607, 654298427269334391586624802871290195822904521),
     (True, 1106185031589671716293756406787201886748198376, 453930096294367969914171586712402997623850954),
     (False, 266209766984227681655408927632332930440673778, 604884550720992635596551639674921293968745382),
     (False, 472705890109676794838842538584210608067393829, 34307368268756325889231795906259996132790737),
     (True, 3041240978036322602097764501276901029707533, 663051220712857665511028515661910658096338839),
     (False, 567989342597209709478791974732996852073581845, 270552070430594621736218848830082621397043886),
     (True, 189137545279659692085069380991567063178328148, 235195498971466901665495780139188865949073148),
     (False, 71466751444493208098548546125415422116192040, 502173900686160179451511109682282816322641784),
     (False, 325802418687095462892298128804255083533970659, 418615249209769170349841800025291209996037979),
     (True, 452799682889327869338705711542211350266493949, 55255537707398145850735561994596055722537335),
     (True, 7889103317764513752978685230976622235732638, 772154609695496935704655926677379978742305136),
     (False, 770290543080344082190673797657669079442015340, 370769646369263327801695899367761415297030476),
     (True, 355209334631945606510814436902718443455967417, 370508721331437585854368460916033138487980801),
     (False, 177354780633875440704531537701255808230900985, 248526388377740244859849912752500550618778146),
     (True, 159595647097983054283501235640844498934067020, 647504359662852044981347453300148601754187572),
     (True, 1083331617660321041538082282635244829988639079, 596992854015612881246494905179113623806414431),
     (True, 920903853037578030428032524307001884722502396, 425088975264280680467250312301239543572461534),
     (False, 233456361339874080166199842799313443007056724, 685424457427038521380730007712535700618465784),
     (False, 606967200168894477931448875907577849215324852, 159421907505815592637129589838137027887764500),
     (False, 32835378850400817543452657408970190159689354, 226431674150622850915951612572109271830045738)]"])
    (simp_all only: chain_unfold, simp_all only: chain_arith)

lemma pow_q2_b_3: "2 ^ 8569060988008917152122053630545 mod 774023187263532362759620327192479577272145303 = (288371958875958841495720004242900242503058 :: nat)"
  by (rule chain_power [OF pow_q2_b_2, of
    "[(True, 132480018434376587830992968752908509572764947, 214477727674410677798455220445353910294835347),
     (False, 59430642938499942093346626064902416397947067, 513241920499979156467976739371639289713934108),
     (True, 680644387126922111008731350797871665929149299, 126877171585122255003995329858511033622918731),
     (False, 20797589703161846230691411444363239568207764, 283980912430790443446426271302558672329917869),
     (False, 104189590120853758542089425174366124626684828, 530648552115796190440169575311043075883938277),
     (False, 363797739520067359066674778835682334635881411, 287412427739903637959162879175237939277066196),
     (False, 106722776498968660431566582253803515122954928, 245225465718025012682212603326878657830007232),
     (False, 77692154480829349768038024584874393300916399, 728539990125233281302930154108104566588777927),
     (True, 1371458958711951602357583183000248840921777031, 579871241166804201836357833864925926244899265),
     (False, 434419358315484727395062426404048807910334362, 671239000287046911934625563991792814219738539),
     (False, 582103744332598384042178035002282907863885965, 747892666006239347309631531154627383819482126),
     (True, 1445288588429535307700965515817361355406412780, 292421517400710786375755355868363987510787412),
     (True, 220950341659003604051258133956801726566313976, 712324344877345792280602629559753317923660760),
     (False, 655543633129149277196092930646973813267099040, 323133438546166930005829952557684871391968480),
     (True, 269798685168120415601399413361483546310163129, 455086284480734100120758206015732588905887713),
     (False, 267567599692548906701275871064134279824771477, 296117761108785475944105034116190587050447838),
     (False, 113285661058917743013256349101117450996365171, 700709366716696895795233780831140677998432431),
     (True, 1268679348845773991663418706632540079018668686, 405203641508359412820843631305512432337057664),
     (False, 212125416645603846789799406536236950281253849, 94995213547777850950462425220135927905115649),
     (True, 23317365023369710516268707920529625797107083, 722803034225045322146925214285180953502901253),
     (False, 674972319798289181080398394412523882003929663, 227937409626643620064926296709089651941147120),
     (False, 67123909932190448783735925777633001568090163, 405236192193655559896003131500019717943340011),
     (False, 212159498792511565086464958042152266630931298, 228679775898119536682015049830371617087086827),
     (True, 135123703695996483112579419091438348457357600, 288371958875958841495720004242900242503058)]"])
    (simp_all only: chain_unfold, simp_all only: chain_arith)

lemma pow_q2_b_4: "2 ^ 68552487904071337216976429044362 mod 774023187263532362759620327192479577272145303 = (62363334908586357327233683356375951471604756 :: nat)"
  by (rule chain_power [OF pow_q2_b_3, of
    "[(False, 107436557501532169760736328178410875782, 105575815951327855014339200568414070951599418),
     (True, 28800824309139665388085952527761366588437526, 278556969541062316952095571473817035866037070),
     (False, 100247623787892837679904843345491302457015248, 62363334908586357327233683356375951471604756)]"])
    (simp_all only: chain_unfold, simp_all only: chain_arith)

lemma prime_q2: "is_prime 774023187263532362759620327192479577272145303"
proof (rule pocklington [of _ "46076956964474543 * 11290956913871"])
  fix r :: nat
  assume r: "is_prime r" "r dvd 774023187263532362759620327192479577272145303"
  have d0: "46076956964474543 dvd r - 1"
    by (rule pocklington_divisor [OF prime_46076956964474543 _ pow_q2_a_3 pow_q2_5 _ _ r, of 632032488684931311808149900400938671518447982]) simp_all
  have d1: "11290956913871 dvd r - 1"
    by (rule pocklington_divisor [OF prime_11290956913871 _ pow_q2_b_4 pow_q2_5 _ _ r, of 320823578353898442153005187681585320549721256]) simp_all
  show "46076956964474543 * 11290956913871 dvd r - 1" by (rule divides_mult [OF d0 d1], rule is_prime_coprime [OF prime_11290956913871]) simp
qed simp_all

lemma start_pow_q1: "2 ^ 146 mod 835945042244614951780389953367877943453916927241 = (89202980794122492566142873090593446023921664 :: nat)"
  by simp

lemma pow_q1_0: "2 ^ 2456621686 mod 835945042244614951780389953367877943453916927241 = (682718570463262578734477170876243608328646026877 :: nat)"
  by (rule chain_power [OF start_pow_q1, of
    "[(False, 9518773819377652192176783401319896297892, 22434990999289826791675586387884828625782852924),
     (True, 1204215099563760632172281632231163815432257318, 727687268125934490114309288213653543422234899914),
     (True, 1266898500338577320844697933910804627802378053773, 633500281058948311859910242777848918517167884499),
     (False, 480082524353713604193540880632748787529209380808, 120323227167949832415641664577044306691406690273),
     (True, 34637872741575731156014563471807794438730433917, 443811111058418189528602608582085324813057996061),
     (True, 471247013487928723088250185631858594659044667352, 214274214697651398610615595935138564471350895610),
     (False, 54923992324916470907368837907787566974879833343, 68089816783951091679911096643677637076380475437),
     (True, 11092172129457697555802547752310528606043298626, 766370312493025058961212640191552078650643411072),
     (False, 702586206257795820263506901698205311302809132927, 162181943555332848357023434321166332672215824777),
     (False, 31464966578135849201729133276379231854557260716, 772551482655461670827244074276406213929527535173),
     (False, 713965348428378495645793943654254295938504077526, 118808671447009507257139495800852156041586854163),
     (True, 33771359832702883318186580334941252389201142798, 412736896060592922947439823707497526795443700820),
     (False, 203783426853417730712573648973064230314421433956, 305729661131066941577772130304490716201129877004),
     (False, 111814319090088663960707510075825569826589929153, 679526804797126813592654374028059014158522259143),
     (True, 1104753674231787250210984304596026257370118885680, 572873231054814113095140198870522816872337380018),
     (False, 392590089389092915230254328489388497311380656725, 151765214389855831429866613981071597771923334599),
     (False, 27552864285136894149640096506633949068322402822, 549753783932743433563373333037248698755643416699),
     (True, 723083953310727283489574152166552244025628819223, 243264943835366639747300625748046045557870959459),
     (True, 141583070438038240624518294120021006308389235845, 391986307481750753721423244203987825447988991717),
     (True, 367615710335693329693313702433696991051953303223, 628266949331014590409062815861029620224487418435),
     (False, 472183384881175644040644579726441222000114498668, 90264546635865557757428291183509126059030434237),
     (True, 19493358935417107605345779414569355611158716153, 488770037511279466955340531713472453693291120465),
     (True, 571559462634797329242590472607770691962011022641, 415647985786017265698724326403469648055482968969),
     (False, 206668189124111201830008503871574305158635670324, 682718570463262578734477170876243608328646026877)]"])
    (simp_all only: chain_unfold, simp_all only: chain_arith)

lemma pow_q1_1: "2 ^ 41215272671256494 mod 835945042244614951780389953367877943453916927241 = (800765968710424879244763379886395180294342013061 :: nat)"
  by (rule chain_power [OF pow_q1_0, of
    "[(True, 1115156195445223757431229031603084413467001403972, 447982975852126957433616472072804390872440345006),
     (True, 480148183221359789632373256464365243621710714977, 804487108421631372036560122426462299211620291615),
     (True, 1548425972785932494607784320171864732095367299066, 361894502748257123187556596606890185123069359544),
     (False, 156670145166175197534654409218834908653089199639, 616483125224693321214995022538584419151457421937),
     (False, 454636877403232363289028517215731974844594826429, 14324022668479701814687467059602208505031979580),
     (True, 490887833621677501817601010925328091582839813, 481121749287716540923738613494245414065394906867),
     (False, 276905927949671411102867927189084435388991004904, 785517329115253462853302032763581742731161565825),
     (False, 738131627270065671611565751352860167421595872029, 737136458578142544584967817724201276772267888636),
     (False, 650007035278431880228367298065712096530727358686, 728736166133884066742316025411288998824126575170),
     (False, 635276690445534937439047195451506884798218272783, 299217250258817013968775606680233159155958947197),
     (False, 107101493911664235510920127424220640140984118024, 363900319014947624400839182238327341560069465025),
     (True, 316823320881495917516485461503342438750624744689, 300344937773597658458439419394279501488382328201),
     (True, 215820603239679903160915835929430793746604666347, 67847119634866327211255197710515456036279534175),
     (True, 11013239890478021002408477432553593648203591645, 209897376355576171370215296483948705831645359805),
     (True, 105406232167263494827760627167757011954118071245, 801525826270388880272284680740190259735899991005),
     (True, 1537047575408521193202234370503769496028841080697, 673119425120596110568658916584013167026203253073),
     (True, 1084018057594026095742428750308560204833456323082, 214372177390858436872709066228439054251785009896),
     (False, 54974224520671491577458699246874374071950682340, 149184853418080893369551490470766581662734306876),
     (True, 53247807845391054880916823694341846092323635459, 278136529531070308261815770101098202556771120133),
     (False, 92541883916037170778567424371509305207944264987, 106654688567774838240358953445300899868215126822),
     (True, 27215240281694052876076546660099974437717317146, 106460828050693846464654928757062785996483865182),
     (True, 27116394826163378176729359169051626789973751432, 664434796204732213893157405563328523057740227136),
     (True, 1056226369193394051860798933401950018511356789456, 617146992750056726719349235201956231743233554096),
     (False, 455616567373561796126520122934676037948130489955, 800765968710424879244763379886395180294342013061)]"])
    (simp_all only: chain_unfold, simp_all only: chain_arith)

lemma pow_q1_2: "2 ^ 691477532104567192550874 mod 835945042244614951780389953367877943453916927241 = (333401010176645182046808238343221880472800004320 :: nat)"
  by (rule chain_power [OF pow_q1_1, of
    "[(False, 767067336057134025471267293244575019466533191552, 509551202319089149484834787640869732581194721689),
     (False, 310597485078274481346341759427642472415151041150, 416588832558580283806538923075520073444220045571),
     (False, 207604862332250768874855106716556343973259662103, 249642707699719245995250746788173231693620668218),
     (True, 149104255323547687951963113655001074664832545004, 98538845880226569580765813319502626340144537084),
     (False, 11615481469134336160010504639920906012275649333, 162390157259039820494519562500783885965260042803),
     (False, 31545809642949119376596491784645112920530135764, 749010479794389414762661175106649439313952149685),
     (True, 1342233449546929063524253347654963536920267563191, 158793151381835086482276304056306631443774412419),
     (True, 60327566171260052501271542359063031863085814256, 594800659652462549593467567038716160277410315426),
     (True, 846437999735104344628891581774194028211027291560, 524400858974050901478783941811265272599813736992),
     (True, 657929043168492842873470158163919546446821746313, 490067511394707688362801441984424608761717403695),
     (True, 574597978545877473043934902773362016768049311698, 614839713349885055457018515057573818182003140832),
     (True, 904432358608450205720507273708970904977563491560, 52078057466320608829695218332759633527213718488),
     (True, 6488761658740163091095808910723737092697503187, 34362895156291616754649959210299772332381395221),
     (True, 2825086587873466080162664432653064095178076055, 106319863997420652770256812729931113521403963427),
     (False, 13522316550951280713004565751763454222232492777, 409171581530816804478513304423843199940786546072),
     (True, 400555956843485592362997051795086021413682492770, 504369838851690456944711046717451709611158710798),
     (True, 608625977756180515071506370892683016346931527672, 106815472249168880232326579827884140646601480656),
     (True, 27297356967814389722364052530737459509305352429, 762355294677565972742821503034618165096828762283),
     (False, 695243785120567081724149616108579332771445862732, 619797430005794560548824583091911763166005889677),
     (True, 919076816845042887053340719137860807277301211040, 50814067596125219937371239421845176419724388018),
     (True, 6177605787888662941501343786366711769067708436, 260891090041765692728233631135375913622830031572),
     (False, 81421812946482792052873310878983556301368805379, 227039905897952815657779511796192203051884361845),
     (True, 123326573554981399859711255819490770998942831515, 39237367862569794693303663330852362413006807935),
     (False, 1841713221539884853025997976334805553667055705, 333401010176645182046808238343221880472800004320)]"])
    (simp_all only: chain_unfold, simp_all only: chain_arith)

lemma pow_q1_3: "2 ^ 11601067915265258375939610343661 mod 835945042244614951780389953367877943453916927241 = (340739896863488127646643037632072934629348406218 :: nat)"
  by (rule chain_power [OF pow_q1_2, of
    "[(False, 132970743254053335594746094391015841258032653058, 427814554033685070135022508766373906061636509422),
     (True, 437888338093603586824552194451169658715849058740, 644658886857200571736529072947657405833674411828),
     (False, 497144021918077321515905402586189807777892709784, 273913538282378240825509072093202269433489475640),
     (True, 179506122203705705724199518101883562036916389098, 798063387226883034485990632374407861086995200582),
     (True, 1523796751810088779681669636521905600782197204931, 414748894901028314448083273537891964826532852077),
     (True, 411550130998416933842428546236217937770070488877, 381110250021405089032808655317856139057417629501),
     (True, 347498975007680409588387196963195218186516397479, 580592504392614610104759585682005652299532192563),
     (True, 806482816745384411681493613931069682852768130711, 150247518913480460231307149413828690807660419587),
     (False, 27004546709245214622394345208134535264744342437, 808722392284704883275576960674981978006775624252),
     (True, 1564772502332306954245489656166175149142543137371, 156278235819487616648351812882755315272506095597),
     (True, 58431800552995531260118043375266550647376890583, 52289543424347420105963855522008235774176501315),
     (True, 6541569632819549998743451826988225150911108961, 29275124877604392769449728960435162559533351849),
     (True, 2050452824740949664736866219234061871201202714, 811979238469574924799318371453135867151233705528),
     (False, 788700513056817538364985050506943787637752083140, 186757715439557715674960019026930632274254942044),
     (False, 41723369974836999199346043382469553957991227273, 345544996229164212411648254868389931963163054143),
     (False, 142833964417572066246147081112914088886310062776, 514587738935803099014044756934375878011814983433),
     (True, 633535765346583835352368915392461993779446077341, 140764353896562030913390092469895110366573184797),
     (True, 47406473695236994005839979783189816293948162115, 580162182338904467225466917609416688050896187703),
     (True, 805287766077204679373762707582913999053530167865, 597042767368200568362701105572696735422295521953),
     (False, 426415670950736511025367231313540431471825866202, 375754607875195798959695054447844035321669925527),
     (True, 337800975433326565694911316943338557103418364483, 362982561174046597699529745815231824678322874055),
     (True, 315227277053258312105146850577902978163326358061, 324592222906873460566927611881577402958333446349),
     (False, 126037126661724805633836854174983141377797778757, 712385985060028998198098353236897303299077010364),
     (True, 1214179799062543139105622556657461685533831301414, 340739896863488127646643037632072934629348406218)]"])
    (simp_all only: chain_unfold, simp_all only: chain_arith)

lemma pow_q1_4: "2 ^ 194633622245074937068948045691446853674 mod 835945042244614951780389953367877943453916927241 = (595005112791026058970886124135590421035294407072 :: nat)"
  by (rule chain_power [OF pow_q1_3, of
    "[(True, 277778254423970060971867882714572122611806940137, 359167679851395434404179600145047341568010555031),
     (False, 154318066057847352612903820286287826109860764873, 676327584065743495718615735817810648126529805568),
     (True, 1094375773172789502012141170181750976322172490613, 52701283021540206866158091430402394518891116515),
     (True, 6644994806497696852759547841309709193595136900, 816021696466817147114907772300339996917877197550),
     (False, 796573190166403958332214191744688410673176299281, 642427978927645466176983519216216328142408388779),
     (True, 987418280514882579079422674124972093676686327781, 825174030439300542670908037433533928913972239461),
     (True, 1629083602632792683265278580017601755458740432149, 8401756661062602510279045842095418428520870133),
     (True, 168885540135912061329249171652181468014027721, 408851574422356913314734631427764762286388827617),
     (True, 399929663937705766177801573011696622830608854298, 604228634412100924040964274115401985563847665560),
     (False, 436741919855394882897988436831983900197462536998, 209616370697030298986158292403820104117173551082),
     (False, 52562095166224274607606778435884197625538620897, 37864669425202476801695988956292113027032215547),
     (False, 1715104604042047820332512322900322357786501061, 26610584510261905720079223492084004461562206508),
     (False, 847093017115566852253045994909546118181782512, 9564511179036799010906239811679564822447344672),
     (False, 109432880716996919880770982864560475555723259, 601653032933814802231443328534552943426932389165),
     (False, 433026519382757793653644494439028204006934103425, 673469765106905978325902484114723249287715496800),
     (False, 542573376947463913270727838023908474251510801972, 281751599872141894712074730864359269820926920748),
     (False, 94963137549516257826044294671787568464379728025, 792012570837055970485766362454823951673779250479),
     (False, 750388937865566343875380128156385886638439408872, 51647221365327419365852402586237907304347847289),
     (True, 6381844116442730977410448323777645200808779235, 214249271007001515577881492700415707529402658407),
     (False, 54911205650286610940403893924111585429983096576, 459359799738162422226636799567956110050659550833),
     (True, 504845210993519695711707997196143388774129924820, 280271811697930213460227549448384173601881966158),
     (False, 93968244875904190785461357429968070491201800712, 469879855858137356745922139065033533782771285372),
     (True, 528233478957955314387928676734569113791687842247, 546961613078514812546694742829009669050337406241),
     (False, 357878797125407726664852442283878965047142060249, 595005112791026058970886124135590421035294407072)]"])
    (simp_all only: chain_unfold, simp_all only: chain_arith)

lemma pow_q1_5: "2 ^ 3265410321268027155392148255343273216616862997 mod 835945042244614951780389953367877943453916927241 = (806243395087861866433583602601119680723446281266 :: nat)"
  by (rule chain_power [OF pow_q1_4, of
    "[(False, 423509999289959021249482238881950779199174075218, 796021699800141459819882010901538272541676399646),
     (True, 1516010059348583746799665373183501806004629496373, 444662164265546103973073817350945961600703453739),
     (True, 473056075070210685077612261783397163162794016696, 140640777082485514871025871494957941057454944506),
     (True, 47323274088100620872252679772607335333862055363, 395216100018566718394109673142120543637494324589),
     (False, 186849323604433308886930831087225623198869549291, 710261357310900779022490168790538245211979882790),
     (True, 1206948232708112109661248371831446659206668112775, 777196074785225734845989125075441261799818764425),
     (True, 1445151793806103643569675950897727459625627594413, 557258743072664360098294389329373221539712056717),
     (False, 371480529266726672194194078551711267035106900015, 431250957132344268239413871675645407928408009474),
     (True, 444951231550320437586339558759444773030108628764, 824293160833683276408200063048677785954879753228),
     (False, 812803690028178323654917140006747120736646834646, 623665856554567008569758359232246342444836428298),
     (False, 465292669943395882361854179289923245003280268388, 134685327089485952557178885297067496714946819296),
     (True, 43400310825442125422016089019874758483202253602, 131573369383793567989962824586454551988291699150),
     (False, 20708958910170156429977471134605603373893635920, 523925089667415056027018713862051694022526625780),
     (True, 656735755848134365939835840351007503783944676086, 96844783902228892400207397566364201166146558074),
     (False, 11219532020772421940405570801531135661849110096, 762317534117254258983130764454221092870424064340),
     (True, 1390349827931776723362828986572801030228278942527, 352382900725897713795028359900824347648239593193),
     (False, 148542909460383003112399905885860305667860355994, 435675601763276785941209194625680659149275702695),
     (False, 227064245111283328961012688573921179341709417445, 308125327009783018151820060360045875139469143780),
     (False, 113573515419096104091107370385103716680018515193, 83145119380880372893640020395726628332478615887),
     (True, 16539630065388745011844279201529801173873246178, 764892112698054636714108253333545658734870258640),
     (False, 699878478251077150372110639511258992838642968786, 86735037970310361962802926400139560009498550174),
     (True, 17998711473929175512722854562408195325018766877, 245750228150089725357646378033624708349241064195),
     (False, 72245388851949013851977428957694763953439929983, 372376834144084548003122500551253861298565631122),
     (True, 331755078622967478209122702029773514848398269222, 806243395087861866433583602601119680723446281266)]"])
    (simp_all only: chain_unfold, simp_all only: chain_arith)

lemma pow_q1_6: "2 ^ 835945042244614951780389953367877943453916927240 mod 835945042244614951780389953367877943453916927241 = (1 :: nat)"
  by (rule chain_power [OF pow_q1_5, of
    "[(False, 777597065923611584972042604102212637490470452110, 351309167037214980665970217610956866329137634246),
     (False, 147639048750129554480730537062087531954123142526, 408508107637073230624780414758767295125057037750),
     (False, 199629001395991735281111139377706159236359643158, 426292917728136063496977917452750931746315595422),
     (False, 217389472419397000477448602692392051201892178032, 261491698205091491234990731388657180816024788372),
     (True, 163594267026405419481478320922593681870775238887, 1),
     (False, 0, 1),
     (False, 0, 1),
     (False, 0, 1)]"])
    (simp_all only: chain_unfold, simp_all only: chain_arith)

lemma start_pow_q1_a: "2 ^ 135 mod 835945042244614951780389953367877943453916927241 = (43556142965880123323311949751266331066368 :: nat)"
  by simp

lemma pow_q1_a_0: "2 ^ 1080 mod 835945042244614951780389953367877943453916927241 = (759074791811550622595041579907670563367995104130 :: nat)"
  by (rule chain_power [OF start_pow_q1_a, of
    "[(False, 2269452528805172966045566416101430, 805823710150059538628971481374239012783834656794),
     (False, 776787730083807680699469844070614449979033824724, 79596761110565130706274406104070922645915451952),
     (False, 7579020221569101565058498396507708743902252814, 759074791811550622595041579907670563367995104130)]"])
    (simp_all only: chain_unfold, simp_all only: chain_arith)

lemma prime_q1: "is_prime 835945042244614951780389953367877943453916927241"
proof (rule pocklington [of _ "774023187263532362759620327192479577272145303"])
  fix r :: nat
  assume r: "is_prime r" "r dvd 835945042244614951780389953367877943453916927241"
  have d0: "774023187263532362759620327192479577272145303 dvd r - 1"
    by (rule pocklington_divisor [OF prime_q2 _ pow_q1_a_0 pow_q1_6 _ _ r, of 829816007257442285709994915664332448456883264405]) simp_all
  then show "774023187263532362759620327192479577272145303 dvd r - 1" .
qed simp_all

lemma start_pow_p: "2 ^ 127 mod 115792089210356248762697446949407573530086143415290314195533631308867097853951 = (170141183460469231731687303715884105728 :: nat)"
  by simp

lemma pow_p_0: "2 ^ 2147483647 mod 115792089210356248762697446949407573530086143415290314195533631308867097853951 = (35963207747259334341566387926199742070763652655522502167840490233390633155725 :: nat)"
  by (rule chain_power [OF start_pow_p, of
    "[(True, 0, 57896044618658097711785492504343953926634992332820282019728792003956564819968),
     (True, 57896044632138071045360812400946710651309215027036928501642893890130892816385, 57896044672577991042948221225984643718586217784911426181246452061788713254913),
     (True, 57896044739977857783011490673252764310681730011187193320647753007966718001160, 57896046020575324563684856126157150327119852335939117057043597604281508691978),
     (True, 57896047435972559348544320826099600806361376856433251271742165523819342550991, 115791283296670783822252329553009694502833780420776731912597844950295074789527),
     (True, 231580954777188966629583155065816548744905388590817538112095463601159896849643, 74464135589170537824320943082427996273239141359239814221003441654835677277965),
     (True, 95773511417849901368002188074792093140010910883789223169112406433660099635470, 74361011615202802377548463284107219289185956884628181990245303401109349840480),
     (True, 95508425249861915138834387422275911301906013398239157093421981084007813795623, 2623549821881284927258998988445518023828427964373030640282511962087876204327),
     (True, 118885732433571407715624426986520471850496991113414408679283643186477247260, 38356167436723419305283253828113448779547000666333008418974632387005312121598),
     (True, 25410986026191860985956648835893419531319470698397634200640146834086667948173, 21916490066998674109511917788713353697256926892172960338117581690599084865685),
     (True, 8296465503515440784616296865502445836325880061454852287247392202989765943714, 40663264415413441833596754112580502858893204930433535058874169463433322524436),
     (True, 28559827950145366925272352036831655790485637452222070794271398023289529876047, 112052742255815158397990292052614873272304304030312593215693459315122895024495),
     (True, 216868304780965518605248393921110609272743463403374392500988043845717001629858, 1178104347411931519346560778044557921482875916704976123088607403012255141092),
     (True, 23972792318644146822985254987460822059286602680345511100067957455664447681, 64269565990172979567572604336749173928653485158928110026366983709406835267297),
     (True, 71344720364467998346925581024627884388688712751274910677560490082703881982345, 112412313635914989132083547965947430979417106728233613705917900157117704877323),
     (True, 218262376007792581966222408330574448326065429975049804577195052292781598439904, 30599279136519183503302115085453550747297099994204917082621585119036916831954),
     (True, 16172363588217832728710763414948508520680271669901469590323812897790391210157, 15248172711186877768661945922978024570047192790240919679160551555171217135925),
     (True, 4015935330569873953991990379362076271080040329017859645023195497904247786687, 8914801652099198023754274518505673212028063426331631040264098249480523060913),
     (True, 1372696339417332114822301582451421592312623776801759417733601643023359418724, 63172915818153885628989705924420731354352424149759691271489035156274210008614),
     (True, 68930741645356295427430421900803376663419102309841052812076855242874250667670, 25269645867719061133284640058554871055724267033076927751856541530294010937822),
     (True, 11029337265344371070823936519423171573568182655693335963752852663831844387984, 70307455348470940881272009191328566534121849508140392880800545530834488882584),
     (True, 85379550732471440333092638757946538207430419730346996772907825359508123120443, 10172328709562462599161370925556086173764245888460155286179348260575080613819),
     (True, 1787277042517235672117210104679267740206608094160168047445340743408188864278, 22232252741584630006374402973337482934814054603551085041226715101725822467144),
     (True, 8537250952744539475786900469120243594358900280641925497926085990199955918564, 2684289897565932859769427784416185505816780495782492787003677724360597387108),
     (True, 124454309500965225362704611920775447786356928098369871181239029117916102253, 35963207747259334341566387926199742070763652655522502167840490233390633155725)]"])
    (simp_all only: chain_unfold, simp_all only: chain_p, simp_all only: chain_arith)

lemma pow_p_1: "2 ^ 36028797010575360 mod 115792089210356248762697446949407573530086143415290314195533631308867097853951 = (94721727639610775101265829627018424718657288805222407817833348873395086260001 :: nat)"
  by (rule chain_power [OF pow_p_0, of
    "[(True, 22339217131196879047677473679044789285969816438682755347960290308037004160247, 26568015530610418336930202119998181064100480659321571031631412481911594465353),
     (False, 6095921181216803819622348532633024981967268369236355099448243395493300735918, 26162955644865544228208201593274100368429415851335420401581676992275133502591),
     (False, 5911459519757773745225632065693783943506643224830400858429166559264454885183, 56207734350847248119430389033101784527586338051592094972875019409954395805248),
     (False, 27284328509834421603826413940460483508318406561038343524499767931682326141870, 109558113426465788076687267227591683015810999211197466365282825287835778313134),
     (False, 103659760346502297313438599619125498471902759114581147597521475499746817216839, 48741740849872276586970427865444583737192306490942965750318579645359037021067),
     (False, 20517440502866616225469706772575855616042634560737525092024475277319452675079, 14964025912937387551700102831175808763749570463273698873613573167758402431360),
     (False, 1933828753329328505952859580815726724623032344702130595637760899530661855309, 108545641641564298026029173963668415962635553641582046104140250099669535473741),
     (False, 101752687940318475633156022215080511299738315900746145299238543094328289250105, 104371033587359027684525250687259149550547160388274798601891195340356699120226),
     (False, 94076484208727333286806834022197375777566334165511582936595833337271848984847, 56411667192758440140198291916290035373358488305560478509996730327410784210579),
     (False, 27482673619312514362568319281587760796096523285294407286838028073414923732338, 54636818794762366528361279833850065214300713295510636751890443936393275747803),
     (False, 25780534649380076545865037745416757667707907929155216692119879087612805053586, 93424650755763140135262723880639479298223342388051260615984718946260702508523),
     (False, 75377907319558769234476908691271664893205800141409386237789235864229750042950, 99628542705851796973895190532481513739197919925854958478371205015089810446079),
     (False, 85721283633286274291016775181532501337424203484944632998151368220490741310104, 5490891185795862648998634469783585019652906155687068777554978506628373853337),
     (False, 260379497596577951575052471353907934442222722188768999216536843173663800720, 108873928906888546633321275743526178360750645216762516165043381235303457390849),
     (False, 102369103765700615570174705940439448208489218853129468674503578908244796566079, 36209368254580224884979134178048058028591860854819297268205181149207686212672),
     (False, 11323039063695708430862750573813429725097668078579839252719685942243400536546, 22957159686334017765791356827057592592406865076790378885232481290480667386338),
     (False, 4551530112790322111846073134104136082636757315759850233820438755683449604280, 66557352879400132348915912278208748580460877685205388746247613929155964539964),
     (False, 38257200923850262465075785627072162935788569246801811019593464915136196881300, 81185674949749018705620049243300517846540986477286282570203661783133070104996),
     (False, 56921969903076999240746911198390194893505297144962384889280438242377477779249, 62165541183565904882543677745884198179562254234676736945792294444649243697217),
     (False, 33374944152056886645865478318762879108146132125422840933310292079340757448777, 21897736740247357201314933581211565917894416249739811771634386074645063977162),
     (False, 4141136735809861449101002648511163651104074203356645089963037270001488056401, 89355290888962263323798553243357834991232485547693139710597771818192108883893),
     (False, 68954347955032441769525986846749129344046985922678181404512522433308734500343, 111805472777365598150769520844324425171096186695763802298735134103564581430256),
     (False, 107956111926273280241958060430421909603781912482129707550461432259169149371211, 76987049584389700198346132631468089369091664593965028427120896054691430220875),
     (False, 51186621159774159494045250073900360169517673592394387897827530116150435350824, 94721727639610775101265829627018424718657288805222407817833348873395086260001)]"])
    (simp_all only: chain_unfold, simp_all only: chain_p, simp_all only: chain_arith)

lemma pow_p_2: "2 ^ 604462909666577099030528 mod 115792089210356248762697446949407573530086143415290314195533631308867097853951 = (37640350251413312185548846286432851322925767424018670387936853208204560388086 :: nat)"
  by (rule chain_power [OF pow_p_1, of
    "[(False, 77485480642231515647226227363239288027515419484846521856105353354430011500631, 42384438653566125597227245599347715947280519752218654638764404214188590176920),
     (False, 15514364169683188261915769388082247778300354581602394527955110569226106250462, 95781893249195227449823896348300476497918310968075572558985919635209398411038),
     (False, 79229687770239384622643161792452752378074487543238070927544435827541428644823, 101899627209249347882622924454707579986526945541357950749403119850617693991771),
     (False, 89673950061653299091507639290173923637397963091027117142777702659739648845264, 16836674276484875008933422577544883536156691142216181403647168743242545678377),
     (False, 2448125797069512496535691801829411114427742709650060090176473295436731070973, 37971571046414630600175153489766522532626098427188132786066010697948955889806),
     (False, 12451975066393034156658886160604596839714442991210087366274880944879581416911, 10111118640188267269042753829046631926137337155321602242397372050789295152275),
     (False, 882916275655374688578934447966783044088702506996196437453063304042894621230, 113040270094064812932613033215941082980704731480621271242471847946241433695895),
     (False, 110353848437137204752294282173271518698122761838512933561681149268432241959122, 99379422841707797913776805104568759654217528205298665047132968267257271660003),
     (True, 170586259418966192011318841627168391836317033511739509451188111642457405985306, 96585373355922807136527451821703774376658784081498004536741807252223219876012),
     (False, 80564522239129415983470150526660837644619815570347091399495038603720100455549, 70658438863732517647060233141944818290558351736141662147704632914137283500045),
     (False, 43117064530979157713748081285462946181763914409890262324731243185966835331012, 107554548544738185130823342958124628914408403872932797569820283369095597973613),
     (False, 99903033027128611431382814352666057262164031978493447517517727593676578206174, 40488617429240076734836609846756522664429747415546238202726880814419225780295),
     (False, 14157514148943644604298186931413633656145103902389664917876235813524786693125, 45987617906856199911879274441592688325966008765083454839340255070222104500150),
     (False, 18264296077299306730031538164193670221432219207395664572677166708159174466570, 53773866942889287489204199032429978827765718318567488911202254752239158104430),
     (False, 24972593427677258765734106350164102108551666830347646216345781814294913759468, 11741802344527427854416767504342383344897723566136737719246942441226578166832),
     (False, 1190667887920092461115949214783236845002660870881631723125903315385576449274, 80136930262240596230517927230345348994435636988285973117706769852417612934650),
     (False, 55460849144786363566215409223822920722217206544472290641890824578295046338594, 86995647414133018836187342209861935565976526859747194214166551146027663937606),
     (False, 65360619370595639736111584987944777654798282401243024821067732086872607018342, 75990563965730296608497642969414664186980520304085518191387190326939566841994),
     (False, 49870123695058784868145703708650270549901687088533068382836312201636807722852, 13329683044929724232307056383295387684163385409520763507354334231185780707784),
     (False, 1534478316178403709495504161677378328954029330753911316931837193000027112403, 107147663990982855019598024763541670150451376224021754054949957819267243536403),
     (False, 99148585857778585959477557995346547222828854944719526480359265032009835273819, 98770170630490705568556366705349393414988564414227703088964466357706230169540),
     (False, 84250544859360989415628445196329084221078609432841640459918811080597727723476, 61113003826798267515626059077779588273003080572854877770184193967440781757924),
     (False, 32254355735384948543390711033816644877872211709419290725604132269873347216752, 16633945276260308955990022883171614002158123982802305862544033299833700202624),
     (False, 2389525375528642994895514550736478718188668073456437184902291269507651276790, 37640350251413312185548846286432851322925767424018670387936853208204560388086)]"])
    (simp_all only: chain_unfold, simp_all only: chain_p, simp_all only: chain_arith)

lemma pow_p_3: "2 ^ 10141204799464651971088558850048 mod 115792089210356248762697446949407573530086143415290314195533631308867097853951 = (31186931085863722494951967052745526118336839669570761103287460448710186311325 :: nat)"
  by (rule chain_power [OF pow_p_2, of
    "[(False, 12235688782462648208623657384586513179808961969814979458614437936725679087360, 106253581418493457374879385501036189007721482439323595566953380826918680584036),
     (False, 97500819280896741764640238562921170550644432028103570254727931011764878202057, 101346061847691470860312718385829104451446000536999119453710980402202004272089),
     (False, 88702296694699258420201983965246773563196409318170056626160431352886382765901, 97173606782438604138337334318674450524911736633523669254268431146298023499070),
     (False, 81548833944551178173491447680251564873593864986612994702331851648883438291670, 33243308978000483978772862603947824645056212242526291479320362024731690976730),
     (False, 9543981798265781121308874176600260617950226050385652360733908704959394491100, 65580855916112075448145940171665400736132802873853077270955135838879632156800),
     (False, 37142853989590089985321970716091693323233339746177022936294531634352294050832, 69676681510218244236438683731981716268638462422143975617930078450488080202768),
     (False, 41927216093810493822687127275228079534003254444974346091050154692499586732715, 40702157053484497297075590952298846354822652106461644046400770422483651154859),
     (False, 14307243267689036951716630500468689477105732602822446094607181568266984414468, 35111199729082212100668621241409741949723519431192666364098248456877283946813),
     (False, 10646637044227746628292700186781178138425489778906180090253204109940164333758, 29279427860582338074514963033412982331025195440140153230634208505961109879111),
     (False, 7403656861960921581420125114859727565362728763810229474779292870384579575247, 71378126920836946215140781214809507093424139151412381909243491018700213399424),
     (False, 43999871126527997577807002701867321888088649127887474416210084617377148315555, 115483473909699135136248693663998239494507960337580985551825889250939112023971),
     (False, 115175681147131187986548204597061549032007057938361767553241653161309986991154, 84297006545605440681836924541277056522285596323330265152855823741547057659387),
     (False, 61368486923494417738635516590734635570779546240067096831069116683816954935552, 101092028787659113899089196114510493267995494255164797179283398287166195649817),
     (False, 88258173370023929191956068499088455890981543643669098933093731612515663130570, 23214443650727896909239100651942462059426503702790084097458242525193588751419),
     (False, 4654120999870702144816773917332600695874728316095028200181785092202003218870, 51913815478783098709915622097707011091519031471512669762706352600596227258191),
     (False, 23274856304467641046196343026758098981844955428915488793003531610257972874321, 115347680566804452750504511606032380082618058286239297701540777930647240300210),
     (False, 114904977558273238811915926688395233417920585011864814579893560287071195592657, 104473438766164194901424977797943149699147310721052856086541441919276652006293),
     (False, 94261183834407120674526833536015804472895042864778454721920008832538040324156, 8796481903147021311731801109325660417800063486797496500690343425174126261493),
     (False, 668250261309496055652574936270113935065976819354682267630958673916041120696, 20697908867189306385620942950081617084147576270850929373206014714158043119153),
     (False, 3699764244655826085942091770962193084395683903140444351751338102468182951898, 17421969948756990100552317005490884970062582055822647989515265562409293188411),
     (False, 2621293379930179841228013963985959043821002655423585189979317501232931195303, 44824984919536512620078786213858692985704754298887976720978735703169793512768),
     (False, 17352474480242552134583183845457124325097328108165075176452244242749299438140, 25716443162730579312852494741401590545971341435615471832559826746212899930684),
     (False, 5711404409851546543650689388094502499908290558813094421376519574245030067548, 66977048662694806839198633011518409624507276980749679583847553630912636025708),
     (False, 38741204845311441694405599397792314021546220479075524279034880071843026053389, 31186931085863722494951967052745526118336839669570761103287460448710186311325)]"])
    (simp_all only: chain_unfold, simp_all only: chain_p, simp_all only: chain_arith)

lemma pow_p_4: "2 ^ 170141183420855150483778506955966906368 mod 115792089210356248762697446949407573530086143415290314195533631308867097853951 = (73287461505982403585794131991255752464516308915673765633276752034950665822407 :: nat)"
  by (rule chain_power [OF pow_p_3, of
    "[(False, 8399750597706834348615760070202364923592953641403662931545960493273114098690, 55123200025757420908921015839318060571400176747311693180936150772549202831435),
     (False, 26241578347891995853721326727481901534683580852257874266344008911766726855543, 114400972186465680078455521922408294542147769889766430380460077083287335358832),
     (False, 113026567932742359326018135161696572528014093563337069406603103984344234681270, 100034938576304027596592806243789239000121694405578352355674707218390705206454),
     (False, 86422043200079954112414612675216897880620935735013152056255984781275317158631, 40702229768459495602777957713719165573473003273092270037990871810435626153035),
     (False, 14307294387916617927514772944540349044249290571723634955101148600631860578416, 94540788780175660174913163862426723416665595837630680465225313639322088789609),
     (False, 77189735534872721583652958559044871344826999175703909964447894862691306019292, 36702800980319863308277290277908682154598490667999068767187083244288861950189),
     (False, 11633744662415908506843238439948930664467970691191643592735256418748819685684, 99812809408009719330128836654420454761069769549693139927989147856133559598237),
     (False, 86038666284195826622200755055186470687199097762440762177927421124404662905543, 54037785983869557944177101073035778189890480921300385428439887887317331157776),
     (False, 25218323064658220377187945629202959512991844658069669235551813025713059551540, 81583388752923226194527257217205208315630551226586110970210049344860128131636),
     (False, 57481036621760099015300229042767195306559531680997502190248125746768558858497, 60771901644512280187569079631641593219304299341266073119247613039857162664849),
     (False, 31895305237829309929035905147064133496099142298206150276462704796139337241940, 53118411201705393112145532266029385798853136359499117327117636255413828287861),
     (False, 24367516190744271723354406755458488660653250160180158412205014835033543507262, 15927867672966360809153968613855853684617126163338941216481428002096696063159),
     (False, 2190969783321230598027143827568028945528341838545874768867925433198602607644, 72380876365940242113516936921654333911740679359182982919877636254264448857837),
     (False, 45244811620800777340173929161063112792842609203659371447981563210767557881175, 98596555795971402579138637875667214188462842016618632516293282447274674046144),
     (False, 83954619707808562907776913337852227796803375256569213987662262418380639536517, 8698688808155647013725558553057901169555886638698987514119987364322244040069),
     (False, 653474581011055506679298493722542158561627019146410052209565299223357931626, 3512517088151063874285112103160122566168285799685273954090821259152485570435),
     (False, 106551115699618612318003608648197458579563188525309045581501255168412300066, 110394430658103395754897576973878226198283348820230213916880385721706890428459),
     (False, 105248384440038417519283362680944422577723126750845162805163890880051216150461, 109281128468150710889289776101323967198910926837388193255666831704583977793270),
     (False, 103136277449637334926028785732717085762283802568563996340970856678624615472679, 53819999399915775218662850449779629634529807777386362052684922377948484588171),
     (False, 25015459649793313182499052315309113536729306283512524682169752457727173301677, 95327600641321531593446767142735865463349925251524429527801898474321663749414),
     (False, 78479898808307605236801120661130616719331154883059580781242861412137161734120, 81753825544269981798633720775015423123465781331131460063231443087422931835276),
     (False, 57721456074437537893695739593336899087283231763840994666594512992424480500009, 41925196138885241527188239541390631226314485487917119610026367548074261810617),
     (False, 15179984084152704561178687787064394483031683783267116095236279483102201441059, 68204229061317085810985581325071243602191214367938247205166618030156657146580),
     (False, 40173874515708794120660325094530458269978401761178873198964693107382521209143, 73287461505982403585794131991255752464516308915673765633276752034950665822407)]"])
    (simp_all only: chain_unfold, simp_all only: chain_p, simp_all only: chain_arith)

lemma pow_p_5: "2 ^ 2854495384747305764378856507357759276987711488 mod 115792089210356248762697446949407573530086143415290314195533631308867097853951 = (35392291594961343506204821059062383415839628249251453839223458673440057052879 :: nat)"
  by (rule chain_power [OF pow_p_4, of
    "[(False, 46385310521804409936147124594806528567143448234874418696092962826086864310389, 65647073282346168069411396325818360492549228239608103857065416107542209276710),
     (False, 37217898562212748095317048347097671115912652798193793154409361357362526210973, 87029113449504600720371876224067269683601382772237470562978021963705580819777),
     (False, 65410915715037732191983547026403821018946848860926333821787250196113368852014, 97817375086512431943347533362941429769089555326545447812650550744955450122415),
     (False, 82632923665736017216121345556337718283263547270060761120489933011688036727212, 17074900138806266086182213691668872734765112453947175688197990580843682017613),
     (False, 2517894069780116788084701837118723146532553917848962837363427000706625302875, 96095655250225531492835116499440275187071984178101783573689746753154551808644),
     (False, 79749618656541960606836061421697175908101034374740478856198772166411209564877, 38792348642886304249296341466274890051802244651423001454063699208160387839709),
     (False, 12996106413603356766121816719508827560029159964909693039407965657173631600888, 46194880591734771646263331974633064552356579836097182160350009251458531296193),
     (False, 18429298645850631088748347589379598203201288024425984655352049705766013995117, 25595489531907412525003283911010865843817484214954783817011063721050203135982),
     (False, 5657805199350253172861042169173277664259963310568594412832471148484038842676, 64006482258618655259938377690772652679418897532425595871545725237141869091448),
     (False, 35380912453183815095946290746281610958457790469529772628841929782358773633742, 27191218410382233389098171573673993574754005040011450714614274370390705122062),
     (False, 6385257954003496738425021439412823511881679450542539656433853624170903185953, 83569458948574589679124699824015976481026798279183977309546323564247330381541),
     (False, 60313744372209404987392684402018897146809611274749875525918985083371251827341, 38754311930261405662526431143590212159355295977218822861528914157448346860390),
     (False, 12970632997730508312976827503299551439938482281283773255857317372085384020172, 62136791143365118432863981200520027966262772938397366292731807280720057052528),
     (False, 33344081101948527787720863417185327863787805351405002765639483023869772715804, 83518565000382528192202337950430137025706007941645953053370945771529529649180),
     (False, 60240304387730641564326833107447982999579547158869327603446109572824309667950, 26857428394450357414402341898241705297070988883651167094110443278187469101950),
     (False, 6229453712097929147270653001003186238541433190471250318162792606073961005414, 43593500755855967148801421581250366701819748947121121347403031497401801511786),
     (False, 16412116933985217475719942297718692151041848348169064952500186109328431034912, 93454320838614750143566560292524331002471950053156772314726865059413938772484),
     (False, 75425792409190030118528865411041389631737961452135904063334589415511087300244, 69070521067280278531975826688227068197503501974260722522508111437377916866212),
     (False, 41200887841644730797826708251123677027329609188444915057355504094978182364499, 69914582935269362741082261390534944278737698488780058417344751939700957943395),
     (False, 42214014276335201908674717576777953115260576737795169156874219945484471382068, 97114113238015320854010442696635450560467222029293366678839090887710239775357),
     (False, 81449009637202023829347578089552149649899473389982348338162922747551936841782, 10026565465798057727683273656708124794548276389977825266809596538496993896767),
     (False, 868211427270307934034063160794177755747281041339118656803039691845243436187, 49567055642112597948661946486196741471340075449832784562021837394730738727452),
     (False, 21218142118197017311254279998451922319955166972074314826563455945377662013006, 65239724743663137431071560614065582857696193947640314875627566434851087925598),
     (False, 36757447884861748818085077582423414013860394836554661297244288910362827878475, 35392291594961343506204821059062383415839628249251453839223458673440057052879)]"])
    (simp_all only: chain_unfold, simp_all only: chain_p, simp_all only: chain_arith)

lemma pow_p_6: "2 ^ 47890485640908654227029181456946716666026664979890175 mod 115792089210356248762697446949407573530086143415290314195533631308867097853951 = (110546400574840581930255995851317655719774831104432221575691972089193454797709 :: nat)"
  by (rule chain_power [OF pow_p_5, of
    "[(False, 10817788269345257256525890158284820622958466106225579602981029825116298746847, 58715557573394881032471411982415978761314467343304255230921580663326674446144),
     (False, 29773335334606855880979123465138997437206032861639908564222440454129130384488, 3757469956123303162495844221226223394368078090104108763677657380076856556648),
     (False, 121930440736071595270283361472645828607443594257669643558568423256841140503, 6231482067737966125574573566270613363597242639744750058088995846308668318551),
     (False, 335354245919131631406147063418029660655564278130437723748448362356690151945, 43327684950886599235753599869888666786055493334703714323208071570136002154906),
     (False, 16212578044022230112068230521133147636360953573271950072320102667358308671869, 99510546515849194919377813572364018737423946878843789009268288580432675664417),
     (False, 85518353934297413118579661897106758689522155328757929103655868962622559755234, 91126129849457084404670689491410946305010277990209839867425683645031160120355),
     (False, 71714497924417968339308061638464202613883002360198162983413557402133323684451, 23758840678292663203695571607174075100576587834272296019359073172235677710124),
     (False, 4874966107149294054075682735605948632765965074295575807526860058568803997457, 9159207108943929711795690213677238656361232082082385807270671277577410692769),
     (False, 724497462966804671505370399058270621135751641120211275977439293407270466807, 70587385835230562407969001202022942838000250143179015147066862205004829582904),
     (True, 86060784860699703035681405689960262220850378292649185592717045465587093427842, 86981711182710849560892828469298602415441641004940174405419212120518745042690),
     (True, 130679360427255365164547697255462498008509241873187342776827780708066676682004, 40174536606556582348776206922088744414719323583088175386905283416658182874396),
     (True, 27877437958986269572233833655545089796674147772833911343684021703025998496046, 108152283063920643781515436784094164304030194165687218470237312391921265751886),
     (True, 202033082081953897201460126754872116338907856306267495231564565237254606461961, 95702864722855347629261587638177456101572603270498889647071755756713810056081),
     (True, 158197997438705539248079096224192414278898678316586706851182063615596109427201, 88643238880952718707432146058105866571597216027497587294681094449773765435971),
     (True, 135719527178250018234074588997754053753452464470561596809536874351977222861023, 97445640506877626951261597558956621056429879034518002345088535212883776973809),
     (True, 164012117210272334111330004649980907654480228481484103654074513719331111229782, 37675952060492838335557438919136761108269805285938495721745623513939106368280),
     (True, 24517691551204845075239319561628021021063213079985233586499449290830744187869, 112598262624389861765368798690114137531304180300402682310643662522625712396381),
     (True, 218985059039717870586613506489929084041902898929107466984031819827087868034337, 110851230375457542443953898536137002083929514784549604253440044220201844678835),
     (True, 212242396860626699814436973311714171467889026236981274980921575984256652648373, 58362122891930342022695852884464893349845306527441958768202748264939682142727),
     (True, 58831953230672696030329940762442404123459384790989826405603287235074297809380, 20444989143624150578907268899882726407235870687541798403862806840353520132678),
     (True, 7219795133388514435052791034395397003609986712979080201103012800564296282586, 18777834949671929670417637799606016657716883868152033299408167586493794306082),
     (True, 6090348447838248689439272000369165656969042031960504026491031683212823936554, 101146435280538624747980052512951852976163294884212521006998924825630622156594),
     (True, 176706395743055319683902213770072377989071141158636168169354760339946157329597, 51170995558258491841667259114986551793750987277579084783630330715967239673925),
     (True, 45227110146815084831863772844657627987471930778808131195099443295334349504091, 110546400574840581930255995851317655719774831104432221575691972089193454797709)]"])
    (simp_all only: chain_unfold, simp_all only: chain_p, simp_all only: chain_arith)

lemma pow_p_7: "2 ^ 803469021942422928236181615606389765996729220127253139030015 mod 115792089210356248762697446949407573530086143415290314195533631308867097853951 = (75517115500555670492241998717706758007692789529867130318554998246253496355592 :: nat)"
  by (rule chain_power [OF pow_p_6, of
    "[(True, 211076711084337749025270852853508558595356727695387548207835787897174073532603, 64862087884006626550158031488120016233170728042886240434948341596529492432909),
     (True, 72666284430358549262665436891413490468278541563672972990430786468955353636769, 15764073030119082954113446500129448015524398078382201185185816945100666880243),
     (True, 4292279380976950006639349051619087722734680976902997453894753085685864359931, 73727328915659923326276994638508496270373356745099387175197588915070673040717),
     (True, 93887571527671206786768792471700033523650513579465044311166688597161415295956, 105059850232752153376305774760272254977802215427860931080107421675060350826022),
     (True, 190644666767807673320612886090563457034652472532088342687609334233698583466821, 19242521266064167798631977413799530790084590992075542365168090465936712429197),
     (True, 6395508142223156408394444516660184671607679189538428813982190044100831155589, 57714727787920024977654734738064615546130123092204217680895253565668196747479),
     (True, 57533978812358967286182053799304833664909345502814100319319411547195442055737, 97112893958026623553667124545662709274858330329744106955411263928704558043995),
     (True, 162893928889564225285528127021205224515694205495803457753113195988546290865650, 83435624962215747739386539460313447788171609193429798819713568129971648436900),
     (True, 120241435495455150447296181117664643608973355998894498848537547875662891158073, 18570524084910890947165589088452447368169828420995717135889956083235154623577),
     (True, 5956613567300785823599928885463739930702114359319334706030650209985051236000, 104587600749104207949919752866271571587759233856747670261418743016901095113858),
     (True, 188934603478519777898101730681751416790317786356378350125228703775959249247626, 85029412993485447103653659390708388010755563842531835116560467495907985818002),
     (True, 124879015886520038809249795269887211590154787664938909324417422609187500060458, 66905804492004289900786374867609628953968260213785968657913974083707580374450),
     (True, 77317659699362967496962850743551702272627766292669179779490848200788608784399, 73905982654673538613137725235119631425468416472402669875640903362324676294551),
     (True, 94343133618222780445934051582108169483759719215654410128843831430223272523290, 107477590200346088104438275059335316872897718890013619503876345293751758564412),
     (True, 199520234483175537697685787286449941176452430012040219947776113249551099258052, 44968465416509486810317207296409114845464714199615473896042556411704749048036),
     (True, 34927478996293140594026411290197528070409521833150904991183510159079289717262, 60521472714010994981405926720501570089705476620219660397327506016034711312430),
     (True, 63265956844747532149772391036871916653056698764288661092456522390480522570733, 74591035072515857028447631740219902593331284940625282981717204429624243993717),
     (True, 96100218091438871494758500312872702476324449648644702451854660288139278296879, 28230572451826375646158281096357153802608857148176735821018819809768709833249),
     (True, 13765451964684631323921069879838515055901811676208921279229970923295878627925, 22720428915172712482712541510293966687766279947497605856652267254676851610327),
     (True, 8916289422010819456743350985767794568845232519791678081579797987224412467046, 77684438117772575112253052154428579275925493256693126728476291656069997695112),
     (True, 104236342341326161804609303267825565792320538454113082492019443253700058328089, 36335261240469338990550757843056288495153435779458340539538069588488054455449),
     (True, 22803823964428001881247526407237482185952377160974537217434091445516363359306, 34292952609712943223305084567612393397520331053388496887964580859078126865196),
     (True, 20312382421144495949948171380115296551631999524681916942123561988217182096210, 108325385562753186056995359859513957085721720247450012707385660778437301611122),
     (True, 202680325354551638257414934397678722296863287248085811237919708903851816686976, 75517115500555670492241998717706758007692789529867130318554998246253496355592)]"])
    (simp_all only: chain_unfold, simp_all only: chain_p, simp_all only: chain_arith)

lemma pow_p_8: "2 ^ 13479973330436769030370917980257372084316581419586473400184608915455 mod 115792089210356248762697446949407573530086143415290314195533631308867097853951 = (2659177320324399764029829678577746082864928305774975080985134998194244330386 :: nat)"
  by (rule chain_power [OF pow_p_7, of
    "[(True, 98501284024059453883423544847013945105563781527148148319429086842243156944424, 57406899671017197366112169341856879318300356674914084617414867107518443521704),
     (True, 56921887364020128421536337038939860749454191759960040673032216559909049260885, 70978394147762558304293196637574345335761733908558924299171906267565611120597),
     (True, 87016867389668793069067965521989250366571083021245092436309477282860804958157, 106196250242618541292242219993924258829510448907584337093504452655673103144511),
     (True, 194791261518825851010416085897275844256872632835927818895312710894784019971106, 58951115671821185442260484099662606053912698909311556079088529878454670918436),
     (True, 60025413871565628805682705813339568484318642491104000672601837201197913314856, 12979020011326111926337218580763582978902172623377071290789457995905362776136),
     (True, 2909610865529444814500923686550046667822822323601006303096978317576609576641, 42138715041581613919259426095631496083034449829872099596485358737363943022401),
     (True, 30669993390132277146048668322601664558285242225898095050145248628776406040790, 23773980891354031251022369605161588107500704864559415031741122945148006948312),
     (True, 9762362373403240946948729960734116443646860231195832638334510958392628883549, 53212816146209340799602354573378181732447888756317348760447679382747090746589),
     (True, 48908415445655913803236808526921174431662101004661905309669424601786894384330, 77041979795647429811407614094946781313040310876771549231526195140182427282012),
     (True, 102519380923340118558009170491485828514927873361913424676561274096145963525747, 78662563674198089980640752597078363348774854092666114994939212862226323359891),
     (True, 106877749006774853696154889180640436720890513985244080943718504312065918335124, 17632009223369278942196537508856072816585959161848181627873152806658989588838),
     (True, 5369758009775577108874082229954055054245674227178381159231775959624079749603, 29843963998174019016772607548516542349724170675531298988843927797713844149035),
     (True, 15383817550890992263202024420460933938600710952108500064387087332875665573116, 112699413146378769901534680826791095254322596719698054460369138115350502881134),
     (True, 219378677941708678101280615581234025064211506282333030983774835565890485527088, 108485770905635695209683748165679585968960649967682961264612301075039987927224),
     (True, 203280942061756292871831190453211609376044753283497936113914912567772084779403, 10476619810705003881296830417816480393232522100509929016618025217771293721099),
     (True, 1895804167738254118574303707600124286364897788789939458381309960769223065307, 31976569650350767232991371085343464291568227185083620357898669692174374557645),
     (True, 17660982085679183449383299296540898159009093614563868574031627121347525621746, 10886327847246358146118161183619135345021043404284415679768004419835278273604),
     (True, 2046981530533296596404766637155793508451090340618634200998468263170170112400, 75604554358855899775102824293352131607797786328247458654075997432116912205232),
     (True, 98729519067870189260979033296112391800568083564953802044876447823214904518397, 64265201096986258763931756179565215589105710650605957291722465705006677711101),
     (True, 71335029883314380674072441422094889502319663198227977307528478368853208917344, 95251522543502637540639756446469443728585644945102086508885289350258294438258),
     (True, 156709367776808893967945198602052076429242761406029562095025964553473700232717, 92626689611490748795668624559452176774881151371165041265073284926031570234261),
     (True, 148191533409453225614846867467216022575646030958701332603271896248687755043656, 4100246206193354847107814504745878951786751501381739151245377832494919347386),
     (True, 290382858899126950565067163277114887254733903689361152870038546034219733991, 107599995229564812488098060903312137454943496716064372212666866061598101717551),
     (True, 199974956015680477230505783103864473476650257203999042445483551379267474561616, 2659177320324399764029829678577746082864928305774975080985134998194244330386)]"])
    (simp_all only: chain_unfold, simp_all only: chain_p, simp_all only: chain_arith)

lemma pow_p_9: "2 ^ 226156424238977048364643451073061667050949498857988894913151623650131050495 mod 115792089210356248762697446949407573530086143415290314195533631308867097853951 = (62963610836977332252626366463660694663879392903563035991610182677624107949734 :: nat)"
  by (rule chain_power [OF pow_p_8, of
    "[(True, 122136565099564972090544886973690307819658215802084374372095175724517109245, 38272478280040955156826443594081010496036331673867348240718257224089323940997),
     (True, 25300218757348390420082476345058079226476429952462259252717154407745535814339, 56034804448736989995571227330867002442052934427700394293717340056513001104629),
     (True, 54233399380229292514644209820807193675378366642385832543636234849706270014224, 102230127729695181210811742738425013730032326878086972851179666562575765856258),
     (True, 180513178178239000740202003932033107074033226994696679137101026477022529721098, 103702839031294315878366319821878968737043990063401554184590352823825468166930),
     (True, 185751529253670211535950522024366450152479465924672400875021199119471494835293, 57875751075129601796180310681152790604285262864192990485806180545008176957157),
     (True, 57855464658302105599677052281515078756164274178704451929255979419010338758135, 58117727561330931480397519948679346344920990796246279979057127476317883903913),
     (True, 58340259337699070735284140288104502636100932280622503046137318964402560251807, 81220003686485073555202788290328364112706220215107623704592676338114963583681),
     (True, 113940236225440731114535426792353007291781603269674809583941497432007216699612, 68456826178648846833275765397916233028252380666871648419850020783382364652510),
     (True, 80943993366251552387990148500761985699647334675880745360301527100612747760326, 112471598469266287124439950010259700496865968486963074728483189798229798452174),
     (True, 218492654351390362173264710448024164004061267854019147099688852468522598931727, 49643685610735039661232866984583852321374507894373817984609518489565464449175),
     (True, 42567597455475929241065169395191951893334194242422175458944883003333459463347, 102152764872235281366953236722269895991950241470001038777897325084736472727253),
     (True, 180240074122591803765261627116817813833938897997248777476195687676049724343054, 41105388727834025200753282698193216797122816322279381416092199323696744545664),
     (True, 29184255919189768510942007493782458859420137057509579984414285952660054703169, 23215697290693350505610530628365561083050352989319449707355237700963343531073),
     (True, 9309247365145599847338431010190693283384200640014196276378686566686311140172, 95758802012140115611159221426414461933713883242438568718337382092587088043086),
     (True, 158382981520297555458195067702469411516321722994145713652585765621353068573821, 25035561060200225015894561800598317459487249732116678137193395220368664790021),
     (True, 10825943669784925721069975088118785107664686486713754991273980666329162199523, 96015091304757353405170805499191535983831926789099837169590839024271866495509),
     (True, 159231909902120817734713071241415380543919083924704320420250063296533807933721, 62607925434921328463309148217503831399015406232691997007482622309193488356491),
     (True, 67703283600726205608676817971194561598323456924024958958807405453636535097966, 10326734621647666460242956418711105435136138536598553860003787329368458502496),
     (True, 1841947039269738680627012291877914058330258256901210445025495888685102321917, 70388743533077795744417311591176376343948734468240702266890444864111824115965),
     (True, 85577093391320766975468807721994312836953977562972844978508008816943319993989, 97184742218486643804757200061507359799981295819519990566866498857775415861911),
     (True, 163135049803194442856989367191622765319372337359493153878076123206146963822304, 23388469241676880500570970974516310445366664422029367220079865248123532820738),
     (True, 9448322371575983710314325132843968124394882844712824204342345723431548648254, 35421867280257083703743510534680871453686838067241767663828023113475322577734),
     (True, 21671751329069695101834135314846579445780975092305883046903730652795817750446, 77127266466378498487287391204115237346848941739488534592721336607549872037366),
     (True, 102746487659775623837333758513384357174483953731555748763634608399668586778078, 62963610836977332252626366463660694663879392903563035991610182677624107949734)]"])
    (simp_all only: chain_unfold, simp_all only: chain_p, simp_all only: chain_arith)

lemma pow_p_10: "2 ^ 115792089210356248762697446949407573530086143415290314195533631308867097853950 mod 115792089210356248762697446949407573530086143415290314195533631308867097853951 = (1 :: nat)"
  by (rule chain_power [OF pow_p_9, of
    "[(True, 68474734615562298038256730707860594647875749782596189520924784708054928145090, 77771293163013976608020330363810485452838192454543978676194961757305983590922),
     (True, 104469555415993101371908429699781160275758907573948692690191927296628553106303, 61811650550538648705094171112664423631091251841250488712373065253477610067015),
     (True, 65992075448970993412201958154846777336856800691088213303601177902513005099277, 113530771863200206035482200898341890641596647039192924703768895641139180327023),
     (True, 222627232097669416327825749763296912581773581505310481007777054138968720060529, 5680548160233411992425100207141974674556713087535794657050427098479726284979),
     (True, 557354610678276806316209799984662432114445169774635658944692311096149413522, 66984478712958152700030735944266377071346800442994124370863093106931981535460),
     (True, 77499601553876123013593384509602839497601856982444705424474570767874070779354, 5788925643201734041487928543364607785274282635569743339721957488627036695546),
     (True, 578824690547536712690401264717110644788703946201224184111305309336684547657, 39700825768398291280648376089930606243808550255319087055409208967646307233425),
     (True, 27223890292355983939220898458347454955178063776106620217492166342398315275199, 1),
     (False, 0, 1)]"])
    (simp_all only: chain_unfold, simp_all only: chain_p, simp_all only: chain_arith)

lemma start_pow_p_a: "2 ^ 223 mod 115792089210356248762697446949407573530086143415290314195533631308867097853951 = (13479973333575319897333507543509815336818572211270286240551805124608 :: nat)"
  by simp

lemma pow_p_a_0: "2 ^ 3754494264 mod 115792089210356248762697446949407573530086143415290314195533631308867097853951 = (3121052873332021368469833587870691366939214640333922541217561269543300709946 :: nat)"
  by (rule chain_power [OF start_pow_p_a, of
    "[(True, 3138550868424091200583346170666061543142963691224209293311, 57896044605178124390764376079245309548297799944120810786359095772462415085567),
     (True, 57896044605178124400180028683786832333083798832572583267139251353487992160243, 57896043985099351002359948632274672640372507083661123784739325177254060752885),
     (False, 28948021682510292132272406057371184035276482887658093174820167126395392094961, 28947997472478208058545590268994253644350031124880719080956946622619934782314),
     (False, 7236993160597162976647285314669727912743611717768931684319769692067399117643, 71334287514266602186450962611705214715589843055351223290600570536270285837103),
     (True, 87891679127125344373362125074278730009525552210418488480960560076470394136991, 94257736704472594498739384140073221559273905570982448653212735108910098263777),
     (False, 76728220288947542565323233435462008071344883470806601023115118951569240036906, 383076626384959739493696848832405924511928158277572602809822728729232390123),
     (False, 1267337887097706550623213516429058979729003966561094269425874321227806778, 98839392962354574637834944546850569990832380676699931430792234207912976075251),
     (True, 168737357928126993156260952072041771405516196200627494385845533434492240736813, 108547987487149960733631052158995717970516664916018870934398546133627926227839),
     (False, 101757086065743451066261777345222271290853669161037673646541587726311977161772, 47334118857401918126891387623520697253178088558057719475475250125890582248749),
     (False, 19349498081309890137675302123294495747946732898608970038036840466783170766486, 78983805000892770290497080188987887293344165840284402323096213285655358578815),
     (False, 53876231916723186033880294753058113825177141626620236821840570173954673170288, 12278416660549992198107253705988641543602597643703264925331943968094190196337),
     (False, 1301984589087006006337255812425941008540147197136961450252960660956333887233, 79361575684359366305099337305117287381026931429166927733343563813650670709986),
     (True, 108785664686685592985079616637452911442191047050713432625439572930046663042235, 69711961938326255022057784487602395432526953569059724558037228548577265619907),
     (False, 41969686102321400738969372066078871919024513500400950574559049416217534333148, 71309289999291770617030553863222833092567467304158116702692212365320312620901),
     (False, 43915045275375325016505660598248499252525435434119172424088585569575030899584, 73458465672962289674550203811096096908072505615572173354096588862668363395417),
     (True, 93204055921691701598992424600991491739881258922503608486701047500912272252442, 13862748184084025390238779575909543599027201416956341171081799535179074109436),
     (False, 1659662490985930547396356331729107459607114403478758509458615302680820942973, 64060204549377441586222576684910992926327708738050710058771825727512050501773),
     (False, 35440329601903835363644779369874591150069645604732072047626465621389904111029, 9573235470803055040565856513903673503354246931857227517268711885062745817950),
     (True, 1582955070668939146354899086355811932497628282928288117586646823302549621571, 1725501623422929926148862106135823986278582800079822258069398221527807227979),
     (True, 51425893992227527778906763647535551715251840356239036587264532362450796626, 94068254929890941197278987362780137883469580461905737787704000592517209279556),
     (True, 152840088574263782664224985001313741087325490053239055554122696580511504836971, 37367980600426143924090995012013105855383071864645540755467444254562895891851),
     (False, 12059251920198845699720269319536619204982051746301942114305270500500864922906, 52944426466722564662795605054235550717758932534835948934266947051607025704595),
     (False, 24208150254529539711841391183542234539233312024509695930073268287342721380177, 38279631727767543106042288544843381194284488137181487228188298021454711584698),
     (False, 12654838644041417644167459944471904244944637185731174118048279860085921467158, 3121052873332021368469833587870691366939214640333922541217561269543300709946)]"])
    (simp_all only: chain_unfold, simp_all only: chain_p, simp_all only: chain_arith)

lemma pow_p_a_1: "2 ^ 62989961254666239 mod 115792089210356248762697446949407573530086143415290314195533631308867097853951 = (76016617919683921075367697262016731420151579257786946640605205586282457473436 :: nat)"
  by (rule chain_power [OF pow_p_a_0, of
    "[(True, 168249335590411829865561051413357553433870010814068582912637373307234323543, 13253936333960129116838406471613717790946278508815755220235231180432751777439),
     (True, 3034176678953247922283551852677408076245777824123544643449171549350540550733, 49317790297763788470057480094705229691910576966000391190451045706841638801359),
     (True, 42010545909325699174928724315815663817955899509561005899510562225191582990024, 92238080587817450593475515034413480408360639120017212722440529851702278508938),
     (True, 146950686675472429052143546886588508245384465520517712120440333883806393421348, 109064814355533810090326958699091547168574595802858900695266351176305782229740),
     (True, 205456759810205984357415323003486241820651179765680299586429930179979077457952, 43788825622305411032990529398889285573014982357253409496744229922552641366848),
     (True, 33119037102738040489711222913778773890956347701912105362347854244129623307688, 70258672655293594775871151547184951274708916203287396192489158260956467434920),
     (True, 85261110960975860345379740553766065933157650189503205272061235785962563311122, 41208433488269842198369628578031419622618421601318961436196439448033940869778),
     (True, 29330760022339782968808336139744445437415499065406164511644532046902326926653, 767723680322148009472035962085427100883113271152742648511367925556624282565),
     (True, 10180309438179975463563148072488947163342083258616178538617269678653271395, 35612264057099511145403203348888610423459895911475661783871984699571849926805),
     (True, 21905353982664872516744008490866316138607019722232715363891544395372818542960, 69388403772449881105405433392427795109671132507606116037732699515013015781090),
     (True, 83161995105584704090629756693136594350747338617516837491646948377144254418017, 95980065158187328022689155233748328405151573115286969822239846466274434141033),
     (True, 159115756017397497668102582141790524681889204529184739623170553365638559973142, 14174003859857154485878868005446765545164706409166549964144845859604670030136),
     (True, 3470053728010240341174314500967228530632469121486964636356314610722183615925, 70029694584181431221090743129553109135714556630115688771852150448201568587317),
     (True, 84706272371413615790230066281990290177156404135546611296083447156709368014251, 41979116002738225110430266065089616839278356406847822408764896367417621861277),
     (True, 30438110105603660168474177489998249964282498897133767040275762021065297007788, 56236546494174970774526749862169457729219767001409358253731043671535130571070),
     (True, 54624615259271963185784378423556844500368194530177168993604251921975995818620, 35080711364520215682514399956395137169530306101056723643211823445857195522180),
     (True, 21256310655300103047888807807589900262059234352596356773700579960054493272738, 39553444776334473142220880454188182257302797537750140290826263780999410016962),
     (True, 27022139497498881309202324162808580471197406732467105569348811437069658027142, 12379132487579654613718331933565079735643752473226808995035984279681545480846),
     (True, 2646863394383668479705063673050252398320215021384852909987032111637448459863, 54499139347955967427378216695535250884486294927528194999981362142633246282719),
     (True, 51301538989803055399709630256143216637776194551374544716068338501661232063626, 94623927286561856221885322864963470190903982118938380493660631954167668579596),
     (True, 154651110903900034690658166952640023657286779316322990505732665920955111631689, 102641200861408116692810376068786921557651192540829863182439932250310549593193),
     (True, 181967804296766663609944431044125189730298605859182550674006262959563487669364, 27641091425602264607090864089369838384853772845612137981341898710300534813334),
     (True, 13196582606096885012685832429682783494746735293176031127091713508338223047435, 75675184155895350275158704317649544777467429688150384693708500935748673225427),
     (True, 98914071523920397362016812134545800308076139627564833447503457773312309669322, 76016617919683921075367697262016731420151579257786946640605205586282457473436)]"])
    (simp_all only: chain_unfold, simp_all only: chain_p, simp_all only: chain_arith)

lemma pow_p_a_2: "2 ^ 1056796185801166516330550 mod 115792089210356248762697446949407573530086143415290314195533631308867097853951 = (103664559590482587657770811487945520141143660199932511914930520607490827716645 :: nat)"
  by (rule chain_power [OF pow_p_a_1, of
    "[(True, 99808652548785500408347305762481132125080625594891656837970860220838658332129, 13052224098019038327404731332412262078785912998741174386528438644516398400513),
     (True, 2942524918009202628927193638045810114738068231524206364183007395697515935426, 111634432421933694175084507252562092550818825544924157456071658035260622358212),
     (True, 215252122785822893584827704860138894456377358182647626618787282283489281399841, 67601929628548632118978946526906003193026974678595782532577636938695835052097),
     (True, 78934941422483746902840322038005088366492988692660316281494583131192120746948, 35097532521912694475458670031633049340190189395950314534047039454595475203270),
     (True, 21276700291483226178393361985838971222605294093629721247550416614590340738104, 74023908417920950784683950601016072871584633305164190451238604683067904736896),
     (True, 94644445140120461528637601930710412069415810639189037688406102362110321232466, 19135494952707475018093625105166549428505925706448644869000960751331979856466),
     (True, 6324562750049143754492244896922147948802457326851714076966093185937044074080, 15290126668970133792470632375420956456402542878869450929084887795102059328232),
     (True, 4038064692458146236315193545308792752081743823913772118139798432997046418237, 43547188610742605863794807914455735697920303664340651493038148347500335587261),
     (False, 16377264188182412597340432874829949793487990520147766424116966988887723478301, 18322757563589145645898826718736561431559358696621727960170774781095529864870),
     (False, 2899364257295365451833692765721623202068327127191498471837334000365629301803, 48646612214079607345598193567088848797987038651246115085888976763096665143247),
     (True, 40874862800133052845681893557124706132977550612519111308414558229616305825936, 15948680790021478978164484511997391218899669644046219865013101568321903532882),
     (False, 2196699452239009958623438864389749527899414556396974275311157403122427751055, 104550621805809799969437537030241536310829697981796550345208083037075079057619),
     (False, 94400512112047084922550924865077014606424184218432342526254172596120850063972, 14593136065746350248656458757234219223630374945565821659750489406994858995789),
     (False, 1839155176192641985505206319927154961239220212526436521117638622916856558951, 20747996756975292490361890735046069265687129118001806308272156092986899967120),
     (False, 3717692394731883869716712521739852480072005983951906576393005999140634770092, 61971262412029467989346311742706265568001230874759322911400735458791602260908),
     (False, 33166664416632135241044787085046555024347379573683152247859828042585952567120, 34267518456922693902624229135925628111139714714697712551867990833826020293344),
     (False, 10141131654186557353053258438779390460861748475852282345488240004240328398256, 37428376865499470713210013865123672283317643677411407343725263096848959592880),
     (False, 12098265126220413174436040064838164284191721484497366385015093094597235795293, 5853687037222053503966555401323074017185935112871595991462679263696299441757),
     (True, 591847891568690010423381242433094452451853480883745964845393220862455858775, 2419571627171260056717667304513752413219202882097003421500801354950438724073),
     (True, 101117907085634965417019280606872247505530240969327683083720286781789884882, 64110208239130518735674824228907164737104989250863795003427348739242920549876),
     (False, 35495678750540037484927240359817752705776489538326667701572423368529611531297, 28689158107635476999230309691627082683466428019333331501071210620726632010929),
     (True, 14216304387248116623457210717090253634939809740798181439170588322293092408083, 17944475805346438035339562814428968908305941901638479878748601689344725000149),
     (True, 5561765300627535156430467213011604848913977873419448534477073215086665296285, 106485537274185491945932951483046119725395993640445299131013852433705027172367),
     (False, 97926980382678781485346585423156909453594538021323348822429859178480336402244, 103664559590482587657770811487945520141143660199932511914930520607490827716645)]"])
    (simp_all only: chain_unfold, simp_all only: chain_p, simp_all only: chain_arith)

lemma pow_p_a_3: "2 ^ 138516389665330497628477975950 mod 115792089210356248762697446949407573530086143415290314195533631308867097853951 = (49835480456766173544607506164699712169824023691580347094409044481755491731278 :: nat)"
  by (rule chain_power [OF pow_p_a_2, of
    "[(True, 185614423029644772532409147169679003849258256740583511479049669443698841212684, 13445380799411408876873723006529739721839799180146036545466963178078059397566),
     (True, 3122463133258890607326412909233115675086778659730022883244968805004344059284, 107305067515675650682673972968007560075725314909237335077967651579141375817628),
     (True, 198880210091483232252186771334030220298713674122997793954161797287387022966499, 108707009772892959631910341311048211169870152377478950038292816757938363305219),
     (True, 204110903505607251603289213742373169123819362464155719152905663755581905092855, 8500474652861699796659472120236093992516433990318131761818396732324421655817),
     (False, 624032866292575676781141387383451522643154137063830409504066587070366622821, 84111082985031863031415548380605781094626911746094752473939928108175448321718),
     (True, 122196159153196618674805952538448009084909768055955541762606728601940205564160, 114913435735731407660610732431962941327107237684630244327642924576400420946888),
     (True, 228082899317944606231458099367363037224398148065324842890869425202207195844265, 49661793777554847569049491446555001557746054268595907365547553733617922828073),
     (False, 21299328633098056503760802930608988898836918046296017591218468664353138248450, 25654198806960641093593699160212141291066192816057659874055333028724264767379),
     (True, 11367579960172236669182679263068248961700157601369595653057651047749581338327, 40939445608524185682603403784750102558436142416937648070785532743053800379305),
     (True, 28949096922994428665203819684181710395085346260993514200466587463106785301121, 79269810039706078078306471191532424330044887085387812877669278070193329986979),
     (False, 54267116403052884675798181020075669130544286000201753230559999703962454685678, 30503699335663496299687278202488183873825318175163869052117209071822254132663),
     (False, 8035744751700511280302392902687226041950248740155673391028776455053434219020, 354626717653769480501081091688754230493990064231197309032532322592697123549),
     (False, 1086085497994785009219871696345638817174807311710688084209093118009144717, 78318047510469982548108653672770494929984895257795342696749929409554881128534),
     (True, 105943620288416804693074098984421474827079736171343934043007139425134130126668, 38488744417396930494812455416817324423469015538937699117510174327332263713044),
     (True, 25586954289019097355970883637697959410559325379050123044673837573685648756170, 83605990218936764656453374006582802668301289581017630935828599241391681364202),
     (True, 120732973179030949013774832324147902386922671155534360804409138680612568075580, 7530841358523585180096362640724821996019952932486832111016017799967564577028),
     (False, 489787963530214912387912795203782825022867742497783589067581846768027647806, 49835480456766173544607506164699712169824023691580347094409044481755491731278)]"])
    (simp_all only: chain_unfold, simp_all only: chain_p, simp_all only: chain_arith)

lemma prime_p: "is_prime 115792089210356248762697446949407573530086143415290314195533631308867097853951"
proof (rule pocklington [of _ "835945042244614951780389953367877943453916927241"])
  fix r :: nat
  assume r: "is_prime r" "r dvd 115792089210356248762697446949407573530086143415290314195533631308867097853951"
  have d0: "835945042244614951780389953367877943453916927241 dvd r - 1"
    by (rule pocklington_divisor [OF prime_q1 _ pow_p_a_3 pow_p_10 _ _ r, of 35893950584104763925847036954507472337811148100266109799856099637894785463246]) simp_all
  then show "835945042244614951780389953367877943453916927241 dvd r - 1" .
qed simp_all

end
