(* ===== verification/P256_Multiples.thy ===== *)
theory P256_Multiples
  imports P256_Scalar P256_Prime
begin

text \<open>
  Multiples of points, independently of the formulas of \<open>p256_ec.c\<close>: \<open>comb G Q k m A\<close> says that the affine point
  \<open>A\<close> comes from \<open>k\<close> copies of \<open>G\<close> and \<open>m\<close> copies of \<open>Q\<close> by chords and tangents, with no vertical line among
  them. By the group law of the curve \<open>A\<close> is then \<open>k G + m Q\<close>. Jacobian arithmetic follows this relation
  as long as the third coordinate stays invertible.
\<close>

section \<open>Combinations of two points\<close>

type_synonym affine = "int \<times> int"

definition canonical :: "affine \<Rightarrow> bool" where
  "canonical A \<longleftrightarrow> 0 \<le> fst A \<and> fst A < fp \<and> 0 \<le> snd A \<and> snd A < fp"

inductive comb :: "affine \<Rightarrow> affine \<Rightarrow> nat \<Rightarrow> nat \<Rightarrow> affine \<Rightarrow> bool" for G Q where
  first: "comb G Q 1 0 G"
| second: "comb G Q 0 1 Q"
| double: "comb G Q k m A \<Longrightarrow> comb G Q k' m' A \<Longrightarrow> coprime (2 * snd A) fp \<Longrightarrow>
    tangent (fst A) (snd A) (fst B) (snd B) \<Longrightarrow> canonical B \<Longrightarrow> comb G Q (k + k') (m + m') B"
| add: "comb G Q k m A \<Longrightarrow> comb G Q k' m' B \<Longrightarrow> coprime (fst B - fst A) fp \<Longrightarrow>
    chord (fst A) (snd A) (fst B) (snd B) (fst C) (snd C) \<Longrightarrow> canonical C \<Longrightarrow> comb G Q (k + k') (m + m') C"

lemma comb_canonical: "comb G Q k m A \<Longrightarrow> canonical G \<Longrightarrow> canonical Q \<Longrightarrow> canonical A"
  by (induction rule: comb.induct) simp_all

section \<open>Invertible residues\<close>

lemma coprime_inverse:
  assumes "coprime d fp"
  obtains i where "fp dvd d * i - 1"
proof -
  obtain u v where "u * d + v * fp = 1" using bezout_int [of d fp] assms by auto
  then have "d * u - 1 = fp * (- v)" by algebra
  then show ?thesis using that [of u] by simp
qed

lemma dvd_coprime:
  assumes "fp dvd a - b" "coprime a fp"
  shows "coprime b fp"
proof -
  have "a mod fp = b mod fp" using assms(1) by (simp add: mod_eq_dvd_iff)
  then show ?thesis using assms(2) by (metis coprime_mod_left_iff fp_pos less_irrefl)
qed

lemma coprime_mod_fp: "coprime (a mod fp) fp \<longleftrightarrow> coprime a fp"
  using fp_pos by (simp add: coprime_mod_left_iff)

text \<open>The prime of the curve, so that every residue but zero is invertible, by Fermat's theorem.\<close>

lemma fp_nat: "fp = int 115792089210356248762697446949407573530086143415290314195533631308867097853951"
  by (simp add: fp_def)

lemma coprime_fp_iff: "coprime a fp \<longleftrightarrow> a mod fp \<noteq> 0"
proof
  assume "coprime a fp"
  then have "coprime (a mod fp) fp" by (simp only: coprime_mod_fp)
  then show "a mod fp \<noteq> 0" by (auto simp: fp_def)
next
  assume a: "a mod fp \<noteq> 0"
  define n where "n = nat (a mod fp)"
  have n: "a mod fp = int n" using fp_pos by (simp add: n_def)
  have "\<not> 115792089210356248762697446949407573530086143415290314195533631308867097853951 dvd n"
  proof
    assume "115792089210356248762697446949407573530086143415290314195533631308867097853951 dvd n"
    then have "fp dvd int n" unfolding fp_nat by (simp only: int_dvd_int_iff)
    then have "fp dvd a" unfolding n [symmetric] by (simp add: dvd_mod_iff)
    then show False using a by simp
  qed
  from is_prime_coprime [OF prime_p this] have "coprime (int n) fp" unfolding fp_nat by (simp only: coprime_int_iff)
  then show "coprime a fp" by (simp only: n [symmetric] coprime_mod_fp)
qed

lemma fp_fermat:
  assumes "a mod fp \<noteq> 0"
  shows "(a ^ (2 ^ 256 - 2 ^ 224 + 2 ^ 192 + 2 ^ 96 - 3) * a) mod fp = 1"
proof -
  let ?P = "115792089210356248762697446949407573530086143415290314195533631308867097853951 :: nat"
  define n where "n = nat (a mod fp)"
  have n: "a mod fp = int n" using fp_pos by (simp add: n_def)
  have "\<not> ?P dvd n"
  proof
    assume "?P dvd n"
    then have "fp dvd int n" unfolding fp_nat by (simp only: int_dvd_int_iff)
    then show False using assms unfolding n [symmetric] by (simp add: dvd_mod_iff dvd_eq_mod_eq_0)
  qed
  from fermat [OF prime_p this] have "int (n ^ (?P - 1) mod ?P) = 1" by (simp only: of_nat_1)
  then have "(int n) ^ (?P - 1) mod fp = 1" by (simp only: fp_nat zmod_int of_nat_power)
  then have "a ^ (?P - 1) mod fp = 1" unfolding n [symmetric] by (simp only: power_mod)
  moreover have "a ^ (2 ^ 256 - 2 ^ 224 + 2 ^ 192 + 2 ^ 96 - 3) * a = a ^ (?P - 1)"
  proof -
    have "2 ^ 256 - 2 ^ 224 + 2 ^ 192 + 2 ^ 96 - 3 = (115792089210356248762697446949407573530086143415290314195533631308867097853949 :: nat)" by simp
    moreover have "?P - 1 = Suc 115792089210356248762697446949407573530086143415290314195533631308867097853949" by simp
    ultimately have "?P - 1 = Suc (2 ^ 256 - 2 ^ 224 + 2 ^ 192 + 2 ^ 96 - 3)" by (simp only:)
    then show ?thesis by (simp only: power_Suc mult.commute)
  qed
  ultimately show ?thesis by (simp only:)
qed

lemma tangent_exists:
  assumes "coprime (2 * y) fp"
  obtains B where "tangent x y (fst B) (snd B)" "canonical B"
proof -
  obtain i where i: "fp dvd 2 * y * i - 1" using coprime_inverse [OF assms] .
  define l where "l = (3 * x ^ 2 - 3) * i"
  define x3 where "x3 = (l ^ 2 - 2 * x) mod fp"
  define y3 where "y3 = (l * (x - x3) - y) mod fp"
  have "2 * y * l - (3 * x ^ 2 - 3) = (3 * x ^ 2 - 3) * (2 * y * i - 1)" unfolding l_def by algebra
  then have "(2 * y * l - (3 * x ^ 2 - 3)) mod fp = 0" using i by (metis dvd_imp_mod_0 dvd_mult)
  moreover have "(x3 - (l ^ 2 - 2 * x)) mod fp = 0" "(y3 - (l * (x - x3) - y)) mod fp = 0"
    by (simp_all add: x3_def y3_def mod_diff_left_eq)
  ultimately have "tangent x y x3 y3" unfolding tangent_def by - (intro exI [of _ l] conjI)
  moreover have "canonical (x3, y3)" using fp_pos by (simp add: canonical_def x3_def y3_def)
  ultimately show ?thesis using that [of "(x3, y3)"] by simp
qed

lemma chord_exists:
  assumes "coprime (x2 - x1) fp"
  obtains C where "chord x1 y1 x2 y2 (fst C) (snd C)" "canonical C"
proof -
  obtain i where i: "fp dvd (x2 - x1) * i - 1" using coprime_inverse [OF assms] .
  define l where "l = (y2 - y1) * i"
  define x3 where "x3 = (l ^ 2 - x1 - x2) mod fp"
  define y3 where "y3 = (l * (x1 - x3) - y1) mod fp"
  have "(x2 - x1) * l - (y2 - y1) = (y2 - y1) * ((x2 - x1) * i - 1)" unfolding l_def by algebra
  then have "((x2 - x1) * l - (y2 - y1)) mod fp = 0" using i by (metis dvd_imp_mod_0 dvd_mult)
  moreover have "(x3 - (l ^ 2 - x1 - x2)) mod fp = 0" "(y3 - (l * (x1 - x3) - y1)) mod fp = 0"
    by (simp_all add: x3_def y3_def mod_diff_left_eq)
  ultimately have "chord x1 y1 x2 y2 x3 y3" unfolding chord_def by - (intro exI [of _ l] conjI)
  moreover have "canonical (x3, y3)" using fp_pos by (simp add: canonical_def x3_def y3_def)
  ultimately show ?thesis using that [of "(x3, y3)"] by simp
qed

section \<open>Jacobian arithmetic\<close>

definition jz :: "jpoint \<Rightarrow> int" where
  "jz = (\<lambda>(X, Y, Z). Z)"

definition denotes :: "affine \<Rightarrow> affine \<Rightarrow> nat \<Rightarrow> nat \<Rightarrow> jpoint \<Rightarrow> bool" where
  "denotes G Q k m j \<longleftrightarrow> (coprime (jz j) fp \<longrightarrow> (\<exists>A. comb G Q k m A \<and> repr j (fst A) (snd A)))"

lemma jz_double: "jz (jdouble j) = (case j of (X, Y, Z) \<Rightarrow> (2 * Y * Z) mod fp)"
  by (simp add: jz_def jdouble_def Let_def split: prod.split)

lemma jz_double_coprime: "coprime (jz (jdouble j)) fp \<Longrightarrow> coprime (jz j) fp"
proof (cases j)
  case (fields X Y Z)
  assume "coprime (jz (jdouble j)) fp"
  then have "coprime (2 * Y * Z) fp" by (simp only: jz_double fields split_conv coprime_mod_fp)
  then show ?thesis by (simp add: jz_def fields)
qed

lemma jz_add: "jz (jadd i j) = (case i of (X1, Y1, Z1) \<Rightarrow> case j of (X2, Y2, Z2) \<Rightarrow>
    (2 * Z1 * Z2 * (X2 * Z1 ^ 2 - X1 * Z2 ^ 2)) mod fp)"
  by (simp add: jz_def jadd_def Let_def split: prod.split)

lemma jdouble_comb:
  assumes "repr j (fst A) (snd A)" "coprime (jz (jdouble j)) fp"
  shows "coprime (2 * snd A) fp" "coprime (jz j) fp"
proof -
  obtain X Y Z where j: "j = (X, Y, Z)" by (cases j)
  have c: "coprime (2 * Y * Z) fp" using assms(2) by (simp add: jz_double j coprime_mod_fp)
  have "fp dvd Y - snd A * Z ^ 3" using assms(1) by (simp add: repr_def j dvd_eq_mod_eq_0)
  moreover have "coprime Y fp" using c by simp
  ultimately have "coprime (snd A * Z ^ 3) fp" by (rule dvd_coprime)
  then show "coprime (2 * snd A) fp" "coprime (jz j) fp" using c by (simp_all add: jz_def j)
qed

lemma denotes_double:
  assumes "denotes G Q k m j"
  shows "denotes G Q (2 * k) (2 * m) (jdouble j)"
  unfolding denotes_def
proof
  assume c: "coprime (jz (jdouble j)) fp"
  then have "coprime (jz j) fp" by (rule jz_double_coprime)
  then obtain A where A: "comb G Q k m A" "repr j (fst A) (snd A)" using assms by (auto simp: denotes_def)
  note cd = jdouble_comb(1) [OF A(2) c]
  obtain B where B: "tangent (fst A) (snd A) (fst B) (snd B)" "canonical B" using tangent_exists [OF cd] by blast
  have "comb G Q (k + k) (m + m) B" by (rule comb.double [OF A(1) A(1) cd B])
  then show "\<exists>A. comb G Q (2 * k) (2 * m) A \<and> repr (jdouble j) (fst A) (snd A)"
    unfolding mult_2 using jdouble_tangent [OF A(2) B(1)] by blast
qed

lemma denotes_add:
  assumes "denotes G Q k m i" "denotes G Q k' m' j"
  shows "denotes G Q (k + k') (m + m') (jadd i j)"
  unfolding denotes_def
proof
  assume c: "coprime (jz (jadd i j)) fp"
  obtain X1 Y1 Z1 X2 Y2 Z2 where ij: "i = (X1, Y1, Z1)" "j = (X2, Y2, Z2)" by (cases i; cases j)
  have z: "coprime Z1 fp" "coprime Z2 fp" "coprime (X2 * Z1 ^ 2 - X1 * Z2 ^ 2) fp"
    using c by (simp_all add: jz_add ij coprime_mod_fp)
  obtain A B where A: "comb G Q k m A" "repr i (fst A) (snd A)" and B: "comb G Q k' m' B" "repr j (fst B) (snd B)"
    using assms z(1,2) by (auto simp: denotes_def jz_def ij)
  have "fp dvd X1 - fst A * Z1 ^ 2" "fp dvd X2 - fst B * Z2 ^ 2" using A(2) B(2) by (simp_all add: repr_def ij dvd_eq_mod_eq_0)
  then have "fp dvd (X2 * Z1 ^ 2 - X1 * Z2 ^ 2) - (fst B - fst A) * (Z1 * Z2) ^ 2" by algebra
  then have "coprime ((fst B - fst A) * (Z1 * Z2) ^ 2) fp" using z(3) by (rule dvd_coprime)
  then have d: "coprime (fst B - fst A) fp" by simp
  obtain C where C: "chord (fst A) (snd A) (fst B) (snd B) (fst C) (snd C)" "canonical C" using chord_exists [OF d] by blast
  show "\<exists>C. comb G Q (k + k') (m + m') C \<and> repr (jadd i j) (fst C) (snd C)"
    using comb.add [OF A(1) B(1) d C] jadd_chord [OF A(2) B(2) C(1)] by blast
qed

lemma denotes_triple: "comb G Q k m (x mod fp, y mod fp) \<Longrightarrow> denotes G Q k m (x, y, 1)"
  unfolding denotes_def repr_def by (intro impI exI [of _ "(x mod fp, y mod fp)"]) (simp add: mod_diff_right_eq)

text \<open>Two triples of one point: the canonical coordinates agree.\<close>

lemma repr_unique:
  assumes "repr i (fst A) (snd A)" "repr j (fst B) (snd B)" "same_point i j" "coprime (jz i) fp" "coprime (jz j) fp"
    "canonical A" "canonical B"
  shows "A = B"
proof -
  obtain X1 Y1 Z1 X2 Y2 Z2 where ij: "i = (X1, Y1, Z1)" "j = (X2, Y2, Z2)" by (cases i; cases j)
  have z: "coprime (Z1 * Z2) fp" using assms(4,5) by (simp add: jz_def ij)
  have d: "fp dvd X1 - fst A * Z1 ^ 2" "fp dvd Y1 - snd A * Z1 ^ 3" "fp dvd X2 - fst B * Z2 ^ 2" "fp dvd Y2 - snd B * Z2 ^ 3"
    "fp dvd X2 * Z1 ^ 2 - X1 * Z2 ^ 2" "fp dvd Y2 * Z1 ^ 3 - Y1 * Z2 ^ 3"
    using assms(1-3) by (simp_all add: repr_def same_point_def ij dvd_eq_mod_eq_0)
  have "fp dvd (Z1 * Z2) ^ 2 * (fst B - fst A)" "fp dvd (Z1 * Z2) ^ 3 * (snd B - snd A)" using d by algebra+
  then have "fp dvd fst B - fst A" "fp dvd snd B - snd A"
    using z by (simp_all add: coprime_dvd_mult_right_iff coprime_commute)
  then have "fst B mod fp = fst A mod fp" "snd B mod fp = snd A mod fp" by (simp_all add: mod_eq_dvd_iff)
  then show ?thesis using assms(6,7) by (simp add: canonical_def prod_eq_iff)
qed

lemma denotes_same:
  assumes "denotes G Q k m i" "denotes G Q k' m' j" "same_point i j" "coprime (jz j) fp" "canonical G" "canonical Q"
  shows "denotes G Q (k + k') (m + m') (jdouble i)"
  unfolding denotes_def
proof
  assume c: "coprime (jz (jdouble i)) fp"
  then have ci: "coprime (jz i) fp" by (rule jz_double_coprime)
  obtain A B where A: "comb G Q k m A" "repr i (fst A) (snd A)" and B: "comb G Q k' m' B" "repr j (fst B) (snd B)"
    using assms(1,2,4) ci by (auto simp: denotes_def)
  have "A = B" using repr_unique [OF A(2) B(2) assms(3) ci assms(4)] comb_canonical A(1) B(1) assms(5,6) by blast
  note cd = jdouble_comb(1) [OF A(2) c]
  obtain C where C: "tangent (fst A) (snd A) (fst C) (snd C)" "canonical C" using tangent_exists [OF cd] by blast
  show "\<exists>C. comb G Q (k + k') (m + m') C \<and> repr (jdouble i) (fst C) (snd C)"
    using comb.double [OF A(1) _ cd C] B(1) \<open>A = B\<close> jdouble_tangent [OF A(2) C(1)] by blast
qed

end
