(* ===== verification/P256_BaseTable.thy ===== *)
theory P256_BaseTable
  imports P256_Scalar
begin

text \<open>
  The table \<open>kPrecomputed\<close> of \<open>p256_ec.c\<close> as rows, what its entries are selected by, and the order in which
  \<open>scalar_base_mult\<close> goes through the bits of the scalar: one bit of each of the eight digits at a time.
\<close>

section \<open>The precomputed table\<close>

lemma rows_length: "length kPrecomputed_rows = 60" "list_all (\<lambda>r. length r = 9) kPrecomputed_rows"
  by (simp_all add: kPrecomputed_rows_def)

lemma rows_ok: "list_all felem_ok kPrecomputed_rows"
  by (simp add: kPrecomputed_rows_def felem_ok_def all_less_9 limb_bits_def)

lemma row_ok: "r < 60 \<Longrightarrow> felem_ok (kPrecomputed_rows ! r)"
  using rows_ok rows_length(1) by (simp add: list_all_length)

lemma concat_row:
  assumes "list_all (\<lambda>r. length r = n) rows" "r < length rows"
  shows "take n (drop (n * r) (concat rows)) = rows ! r" "length (concat rows) = n * length rows"
  using assms
proof (induction rows arbitrary: r)
  case (Cons a rows)
  {
    case 1
    show ?case
    proof (cases r)
      case (Suc r')
      then show ?thesis using Cons.IH(1) [of r'] 1 by (simp add: add.commute)
    qed (use 1 in simp)
  next
    case 2
    then show ?case using Cons.IH(2) [of 0] by (cases rows) simp_all
  }
qed simp_all

lemma table_row: "r < 60 \<Longrightarrow> take 9 (drop (9 * r) kPrecomputed) = kPrecomputed_rows ! r"
  unfolding kPrecomputed_def using concat_row(1) [OF rows_length(2)] rows_length(1) by simp

lemma length_kPrecomputed: "length kPrecomputed = 540"
  unfolding kPrecomputed_def using concat_row(2) [OF rows_length(2), of 0] rows_length(1) by simp

definition entry_x :: "nat \<Rightarrow> nat \<Rightarrow> felem" where
  "entry_x t k = kPrecomputed_rows ! (30 * t + 2 * (k - 1))"

definition entry_y :: "nat \<Rightarrow> nat \<Rightarrow> felem" where
  "entry_y t k = kPrecomputed_rows ! (30 * t + 2 * (k - 1) + 1)"

text \<open>Entry \<open>k\<close> of a table stands for this multiple of the base point; the second table is \<open>2 ^ 32\<close> times the first.\<close>

definition weight :: "nat \<Rightarrow> nat \<Rightarrow> nat" where
  "weight t k = 2 ^ (32 * t) * (k mod 2 + 2 ^ 64 * (k div 2 mod 2) + 2 ^ 128 * (k div 4 mod 2) + 2 ^ 192 * (k div 8 mod 2))"

lemma select_entry:
  assumes "unat index < 16" "t < 2"
  shows "select_affine_point (drop (270 * t) kPrecomputed) index =
    (if index = 0 then (replicate 9 0, replicate 9 0) else (entry_x t (unat index), entry_y t (unat index)))"
proof -
  have l: "18 * 15 \<le> length (drop (270 * t) kPrecomputed)" using assms(2) by (simp add: length_kPrecomputed)
  have "1 \<le> unat index" if "index \<noteq> 0" using that unat_eq_zero [of index] by linarith
  moreover have "take 9 (drop (18 * (k - 1)) (drop (270 * t) kPrecomputed)) = entry_x t k"
    "take 9 (drop (18 * (k - 1) + 9) (drop (270 * t) kPrecomputed)) = entry_y t k" if "1 \<le> k" "k < 16" for k
  proof -
    have "18 * (k - 1) + 270 * t = 9 * (30 * t + 2 * (k - 1))" "18 * (k - 1) + 9 + 270 * t = 9 * (30 * t + 2 * (k - 1) + 1)" by simp_all
    moreover have "30 * t + 2 * (k - 1) + 1 < 60" using assms(2) that by linarith
    ultimately show "take 9 (drop (18 * (k - 1)) (drop (270 * t) kPrecomputed)) = entry_x t k"
      "take 9 (drop (18 * (k - 1) + 9) (drop (270 * t) kPrecomputed)) = entry_y t k"
      using table_row [of "30 * t + 2 * (k - 1)"] table_row [of "30 * t + 2 * (k - 1) + 1"]
      by (simp_all only: drop_drop entry_x_def entry_y_def)
  qed
  ultimately show ?thesis using select_affine_val [OF assms(1) l] assms(1) by simp
qed

lemma entry_ok: "t < 2 \<Longrightarrow> 1 \<le> k \<Longrightarrow> k < 16 \<Longrightarrow> felem_ok (entry_x t k) \<and> felem_ok (entry_y t k)"
  unfolding entry_x_def entry_y_def by (intro conjI row_ok; linarith)

section \<open>The bits of the digits\<close>

lemma digit_bit:
  assumes "length s = 8" "i < 32" "d < 8"
  shows "unat (p256_get_bit s (31 - i + 32 * d)) = (unat (s ! d) div 2 ^ (31 - i)) mod 2"
proof -
  have "31 - i < 32" by simp
  then have "(31 - i + 32 * d) div 32 = d" "(31 - i + 32 * d) mod 32 = 31 - i"
    by simp_all
  then show ?thesis by (simp add: p256_get_bit_def and_1_u32 unat_drop_bit)
qed

definition upper :: "p256_int \<Rightarrow> nat \<Rightarrow> nat \<Rightarrow> nat" where
  "upper s t i = unat (s ! t) div 2 ^ (32 - i) + 2 ^ 64 * (unat (s ! (t + 2)) div 2 ^ (32 - i)) +
     2 ^ 128 * (unat (s ! (t + 4)) div 2 ^ (32 - i)) + 2 ^ 192 * (unat (s ! (t + 6)) div 2 ^ (32 - i))"

lemma base_index_val:
  assumes "length s = 8" "i < 32" "t < 2"
  shows "unat (base_index s i (32 * t)) < 16"
    and "2 * upper s t i + weight 0 (unat (base_index s i (32 * t))) = upper s t (Suc i)"
proof -
  define b where "b d = (unat (s ! (t + 2 * d)) div 2 ^ (31 - i)) mod 2" for d
  have p: "31 - i + 32 * t = 31 - i + 32 * (t + 2 * 0)" "95 - i + 32 * t = 31 - i + 32 * (t + 2 * 1)"
    "159 - i + 32 * t = 31 - i + 32 * (t + 2 * 2)" "223 - i + 32 * t = 31 - i + 32 * (t + 2 * 3)" using assms(2) by simp_all
  have v: "unat (p256_get_bit s (31 - i + 32 * (t + 2 * d))) = b d" if "d < 4" for d
    unfolding b_def using assms(3) that by (intro digit_bit assms(1,2)) linarith
  have w: "p256_get_bit s (31 - i + 32 * (t + 2 * d)) \<in> {0, 1}" if "d < 4" for d
  proof (intro bit_word assms(1))
    have "u + 32 * x < 256" if "u \<le> 31" "x \<le> 7" for u x :: nat using that by linarith
    moreover have "t + 2 * d \<le> 7" using assms(3) that by linarith
    ultimately show "31 - i + 32 * (t + 2 * d) < 256" by simp
  qed
  have k: "3 < (4 :: nat)" "2 < (4 :: nat)" "1 < (4 :: nat)" "0 < (4 :: nat)" by simp_all
  have c: "a OR push_bit 1 b OR push_bit 2 c OR push_bit 3 d = push_bit 3 d OR push_bit 2 c OR push_bit 1 b OR (a :: u32)" for a b c d
    by (simp add: or.commute or.left_commute)
  have x: "unat (base_index s i (32 * t)) = 8 * b 3 + 4 * b 2 + 2 * b 1 + b 0"
    unfolding base_index_def Let_def p c four_bits [OF w [OF k(1)] w [OF k(2)] w [OF k(3)] w [OF k(4)]]
      v [OF k(1)] v [OF k(2)] v [OF k(3)] v [OF k(4)] ..
  have b2: "b d < 2" for d by (simp add: b_def)
  then show "unat (base_index s i (32 * t)) < 16" unfolding x using b2 [of 0] b2 [of 1] b2 [of 2] b2 [of 3] by linarith
  have wt: "weight 0 (unat (base_index s i (32 * t))) = b 0 + 2 ^ 64 * b 1 + 2 ^ 128 * b 2 + 2 ^ 192 * b 3"
    unfolding x weight_def using b2 [of 0] b2 [of 1] b2 [of 2] b2 [of 3] by (auto simp: less_2_cases_iff)
  have h: "2 * (u div 2 ^ (32 - i)) + (u div 2 ^ (31 - i)) mod 2 = u div 2 ^ (31 - i)" for u :: nat
  proof -
    have "32 - i = Suc (31 - i)" using assms(2) by simp
    then have "2 ^ (32 - i) = 2 ^ (31 - i) * (2 :: nat)" by (simp only: power_Suc2)
    then show ?thesis by (simp add: div_mult2_eq)
  qed
  have e: "32 - Suc i = 31 - i" by simp
  show "2 * upper s t i + weight 0 (unat (base_index s i (32 * t))) = upper s t (Suc i)"
    unfolding wt upper_def e
    using h [of "unat (s ! t)"] h [of "unat (s ! (t + 2))"] h [of "unat (s ! (t + 4))"] h [of "unat (s ! (t + 6))"]
    by (simp add: b_def)
qed

lemma upper_0: "upper s t 0 = 0"
  using u32_lt by (simp add: upper_def)

lemma upper_32:
  assumes "length s = 8"
  shows "upper s 0 32 + 2 ^ 32 * upper s 1 32 = lval s"
proof -
  obtain a b c d e f g h where "s = [a, b, c, d, e, f, g, h]" using assms by (auto simp: numeral_eq_Suc length_Suc_conv)
  then show ?thesis by (simp add: upper_def)
qed

lemma weight_1: "weight 1 k = 2 ^ 32 * weight 0 k"
  by (simp add: weight_def)

lemma weight_zero: "k < 16 \<Longrightarrow> t < 2 \<Longrightarrow> weight t k = 0 \<longleftrightarrow> k = 0"
  unfolding weight_def using mod_16 [of k] by auto

end
