(* ===== verification/P256_ScalarMult.thy ===== *)
theory P256_ScalarMult
  imports P256_Multiples P256_BaseTable
begin

text \<open>
  Both scalar multiplications of \<open>p256_ec.c\<close>. What they need of the point arithmetic is the locale \<open>multiples\<close>: a
  notion of being the \<open>k\<close>-fold of something that doubling and adding respect. In it the masked loops
  are shown to go through the bits of the scalar.
\<close>

section \<open>The loops\<close>

locale multiples =
  fixes D :: "nat \<Rightarrow> jpoint \<Rightarrow> bool"
  assumes D_double: "D k j \<Longrightarrow> D (2 * k) (jdouble j)"
    and D_add: "D k i \<Longrightarrow> D l j \<Longrightarrow> D (k + l) (jadd i j)"
begin

text \<open>The accumulator holds the \<open>k\<close>-fold, the mask says whether \<open>k\<close> is zero.\<close>

definition tracks :: "point \<times> limb \<Rightarrow> nat \<Rightarrow> bool" where
  "tracks s k \<longleftrightarrow> point_ok (fst s) \<and> (if k = 0 then snd s = - 1 else snd s = 0 \<and> D k (fel3 (fst s)))"

lemma accumulate_tracks:
  assumes "tracks (n, msk) k" "point_ok p" "point_ok t" "unat index < 16" "index = 0 \<longleftrightarrow> w = 0"
    "index \<noteq> 0 \<Longrightarrow> D w (fel3 p)" "fel3 t = jadd (fel3 n) (fel3 p)"
  shows "tracks (accumulate t p index (n, msk)) (k + w)"
proof -
  have n: "point_ok n" using assms(1) by (simp add: tracks_def)
  have add: "D (k + w) (fel3 t)" if "k \<noteq> 0" "index \<noteq> 0"
    using that assms(1,6,7) D_add by (simp add: tracks_def)
  show ?thesis
    using assms(1-6) n add
    by (cases "k = 0"; cases "index = 0") (auto simp: tracks_def accumulate_def Let_def copy_point_cases all_ones_index)
qed

lemma tracks_double: "tracks (n, msk) k \<Longrightarrow> tracks (point_double n, msk) (2 * k)"
  using D_double [of k "fel3 n"] by (auto simp: tracks_def point_double_ok point_double_fel)

lemma tracks_double_4: "tracks (n, msk) k \<Longrightarrow> tracks ((point_double ^^ 4) n, msk) (16 * k)"
proof -
  assume "tracks (n, msk) k"
  from tracks_double [OF tracks_double [OF tracks_double [OF tracks_double [OF this]]]]
  have "tracks (point_double (point_double (point_double (point_double n))), msk) (2 * (2 * (2 * (2 * k))))" .
  moreover have "2 * (2 * (2 * (2 * k))) = 16 * k" by simp
  moreover have "(point_double ^^ 4) n = point_double (point_double (point_double (point_double n)))" by (simp add: eval_nat_numeral)
  ultimately show ?thesis by (simp only:)
qed

subsection \<open>The table of small multiples\<close>

definition table_upto :: "nat \<Rightarrow> point list \<Rightarrow> bool" where
  "table_upto c pc \<longleftrightarrow> length pc = 16 \<and> pc ! 0 = zero_point \<and> (\<forall>P \<in> set pc. point_ok P) \<and> (\<forall>k. 1 \<le> k \<and> k < c \<longrightarrow> D k (fel3 (pc ! k)))"

lemma table_nth: "table_upto c pc \<Longrightarrow> k < 16 \<Longrightarrow> point_ok (pc ! k)"
  by (simp add: table_upto_def)

lemma table_update:
  assumes "table_upto c pc" "point_ok P" "D c (fel3 P)" "c < 16" "0 < c"
  shows "table_upto (Suc c) (pc[c := P])"
proof -
  have "\<forall>P' \<in> set (pc[c := P]). point_ok P'" using assms(1,2) set_update_subset_insert [of pc c P] by (auto simp: table_upto_def)
  then show ?thesis using assms by (auto simp: table_upto_def nth_list_update less_Suc_eq)
qed

lemma precomp_step_table:
  assumes "table_upto i pc" "D 1 (fel x, fel y, 1)" "felem_ok x" "felem_ok y" "even i" "2 \<le> i" "i \<le> 14"
  shows "table_upto (i + 2) (precomp_step x y i pc)"
proof -
  let ?d = "point_double (pc ! (i div 2))"
  have h: "1 \<le> i div 2" "i div 2 < i" "2 * (i div 2) = i" using assms(5,6) by auto
  then have "D (i div 2) (fel3 (pc ! (i div 2)))" using assms(1) by (simp add: table_upto_def)
  moreover have ok: "point_ok (pc ! (i div 2))" using table_nth [OF assms(1)] assms(7) by simp
  ultimately have d: "D i (fel3 ?d)" using D_double [of "i div 2"] h(3) by (simp add: point_double_fel)
  have 1: "table_upto (Suc i) (pc[i := ?d])" using table_update [OF assms(1) point_double_ok [OF ok] d] assms(6,7) by simp
  have "D (i + 1) (fel3 (point_add_mixed ?d x y))"
    using D_add [OF d assms(2)] point_add_mixed_fel [OF point_double_ok [OF ok] assms(3,4)] by simp
  then have "table_upto (Suc (Suc i)) (pc[i := ?d, Suc i := point_add_mixed ?d x y])"
    using table_update [OF 1 point_add_mixed_ok [OF point_double_ok [OF ok] assms(3,4)]] assms(7) by simp
  moreover have "i < length pc" using assms(1,7) by (simp add: table_upto_def)
  ultimately show ?thesis by (simp add: precomp_step_def Let_def)
qed

lemma zero_point_ok: "point_ok zero_point"
  using felem_ok_kZero by (simp add: zero_point_def point_ok_def kZero_def)

lemma precomp_table_ok:
  assumes "D 1 (fel x, fel y, 1)" "felem_ok x" "felem_ok y"
  shows "table_upto 16 (precomp_table x y)"
proof -
  have "point_ok (x, y, kOne)" using assms(2,3) by (simp add: point_ok_def felem_ok_kOne)
  moreover have "D 1 (fel3 (x, y, kOne))" using assms(1) by (simp add: fel3_def fel_kOne)
  moreover have "table_upto 1 (replicate 16 zero_point)" by (simp add: table_upto_def zero_point_ok)
  ultimately have "table_upto 2 ((replicate 16 zero_point)[1 := (x, y, kOne)])"
    using table_update [of 1 "replicate 16 zero_point" "(x, y, kOne)"] by (simp add: numeral_2_eq_2)
  note s = precomp_step_table [OF _ assms]
  have "table_upto (14 + 2) (precomp_table x y)"
    unfolding precomp_table_def fold_simps
    by (intro s [of 14] s [of 12, simplified] s [of 10, simplified] s [of 8, simplified] s [of 6, simplified]
        s [of 4, simplified] s [of 2, simplified]) (use \<open>table_upto 2 _\<close> in simp_all)
  then show ?thesis by simp
qed

subsection \<open>Multiplication of a point\<close>

lemma mult_step_tracks:
  assumes "tracks s k" "table_upto 16 pc" "length scalar = 8" "i \<le> 252" "i = 0 \<Longrightarrow> k = 0"
  shows "tracks (mult_step pc scalar i s) (16 * k + (lval scalar div 2 ^ (252 - i)) mod 16)"
proof -
  obtain n msk where s: "s = (n, msk)" by (cases s)
  define n' where "n' = (if i \<noteq> 0 then (point_double ^^ 4) n else n)"
  let ?w = "window_index scalar i"
  have w: "unat ?w = (lval scalar div 2 ^ (252 - i)) mod 16" using window_index_val assms(3,4) by simp
  then have w16: "unat ?w < 16" by simp
  have t: "tracks (n', msk) (16 * k)" using assms(1,5) tracks_double_4 [of n msk k] by (auto simp: n'_def s)
  have pc: "\<forall>P \<in> set pc. point_ok P" "length pc = 16" "pc ! 0 = zero_point" using assms(2) by (auto simp: table_upto_def)
  have sel: "select_jacobian_point (flatten_table pc) ?w = pc ! unat ?w" using select_jacobian_val [OF w16 pc] .
  have p: "point_ok (pc ! unat ?w)" using pc w16 by simp
  have n: "point_ok n'" using t by (simp add: tracks_def)
  have D: "D (unat ?w) (fel3 (pc ! unat ?w))" if "?w \<noteq> 0"
    using that assms(2) w16 by (auto simp: table_upto_def Suc_le_eq unat_gt_0)
  have z: "?w = 0 \<longleftrightarrow> unat ?w = 0" by (simp add: unat_eq_zero)
  have "tracks (accumulate (point_add n' (pc ! unat ?w)) (pc ! unat ?w) ?w (n', msk)) (16 * k + unat ?w)"
    by (rule accumulate_tracks [OF t p point_add_ok [OF n p] w16 z D point_add_fel [OF n p]])
  then show ?thesis unfolding mult_step_def s split_conv Let_def n'_def [symmetric] sel w .
qed

lemma mult_loop:
  assumes "table_upto 16 pc" "length scalar = 8" "t \<le> 64"
  shows "tracks (fold (mult_step pc scalar) (map (\<lambda>k. 4 * k) [0..<t]) (zero_point, - 1)) (lval scalar div 2 ^ (256 - 4 * t))"
  using assms(3)
proof (induction t)
  case 0
  have "lval scalar < 2 ^ 256" using lval_less [of scalar] assms(2) by simp
  then show ?case by (simp add: tracks_def zero_point_ok)
next
  case (Suc t)
  let ?k = "lval scalar div 2 ^ (256 - 4 * t)"
  have IH: "tracks (fold (mult_step pc scalar) (map (\<lambda>k. 4 * k) [0..<t]) (zero_point, - 1)) ?k" using Suc by simp
  have z: "?k = 0" if "4 * t = 0"
  proof -
    have "lval scalar < 2 ^ (256 - 4 * t)" using lval_less [of scalar] that assms(2) by simp
    then show ?thesis by (rule div_less)
  qed
  have x: "lval scalar div 2 ^ (d + 4) = lval scalar div 2 ^ d div 16" for d by (simp add: power_add div_mult2_eq)
  have "256 - 4 * t = (252 - 4 * t) + 4" using Suc.prems by simp
  then have "?k = lval scalar div 2 ^ (252 - 4 * t) div 16" using x by metis
  then have e: "16 * ?k + (lval scalar div 2 ^ (252 - 4 * t)) mod 16 = lval scalar div 2 ^ (252 - 4 * t)" by simp
  have le: "4 * t \<le> 252" using Suc.prems by simp
  have f: "fold (mult_step pc scalar) (map (\<lambda>k. 4 * k) [0..<Suc t]) (zero_point, - 1) =
    mult_step pc scalar (4 * t) (fold (mult_step pc scalar) (map (\<lambda>k. 4 * k) [0..<t]) (zero_point, - 1))" by simp
  have "256 - 4 * Suc t = 252 - 4 * t" by simp
  then show ?case unfolding f using mult_step_tracks [OF IH assms(1,2) le z, unfolded e] by (simp only:)
qed

lemma scalar_mult_multiple:
  assumes "D 1 (fel x, fel y, 1)" "felem_ok x" "felem_ok y" "length scalar = 8"
  shows "point_ok (scalar_mult x y scalar) \<and> (lval scalar \<noteq> 0 \<longrightarrow> D (lval scalar) (fel3 (scalar_mult x y scalar)))"
  using mult_loop [OF precomp_table_ok [OF assms(1-3)] assms(4), of 64] by (auto simp: tracks_def scalar_mult_def)

end

section \<open>Multiplication of the base point\<close>

locale base_multiples = multiples +
  assumes table: "t < 2 \<Longrightarrow> 1 \<le> k \<Longrightarrow> k < 16 \<Longrightarrow> D (weight t k) (fel (entry_x t k), fel (entry_y t k), 1)"
begin

lemma base_add_tracks:
  assumes "tracks s k" "length scalar = 8" "i < 32" "t < 2"
  shows "tracks (base_add scalar i (32 * t) s) (k + weight t (unat (base_index scalar i (32 * t))))"
proof -
  obtain n msk where s: "s = (n, msk)" by (cases s)
  let ?x = "base_index scalar i (32 * t)"
  have x16: "unat ?x < 16" using base_index_val(1) [OF assms(2-4)] .
  obtain px py where sel: "select_affine_point (drop (270 * t) kPrecomputed) ?x = (px, py)" by fastforce
  have z9: "felem_ok (replicate 9 0)" using felem_ok_kZero by (simp add: kZero_def NLIMBS_def)
  have x1: "1 \<le> unat ?x" if "?x \<noteq> 0" using that unat_eq_zero [of ?x] by linarith
  have ok: "felem_ok px" "felem_ok py"
    using sel select_entry [OF x16 assms(4)] z9 entry_ok [OF assms(4) x1 x16] by (auto split: if_splits)
  have D: "D (weight t (unat ?x)) (fel3 (px, py, kOne))" if "?x \<noteq> 0"
    using sel select_entry [OF x16 assms(4)] that table [OF assms(4) x1 x16] by (simp add: fel3_def fel_kOne)
  have n: "point_ok n" using assms(1) by (simp add: tracks_def s)
  have p: "point_ok (px, py, kOne)" using ok by (simp add: point_ok_def felem_ok_kOne)
  have z: "?x = 0 \<longleftrightarrow> weight t (unat ?x) = 0" using weight_zero [OF x16 assms(4)] by (simp add: unat_eq_zero)
  have a: "fel3 (point_add_mixed n px py) = jadd (fel3 n) (fel3 (px, py, kOne))"
    using point_add_mixed_fel [OF n ok] by (simp add: fel3_def fel_kOne)
  have off: "(if 32 * t = 0 then 0 else 30 * NLIMBS) = 270 * t" using assms(4) by (cases t) (simp_all add: NLIMBS_def)
  have "tracks (accumulate (point_add_mixed n px py) (px, py, kOne) ?x (n, msk)) (k + weight t (unat ?x))"
    by (rule accumulate_tracks [OF assms(1) [unfolded s] p point_add_mixed_ok [OF n ok] x16 z D a])
  then show ?thesis unfolding base_add_def s split_conv Let_def off sel .
qed

lemma base_step_tracks:
  assumes "tracks s (upper scalar 0 i + 2 ^ 32 * upper scalar 1 i)" "length scalar = 8" "i < 32"
  shows "tracks (base_step scalar i s) (upper scalar 0 (Suc i) + 2 ^ 32 * upper scalar 1 (Suc i))"
proof -
  obtain n msk where s: "s = (n, msk)" by (cases s)
  define n' where "n' = (if i \<noteq> 0 then point_double n else n)"
  let ?k = "upper scalar 0 i + 2 ^ 32 * upper scalar 1 i" and ?w = "\<lambda>t. weight 0 (unat (base_index scalar i (32 * t)))"
  have t: "tracks (n', msk) (2 * ?k)"
    using assms(1) tracks_double [of n msk ?k] upper_0 by (cases "i = 0") (simp_all add: n'_def s)
  have "tracks (base_add scalar i (32 * 1) (base_add scalar i (32 * 0) (n', msk))) (2 * ?k + ?w 0 + weight 1 (unat (base_index scalar i (32 * 1))))"
    by (intro base_add_tracks t assms(2,3)) simp_all
  moreover have "2 * ?k + ?w 0 + 2 ^ 32 * ?w 1 = upper scalar 0 (Suc i) + 2 ^ 32 * upper scalar 1 (Suc i)"
  proof -
    have "2 * (a + 2 ^ 32 * b) + c + 2 ^ 32 * d = (2 * a + c) + 2 ^ 32 * (2 * b + d)" for a b c d :: nat by (simp add: algebra_simps)
    moreover have "2 * upper scalar 0 i + ?w 0 = upper scalar 0 (Suc i)" "2 * upper scalar 1 i + ?w 1 = upper scalar 1 (Suc i)"
      by (intro base_index_val(2) assms(2,3); simp)+
    ultimately show ?thesis by (simp only:)
  qed
  ultimately have "tracks (base_add scalar i 32 (base_add scalar i 0 (n', msk))) (upper scalar 0 (Suc i) + 2 ^ 32 * upper scalar 1 (Suc i))"
    unfolding weight_1 by simp
  then show ?thesis unfolding base_step_def s split_conv Let_def n'_def .
qed

lemma base_loop:
  assumes "length scalar = 8" "t \<le> 32"
  shows "tracks (fold (base_step scalar) [0..<t] (zero_point, - 1)) (upper scalar 0 t + 2 ^ 32 * upper scalar 1 t)"
  using assms(2)
proof (induction t)
  case 0
  then show ?case by (simp add: tracks_def zero_point_ok upper_0)
next
  case (Suc t)
  then show ?case using base_step_tracks [of "fold (base_step scalar) [0..<t] (zero_point, - 1)" scalar t] assms(1) by simp
qed

lemma scalar_base_mult_multiple:
  assumes "length scalar = 8"
  shows "point_ok (scalar_base_mult scalar) \<and> (lval scalar \<noteq> 0 \<longrightarrow> D (lval scalar) (fel3 (scalar_base_mult scalar)))"
proof -
  have "tracks (fold (base_step scalar) [0..<32] (zero_point, - 1)) (lval scalar)"
    using base_loop [OF assms, of 32] unfolding upper_32 [OF assms] by simp
  then show ?thesis by (auto simp: tracks_def scalar_base_mult_def)
qed

end

end
