(* ===== verification/P256_Table.thy ===== *)
theory P256_Table
  imports P256_ScalarMult
begin

text \<open>
  The table \<open>kPrecomputed\<close> of \<open>p256_ec.c\<close> holds the multiples of the base point that its comment lists: \<open>2 ^ 32\<close>
  times as much in the second half, and sums of the powers \<open>2 ^ 64\<close>, \<open>2 ^ 128\<close> and \<open>2 ^ 192\<close>. The
  points are reached by 224 doublings and 22 additions; every one comes with its slope and the quotients of its
  three congruences, so that it is checked by a few multiplications of integers.
\<close>

section \<open>Certificates\<close>

definition curve_G :: affine where
  "curve_G = (48439561293906451759052585252797914202762949526041747995844080717082404635286,
     36134250956749795798585127919587881956611106672985015071877198253568414405109)"

text \<open>One doubling: the slope \<open>l\<close>, the quotients \<open>c\<close>, \<open>u\<close> and \<open>v\<close>, the difference \<open>d\<close> of the first coordinates, and the result.\<close>

fun dbl_chain :: "affine \<Rightarrow> (bool \<times> int \<times> int \<times> int \<times> bool \<times> int \<times> int \<times> int \<times> int) list \<Rightarrow> affine \<Rightarrow> bool" where
  "dbl_chain A [] B \<longleftrightarrow> A = B"
| "dbl_chain (x, y) ((s, l, c, u, t, d, v, x3, y3) # cs) B \<longleftrightarrow>
     (if s then 2 * (y * l) + 3 = 3 * x ^ 2 + c * fp else 3 * x ^ 2 = 2 * (y * l) + 3 + c * fp) \<and>
     l ^ 2 = 2 * x + x3 + u * fp \<and>
     (if t then x = x3 + d \<and> l * d = y3 + y + v * fp else x3 = x + d \<and> l * d + (y3 + y) = 0 + v * fp) \<and>
     0 < y \<and> y < fp \<and> 0 \<le> x3 \<and> x3 < fp \<and> 0 \<le> y3 \<and> y3 < fp \<and> dbl_chain (x3, y3) cs B"

fun add_cert :: "affine \<Rightarrow> affine \<Rightarrow> bool \<times> int \<times> int \<times> int \<times> int \<times> bool \<times> int \<times> int \<times> int \<times> int \<Rightarrow> bool" where
  "add_cert (x1, y1) (x2, y2) (f, e, l, c, u, t, d, v, x3, y3) \<longleftrightarrow>
     (if f then x2 = x1 + e \<and> l * e + y1 = y2 + c * fp else x1 = x2 + e \<and> l * e + y2 = y1 + c * fp) \<and>
     l ^ 2 = x1 + x2 + x3 + u * fp \<and>
     (if t then x1 = x3 + d \<and> l * d = y3 + y1 + v * fp else x3 = x1 + d \<and> l * d + (y3 + y1) = 0 + v * fp) \<and>
     0 < e \<and> e < fp \<and> 0 \<le> x3 \<and> x3 < fp \<and> 0 \<le> y3 \<and> y3 < fp"

lemma mod_0I: "a = k * fp \<Longrightarrow> a mod fp = 0"
  by simp

lemma coprime_range: "0 < a \<Longrightarrow> a < fp \<Longrightarrow> coprime a fp"
  by (simp add: coprime_fp_iff)

lemma dbl_tangent:
  assumes "if s then 2 * (y * l) + 3 = 3 * x ^ 2 + c * fp else 3 * x ^ 2 = 2 * (y * l) + 3 + c * fp"
    "l ^ 2 = 2 * x + x3 + u * fp"
    "if t then x = x3 + d \<and> l * d = y3 + y + v * fp else x3 = x + d \<and> l * d + (y3 + y) = 0 + v * fp"
  shows "tangent x y x3 y3"
  unfolding tangent_def
proof (intro exI [of _ l] conjI)
  show "(2 * y * l - (3 * x ^ 2 - 3)) mod fp = 0"
    by (rule mod_0I [of _ "if s then c else - c"]) (use assms(1) in \<open>cases s; simp; algebra\<close>)
  show "(x3 - (l ^ 2 - 2 * x)) mod fp = 0" by (rule mod_0I [of _ "- u"]) (use assms(2) in algebra)
  show "(y3 - (l * (x - x3) - y)) mod fp = 0"
  proof (cases t)
    case True
    then have "x = x3 + d" "l * d = y3 + y + v * fp" using assms(3) by simp_all
    then show ?thesis by (intro mod_0I [of _ "- v"]) algebra
  next
    case False
    then have "x3 = x + d" "l * d + (y3 + y) = v * fp" using assms(3) by simp_all
    then show ?thesis by (intro mod_0I [of _ v]) algebra
  qed
qed

lemma comb_dbl_chain:
  assumes "dbl_chain A cs B" "comb G Q k 0 A"
  shows "comb G Q (2 ^ length cs * k) 0 B"
  using assms
proof (induction A cs B arbitrary: k rule: dbl_chain.induct)
  case (2 x y s l c u t d v x3 y3 cs B)
  have h: "dbl_chain (x3, y3) cs B" "0 < y" "y < fp" "canonical (x3, y3)" using 2(2) by (simp_all add: canonical_def)
  have "tangent x y x3 y3" using 2(2) unfolding dbl_chain.simps by (elim conjE) (rule dbl_tangent; assumption)
  moreover have "coprime (2 * y) fp" using coprime_range [OF h(2,3)] coprime_range [of 2] by (simp add: fp_def)
  ultimately have "comb G Q (k + k) (0 + 0) (x3, y3)" using h(4) by (intro comb.double [OF 2(3) 2(3)]) simp_all
  then have "comb G Q (2 * k) 0 (x3, y3)" by (simp add: mult_2)
  from 2(1) [OF h(1) this] show ?case by (simp add: ac_simps)
qed simp

lemma comb_dbl_chain_8:
  assumes "dbl_chain A cs B" "comb G Q (2 ^ e) 0 A" "length cs = 8" "e' = e + 8"
  shows "comb G Q (2 ^ e') 0 B"
  using comb_dbl_chain [OF assms(1,2)] by (simp add: assms(3,4) power_add mult.commute)

lemma add_chord:
  assumes "add_cert (x1, y1) (x2, y2) (f, e, l, c, u, t, d, v, x3, y3)"
  shows "chord x1 y1 x2 y2 x3 y3"
  unfolding chord_def
proof (intro exI [of _ l] conjI)
  show "((x2 - x1) * l - (y2 - y1)) mod fp = 0"
  proof (cases f)
    case True
    then have "x2 = x1 + e" "l * e + y1 = y2 + c * fp" using assms by simp_all
    then show ?thesis by (intro mod_0I [of _ c]) algebra
  next
    case False
    then have "x1 = x2 + e" "l * e + y2 = y1 + c * fp" using assms by simp_all
    then show ?thesis by (intro mod_0I [of _ "- c"]) algebra
  qed
  have "l ^ 2 = x1 + x2 + x3 + u * fp" using assms by simp
  then show "(x3 - (l ^ 2 - x1 - x2)) mod fp = 0" by (intro mod_0I [of _ "- u"]) algebra
  show "(y3 - (l * (x1 - x3) - y1)) mod fp = 0"
  proof (cases t)
    case True
    then have "x1 = x3 + d" "l * d = y3 + y1 + v * fp" using assms by simp_all
    then show ?thesis by (intro mod_0I [of _ "- v"]) algebra
  next
    case False
    then have "x3 = x1 + d" "l * d + (y3 + y1) = v * fp" using assms by simp_all
    then show ?thesis by (intro mod_0I [of _ v]) algebra
  qed
qed

lemma comb_add_cert:
  assumes "add_cert (x1, y1) (x2, y2) (f, e, l, c, u, t, d, v, x3, y3)" "comb G Q k 0 (x1, y1)" "comb G Q k' 0 (x2, y2)"
  shows "comb G Q (k + k') 0 (x3, y3)"
proof -
  have e: "0 < e" "e < fp" "canonical (x3, y3)" using assms(1) by (simp_all add: canonical_def)
  have "x2 - x1 = e \<or> x2 - x1 = - e" using assms(1) by (auto split: if_splits)
  then have "coprime (x2 - x1) fp" using coprime_range [OF e(1,2)] by auto
  then have "comb G Q (k + k') (0 + 0) (x3, y3)"
    by (intro comb.add [OF assms(2,3)]) (simp_all add: add_chord [OF assms(1)] e(3))
  then show ?thesis by simp
qed

text \<open>The rules that check a certificate: a multiple of \<open>fp\<close> is a sum of shifts.\<close>

lemma shift_fp:
  "a = b + c * fp \<longleftrightarrow> a + (c * 26959946667150639794667015087019630673637144422540572481103610249216 + c) = b + (c * 115792089237316195423570985008687907853269984665640564039457584007913129639936 + (c * 6277101735386680763835789423207666416102355444464034512896 + c * 79228162514264337593543950336))"
  by (simp add: fp_def) linarith

lemma fp_literal: "fp = 115792089210356248762697446949407573530086143415290314195533631308867097853951"
  by (simp add: fp_def)

lemmas table_unfold = dbl_chain.simps add_cert.simps if_True if_False simp_thms

lemmas table_arith = power_numeral pow.simps sqr.simps numeral_times_numeral mult_num_simps numeral_plus_numeral add_num_3
  mult_1 mult_1_right add_0 add_0_right numeral_plus_one fp_literal numeral_less_iff less_num_simps le_num_simps zero_less_numeral
  zero_le_numeral simp_thms

section \<open>Points\<close>


lemma dbl_0: "dbl_chain (48439561293906451759052585252797914202762949526041747995844080717082404635286, 36134250956749795798585127919587881956611106672985015071877198253568414405109)
    [(False, 73404963663004311880882944372748989162084677934852963787452504780932599885725, 14977763592705361599069626339595274245038754281486362765233116488694613306585, 46534169364352948997359741750105301721628942037719297803569804305146118019163, False, 8075658496784719654056472651213774492661860629761181977682400604227451606754, 5119463881806322295163457373521794297454023340494487862517546227562463949728, 56515219790691171413109057904011688695424810155802929973526481321309856242040, 3377031843712258259223711451491452598088675519751548567112458094635497583569),
     (False, 87876972767636602721277556159866268705790392400063007550586851983819265240629, 77625195248966972021901033047669487927741899854888268926558226865316902967245, 66691622851496750087600276706916432343928564453529296610258552421876053353545, False, 45854644458961885909616292819729772904480369849102967325253490116517525483226, 34800022781085243565565141522223888630778113256197232251911928694582393312327, 102369864249653057322725350723741461599905180004905897298779971437827381725266, 101744491111635190512325668403432589740384530506764148840112137220732283181254),
     (False, 27703172120280106276542475014640964877769784128290397894053506393076766133776, 222825904570151469936480686775614624055051021359099650389769339990524761084407, 6627963540165782931308659620073212613948216025968493060238854333066827531063, True, 57658973714803677641718155180021875510167425180345275322331263939138506937535, 13794867024102797167633170548709480530087960287170413670605167954771568586836, 44710890534849379681007195543719586089737754824560621976448707498688874787731, 78410552107786285403689301656392479612049391334024095564584156230482213311870),
     (True, 50497038961444600098837179579397293704748998380821210436411903751412026535562, 16597076928125735250226123237987612538985573517653716085827390343461446696800, 22021806163642400483717190451476557770507115257556917290677183797878973792560, False, 8961154713208509434435795107254660866373678685388605840705740000209975888091, 3907967994863254646131424821567730321994601810302876867313007548999980464484, 53672045248057889115442990650974246956111433509949227817154447498898850675822, 76677617734363509249014819591226621404800471122547084603525198673829417472272),
     (True, 105685889379630057297744864244456376859903278774705175695258468745067094181512, 65336234796337407025248441044385020687227937174940292024505107894696099273929, 96461746999590534112006022212998027193724610493481035814559290617886424113533, True, 37629461514751619431341637780437620850941713060641950683146443889813226040205, 34345205567872236405357056752272055927731587891350694639127348739217723044570, 16042583733306269684101352870536626105169720449307277134008003609085624635617, 32399114438360517224045093278977987173122871862196854131348009719644938621618),
     (True, 92257190264489947509697648432172604104304826414879497996841292444775804499812, 44959971680825098776515824657108850627804435872902947115857376474966051985968, 73505791402000668709596716232138503076716027744443316273520761027301321894455, True, 11508384965989475092458107726914327295427091769411829079435280690089592613212, 9169290136180799020884137662485132456216300378984925654466849492667379843972, 4534198767316794591643245143622298809742628679895448054572722918996032022405, 38538856030597174617352966265796180312895426960288118979288294421866280361154),
     (True, 114115874858064772752367312727904859571072396233825359945061815555709499712488, 75429277838398552245894917142250254921442338664204684675837316965166654993832, 112463925501542771450808808645601266753909095737329742300008684812291248574912, False, 74280415985346008854909262898564188849048654274625565436108523563084308405617, 73205127507368687705961603014028450005843578612397396787439490221603174250115, 78814614752662803446552508042186487658791282954521013490681246482080340428022, 12674104618141790467894299044247475822858341166545530384190000277770750348115),
     (False, 66938769057372856527559482745200173897135108467541782981739920156071062623541, 146283331506134193396004853082631394126302199286169472695383348598074993244469, 38696933732460392563169672272683321552658660804026443300653503963144404832526, True, 55006649818603325011116176265836369809721670656752270555899010394159296315611, 31799041315664850456598752386506188367596290255030648167370306501868565469250, 23807964934059478435436331776350117849069612297768742934782236087921044112411, 86241443812278992969236146751152550194975751834835207077668085446343782543686)]
    (23807964934059478435436331776350117849069612297768742934782236087921044112411, 86241443812278992969236146751152550194975751834835207077668085446343782543686)"
  by (simp only: table_unfold, simp only: shift_fp, simp only: table_arith)

lemma dbl_1: "dbl_chain (23807964934059478435436331776350117849069612297768742934782236087921044112411, 86241443812278992969236146751152550194975751834835207077668085446343782543686)
    [(True, 40698697603971872279271710726172391355387150554621642216296652002170646586249, 45938987185246977891851292681816748788720556879245675782702518124335605690268, 14304811304081744068290486989514160968243291545772291687252387477996422095299, True, 21651415438106704121325180002171739900509919055862403528072263051447442123581, 7610057091315192195496796521219418538593131617656150018189723569979425613111, 2156549495952774314111151774178377948559693241906339406709973036473601988830, 22115702523015271602572671974768413662894969172470766522001632807566541942422),
     (True, 95311599245426418654495727586828151183612009396925129991073108083275900131681, 36287572521388701097253658692656678664997931871163049640256568545098492413917, 78453554233895672156824341487293340950739631837171792224120838748662570214658, False, 8056899396888723726232670714401001956572326221488058788053701364367130505513, 6631851724187516789717187626736163970575698413351331358213090664457084529594, 10213448892841498040343822488579379905132019463394398194763674400840732494343, 104774171927457593387914541038977971788686657480131065027322895015444410926119),
     (True, 12675700153287740156474934495044206495520278534961625499302018441846204697920, 20236515080110588983533344567758194443730789710590231192117095084458367916816, 1387602343750513176200707216336407679493195190551953201187047017429890910670, False, 69440268022824402020857959142001479011730455963692198396583096417358207286201, 7601590247000509894802378388859279662899614969164912490989992090544273758253, 79653716915665900061201781630580858916862475427086596591346770818198939780544, 56231866189639730753959129374618610980738706597653232502602271548117074579564),
     (False, 73677156909817085348988077401502627256997272658967852540903805428873672422557, 92822712428527245942899152595046491245568478779117448659915443180394346894459, 46879916299396966144743825280548329020876923651256009597404729251716001643126, False, 24870628329749268783558446874942170586091862078381231888499970585075971985791, 15824890960968967363517095217276147606125647380077682827958608310478721290208, 104524345245415168844760228505523029502954337505467828479846741403274911766335, 24068680205777287268608992964267617520729588536215884430823708440404643944657),
     (False, 67875135776635817957545939771801546118056421901876765181535992042648937710865, 254841989416716614681802414679130815784414851681478510254401264638426743460162, 39787122661957309625360111875254611813632994137985764921480720387306683496464, True, 63661121208940232703129086433807696045952523174440327228962694542241893180044, 37316946910767241416901523264417652580572850918539277823321123908253186820456, 40863224036474936141631142071715333457001814331027501250884046861033018586291, 3386129191566091291470497666167764336438333215168340315524161147129268811747),
     (False, 66282883146782992045710058728844105453481577034815386844747305309170508801098, 39385457642373822395793430330125253554318489092803202096638183759458747353028, 37942320828745774842795907533735901068191282919841987207985914988049214999297, False, 1161930635625681949671712360375229790903430313268886748264640896149596574284, 665124129558897126870639106039447810533390638494433357055606680039783376914, 42025154672100618091302854432090563247905244644296387999148687757182615160575, 94723202283272416307777814951919253088047486446376176713972625696391150511635),
     (False, 21431968312620642128788201606615470948139103105573672958570419277457591832216, 10692712641038568185941626500161408066799613265824784672709327564654991275152, 3966844962255795113391674924964053485284848580916152097254199399503904289658, False, 9379032485861760085034067464270256330236965079320567715978561031093166250173, 1735965974971377901026880348878819126317858124804306013138566340406310818890, 51404187157962378176336921896360819578142209723616955715127248788275781410748, 89443666980066831661724560541201252349280700609614168942421156125843984449387),
     (True, 101306383912587663547390020465441668084273096745480984708637300272370785708914, 88047962763938646717181643364860531448138882108655525742175899996563688343777, 88632854726371900279487972404740449649139863013130641876129270295461532968056, False, 21008648640046114723478149952725237028859003747528053306157915864037158437896, 18380445841569822397174333916231786054026719937569329079735530389290654364725, 72412835798008492899815071849086056607001213471145009021285164652312939848644, 102554733615261634604727271955114922528443021960973746229359109862289549224144)]
    (72412835798008492899815071849086056607001213471145009021285164652312939848644, 102554733615261634604727271955114922528443021960973746229359109862289549224144)"
  by (simp only: table_unfold, simp only: shift_fp, simp only: table_arith)

lemma dbl_2: "dbl_chain (72412835798008492899815071849086056607001213471145009021285164652312939848644, 102554733615261634604727271955114922528443021960973746229359109862289549224144)
    [(False, 19766169040874654221922818942482627621010133804969109414518357107283128205630, 100841327273689259430398208465672646640333372126379034935253224948325234170515, 3374163478842283222678202936039116010371998160266211123277641034684447215025, False, 20531977118375098302411768278903862264693859217381702014874572361408601337193, 3504889956065108732593863189212471451624433711970889183666455808172711361299, 92944812916383591202226840127989918871695072688526711036159737013721541185837, 60553895363376070190549143159633388307375388321283848599920050874556475421615),
     (False, 107643709564164152698703452733094107815106753189282039550341495345545121162198, 111231457874797697677801361312043125967805769209706778610781457617353223814364, 100068737750158741754812492893186269909057351981485357503594807355338145012368, True, 85992194389380059526929845771213621408511700142064861992695634442593552032275, 79940856588393656061383080629065911982848800198199616108750563970113275400039, 6952618527003531675296994356776297463183372546461849043464102571127989153562, 112471650221151969856728932103620803121465996982724043976638783413918408814746),
     (True, 83052415994172762920099391894576162135828269823844400836314597982615477592668, 160089242509603070216592578863761240521984393372638486631712566807268982641977, 59569732695108888261901716599076264158404504659076084910940510207087856205535, False, 25208971861087698686650232769789547213425016820735126588112356402336092078753, 18081252631938841967398329926446070485671784334588669795592412772159669158270, 32161590388091230361947227126565844676608389367196975631576458973464081232315, 15471909706627164928854461425101131289995033829824593821518099868480843627020),
     (False, 1978492935384150496586660162836772214089456480670725909912700956879815233882, 26270201889570011199290127049589336382387393505568621806811252513050456525992, 33805714380485432370706923479098974261713698888089833630936427131963158467, True, 25477217856446908455881184033805510102058960152522812563917778185885317960138, 435318991875611366918516460173322260422670363764113386265708136149034820660, 6684372531644321906066043092760334574549429214674163067658680787578763272177, 96855569752147665018863380411147536628722905149448873330403642614010621941036),
     (True, 28696822018140526596358174856571398460797524418450815763082584593846790534031, 46849932684135044335442063008371601334409893787297558810618943973136573174648, 7111950389329202969015393713435996619737656172826276450757378600723957427658, False, 25640924192134610810842399207458824899201328769232057404875037789631747315672, 6354605422012808101241954482910878616707018734405016889015476950179632663885, 32325296723778932716908442300219159473750757983906220472533718577210510587849, 20736800745816317547941100211167809857392517429255853975351510004630564684767),
     (True, 79783194831804012717082298577301539485505011095582063432572450902672107348967, 1503746970366364752119692653734651944061941866230031851719898472472491162878, 54972306147839084395262989010731057096050543397278730028319361228994453050031, True, 8244458050527743449683801244957381988447999664562363965773118641089349818939, 5680605708157999806592135152655980934831038832239785482594836676819381498660, 24080838673251189267224641055261777485302758319343856506760599936121160768910, 70782045015843204772139723009081065570680123181450092687981893546901991795586),
     (True, 91107262081107037533870170166398668093208034828978329237959331267974622557247, 96361127554220654650066214576592918342100754276344602460958133238026779113037, 71684803862863013119843201058841925753516708028634264171108623457761938265139, False, 76186710365544810812424356403573123741942462528849693007207278220143373198090, 59945050095445375017445704553799118431051570000789731467706038153933191098800, 100267549038796000079648997458834901227245220848193549513967878156264533967000, 5009797542289624972333303858064459697507098334052838364352435118597123504984),
     (False, 40164012498358870159469040550151384009269135136777649463223107925134138354231, 256997841834215841762446253601777998783231918466424063327623055286228245336339, 13931417171666769695848794078460921629319199987757131801290056387840070402404, False, 12340438913677600032984813845744808127702059208203236534039382395746242402157, 4280443907215139393394968614529091370161682164186999031299118275320858122051, 112607987952473600112633811304579709354947280056396786048007260552010776369157, 103808385594532261808417197518044123929568276946600525334048096014844982592250)]
    (112607987952473600112633811304579709354947280056396786048007260552010776369157, 103808385594532261808417197518044123929568276946600525334048096014844982592250)"
  by (simp only: table_unfold, simp only: shift_fp, simp only: table_arith)

lemma dbl_3: "dbl_chain (112607987952473600112633811304579709354947280056396786048007260552010776369157, 103808385594532261808417197518044123929568276946600525334048096014844982592250)
    [(False, 90046739475501331108200754562683651664404557931781745380429797588667984874036, 167079320168070164863590891554945062895375361659735438494201424191811368611144, 70025641176906986658044906609243243941110891101240085160934977516363240926752, True, 39741993761369699744215358586668201084780483729094099568308884764973126975327, 30905711978007814789201526739706035483750225384802854593174978575157918277086, 72865994191103900368418452717911508270166796327302686479698375787037649393830, 47739020510692012294675537081390407274995880016472573531102395326084814450736),
     (False, 16404100494775509928361681595121949705948261840673203432255118892108257537640, 124033757801222533719070748074798849375416371643664482186719471898503016530967, 2323945572428852688629426950866608009852482291072432870547476731857749888026, False, 41471608466001846198101574048151390625446240174218711233224837531707916897384, 5875223753156289305552208490628101267103408281716926502448769047300543267054, 114337602657105746566520026766062898895613036501521397712923213318745566291214, 22031670490518099985769479050822638414518110334638301895014522352320470045858),
     (False, 11569599537348033977467371435938979685232707537551743222071909195454674093916, 334301481203711374494318556992420660162444503577171944394138238167603774589479, 1155999812832049844618696707865729903252354019713195539679516730633793273615, True, 97722391236107538721566035131801072280064452254819259037469419088046562461451, 9764129312667186922745648597406271489059764402052469195041310600064062389243, 16615211420998207844953991634261826615548584246702138675453794230699003829763, 96151858191390696272824414073643418914225141229386506707267472495832706137165),
     (True, 62413738309988737011728987891352272028280215314959104236530144913945818652447, 96502258097787240401943040773798303655371145594038723565997742563327668968306, 33641976376736374227788405890909901705022812488941609684519797355712952591362, False, 32758824251029860447469901619417959214699956374910398710196321806767507427258, 17657516140263447859363616300648943874452208972280615603789612785324791847214, 49374035672028068292423893253679785830248540621612537385650116037466511257021, 79256956600639487529482899901486295393487541625893452108323742222982335905023),
     (True, 111615304651364738675655952626219126063231495712489021685077446618122530036017, 89636456070475163838470531021619701982786448405227884241068313930571749773562, 107589182623563395634620847814325858640774297446162789663260401655706998924323, False, 45247515228158172240344455835547380451419935783578051866031499210789027903053, 43615373307008679753203059898352637415066010713955586188364245153987293511405, 94621550900186240532768349089227166281668476405190589251681615248255539160074, 23612451419535512356446731195296399189245073635318629801499671275538232646231),
     (False, 12813714215384421541252168839617386849896304419704425444912218135839687442474, 226739041107933375190225563235815240093945175205321111580534322580342224466787, 1417983500541760774168042429857188798301058757817845260538761321429710847758, True, 15015628521711616559608389581654537691235662934926262049263303361666238031404, 1661650411126526623594291502345703654632479706102276142667742792171765861057, 79605922378474623973159959507572628590432813470264327202418311886589301128670, 45965289954538637928972426711663391846762557009143098280278750794428678321058),
     (False, 104794485565060306380424063343557915522290778923280060870536098554596864346151, 80985591225303259083405840824000562382274427906462224542249709424076051723731, 94841403067658198521205474356432238538480042237444845495853287857945098528030, True, 19802291719893712338049545140507646666785708041515293422758998319569174617739, 17921526314510223732636714592331720608596844707957042118222294352412980113440, 59803630658580911635110414367064981923647105428749033779659313567020126510931, 68101072679436867230445935848898376370573937333418965600767120482840390450091),
     (True, 102822934285599741640305051773127442245923842686338691116417439709937025311912, 28285883295526253499490739113390693667826105593938434736586994986190042936904, 91306374098613045216376811121247396173922639510103170695676167379305673058729, True, 1958084374061773875242342487484117176173056746844778574140483516833378125328, 1738771467833627520182639905176807262923821696201575295185365118534645522988, 57845546284519137759868071879580864747474048681904255205518830050186748385603, 104300214627605143922035278089265480928211230602089785806215194357861799731457)]
    (57845546284519137759868071879580864747474048681904255205518830050186748385603, 104300214627605143922035278089265480928211230602089785806215194357861799731457)"
  by (simp only: table_unfold, simp only: shift_fp, simp only: table_arith)

lemma dbl_4: "dbl_chain (57845546284519137759868071879580864747474048681904255205518830050186748385603, 104300214627605143922035278089265480928211230602089785806215194357861799731457)
    [(True, 109829980999614261846529207116512399827793556200260872550592020199518180825654, 111167002811073852835739154129452228326234812104508531857986770474376570623532, 104174860378085042816310820531023764721648084901326470376069658517569996400612, True, 13759920658767966761935142304670898032783974449602592728939818676558763647105, 13051425488689789849792855046353376921236430341861221654480262597371651997338, 44085625625751170997932929574909966714690074232301662476579011373627984738498, 35645972748133380066322357524322937317880031863658880554940323484064822317775),
     (False, 50265153124751210779024975514076055613097704142001804647806868351699001987902, 19406564117071130885936351984260148812745848256877779028984755088454843628859, 21820019276659815733014696334234446190682528601634701359423587015091890635204, True, 6944838363722302597329399635119198159998274444081733898265461506518810944894, 3014742770077999059227339701195918164486427571816424131368735923401295162005, 37140787262028868400603529939790768554691799788219928578313549867109173793604, 96798710045581238073789867434157945472105501227220075607838500459701780022858),
     (True, 42511546277387191965316618590483372793265129999549373777258960336937192029516, 35337573369324787067334534592752396595709387720386323800811416454968851136061, 15607556433421680434021187709168672005943730366679313540415857319029376525956, True, 26546649723335708748241438768433777012294749671312976083226165090991954838712, 9746254134623898351889968878452305727461521647203074577174042495361098758473, 10594137538693159652362091171356991542397050116906952495087384776117218954892, 94758752783907129712819126875928968033324008756528099419259112727705165623711),
     (True, 86047537767167718613959398321021982519814314999716474483496001857105638435845, 137926585280847244409809151128987709730724874947571747093768666922139575500151, 63943735761958578250264376042180062661545568671720656532797750828132999960900, False, 37078420751839835093244020130945659996101233521362266902514893829469613483449, 27553754593673226075092453855311384240089023747578560371656794459268466439345, 47672558290532994745606111302302651538498283638269219397602278605586832438341, 94867063319150901357067400799860287583849347994908388285755732313936488648979),
     (True, 99903349985144386762509039654962800326917089001670365288873519312186671240863, 104817664993764144595113087240225880330075627626357050510864492768194637485614, 86194829079580972365381380588780103949729834100052061308943016481027463242423, False, 22721949793281058962216182822737125973292166603417197399263544578052302306473, 19604093146805506626499653583384696337746635496312347381567633361603634397080, 70394508083814053707822294125039777511790450241686416796865823183639134744814, 1729641103391955907655968377364823991891840114418956455292264076825465207902),
     (False, 96458982832644149196711090116297473442990232225350042862056708070473088356359, 125504959459607756760840227743691559165492027026207054753230704483770104395099, 80353808559455326438363731038862944571009914215970804421371133063501636203216, False, 20546228312976421717790708779802665593196724439295585360560513917821446996023, 17115748559615114638740430504845259886936546465233053398702457210244641047693, 90940736396790475425613002904842443104987174680982002157426337101460581740837, 2566610551532426969428871345699115218984184183954849027894409522539994516884),
     (False, 37327216516247545464586125062096349149862758258589828917023834318106187502538, 212614211571111692015445076113354966805980676847713212458040273653040243824520, 12032955812029750136198901288353733372112807029909641405123459202140925992676, True, 86176040116598074542391671117785070076757002481443710367562160566397932443943, 27780064509427587415669520874908511266229229340859989861769853432628334981023, 4764696280192400883221331787057373028230172199538291789864176535062649296894, 9820546020427560942572663944249101220461157953302479761405503737224250138577),
     (True, 86050266350652464653847575326243407535118312451846831041630884507130803843195, 14007988116175688821293311986277906455506798236777883037838452860280884129075, 63947791161850567973847084281635460612862928379729269940740605197343870272672, False, 2352523357209405216901105430035022393461762586746133282980101724957797390271, 1748265040077495918600109726918100518438811673944670532298146394998137834186, 7117219637401806100122437217092395421691934786284425072844278260020446687165, 85713522139911406441953761439054025020922327004638518913134088988167330274464)]
    (7117219637401806100122437217092395421691934786284425072844278260020446687165, 85713522139911406441953761439054025020922327004638518913134088988167330274464)"
  by (simp only: table_unfold, simp only: shift_fp, simp only: table_arith)

lemma dbl_5: "dbl_chain (7117219637401806100122437217092395421691934786284425072844278260020446687165, 85713522139911406441953761439054025020922327004638518913134088988167330274464)
    [(True, 11901263895189837875856064100674084663950200086652911692632869822035512518495, 16307107502095494751012511991986471475699219549593512170834556928326321264088, 1223227625210523818414796773145724517648383750596667820044105851176995231117, False, 51938050537040016658356377265603024469302590318441742152151256571684420410263, 5338261446514561688346581590215748873652162035172750481210347865273404079787, 59055270174441822758478814482695419890994525104726167224995534831704867097428, 104318946643816363131190608884452534126609888147098254002136781558768071599788),
     (False, 44768371558365166637494575377334644643191641714793348692172630543645602384413, 9691474486093845959371536664770089994834377091073829156353227907684343003211, 17308670269752644584937281926770232816675558016805355024391993990617370368383, False, 29848496161759683329637002196778445147353591566262781964765275810798822031052, 11540240578961593234351674187258327852543073984174659743709756817666995494109, 88903766336201506088115816679473865038348116670988949189760810642503689128480, 85267677868722309678005669084531845988689240570652934941317199782325964482395),
     (False, 75135181966906100944583650256407183887551415372140586433103861007415173688858, 94120713215243076673559271040416712751661270558070117456753784184811490649727, 48753724090291187604477252001958684905941134207040230103015492788308766433641, True, 19927565461716105273276761362898389199156314191919380852110669793766625206867, 12930600590541553557717864103814756377342436161710266225138135651465796286147, 68976200874485400814839055316575475839191802479069568337650140848737063921613, 64487111187886730719347116993058964395720714286911672967435459313764167988694),
     (False, 73883679843625756748661892033066261551487946326257256700650141375462222260764, 40970490639662293689745411698822916916973373174654061057496341827513095696472, 47143100918738455982927797985214355769064952500577197083633950728746129097788, True, 22824814784809237672395747966431562258263841304450322250781395694798599061531, 14563873227879148965285515926792422987506423373579716085956580252074296082186, 46151386089676163142443307350143913580927961174619246086868745153938464860082, 73121122757423339297241739518803061767818842171918612944384071331655674264104),
     (False, 31057475720561974968685192936830542750550150146888824480003917565759704260641, 15959089582019329712453698753519792814501279187112772457263974558567580784391, 8330161453266423506652056596566724591749871386624710526307057482460098840482, False, 4850403410299550728453191908801386219697222496882335967778907478987384706253, 1300963538853189617904347536213342669867956668512301718495274391028462354197, 51001789499975713870896499258945299800625183671501582054647652632925849566335, 112107631690450252130469657172853833693744021398041101679580067852789929130070),
     (False, 27668229821390038532190738026521858486183345344891089465437077690976718566682, 13817076544898825832841550535223141944886230767015068907405201400507235612792, 6611254246035222671594816560237534499356010684163878709271315600161329886748, True, 28985892810238080735598227204740223106827916585504315386148590798785742551229, 6926106518338179293716183525970675128410942400573141217700627941655511634855, 22015896689737633135298272054205076693797267085997266668499061834140107015106, 97057693492855511082830237583213522514387730536482712458949226756974877360003),
     (True, 106749788545821509919475297360948021192138797264188887201194469877347159944646, 166398909670351593834378597508921707610443519468540384207264756905562289541221, 98413608669549848871647049090389344087523377061562289844194111618775881049062, False, 19472471295732040905035361281341747554463980372706244411403370371282721476036, 17951849797853552621302957225242837176568786776413067521720350808995078407885, 41488367985469674040333633335546824248261247458703511079902432205422828491142, 11135580625302119209331738144269057617177872359844135342454608012193283940376),
     (False, 104090632951058261832491353992755723045986898843512506778521176384916438094622, 24575381466631735205025188887027562900531331270060611625469826072870968221495, 93571676113974843416711972755673375695906846956237343094662239817696659569804, False, 56604263977863893655247795239213761903741319561255653697138289843658058153854, 50884077706559520690129433280872274204386158541744596566868158057874283596887, 98092631963333567695581428574760586152002567019959164777040722049080886644996, 21630765968448461105271151841110683038982663250507450270450825045654914336973)]
    (98092631963333567695581428574760586152002567019959164777040722049080886644996, 21630765968448461105271151841110683038982663250507450270450825045654914336973)"
  by (simp only: table_unfold, simp only: shift_fp, simp only: table_arith)

lemma dbl_6: "dbl_chain (98092631963333567695581428574760586152002567019959164777040722049080886644996, 21630765968448461105271151841110683038982663250507450270450825045654914336973)
    [(False, 96840407974940787881349556672647037523412936965029981804675432243270308620671, 213114981363380831389354654787472544586354361373909038119618082779021089852729, 80990546769702960842654278946149170579149033660247299371160935378806955564322, True, 3900783555152398621443614583050665166733328672001802852285435343608433780969, 3262342647748967207791639733633611860569643296599830050375150126140785755037, 94191848408181169074137813991709920985269238347957361924755286705472452864027, 36534840748100237052976650886096809542190277077434526256676057396262916872039),
     (False, 115668560178525387853721093740811230013511319594786592650463452215067930558373, 156871235264453620606028911388194115877883132930195966249409132165849338774590, 115545162929632455877723745067966819946497185233363566569508789470435130887152, False, 20809694125844937233360343954343936780410249904201422470366083811156243477496, 20787493979137228739162634818307317250507392823585827845528580242535851830803, 115001542534026106307498157946053857765679488252158784395121370516628696341523, 3659759752835115882774670478626118842833037727714457094676371783290200306606),
     (False, 32315550862794607672914125449890845956568737468415709437964700914075411179729, 340606429331202864992893483228892260937148315052791698364738410196674317796836, 9018706154171932394265326354731304267346780696055177662545838343031831571398, True, 24061592604284588481095196982113404812369698477398944112789179933860381404626, 6715170483114983024957870021385246117682577244594385469344202067423809027306, 90939949929741517826402960963940452953309789774759840282332190582768314936897, 44759564930584666506549645053441388812183631018808661116304500250357198733742),
     (False, 97491035834915705354481767990444529173162803548837987466446228644802303818933, 138894728406260783517195809479132847744425188067167402230647747472962817075852, 82082481912026435747828398305420371858383514628524336074541015417311257911564, True, 52583844835679151016979071369260926947704314027266195382558995591243441541566, 44272916536636268971427517455984519115379907522376587923040082566749219505401, 38356105094062366809423889594679526005605475747493644899773194991524873395331, 12783575202917423625090003389417727692075501728076887429940081096544504845985),
     (False, 115091218084384884563610629376892937653384646886037458445934777827273018374166, 12703958628241918495229559075484714247758062564619548356362416598616799744660, 114394589220027161186088275341008601365150808233783803784005072777057234228039, True, 19409685634533129210279475453883715976292688517147647076569231022487695122526, 19292201890020047603521978114003787228030117107695134656100775223147720909563, 18946419459529237599144414140795810029312787230345997823203963969037178272805, 105960633513380686428756267795040383594496140110452753860977918855425124983918),
     (True, 13081471931607603312682646794340710451779665133884170564383275293013893031850, 14641256469879686661862101387426454087179030055677539288349046211155218706928, 1477863548921375170865280950600951980846046292855891944351060253721540779753, False, 76322790148323705874782216748840175287272879895161262773140410337916127749982, 8622475368360288341400760241726727675653176624999702172070977304360799018726, 95269209607852943473926630889635985316585667125507260596344374306953306022787, 55030285771491461064866741440503732938337921036913047864849917516347374175808),
     (False, 54668003336900027413547510828134619106706821725974045628490308129164933654987, 183189329687342664615461563389232409733815722791345745040851313154928770820712, 25809972073429158240273958344225201790278390525435508758396130188631432516918, True, 5969511501898300212987498497596586797394856171709177750419455593965468741210, 2818338255496749067225350949687235531697767287650719584575585493179953757400, 89299698105954643260939132392039398519190810953798082845924918712987837281577, 109764783960534524401447797640070315000093113169656316366735630233157069251062),
     (False, 101379833528228911681540129129526592761799738827051738237813032136662790899626, 14400268675114146264632237753210246172477979667493084980954051550535742033160, 88761423308805551828676015117859632120031403405107579707984131310754773391012, True, 73836101608852904410686068865380797992627995953478833683914311745296993267, 64645967963150047737808236050971452754771459940965041426702405159834439020, 89225862004345790356528446323174017721198182957844604012241004401242540288310, 95209934060019944793889086016910086133023171690774878270761621044126749999060)]
    (89225862004345790356528446323174017721198182957844604012241004401242540288310, 95209934060019944793889086016910086133023171690774878270761621044126749999060)"
  by (simp only: table_unfold, simp only: shift_fp, simp only: table_arith)

lemma dbl_7: "dbl_chain (89225862004345790356528446323174017721198182957844604012241004401242540288310, 95209934060019944793889086016910086133023171690774878270761621044126749999060)
    [(False, 78459816273342138565850582008048876827506550145987667555777699501120042784407, 77237189040746802358740876841578248286994181620615940185803606672623562765807, 53163759386561156815147843881671260204417912252979079561407681951342732556308, False, 5078865289663081963513957151201440622085561796385982819975125379650793703811, 3441399496472510518769599514057975646284675131292587580834759761875227988619, 94304727294008872320042403474375458343283744754230586832216129780893333992121, 53963577210563612212286208562636702109866284333058400600891687124241514909532),
     (False, 3989601375960214131016381278988189755747388136155606602637561969356828572807, 226695611291055538458051134834962239009265113960060951779540170831738083898872, 137461196594767473230488269152039598590660126058676051181765799787203908050, True, 63774617461461922756751330841137967660581524557050076076345075546194835322664, 2197346151284646844999486156945592511699018865346111954828445413533630028151, 30530109832546949563291072633237490682702220197180510755871054234698498669457, 43381088763700662767802768260912630742025626299410305266963285547801129713715),
     (True, 68060925810035860009819432782644373673695485342478093388655307707350986934153, 26848563920456769501998228244281980269006564698520012709067768818909688985546, 40005233981950654122136139311263719089149013717221883007629954219109229169048, False, 63010303868076708983354023592098092450215720622754308752275497460655068110390, 37036550994793042668462769672594523780792272998150848409161138895441616962741, 93540413700623658546645096225335583132917940819934819508146551695353566779847, 66553410968472659013405047846813886808377942344559186268211579649093631776306),
     (False, 107967070084415731129590104219445632306991581446920714187139492827491719269239, 102582771362666402361194695333674183202382144635920818643017082422046699291756, 100670851541821614609451186095824718024051361150414123399462021404098337423237, True, 77207082587545912994730717222045710088794538938757696408013357890998428359807, 71989568143980782112946884119046039711038791838188054472877131908488873663793, 16333331113077745551914379003289873044123401881177123100133193804355138420040, 29241633486126050976148618152544163714698979701491433373303329441624776604424),
     (True, 88087097939245469089524657439271002991735740497783323722548632751447455123982, 37578457902583023407873025809871943563031977601636098401760506579035486951389, 67010940697874906254747950282191017314700304588856424517834688530022747331912, False, 19233526536559565632270981468870958588734519161832736057448229918675278691892, 14631617300428417260482468805928823551879181592923430643735203746691764434146, 35566857649637311184185360472160831632857921043009859157581423723030417111932, 89679616176193680024228408430200049339466134219010929128392111089062050652478),
     (True, 98379432642708987328895722677994936193159731803443412814562833206646604451112, 119613140442518651114613790266922883233940057197681059805106814151678429723853, 83585267638781707187082096051700004349933921702426618892706008781248963669478, False, 35231268853915193844139723256390757607131485693610331566265270701619666293170, 29933238658767759828491550815631947604294867200161107721296661153002980471754, 70798126503552505028325083728551589239989406736620190723846694424650083405102, 67484526175822092932671571313099982778865709876803650108779133407797397642536),
     (False, 1781060020899531631767059888918500949217713565788079130184125889525348578056, 127787107624909029662123441616801408098001814249144229747029844273197456729527, 27395436248531960162508976464314717651161049543223192370597687680155784463, True, 52009032392294097422124700275059143096775065978603420847077971241715334439483, 799978728696251592079856167422374386753366294362252919114039257174405597158, 18789094111258407606200383453492446143214340758016769876768723182934748965619, 11296582853499417076204273153571890116089443265011563804718664008338011471254),
     (True, 94551385711421529225804590256309241651782222097088277002910690665823032675061, 9302232648057239773114793741968897785955514767720732304984471485252388146908, 77207040661551791061677022837600387789410590159668103066038244294282029703888, True, 11707331343561119630190611960182182371924051158435622577285956290459436404624, 9559758434840115349712128153800759920326453769859283708191609446286583637933, 7081762767697287976009771493310263771290289599581147299482766892475312560995, 86823381773038968119624426030239743822549553315161612703449942820586000887527)]
    (7081762767697287976009771493310263771290289599581147299482766892475312560995, 86823381773038968119624426030239743822549553315161612703449942820586000887527)"
  by (simp only: table_unfold, simp only: shift_fp, simp only: table_arith)

lemma dbl_8: "dbl_chain (7081762767697287976009771493310263771290289599581147299482766892475312560995, 86823381773038968119624426030239743822549553315161612703449942820586000887527)
    [(True, 18633706388260917978756135880465777400301627715595735072741585136063859114584, 26644555224240804494515609371713182889186754749236893228819862657289756294664, 2998607384422781625951600268912033840118583492599405582566555892270719012923, True, 5677952524807255421103097713794608172015304580955797215943665019239831798702, 913717862379500742469375608759654531005199242794649535238427466300559217428, 1403810242890032554906673779515655599274985018625350083539101873235480762293, 61617330936628764714622260330634195070720938392958707125897027654601041724413),
     (True, 99340805767130579154891288612438428934613165482525688248616185419012137272577, 105674909596853218468821696453943226484485023371964682669851542205033563006958, 85226855804758496535002860687434848632072857819622140204728255681813445953675, False, 74171721386384712452429090397894379909038661256078104014322974024184892214125, 63633695686005141848294020694957448520081908370802981387308244930474717155245, 75575531629274745007335764177410035508313646274703454097862075897420372976418, 21955907770975270990108027390670941864966904856959906600160357358861987348457),
     (False, 28825345569234750313704419093934304571927533169167134245448822087313632533179, 137049169712657617246345651602854573405224201118244158434600708497948090581213, 7175797179687531805302899318115562685582659703976240790616461446616053081131, True, 62911354742603738070243153362707915337403646796998940020904039740575974981794, 15661186813805904716368701125350019392859060857221412195313017481958245345268, 12664176886671006937092610814702120170909999477704514076958036156844397994624, 18775773912656001976453433019659509194737985910615436289323902351500805640801),
     (True, 53007212085593464869070030203812858563753675727611650483862469594036374644473, 13035076414641186740095797189140299742338422278023887231236435950299177956171, 24265600113516090634913804233639533474498147276275458446095203480704241881174, False, 25662441098663115208194523019085245008938932767381829306918545313613407045383, 11747732226159915229532985516054025982354500010626960285065164719416999583623, 38326617985334122145287133833787365179848932245086343383876581470457805040007, 34002171646248121748226003096151680616808448922282199504428812615423058685513),
     (False, 27894585081945829817819553221237304604428481634069750653084072622900015556448, 21675366735177163147408531340262743065144926385692217931729969197362118485296, 6719870780467118333648856791797927331721137663024538272779854572825471643998, True, 24205973184501486373705924306102045409503142124477868787260403615040010479415, 5831275548191644626173965793503640712033019507330773672175109483715052040702, 14120644800832635771581209527685319770345790120608474596616177855417794560592, 80204468014722610916537110325245004173785491784647197204106371424032112318805),
     (True, 73624835436992947330763050736219497180964009010942869330895726234578518091288, 96827890104382142642416001980734369153256159484545961176801375551009305923341, 46813356854429064993014056736168282896670015794594380073754133903264528164666, False, 55499545227937272216533248317137695986420622708096313126451179392771971121802, 35288635969005134846244304924798816449280047234431329893524906456862710485263, 69620190028769907988114457844823015756766412828704787723067357248189765682394, 114120243359837995995868555172309656029191784371832769499402110110191796444332),
     (True, 107503839323034349323123755614974002355857543447949998008796572185976480963353, 86325552121596018621682707529827631450163917035075159655845448912531700595537, 99808851779134676575236927956889903677838407717544540633881400460490611171654, True, 20175821134319965298315983739974735413318540627047514914647382301335451149527, 18731661620630163296324812748419806062652197583130475279270143829115202448713, 49444368894449942689798474104848280343447872201657272808419974946854314532867, 92705494712783155051727681405659242233264515277931094524386652253861971924636),
     (False, 30133537304677320325008650854772438851735919063945316156392690689381882012933, 15088663582059720032441258968631677519355642449020749143388153510229618866688, 7841900743692316315018264583096388909362504926259692895877064523311437262878, True, 36232263293349432278619508177146639216194970234854239877123738443690202267090, 9429022872189325301258114716844201929256452262188444279376954073807101981683, 13212105601100510411178965927701641127252901966803032931296236503164112265777, 90071079968428487887086919557028894780640441813301232398042267138458717170801)]
    (13212105601100510411178965927701641127252901966803032931296236503164112265777, 90071079968428487887086919557028894780640441813301232398042267138458717170801)"
  by (simp only: table_unfold, simp only: shift_fp, simp only: table_arith)

lemma dbl_9: "dbl_chain (13212105601100510411178965927701641127252901966803032931296236503164112265777, 90071079968428487887086919557028894780640441813301232398042267138458717170801)
    [(True, 60131538348280365855027919355839499955872961071701662197181133090066453074670, 89026340792711915571597626862951908007891389979009266766396515001173499453956, 31226674713174801392811977147507439044800800252600900634074556004620029172912, False, 37070638864938615793505480161342466837395953446381249782106096304595557436257, 19251008922144403905309081061054864588055575689790125459290279280785289605314, 50282744466039126204684446089044107964648855413184282713402332807759669702034, 4890490971078743054564569753619651762560813779736896076627583759478302014623),
     (False, 84770985505867493912788642422788091672188398197043205250616307711775825012751, 58345261241343446871328877589809838475924859249902702237456883990830698878169, 62060543450262596233733062915163762665630184775615680243352207720035009070648, False, 10798491776929266960401258944806660967784639344540141649839058577110558551651, 7905538246609583481885453688566904624838323601496305278835162021470823859889, 61081236242968393165085705033850768932433494757724424363241391384870228253685, 53039772600274763181283135848011980447114856786273898031140488589830739954915),
     (False, 66762420705753075237989960165004085812806340154165780237067959299105378966066, 35500050702826963473809443538768901215715566928688042415327834833729635015492, 38493310284735070241219536437936220511017938375516420754690574457214923567385, False, 38392390860986532039501952936048745846470658473346805174640264572501857767166, 22135959097382335538958778522807802944077616683857530735661913239434629707156, 99473627103954925204587657969899514778904153231071229537881655957372086020851, 112331881878933563670408362942890025290783279759530973375452752083344004629485),
     (False, 52481411876092181340633323081035027939439777745422920480273073691987488818668, 154538501466470582891198602989283586884000486799553803524391385444444008912640, 23786586901496977584706224399677654384808915808021447187003524990037696844725, True, 60642460352820289974910988432875818838208304028052537355670112653565647526804, 27485486794993465590435994245694147645112286130571369853081025734679584272685, 38831166751134635229676669537023695940695849203018692182211543303806438494047, 47852399746477357543314344308034935255111371291035989515361114272799132319152),
     (True, 96796905196604701489447233295005795365512446962943323977242669283195355123317, 40938460493658304541586779591954728503831334066427305141150334385062213790944, 80917797748850647917072356914403852649816959736981623220223143951670874805824, False, 24701841982222266699252067845479591095250748473975567668886595123996725389724, 20649613223498399200922562868375564456304430862595387020596738431202124518142, 63533008733356901928928737382503287035946597676994259851098138427803163883771, 92811500390778828290941742790808553962582956229772012698222859950292128965382),
     (False, 37229201697820076304838916198185490018661806581540163504630088580237990642975, 44897138446502988930362979837854421332176074858187588504806418540601721349420, 11969845854832426244930745952264606053846208547990835275838546990565365918218, True, 34716501935007496507871571875190051087474701665783634554436019157619948980006, 11161968504024184502003955514005128676415963908719901559805916419717352223793, 28816506798349405421057165507313235948471896011210625296662119270183214903765, 38265612273490661969005645846757389446953746576640651907438793477143449136325),
     (True, 55736816553194184047884506334758698918208925871004200902622290666392540872888, 15324307930612542049351119220558018785359321129024225921811544862321964471928, 26829058363743322118365394617838171528285027209164162056634612628516038712297, False, 59516667897014747011598223877067587400620839417907488190347558200757115013802, 28648499418702961370800746103836642778024719057069670139205310101215965274695, 88333174695364152432655389384380823349092735429118113487009677470940329917567, 102193076146491008977824964491269929204406264562072253177433000723382009333444),
     (False, 2135503175613710459792064702575852185315111556100812686956434091986149071621, 198388181219183646670272897285975209391681142974058234575083456410309864539816, 39384156932962306113249536160753754390826120515747849798670897981854613809, True, 38504599667247225503363972448724807121419810370803688303804702676532591994419, 710123596749015670390686398987554580035202857709102532700849805975212719956, 49828575028116926929291416935656016227672925058314425183204974794407737923148, 23672863131373800715754284801418136550634499790773327485690127428126502803599)]
    (49828575028116926929291416935656016227672925058314425183204974794407737923148, 23672863131373800715754284801418136550634499790773327485690127428126502803599)"
  by (simp only: table_unfold, simp only: shift_fp, simp only: table_arith)

lemma dbl_10: "dbl_chain (49828575028116926929291416935656016227672925058314425183204974794407737923148, 23672863131373800715754284801418136550634499790773327485690127428126502803599)
    [(False, 104870662102897993808561456019063995011270614522007112545130057632413364198757, 21447777857859116546473231693186329851597016107065569346856308975050904818473, 94979336195590258302223231670864204168097193008485721667302976143235783946339, False, 14841668044371255379792220740194583001882233000173757728699137007148743440216, 13441812520517420957841132631734448861223043556208524274212245575067879305190, 64670243072488182309083637675850599229555158058488182911904111801556481363364, 16347040928502130372421191541499475006727710106554749997500935978560902490579),
     (False, 108497289783419522693673444892760495898153929146925009065021984184375125087468, 77721213988744466157460824917279270073331685643341178401483848764998407152091, 101662056282291111757870290176984801906924355241657500455129754739328923575942, False, 29786611938006373243356506517073475342881065507579009667783865329008233314090, 27910081674345479552451338191254391878338277091828178691420387366162294873276, 94456855010494555552440144192924074572436223566067192579687977130564714677454, 107454288142064281403790598049810048768824905072000029693673836220145431598777),
     (False, 54962074125156276421851967784655544547248169982473568050570776548665992942536, 129149334618130306286406636860185290164041666747385902209725852047665313002951, 26088393540005280212779992896684346026964796566996492287638473455309454555806, True, 35381344620731769305545558504952838553832905450076002621218966615676913010572, 16794170473594271922539449387218932906869129285329645218357598374711419331435, 59075510389762786246894585687971236018603318115991189958469010514887801666882, 95439642134561558448882044914984071388416656725589714122934734427059631642130),
     (True, 74118329006802222813483084570316243459369688264443847544193304390171207159307, 31763014500302640252470718880733846789844407542730897842174987124541948703101, 47443022508909425858531272312532527167675845640533973317301884399689075218571, False, 56272069250838134112894121609583370765104926805420847036738100762578710795582, 36019660505910890314935599567782262404607703143102209825003182255065075229483, 115347579640600920359788707297554606783708244921412036995207111277466512462464, 30388593972955084424483596119721965876678424000071845172305422386130325813529),
     (False, 107821384189901499180702244058515204430845330336418717857099202003577684252803, 288120821403683890791176659001858172830568641937459469639334672525457075134361, 100399353426525620431070552325328009562938110154299371169423293493610060950526, True, 75288291295812300785793267787947585021303371623428427529288158909240908658809, 70105719969002535167054339644797915159197818736282933997599194685253694639886, 40059288344788619573995439509607021762404873297983609465918952368225603803655, 92552173297437165147005422684671999900626462011300171480674103398697335788512),
     (True, 53785900931209019799446662132863369781479854743178468148167352745649102665734, 44405143174111290371950661484658816630326080931716581473847825589524139529744, 24983771850996994938864546134354475170006649290823261917913722365783545028630, False, 10113132045142338127574350976208323994578920599691536182715218264260272730661, 4697591363915140745254529494503393874586671980676691987903332911530281196048, 50172420389930957701569790485815345756983793897675145648634170632485876534316, 9377232390683218582656469991375635806207244624154194508688432319170470726962),
     (False, 31668316431040396371604540672057435243195965799270712965345926993781475279656, 60089536561695112547118125993239639864791028662797237046773687404927686857971, 8661060288450232514004632302778245543965502297819099098172977825207885358957, False, 22597391779032614655949971492076308144525117121868012089127398681517782186281, 6180226630806759467563253656577065383581214135163652680709210888256235166681, 72769812168963572357519761977891653901508911019543157737761569314003658720597, 13642520148160337739379980009116267174344317033287148778488902458861847080333),
     (False, 98105736148460034776898630120300065602288720510126417749802397615722421200404, 114079621632963364184205509358154083954253113642674124712501818266148035768160, 83120837795285568655367627498247289460422849506566731702042514029685759199082, False, 30595654301112536570424690761795708316135362750340432085329988084986584328443, 25922402891457494038917159957109908313376322320483970444537849198261245283418, 103365466470076108927944452739687362217644273769883589823091557398990243049040, 37085166945523027654288719515866511111043056876916268075215569955140458713213)]
    (103365466470076108927944452739687362217644273769883589823091557398990243049040, 37085166945523027654288719515866511111043056876916268075215569955140458713213)"
  by (simp only: table_unfold, simp only: shift_fp, simp only: table_arith)

lemma dbl_11: "dbl_chain (103365466470076108927944452739687362217644273769883589823091557398990243049040, 37085166945523027654288719515866511111043056876916268075215569955140458713213)
    [(False, 61435253653337773070848400997030354570237582710675868628184240040669881805992, 237465148846462537295513124724613541384129050772686619189682872220171512647955, 32595408004024389251345044052390031404955824158767821064201820219456919526528, True, 55587394819230077245893919185042367631737585386832414196948513611603016155184, 29492737577639282077741828182892939579367320504746515058232858652706459360652, 47778071650846031682050533554644994585906688383051175626143043787387226893856, 75892105296273959786155724543462011575837130638080497601891083200924862213263),
     (True, 98279864669138921156317495250429902364193160121034943512513211610165186965189, 69686101520015354636380661095492589204326327103217079183991728091624315229159, 83416163101065994485413646198813793833256842422776954577314233852495410398744, False, 52037380068107153090256845424695400632891037278264348373091170706258631286609, 44167323568531919291545487201025484804646426686519209340812400837385173937962, 99815451718953184772307378979340395218797725661315523999234214493645858180465, 63297575474148792429197381681711685247280156210622996711984081824913783520498),
     (False, 115606555788152847582681202929324588852685084354453161074573793000363166865357, 131737357266697649434350555946933363661744544833173733996364927304314153178100, 115421319645763544677128677156026095085469421998426043304890721633963922312719, True, 1224146880415171787615315754203695044757740168954480815704466556837819506715, 1222185432430668790331100831490491069460148824936892193667045202932996602892, 98591304838538012984692063225136700174039985492361043183529747936808038673750, 3468032692571332584467366329599130844659391128197486569840509706494218625465),
     (False, 38947603793671606929691820996567961590144385188457141088908036575178199149104, 249504031232257310680961910439897366879348433039055620682194010930386832019127, 13100340892140605395509572051606316079829788617900600113733137650831768757028, False, 11825147343595338023921619388198883547511207339255113449496558554495959163938, 3977483752827457414805187678277745172019308087903062710531810611143804784278, 110416452182133351008613682613335583721551192831616156633026306491303997837688, 104325981612628535813053275230229904677043373338950462918632190843763244545361),
     (False, 14269217754533596500629969297980306184728049326214224700464260872603978858327, 290158668596601657457967209382883411969329032279314393818088110951702185583185, 1758415248527066286795530341816480852017956167498697796184675258448831073962, True, 83667422907576512897862476711223525008265390535328808795588003552898411197997, 10310451124687748757994598834651097524292036852498039083904860343267213723733, 26749029274556838110751205902112058713285802296287347837438302938405586639691, 42490925245704601509275698368579473468564088252293302163264185366517468106575),
     (False, 1352107722276804763832307110882643103791956843851360514590766117868783592253, 17545473952021789954507405284524958785046051414226790922697430827894794988990, 15788602702550238675559806000661145960874545657025684084396994717748372654, False, 80286448149127147891327456655679652123110607934076952015803256223704187440982, 937507279442903746655979326933439163873629852281030111256633087569573140624, 107035477423683986002078662557791710836396410230364299853241559162109774080673, 71655825153096566570744798773517374573541382546403306373578653556894678986403),
     (False, 103591456389746404819100516163413895360728016046212042068638520406788455374323, 168611844230936577785097805229396546130017425472901647624603160287904225741746, 92676364250183610654268049126916587258821613146230093426806266639513634484440, True, 65155172523927032901010638844363354084124950248281510085034777293659576556130, 58289985603568545261724042575718258964073300483423914260472572517501393401156, 41880304899756953101068023713428356752271459982082789768206781868450197524543, 32212516077659575353950640019511658181726824780578391496808464477699248696231),
     (True, 115418631219865774655111997426765628627644248383944827644314014838198327602014, 18774764554282871096228655285643979354322439362590580820099903677929108252124, 115046377723323136744008400665625916892629017321462544548150775206361241357192, True, 8247816130114002134046423439459597923323008119106208993490852042256855183025, 8221214892854248080543037132610757086559157909157699733168410955102850401257, 33632488769642950967021600273968758828948451862976580774715929826193342341518, 106327573413143454726973223825755236374448084397347156576106396005572147099712)]
    (33632488769642950967021600273968758828948451862976580774715929826193342341518, 106327573413143454726973223825755236374448084397347156576106396005572147099712)"
  by (simp only: table_unfold, simp only: shift_fp, simp only: table_arith)

lemma dbl_12: "dbl_chain (33632488769642950967021600273968758828948451862976580774715929826193342341518, 106327573413143454726973223825755236374448084397347156576106396005572147099712)
    [(True, 59615795958119470066429070949224339450712393965999884146935701949417372401887, 80179682424186014248400763712363252159445690991003950702435189309931479482569, 30693315510212472556328506035241843175724852490469645123549171625396837636381, False, 58893605962626698490339328151403287029903731132352581597004468308391031944884, 30321494501472597266392923286282308589669014336162190824719822502826880671789, 92526094732269649457360928425372045858852182995329162371720398134584374286402, 88041658731913477540819873560804247571673127635390235618646017227450859192519),
     (False, 19449358713353844847451193866598296033970647105268529964329742574717804372968, 192228391129440931266588157550245514840347233007468575923540024172957001252775, 3266868720828647264400499332640764685745385910283401302556895851197960112280, True, 84482515030545503085717982048553498612237012257402539051839305354656475348462, 14190354030579392187484837495144725216347082119484643446905397961898909897996, 8043579701724146371642946376818547246615170737926623319881092779927898937940, 59234944194076169456006180009823269563660918722076683372730854377620438400501),
     (True, 107731003691783755075288073229030678239799701959121229070158710563208712407291, 108546123882624895730793165278901849973765431573248089044154195498264358761535, 100231105903572441966107510212631974886570674277608403480231100184330611072514, False, 62733325104072813651623495387407161119497972064864874500715373518092730742047, 58366025904473323252026190587255530131884501818770290715145857919498955457380, 70776904805796960023266441764225708366113142802791497820596466298020629679987, 73622136806538492486973361904143738075649989055332587885946074341207083643202),
     (False, 7533380101018486256902130738590998466301668207593327435155898777377050273458, 120205652871111503142381769024788305909721919627695292601641887038769593061072, 490118246707871920102927656120588172129514153051355308981619504435198949650, True, 49653247073194772625565239807685008828028445077453056952547746234553612329347, 3230417431821455439675887108178969991947027117901532648018124802691787103450, 21123657732602187397701201956540699538084697725338440868048720063467017350640, 28569476275119917998578362467928166321329493721530282289513053525326196697774),
     (True, 25701814863390929934097274330678471810766833175541027016125852165838882753630, 1122253107342227756405657461078553790416219674768587972364977701070492343093, 5704908614887842213370000030815982829961457911182801402175370501892804226026, False, 74396546920648967639543714899466556324189550753419201578829982202922084996254, 16513444817084093278572479953374399657871175775376438086274932419985403853302, 95520204653251155037244916856007255862274248478757642446878702266389102346894, 48814489581600432597790629922888267428172734911744122735417145524420273496408),
     (False, 44252443136496204545330298175374773519460190594737926349530190210397966454554, 199081023576880925095580486376818814589753819465491265777358349552486198903191, 16912025138360530608117738007590623117816515015866859430212242153497528032421, False, 8631924488100026845320107534833125762972922784501297187492702467400989352863, 3298876030073491117334497570061187226977277584166827076983074368081776187889, 104152129141351181882565024390840381625247171263258939634371404733790091699757, 85250368984822265576968429218842014147675037750835811751209701257634424214929),
     (False, 91598863276045589190784924853659720056970982936022481941367739111385509753004, 146169952919115009854470603858997247622985863501436003153272614195391438401312, 72460491996315706925701215368114181245313268349105931037418580448076504311087, True, 28999703694388766703745328295065336450794752929248713501434951457702584129992, 22940599067371972523353090232915891968270337906194539739979603155159932017738, 75152425446962415178819696095775045174452418334010226132936453276087507569765, 84823086660060382389164465293322030406464235412077074039996111032438658898201),
     (False, 57368737841883828815407012622591085107312578009247223073939170049224573824702, 62277780440617292347230008051753866995531872767236142706436006592074039614868, 28423116846884189043710982534141332514225407102904011586536411640715050511270, True, 17731785292828570139321861703597747216937801598606955006820450879760236848261, 8785143690471320963034200030535766720128791752998040161159975639858880731383, 57420640154133845039497834392177297957514616735403271126116002396327270721504, 79477240558435729206654018530853216235658723743830549399789455872863532400788)]
    (57420640154133845039497834392177297957514616735403271126116002396327270721504, 79477240558435729206654018530853216235658723743830549399789455872863532400788)"
  by (simp only: table_unfold, simp only: shift_fp, simp only: table_arith)

lemma dbl_13: "dbl_chain (57420640154133845039497834392177297957514616735403271126116002396327270721504, 79477240558435729206654018530853216235658723743830549399789455872863532400788)
    [(True, 75644449047974521906745976909042077556602423672611152807552557414666394448671, 18417790154787947787293868003566317437879872052475383851588272945589208510501, 49416870451110576819822320179904696450632819426686615980511713798778737549070, True, 54582592759344366370178799660979171944661889935047134704154909429114314373841, 35657618625308375717754807303930378503295992266024942099189048218137687992111, 2838047394789478669319034731198126012852726800356136421961092967212956347663, 109440150751437404689746594530358035690508923769135624711859251310809929033962),
     (True, 100701369997470026987739560865677939465512216488103256886017987497352246068336, 190145828077730023801433345567849218796508768813939663645458751910759110817760, 87577363777804464538039469401273605451962961475926911944088958942602356632444, False, 3160190942039606897450522387406836702558314583996938247284623841187412579663, 2748335913853788213974480747253112953937280260572865923455155962589752263123, 5998238336829085566769557118604962715411041384353074669245716808400368927326, 78635592513295904537313460627725231274786580269731398349596614721889706264243),
     (True, 101401997500239582779115173878210949743989132135114057639303861594948580507016, 136794109420674372241868618176786352693812990183628229950020094786429455623001, 88800238143720764978948755524673075058246551995697374554693094947897651522862, False, 25148277430848817435027775532782939497474345500533610015112956711043304914516, 22022968775920384373589271789290664304309138468861225551511701011883469367183, 31146515767677903001797332651387902212885386884886684684358673519443673841842, 99472727300118100559831794558106716135832555721950596043727906771065801781534),
     (True, 48646136022873460185448761546748829975709934765236704760746376975645406391185, 58446232021276790250176229770296936073034120826303575582511705098664879569741, 20437031286799305202361978064684498908453528211015145776603811792546939494806, True, 24670569962241455546524109142809008352364356306798423303815318653212486899807, 10364506853009407484335953622766784935209665451011415659335086099215288666881, 6475945805436447455273223508578893860521030578088261380543354866231186942035, 93719068425260985508571794404847299486227190402327246544361535507971912522930),
     (True, 98252908208895657273259371244759374087147887165610963910327734148567277959879, 157960086542423608507638843678103731254356366762380240753923692169986956188668, 83370410166520002023099881426821636501858001743144663702122939670220568409178, False, 53748476811823627526517644684578995733893019025607810461584840108156920906258, 45607123893984847958286713186468638042888015139994715912695772834956991778500, 60224422617260074981790868193157889594414049603696071842128194974388107848293, 6508456399099496394506284749821412945740228064772237876925330331726785307788),
     (False, 42709290530525280970722166789371851708721298873729023172669914932371730866032, 89168441459598402667500290653990165771046077506347569712768581257132313214712, 15753092547687389777846213245835892837557801846129643139119175400153983950571, True, 47902426358233030681540891471765062574650414693797526905425203865274553175876, 17668552820859602121662486220326913461914102331788610658504960110893372149651, 12321996259027044300249976721392827019763634909898544936702991109113554672417, 70228894328170880093326974098356213833492698284353942042555911760520991315143),
     (True, 86361782003220966077727593977333325027596170983370922862919623370276567338413, 100824591980216864448492506346484606959829636214006763706172971807089940702154, 64411631585837194312963786122711461417102324761271865338202532528365049851838, False, 41737180925653763418041774846214496580354061091596171374844637623649888429380, 31129046423733776272690865933899164866001632629309321286727891500276910286932, 54059177184680807718291751567607323600117696001494716311547628732763443101797, 30397021121311160748175267034072209735541334392678363028131751253140336779249),
     (False, 68900534711327071023855129419995002232216252075582135589509635381564018805856, 39540195941684160571622475982809516936212852174600229300733606288526395086136, 40998342079159908282882470074317116476297682293960967062555546046649832543230, True, 38549778724468892325019046832107707237585944907572345879173866815315543214385, 22938530475030841817010425096249565693340423742607284943839303588614538928496, 15509398460211915393272704735499616362531751093922370432373761917447899887412, 113194222376370553965194936371675455401819348664364389753912165021022524571615)]
    (15509398460211915393272704735499616362531751093922370432373761917447899887412, 113194222376370553965194936371675455401819348664364389753912165021022524571615)"
  by (simp only: table_unfold, simp only: shift_fp, simp only: table_arith)

lemma dbl_14: "dbl_chain (15509398460211915393272704735499616362531751093922370432373761917447899887412, 113194222376370553965194936371675455401819348664364389753912165021022524571615)
    [(True, 74340088367570255451329406327337438625808425233298942486124203445209046802502, 139112376124931487151996236627303083240340613034379806618346232790637214628281, 47727342827871510352440614409766063881777870573591310889861982937696591855947, False, 64018784280400190170703607781808576491177550147921765010306792529578657001171, 41100925918553305547814171676347758975053054991964911963624059095771244298240, 79528182740612105563976312517308192853709301241844135442680554447026556888583, 1507778177077665742465805958102699320241782179139207713562905626632862044783),
     (False, 57698222864586145421999192035650460380476962697926531533191112045929055950810, 162361724671328825012767591231100014903589112184242566096470293598310940449404, 28750538524990217827838223015910309104143313677428618609596964707920963602036, False, 24416618911786821915170820797309170988581659228107908475925095956995054746115, 12166595569517927019167970838781098038789380734814674887968584605360818976684, 103944801652398927479147133314617363842290960469952043918605650404021611634698, 46158390840771261015057325747347603069866731328826994982362988952984965630551),
     (False, 5639460625854147498961356477498048726993827085849886722174351974616807561360, 275432879169595123851773214178574868170673957974400885997635974278178390470839, 274660526184847524695456548908726675752993643277734204574920227250090763295, True, 97496939860539192118732139559726062626165377458695684639285305064256691383039, 4748425883273592863740754431177661528894706833382304704612912958699470997939, 6447861791859735360414993754891301216125583011256359279320345339764920251659, 88210601960267766907157771697960715346327838614682440190781620583555046135500),
     (True, 60644344008015515318303083991389115687046439338944188148862138709675258231549, 91320775779375935609717018947194366302440403588450846349777497496477308890160, 31761551978575033805380752967538223834229433473268919572495304383362594440282, False, 27266493289454032674250109010965532350800027903803176831127926625301910930242, 14280410779478408770749651889871331262168999985149904070650634390465202159186, 33714355081313768034665102765856833566925610915059536110448271965066831181901, 31521093636442879844460418291929066735171556617834781582934672934470612303528),
     (False, 34063957668429276550432183742299027431114489727647982748129520340712571180958, 10903221676606855629309225962193341911524835066016818996547769836590408741352, 10021005924926015450948089414849989993948432618932461767057485845393049701012, False, 5054565365587587052481628299086343607131054592890544618261383942090895353649, 1486962553485777865914504861447829240038248128155073541316327765071929039268, 38768920446901355087146731064943177174056665507950080728709655907157726535550, 65252596183361605463016804427732654330436727997028198810611788121306411028598),
     (True, 81144178420129126961331703159962581660935671817071854952854013346243855171071, 52513510014122114701454625661848513822336230715298304204940258227745575386869, 56863795587245124912087631019060177486091803067190134061408971997406094651393, False, 60398439370028431804470639261738903735862060130435016311301380953743722976648, 42325704406589142135184484638215715947048109274292804229601182132235364724488, 99167359816929786891617370326682080909918725638385097040011036860901449512198, 76600580073287959381522397721558734442587276131288955814995284643075388073482),
     (False, 89300228840298235428711521987865375389775927903334467524778840674142370474327, 136637979393827167618688624750790817162245123054429105267636549276739648952931, 68869392765187314420199287280319255800097468364113062901080543855803006861356, False, 1619765660828922720277107087129029626224340973121863416214013230674823748779, 1249182436953066483324250360611000218731666372047066453335766928654157905950, 100787125477758709611894477413811110536143066611506960456225050091576273260977, 80197604815463347959726424437847681650517880569155313770711686422459188738235),
     (False, 5433301569364573645260795391824899948486366116008162806555205243328711602106, 255653548043544160035680425063880020820857531752412093635287080880618652279964, 254946310624294802557192654515862649098575575303205231681826134056424494558, False, 3203434483770119413008373137546838459000707499025921526481315160852765553647, 150314462125346026373594548363346369943849616374065622102986025490181049154, 103990559961528829024902850551357948995143774110532881982706365252429038814624, 53944697478762543190168943023869476502329443433182164573196768012308394188637)]
    (103990559961528829024902850551357948995143774110532881982706365252429038814624, 53944697478762543190168943023869476502329443433182164573196768012308394188637)"
  by (simp only: table_unfold, simp only: shift_fp, simp only: table_arith)

lemma dbl_15: "dbl_chain (103990559961528829024902850551357948995143774110532881982706365252429038814624, 53944697478762543190168943023869476502329443433182164573196768012308394188637)
    [(False, 23227871910180229526730985371510573970868527526723197056597308812048462829216, 258532934684447333441104304778476516179825441633303792405407178400129007207491, 4659506855391333009273661303042729583358156187186587319859382228131350775425, True, 13457444307451811658270862754352935111982266256329676940614711371485183223391, 2699560865889596926256213871526743619496575992501490773703582633152680843591, 90533115654077017366631987797005013883161507854203205042091653880943855591233, 13704138333061897648949642665562168253764806273954568418339608481173622824778),
     (False, 42196694036092321800116225994758777970443265731235060328647848297942101323069, 202364397994390146404268444944318638397493243399978787855989744762109872898500, 15377224814908503726501603954099322785987031214133920392236947633925135780697, True, 8634453105859958036305423697656082928766953254120644784516791443122926178785, 3146548079075278326741168201994634270846590762300026602378817389741798365779, 81898662548217059330326564099348930954394554600082560257574862437820929412448, 70662411570452561661158891724420426392930909845647756762743651001661497723558),
     (False, 3731892153195746855944863421626468908615499833842246269309633435358816130151, 169223682866897885463195655849015533617538395001968000131316373400591124878743, 120276083954087415107774212211651368087839675401260360741714864103141048610, True, 38174864493334621628713663693504553099708796531563673477490266134910188512653, 1230347238948035345484277207392205320218498146601154815196859126701382565321, 43723798054882437701612900405844377854685758068518886780084596302910740899795, 68058727992378723366858414975470710436443692109125887170030134222896285143774),
     (True, 85452822471663545470897839233925449911286721526356733255596052144451199622450, 50921520569646782371490378875334413154513624377583266709104784920332277660928, 63062899358417924970308328646422931417325720788517613430080676681227900204209, False, 59432672404668281165742784612924264113931598265850612122836406002671763823356, 43860419469471202596077708353677169389177266541682147413934499501442767126463, 103156470459550718867355685018768641968617356334369498902921002305582504723151, 13737359480973331512081521545922865420898339774338984457730169350426344119339),
     (False, 11132335518442841019028781220652976632043022293951588454027979595832204081883, 273057638210653458110860145681731078064231068116762169836444594860290949383026, 1070270818501649826819603177439046940654793730360458980676598753372638414971, True, 82656476542617597622500611751108463751006500397944266067691223336076835244185, 7946653661055300130653210075911873686641415793924000014092728947703951950511, 20499993916933121244855073267660178217610855936425232835229778969505669478966, 112871153932749113477252835467023502066661346160098333850651817698099037662055),
     (True, 66072840397272202961703103949216701209501877921013141100008235765936703137093, 117924171848389214780763183122958704934965557312013788295903555573972591140515, 37702232233088958441408055597748257207581460090608336632531523723737214813978, False, 5039926582506652864122558909723650856980901326113385416804906523141066726673, 2875863687846375346904369826298728673924262610367932911905321713681704207309, 25539920499439774108977632177383829074591757262538618252034685492646736205639, 92470867287044640261449906820271685783304045195550476958345742825862592284215),
     (True, 29901460976739706427806368767221074863545064792351244188883431800071848497943, 30858459039402091660295711705190895963513193787935808263847621011897233226030, 7721575581205774813734918208369846462265876775992823960227932646101544167633, False, 4981330255074594432247014482396624606144594597427111878428956832910171246349, 1286349121517051632016482191117686754465706318351852258247241499348506650539, 30521250754514368541224646659780453680736351859965730130463642325556907451988, 88005093077415614006242356050329916446964818651378457607874681808071552385267),
     (True, 38071283352589678029448584640381551606093716839871574657476075730379652707505, 33735408470662884887249929177705052324157305025283858042656640076233864026791, 12517458023233749939372266715593323660651200558336511140042261936505432418252, False, 457676737021226729060695842507165099843434825216704881492250703632918255409, 150479543618644628183331494464772996064334127012262162122649765950118848250, 30978927491535595270285342502287618780579786685182435011955893029189825707397, 20481551163499472379222416201371726725754635744576161296521936142531318405938)]
    (30978927491535595270285342502287618780579786685182435011955893029189825707397, 20481551163499472379222416201371726725754635744576161296521936142531318405938)"
  by (simp only: table_unfold, simp only: shift_fp, simp only: table_arith)

lemma dbl_16: "dbl_chain (30978927491535595270285342502287618780579786685182435011955893029189825707397, 20481551163499472379222416201371726725754635744576161296521936142531318405938)
    [(True, 107554619364035746213734807642520421255702141434465831168657307599120326923831, 13184743824765658389325380613530239124657723710979252244964684524343879478732, 99903164589485540439238271414486395296698156010063442803588800339133994590615, False, 42471676778095080029858012219000249006525153646715652289917187276752493324505, 39450234128877052758652308182067346375537191970406537338832215131425604098868, 73450604269630675300143354721287867787104940331898087301873080305942319031902, 61150582011930467138439561607227183610502048913145767873791961751611609242875),
     (False, 11079470731797034465658091886118660191894914471126096379306216922794480809895, 128073875655818319912445405982757843559066012758781205752982797311716614081009, 1060130035945220202973013502412610815261824628904310688343301768650114579671, True, 55102179559660743465969263290674849288406859033331822962994379137392338814802, 5272406689030390657405356276383698762920976947906767321943374611070990927349, 18348424709969931834174091430613018498698081298566264338878701168549980217100, 47813918924079085448124957596124386029763830498939859267265976337216511217016),
     (True, 89759322367359496956636779491080578283135542456604018739352579033219541664406, 65405986784948211938852040502348381063525446803185816622466264742155146367245, 69579329700245032300644257836722458745565590256100729562463585714901092936824, False, 37532588845459643394493747211518220173606154782645370416488144164012364889912, 29094386019246853937812891260361731127810646827795680128188070293961216550133, 55881013555429575228667838642131238672304236081211634755366845332562345107012, 63221592520063918995483689622179447143784318408606332570484522880814153536195),
     (False, 47293404945170267432924793521420433016432264325293862235199978747374992535909, 29260498695479291278900868878415252796163679227648280208676461721501090344369, 19316225888666424250630575147098522809237334196139581594617605085797304390117, False, 9313676692033631438691205665878924563138205385874775270044668548614025332978, 3804020519264843009797235348939588064574305377970168632997846027697928774903, 65194690247463206667359044308010163235442441467086410025411513881176370439990, 21566786170997056470191753989159548456719598145545689483899060425439347748556),
     (False, 95040136467925492840198752134048551974552682781183004479675396958732950516412, 74716868541326732324797189693786500664121681108410255981878560351300930301303, 78007293947625208167734040550682315916685721246391607047987497329279053608088, False, 10550733324291869189654519248316650786565889354331160712039466563700153678086, 8659858733144826881519734457803869798930666140144507101469826451167346483300, 75745423571755075857013563556326814022008330821417570737450980444876524118076, 35315054069894698977977343586429867932669445251818089281470136146342605022312),
     (False, 860637641254768935474539389861652800201052223471037894850323423803014522164, 148121696080329343301231953133485801117786463328274411781923417825316300369939, 6396785433234290854219349604633208899908517664082421754876510161291881932, True, 63786347887181871841076010962680971265080165065283302920148086533307596824664, 474099157932547532362505282025808904959768117838412644260626739491971510370, 11959075684573204015937552593645842756928165756134267817302893911568927293412, 26157211179864039776341620129673411161793056652051170182462802718523902858714),
     (True, 99194052380251996492778693178605666035452202677964115967193719006530768527765, 41110071599603689538589468438789814289422340906279343454743224903783406331241, 84975235309392380282536401667502806943467037241814191333322622513934505576637, False, 103764343789411380607210148877046849389166389150454588008262021444934330272202, 88890405408876388742097101810657958452358344679563011773186758559146689737392, 115723419473984584623147701470692692146094554906588855825564915356503257565614, 93762292507859802278153682785769306474162204126074205026948872220787812088548),
     (False, 3444308802674916303073312972073265006078507296165724170495599624383958309486, 341386334204187571097919879759303914145372104985176106303723771031402724906279, 102453140012287517535750742460505953897891159056661487883906713470349688751, True, 63377048276971380194092776834629042979785069347122194014006991211675720717847, 1885190316165416954478417988738227253876308357447330611812756547018327154662, 52346371197013204429054924636063649166309485559466661811557924144827536847767, 13837714228740263282693401806583472847257885100427106907885067792964432738532)]
    (52346371197013204429054924636063649166309485559466661811557924144827536847767, 13837714228740263282693401806583472847257885100427106907885067792964432738532)"
  by (simp only: table_unfold, simp only: shift_fp, simp only: table_arith)

lemma dbl_17: "dbl_chain (52346371197013204429054924636063649166309485559466661811557924144827536847767, 13837714228740263282693401806583472847257885100427106907885067792964432738532)
    [(False, 36968017403549991345995212552140404369542345688223640156528930244141518597670, 62157286052110732168865397759135090000384091189619333638556428672804037741184, 11802484263553175277354134263368803946750816726122836345150266629210289401762, True, 1819366780666193207712547168764782367781653277938316496870550839469119176063, 580854730835041141424694670804785828532430673979002064768499572959272225840, 50527004416347011221342377467298866798527832281528345314687373305358417671704, 111445372607164754672535583963909031427366641949787460759992018572914150540838),
     (True, 83460525105473222656422287423577996030758094934221114437090550051033858358817, 94511155170441051243564207281552918813064228034187268432238597665359708973297, 60156607401970335058465002603541407828271389715986847243032047621918284383840, False, 45965585299488773530202778803240915963433799695105594403304886044325124072537, 33131036084049172089817160938144165023279264261817175500651138154267780987187, 96492589715835784751545156270539782761961631976633939717992259349683541744241, 52795110863810597341021465530476055169916710778111401489737230952811696276270),
     (False, 109237858320748339577484081014225257037613856154966988330329726930235144744560, 141615977748512341574073902475233990799247773965794066613870296526986147847840, 103054619463905725716607413231586494540786436899995271523224452443059665326188, True, 13023479883940894152801136759053337895886157997779777819921648044764175207911, 12286306086252145988118650050111027099413807114849373902969849873828647019708, 83469109831894890598744019511486444866075473978854161898070611304919366536330, 84460666371891986218622208269555740228292085679138188016614168221806487271582),
     (False, 96492827813153287181033395280601854411676897400312953620013272000077278461937, 39740018902439150227961731316641370783567638214834766265712837469860785040979, 80410206628745243221612290119608361724401141005600158648585096182945736719215, True, 12473172962365997899657583169434653771253965458332280573083323171395707185486, 10394248338975612165047935725642610271031995208297431788316490610083732105619, 70995936869528892699086436342051791094821508520521881324987288133523659350844, 25188850222965142155825415252575107153466583668732895564021359825937394124131),
     (False, 115066980301410920406045683049464494542563241452819124970707767666005984329237, 80527602141841240047833531389990120518514974439195012990126267550069673554961, 114346412142472068824778361753465002520083206891882839893907078096841891874823, False, 43957072653861109912882719859686012989551983276123056056436495782038606973964, 43681806310453420262877104961011793234741826197702846530441395204184513574394, 114953009523390002611969156201737804084373491796644937381423783915562266324808, 36037694058746357372907871368868323557677657002898148960155479710883328221095),
     (False, 58505175107023190522172911957597010501068643403575027368528541565336554996670, 305943180007540483992733275824548084890166950056563476086301071053750351059239, 29560357168141600300468863492448195805730751903188554656886875462977665251328, True, 22566134034123022332435919488317075889720459209436188951981377558116940682452, 11401777376660748706150088596040735961357697567172862280461348832547069602858, 92386875489266980279533236713420728194653032587208748429442406357445325642356, 115247025104858683641548280600497247219326832707021648710733948426339403021787),
     (False, 96051953959502865717043848949551530976589841347303090628849466746956817623111, 29938145282335906915075898473886312672559763780557259739270173346326363566541, 79677099898231237508814076618286620822476568355585817569238542572278250415282, True, 28871247906602375620915715751141750426899085909936069983615210344549070087929, 23949302526535119649458993613916566055632810037983432173078754058084103852426, 63515627582664604658617520962278977767753946677272678445827196012896255554427, 72888513457272300899307229642859584174419869600152522192403950931637944470206),
     (True, 109281418923744660259301917429905023273734232301179131291158410073803219779073, 33059387149435280076402464978846892366849279048191380821994618947973418719692, 103136825697060373239383576727427911198097847370547242828587821998206874704994, False, 48713365318515307635010629053940283505122088501606848643244051126346539744754, 45974346942536760064433677228759126980547400559676298974196428139593116333903, 112228992901179912293628150016219261272876035178879527089071247139242795299181, 99733721457467590523432373406435321475591824701196331116730341190616408597505)]
    (112228992901179912293628150016219261272876035178879527089071247139242795299181, 99733721457467590523432373406435321475591824701196331116730341190616408597505)"
  by (simp only: table_unfold, simp only: shift_fp, simp only: table_arith)

lemma dbl_18: "dbl_chain (112228992901179912293628150016219261272876035178879527089071247139242795299181, 99733721457467590523432373406435321475591824701196331116730341190616408597505)
    [(False, 13747443439275658421860156979854550030685017371947585652990102422161500260848, 302644795446483671199280826305193423972157203145157014718639981142451315333800, 1632168504816823019966428247846670450584610775369448707366221314212418074387, True, 59601855679420824576868823642548746346199412124909769935336935703127924071476, 7076244546725262012063283409362548698245280996272652147815818222914776709312, 52627137221759087716759326373670514926676623053969757153734311436114871227705, 62044214734951907813136129687912992638755121041560574201302644030702830082431),
     (True, 113181851712739329703686206520634470361155131200397688838453036176197059604284, 49534571369861697394142767293452413053550004459333312729639320581757920550536, 110630455366019928624116455137937291786015708099078883969382412363892272067657, True, 31770417136334516101401575466694473848275876878427229545564687274584119293266, 31054234064678058581869544440373311191453666227830094747767145623232312519537, 20856720085424571615357750906976041078400746175542527608169624161530751934439, 89631904293663505724844335202868216616249335657009342959560087381462415728426),
     (True, 96084423726043703778633187323641534350117005560813666154052132736147350715265, 137483065841945733434838327782322411236100250667032524168428372856370663162620, 79730977700851401415789799934387026698697890170036019626246060310168896315712, False, 42704675518794955402301897500888067574931918144440003768103261884409085638796, 35436394365221554463258093797243947384005319610173297304166994052003625782538, 63561395604219527017659648407864108653332664319982531376272886045939837573235, 41634288414000102967636713951218971695055302995517544007608273434900360958272),
     (False, 14767322651596742091625861345886994953765455171374365146952469605042580668323, 94052185835644403988407107922670511775558119104464898693768358757671392717960, 1883322252698918226833632085978818690576403886639100709650997480864073702039, True, 3219451751167212186274667444694825123174152751206877410737233178498889993465, 410586622065043743783111209450046314858266225376106214862460003047285148795, 60341943853052314831384980963169283530158511568775653965535652867440947579770, 14793911978848054261172124802488562976074258965246462676500800968598227911878),
     (False, 83321448812056329983589579666922875170085525424703375523476835012760071518309, 73046010847751084775656505784273534848419166815025400099189624117532385100243, 59956287855968669845091417489324559903707680680510890559196554132093070968066, True, 2027738841564696370176326079454486680617807191175643025426798776944973448595, 1459116414979930049680551185269805697435653259331999723148906386782948134326, 58314205011487618461208654883714796849540704377600010940108854090495974131175, 110428083325366657232019270830044186811285074557164307760332644267681307091951),
     (False, 27606143521323112970150333924452488047546609375076883865662082240833397912745, 35448470722202934359172032889991933645489586082474700898056407221879998481982, 6581616804023683015236750941299524569282385803649923952376982978611223863313, False, 43620607170125426048225912721413585562662288775729292709916466651893050041837, 10399646040051216534802144132171985690934202883955039853956013824654483586788, 101934812181613044509434567605128382412202993153329303650025320742389024173012, 69890809653677237901402372049613394543654373254278174160668563891555824594872),
     (False, 62183653601333775894483711006392755382833883713738973259640252379404154115126, 194140948332155746489820875709702864220572602197246390182003713309286312520435, 33394395088475788668911350330948336502042602694556586515119939511294928844969, False, 2838394267044837281626652295354899878818185304321776989886140100245906354321, 1524298655370852596878412499429630937856199403766704645705117177170942201686, 104773206448657881791061219900483282291021178457651080639911460842634930527333, 38092710118850121703307323485604242502666357651408144580556056661569407807068),
     (False, 29075775864227202198984491711449375625658904479724060677214600204048974708859, 265278261884047926754809658972940381123078705013067109671460633233235636079840, 7301023307135958415128601446219387985183098802875049363231373873784382130631, True, 96987212841884547998867540548093176745053176425664511824586525666734019973199, 24353809327714584402661954308160106045001918364581741654239103765267877206414, 7785993606773333792193679352390105545968002031986568815324935175900910554134, 56956191094375988786905683381974353865692849880243256252184579681574147621159)]
    (7785993606773333792193679352390105545968002031986568815324935175900910554134, 56956191094375988786905683381974353865692849880243256252184579681574147621159)"
  by (simp only: table_unfold, simp only: shift_fp, simp only: table_arith)

lemma dbl_19: "dbl_chain (7785993606773333792193679352390105545968002031986568815324935175900910554134, 56956191094375988786905683381974353865692849880243256252184579681574147621159)
    [(True, 67709948013477494376669563552997775492512554951229333007110499890645817713761, 65040163262587184453446477785933559462030832951530268276648525642501332000283, 39593698423206122588078112974240007019082223415536866407315651572446675231970, False, 330829003624758683804582403331147335858309970558981727264473673530091089249, 193453756552304376264890997341145151691744877399876774333407223642068655527, 8116822610398092475998261755721252881826312002545550542589408849431001643383, 77615394791202213797041483285822748436124305014454644942117488897224040860529),
     (True, 93256800784849153397657016756097047721224181348642550030238536612214774029455, 123313073365102190698129936285144156867421490592258951565498236361526708936626, 75107297501349615655086861870708906404270664972713798736675296432565837677987, False, 58508397053019829651725851237021052149230508893935723302437814004899508990239, 47121577695191311591599426385067666309693186596282061463766027220666911188817, 66625219663417922127724112992742305031056820896481273845027222854330510633622, 60346585571218156384746575751898534149661500711605741243210212105278516115693),
     (False, 106404870142678865703809814437792824188706287367971808418964220805633884525306, 4097157986459295480383297023699024980207101935474966380363436530680971514683, 97778669227670624946912828464282776131711731749045782186149485603920997498832, True, 31796189188405085343270891834734171062807002359938357230998448921044406592462, 29218484653800502675887530083230173230948942326387967202464505654913267462125, 34829030475012836784453221158008133968249818536542916614028773933286104041160, 28731115804662672266184499596899773159546472552762873574325701468089677621804),
     (True, 98505983843041148824655046387193865899618107872777814494935077360730446793772, 17455333786519159441706358479135628473478617384162486218883597991349175408029, 83800447155397085472015861320955807790373831206277841259464459885727049083178, True, 28871315031929168167836978751844692754325432346670546906689291627749509071774, 24561239990203090472283602166638841464437383693743653335802442640477787616896, 5957715443083668616616242406163441213924386189872369707339482305536594969386, 5732088496556037984236426437053912494964436854513274075189712733372298613628),
     (True, 112305992306955788221089456926253882648848290370399910711171043276234881452723, 10199424341901619879586565977538625231908234488237127168596386895840039442753, 108924849651317629455260971733982117355519923594640989486620346623326110225128, False, 54198000705761657828345353444360244923278347538025098404864289755690824925843, 52566287488396604341255960157998261764684474031080593596341421642838386976274, 60155716148845326444961595850523686137202733727897468112203772061227419895229, 109279020496393734257475148601906358846792180552605151393748532416018470124457),
     (False, 31286648503162739518513405698773885094869670192215307021218031440490288372064, 34701696613837390380014022004879167381903498330521344269859582639076650154024, 8453551371563889256636898307204295914211566484058106631148742958469106947837, True, 17848504334715535472859520185615390561835542147605535396520679679481365419578, 4822608221645916596917267525586937209083029907768931074595855841551020284835, 42307211814129790972102075664908295575367191580291932715683092381746054475651, 68315533366849832176368205251338455461373039189304100101680556857886213611450),
     (True, 98051921102181441140626318090422419157220503743816429376055811496271524827079, 69324580943002228411113288883461827633001331729168121553006369892487278622700, 83029672384290465477824262837062323007432337188038571553495292442680114608841, False, 33175624769566175322647226979969864963928277784778724605709804806287776864497, 28092884104643498223140869872876612343635431395723060372804607211789350613056, 75482836583695966294749302644878160539295469365070657321392897188033831340148, 5494329853731381479319378147147813735961104757123631046139701090992848858543),
     (False, 36592527967070025967680759628635035788175768187537743023053413820128700748600, 144145192752978674560697437006751783029507177348131391189768818066721687673059, 11563942857860128656672824219793480380038449013518921058626165113620369368018, True, 12916357176703937461047789517361157421590195707156302314228571546247026399562, 4081817371500817145023556116405098686136752724457477752216678360278221421622, 62566479406992028833701513127517003117705273657914355007164325641786804940586, 1960762099875877323026688903614507008077244983723853261330124348966713726135)]
    (62566479406992028833701513127517003117705273657914355007164325641786804940586, 1960762099875877323026688903614507008077244983723853261330124348966713726135)"
  by (simp only: table_unfold, simp only: shift_fp, simp only: table_arith)

lemma dbl_20: "dbl_chain (62566479406992028833701513127517003117705273657914355007164325641786804940586, 1960762099875877323026688903614507008077244983723853261330124348966713726135)
    [(False, 57979486344403509758597994570067874792449173090778196168657380128739936871266, 99456924526567031113992494623427230083764151765713395569019348141612648992115, 29031524171343955482703798411415711866562130898904948320783919002342461008902, True, 26975764496510042852868838870032723344245109790017865740391985969261865250804, 13507321440706537217475759922806484985746022862733906371073743003893276998034, 35590714910481985980832674257484279773460163867896489266772339672524939689782, 74393902097046012023527315703773902429391932469688996680792948386158391139395),
     (True, 45345052153616377783470471445136871455676949209334879976065737570269414455228, 25448144148538282634191196067354378137754688582255701954139419684689556017601, 17757463129271257637201843174328277544024381371075203369465498566760552251735, False, 53999362030797211794196838152791646014992470556987496152357682645205981107653, 21146555902452035338629362645274057830060140804528557026115931677334968882202, 89590076941279197775029512410275925788452634424883985419130022317730920797435, 105898380109845963781567152507219069988357966515080316336353507378968111480823),
     (False, 1730211867262614340942459957855118127657333537222581400039597385551960871659, 204786808431920678698062685953302444450777260259043537411808907429782586007858, 25853520098233421474757527825279025628675604346138286469353343238677443009, True, 6885290037285031223259629367076993345935121153237588983667672265245700958583, 102882766977401853986723157539957771320118896488268157640587751614259125467, 82704786903994166551769883043198932442517513271646396435462350052485219838852, 66940971316055910924718629286678560701660747130391762982171106478702675348257),
     (False, 39629831336806891902155341834617942904232361180325700561981457854754423379579, 131395215586021620892514478926575882124181048399754309564592902618964547471753, 13563305943384745099494989535226433918109720731938749779949300094671683993612, True, 4284046894085518189138650470501752696109562651030966929300412854258138260327, 1466214635294757433570824570543947943781262545786500530598220538134629741697, 78420740009908648362631232572697179746407950620615429506161937198227081578525, 54146476730951464413432886412294957685163383490776066241635843582390201419229),
     (False, 59508671941681276137840968377843756014097877269841737810080911881513110453218, 103677786900758408906343392143609232889230385593721569266508427175633993678428, 30583108573412959056745595574810682205806891780677143151846381990445432640257, True, 21306609049186282718018423585955761907113916878790335934188503369672387285458, 10950039996206258772858850989617250079673795621711367527678898880039142119280, 57114130960722365644612808986741417839294033741825093571973433828554694293067, 63655855556813809724203158849430282541212748253259803805017778390202858009335),
     (False, 16043862132686306844524870504725192501868416935982176291940937867075885258100, 66874174030531621907750627463834371612141740008004719257317476543402812999664, 2222997390305517488143307555884457710189051203084305293374606544384241537092, False, 22074796627011559331844082265419531770674094169932167955644872419932767480307, 3058628582540388697240744705686487724533245741843452637505970517699255144651, 79188927587733924976456891252160949609968127911757261527618306248487461773374, 112622710477543563944865978371032399598381012758060446260122423016491956620066),
     (False, 31193497852730179648815278332549989335405167077479378354722722301698076113832, 101789908818158917601373118763229552213724319199698499586709346922421547539351, 8403288298223880604075404852860398532693749500003928420654971663141912633077, False, 19481019191176038151472768279403619431092204883718185529383972002722638666875, 5248036670320265660340269467144218867344138772472325970600820103885232628871, 98669946778909963127929659531564569041060332795475447057002278251210100440249, 104636273706010026253431042836552793641630425915308150898707756630116959684255),
     (False, 28728913067157643772648750283380624788855097775839829204837778091140066124387, 200316813767634245572678007441566668407181945564055272995408392861627126129130, 7127865570513285686304748211613012902703484064925822695218900325170543077678, True, 15952487011455713444856762498717537811884196588267488601180218678628237400756, 3957935431361776232633103862889320610178009056499834092763017318119960868872, 82717459767454249683072897032847031229176136207207958455822059572581863039493, 85805433368587367880126356575098861654724609093913266103811978519729986039045)]
    (82717459767454249683072897032847031229176136207207958455822059572581863039493, 85805433368587367880126356575098861654724609093913266103811978519729986039045)"
  by (simp only: table_unfold, simp only: shift_fp, simp only: table_arith)

lemma dbl_21: "dbl_chain (82717459767454249683072897032847031229176136207207958455822059572581863039493, 85805433368587367880126356575098861654724609093913266103811978519729986039045)
    [(False, 64849891005922563226271781580892346188907526475400235662929665639235687973944, 81159157865536201616191351940831286419057572283975873991840661233859142737384, 36319479095329274004678066687565422470039787101240444013530228093041562645518, True, 7592615804699459049619998143362219646899186444461638498969940944101914944961, 4252279328772723203837805643359345238652404179961732099262006334083456662747, 75124843962754790633452898889484811582276949762746319956852118628479948094532, 1805043475221707374709459035970649301929483884893326659386304711906307593742),
     (False, 79829497326445067712914376945813073039372913293014216595722473122220209579552, 143732056552595503264122805924029140635282101306797378188455043437752094938451, 55036131456404643103832414842446598308292608993965041017907526614948596425516, True, 57285768078916001714648097516346546665230568989090691400153625943484445576608, 39494011213420332318147644836638304569966055504352073707784326612204742020925, 17839075883838788918804801373138264917046380773655628556698492684995502517924, 39519236562696431827343074621909077611815202266598327094513568871109342801199),
     (True, 75096743652239030877199927121981573026529633771407493600505904322306736190135, 43015322581712761633655572890141045034824475199904110796225203970336729372155, 48703853135639891013810981310473480840533215923994244692941934451808171540009, False, 38668678997274670910059735161811936349998651226059407474457963584469728538894, 25078499695723049401393461619892142293465956439166402984585074375757301271465, 56507754881113459828864536534950201267045031999715036031156456269465231056818, 21825750820896722550617279123691071450484347229369213523261884129530104396326),
     (False, 26225580223699137854951564099266660497869149196429961851125333976871887747174, 72842567954684090440431487023146693777605694746428141229004267536501869129471, 5939793147873916641406255368857823090660503169826169111954083722910504077727, True, 25006515801128092011055484412748898965859188522078846115352051836958946233555, 5663689037221640527821518810675627349728988347431533286089669156805399033728, 31501239079985367817809052122201302301185843477636189915804404432506284823263, 52351780531069194836078281550514355174146707381687785820248897949973423767916),
     (True, 98735692538403531296777412034906735398432898148309534593116825055849075168438, 63570788576165606231502738875178950510158546259184827492313475628175399646512, 84191735787130475282636945960233356781792723694407800682882876843391125461156, False, 3246684609149862802959420165848218437320133424236358307065179805536405262699, 2768441743510030931781615826042785695078794081765459946466123163643329936629, 34747923689135230620768472288049520738505976901872548222869584238042690085962, 48339229328418927123590421395192865219875669140111339256944150416282240009101),
     (False, 25503992799778840170539057532979145213482983479057364255147913188090910318424, 9988315234031942957343209729468630468729261583293236660322168475535747180231, 5617427349026495046353376131612672131861057398178789443154789861881369269396, False, 17865235898108284372477065897514968002403385364065540997535041895192621602294, 3934939345329239771633268276857219038790861054119948740155749513110130395370, 52613159587243514993245538185564488740909362265938089220404626133235311688256, 10052284581656657088003140496171905220992719153519115103497980934931277733113),
     (False, 31275646708441316887132635505061965849101138339940684723565802160459294877242, 66288209628353044235505246239174189504807557218119468081070722075974449487063, 8447607118084113975864348149205561583065671145855510509639755656966065321170, True, 50097417452600367804934834701712066691840413640233237644019762677952653980874, 13531400460409835376093050820740932618527827996565868150661014362094041332179, 2515742134643147188310703483852422049068948625704851576384863455282657707382, 65553971276822875509378124761075939054975163239363496047572555229591149547166),
     (True, 108912146624266169638909370762137843590871235713659857572010467585014451948514, 123154014102278256427899974204349494174804212790228408058995104297448345441329, 102440985072447837705561791884335923118975264992495589955188411096852972653795, False, 12355977577699711972686913957103238348481411437735199381402494089469537792005, 11621830565504794438822386084996930360469164705382993787533292293365803542034, 14871719712342859160997617440955660397550360063440050957787357544752195499387, 115522999277858285232599478460575039716918995182448551431431483484331171098598)]
    (14871719712342859160997617440955660397550360063440050957787357544752195499387, 115522999277858285232599478460575039716918995182448551431431483484331171098598)"
  by (simp only: table_unfold, simp only: shift_fp, simp only: table_arith)

lemma dbl_22: "dbl_chain (14871719712342859160997617440955660397550360063440050957787357544752195499387, 115522999277858285232599478460575039716918995182448551431431483484331171098598)
    [(True, 114006472534960791127756639330996511860444022045741036080382558488791636492791, 221752930810327772967807854007111712851960158809040266542865212476557866025332, 112248391651804628883344643652646926359610818924240991645135821573744677590778, False, 20827503253138261973486546978290006624000310887165220744411680704173620007642, 20506324687579306528744393151712724148176671921609219341602033457846220015781, 35699222965481121134484164419245667021550670950605271702199038248925815507029, 78195317130131731699003800627049051262175773987291187060915682236695784193311),
     (True, 49932957127380539017086639496960057553677440904214128075777976484531019933435, 34421550745002909887152310405454650791852459537070116349838459085715605763550, 21532560855304322588078562106282869366851242426388608996009380535505624598716, True, 5450335443505148487338475599583818553205645134269197070896708725944765748778, 2350345070084843214751554247244149579115332142311226364389585790674010995895, 30248887521975972647145688819661848468345025816336074631302329522981049758251, 20753123599359878132673099000928385880820251305397548080723294688134937867974),
     (False, 54110821982199771386041092373022019104353585537197449276663171921467753633342, 4309866408280716801484006323214778211035823990949943767604333778898440721984, 25286537928080153501607186248062771923752723620294516393045521607071058425430, True, 27058687787512229664351092615380786696630137951711052634172736992791139559719, 12644800244359392357298988516932869814530401339673469085374776255307527050947, 3190199734463742982794596204281061771714887864625021997129592530189910198532, 70365339751001738145118000874518091361489791201527431148667518224993958441327),
     (True, 73707459393297444505883658411537885468063174569011785817028926790817908261463, 89318439560746406070862458699538593431213978849517547206107105322682610909883, 46918486463656380497713582780383572306452214686523726656753603940686362006278, False, 38699569917682402159159452988861394608607476914347827321001192877700851200395, 24634212904334858027231040607284872725194337508821825974443313230458736547046, 41889769652146145141954049193142456380322364778972849318130785407890761398927, 60129121744927255616268158043967366722611367692346486122233277185153521159534),
     (False, 11293095779096427338123213880754078959073847283061680139441687295353762292759, 33734347218457518229426912940420510614477594434370544110942268540609848935972, 1101405226778127055800965407082907276274644313374482837131713228737741491435, True, 35446690293353796528730650835009980730025286427995273331585677437466407774385, 3457083046559364171995838723883692651281831975516048031346752016310721443539, 6443079358792348613223398358132475650297078350977575986545107970424353624542, 9022843309389148181922332795480212965717488318910555830606492602682755446092),
     (True, 16019960261803507300492799971001060050578494934723607970439152744861057456536, 1421093347402719998413051071190067838710613422924997886446269843787838624585, 2216378757304692697480719414102894067967726301818824034785397777780672366326, False, 63405105096839578045495232776467244314594939955835966703170954297848949791644, 8772164583727005965432259863581171113004090799456618446089879081370847920870, 69848184455631926658718631134599719964892018306813542689716062268273303416186, 107479627069015150219830504850177664802259527708061146723676286069134723426094),
     (True, 106571120394510244287062635772404554873082518391183000234784656555539114426261, 71439612099807943176282163086475099257417848917015882893717386164810240563933, 98084452742782106513479961106933118414012796414448134583831943367270860467906, False, 37395273484003611725420138915426836834214858067114241044509235001450985394957, 34417344222967443310060759286448983499766761823511988348237809430652170988010, 107243457939635538384138770050026556799106876373927783734225297269724288811143, 93965180063578933030582000549084365428810208468274549090017466203106090935639),
     (False, 12078353804616184814556981394537333802094514794648806936578900327579630996010, 278374702901754585019843665323544395192736461194143365285888215794601674880764, 1259901532344391046091084503202943167506133053753019109611194437404012703965, True, 22661252569629664306620488481619829588800764707785866406922365117620399129044, 2363811103662809934375035961892164937106529103144111359978096243760955769878, 84582205370005874077518281568406727210306111666141917327302932152103889682099, 7083716223479420784268023608336111553799478968134901287459017916559339090823)]
    (84582205370005874077518281568406727210306111666141917327302932152103889682099, 7083716223479420784268023608336111553799478968134901287459017916559339090823)"
  by (simp only: table_unfold, simp only: shift_fp, simp only: table_arith)

lemma dbl_23: "dbl_chain (84582205370005874077518281568406727210306111666141917327302932152103889682099, 7083716223479420784268023608336111553799478968134901287459017916559339090823)
    [(False, 10833574091631237260381708202262139040328004980994215525050916554793672761119, 184027808911434726474737174217902503974650270127399593600776208704067017152826, 1013595388072215053845750407707994188643516497614425553148360355208565673892, False, 7229217667529441746447985112249035977366883041404307779052211557348259338572, 676369739589300979297118663451556026158096220586796133893451428547602366141, 91811423037535315823966266680655763187672994707546225106355143709452149020671, 19384045470263198705988555595975910311529577234345939599017429037875607800200),
     (False, 361537158927861426055996563729492890002781442087009258836915786886602367710, 218270490388696201040926657078611630449777907853720286579643949145746212042720, 1128825968829132485383670483596909759661471591592097894909491561926632563, True, 29716351116204258530195397447236575032455774402077253870406541097667811224326, 92783239593662888933565918335346116620098301401771587352097999381687962511, 62095071921331057293770869233419188155217220305468971235948602611784337796345, 96074082882272063067501634663827867673831688084195313470200920129652099882299),
     (False, 9815981137476820878261019100651260987709299551472087743046955150017262413156, 83609089066633914241745528198019024070241104132009767977008341040818099438984, 832124943494698162387302197994809770256483652126876431321067562200302114884, True, 30324413672147326557663712470180432321826709200287878472220269819147626815383, 2570675377227927412162076889290181938389053011209689162128182364767086433470, 31770658249183730736107156763238755833390511105181092763728332792636710980962, 28975320751067943611152774064743601571609748363389104657497886983630244356479),
     (True, 60203349572679826790965906673500911152229984950850434177563580410513027341014, 3978670345241957905136936634105124114814284751988543434501903020420198727733, 31301303262486814167365229970547228608419149302396143541966106396514927182049, True, 28750826484346639377750317679118029959626569545991871526217289453738877320289, 14948310106022110537657391936519875782464749476805985400331340385498479086941, 3019831764837091358356839084120725873763941559189221237511043338897833660673, 20515821376132185355823588093215017734619311459606616386719037322790010322676),
     (True, 21869511165679211320900217129872530452926413927916147474565558526172693602740, 7513326891205612280563559763028907618548944803594843640317831971713083766496, 4130467995589041865982881861460373019550148637644641452787238820720582980514, False, 108404452825208242999591459833307100898190389756688185177860006761322783614767, 20474217259897240960736236308768833310563778859033239726677951812656309293317, 111424284590045334357948298917427826771954331315877406415371050100220617275440, 58107463960559813061745320872156075090265693614828509419896376366924580361211),
     (False, 61827870656723047750683085970930787529462400775312067139529390910283296941024, 259610067167129755017250470986513769404585296109476842080392552986505726295619, 33013357095577651408138241924895064032842403963026848804272924620052554059184, True, 8101416292149585947359541060687598396181024220667792841061628053966359893728, 4325799128965835838012126158962730246673404289547001006176762347037634593690, 103322868297895748410588757856740228375773307095209613574309422046254257381712, 16825351819968730201165269882673154319278853846462687165686479266578696967071),
     (False, 39380481216221379139372020438889432049744324966575438973877957430528423550881, 265144749064272313698992088375416108525727648361929177386203180315653855544577, 13393162792009300296328062127789263281170147128545594276073044256827572298781, True, 95869834456329657150885471639178007563968712309182340024488280619378849602706, 32604992627355391067795303890428405987167455108907581724531682729394317471401, 7453033841566091259703286217562220811804594786027273549821141426875407779006, 50040872125110927311440960613479467895486664236138444792548885949990011961564),
     (True, 2904746692399737267413867958331634277061063741132940551792907839574721493249, 1071480582964933775864497143535075576003001383262689859115624701571498081617, 72868132914321519670834985068786206741166778118488928089410134544877338681, False, 68004742241751729992959512480195369944116290932262489508442393124906828260352, 1705958942802784290954952571590037162887330311722131164860833407598831346992, 75457776083317821252662798697757590755920885718289763058263534551782236039358, 46728718496393669138731607516029863508010621830530871863089645384465424840180)]
    (75457776083317821252662798697757590755920885718289763058263534551782236039358, 46728718496393669138731607516029863508010621830530871863089645384465424840180)"
  by (simp only: table_unfold, simp only: shift_fp, simp only: table_arith)

lemma dbl_24: "dbl_chain (75457776083317821252662798697757590755920885718289763058263534551782236039358, 46728718496393669138731607516029863508010621830530871863089645384465424840180)
    [(False, 97861584579041651686594481080110926722138382978313486259451800949205633424710, 68534345425736735653276632400559198188718566630750651383549608021871855796839, 82707634015678352359338440401904642335322022535968870834807033882865304280416, True, 46949941472663254615068288536618698249488290771015144620946315190711387057590, 39679702644117743241594599480456804045249757891545996862341097058074467570889, 28507834610654566637594510161138892506432594947274618437317219361070848981768, 3950927579959704485379855502273046145130032444601645974019069495340412976281),
     (False, 108036828901481047749117477032736350183807339694719962661917653694110788019445, 13683132755040565800156037472575396068908019851244607999289249805151214924829, 100800982853705782869431864503085610566913782408643901388714758672059892753939, False, 78411142886283148082689652896894110016368525981002354226428173137610949199732, 73159498941118486207016637079841082798280601862090588690562355614471513199378, 106918977496937714720284163058033002522801120928276972663745392498681798181500, 1346539278960570545851414518155188004217509775692549416990760340077370277457),
     (False, 24471569636124928319166101216757781150048866454658915864993798513666827435257, 295608271868411070860312685761756449904828073778995731885186980249630261128549, 5171836215579317263165088612349731475350015966058804996823875878983983299351, True, 37047686913034890963971804300838027990984276634875539591391985679493378974252, 7829680389501093808155017059908706628059686798295529299960878384469220475479, 69871290583902823756312358757194974531816844293401433072353406819188419207248, 105635023119392007220470460253250131344596988052532839563748788415404510957778),
     (False, 41238907768573805307070219438432458162386398642082897555903261523780612406002, 51242237988278284664382590174206734718822270606216987190026964054947537332747, 14687078586650407467160599411293371892473164377845983042327849502385969724121, False, 7993400746299635513590009738810234847190123989385140842551247893287408150189, 2846818969947537025453192229262818332087926179500498722255950000781592750179, 77864691330202459269902368496005209379006968282786573914904654712475827357437, 106644442817744962331702755418260381092819993571920131637117762803846999115073),
     (True, 92222801154077101997811329934461972823064867553770015325243932620668655944489, 12793343920085951058276516981701969197574185435784107126651308876071320177990, 73451002660929344391821633924386848917398704385581000871562541418436167745701, False, 3735024254160191623545564248316803105659626401718977041550904637066561284159, 2974766250838689141538403315345516141732751337474889924002335026278812079634, 81599715584362650893447932744322012484666594684505550956455559349542388641596, 99766301412387272861178977703277751379739157429023239152870301701672855369110),
     (False, 13252561234051521607831416524467946452982652925348550488493654672880825097975, 149675360652112226447642941204718072168414640491072615720266850874398200941895, 1516773559057410158439753848253744005597424030400983192163361381336101718708, True, 15120942362453732614725722713069117389184581011946397435283701821908285239471, 1730612306432580695450082402913711915592488681001784550232678936775636929858, 66478773221908918278722210031252895095482013672559153521171857527634103402125, 86564114445956040324099279057218608260692883271130180360695016606602941633157),
     (False, 26864253815275606597791084897088984846740093560176284863571255946738025285407, 74334276567821879322435475789355944776481367499167969611940479806697232659774, 6232620362695756753802847536090295409711792228460950602864296968975495119811, True, 24461400337761933514434343916022131406819202240341563717009178922610227773987, 5675148205996198466680249486533596435122947218966642628353243121495195964654, 42017372884146984764287866115230763688662811432217589804162678605023875628138, 43881641692081361449645723218237242169945727392394611858792411669752373426598),
     (False, 1059301373066945473088777166201015180281304187822576975029881028444129712289, 44937535380415777192259578981333608787177945223987215156530072079756157587235, 9690812270801963641688987077155927529519372214145954176999147151818616641, True, 23779418931675756454382574727395490003016287836982095800544301197382385463484, 217541382117193320178142662502374383414248569259745604879690109617985052417, 18237953952471228309905291387835273685646523595235494003618377407641490164654, 54459089004298369762383803595673620255175363628672685417955970876315516578711)]
    (18237953952471228309905291387835273685646523595235494003618377407641490164654, 54459089004298369762383803595673620255175363628672685417955970876315516578711)"
  by (simp only: table_unfold, simp only: shift_fp, simp only: table_arith)

lemma dbl_25: "dbl_chain (18237953952471228309905291387835273685646523595235494003618377407641490164654, 54459089004298369762383803595673620255175363628672685417955970876315516578711)
    [(True, 59751496071439403594711645200450719154083326767722591098692073133807285579919, 47586629016266199822561608905640875501761932215276617273202778696877299788823, 30833205507582482888470831472967907998490425228072250494542016464016201928994, False, 81158801116411369217116141941692314093259214958482497865633856499667781197305, 41879888506548055847855267885923227763674351725104647848598228594311986249447, 99396755068882597527021433329527587778905738553717991869252233907309271361959, 4151213505703552323484051783518929626698166629645106743412916780028459018091),
     (False, 2503608857222260756832968680128143165646316343152101798498680616134865192936, 255789138332768754610811572745859198267535804518147290807483581127307839245088, 54131999454425164611489345802896164245238562141534663653220997936710854715, True, 34220012474745568862465774669923357542917205566904229777017422567246759514746, 739891014233179286105842072493125082085803215238232986167766780158275199299, 65176742594137028664555658659604230235988532986813762092234811340062511847213, 91260320805244932943515016743783414530070331789503984890762416515154848435816),
     (False, 47222886310095793059403109302650611276648136989873843580960857849592605667317, 35623088292635832531346995877126277855458734296426217964191745031871817148760, 19258664444727759051263859755637357348051464027086446112135421700006430307299, False, 42397877146435207075532966471119994072035631432279201835542325730830995148501, 17290906018961867939148155325094024894482668121568000174298210667570352941868, 107574619740572235740088625130724224308024164419092963927777137070893506995714, 16953515622653454918579528062262011587143829245619588294066458760602791442835),
     (False, 15220265638635014385741502515751893551116541510594886179816337541820479474910, 295364067162510519236550250032601715392060587577806753414198842791937441651435, 2000624461397961871399609311173558742217671382194318689853222445999570264177, True, 18718548649132658095306100108213843631371232472995560485872064496202034692369, 2460455500478443504510922694475033578724863222872187193258760995980792961918, 88856071091439577644782525022510380676652931946097403441905072574691472303345, 29630121943367788284420912620448177185473971189923200003968137098575043680937),
     (False, 33433839943334167871529102531653892432723835279894747068973557082629903499457, 187447231916492427572796581711561492192608056258299505582698985741866972066354, 9653696215168654146944161609268152801948865536716515474887726561986362535064, True, 57508395800835972664952129549114276995789430827482261827118303742562006053050, 16604990148421082855955258682833058045457407745705319475142169627793777416789, 31347675290603604979830395473396103680863501118615141614786768832129466250295, 8725209334632424771796767284423634905919908441143251928422639726125967129574),
     (False, 96830987684071277384636339814707818818046445226890833839136429999593107090279, 10866795579134848668087769078555945616049883941623304503289693880050611407780, 80974790590738977081162449416801963272852347574665266330799057296599987571350, True, 24647907526620067193644675502285579727164780119942192492251264326024034356894, 20611781395639718118020896398852228211256285369879411814662993005672833366390, 6699767763983537786185719971110523953698720998672949122535504506105431893401, 58437980416534286022010244821736997611847971586562019051444538879605504796962),
     (True, 90508366311083566677565214197026446898203563053987476691868451656955068834485, 90192617500775086386883648783956961356666773081144165899602962420667176455740, 70745457899283063931573174278089419057124151588889549515585387009027249095514, False, 102363043671086493319166588502616704623093349603650222885251172292924808259208, 80011613198110605521195482320366349665407856109446747747135388136824500260310, 109062811435070031105352308473727228576792070602323172007786676799030240152609, 94986180201575643059713359593457702086786770416142227838783293921350027999968),
     (False, 38974752303546858938398483337017815496254372656808668314034921661678618671850, 244230543001573721271557487709924415789882428317158866960420340778783960911040, 13118610498194306640134353630705708077464321017012584923269606461127810085565, True, 70239483677441406381262679582724471155877041926638401288495540251337921352642, 23642085542510948432183254143240035797051830679989829145577246692349254306555, 38823327757628624724089628891002757420915028675684770719291136547692318799967, 39545809553270835688737613624365890833564499219726466994068294581334328578927)]
    (38823327757628624724089628891002757420915028675684770719291136547692318799967, 39545809553270835688737613624365890833564499219726466994068294581334328578927)"
  by (simp only: table_unfold, simp only: shift_fp, simp only: table_arith)

lemma dbl_26: "dbl_chain (38823327757628624724089628891002757420915028675684770719291136547692318799967, 39545809553270835688737613624365890833564499219726466994068294581334328578927)
    [(False, 49211198498304327302529271041205116402673128004559901395490463463380150403461, 5436977356723983746557411409735209106186527559761075435630073798716916594070, 20914572611605608389515644310982302048171397255796804368794643913270328799994, True, 9150352814526282455995974352225438768600521016823839919495874256462377297674, 3888865221760732427721945213813119777504655721280637330004156768861622172932, 29672974943102342268093654538777318652314507658860930799795262291229941502293, 16050350723103250890473913864431532585275791087270048112011424268709066816455),
     (False, 75020465796985638222414022456694863697062557837347130468453961105167080497318, 2014358257184765284957457152615055874386059571820648550389434680858222400364, 48604963661829558697839589284139738379462822560271567255694517158361328698938, False, 43639684784667188743081762555916130342023854361814389454909656908293607882207, 28273688661336892490111891009173614641189167575431055236538042287429440767660, 73312659727769531011175417094693448994338362020675320254704919199523549384500, 3659868342108671616420766988896032156940574525191375826023786530716613787379),
     (False, 16970086807563651845816518547986799106644342910666557078636078328926536745059, 138178883991571247974693537446151007461839441002937868009331872246266545555525, 2487077037992411559810942240398228598769628832158757807821392531296213780557, False, 26295867645898955883599165996754965228730547786029118177154093081268563329274, 3853831118120964860202331426081565484474711795428134852572685210956976685584, 99608527373668486894774583091448414223068909806704438431859012280792112713774, 37281159542798796194087229681860881059588629746616284953535068803570255797839),
     (False, 19860645981083898970453596557905305988192999087559088582869321846620809447335, 244271612565698366455237982748746484123155224236436576840318488690280963638345, 3406495741426397120006573921766167546539565260930028443548044954629196139153, True, 37976441332477373212932229775690257743655026798229811307583243473809266382600, 6513714901158183434162119329023839704987585385893384643939432113627810334052, 61632086041191113681842353315758156479413883008474627124275768806982846331174, 111933754969036247264000782324196617267809866719838001327903399156380786533709),
     (False, 21297040984938832619900437032477958769207838296585940865923304756199368543039, 57239027296402219383502990016244850534803719149873810855156046445789931218173, 3917054764338757679713334084858866985797893899537294561744494863371136556800, True, 7079366836705352225797001114015290913853329832604944963136463536498359554801, 1302071382396700786504205532466751112351677186928934360622066949183036559028, 54552719204485761456045352201742865565560553175869682161139305270484486776373, 9140772117376008435777854489687833451258457525452397813142257003104926526902),
     (False, 8477199816980262326811160527111078680704527046834300126920716829967039594118, 75765289962354425443537391308066553419126291190493795251501590021608817438112, 620620261946037115547854764041833302220964340053447333467487892001102057490, False, 6852018732437070852303727132089055888995544697391860900179334527943094225815, 501639899069769599620278438540723451628626658586692364555119559040794223060, 61404737936922832308349079333831921454556097873261543061318639798427581002188, 57030874657725005175698257045198664565627401861923757947677706186652432026988),
     (False, 89409493243527506611587619022200037646883390736458276228481817112240241237190, 9615702818170343223111054419284522682459615177997592654794203758633588765539, 69038027870296133010675604721402021948510626382668320749562947281557384330993, True, 43312194799967890625729256496500733192527200937599300580311320093645060713807, 33443747450613617173443950491332695643549870151601888807626528210386072304940, 18092543136954941682619822837331188262028896935662242481007319704782520288381, 7055180967965002763158816345289836898907528226086457408634615501615707037402),
     (True, 97352197629548552666470490742735672340027788090142504897423307363464634765151, 3382393348235418302173774019961918559825320780807318691480575830557481762124, 81848859001803308788282730751223660820778778200710985186487396953737026921332, False, 63587998171616063697192792410522062300828816365412070760012584148487660804926, 53461608708212834787304982796867716217624743461909259771832146963240278995468, 81680541308571005379812615247853250562857713301074313241019903853270181093307, 114362542583756471504012178190304513583580625083513187075495838719049513922840)]
    (81680541308571005379812615247853250562857713301074313241019903853270181093307, 114362542583756471504012178190304513583580625083513187075495838719049513922840)"
  by (simp only: table_unfold, simp only: shift_fp, simp only: table_arith)

lemma dbl_27: "dbl_chain (81680541308571005379812615247853250562857713301074313241019903853270181093307, 114362542583756471504012178190304513583580625083513187075495838719049513922840)
    [(True, 93290350796658180840617166905966360095152621431995977840937902882317110748682, 11423154681027873618442429063222419220590407719112696498902707724704642531816, 75161348336611168562623147720187728715227263942544237062257837448607168025195, True, 7447133970890384424381562246961359082940350241536056461510935324403176838242, 5999941319928590522747317512543969655888075359927741099489733478565753161817, 74233407337680620955431053000891891479917363059538256779508968528867004255065, 36574075506151029705097561057618238328869821855955277917031736027599178985237),
     (False, 53817005169596426809130346503354385224050661311688224580896508297971625008378, 108774113668760657944865689296733565244747505640117874667643690640368239656500, 25012676299179607771737321964540003351612416508423119445207117448653472167559, False, 12684971949050192449311595345702816101448031574855601293334787523830375250080, 5895629015882401647931157346606291256704132003691160978265479128310748398587, 86918379286730813404742648346594707581365394634393858072843756052697379505145, 64558221901794699608373568337782818153567050029843807329178389260034636611760),
     (False, 102999452582817225344846448781240149226508920593546806738752574849070365969210, 80881958397625693342080072982999459908953271852748687678761637307294097479472, 91620138341982459443291432482996555562034786782079948552891216265773547424769, True, 3315920240923561869961114773512828635405232197251062392651192768751992403654, 2949579474319249971634319990781306259080839188806985962414262653367832461762, 83602459045807251534781533573081878945960162437142795680192563283945387101491, 100796919476508984083797843249539804149185341809964728733444481681293150759918),
     (False, 17454523513033694446615956897157109231445948470191068308576494542006204945940, 150695865256646671918630632117548978671035391808691790650631764251615185673400, 2631098489928600335760885752198443746614548634259839120443948257705903426229, False, 10875392013653203839363011522442207199531224239690860977753793543458216498348, 1639358844894138897258303891276570735061041520650710998728926511010983141092, 94477851059460455374144545095524086145491386676833656657946356827403603599839, 2990570528778462168034318511266480684980306827005471533988189049155652587454),
     (False, 3917757574939746193695862672487595927102115613217486661383543884741826460658, 231058620189079824943255195197823972329881949986734430293343237188952175679096, 132555034809968590648957241173486029957062195485977459400768243136670406098, True, 61108137454064558506031481268952063178584410806249730343533951509023052799751, 2067558069240782772333740175418325791162937525264731864397492484374387707144, 33369713605395896868113063826572022966906975870583926314412405318380550800088, 113750931263973947912004928450109131748533234128808512257097347558188429782760),
     (True, 81228737757142240735689774546607530687238570353985676396873811821071372602218, 130743610167728619890928765659472166741481729443417677074887334074591323585181, 56982371443631071889544631383664192703146987863384668123270040061376074034764, False, 71563516233899986495953697175617248537104246823838598016154359554669037366696, 50202169533206309637345466907642896028726855990279685838454840836458201763421, 104933229839295883364066761002189271504011222694422524330566764873049588166784, 48185041986269240445195008260916082897393802288889058392724603854552673411883),
     (False, 58139172593036307009114103953841911700527492915180906795707520264991618005753, 236890718663891003925777864802272479633782749915232307914747904654497304815017, 29191660784893653699641545647262522852597052468371335193898931568495206203902, True, 33462530098980308986132177795449005655536911416970124945300493352237545720145, 16801526132670276559925795101683425334343639121440494358757469258115865840015, 71470699740315574377934583206740265848474311277452399385266271520812042446639, 96855356267175287585442651619462057231770436524740499495318232565556062933037),
     (True, 110243780524394915764662335023594604513727873048050624865454128451698646027532, 52086619689479131627909803917242831970006904555124640588634795521805021968808, 104961325313266306736085402159103736944489329990927840193129604104294556792021, True, 23994246919595628441409764174117947260986588596353043288373487512292165453864, 22844535488487028271939474736217741441177660992896266100585627440480761154722, 47476452820719945936524819032622318587487722681099356096892784008519876992775, 92218806925569787283702304838387293055019874979186897299806248868160486843989)]
    (47476452820719945936524819032622318587487722681099356096892784008519876992775, 92218806925569787283702304838387293055019874979186897299806248868160486843989)"
  by (simp only: table_unfold, simp only: shift_fp, simp only: table_arith)

lemma point_0: "comb curve_G Q (2 ^ 0) 0 (48439561293906451759052585252797914202762949526041747995844080717082404635286, 36134250956749795798585127919587881956611106672985015071877198253568414405109)"
  using comb.first [of curve_G Q] by (simp add: curve_G_def)

lemma point_1: "comb curve_G Q (2 ^ 8) 0 (23807964934059478435436331776350117849069612297768742934782236087921044112411, 86241443812278992969236146751152550194975751834835207077668085446343782543686)"
  by (rule comb_dbl_chain_8 [OF dbl_0 point_0]) simp_all

lemma point_2: "comb curve_G Q (2 ^ 16) 0 (72412835798008492899815071849086056607001213471145009021285164652312939848644, 102554733615261634604727271955114922528443021960973746229359109862289549224144)"
  by (rule comb_dbl_chain_8 [OF dbl_1 point_1]) simp_all

lemma point_3: "comb curve_G Q (2 ^ 24) 0 (112607987952473600112633811304579709354947280056396786048007260552010776369157, 103808385594532261808417197518044123929568276946600525334048096014844982592250)"
  by (rule comb_dbl_chain_8 [OF dbl_2 point_2]) simp_all

lemma point_4: "comb curve_G Q (2 ^ 32) 0 (57845546284519137759868071879580864747474048681904255205518830050186748385603, 104300214627605143922035278089265480928211230602089785806215194357861799731457)"
  by (rule comb_dbl_chain_8 [OF dbl_3 point_3]) simp_all

lemma point_5: "comb curve_G Q (2 ^ 40) 0 (7117219637401806100122437217092395421691934786284425072844278260020446687165, 85713522139911406441953761439054025020922327004638518913134088988167330274464)"
  by (rule comb_dbl_chain_8 [OF dbl_4 point_4]) simp_all

lemma point_6: "comb curve_G Q (2 ^ 48) 0 (98092631963333567695581428574760586152002567019959164777040722049080886644996, 21630765968448461105271151841110683038982663250507450270450825045654914336973)"
  by (rule comb_dbl_chain_8 [OF dbl_5 point_5]) simp_all

lemma point_7: "comb curve_G Q (2 ^ 56) 0 (89225862004345790356528446323174017721198182957844604012241004401242540288310, 95209934060019944793889086016910086133023171690774878270761621044126749999060)"
  by (rule comb_dbl_chain_8 [OF dbl_6 point_6]) simp_all

lemma point_8: "comb curve_G Q (2 ^ 64) 0 (7081762767697287976009771493310263771290289599581147299482766892475312560995, 86823381773038968119624426030239743822549553315161612703449942820586000887527)"
  by (rule comb_dbl_chain_8 [OF dbl_7 point_7]) simp_all

lemma point_9: "comb curve_G Q (2 ^ 72) 0 (13212105601100510411178965927701641127252901966803032931296236503164112265777, 90071079968428487887086919557028894780640441813301232398042267138458717170801)"
  by (rule comb_dbl_chain_8 [OF dbl_8 point_8]) simp_all

lemma point_10: "comb curve_G Q (2 ^ 80) 0 (49828575028116926929291416935656016227672925058314425183204974794407737923148, 23672863131373800715754284801418136550634499790773327485690127428126502803599)"
  by (rule comb_dbl_chain_8 [OF dbl_9 point_9]) simp_all

lemma point_11: "comb curve_G Q (2 ^ 88) 0 (103365466470076108927944452739687362217644273769883589823091557398990243049040, 37085166945523027654288719515866511111043056876916268075215569955140458713213)"
  by (rule comb_dbl_chain_8 [OF dbl_10 point_10]) simp_all

lemma point_12: "comb curve_G Q (2 ^ 96) 0 (33632488769642950967021600273968758828948451862976580774715929826193342341518, 106327573413143454726973223825755236374448084397347156576106396005572147099712)"
  by (rule comb_dbl_chain_8 [OF dbl_11 point_11]) simp_all

lemma point_13: "comb curve_G Q (2 ^ 104) 0 (57420640154133845039497834392177297957514616735403271126116002396327270721504, 79477240558435729206654018530853216235658723743830549399789455872863532400788)"
  by (rule comb_dbl_chain_8 [OF dbl_12 point_12]) simp_all

lemma point_14: "comb curve_G Q (2 ^ 112) 0 (15509398460211915393272704735499616362531751093922370432373761917447899887412, 113194222376370553965194936371675455401819348664364389753912165021022524571615)"
  by (rule comb_dbl_chain_8 [OF dbl_13 point_13]) simp_all

lemma point_15: "comb curve_G Q (2 ^ 120) 0 (103990559961528829024902850551357948995143774110532881982706365252429038814624, 53944697478762543190168943023869476502329443433182164573196768012308394188637)"
  by (rule comb_dbl_chain_8 [OF dbl_14 point_14]) simp_all

lemma point_16: "comb curve_G Q (2 ^ 128) 0 (30978927491535595270285342502287618780579786685182435011955893029189825707397, 20481551163499472379222416201371726725754635744576161296521936142531318405938)"
  by (rule comb_dbl_chain_8 [OF dbl_15 point_15]) simp_all

lemma point_17: "comb curve_G Q (2 ^ 136) 0 (52346371197013204429054924636063649166309485559466661811557924144827536847767, 13837714228740263282693401806583472847257885100427106907885067792964432738532)"
  by (rule comb_dbl_chain_8 [OF dbl_16 point_16]) simp_all

lemma point_18: "comb curve_G Q (2 ^ 144) 0 (112228992901179912293628150016219261272876035178879527089071247139242795299181, 99733721457467590523432373406435321475591824701196331116730341190616408597505)"
  by (rule comb_dbl_chain_8 [OF dbl_17 point_17]) simp_all

lemma point_19: "comb curve_G Q (2 ^ 152) 0 (7785993606773333792193679352390105545968002031986568815324935175900910554134, 56956191094375988786905683381974353865692849880243256252184579681574147621159)"
  by (rule comb_dbl_chain_8 [OF dbl_18 point_18]) simp_all

lemma point_20: "comb curve_G Q (2 ^ 160) 0 (62566479406992028833701513127517003117705273657914355007164325641786804940586, 1960762099875877323026688903614507008077244983723853261330124348966713726135)"
  by (rule comb_dbl_chain_8 [OF dbl_19 point_19]) simp_all

lemma point_21: "comb curve_G Q (2 ^ 168) 0 (82717459767454249683072897032847031229176136207207958455822059572581863039493, 85805433368587367880126356575098861654724609093913266103811978519729986039045)"
  by (rule comb_dbl_chain_8 [OF dbl_20 point_20]) simp_all

lemma point_22: "comb curve_G Q (2 ^ 176) 0 (14871719712342859160997617440955660397550360063440050957787357544752195499387, 115522999277858285232599478460575039716918995182448551431431483484331171098598)"
  by (rule comb_dbl_chain_8 [OF dbl_21 point_21]) simp_all

lemma point_23: "comb curve_G Q (2 ^ 184) 0 (84582205370005874077518281568406727210306111666141917327302932152103889682099, 7083716223479420784268023608336111553799478968134901287459017916559339090823)"
  by (rule comb_dbl_chain_8 [OF dbl_22 point_22]) simp_all

lemma point_24: "comb curve_G Q (2 ^ 192) 0 (75457776083317821252662798697757590755920885718289763058263534551782236039358, 46728718496393669138731607516029863508010621830530871863089645384465424840180)"
  by (rule comb_dbl_chain_8 [OF dbl_23 point_23]) simp_all

lemma point_25: "comb curve_G Q (2 ^ 200) 0 (18237953952471228309905291387835273685646523595235494003618377407641490164654, 54459089004298369762383803595673620255175363628672685417955970876315516578711)"
  by (rule comb_dbl_chain_8 [OF dbl_24 point_24]) simp_all

lemma point_26: "comb curve_G Q (2 ^ 208) 0 (38823327757628624724089628891002757420915028675684770719291136547692318799967, 39545809553270835688737613624365890833564499219726466994068294581334328578927)"
  by (rule comb_dbl_chain_8 [OF dbl_25 point_25]) simp_all

lemma point_27: "comb curve_G Q (2 ^ 216) 0 (81680541308571005379812615247853250562857713301074313241019903853270181093307, 114362542583756471504012178190304513583580625083513187075495838719049513922840)"
  by (rule comb_dbl_chain_8 [OF dbl_26 point_26]) simp_all

lemma point_28: "comb curve_G Q (2 ^ 224) 0 (47476452820719945936524819032622318587487722681099356096892784008519876992775, 92218806925569787283702304838387293055019874979186897299806248868160486843989)"
  by (rule comb_dbl_chain_8 [OF dbl_27 point_27]) simp_all

lemma entry_0_1: "comb curve_G Q (weight 0 1) 0 (48439561293906451759052585252797914202762949526041747995844080717082404635286, 36134250956749795798585127919587881956611106672985015071877198253568414405109)"
  using point_0 by (simp add: weight_def)

lemma entry_0_2: "comb curve_G Q (weight 0 2) 0 (7081762767697287976009771493310263771290289599581147299482766892475312560995, 86823381773038968119624426030239743822549553315161612703449942820586000887527)"
  using point_8 by (simp add: weight_def)

lemma entry_0_4: "comb curve_G Q (weight 0 4) 0 (30978927491535595270285342502287618780579786685182435011955893029189825707397, 20481551163499472379222416201371726725754635744576161296521936142531318405938)"
  using point_16 by (simp add: weight_def)

lemma entry_0_8: "comb curve_G Q (weight 0 8) 0 (75457776083317821252662798697757590755920885718289763058263534551782236039358, 46728718496393669138731607516029863508010621830530871863089645384465424840180)"
  using point_24 by (simp add: weight_def)

lemma entry_0_3: "comb curve_G Q (weight 0 3) 0 (21729207916606555546297041327834946008984629572610742919019413779073285591727, 51865408248024591258804126641916765844540929952618999493965898570168503707552)"
proof -
  have "add_cert (7081762767697287976009771493310263771290289599581147299482766892475312560995, 86823381773038968119624426030239743822549553315161612703449942820586000887527) (48439561293906451759052585252797914202762949526041747995844080717082404635286, 36134250956749795798585127919587881956611106672985015071877198253568414405109)
    (True, 41357798526209163783042813759487650431472659926460600696361313824607092074291, 70032279162408369240453864193721445911189163017923524388239250027767846314838, 25013633588287257300202154972641936850866338770801128294291359845988563812076, 42356262488464069344668152887392018378610929952737516647026378633388511236036, False, 14647445148909267570287269834524682237694339973029595619536646886597973030732, 8858929609784886526869943938138301838921606848218602964938456382091545653745, 21729207916606555546297041327834946008984629572610742919019413779073285591727, 51865408248024591258804126641916765844540929952618999493965898570168503707552)"
    by (simp only: add_cert.simps table_unfold, simp only: shift_fp, simp only: table_arith)
  from comb_add_cert [OF this entry_0_2 entry_0_1] show ?thesis by (simp add: weight_def)
qed

lemma entry_0_5: "comb curve_G Q (weight 0 5) 0 (108366204930306104932991339377656543694670367048014306868751620638180911167103, 43928454372619966475721234631497494981956455921623691300904838618370769606824)"
proof -
  have "add_cert (30978927491535595270285342502287618780579786685182435011955893029189825707397, 20481551163499472379222416201371726725754635744576161296521936142531318405938) (48439561293906451759052585252797914202762949526041747995844080717082404635286, 36134250956749795798585127919587881956611106672985015071877198253568414405109)
    (True, 17460633802370856488767242750510295422183162840859312983888187687892578927889, 9897591890787393765840598839346640897443206449650303523855175444749366026410, 1492487342692297462779437224115404712084459160627693324174066290341540411769, 846019152989069581415753013489497824090860468939620388489875468523947673014, False, 77387277438770509662705996875368924914090580362831871856795727608991085459706, 6614853353553484040266085013452922570739791860702381388946150160527945676322, 108366204930306104932991339377656543694670367048014306868751620638180911167103, 43928454372619966475721234631497494981956455921623691300904838618370769606824)"
    by (simp only: add_cert.simps table_unfold, simp only: shift_fp, simp only: table_arith)
  from comb_add_cert [OF this entry_0_4 entry_0_1] show ?thesis by (simp add: weight_def)
qed

lemma entry_0_6: "comb curve_G Q (weight 0 6) 0 (38457879759995320710032972713786662816265442417290357605422719127911069643964, 9698917286546667909803311971419146876750538247013587910942280266369471256140)"
proof -
  have "add_cert (30978927491535595270285342502287618780579786685182435011955893029189825707397, 20481551163499472379222416201371726725754635744576161296521936142531318405938) (7081762767697287976009771493310263771290289599581147299482766892475312560995, 86823381773038968119624426030239743822549553315161612703449942820586000887527)
    (False, 23897164723838307294275571008977355009289497085601287712473126136714513146402, 69967732957110975107067317293712126427881088292410956698368122297926317614831, 14439936710979282948546220725170757063595436513090190413972217700168878850701, 42278222014494488736927262239293402389229304963713070065946236458564639373955, False, 7478952268459725439747630211499044035685655732107922593466826098721243936567, 4519180357545251587189694130081622783178468625539927893479981303094154942505, 38457879759995320710032972713786662816265442417290357605422719127911069643964, 9698917286546667909803311971419146876750538247013587910942280266369471256140)"
    by (simp only: add_cert.simps table_unfold, simp only: shift_fp, simp only: table_arith)
  from comb_add_cert [OF this entry_0_4 entry_0_2] show ?thesis by (simp add: weight_def)
qed

lemma entry_0_7: "comb curve_G Q (weight 0 7) 0 (106458659380896266356048293264350808133859192547806843838224247653571323813377, 106289012033705054575071135648897750308422013138229951714239074064087389975673)"
proof -
  have "add_cert (30978927491535595270285342502287618780579786685182435011955893029189825707397, 20481551163499472379222416201371726725754635744576161296521936142531318405938) (21729207916606555546297041327834946008984629572610742919019413779073285591727, 51865408248024591258804126641916765844540929952618999493965898570168503707552)
    (False, 9249719574929039723988301174452672771595157112571692092936479250116540115670, 21769302739414977425386953581054128463409209866978590411043322221912258837688, 1738978431553455309610914852095657991123029013897583798898204697222298190274, 4092702230282545054199767136633424559515866115605389269729387667943418325493, False, 75479731889360671085762950762063189353279405862624408826268354624381498105980, 14190443797972405189228095865253621133663554899353684682879440410522022446901, 106458659380896266356048293264350808133859192547806843838224247653571323813377, 106289012033705054575071135648897750308422013138229951714239074064087389975673)"
    by (simp only: add_cert.simps table_unfold, simp only: shift_fp, simp only: table_arith)
  from comb_add_cert [OF this entry_0_4 entry_0_3] show ?thesis by (simp add: weight_def)
qed

lemma entry_0_9: "comb curve_G Q (weight 0 9) 0 (35489983812423771351545566508668634093158458959327260928511531739442493295166, 30180512093179816592868160667264210818622451372567985753498217385324160793520)"
proof -
  have "add_cert (75457776083317821252662798697757590755920885718289763058263534551782236039358, 46728718496393669138731607516029863508010621830530871863089645384465424840180) (48439561293906451759052585252797914202762949526041747995844080717082404635286, 36134250956749795798585127919587881956611106672985015071877198253568414405109)
    (False, 27018214789411369493610213444959676553157936192248015062419453834699831404072, 24322198557790986010041383367483954449118918339228365764889834948738395924941, 5675192401022284997431765451907740528018132442769239991243882458240649162231, 5108892556640224759112797654750682397412482820612785441892784056548025935721, True, 39967792270894049901117232189088956662762426758962502129752002812339742744192, 8395259003948307614361556931916645052218041414817271171893554695889694049572, 35489983812423771351545566508668634093158458959327260928511531739442493295166, 30180512093179816592868160667264210818622451372567985753498217385324160793520)"
    by (simp only: add_cert.simps table_unfold, simp only: shift_fp, simp only: table_arith)
  from comb_add_cert [OF this entry_0_8 entry_0_1] show ?thesis by (simp add: weight_def)
qed

lemma entry_0_10: "comb curve_G Q (weight 0 10) 0 (54517052866858706098768984500776604662344453370717068886481814222977016293561, 82680045726600004874009073476898308637426628457314231814768266087298530072950)"
proof -
  have "add_cert (75457776083317821252662798697757590755920885718289763058263534551782236039358, 46728718496393669138731607516029863508010621830530871863089645384465424840180) (7081762767697287976009771493310263771290289599581147299482766892475312560995, 86823381773038968119624426030239743822549553315161612703449942820586000887527)
    (False, 68376013315620533276653027204447326984630596118708615758780767659306923478363, 102258968582138059646918975622886162716244769016071470052839740423714404655192, 60384613880760134412004753319287231351516209146165215384313946413960039370693, 90307522100978307600109776758708063505540872123650834642148162438393030135450, True, 20940723216459115153893814196980986093576432347572694171781720328805219745797, 18493290621857270993450788518211060959478982020342500207377042164231797468594, 54517052866858706098768984500776604662344453370717068886481814222977016293561, 82680045726600004874009073476898308637426628457314231814768266087298530072950)"
    by (simp only: add_cert.simps table_unfold, simp only: shift_fp, simp only: table_arith)
  from comb_add_cert [OF this entry_0_8 entry_0_2] show ?thesis by (simp add: weight_def)
qed

lemma entry_0_11: "comb curve_G Q (weight 0 11) 0 (5669344999982482905834471830265755603336824369702711370224935837570705274227, 100126992921736728708071934511852209930208620155755842631295754638145905798312)"
proof -
  have "add_cert (75457776083317821252662798697757590755920885718289763058263534551782236039358, 46728718496393669138731607516029863508010621830530871863089645384465424840180) (21729207916606555546297041327834946008984629572610742919019413779073285591727, 51865408248024591258804126641916765844540929952618999493965898570168503707552)
    (False, 53728568166711265706365757369922644746936256145679020139244120772708950447631, 109823388512617430744799223502923837103545458302658105979127517154737227570758, 50959037497629295040170679298387839398425222556341707893676541468567998170170, 104162354670724595498504178356574071788106494661115657602973719376888249873852, True, 69788431083335338346828326867491835152584061348587051688038598714211530765131, 66191067393450849621856580825131583996632164156472832880784412555463929582106, 5669344999982482905834471830265755603336824369702711370224935837570705274227, 100126992921736728708071934511852209930208620155755842631295754638145905798312)"
    by (simp only: add_cert.simps table_unfold, simp only: shift_fp, simp only: table_arith)
  from comb_add_cert [OF this entry_0_8 entry_0_3] show ?thesis by (simp add: weight_def)
qed

lemma entry_0_12: "comb curve_G Q (weight 0 12) 0 (47470354137431859982936057682320936404328776989147786484477888238031786388748, 22491549190799778619636421166457245514908418327910839458066039802263860563274)"
proof -
  have "add_cert (75457776083317821252662798697757590755920885718289763058263534551782236039358, 46728718496393669138731607516029863508010621830530871863089645384465424840180) (30978927491535595270285342502287618780579786685182435011955893029189825707397, 20481551163499472379222416201371726725754635744576161296521936142531318405938)
    (False, 44478848591782225982377456195469971975341099033107328046307641522592410331961, 109045738159136839147523067334593981545875919131861804888357485210238440937406, 41887394123687515846139051736541099872776623819782855621193680623457598859124, 102692447228143834470494929299316540560742276595194786513942546166111571665483, True, 27987421945885961269726741015436654351592108729141976573785646313750449650610, 26356801281269247400324768194272112199038631255962252275014663075090843465506, 47470354137431859982936057682320936404328776989147786484477888238031786388748, 22491549190799778619636421166457245514908418327910839458066039802263860563274)"
    by (simp only: add_cert.simps table_unfold, simp only: shift_fp, simp only: table_arith)
  from comb_add_cert [OF this entry_0_8 entry_0_4] show ?thesis by (simp add: weight_def)
qed

lemma entry_0_13: "comb curve_G Q (weight 0 13) 0 (29094224035907621874836851205563739652227354421088298351861828484446769655423, 115253734516020948877011800015076090401255970573084553476626782912304022103531)"
proof -
  have "add_cert (75457776083317821252662798697757590755920885718289763058263534551782236039358, 46728718496393669138731607516029863508010621830530871863089645384465424840180) (108366204930306104932991339377656543694670367048014306868751620638180911167103, 43928454372619966475721234631497494981956455921623691300904838618370769606824)
    (True, 32908428846988283680328540679898952938749481329724543810488086086398675127745, 103936178123991419992340176239483161471579671584318897201556178749326451007794, 29538946449161737392268868116885196614382369937198591895172171968153457693186, 93294189583167955980965083338226077129341251037429164313514538222261736284152, True, 46363552047410199377825947492193851103693531297201464706401706067335466383935, 41616404340941658558765986283767724690763168213230653208773021005937996586129, 29094224035907621874836851205563739652227354421088298351861828484446769655423, 115253734516020948877011800015076090401255970573084553476626782912304022103531)"
    by (simp only: add_cert.simps table_unfold, simp only: shift_fp, simp only: table_arith)
  from comb_add_cert [OF this entry_0_8 entry_0_5] show ?thesis by (simp add: weight_def)
qed

lemma entry_0_14: "comb curve_G Q (weight 0 14) 0 (13961148497646112040461672884707887031087477867437100292945462479321587568556, 30333765464279778477812856181728754823991814751231927674604374234715463612484)"
proof -
  have "add_cert (75457776083317821252662798697757590755920885718289763058263534551782236039358, 46728718496393669138731607516029863508010621830530871863089645384465424840180) (38457879759995320710032972713786662816265442417290357605422719127911069643964, 9698917286546667909803311971419146876750538247013587910942280266369471256140)
    (False, 36999896323322500542629825983970927939655443300999405452840815423871166395394, 60508819366524239059477604822924125077834362472942052545613396106763105501917, 19334827262170248744729558736994065698607875930965462093412518141738312562158, 31619752662716416301393436450603040024191543719036254607756707968457046932061, True, 61496627585671709212201125813049703724833407850852662765318072072460648470802, 32135946035759178834586311520387424043067410245059196651920840040587183908270, 13961148497646112040461672884707887031087477867437100292945462479321587568556, 30333765464279778477812856181728754823991814751231927674604374234715463612484)"
    by (simp only: add_cert.simps table_unfold, simp only: shift_fp, simp only: table_arith)
  from comb_add_cert [OF this entry_0_8 entry_0_6] show ?thesis by (simp add: weight_def)
qed

lemma entry_0_15: "comb curve_G Q (weight 0 15) 0 (81667472161341151517176727940574969284804708266218041660953638461019468429541, 113417593452504737704357772404634119499760595330104521843097463233870362057517)"
proof -
  have "add_cert (75457776083317821252662798697757590755920885718289763058263534551782236039358, 46728718496393669138731607516029863508010621830530871863089645384465424840180) (106458659380896266356048293264350808133859192547806843838224247653571323813377, 106289012033705054575071135648897750308422013138229951714239074064087389975673)
    (True, 31000883297578445103385494566593217377938306829517080779960713101789087774019, 91179733395807370979696930450651847457188616138473514582464393003814343379503, 24411445491519202030060330044550797360077348728989303611902150241229638654264, 71798892643064451887332566966848530229823334967077674215428018554137948506883, False, 6209696078023330264513929242817378528883822547928278602690103909237232390183, 4889785102975049089899373022911684262612746219133755180685971642131660485046, 81667472161341151517176727940574969284804708266218041660953638461019468429541, 113417593452504737704357772404634119499760595330104521843097463233870362057517)"
    by (simp only: add_cert.simps table_unfold, simp only: shift_fp, simp only: table_arith)
  from comb_add_cert [OF this entry_0_8 entry_0_7] show ?thesis by (simp add: weight_def)
qed

lemma entry_1_1: "comb curve_G Q (weight 1 1) 0 (57845546284519137759868071879580864747474048681904255205518830050186748385603, 104300214627605143922035278089265480928211230602089785806215194357861799731457)"
  using point_4 by (simp add: weight_def)

lemma entry_1_2: "comb curve_G Q (weight 1 2) 0 (33632488769642950967021600273968758828948451862976580774715929826193342341518, 106327573413143454726973223825755236374448084397347156576106396005572147099712)"
  using point_12 by (simp add: weight_def)

lemma entry_1_4: "comb curve_G Q (weight 1 4) 0 (62566479406992028833701513127517003117705273657914355007164325641786804940586, 1960762099875877323026688903614507008077244983723853261330124348966713726135)"
  using point_20 by (simp add: weight_def)

lemma entry_1_8: "comb curve_G Q (weight 1 8) 0 (47476452820719945936524819032622318587487722681099356096892784008519876992775, 92218806925569787283702304838387293055019874979186897299806248868160486843989)"
  using point_28 by (simp add: weight_def)

lemma entry_1_3: "comb curve_G Q (weight 1 3) 0 (3395384241117303854983533355081726040937970496762470208307413726375849505409, 47515587280345402536087222226128854640418345863507137927261535596379304714112)"
proof -
  have "add_cert (33632488769642950967021600273968758828948451862976580774715929826193342341518, 106327573413143454726973223825755236374448084397347156576106396005572147099712) (57845546284519137759868071879580864747474048681904255205518830050186748385603, 104300214627605143922035278089265480928211230602089785806215194357861799731457)
    (True, 24213057514876186792846471605612105918525596818927674430802900223993406044085, 30302587873131272639863836712847238103173325813337566409468576637315499199723, 6336514938328745881153545993217332767889475647811460730031472975481481677210, 7930134416529000849907832188520314972067523229936689951628418469230792330649, True, 30237104528525647112038066918887032788010481366214110566408516099817492836109, 7912997539410101517567892076188660373165378893481765215810176441018770983633, 3395384241117303854983533355081726040937970496762470208307413726375849505409, 47515587280345402536087222226128854640418345863507137927261535596379304714112)"
    by (simp only: add_cert.simps table_unfold, simp only: shift_fp, simp only: table_arith)
  from comb_add_cert [OF this entry_1_2 entry_1_1] show ?thesis by (simp add: weight_def)
qed

lemma entry_1_5: "comb curve_G Q (weight 1 5) 0 (3044018534690075340480146032507441724226895120876682271253400161539006641625, 41286674475413899592249272889158119102002729149895498060922945699044915731145)"
proof -
  have "add_cert (62566479406992028833701513127517003117705273657914355007164325641786804940586, 1960762099875877323026688903614507008077244983723853261330124348966713726135) (57845546284519137759868071879580864747474048681904255205518830050186748385603, 104300214627605143922035278089265480928211230602089785806215194357861799731457)
    (False, 4720933122472891073833441247936138370231224976010099801645495591600056554983, 57134932071025652716592715905469226121153057914175098644634414092179441613243, 2329435413971436031211833201700680709664297946571170541640411494058046293241, 28191912634293787499465412311830511351533349779493618644151832665558176493485, True, 59522460872301953493221367095009561393478378537037672735910925480247798298961, 29369983578593999277795254698087603287267212175869030643958941811568990455893, 3044018534690075340480146032507441724226895120876682271253400161539006641625, 41286674475413899592249272889158119102002729149895498060922945699044915731145)"
    by (simp only: add_cert.simps table_unfold, simp only: shift_fp, simp only: table_arith)
  from comb_add_cert [OF this entry_1_4 entry_1_1] show ?thesis by (simp add: weight_def)
qed

lemma entry_1_6: "comb curve_G Q (weight 1 6) 0 (28116764293257082408411572006964798724461701808694168505321956094700476445706, 16105811162060748257356537467737120711452868441758399463969585499419893807184)"
proof -
  have "add_cert (62566479406992028833701513127517003117705273657914355007164325641786804940586, 1960762099875877323026688903614507008077244983723853261330124348966713726135) (33632488769642950967021600273968758828948451862976580774715929826193342341518, 106327573413143454726973223825755236374448084397347156576106396005572147099712)
    (False, 28933990637349077866679912853548244288756821794937774232448395815593462599068, 24763515831861072883429364173811339665368760057706258632491163050226700264079, 6187878119421915907999821328071161310648542134667478256967081372823684450899, 5295972467003277769807738817382773301337355394484737009254611035886598240481, True, 34449715113734946425289941120552204393243571849220186501842369547086328494880, 7367481418115561184177619105101316105099378772476013921198975054174459315751, 28116764293257082408411572006964798724461701808694168505321956094700476445706, 16105811162060748257356537467737120711452868441758399463969585499419893807184)"
    by (simp only: add_cert.simps table_unfold, simp only: shift_fp, simp only: table_arith)
  from comb_add_cert [OF this entry_1_4 entry_1_2] show ?thesis by (simp add: weight_def)
qed

lemma entry_1_7: "comb curve_G Q (weight 1 7) 0 (58827710314362920178717106852602005603789870913715296154970528213606235058730, 9053372145611279828781727726465169128135905795753115567591918847033255783380)"
proof -
  have "add_cert (62566479406992028833701513127517003117705273657914355007164325641786804940586, 1960762099875877323026688903614507008077244983723853261330124348966713726135) (3395384241117303854983533355081726040937970496762470208307413726375849505409, 47515587280345402536087222226128854640418345863507137927261535596379304714112)
    (False, 59171095165874724978717979772435277076767303161151884798856911915410955435177, 68813712808013695174166553094009118749370611403367737992761714738558347192170, 35164602150696642217001342708206123484135787786239430128440394478374606329917, 40895082753203043738368241777405899040008382219719163459463622911358088125425, True, 3738769092629108654984406274914997513915402744199058852193797428180569881856, 2221901205429212293109345908012956340436246933412702306173393490323417775755, 58827710314362920178717106852602005603789870913715296154970528213606235058730, 9053372145611279828781727726465169128135905795753115567591918847033255783380)"
    by (simp only: add_cert.simps table_unfold, simp only: shift_fp, simp only: table_arith)
  from comb_add_cert [OF this entry_1_4 entry_1_3] show ?thesis by (simp add: weight_def)
qed

lemma entry_1_9: "comb curve_G Q (weight 1 9) 0 (94397291898583035611209212372722053804340167464948254355449659271308459304129, 68335194852228053209618111363108276085092416661044275487355434915393459538278)"
proof -
  have "add_cert (47476452820719945936524819032622318587487722681099356096892784008519876992775, 92218806925569787283702304838387293055019874979186897299806248868160486843989) (57845546284519137759868071879580864747474048681904255205518830050186748385603, 104300214627605143922035278089265480928211230602089785806215194357861799731457)
    (True, 10369093463799191823343252846958546159986326000804899108626046041666871392828, 72851206012081953613883762438367952188406734110301460327216215956729363795816, 6523770054079010320273793456532982018660160684623075860138489863484914159180, 45834721988418272709426304020087667447278625404283485233045768301261562692299, False, 46920839077863089674684393340099735216852444783848898258556875262788582311354, 29520494338014136150398400948841660257933885075810616246769700992916926912181, 94397291898583035611209212372722053804340167464948254355449659271308459304129, 68335194852228053209618111363108276085092416661044275487355434915393459538278)"
    by (simp only: add_cert.simps table_unfold, simp only: shift_fp, simp only: table_arith)
  from comb_add_cert [OF this entry_1_8 entry_1_1] show ?thesis by (simp add: weight_def)
qed

lemma entry_1_10: "comb curve_G Q (weight 1 10) 0 (67885908358705036854164505680709756155597296305851560783239826018535485120457, 55541939544837935969183052716060529753040611325363801086773630544324727962206)"
proof -
  have "add_cert (47476452820719945936524819032622318587487722681099356096892784008519876992775, 92218806925569787283702304838387293055019874979186897299806248868160486843989) (33632488769642950967021600273968758828948451862976580774715929826193342341518, 106327573413143454726973223825755236374448084397347156576106396005572147099712)
    (False, 13843964051076994969503218758653559758539270818122775322176854182326534651257, 105849310469971879815685277372469391598977764073394251188227963867754873273714, 12655217286178112288686145296868925556792765026215046653298159358589833918771, 96760293413605883429531363321060288541351147648894471716052459268441925032346, False, 20409455537985090917639686648087437568109573624752204686347042010015608127682, 18656946346642607011557391973829727211558757453471005519094453611555500674793, 67885908358705036854164505680709756155597296305851560783239826018535485120457, 55541939544837935969183052716060529753040611325363801086773630544324727962206)"
    by (simp only: add_cert.simps table_unfold, simp only: shift_fp, simp only: table_arith)
  from comb_add_cert [OF this entry_1_8 entry_1_2] show ?thesis by (simp add: weight_def)
qed

lemma entry_1_11: "comb curve_G Q (weight 1 11) 0 (16699539995174227369980510155490489967309653441043343107405121080627087725760, 47932033255837264280214579570130369822435524816229674670928108182315957116394)"
proof -
  have "add_cert (47476452820719945936524819032622318587487722681099356096892784008519876992775, 92218806925569787283702304838387293055019874979186897299806248868160486843989) (3395384241117303854983533355081726040937970496762470208307413726375849505409, 47515587280345402536087222226128854640418345863507137927261535596379304714112)
    (False, 44081068579602642081541285677540592546549752184336885888585370282144027487366, 68287486993201012402419016592869479201202048956337873835787295158176517343927, 25996468479012393130115429928538725155674017469033900732868960425401010534155, 40272016090625389880869427236315527269452728692395428575168914273082081974135, True, 30776912825545718566544308877131828620178069240056012989487662927892789267015, 18150445756680968016559479135233980331997214594898698468389403019313735050622, 16699539995174227369980510155490489967309653441043343107405121080627087725760, 47932033255837264280214579570130369822435524816229674670928108182315957116394)"
    by (simp only: add_cert.simps table_unfold, simp only: shift_fp, simp only: table_arith)
  from comb_add_cert [OF this entry_1_8 entry_1_3] show ?thesis by (simp add: weight_def)
qed

lemma entry_1_12: "comb curve_G Q (weight 1 12) 0 (103634997683722599589512798043325504428005566415016487130488194000295930656437, 12750632451629447269671675371478286168384135309329248220885657391213709308989)"
proof -
  have "add_cert (47476452820719945936524819032622318587487722681099356096892784008519876992775, 92218806925569787283702304838387293055019874979186897299806248868160486843989) (62566479406992028833701513127517003117705273657914355007164325641786804940586, 1960762099875877323026688903614507008077244983723853261330124348966713726135)
    (True, 15090026586272082897176694094894684530217550976814998910271541633266927947811, 94336334310911627124504982562695589514800623333078790399463802069272326078005, 12293912326057149438134506692433775090056396939983917302602350974448768621859, 76856234583114681500716863893113926519142951531203704620859978985883415236077, False, 56158544863002653652987979010703185840517843733917131033595409991776053663662, 45752618324263913888207426786608881406568851034742894435189972141339889539688, 103634997683722599589512798043325504428005566415016487130488194000295930656437, 12750632451629447269671675371478286168384135309329248220885657391213709308989)"
    by (simp only: add_cert.simps table_unfold, simp only: shift_fp, simp only: table_arith)
  from comb_add_cert [OF this entry_1_8 entry_1_4] show ?thesis by (simp add: weight_def)
qed

lemma entry_1_13: "comb curve_G Q (weight 1 13) 0 (14799963666998631436813155599769464937909774015221859919282398000657486824537, 111168211041721780492304148160852330953911260669454407768012008254886351716983)"
proof -
  have "add_cert (47476452820719945936524819032622318587487722681099356096892784008519876992775, 92218806925569787283702304838387293055019874979186897299806248868160486843989) (3044018534690075340480146032507441724226895120876682271253400161539006641625, 41286674475413899592249272889158119102002729149895498060922945699044915731145)
    (False, 44432434286029870596044673000114876863260827560222673825639383846980870351150, 18627601021686747870744628482378971682885970200309571204838661432940931610047, 7147894678701884305988609931638241015349549533661430204751261335820124392506, 2996642708404566862040994557507553970837185114921813838595087028000977138872, True, 32676489153721314499711663432852853649577948665877496177610386007862390168238, 5256702827420401799967509685940799949619457696832216604880151487251817265914, 14799963666998631436813155599769464937909774015221859919282398000657486824537, 111168211041721780492304148160852330953911260669454407768012008254886351716983)"
    by (simp only: add_cert.simps table_unfold, simp only: shift_fp, simp only: table_arith)
  from comb_add_cert [OF this entry_1_8 entry_1_5] show ?thesis by (simp add: weight_def)
qed

lemma entry_1_14: "comb curve_G Q (weight 1 14) 0 (13950705034386074720616972231643102789862886384624429453451157931423230696977, 26310146822516297998844284507515425937680125861372020598323308545467564210313)"
proof -
  have "add_cert (47476452820719945936524819032622318587487722681099356096892784008519876992775, 92218806925569787283702304838387293055019874979186897299806248868160486843989) (28116764293257082408411572006964798724461701808694168505321956094700476445706, 16105811162060748257356537467737120711452868441758399463969585499419893807184)
    (False, 19359688527462863528113247025657519863026020872405187591570827913819400547069, 61685259313834914785911756513235651121803363849629696204244037595601035304560, 10313376459441355832399111219375795125613486001156181906252443803251537312085, 32861236398477021030584447604862221625165488674045066709725015814290539102242, True, 33525747786333871215907846800979215797624836296474926643441626077096646295798, 17859980418293284460189445924226790778913927780503483673622854591952608796478, 13950705034386074720616972231643102789862886384624429453451157931423230696977, 26310146822516297998844284507515425937680125861372020598323308545467564210313)"
    by (simp only: add_cert.simps table_unfold, simp only: shift_fp, simp only: table_arith)
  from comb_add_cert [OF this entry_1_8 entry_1_6] show ?thesis by (simp add: weight_def)
qed

lemma entry_1_15: "comb curve_G Q (weight 1 15) 0 (9948931355867539181657524684186391997990045422966808612230429477076580762685, 33792211050017917662959067241465985437108957523965394450068444924507643808986)"
proof -
  have "add_cert (47476452820719945936524819032622318587487722681099356096892784008519876992775, 92218806925569787283702304838387293055019874979186897299806248868160486843989) (58827710314362920178717106852602005603789870913715296154970528213606235058730, 9053372145611279828781727726465169128135905795753115567591918847033255783380)
    (True, 11351257493642974242192287819979687016302148232615940058077744205086358065955, 89702344809013517883404563421249177996752899266338555177223824544833207796170, 8793644027450464905419865671193666981996259838875855313416305952487619037409, 69491022392879392865144455869210499455128911305452508115211951401242588275210, True, 37527521464852406754867294348435926589497677258132547484662354531443296230090, 29071991819340710871032918248615244110339453874575054476655899082620639856075, 9948931355867539181657524684186391997990045422966808612230429477076580762685, 33792211050017917662959067241465985437108957523965394450068444924507643808986)"
    by (simp only: add_cert.simps table_unfold, simp only: shift_fp, simp only: table_arith)
  from comb_add_cert [OF this entry_1_8 entry_1_7] show ?thesis by (simp add: weight_def)
qed


section \<open>The entries of the table\<close>

text \<open>The affine coordinate every row stands for, with the quotient that shows it.\<close>

definition table_coords :: "(int \<times> int) list" where
  "table_coords = [(48439561293906451759052585252797914202762949526041747995844080717082404635286, 96879122610369331986847788729446756360406240299883401289650679987995608754296),
   (36134250956749795798585127919587881956611106672985015071877198253568414405109, 72268501930325913413591274657860750822007083545631821922908629631213383625749),
   (7081762767697287976009771493310263771290289599581147299482766892475312560995, 14163525538692278718833480549895453286896496544088890194125555295863248627062),
   (86823381773038968119624426030239743822549553315161612703449942820586000887527, 173646763586508223964093482921630389908966085710828776349108194309950719143727),
   (21729207916606555546297041327834946008984629572610742919019413779073285591727, 43458415843331562023218610300557038840184308853346520481554670461232811571064),
   (51865408248024591258804126641916765844540929952618999493965898570168503707552, 103730816520200895289124821896137348042189820449100492678383286666836965915479),
   (30978927491535595270285342502287618780579786685182435011955893029189825707397, 61957854997496877795692264057737821399151581778283678940704195171810906739274),
   (20481551163499472379222416201371726725754635744576161296521936142531318405938, 40963102336536410239299321488060162269469153927732793144771386867152259835861),
   (108366204930306104932991339377656543694670367048014306868751620638180911167103, 216732409911074156354483300356841014663139657506929139805821199528446589616122),
   (43928454372619966475721234631497494981956455921623691300904838618370769606824, 87856908765695713564035970358347623050740865058609226600844230813827965508114),
   (38457879759995320710032972713786662816265442417290357605422719127911069643964, 76915759537898987216231616956797545771529863746584023916743014922361470871467),
   (9698917286546667909803311971419146876750538247013587910942280266369471256140, 19397834577609746128751230714380766803174874883878153334174411964782769124198),
   (106458659380896266356048293264350808133859192547806843838224247653571323813377, 212917318811366209084460873956457228111135787461850217468605283194928995456057),
   (106289012033705054575071135648897750308422013138229951714239074064087389975673, 212578024116904787320425156063821526608564242237716466018059425517152617501866),
   (75457776083317821252662798697757590755920885718289763058263534551782236039358, 150915552201773407653662513276223309939361366566499915776804529230977799643861),
   (46728718496393669138731607516029863508010621830530871863089645384465424840180, 93457437014547093486734857009283498924284632983721583806393815781459677927635),
   (35489983812423771351545566508668634093158458959327260928511531739442493295166, 70979967641373854251715214251608743593926366510633427266951670449878189954665),
   (30180512093179816592868160667264210818622451372567985753498217385324160793520, 60361024200413529298653227042781838721227164295830593554214836557989498550944),
   (54517052866858706098768984500776604662344453370717068886481814222977016293561, 109034105759103893215743471116656443462237383837976877834123251620404226995286),
   (82680045726600004874009073476898308637426628457314231814768266087298530072950, 165360091491700906275729451263354265285384562777472139443684150994144631557244),
   (5669344999982482905834471830265755603336824369702711370224935837570705274227, 11338690002604960302552481650352393894911308561655029503933631283444225026855),
   (100126992921736728708071934511852209930208620155755842631295754638145905798312, 200253985890098721834332690875280185315595712194479648005423357683140607893481),
   (47470354137431859982936057682320936404328776989147786484477888238031786388748, 94940708296968826182462901708251174474221986007887768632615686264862608475133),
   (22491549190799778619636421166457245514908418327910839458066039802263860563274, 44983098392073000989006008458711762684484112050298971802310975606906326223718),
   (29094224035907621874836851205563739652227354421088298351861828484446769655423, 58188448085363297567454214737179728788158795094437801729758229660200974425007),
   (115253734516020948877011800015076090401255970573084553476626782912304022103531, 230507469085711100135778335920352487718261974237829950339954148781506860733727),
   (13961148497646112040461672884707887031087477867437100292945462479321587568556, 27922297001793390462631744249246637718629973365874397976982467305508487426429),
   (30333765464279778477812856181728754823991814751231927674604374234715463612484, 60667530942684817230613277007380916817295865300804787717190678367949682159115),
   (81667472161341151517176727940574969284804708266218041660953638461019468429541, 163334944360711683252172535410993010698374656997951850992909698972146718630120),
   (113417593452504737704357772404634119499760595330104521843097463233870362057517, 226835186957823657979154720371367509681482825887363216249548523215205299073150),
   (57845546284519137759868071879580864747474048681904255205518830050186748385603, 115691092595974707067604739104448502328776180086442225588714094239398193177397),
   (104300214627605143922035278089265480928211230602089785806215194357861799731457, 208600429303778860054034663861636892599905977078139296704999413421826307661599),
   (33632488769642950967021600273968758828948451862976580774715929826193342341518, 67264977554947249949878220757226850232147637328705151577756515451898969225833),
   (106327573413143454726973223825755236374448084397347156576106396005572147099712, 212655146875799544165818980019779846653777743453156240599588860024229221280373),
   (3395384241117303854983533355081726040937970496762470208307413726375849505409, 6790768483815706706590161767509131673521776396050309042594708899933906515250),
   (47515587280345402536087222226128854640418345863507137927261535596379304714112, 95031174582816974612323325964724246617523024102164270550928680702860936016532),
   (62566479406992028833701513127517003117705273657914355007164325641786804940586, 125132958843118845010376093135545953901628952198971141148492514910577999123359),
   (1960762099875877323026688903614507008077244983723853261330124348966713726135, 3921524200664805649585804855036921598028252118745472971565476888762566014553),
   (3044018534690075340480146032507441724226895120876682271253400161539006641625, 6088037070797632270412690698746007186933201812299642996309712232343171689682),
   (41286674475413899592249272889158119102002729149895498060922945699044915731145, 82573348970053405169375362679699748892599874691114520189005222617492861366922),
   (28116764293257082408411572006964798724461701808694168505321956094700476445706, 56233528599607053472549514605081758417605809107103042676069482322771842458281),
   (16105811162060748257356537467737120711452868441758399463969585499419893807184, 32211622331621349273573638914252178871934666250988130389094016585352195423802),
   (58827710314362920178717106852602005603789870913715296154970528213606235058730, 117655420656119627671787221610169465121760366013463259748774392873844014753761),
   (9053372145611279828781727726465169128135905795753115567591918847033255783380, 18106744295438364585364833444280213921970628776491812725932187409095481702936),
   (47476452820719945936524819032622318587487722681099356096892784008519876992775, 94952905663547838010351236710037258835727935287277495088033840959124421043860),
   (92218806925569787283702304838387293055019874979186897299806248868160486843989, 184437613894082302914349297228920786804456923840390284711286832954863470199138),
   (94397291898583035611209212372722053804340167464948254355449659271308459304129, 188794583841123235686277027130523560806859467578876797429998448109830328864676),
   (68335194852228053209618111363108276085092416661044275487355434915393459538278, 136670389736277161222549934945884011554930504244534753675833000068512711435534),
   (67885908358705036854164505680709756155597296305851560783239826018535485120457, 135771816749021913184698815528833784149072597376149278187019293267974528765655),
   (55541939544837935969183052716060529753040611325363801086773630544324727962206, 111083879115539603006383968153547526982228868708685082132708768253263959093781),
   (16699539995174227369980510155490489967309653441043343107405121080627087725760, 33399079998124784031560928860820250365313589291885908927004958025971668529882),
   (47932033255837264280214579570130369822435524816229674670928108182315957116394, 95864066533994620869619708225930042417668727341998636795136365536075390015171),
   (103634997683722599589512798043325504428005566415016487130488194000295930656437, 207269995415704005610562438030462044366306358946522357300863436632881780699280),
   (12750632451629447269671675371478286168384135309329248220885657391213709308989, 25501264909196370460756954572633072952006626812181229970105772446215650226426),
   (14799963666998631436813155599769464937909774015221859919282398000657486824537, 29599927340889033006908663175804524221131806579795909274047339108005507728955),
   (111168211041721780492304148160852330953911260669454407768012008254886351716983, 222336422135210293245994894077199053156994492236976867995671264950159357097829),
   (13950705034386074720616972231643102789862886384624429453451157931423230696977, 27901410075268452706396722885457782923521094573940406218974919219820640420791),
   (26310146822516297998844284507515425937680125861372020598323308545467564210313, 52620293657284212836317133975083115141773774192977551958638062746943014380169),
   (9948931355867539181657524684186391997990045422966808612230429477076580762685, 19897862716367910545824659416457393222566286378835287596495451254352195892255),
   (33792211050017917662959067241465985437108957523965394450068444924507643808986, 67584422115771559824444289342448362316078879107013779896371185014761257909615)]"

definition row_coord :: "felem \<Rightarrow> int \<times> int \<Rightarrow> bool" where
  "row_coord r cw \<longleftrightarrow> fst cw * 231584178474632390847141970017375815706539969331281128078915168015826259279872 = fval r + snd cw * fp \<and> 0 \<le> fst cw \<and> fst cw < fp"

lemma fel_coord:
  assumes "row_coord r (c, w)"
  shows "fel r = c"
proof -
  have "fval r = 2 ^ 257 * c + (- w) * fp" using assms by (simp add: row_coord_def)
  then have "fel r = (2 ^ 257 * c * Rinv) mod fp"
    unfolding fel_def by (subst res_cong [of "fval r" fp "2 ^ 257 * c"]) (simp_all only: mod_mult_self1 res_def)
  also have "2 ^ 257 * c * Rinv = c * (2 ^ 257 * Rinv)" by algebra
  also have "\<dots> mod fp = c mod fp" unfolding Rinv by (simp add: algebra_simps)
  also have "\<dots> = c" using assms by (simp add: row_coord_def)
  finally show ?thesis .
qed

lemma rows_coords: "list_all2 row_coord kPrecomputed_rows table_coords"
  by (simp only: kPrecomputed_rows_def table_coords_def row_coord_def list_all2_Cons list_all2_Nil fst_conv snd_conv simp_thms,
    simp only: shift_fp, simp add: fval_def limb_bits_def fp_literal)

lemma fel_row: "r < 60 \<Longrightarrow> fel (kPrecomputed_rows ! r) = fst (table_coords ! r)"
  using list_all2_nthD [OF rows_coords, of r] rows_length(1) fel_coord [of "kPrecomputed_rows ! r"] by (metis prod.collapse)

lemma table_0_1: "comb curve_G Q (weight 0 1) 0 (fel (entry_x 0 1), fel (entry_y 0 1))"
  using entry_0_1 by (simp add: entry_x_def entry_y_def fel_row table_coords_def)

lemma table_0_2: "comb curve_G Q (weight 0 2) 0 (fel (entry_x 0 2), fel (entry_y 0 2))"
  using entry_0_2 by (simp add: entry_x_def entry_y_def fel_row table_coords_def)

lemma table_0_3: "comb curve_G Q (weight 0 3) 0 (fel (entry_x 0 3), fel (entry_y 0 3))"
  using entry_0_3 by (simp add: entry_x_def entry_y_def fel_row table_coords_def)

lemma table_0_4: "comb curve_G Q (weight 0 4) 0 (fel (entry_x 0 4), fel (entry_y 0 4))"
  using entry_0_4 by (simp add: entry_x_def entry_y_def fel_row table_coords_def)

lemma table_0_5: "comb curve_G Q (weight 0 5) 0 (fel (entry_x 0 5), fel (entry_y 0 5))"
  using entry_0_5 by (simp add: entry_x_def entry_y_def fel_row table_coords_def)

lemma table_0_6: "comb curve_G Q (weight 0 6) 0 (fel (entry_x 0 6), fel (entry_y 0 6))"
  using entry_0_6 by (simp add: entry_x_def entry_y_def fel_row table_coords_def)

lemma table_0_7: "comb curve_G Q (weight 0 7) 0 (fel (entry_x 0 7), fel (entry_y 0 7))"
  using entry_0_7 by (simp add: entry_x_def entry_y_def fel_row table_coords_def)

lemma table_0_8: "comb curve_G Q (weight 0 8) 0 (fel (entry_x 0 8), fel (entry_y 0 8))"
  using entry_0_8 by (simp add: entry_x_def entry_y_def fel_row table_coords_def)

lemma table_0_9: "comb curve_G Q (weight 0 9) 0 (fel (entry_x 0 9), fel (entry_y 0 9))"
  using entry_0_9 by (simp add: entry_x_def entry_y_def fel_row table_coords_def)

lemma table_0_10: "comb curve_G Q (weight 0 10) 0 (fel (entry_x 0 10), fel (entry_y 0 10))"
  using entry_0_10 by (simp add: entry_x_def entry_y_def fel_row table_coords_def)

lemma table_0_11: "comb curve_G Q (weight 0 11) 0 (fel (entry_x 0 11), fel (entry_y 0 11))"
  using entry_0_11 by (simp add: entry_x_def entry_y_def fel_row table_coords_def)

lemma table_0_12: "comb curve_G Q (weight 0 12) 0 (fel (entry_x 0 12), fel (entry_y 0 12))"
  using entry_0_12 by (simp add: entry_x_def entry_y_def fel_row table_coords_def)

lemma table_0_13: "comb curve_G Q (weight 0 13) 0 (fel (entry_x 0 13), fel (entry_y 0 13))"
  using entry_0_13 by (simp add: entry_x_def entry_y_def fel_row table_coords_def)

lemma table_0_14: "comb curve_G Q (weight 0 14) 0 (fel (entry_x 0 14), fel (entry_y 0 14))"
  using entry_0_14 by (simp add: entry_x_def entry_y_def fel_row table_coords_def)

lemma table_0_15: "comb curve_G Q (weight 0 15) 0 (fel (entry_x 0 15), fel (entry_y 0 15))"
  using entry_0_15 by (simp add: entry_x_def entry_y_def fel_row table_coords_def)

lemma table_1_1: "comb curve_G Q (weight 1 1) 0 (fel (entry_x 1 1), fel (entry_y 1 1))"
  using entry_1_1 by (simp add: entry_x_def entry_y_def fel_row table_coords_def)

lemma table_1_2: "comb curve_G Q (weight 1 2) 0 (fel (entry_x 1 2), fel (entry_y 1 2))"
  using entry_1_2 by (simp add: entry_x_def entry_y_def fel_row table_coords_def)

lemma table_1_3: "comb curve_G Q (weight 1 3) 0 (fel (entry_x 1 3), fel (entry_y 1 3))"
  using entry_1_3 by (simp add: entry_x_def entry_y_def fel_row table_coords_def)

lemma table_1_4: "comb curve_G Q (weight 1 4) 0 (fel (entry_x 1 4), fel (entry_y 1 4))"
  using entry_1_4 by (simp add: entry_x_def entry_y_def fel_row table_coords_def)

lemma table_1_5: "comb curve_G Q (weight 1 5) 0 (fel (entry_x 1 5), fel (entry_y 1 5))"
  using entry_1_5 by (simp add: entry_x_def entry_y_def fel_row table_coords_def)

lemma table_1_6: "comb curve_G Q (weight 1 6) 0 (fel (entry_x 1 6), fel (entry_y 1 6))"
  using entry_1_6 by (simp add: entry_x_def entry_y_def fel_row table_coords_def)

lemma table_1_7: "comb curve_G Q (weight 1 7) 0 (fel (entry_x 1 7), fel (entry_y 1 7))"
  using entry_1_7 by (simp add: entry_x_def entry_y_def fel_row table_coords_def)

lemma table_1_8: "comb curve_G Q (weight 1 8) 0 (fel (entry_x 1 8), fel (entry_y 1 8))"
  using entry_1_8 by (simp add: entry_x_def entry_y_def fel_row table_coords_def)

lemma table_1_9: "comb curve_G Q (weight 1 9) 0 (fel (entry_x 1 9), fel (entry_y 1 9))"
  using entry_1_9 by (simp add: entry_x_def entry_y_def fel_row table_coords_def)

lemma table_1_10: "comb curve_G Q (weight 1 10) 0 (fel (entry_x 1 10), fel (entry_y 1 10))"
  using entry_1_10 by (simp add: entry_x_def entry_y_def fel_row table_coords_def)

lemma table_1_11: "comb curve_G Q (weight 1 11) 0 (fel (entry_x 1 11), fel (entry_y 1 11))"
  using entry_1_11 by (simp add: entry_x_def entry_y_def fel_row table_coords_def)

lemma table_1_12: "comb curve_G Q (weight 1 12) 0 (fel (entry_x 1 12), fel (entry_y 1 12))"
  using entry_1_12 by (simp add: entry_x_def entry_y_def fel_row table_coords_def)

lemma table_1_13: "comb curve_G Q (weight 1 13) 0 (fel (entry_x 1 13), fel (entry_y 1 13))"
  using entry_1_13 by (simp add: entry_x_def entry_y_def fel_row table_coords_def)

lemma table_1_14: "comb curve_G Q (weight 1 14) 0 (fel (entry_x 1 14), fel (entry_y 1 14))"
  using entry_1_14 by (simp add: entry_x_def entry_y_def fel_row table_coords_def)

lemma table_1_15: "comb curve_G Q (weight 1 15) 0 (fel (entry_x 1 15), fel (entry_y 1 15))"
  using entry_1_15 by (simp add: entry_x_def entry_y_def fel_row table_coords_def)

lemma table_comb:
  assumes "t < 2" "1 \<le> k" "k < 16"
  shows "comb curve_G Q (weight t k) 0 (fel (entry_x t k), fel (entry_y t k))"
proof -
  have t: "t = 0 \<or> t = 1" using assms(1) by auto
  have k: "k \<in> {1, 2, 3, 4, 5, 6, 7, 8, 9, 10, 11, 12, 13, 14, 15}" using assms(2,3) unfolding insert_iff empty_iff by presburger
  have "comb curve_G Q (weight 0 k) 0 (fel (entry_x 0 k), fel (entry_y 0 k))"
    using k by (elim insertE emptyE) (simp_all only: table_0_1 table_0_2 table_0_3 table_0_4 table_0_5 table_0_6 table_0_7 table_0_8 table_0_9 table_0_10 table_0_11 table_0_12 table_0_13 table_0_14 table_0_15)
  moreover have "comb curve_G Q (weight 1 k) 0 (fel (entry_x 1 k), fel (entry_y 1 k))"
    using k by (elim insertE emptyE) (simp_all only: table_1_1 table_1_2 table_1_3 table_1_4 table_1_5 table_1_6 table_1_7 table_1_8 table_1_9 table_1_10 table_1_11 table_1_12 table_1_13 table_1_14 table_1_15)
  ultimately show ?thesis using t by auto
qed

end
