(* ===== verification/P256_Convert.thy ===== *)
theory P256_Convert
  imports P256_ScalarMult
begin

text \<open>
  Between the two representations of \<open>p256_ec.c\<close>: digits and limbs in Montgomery form, Jacobian and affine
  coordinates. \<open>from_montgomery\<close> loses a carry in one corner, which \<open>carry_lost\<close> describes.
\<close>

section \<open>Limbs as a number\<close>

fun nval :: "nat \<Rightarrow> felem \<Rightarrow> nat" where
  "nval i [] = 0"
| "nval i (x # xs) = unat x + 2 ^ limb_bits i * nval (Suc i) xs"

lemma nval_lsum: "int (nval i xs) = lsum i (map uint xs)"
  by (induction xs arbitrary: i) simp_all

lemma fval_nval: "fval x = int (nval 0 x)"
  by (simp add: fval_def nval_lsum)

lemma nval_bound: "\<forall>x \<in> set xs. unat x < 2 ^ 30 \<Longrightarrow> nval i xs < 2 ^ (30 * length xs)"
proof (induction xs arbitrary: i)
  case (Cons x xs)
  define N :: nat where "N = 2 ^ (30 * length xs)"
  have "nval (Suc i) xs \<le> N - 1" using Cons.IH [of "Suc i"] Cons.prems by (simp add: N_def)
  moreover have "(2 :: nat) ^ limb_bits i \<le> 2 ^ 29" by (simp add: limb_bits_def)
  ultimately have "2 ^ limb_bits i * nval (Suc i) xs \<le> 2 ^ 29 * (N - 1)" by (rule mult_le_mono [rotated])
  moreover have "unat x < 2 ^ 30" using Cons.prems by simp
  moreover have "1 \<le> N" by (simp add: N_def)
  moreover have "(2 :: nat) ^ 29 * (N - 1) + 2 ^ 29 = 2 ^ 29 * N" using \<open>1 \<le> N\<close> by (cases N) simp_all
  ultimately have "unat x + 2 ^ limb_bits i * nval (Suc i) xs < 2 ^ 30 * N" by simp
  moreover have "(2 :: nat) ^ (30 * length (x # xs)) = 2 ^ 30 * N" by (simp add: N_def power_add)
  ultimately show ?case by simp
qed simp

lemma felem_ok_limbs:
  assumes "felem_ok x"
  shows "\<forall>l \<in> set x. unat l < 2 ^ 30"
proof
  fix l assume "l \<in> set x"
  then obtain j where j: "j < 9" "l = x ! j" using assms by (metis felem_ok_def in_set_conv_nth)
  have "(2 :: int) ^ (limb_bits j + 1) \<le> 2 ^ 30" by (rule power_increasing) (auto simp: limb_bits_def)
  moreover have "uint l < 2 ^ (limb_bits j + 1)" using assms j by (simp add: felem_ok_def)
  ultimately have "int (unat l) < int (2 ^ 30)" by simp
  then show "unat l < 2 ^ 30" by (simp only: of_nat_less_iff)
qed

lemma fel_eqI:
  assumes "fval r mod fp = (c * 2 ^ 257) mod fp" "0 \<le> c" "c < fp"
  shows "fel r = c"
proof -
  have "fel r = (2 ^ 257 * c * Rinv) mod fp"
    unfolding fel_def using res_cong [of "fval r" fp "2 ^ 257 * c"] assms(1) by (simp only: res_def mult.commute)
  also have "2 ^ 257 * c * Rinv = c * (2 ^ 257 * Rinv)" by algebra
  also have "\<dots> mod fp = c mod fp" unfolding Rinv by (simp add: algebra_simps)
  also have "\<dots> = c" using assms(2,3) by simp
  finally show ?thesis .
qed

section \<open>To Montgomery form\<close>

lemma low_limb: "length s = 8 \<Longrightarrow> unat (s ! 0 AND limb_mask i) = lval s mod 2 ^ limb_bits i"
proof -
  assume "length s = 8"
  then obtain a as where s: "s = a # as" by (cases s) auto
  have "limb_bits i \<le> 32" using limb_bits_cases [of i] by auto
  then have "(2 :: nat) ^ limb_bits i dvd 2 ^ 32" by (rule le_imp_power_dvd)
  then have "(unat a + 2 ^ 32 * lval as) mod 2 ^ limb_bits i = unat a mod 2 ^ limb_bits i"
    by (metis dvd_mult2 mod_add_self2 dvdE mod_mult_self2 mult.assoc)
  then show ?thesis by (simp add: s limb_mask_eq unat_and_mask)
qed

lemma split_step_val:
  assumes "length s = 8"
  shows "\<exists>s' l. split_step i (out, s) = Some (out @ [l], s') \<and> length s' = 8 \<and> unat l < 2 ^ limb_bits i \<and>
    lval s = unat l + 2 ^ limb_bits i * lval s'"
proof -
  have b: "limb_bits i mod 32 \<noteq> 0" "limb_bits i mod 32 = limb_bits i" using limb_bits_cases [of i] by auto
  obtain s' where s': "p256_shr s (limb_bits i) = Some s'" "length s' = 8" "lval s' = lval s div 2 ^ limb_bits i"
    using p256_shr_val [OF assms b(1)] b(2) by metis
  show ?thesis
    using s' low_limb [OF assms, of i] by (intro exI [of _ s'] exI [of _ "s ! 0 AND limb_mask i"]) (simp add: split_step_def)
qed

lemma split_loop_val:
  assumes "length s = 8"
  shows "\<exists>ls s'. split_loop [i..<i + n] (out, s) = Some (out @ ls, s') \<and> length ls = n \<and> length s' = 8 \<and>
    (\<forall>j < n. unat (ls ! j) < 2 ^ limb_bits (i + j)) \<and> lval s = nval i ls + 2 ^ lbits i n * lval s'"
  using assms
proof (induction n arbitrary: i out s)
  case (Suc n)
  obtain s1 l where 1: "split_step i (out, s) = Some (out @ [l], s1)" "length s1 = 8" "unat l < 2 ^ limb_bits i"
    "lval s = unat l + 2 ^ limb_bits i * lval s1" using split_step_val [OF Suc.prems] by blast
  obtain ls s' where 2: "split_loop [Suc i..<Suc i + n] (out @ [l], s1) = Some ((out @ [l]) @ ls, s')" "length ls = n" "length s' = 8"
    "\<forall>j < n. unat (ls ! j) < 2 ^ limb_bits (Suc i + j)" "lval s1 = nval (Suc i) ls + 2 ^ lbits (Suc i) n * lval s'"
    using Suc.IH [OF 1(2)] by blast
  have u: "[i..<i + Suc n] = i # [Suc i..<Suc i + n]" by (simp add: upt_conv_Cons)
  have "unat ((l # ls) ! j) < 2 ^ limb_bits (i + j)" if "j < Suc n" for j using 1(3) 2(4) that by (cases j) auto
  moreover have "lval s = nval i (l # ls) + 2 ^ lbits i (Suc n) * lval s'"
    unfolding 1(4) 2(5) by (simp add: algebra_simps power_add)
  ultimately show ?case
    using 1(1) 2(1-3) unfolding u by (intro exI [of _ "l # ls"] exI [of _ s']) simp
qed simp

lemma to_montgomery_val:
  assumes "length x = 8"
  obtains r where "to_montgomery x = Some r" "felem_ok r" "fel r = int (lval x) mod fp"
proof -
  have k: "length kR256 = 8" by (simp add: kR256_def)
  obtain c where c: "p256_modmul SECP256r1_p x 0 kR256 = Some c" "length c = 8" "lval c = (lval x * lval kR256) mod p256_p"
    using modmul_p [OF assms k] by blast
  obtain ls s' where l: "split_loop [0..<0 + 9] ([], c) = Some ([] @ ls, s')" "length ls = 9"
    "\<forall>j < 9. unat (ls ! j) < 2 ^ limb_bits (0 + j)" "lval c = nval 0 ls + 2 ^ lbits 0 9 * lval s'"
    using split_loop_val [OF c(2), of 0 9 "[]"] by blast
  have "lval c < 2 ^ 257" using lval_less [of c] c(2) by simp
  then have v: "nval 0 ls = lval c" using l(4) unfolding lbits_9 by (cases "lval s' = 0") auto
  have i: "uint (ls ! j) < 2 ^ limb_bits j" if "j < 9" for j
  proof -
    have "unat (ls ! j) < 2 ^ limb_bits j" using l(3) that by simp
    then have "int (unat (ls ! j)) < int (2 ^ limb_bits j)" by (simp only: of_nat_less_iff)
    then show ?thesis by simp
  qed
  have "uint (ls ! j) < 2 ^ (limb_bits j + 1)" if "j < 9" for j
    using i [OF that] by (rule order.strict_trans) simp
  moreover have "uint (ls ! 8) < 2 ^ 29" using i [of 8] by (simp add: limb_bits_def)
  ultimately have ok: "felem_ok ls" using l(2) by (simp add: felem_ok_def)
  have p: "int p256_p = fp" by (simp add: p256_p_def fp_def)
  have R: "(2 :: int) ^ 257 = int (lval kR256) + 2 * fp" by (simp add: kR256_def fp_def)
  have "fval ls mod fp = (int (lval x) * int (lval kR256)) mod fp" unfolding fval_nval v c(3) by (simp add: zmod_int p)
  also have "\<dots> = (int (lval x) * 2 ^ 257) mod fp" unfolding R by (metis mod_mult_right_eq mod_mult_self1)
  also have "\<dots> = (int (lval x) mod fp * 2 ^ 257) mod fp" by (simp only: mod_mult_left_eq)
  finally have "fel ls = int (lval x) mod fp" using fp_pos by (intro fel_eqI) simp_all
  moreover have "to_montgomery x = Some ls" using c(1) l(1) by (simp add: to_montgomery_def NLIMBS_def)
  ultimately show ?thesis using that ok by blast
qed

section \<open>From Montgomery form\<close>

lemma join_step_val:
  assumes "length r = 8"
  obtains t c r' where "join_step x i (r, tp) = Some (r', t OR of_int c)" "length r' = 8" "c = 0 \<or> c = 1"
    "lval r * 2 ^ limb_bits i div 2 ^ 256 = unat t"
    "int (lval r') + 2 ^ 256 * c = int (lval r * 2 ^ limb_bits i mod 2 ^ 256) + int (unat (x ! i))"
proof -
  have b: "limb_bits i mod 32 \<noteq> 0" "limb_bits i mod 32 = limb_bits i" using limb_bits_cases [of i] by auto
  obtain t w where w: "p256_shl r (limb_bits i) = Some (t, w)" "length w = 8" "lval w + 2 ^ 256 * unat t = lval r * 2 ^ limb_bits i"
    using p256_shl_val [OF assms b(1)] unfolding b(2) by blast
  have "lval w < 2 ^ 256" using lval_less [of w] w(2) by simp
  then have m: "lval w = lval r * 2 ^ limb_bits i mod 2 ^ 256" "unat t = lval r * 2 ^ limb_bits i div 2 ^ 256"
    unfolding w(3) [symmetric] by simp_all
  obtain c r' where a: "p256_add_d w (x ! i) = (c, r')" by fastforce
  have "join_step x i (r, tp) = Some (r', t OR of_int c)" by (simp add: join_step_def w(1) a)
  then show thesis using that p256_add_d_val [OF w(2), of "x ! i"] m unfolding a fst_conv snd_conv by auto
qed

lemma nval_drop: "i < length x \<Longrightarrow> nval i (drop i x) = unat (x ! i) + 2 ^ limb_bits i * nval (Suc i) (drop (Suc i) x)"
  by (simp add: Cons_nth_drop_Suc [symmetric])

lemma nval_drop_small:
  assumes "felem_ok x" "1 \<le> i"
  shows "nval i (drop i x) < 2 ^ 256"
proof -
  have "nval i (drop i x) < 2 ^ (30 * length (drop i x))"
    using felem_ok_limbs [OF assms(1)] by (intro nval_bound) (meson in_set_dropD)
  also have "\<dots> \<le> 2 ^ 256" using assms by (intro power_increasing) (simp_all add: felem_ok_def)
  finally show ?thesis .
qed

text \<open>All but the last step stay within the eight digits.\<close>

lemma join_step_small:
  assumes "felem_ok x" "1 \<le> i" "i < 9" "length r = 8" "lval r = nval (Suc i) (drop (Suc i) x)"
  obtains r' where "join_step x i (r, tp) = Some (r', 0)" "length r' = 8" "lval r' = nval i (drop i x)"
proof -
  obtain t c r' where j: "join_step x i (r, tp) = Some (r', t OR of_int c)" "length r' = 8" "c = 0 \<or> c = 1"
    "lval r * 2 ^ limb_bits i div 2 ^ 256 = unat t"
    "int (lval r') + 2 ^ 256 * c = int (lval r * 2 ^ limb_bits i mod 2 ^ 256) + int (unat (x ! i))"
    using join_step_val [OF assms(4)] by blast
  have n: "nval i (drop i x) = unat (x ! i) + lval r * 2 ^ limb_bits i"
    using nval_drop [of i x] assms(1,3,5) by (simp add: felem_ok_def mult.commute)
  then have s: "unat (x ! i) + lval r * 2 ^ limb_bits i < 2 ^ 256" using nval_drop_small [OF assms(1,2)] by simp
  then have l: "lval r * 2 ^ limb_bits i < 2 ^ 256" by (rule le_less_trans [OF le_add2])
  then have "unat t = 0" using j(4) by simp
  then have t: "t = 0" by (simp only: unat_eq_zero)
  have "int (lval r') + 2 ^ 256 * c = int (unat (x ! i) + lval r * 2 ^ limb_bits i)"
    unfolding j(5) mod_less [OF l] by simp
  moreover have "int (unat (x ! i) + lval r * 2 ^ limb_bits i) < 2 ^ 256" using s by (metis of_nat_less_numeral_power_cancel_iff)
  ultimately have e: "int (lval r') = int (unat (x ! i) + lval r * 2 ^ limb_bits i)" and "c = 0" using j(3) by (cases "c = 0"; simp)+
  from e have "lval r' = unat (x ! i) + lval r * 2 ^ limb_bits i" by (simp only: of_nat_eq_iff)
  then show thesis using that j(1,2) t n \<open>c = 0\<close> by simp
qed

lemma join_loop_val:
  assumes "felem_ok x" "n \<le> 7" "length r = 8" "lval r = nval (Suc n) (drop (Suc n) x)"
  obtains r' tp' where "join_loop x (rev [1..<Suc n]) (r, tp) = Some (r', tp')" "length r' = 8" "lval r' = nval 1 (drop 1 x)"
  using assms(2-4)
proof (induction n arbitrary: r tp thesis)
  case 0
  then show ?case by simp
next
  case (Suc n)
  obtain r1 where 1: "join_step x (Suc n) (r, tp) = Some (r1, 0)" "length r1 = 8" "lval r1 = nval (Suc n) (drop (Suc n) x)"
    using join_step_small [OF assms(1), of "Suc n" r tp] Suc.prems(2-4) by auto
  obtain r' tp' where 2: "join_loop x (rev [1..<Suc n]) (r1, 0) = Some (r', tp')" "length r' = 8" "lval r' = nval 1 (drop 1 x)"
    using Suc.IH [of r1 0] 1(2,3) Suc.prems(2) by auto
  have "rev [1..<Suc (Suc n)] = Suc n # rev [1..<Suc n]" by simp
  then have "join_loop x (rev [1..<Suc (Suc n)]) (r, tp) = Some (r', tp')" using 1(1) 2(1) by (simp only: join_loop.simps option.case)
  then show ?case using Suc.prems(1) 2(2,3) by blast
qed

lemma join_loop_append:
  "join_loop x (is @ js) s = (case join_loop x is s of None \<Rightarrow> None | Some s \<Rightarrow> join_loop x js s)"
  by (induction "is" arbitrary: s) (simp_all split: option.split)

text \<open>
  The last step adds a limb to a shifted number whose ninth digit may be set. The source joins this digit and the
  carry of the addition with \<open>|=\<close>, which loses the carry when the digit is odd.
\<close>

definition carry_lost :: "felem \<Rightarrow> bool" where
  "carry_lost x \<longleftrightarrow> (let v = 2 ^ 29 * nval 1 (tl x) in odd (v div 2 ^ 256) \<and> 2 ^ 256 \<le> v mod 2 ^ 256 + unat (hd x))"

lemma or_carry:
  assumes "c = 0 \<or> c = (1 :: int)"
  shows "int (unat (t OR of_int c :: u32)) = int (unat t) + (if odd (unat t) then 0 else c)"
proof (cases "c = 0")
  case False
  then have "c = 1" using assms by auto
  have "unat (t OR 1) = unat t OR 1" by (simp add: unsigned_or_eq)
  also have "\<dots> = unat t + (if odd (unat t) then 0 else 1)" by (simp add: or_one_eq One_nat_def [symmetric] del: One_nat_def)
  finally show ?thesis using \<open>c = 1\<close> by simp
qed simp

lemma Rinv_kRInv: "int (lval kRInv) = Rinv"
  by (simp add: kRInv_def Rinv_def)

lemma fp_digits: "int p256_p = fp"
  by (simp add: p256_p_def fp_def)

lemma lval_bound: "length r = 8 \<Longrightarrow> int (lval r) < 2 ^ 256"
  using lval_less [of r] by (simp flip: of_nat_power)

lemma last_step:
  assumes "length x = 9" "lval r1 = nval 1 (drop 1 x)" "c = 0 \<or> c = 1" "lval r1 * 2 ^ limb_bits 0 div 2 ^ 256 = unat t"
    "int (lval r) + 2 ^ 256 * c = int (lval r1 * 2 ^ limb_bits 0 mod 2 ^ 256) + int (unat (x ! 0))" "int (lval r) < 2 ^ 256"
  shows "int (lval r) + 2 ^ 256 * int (unat (t OR of_int c :: u32)) = fval x - (if carry_lost x then 2 ^ 256 else 0)"
proof -
  have x: "tl x = drop 1 x" "hd x = x ! 0" using assms(1) by (simp_all add: drop_Suc hd_conv_nth flip: length_greater_0_conv)
  define v where "v = 2 ^ 29 * nval 1 (drop 1 x)"
  have v: "lval r1 * 2 ^ limb_bits 0 = v" by (simp add: v_def assms(2) limb_bits_def)
  have n: "fval x = int (unat (x ! 0)) + int v" using nval_drop [of 0 x] assms(1) by (simp add: fval_nval v_def limb_bits_def)
  have q: "int v = int (v mod 2 ^ 256) + 2 ^ 256 * int (unat t)" unfolding assms(4) [symmetric] v by (simp add: zdiv_int zmod_int)
  have "c = 1 \<longleftrightarrow> 2 ^ 256 \<le> int (v mod 2 ^ 256) + int (unat (x ! 0))" using assms(3,5,6) unfolding v by auto
  also have "\<dots> \<longleftrightarrow> int (2 ^ 256) \<le> int (v mod 2 ^ 256 + unat (x ! 0))" by simp
  also have "\<dots> \<longleftrightarrow> 2 ^ 256 \<le> v mod 2 ^ 256 + unat (x ! 0)" by (simp only: of_nat_le_iff)
  finally have "carry_lost x \<longleftrightarrow> c = 1 \<and> odd (unat t)"
    using assms(4) unfolding carry_lost_def x v_def [symmetric] Let_def v by auto
  then have "int (unat (t OR of_int c)) = int (unat t) + c - (if carry_lost x then 1 else 0)"
    using or_carry [OF assms(3), of t] assms(3) by auto
  then show ?thesis using assms(5) q unfolding n v by (auto simp: algebra_simps)
qed

lemma from_montgomery_val:
  assumes "felem_ok x"
  obtains y where "from_montgomery x = Some y" "length y = 8" "lval y < p256_p"
    "int (lval y) = ((fval x - (if carry_lost x then 2 ^ 256 else 0)) * Rinv) mod fp"
proof -
  have len: "length x = 9" using assms by (simp add: felem_ok_def)
  have i: "length p256_init = 8" "lval p256_init = 0" by (simp_all add: p256_init_def P256_NDIGITS_def)
  define r0 where "r0 = snd (p256_add_d p256_init (x ! 8))"
  note a = p256_add_d_val [OF i(1), of "x ! 8", folded r0_def, unfolded i(2)]
  have "unat (x ! 8) < 2 ^ 256" using u32_lt [of "x ! 8"] by (rule less_le_trans) simp
  then have "int (unat (x ! 8)) < 2 ^ 256" by (metis of_nat_less_numeral_power_cancel_iff)
  then have "int (lval r0) = int (unat (x ! 8))" using a(2,3) by auto
  then have "lval r0 = unat (x ! 8)" by (simp only: of_nat_eq_iff)
  then have r0: "length r0 = 8" "lval r0 = nval (Suc 7) (drop (Suc 7) x)" using a(1) nval_drop [of 8 x] len by simp_all
  obtain r1 tp1 where 1: "join_loop x (rev [1..<Suc 7]) (r0, 0) = Some (r1, tp1)" "length r1 = 8" "lval r1 = nval 1 (drop 1 x)"
    using join_loop_val [OF assms _ r0, of 0] by auto
  obtain t c r where 2: "join_step x 0 (r1, tp1) = Some (r, t OR of_int c)" "length r = 8" "c = 0 \<or> c = 1"
    "lval r1 * 2 ^ limb_bits 0 div 2 ^ 256 = unat t"
    "int (lval r) + 2 ^ 256 * c = int (lval r1 * 2 ^ limb_bits 0 mod 2 ^ 256) + int (unat (x ! 0))"
    using join_step_val [OF 1(2)] by blast
  have u: "rev [0..<NLIMBS - 1] = rev [1..<Suc 7] @ [0]" by (simp add: NLIMBS_def upt_rec)
  have loop: "join_loop x (rev [0..<NLIMBS - 1]) (r0, 0) = Some (r, t OR of_int c)"
    unfolding u join_loop_append 1(1) option.case by (simp add: 2(1))
  have k: "length kRInv = 8" by (simp add: kRInv_def)
  obtain y where y: "p256_modmul SECP256r1_p kRInv (t OR of_int c) r = Some y" "length y = 8"
    "lval y = (lval kRInv * (lval r + 2 ^ 256 * unat (t OR of_int c))) mod p256_p"
    using p256_modmul_val [OF curve_constants(5) k 2(2)] curve_constants(2) by metis
  have "from_montgomery x = Some y" using loop y(1) by (simp add: from_montgomery_def NLIMBS_def r0_def)
  moreover have "lval y < p256_p" unfolding y(3) using curve_constants(8) by simp
  moreover have "int (lval r) + 2 ^ 256 * int (unat (t OR of_int c)) = fval x - (if carry_lost x then 2 ^ 256 else 0)"
    by (rule last_step [OF len 1(3) 2(3-5) lval_bound [OF 2(2)]])
  then have "int (lval y) = ((fval x - (if carry_lost x then 2 ^ 256 else 0)) * Rinv) mod fp"
    unfolding y(3) by (simp only: zmod_int fp_digits of_nat_mult of_nat_add of_nat_power of_nat_numeral Rinv_kRInv mult.commute)
  ultimately show thesis using that y(2) by blast
qed

lemma from_montgomery_right:
  assumes "felem_ok x"
  obtains y where "from_montgomery x = Some y" "length y = 8" "lval y < p256_p" "\<not> carry_lost x \<Longrightarrow> int (lval y) = fel x"
  by (rule from_montgomery_val [OF assms], rule that) (simp_all add: fel_def res_def)

text \<open>
  Which field elements this can happen to: those whose Montgomery form is just above \<open>2 ^ 257\<close>.
\<close>

definition fragile :: "int \<Rightarrow> bool" where
  "fragile c \<longleftrightarrow> ((c - 1) * 2 ^ 257) mod fp < 2 ^ 30"

lemma nval_0_bound:
  assumes "felem_ok x"
  shows "nval 0 x < 2 ^ 258"
proof -
  have len: "length x = 9" using assms by (simp add: felem_ok_def)
  then obtain a b c d e f g h i where x: "x = [a, b, c, d, e, f, g, h, i]"
    by (auto simp: length_Suc_conv numeral_eq_Suc)
  have "uint (x ! j) < 2 ^ (limb_bits j + 1)" if "j < 9" for j using assms that by (simp add: felem_ok_def)
  from this [of 0] this [of 1] this [of 2] this [of 3] this [of 4] this [of 5] this [of 6] this [of 7]
  have "uint a < 2 ^ 30" "uint b < 2 ^ 29" "uint c < 2 ^ 30" "uint d < 2 ^ 29" "uint e < 2 ^ 30" "uint f < 2 ^ 29"
    "uint g < 2 ^ 30" "uint h < 2 ^ 29" by (simp_all add: x limb_bits_def)
  moreover have "uint i < 2 ^ 29" using assms by (simp add: felem_ok_def x)
  moreover have "fval x = uint a + 2 ^ 29 * (uint b + 2 ^ 28 * (uint c + 2 ^ 29 * (uint d + 2 ^ 28 * (uint e + 2 ^ 29 *
      (uint f + 2 ^ 28 * (uint g + 2 ^ 29 * (uint h + 2 ^ 28 * uint i)))))))" by (simp add: x fval_def limb_bits_def)
  ultimately have "fval x < 2 ^ 258" by simp
  then have "int (nval 0 x) < int (2 ^ 258)" by (simp add: fval_nval)
  then show ?thesis by (simp only: of_nat_less_iff)
qed

lemma carry_lost_fragile:
  assumes "felem_ok x" "carry_lost x"
  shows "fragile (fel x)"
proof -
  obtain l ls where x: "x = l # ls" using assms(1) by (cases x) (simp_all add: felem_ok_def)
  define v where "v = 2 ^ 29 * nval 1 ls"
  define q where "q = v div 2 ^ 256"
  define m where "m = v mod 2 ^ 256"
  have l: "unat l < 2 ^ 30" using felem_ok_limbs [OF assms(1)] by (simp add: x)
  have n: "nval 0 x = unat l + v" by (simp add: x v_def limb_bits_def)
  have v: "v = m + 2 ^ 256 * q" by (simp add: q_def m_def)
  have m: "m < 2 ^ 256" by (simp add: m_def)
  have c: "odd q" "2 ^ 256 \<le> m + unat l" using assms(2) by (simp_all add: carry_lost_def x v_def q_def m_def)
  have "q = 1"
  proof (rule ccontr)
    assume "q \<noteq> 1"
    then have "3 \<le> q" using c(1) by (cases q rule: nat.exhaust; cases "q = 2") (auto simp: numeral_eq_Suc)
    then have "2 ^ 256 * 3 \<le> 2 ^ 256 * q" by (rule mult_le_mono2)
    then show False using nval_0_bound [OF assms(1)] c(2) unfolding n v by simp
  qed
  define d where "d = nval 0 x - 2 ^ 257"
  have "nval 0 x = 2 ^ 257 + d" "d < 2 ^ 30" using c(2) m l unfolding d_def n v \<open>q = 1\<close> by simp_all
  then have d: "fval x = 2 ^ 257 + int d" "int d < 2 ^ 30" by (simp_all add: fval_nval)
  have "(fel x - 1) * 2 ^ 257 mod fp = ((fval x * Rinv) mod fp * 2 ^ 257 - 2 ^ 257) mod fp"
    by (simp only: fel_def res_def left_diff_distrib mult_1)
  also have "\<dots> = (fval x * Rinv * 2 ^ 257 - 2 ^ 257) mod fp" by (metis mod_diff_left_eq mod_mult_left_eq)
  also have "fval x * Rinv * 2 ^ 257 - 2 ^ 257 = fval x * (2 ^ 257 * Rinv) - 2 ^ 257" by algebra
  also have "\<dots> = int d + (fval x * 115792089210356248768974548684794254293921932838497980611635986753331132366849) * fp"
    unfolding Rinv using d(1) by algebra
  also have "\<dots> mod fp = int d mod fp" by (rule mod_mult_self1)
  also have "\<dots> = int d" using d(2) by (intro mod_pos_pos_trivial) (simp_all add: fp_def)
  finally show ?thesis using d(2) by (simp add: fragile_def)
qed

section \<open>The inverse and affine coordinates\<close>

lemma fel_inv:
  assumes "felem_ok x"
  shows "felem_ok (felem_inv x)" "fel x \<noteq> 0 \<Longrightarrow> (fel (felem_inv x) * fel x) mod fp = 1" "fel x = 0 \<Longrightarrow> fel (felem_inv x) = 0"
proof -
  note pw = felem_inv_pw [OF assms, unfolded pw_def]
  show "felem_ok (felem_inv x)" using pw by simp
  show "(fel (felem_inv x) * fel x) mod fp = 1" if "fel x \<noteq> 0"
  proof -
    have "fel x mod fp \<noteq> 0" using that fel_range [of x] by simp
    from fp_fermat [OF this] show ?thesis using pw by (simp only: mod_mult_left_eq)
  qed
  show "fel (felem_inv x) = 0" if "fel x = 0"
  proof -
    define e where "e = 2 ^ 256 - 2 ^ 224 + 2 ^ 192 + 2 ^ 96 - (3 :: nat)"
    have "fel (felem_inv x) = 0 ^ e mod fp" using pw that by (simp only: e_def)
    moreover have "e \<noteq> 0" by (simp add: e_def)
    ultimately show ?thesis by (simp add: power_0_left)
  qed
qed

lemma point_to_affine_val:
  assumes "point_ok P"
  obtains px py where "point_to_affine P = (px, py)" "felem_ok px" "felem_ok py"
    "jz (fel3 P) = 0 \<Longrightarrow> fel px = 0 \<and> fel py = 0"
    "\<And>A. jz (fel3 P) \<noteq> 0 \<Longrightarrow> repr (fel3 P) (fst A) (snd A) \<Longrightarrow> canonical A \<Longrightarrow> A = (fel px, fel py)"
proof -
  obtain x y z where P: "P = (x, y, z)" by (cases P)
  have ok: "felem_ok x" "felem_ok y" "felem_ok z" using assms by (simp_all add: P point_ok_def)
  note i = fel_inv [OF ok(3)]
  define px where "px = felem_mul x (felem_square (felem_inv z))"
  define py where "py = felem_mul y (felem_mul (felem_inv z) (felem_square (felem_inv z)))"
  have eq: "point_to_affine P = (px, py)" by (simp add: point_to_affine_def P px_def py_def Let_def)
  have o: "felem_ok px" "felem_ok py" unfolding px_def py_def using ok i(1) by (simp_all add: felem_ops_ok)
  define w where "w = fel (felem_inv z)"
  have f: "fel px = (fel x * w ^ 2) mod fp" "fel py = (fel y * w ^ 3) mod fp"
    unfolding px_def py_def using ok i(1)
    by (simp_all add: fel_mul fel_square felem_mul_ok felem_square_ok w_def mod_mult_right_eq power2_eq_square power3_eq_cube mult.assoc)
  have j: "fel3 P = (fel x, fel y, fel z)" by (simp add: fel3_def P)
  have zero: "fel px = 0 \<and> fel py = 0" if "jz (fel3 P) = 0"
    using that i(3) f by (simp add: jz_def j w_def)
  have A: "A = (fel px, fel py)" if "jz (fel3 P) \<noteq> 0" "repr (fel3 P) (fst A) (snd A)" "canonical A" for A
  proof -
    have "fp dvd w * fel z - 1" using i(2) that(1) fp_pos unfolding w_def by (simp add: jz_def j mod_eq_dvd_iff [symmetric] fp_def)
    moreover have "fp dvd fel x - fst A * fel z ^ 2" "fp dvd fel y - snd A * fel z ^ 3"
      using that(2) by (simp_all add: repr_def j dvd_eq_mod_eq_0)
    ultimately have "fp dvd fel x * w ^ 2 - fst A" "fp dvd fel y * w ^ 3 - snd A" by algebra+
    then have "fel px = fst A mod fp" "fel py = snd A mod fp" unfolding f by (simp_all add: mod_eq_dvd_iff)
    then show ?thesis using that(3) by (simp add: canonical_def prod_eq_iff)
  qed
  show thesis using that [OF eq o zero A] by blast
qed

lemma fragile_0: "\<not> fragile 0"
  by (simp add: fragile_def fp_def)

lemma affine_out_val:
  assumes "point_ok P"
  obtains ox oy where "affine_out P = Some (ox, oy)" "length ox = 8" "length oy = 8" "lval ox < p256_p" "lval oy < p256_p"
    "jz (fel3 P) = 0 \<Longrightarrow> lval ox = 0 \<and> lval oy = 0"
    "\<And>A. jz (fel3 P) \<noteq> 0 \<Longrightarrow> repr (fel3 P) (fst A) (snd A) \<Longrightarrow> canonical A \<Longrightarrow>
      (\<not> fragile (fst A) \<longrightarrow> int (lval ox) = fst A) \<and> (\<not> fragile (snd A) \<longrightarrow> int (lval oy) = snd A)"
proof -
  obtain px py where p: "point_to_affine P = (px, py)" "felem_ok px" "felem_ok py"
    "jz (fel3 P) = 0 \<Longrightarrow> fel px = 0 \<and> fel py = 0"
    "\<And>A. jz (fel3 P) \<noteq> 0 \<Longrightarrow> repr (fel3 P) (fst A) (snd A) \<Longrightarrow> canonical A \<Longrightarrow> A = (fel px, fel py)"
    using point_to_affine_val [OF assms] by blast
  obtain ox where x: "from_montgomery px = Some ox" "length ox = 8" "lval ox < p256_p" "\<not> carry_lost px \<Longrightarrow> int (lval ox) = fel px"
    using from_montgomery_right [OF p(2)] by blast
  obtain oy where y: "from_montgomery py = Some oy" "length oy = 8" "lval oy < p256_p" "\<not> carry_lost py \<Longrightarrow> int (lval oy) = fel py"
    using from_montgomery_right [OF p(3)] by blast
  note f = carry_lost_fragile [OF p(2)] carry_lost_fragile [OF p(3)]
  have "affine_out P = Some (ox, oy)" by (simp add: affine_out_def p(1) x(1) y(1))
  moreover have "lval ox = 0 \<and> lval oy = 0" if "jz (fel3 P) = 0"
    using p(4) [OF that] f x(4) y(4) fragile_0 by (metis of_nat_eq_0_iff)
  moreover have "(\<not> fragile (fst A) \<longrightarrow> int (lval ox) = fst A) \<and> (\<not> fragile (snd A) \<longrightarrow> int (lval oy) = snd A)"
    if "jz (fel3 P) \<noteq> 0" "repr (fel3 P) (fst A) (snd A)" "canonical A" for A
    using p(5) [OF that] f x(4) y(4) by auto
  ultimately show thesis using that x(2,3) y(2,3) by blast
qed

text \<open>
  C31. \<open>felem_inv\<close> computes the inverse: for every element within the bounds that is not zero modulo the prime, the product of
  the element and the result is one in the field. The prime is shown to be one, and the exponent of the chain
  of squarings and multiplications is that of Fermat's theorem. The inverse of zero is zero.
\<close>

theorem felem_inv_correct:
  assumes "felem_ok x"
  shows "felem_ok (felem_inv x) \<and> fel (felem_mul (felem_inv x) x) = (if fel x = 0 then 0 else 1)"
  using fel_inv [OF assms] assms by (simp add: fel_mul)

theorem felem_inv_correct_witness: "fel (felem_mul (felem_inv k2P) k2P) = 0 \<and> fel (felem_mul (felem_inv kOne) kOne) = 1"
proof -
  have ok: "felem_ok k2P" by (simp add: k2P_def felem_ok_def all_less_9 limb_bits_def)
  have "fval k2P = 2 * fp" by (simp add: k2P_def fval_def fp_def limb_bits_def)
  then have "fel k2P = 0" by (simp add: fel_zero_iff)
  then show ?thesis using felem_inv_correct [OF ok] felem_inv_correct [OF felem_ok_kOne] by (simp add: fel_kOne)
qed

text \<open>
  An element for the number one whose carry is lost. The limbs are those of \<open>2 ^ 257\<close>, with the lowest one not reduced.
\<close>

definition lossy_one :: felem where
  "lossy_one = [0x20000000, 0xfffffff, 0x1fffffff, 0xfffffff, 0x1fffffff, 0xfffffff, 0x1fffffff, 0xfffffff, 0x1fffffff]"

lemma lossy_one_val: "felem_ok lossy_one" "fval lossy_one = 2 ^ 257" "fel lossy_one = 1" "carry_lost lossy_one"
proof -
  show "felem_ok lossy_one" by (simp add: lossy_one_def felem_ok_def all_less_9 limb_bits_def)
  show v: "fval lossy_one = 2 ^ 257" by (simp add: lossy_one_def fval_def limb_bits_def)
  show "fel lossy_one = 1" by (rule fel_eqI) (simp_all add: v fp_def)
  show "carry_lost lossy_one" by (simp add: lossy_one_def carry_lost_def limb_bits_def)
qed

text \<open>
  C32. What \<open>from_montgomery\<close> computes, for every element within the bounds: it returns, with a reduced number, which is
  the element divided by \<open>R = 2 ^ 257\<close>, except that a lost carry takes \<open>2 ^ 256\<close> off before the division. A carry
  is lost only for the few elements that stand for \<open>1 + e / R\<close> with \<open>e < 2 ^ 30\<close>.
\<close>

theorem from_montgomery_exact:
  assumes "felem_ok x"
  shows "\<exists>y. from_montgomery x = Some y \<and> length y = P256_NDIGITS \<and>
    int (lval y) = ((fval x - (if carry_lost x then 2 ^ 256 else 0)) * Rinv) mod fp \<and>
    (carry_lost x \<longrightarrow> fragile (fel x)) \<and> (\<not> carry_lost x \<longrightarrow> int (lval y) = fel x)"
proof (rule from_montgomery_val [OF assms])
  fix y
  assume "from_montgomery x = Some y" "length y = 8" "lval y < p256_p"
    "int (lval y) = ((fval x - (if carry_lost x then 2 ^ 256 else 0)) * Rinv) mod fp"
  then show ?thesis using carry_lost_fragile [OF assms] by (intro exI [of _ y]) (simp add: P256_NDIGITS_def fel_def res_def)
qed

text \<open>The element for one comes back as a half.\<close>

theorem from_montgomery_exact_witness:
  "fel lossy_one = 1 \<and> (\<exists>y. from_montgomery lossy_one = Some y \<and> (2 * int (lval y)) mod fp = 1 \<and> int (lval y) \<noteq> 1)"
proof -
  obtain y where y: "from_montgomery lossy_one = Some y" "int (lval y) = (2 ^ 256 * Rinv) mod fp"
    using from_montgomery_exact [OF lossy_one_val(1)] by (auto simp: lossy_one_val)
  have "(2 ^ 256 * Rinv) mod fp = 57896044605178124381348723474703786765043071707645157097766815654433548926976"
    by (simp add: Rinv_def fp_def)
  then show ?thesis using y lossy_one_val(3) by (simp add: fp_def)
qed

end
