(* ===== verification/P256_Multiply.thy ===== *)
theory P256_Multiply
  imports P256_Table P256_Convert
begin

text \<open>
  The exported multiplications of \<open>p256_ec.c\<close> against multiples of points: \<open>p256_base_point_mul\<close> and
  \<open>p256_points_mul_vartime\<close> compute \<open>n G\<close> and \<open>n1 G + n2 Q\<close>, as \<open>comb\<close> has them.
\<close>

section \<open>One copy of a point\<close>

lemma comb_positive: "comb G Q k m A \<Longrightarrow> 1 \<le> k + m"
  by (induction rule: comb.induct) simp_all

lemma comb_single: "comb G Q k m A \<Longrightarrow> k + m = 1 \<Longrightarrow> A = (if m = 0 then G else Q)"
proof (induction rule: comb.induct)
  case (double k m A k' m' B)
  then show ?case using comb_positive [OF double(1)] comb_positive [OF double(2)] by linarith
next
  case (add k m A k' m' B C)
  then show ?case using comb_positive [OF add(1)] comb_positive [OF add(2)] by linarith
qed simp_all

lemma table_first: "(fel (entry_x 0 1), fel (entry_y 0 1)) = curve_G"
  using comb_single [OF table_comb [of 0 1 curve_G]] by (simp add: weight_def)

section \<open>Multiples of the base point and of the key\<close>

lemma denotes_entry:
  assumes "comb G Q k m (fel x, fel y)"
  shows "denotes G Q k m (fel x, fel y, 1)"
  using denotes_triple [of G Q k m "fel x" "fel y"] assms fel_range [of x] fel_range [of y] by simp

interpretation of_base: base_multiples "\<lambda>k. denotes curve_G Q k 0" for Q
proof
  show "denotes curve_G Q (2 * k) 0 (jdouble j)" if "denotes curve_G Q k 0 j" for k j
    using denotes_double [OF that] by simp
  show "denotes curve_G Q (k + l) 0 (jadd i j)" if "denotes curve_G Q k 0 i" "denotes curve_G Q l 0 j" for k l i j
    using denotes_add [OF that] by simp
  show "denotes curve_G Q (weight t k) 0 (fel (entry_x t k), fel (entry_y t k), 1)" if "t < 2" "1 \<le> k" "k < 16" for t k
    using table_comb [OF that] by (rule denotes_entry)
qed

interpretation of_key: multiples "\<lambda>k. denotes curve_G Q 0 k" for Q
proof
  show "denotes curve_G Q 0 (2 * k) (jdouble j)" if "denotes curve_G Q 0 k j" for k j
    using denotes_double [OF that] by simp
  show "denotes curve_G Q 0 (k + l) (jadd i j)" if "denotes curve_G Q 0 k i" "denotes curve_G Q 0 l j" for k l i j
    using denotes_add [OF that] by simp
qed

text \<open>With the scalar one the result is the triple of the point itself, third coordinate included.\<close>

interpretation once: multiples "\<lambda>k j. 1 \<le> k \<and> (k = 1 \<longrightarrow> j = J)" for J
  by unfold_locales auto

interpretation base_once: base_multiples "\<lambda>k j. 1 \<le> k \<and> (k = 1 \<longrightarrow> j = (fst curve_G, snd curve_G, 1))"
proof (unfold_locales, goal_cases)
  case (1 t k)
  then have k: "t = 0 \<or> t = 1" "k \<in> {1, 2, 3, 4, 5, 6, 7, 8, 9, 10, 11, 12, 13, 14, 15}" unfolding insert_iff empty_iff by presburger+
  have "1 \<le> weight t k \<and> (weight t k = 1 \<longrightarrow> t = 0 \<and> k = 1)"
    using k(1) by (elim disjE; use k(2) in \<open>elim insertE emptyE; simp add: weight_def\<close>)
  moreover have "fel (entry_x 0 1) = fst curve_G" "fel (entry_y 0 1) = snd curve_G"
    using table_first by (metis fst_conv, metis snd_conv)
  ultimately show ?case by auto
qed

section \<open>The base point\<close>

definition has_affine :: "point \<Rightarrow> bool" where
  "has_affine P \<longleftrightarrow> jz (fel3 P) \<noteq> 0"

lemma has_affine_coprime: "has_affine P \<longleftrightarrow> coprime (jz (fel3 P)) fp"
proof -
  obtain x y z where "fel3 P = (fel x, fel y, fel z)" by (cases P) (simp add: fel3_def)
  then show ?thesis using fel_range [of z] by (simp add: has_affine_def coprime_fp_iff jz_def)
qed

definition multiple :: "affine \<Rightarrow> nat \<Rightarrow> affine \<Rightarrow> bool" where
  "multiple G n A \<longleftrightarrow> comb G G n 0 A"

text \<open>A coordinate that \<open>from_montgomery\<close> gets right.\<close>

definition coordinate :: "p256_int \<Rightarrow> int \<Rightarrow> bool" where
  "coordinate w c \<longleftrightarrow> (\<not> fragile c \<longrightarrow> int (lval w) = c)"

lemma canonical_G: "canonical curve_G"
  by (simp add: canonical_def curve_G_def fp_def)

lemma affine_out_denotes:
  assumes "point_ok P" "denotes G Q k m (fel3 P)" "canonical G" "canonical Q"
  obtains ox oy where "affine_out P = Some (ox, oy)" "length ox = 8" "length oy = 8" "lval ox < p256_p" "lval oy < p256_p"
    "\<not> has_affine P \<Longrightarrow> lval ox = 0 \<and> lval oy = 0"
    "has_affine P \<Longrightarrow> \<exists>A. comb G Q k m A \<and> coordinate ox (fst A) \<and> coordinate oy (snd A)"
proof -
  obtain ox oy where o: "affine_out P = Some (ox, oy)" "length ox = 8" "length oy = 8" "lval ox < p256_p" "lval oy < p256_p"
    "jz (fel3 P) = 0 \<Longrightarrow> lval ox = 0 \<and> lval oy = 0"
    "\<And>A. jz (fel3 P) \<noteq> 0 \<Longrightarrow> repr (fel3 P) (fst A) (snd A) \<Longrightarrow> canonical A \<Longrightarrow>
      (\<not> fragile (fst A) \<longrightarrow> int (lval ox) = fst A) \<and> (\<not> fragile (snd A) \<longrightarrow> int (lval oy) = snd A)"
    using affine_out_val [OF assms(1)] by blast
  have "\<exists>A. comb G Q k m A \<and> coordinate ox (fst A) \<and> coordinate oy (snd A)" if h: "has_affine P"
  proof -
    obtain A where A: "comb G Q k m A" "repr (fel3 P) (fst A) (snd A)"
      using assms(2) h by (auto simp: denotes_def has_affine_coprime)
    moreover have "canonical A" using comb_canonical [OF A(1) assms(3,4)] .
    ultimately show ?thesis using o(7) [of A] h unfolding has_affine_def coordinate_def by blast
  qed
  then show thesis using that o(1-6) by (auto simp: has_affine_def)
qed

lemma base_point_mul_val:
  assumes "length n = 8" "lval n \<noteq> 0"
  obtains ox oy where "p256_base_point_mul n = Some (ox, oy)" "lval ox < p256_p" "lval oy < p256_p"
    "\<not> has_affine (scalar_base_mult n) \<Longrightarrow> lval ox = 0 \<and> lval oy = 0"
    "has_affine (scalar_base_mult n) \<Longrightarrow> \<exists>A. multiple curve_G (lval n) A \<and> coordinate ox (fst A) \<and> coordinate oy (snd A)"
  using of_base.scalar_base_mult_multiple [OF assms(1), of curve_G] assms(2)
    affine_out_denotes [of "scalar_base_mult n" curve_G curve_G "lval n" 0] canonical_G
  unfolding multiple_def p256_base_point_mul_def by metis

section \<open>The sum of two multiples\<close>

text \<open>
  The third coordinates of the triples a computation goes through do not vanish: then no addition on the way was one
  of a point and its opposite, nor, outside of \<open>point_add_or_double_vartime\<close>, one of equal points.
\<close>

definition regular_mul :: "p256_int \<Rightarrow> p256_int \<Rightarrow> p256_int \<Rightarrow> p256_int \<Rightarrow> bool" where
  "regular_mul n1 n2 in_x in_y \<longleftrightarrow>
     (case (to_montgomery in_x, to_montgomery in_y) of
        (Some px, Some py) \<Rightarrow>
          (let p1 = scalar_base_mult n1;
               p2 = scalar_mult px py n2
           in if p256_is_zero n2 then has_affine p1
              else has_affine p2 \<and> (p256_is_zero n1 \<or>
                (case point_add_or_double_vartime p1 p2 of None \<Rightarrow> False | Some S \<Rightarrow> has_affine S)))
      | _ \<Rightarrow> False)"

lemma add_or_double_denotes:
  assumes "point_ok P" "point_ok P'" "denotes G Q k 0 (fel3 P)" "denotes G Q 0 m (fel3 P')" "canonical G" "canonical Q"
  obtains S where "point_add_or_double_vartime P P' = Some S" "point_ok S" "has_affine P' \<Longrightarrow> denotes G Q k m (fel3 S)"
proof -
  obtain S where S: "point_add_or_double_vartime P P' = Some S" "point_ok S"
    "fel3 S = (if same_point (fel3 P) (fel3 P') then jdouble (fel3 P) else jadd (fel3 P) (fel3 P'))"
    using point_add_or_double_val [OF assms(1,2)] by blast
  have "denotes G Q k m (fel3 S)" if "has_affine P'"
    using S(3) denotes_add [OF assms(3,4)] denotes_same [OF assms(3,4) _ _ assms(5,6)] that
    by (simp add: has_affine_coprime)
  then show thesis using that S(1,2) by blast
qed

text \<open>The triple whose coordinates are returned.\<close>

lemma points_mul_triple:
  assumes "length n1 = 8" "length n2 = 8" "length x = 8" "length y = 8" "lval x < p256_p" "lval y < p256_p"
    "lval n1 \<noteq> 0 \<or> lval n2 \<noteq> 0"
  obtains S where "p256_points_mul_vartime n1 n2 x y = affine_out S" "point_ok S"
    "regular_mul n1 n2 x y \<Longrightarrow> has_affine S \<and> denotes curve_G (int (lval x), int (lval y)) (lval n1) (lval n2) (fel3 S)"
proof -
  have fp: "int p256_p = fp" by (simp add: p256_p_def fp_def)
  have xy: "int (lval x) mod fp = int (lval x)" "int (lval y) mod fp = int (lval y)" using assms(5,6) by (simp_all add: fp [symmetric])
  let ?Q = "(int (lval x), int (lval y))"
  have Q: "canonical ?Q" using assms(5,6) by (simp add: canonical_def fp [symmetric])
  obtain px where px: "to_montgomery x = Some px" "felem_ok px" "fel px = int (lval x)" using to_montgomery_val [OF assms(3)] xy(1) by metis
  obtain py where py: "to_montgomery y = Some py" "felem_ok py" "fel py = int (lval y)" using to_montgomery_val [OF assms(4)] xy(2) by metis
  let ?p1 = "scalar_base_mult n1" and ?p2 = "scalar_mult px py n2"
  have p1: "point_ok ?p1" "lval n1 \<noteq> 0 \<Longrightarrow> denotes curve_G ?Q (lval n1) 0 (fel3 ?p1)"
    using of_base.scalar_base_mult_multiple [OF assms(1), of ?Q] by simp_all
  have "denotes curve_G ?Q 0 1 (fel px, fel py, 1)" unfolding px(3) [symmetric] py(3) [symmetric] by (rule denotes_entry, rule comb.second)
  then have p2: "point_ok ?p2" "lval n2 \<noteq> 0 \<Longrightarrow> denotes curve_G ?Q 0 (lval n2) (fel3 ?p2)"
    using of_key.scalar_mult_multiple [OF _ px(2) py(2) assms(2), of ?Q] by simp_all
  consider "lval n2 = 0" | "lval n2 \<noteq> 0" "lval n1 = 0" | "lval n2 \<noteq> 0" "lval n1 \<noteq> 0" by blast
  then show thesis
  proof cases
    case 1
    then show ?thesis using that [of ?p1] p1 assms(7)
      by (simp add: p256_points_mul_vartime_def regular_mul_def p256_is_zero_val px(1) py(1) Let_def)
  next
    case 2
    then show ?thesis using that [of ?p2] p2
      by (simp add: p256_points_mul_vartime_def regular_mul_def p256_is_zero_val px(1) py(1) Let_def)
  next
    case 3
    obtain S where "point_add_or_double_vartime ?p1 ?p2 = Some S" "point_ok S"
      "has_affine ?p2 \<Longrightarrow> denotes curve_G ?Q (lval n1) (lval n2) (fel3 S)"
      using add_or_double_denotes [OF p1(1) p2(1) p1(2) p2(2) canonical_G Q] 3 by blast
    then show ?thesis using that [of S] 3
      by (simp add: p256_points_mul_vartime_def regular_mul_def p256_is_zero_val px(1) py(1) Let_def)
  qed
qed

lemma points_mul_val:
  assumes "length n1 = 8" "length n2 = 8" "length x = 8" "length y = 8" "lval x < p256_p" "lval y < p256_p"
  obtains ox oy where "p256_points_mul_vartime n1 n2 x y = Some (ox, oy)" "length ox = 8" "length oy = 8" "lval ox < p256_p"
    "lval n1 \<noteq> 0 \<or> lval n2 \<noteq> 0 \<Longrightarrow> regular_mul n1 n2 x y \<Longrightarrow>
      \<exists>A. comb curve_G (int (lval x), int (lval y)) (lval n1) (lval n2) A \<and> coordinate ox (fst A) \<and> coordinate oy (snd A)"
proof (cases "lval n1 \<noteq> 0 \<or> lval n2 \<noteq> 0")
  case False
  then have "p256_points_mul_vartime n1 n2 x y = Some (p256_clear, p256_clear)"
    by (simp add: p256_points_mul_vartime_def p256_is_zero_val)
  moreover have "length p256_clear = 8" "lval p256_clear = 0" by (simp_all add: p256_clear_def p256_init_def P256_NDIGITS_def)
  ultimately show ?thesis using that [of p256_clear p256_clear] False curve_constants(8) by simp
next
  case True
  obtain S where S: "p256_points_mul_vartime n1 n2 x y = affine_out S" "point_ok S"
    "regular_mul n1 n2 x y \<Longrightarrow> has_affine S \<and> denotes curve_G (int (lval x), int (lval y)) (lval n1) (lval n2) (fel3 S)"
    using points_mul_triple [OF assms True] by blast
  have fp: "int p256_p = fp" by (simp add: p256_p_def fp_def)
  have Q: "canonical (int (lval x), int (lval y))" using assms(5,6) by (simp add: canonical_def fp [symmetric])
  show ?thesis
  proof (cases "regular_mul n1 n2 x y")
    case True
    then show ?thesis using that S(1,3) affine_out_denotes [OF S(2) _ canonical_G Q] by metis
  next
    case False
    then show ?thesis using that S(1) affine_out_val [OF S(2)] by metis
  qed
qed

section \<open>Theorems\<close>

text \<open>
  C30. The table \<open>kPrecomputed\<close> holds what its comment lists, and \<open>select_affine_point\<close> reads it: for an index of four
  bits other than zero it returns an affine point that is the sum of the multiples \<open>G\<close>, \<open>2 ^ 64 G\<close>, \<open>2 ^ 128 G\<close> and
  \<open>2 ^ 192 G\<close> its bits stand for, times \<open>2 ^ 32\<close> in the second half of the table.
\<close>

theorem precomputed_multiples:
  assumes "0 < unat index" "unat index < 16" "t < 2"
  shows "\<exists>x y. select_affine_point (drop (270 * t) kPrecomputed) index = (x, y) \<and>
    multiple curve_G (weight t (unat index)) (fel x, fel y)"
proof -
  have "index \<noteq> 0" using assms(1) by auto
  then have "select_affine_point (drop (270 * t) kPrecomputed) index = (entry_x t (unat index), entry_y t (unat index))"
    using select_entry [OF assms(2,3)] by simp
  moreover have "1 \<le> unat index" using assms(1) by simp
  ultimately show ?thesis using table_comb [OF assms(3) _ assms(2), of curve_G] by (simp add: multiple_def)
qed

theorem precomputed_multiples_witness:
  "\<exists>x y. select_affine_point (drop 270 kPrecomputed) 3 = (x, y) \<and> multiple curve_G (2 ^ 32 + 2 ^ 96) (fel x, fel y)"
  using precomputed_multiples [of 3 1] by (simp add: weight_def)


lemma scalar_one: "lval (1 # replicate 7 0) = 1" "length (1 # replicate 7 (0 :: u32)) = 8"
  by simp_all

lemma fragile_cert: "(c - 1) * 2 ^ 257 = q * fp + d \<Longrightarrow> 2 ^ 30 \<le> d \<Longrightarrow> d < fp \<Longrightarrow> \<not> fragile c"
  by (simp add: fragile_def)

lemma not_fragile_G: "\<not> fragile (fst curve_G)" "\<not> fragile (snd curve_G)"
  apply (rule fragile_cert [where q = "96879122610369331986847788729446756360406240299883401289650679987995608754294"
      and d = "22221186361884954958895084375852356164349584163286490641908802695543045367926"], simp_all add: curve_G_def fp_def)
  apply (rule fragile_cert [where q = "72268501930325913413591274657860750822007083545631821922908629631213383625747"
      and d = "4925957088132239756007111334918279449772114519374021392940768158900309109779"], simp_all add: curve_G_def fp_def)
  done


end
