(* ===== verification/Ecdsa.thy ===== *)
theory Ecdsa
  imports P256_Multiply
begin

text \<open>
  The signature check of \<open>p256_ecdsa.c\<close>, composed of the integers of \<open>p256.c\<close> modulo the order of the group and the
  curve arithmetic of \<open>p256_ec.c\<close>. The result is the \<open>int\<close> the source returns; \<open>None\<close> would be a call
  that does not return or an assertion that fails.
\<close>

definition p256_ecdsa_verify :: "p256_int \<Rightarrow> p256_int \<Rightarrow> p256_int \<Rightarrow> p256_int \<Rightarrow> p256_int \<Rightarrow> int option" where
  "p256_ecdsa_verify key_x key_y message r s =
     (case p256_is_valid_point key_x key_y of
        None \<Rightarrow> None
      | Some False \<Rightarrow> Some 0
      | Some True \<Rightarrow>
          (let u = p256_mod SECP256r1_n r;
               v = p256_mod SECP256r1_n s
           in if p256_is_zero u \<or> p256_is_zero v then Some 0
              else (case p256_modinv_vartime SECP256r1_n s of
                 None \<Rightarrow> None
               | Some v \<Rightarrow>
                   (case p256_modmul SECP256r1_n message 0 v of
                      None \<Rightarrow> None
                    | Some u \<Rightarrow>
                        (case p256_modmul SECP256r1_n r 0 v of
                           None \<Rightarrow> None
                         | Some v \<Rightarrow>
                             (case p256_points_mul_vartime u v key_x key_y of
                                None \<Rightarrow> None
                              | Some (u, v) \<Rightarrow>
                                  (let u = p256_mod SECP256r1_n u
                                   in Some (if p256_cmp r u = 0 then 1 else 0))))))))"

section \<open>The order of the group\<close>

lemma order_constants:
  "length SECP256r1_n = 8" "mod_ok SECP256r1_n" "odd (lval SECP256r1_n)" "1 < lval SECP256r1_n" "2 ^ 256 < 2 * lval SECP256r1_n"
  by (simp_all add: SECP256r1_n_def mod_ok_def unat_minus_1_u32)

lemma mod_order:
  assumes "length a = 8"
  shows "length (p256_mod SECP256r1_n a) = 8" "lval (p256_mod SECP256r1_n a) = lval a mod lval SECP256r1_n"
proof -
  have "lval a < 2 * lval SECP256r1_n" using lval_less [of a] assms order_constants(5) by simp
  then show "length (p256_mod SECP256r1_n a) = 8" "lval (p256_mod SECP256r1_n a) = lval a mod lval SECP256r1_n"
    using p256_mod_val [of a SECP256r1_n] assms order_constants(1) by simp_all
qed

lemma cmp_order: "length a = 8 \<Longrightarrow> length b = 8 \<Longrightarrow> p256_cmp a b = 0 \<longleftrightarrow> lval a = lval b"
  by (simp add: p256_cmp_val)

lemma p256_is_valid_point_curve:
  assumes "length x = 8" "length y = 8" "p256_is_valid_point x y = Some True"
  shows "on_curve (lval x) (lval y)"
proof -
  define w where "w = curve_w (lval x) + p256_b"
  have y: "lval y ^ 2 mod p256_p = (if w < 2 ^ 256 then w else w - p256_p)"
    using assms p256_is_valid_point_val [OF assms(1,2)] by (simp add: w_def)
  have "lval y ^ 2 mod p256_p = w mod p256_p"
  proof (cases "w < 2 ^ 256")
    case True
    then show ?thesis using y by (metis mod_mod_trivial)
  next
    case False
    then have "p256_p \<le> w" using curve_constants(7) by simp
    then have "w mod p256_p = (w - p256_p) mod p256_p" by (simp add: le_mod_geq)
    then show ?thesis using y False by (metis mod_mod_trivial)
  qed
  then show ?thesis by (simp only: on_curve_w w_def)
qed

section \<open>The check\<close>

lemma ecdsa_rejected:
  assumes "length key_x = 8" "length key_y = 8" "length r = 8" "length s = 8"
    "p256_is_valid_point key_x key_y \<noteq> Some True \<or> lval r mod lval SECP256r1_n = 0 \<or> lval s mod lval SECP256r1_n = 0"
  shows "p256_ecdsa_verify key_x key_y message r s = Some 0"
proof -
  obtain b where "p256_is_valid_point key_x key_y = Some b" using p256_is_valid_point_val [OF assms(1,2)] by blast
  then show ?thesis using assms(5)
    by (cases b) (auto simp: p256_ecdsa_verify_def Let_def p256_is_zero_val mod_order [OF assms(3)] mod_order [OF assms(4)])
qed

lemma ecdsa_computed:
  assumes "length key_x = 8" "length key_y = 8" "length message = 8" "length r = 8" "length s = 8"
    "p256_is_valid_point key_x key_y = Some True" "lval r mod lval SECP256r1_n \<noteq> 0" "lval s mod lval SECP256r1_n \<noteq> 0"
  obtains w u v ox oy where "lval s * w mod lval SECP256r1_n = gcd (lval SECP256r1_n) (lval s) mod lval SECP256r1_n"
    "length u = 8" "lval u = lval message * w mod lval SECP256r1_n" "length v = 8" "lval v = lval r * w mod lval SECP256r1_n"
    "p256_points_mul_vartime u v key_x key_y = Some (ox, oy)" "length ox = 8"
    "p256_ecdsa_verify key_x key_y message r s = Some (if lval r = lval ox mod lval SECP256r1_n then 1 else 0)"
    "(lval u \<noteq> 0 \<or> lval v \<noteq> 0) \<and> regular_mul u v key_x key_y \<longrightarrow>
      (\<exists>A. comb curve_G (int (lval key_x), int (lval key_y)) (lval u) (lval v) A \<and> coordinate ox (fst A) \<and> coordinate oy (snd A))"
proof -
  have k: "lval key_x < p256_p" "lval key_y < p256_p" using p256_is_valid_point_val [OF assms(1,2)] assms(6) by simp_all
  have "0 < lval s" using assms(8) by (cases "lval s = 0") simp_all
  then obtain w where w: "p256_modinv_vartime SECP256r1_n s = Some w" "length w = 8"
    "lval s * lval w mod lval SECP256r1_n = gcd (lval SECP256r1_n) (lval s) mod lval SECP256r1_n"
    using p256_modinv_val [OF order_constants(1,3,4) assms(5)] by metis
  obtain u where u: "p256_modmul SECP256r1_n message 0 w = Some u" "length u = 8" "lval u = lval message * lval w mod lval SECP256r1_n"
    using p256_modmul_val [OF order_constants(2) assms(3) w(2), of 0] by auto
  obtain v where v: "p256_modmul SECP256r1_n r 0 w = Some v" "length v = 8" "lval v = lval r * lval w mod lval SECP256r1_n"
    using p256_modmul_val [OF order_constants(2) assms(4) w(2), of 0] by auto
  obtain ox oy where o: "p256_points_mul_vartime u v key_x key_y = Some (ox, oy)" "length ox = 8"
    "lval u \<noteq> 0 \<or> lval v \<noteq> 0 \<Longrightarrow> regular_mul u v key_x key_y \<Longrightarrow>
      \<exists>A. comb curve_G (int (lval key_x), int (lval key_y)) (lval u) (lval v) A \<and> coordinate ox (fst A) \<and> coordinate oy (snd A)"
    using points_mul_val [OF u(2) v(2) assms(1,2) k] by metis
  have "p256_ecdsa_verify key_x key_y message r s = Some (if lval r = lval ox mod lval SECP256r1_n then 1 else 0)"
    unfolding p256_ecdsa_verify_def Let_def assms(6) option.case bool.case p256_is_zero_val mod_order(2) [OF assms(4)] mod_order(2) [OF assms(5)]
      w(1) u(1) v(1) o(1) prod.case cmp_order [OF assms(4) mod_order(1) [OF o(2)]] mod_order(2) [OF o(2)]
    using assms(7,8) by simp
  then show thesis using that w(3) u(2,3) v(2,3) o by blast
qed

section \<open>Theorems\<close>

text \<open>
  C10. \<open>p256_ecdsa_verify\<close> always returns, with 0 or 1, although two of its calls loop: the inverse is taken only of a number
  that is not zero. It accepts only a key that is a point of the curve, and only numbers \<open>r\<close> and \<open>s\<close> that
  are not multiples of the order, the first below it.
\<close>

theorem p256_ecdsa_verify_total:
  assumes "length key_x = P256_NDIGITS" "length key_y = P256_NDIGITS" "length message = P256_NDIGITS"
    "length r = P256_NDIGITS" "length s = P256_NDIGITS"
  shows "\<exists>b. p256_ecdsa_verify key_x key_y message r s = Some b \<and> (b = 0 \<or> b = 1 \<and>
    on_curve (lval key_x) (lval key_y) \<and> 0 < lval r \<and> lval r < lval SECP256r1_n \<and> \<not> lval SECP256r1_n dvd lval s)"
proof -
  note l = assms [unfolded P256_NDIGITS_def]
  show ?thesis
  proof (cases "p256_is_valid_point key_x key_y = Some True \<and> lval r mod lval SECP256r1_n \<noteq> 0 \<and> lval s mod lval SECP256r1_n \<noteq> 0")
    case True
    then obtain ox where v: "p256_ecdsa_verify key_x key_y message r s = Some (if lval r = lval ox mod lval SECP256r1_n then 1 else 0)"
      using ecdsa_computed [OF l] by metis
    have "on_curve (lval key_x) (lval key_y)" using True p256_is_valid_point_curve [OF l(1,2)] by blast
    moreover have "0 < lval r" using True by (cases "lval r = 0") simp_all
    moreover have "lval r < lval SECP256r1_n" if "lval r = lval ox mod lval SECP256r1_n"
      unfolding that using order_constants(4) by simp
    ultimately show ?thesis using v True by (auto simp: dvd_eq_mod_eq_0)
  next
    case False
    then show ?thesis using ecdsa_rejected [OF l(1,2,4,5), of message] by simp
  qed
qed

theorem p256_ecdsa_verify_total_witness:
  "\<exists>b. p256_ecdsa_verify (replicate 8 0) (replicate 8 0) (replicate 8 0) (replicate 8 1) (replicate 8 1) = Some b \<and> (b = 0 \<or> b = 1)"
  using p256_ecdsa_verify_total [of "replicate 8 0" "replicate 8 0" "replicate 8 0" "replicate 8 1" "replicate 8 1"]
  by (auto simp: P256_NDIGITS_def)


text \<open>A signature by hand: the key is the base point, the message zero and both numbers its first coordinate.\<close>

lemma regular_once:
  assumes "length x = 8" "length y = 8" "length v = 8" "lval v = 1" "lval u = 0"
  shows "regular_mul u v x y"
proof -
  obtain px where px: "to_montgomery x = Some px" "felem_ok px" using to_montgomery_val [OF assms(1)] by blast
  obtain py where py: "to_montgomery y = Some py" "felem_ok py" using to_montgomery_val [OF assms(2)] by blast
  have "fel3 (scalar_mult px py v) = (fel px, fel py, 1)"
    using once.scalar_mult_multiple [OF _ px(2) py(2) assms(3), of "(fel px, fel py, 1)"] assms(4) by simp
  then show ?thesis using assms(4,5) by (simp add: regular_mul_def px(1) py(1) p256_is_zero_val has_affine_def jz_def)
qed

lemma base_valid: "p256_is_valid_point base_x base_y = Some True"
proof -
  let ?w = "curve_w (lval base_x) + p256_b"
  have "lval base_y ^ 2 mod p256_p = ?w mod p256_p" using base_on_curve by (simp only: on_curve_w)
  also have "\<dots> = (if ?w < 2 ^ 256 then ?w else ?w - p256_p)" unfolding base_w by (simp add: p256_p_val p256_b_def)
  finally have "lval base_y ^ 2 mod p256_p = (if ?w < 2 ^ 256 then ?w else ?w - p256_p)" .
  moreover have "0 < lval base_x" "lval base_x < p256_p" "0 < lval base_y" "lval base_y < p256_p" by (simp_all add: base_val p256_p_val)
  ultimately show ?thesis using p256_is_valid_point_val [OF base_len] by (simp only: simp_thms)
qed

lemma coprime_cert: "x * a = n * b + 1 \<Longrightarrow> coprime x (n :: nat)"
  by (metis coprime_1_right coprime_add_one_right coprime_mult_right_iff coprime_commute dvd_triv_left coprime_divisors dvd_refl)

lemma base_order: "coprime (lval base_x) (lval SECP256r1_n)"
  by (rule coprime_cert [where a = "33721569520402456289367529045694162334902731715375022578928925136990816427411"
      and b = "14106818910079468931313203823824270011973506000731701423752530708349290468305"]) (simp add: base_val SECP256r1_n_def unat_minus_1_u32)


end
