(* ===== verification/Cstrings.thy ===== *)
theory Cstrings
  imports Cstd "HOL-Library.Multiset"
begin

text \<open>
  More of the C library, for the tools that read text: \<open>strcmp\<close>, \<open>qsort\<close>, \<open>strtok\<close>, \<open>fgets\<close>,
  \<open>strtol\<close> and \<open>atoi\<close>. \<open>qsort\<close> is given as one sorting algorithm; the locale \<open>comparator\<close> shows that
  with a comparison function that is a linear order every algorithm has the same result, so nothing
  depends on the choice.
\<close>

section \<open>Comparison and sorting\<close>

fun strcmp :: "string \<Rightarrow> string \<Rightarrow> int" where
  "strcmp [] [] = 0"
| "strcmp [] (d # t) = - int (of_char d)"
| "strcmp (c # s) [] = int (of_char c)"
| "strcmp (c # s) (d # t) = (if c = d then strcmp s t else int (of_char c) - int (of_char d))"

fun insert_by :: "('a \<Rightarrow> 'a \<Rightarrow> int) \<Rightarrow> 'a \<Rightarrow> 'a list \<Rightarrow> 'a list" where
  "insert_by cmp x [] = [x]"
| "insert_by cmp x (y # ys) = (if cmp x y \<le> 0 then x # y # ys else y # insert_by cmp x ys)"

definition qsort :: "('a \<Rightarrow> 'a \<Rightarrow> int) \<Rightarrow> 'a list \<Rightarrow> 'a list" where
  "qsort cmp xs = foldr (insert_by cmp) xs []"

lemma mset_insert_by: "mset (insert_by cmp x xs) = add_mset x (mset xs)"
  by (induction xs) auto

lemma set_insert_by [simp]: "set (insert_by cmp x xs) = insert x (set xs)"
  using mset_insert_by [of cmp x xs] by (metis set_mset_mset set_mset_add_mset_insert)

lemma mset_qsort [simp]: "mset (qsort cmp xs) = mset xs"
  by (induction xs) (simp_all add: qsort_def mset_insert_by)

lemma set_qsort [simp]: "set (qsort cmp xs) = set xs"
  by (rule mset_eq_setD) simp

lemma qsort_map:
  assumes "\<And>x y. cmp (f x) (f y) = cmp' x y"
  shows "qsort cmp (map f xs) = map f (qsort cmp' xs)"
proof -
  have "insert_by cmp (f x) (map f ys) = map f (insert_by cmp' x ys)" for x ys
    by (induction ys) (simp_all add: assms)
  then show ?thesis by (induction xs) (simp_all add: qsort_def)
qed

locale comparator =
  fixes dom :: "'a \<Rightarrow> bool" and cmp :: "'a \<Rightarrow> 'a \<Rightarrow> int"
  assumes cmp_total: "dom x \<Longrightarrow> dom y \<Longrightarrow> cmp x y \<le> 0 \<or> cmp y x \<le> 0"
    and cmp_trans: "dom x \<Longrightarrow> dom y \<Longrightarrow> dom z \<Longrightarrow> cmp x y \<le> 0 \<Longrightarrow> cmp y z \<le> 0 \<Longrightarrow> cmp x z \<le> 0"
    and cmp_antisym: "dom x \<Longrightarrow> dom y \<Longrightarrow> cmp x y \<le> 0 \<Longrightarrow> cmp y x \<le> 0 \<Longrightarrow> x = y"
begin

abbreviation ordered :: "'a list \<Rightarrow> bool" where
  "ordered xs \<equiv> sorted_wrt (\<lambda>x y. cmp x y \<le> 0) xs"

lemma ordered_insert_by:
  assumes "dom x" "\<forall>y \<in> set xs. dom y" "ordered xs"
  shows "ordered (insert_by cmp x xs)"
  using assms(2,3)
proof (induction xs)
  case (Cons y ys)
  show ?case
  proof (cases "cmp x y \<le> 0")
    case True
    then show ?thesis using Cons.prems cmp_trans [of x y] assms(1) by auto
  next
    case False
    then have "cmp y x \<le> 0" using cmp_total assms(1) Cons.prems(1) by auto
    then show ?thesis using Cons False by auto
  qed
qed simp

lemma ordered_qsort: "\<forall>x \<in> set xs. dom x \<Longrightarrow> ordered (qsort cmp xs)"
proof (induction xs)
  case (Cons x xs)
  have "ordered (insert_by cmp x (qsort cmp xs))"
    by (rule ordered_insert_by) (use Cons in auto)
  then show ?case by (simp add: qsort_def)
qed (simp add: qsort_def)

lemma ordered_unique:
  assumes "\<forall>x \<in> set xs. dom x" "mset ys = mset xs" "ordered xs" "ordered ys"
  shows "ys = xs"
  using assms
proof (induction xs arbitrary: ys)
  case (Cons x xs)
  have s: "set ys = insert x (set xs)" using Cons.prems(2) by (metis list.simps(15) mset_eq_setD)
  obtain y ys' where ys: "ys = y # ys'" using Cons.prems(2) by (cases ys) auto
  have d: "dom x" "dom y" using Cons.prems(1) s ys by auto
  have "x = y"
  proof (rule ccontr)
    assume n: "x \<noteq> y"
    then have "cmp x y \<le> 0" "cmp y x \<le> 0" using Cons.prems(3,4) s ys by auto
    then show False using cmp_antisym d n by blast
  qed
  then show ?case using Cons.IH [of ys'] Cons.prems ys by auto
qed simp

text \<open>Any sorted permutation is the result, whatever the algorithm.\<close>

lemma qsort_unique:
  assumes "\<forall>x \<in> set xs. dom x" "mset ys = mset xs" "ordered ys"
  shows "qsort cmp xs = ys"
proof (rule ordered_unique)
  show "\<forall>x \<in> set ys. dom x" using assms(1,2) by (metis mset_eq_setD)
qed (use assms ordered_qsort in simp_all)

lemma qsort_strict:
  assumes "\<forall>x \<in> set xs. dom x" "distinct xs"
  shows "sorted_wrt (\<lambda>x y. cmp x y \<le> 0 \<and> x \<noteq> y) (qsort cmp xs)"
proof -
  have "distinct (qsort cmp xs)" using assms(2) by (metis mset_qsort mset_eq_imp_distinct_iff)
  with ordered_qsort [OF assms(1)] show ?thesis by (induction "qsort cmp xs" rule: list.induct) (auto simp: sorted_wrt_iff_nth_less distinct_conv_nth)
qed

end

lemma strcmp_refl [simp]: "strcmp s s = 0"
  by (induction s) simp_all

lemma strcmp_swap: "strcmp t s = - strcmp s t"
  by (induction s t rule: strcmp.induct) auto

lemma strcmp_zero: "cstring s \<Longrightarrow> cstring t \<Longrightarrow> strcmp s t = 0 \<Longrightarrow> s = t"
proof (induction s t rule: strcmp.induct)
  case (2 d t)
  then have "(of_char d :: nat) = of_char (CHR 0x00)" by simp
  then have "d = CHR 0x00" by (simp only: of_char_eq_iff)
  then show ?case using 2 by (simp add: cstring_def)
next
  case (3 c s)
  then have "(of_char c :: nat) = of_char (CHR 0x00)" by simp
  then have "c = CHR 0x00" by (simp only: of_char_eq_iff)
  then show ?case using 3 by (simp add: cstring_def)
qed (auto simp: cstring_def split: if_splits)

lemma strcmp_trans:
  "strcmp s t \<le> 0 \<Longrightarrow> strcmp t u \<le> 0 \<Longrightarrow> cstring s \<Longrightarrow> cstring t \<Longrightarrow> strcmp s u \<le> 0"
proof (induction s t arbitrary: u rule: strcmp.induct)
  case (1 u)
  then show ?case by (cases u) auto
next
  case (2 d t)
  then show ?case by (cases u) auto
next
  case (3 c s)
  then have "(of_char c :: nat) = of_char (CHR 0x00)" by simp
  then have "c = CHR 0x00" by (simp only: of_char_eq_iff)
  then show ?case using 3 by (simp add: cstring_def)
next
  case (4 c s d t)
  show ?case
  proof (cases u)
    case Nil
    then have "(of_char d :: nat) = of_char (CHR 0x00)" using 4 by simp
    then have "d = CHR 0x00" by (simp only: of_char_eq_iff)
    then show ?thesis using 4 by (simp add: cstring_def)
  next
    case (Cons e u')
    then show ?thesis using 4 by (auto simp: cstring_def split: if_splits)
  qed
qed

interpretation names: comparator cstring strcmp
proof
  fix x y z
  show "strcmp x y \<le> 0 \<or> strcmp y x \<le> 0" using strcmp_swap [of x y] by linarith
  show "cstring x \<Longrightarrow> cstring y \<Longrightarrow> strcmp x y \<le> 0 \<Longrightarrow> strcmp y z \<le> 0 \<Longrightarrow> strcmp x z \<le> 0" by (rule strcmp_trans)
  assume "cstring x" "cstring y" "strcmp x y \<le> 0" "strcmp y x \<le> 0"
  then show "x = y" using strcmp_swap [of x y] strcmp_zero [of x y] by simp
qed

section \<open>Reading text\<close>

text \<open>\<open>strtok\<close>: the token and the text after it, which the library keeps for the next call.\<close>

definition strtok :: "string \<Rightarrow> string \<Rightarrow> (string \<times> string) option" where
  "strtok delim s =
     (let s = dropWhile (\<lambda>c. c \<in> set delim) s
      in if s = [] then None
         else Some (takeWhile (\<lambda>c. c \<notin> set delim) s, tl (dropWhile (\<lambda>c. c \<notin> set delim) s)))"

text \<open>\<open>fgets\<close>: at most \<open>n - 1\<close> characters, up to and with the first newline, and the rest of the stream.\<close>

definition fgets :: "nat \<Rightarrow> string \<Rightarrow> (string \<times> string) option" where
  "fgets n s =
     (if s = [] then None
      else let k = min (n - 1) (length (takeWhile (\<lambda>c. c \<noteq> CHR 0x0A) s) + 1)
           in Some (take k s, drop k s))"

definition strtol :: "string \<Rightarrow> nat \<Rightarrow> int" where
  "strtol s bas =
     (let s = dropWhile isspace s;
          neg = (case s of c # _ \<Rightarrow> c = CHR ''-'' | [] \<Rightarrow> False);
          s = (case s of c # r \<Rightarrow> if c = CHR ''-'' \<or> c = CHR ''+'' then r else s | [] \<Rightarrow> []);
          v = int (read_digits bas 0 (skip_0x bas s))
      in if neg then max (- (2 ^ 63)) (- v) else min (2 ^ 63 - 1) v)"

text \<open>\<open>atoi\<close> converts the \<open>long\<close> of \<open>strtol\<close> to \<open>int\<close>, here a 32-bit word in two's complement.\<close>

definition atoi :: "string \<Rightarrow> u32" where
  "atoi s = word_of_int (strtol s 10)"

lemma fgets_shorter: "fgets n s = Some (l, r) \<Longrightarrow> 1 < n \<Longrightarrow> length r < length s"
  by (auto simp: fgets_def Let_def split: if_splits)

lemma length_to_digits: "2 \<le> bas \<Longrightarrow> n < bas ^ Suc k \<Longrightarrow> length (to_digits bas n) \<le> Suc k"
proof (induction k arbitrary: n)
  case 0
  then show ?case by (simp add: to_digits.simps [of bas n])
next
  case (Suc k)
  show ?case
  proof (cases "n < bas")
    case False
    have "n div bas < bas ^ Suc k" using Suc.prems by (simp add: less_mult_imp_div_less mult.commute)
    then show ?thesis using Suc.IH [of "n div bas"] Suc.prems False by (simp add: to_digits.simps [of bas n])
  qed (simp add: to_digits.simps [of bas n])
qed

end
