(* ===== verification/Mkbootfs.thy ===== *)
theory Mkbootfs
  imports Cstrings
begin

text \<open>
  \<open>cpio/mkbootfs.c\<close>: archiving directories in the newc format of cpio. The globals of the program are the
  record \<open>boot_state\<close>; the calls to the operating system, and \<open>fs_config\<close> of libcutils, are the functions
  of the record \<open>os\<close>. A run either ends with a state or with an error and the state at that point; what
  was written before an error stays written. Accesses outside an array and through a null pointer are
  errors too. Allocations succeed.
\<close>

section \<open>State\<close>

record fs_config_entry =
  cc_name :: string
  cc_uid :: u32
  cc_gid :: u32
  cc_mode :: u32

record stat =
  st_mode :: u32
  st_uid :: u32
  st_gid :: u32
  st_size :: nat

record boot_state =
  canned_config :: "fs_config_entry list option"
  target_out_path :: "string option"
  total_size :: u32
  next_inode :: u32
  stdout :: bytes

definition boot_init :: boot_state where
  "boot_init = \<lparr>canned_config = None, target_out_path = None, total_size = 0, next_inode = 300000, stdout = []\<rparr>"

record os =
  lstat :: "string \<Rightarrow> stat option"
  opendir :: "string \<Rightarrow> string list option"
  open_read :: "string \<Rightarrow> bytes option"
  readlink :: "string \<Rightarrow> bytes option"
  fs_config :: "string \<Rightarrow> bool \<Rightarrow> string option \<Rightarrow> u32 \<times> u32 \<times> u32 \<Rightarrow> u32 \<times> u32 \<times> u32"

datatype boot_error =
    Could_not_stat string
  | Cannot_open string
  | Cannot_read nat
  | Cannot_open_directory string
  | Cannot_read_symlink string
  | Unknown string u32
  | ACK
  | No_directories
  | No_canned_file
  | Null_dereference
  | Out_of_bounds

type_synonym outcome = "(boot_error \<times> boot_state) + boot_state"

definition S_IFMT :: u32 where "S_IFMT = 0xf000"

definition S_ISREG :: "u32 \<Rightarrow> bool" where "S_ISREG m \<longleftrightarrow> m AND S_IFMT = 0x8000"
definition S_ISDIR :: "u32 \<Rightarrow> bool" where "S_ISDIR m \<longleftrightarrow> m AND S_IFMT = 0x4000"
definition S_ISLNK :: "u32 \<Rightarrow> bool" where "S_ISLNK m \<longleftrightarrow> m AND S_IFMT = 0xa000"

section \<open>Ownership and modes\<close>

definition apply_entry :: "fs_config_entry \<Rightarrow> stat \<Rightarrow> stat" where
  "apply_entry p s =
     s\<lparr>st_uid := cc_uid p, st_gid := cc_gid p, st_mode := cc_mode p OR (st_mode s AND NOT 0xfff)\<rparr>"

fun canned_lookup :: "fs_config_entry list \<Rightarrow> fs_config_entry option \<Rightarrow> string \<Rightarrow> fs_config_entry option" where
  "canned_lookup [] empty_path_config path = empty_path_config"
| "canned_lookup (p # ps) empty_path_config path =
     (let empty_path_config = (if cc_name p = [] then Some p else empty_path_config)
      in if strcmp (cc_name p) path = 0 then Some p
         else canned_lookup ps empty_path_config path)"

definition fix_stat :: "os \<Rightarrow> boot_state \<Rightarrow> string \<Rightarrow> stat \<Rightarrow> stat option" where
  "fix_stat sys st path s =
     (case canned_config st of
        Some config \<Rightarrow> map_option (\<lambda>p. apply_entry p s) (canned_lookup config None path)
      | None \<Rightarrow>
          (case fs_config sys path (S_ISDIR (st_mode s)) (target_out_path st) (st_uid s, st_gid s, st_mode s) of
             (uid, gid, mode) \<Rightarrow> Some (s\<lparr>st_uid := uid, st_gid := gid, st_mode := mode\<rparr>)))"

section \<open>Writing an entry\<close>

definition put :: "bytes \<Rightarrow> boot_state \<Rightarrow> boot_state" where
  "put bs st = st\<lparr>stdout := stdout st @ bs\<rparr>"

function pad_loop :: "u32 \<Rightarrow> boot_state \<Rightarrow> boot_state" where
  "pad_loop m st =
     (if total_size st AND m \<noteq> 0 then pad_loop m (put [0] (st\<lparr>total_size := total_size st + 1\<rparr>)) else st)"
  by pat_completeness auto
termination
proof (relation "measure (\<lambda>(m, st). unat (- total_size st))")
  fix m and st :: boot_state
  assume a: "total_size st AND m \<noteq> 0"
  let ?t = "total_size st"
  have "?t \<noteq> 0" using a by auto
  then have "- ?t \<noteq> 0" by simp
  then have "unat (- ?t - 1) < unat (- ?t)" by (simp add: unat_minus_one unat_gt_0)
  moreover have "- (?t + 1) = - ?t - 1" by simp
  ultimately show "((m, put [0] (st\<lparr>total_size := ?t + 1\<rparr>)), m, st) \<in> measure (\<lambda>(m, st). unat (- total_size st))"
    by (simp only: in_measure split_conv) (simp add: put_def)
qed simp

declare pad_loop.simps [simp del]

definition newc_header :: "u32 \<Rightarrow> stat \<Rightarrow> u32 \<Rightarrow> nat \<Rightarrow> string" where
  "newc_header inode s datasize olen =
     fmt_x 6 0x070701 @ concat (map (fmt_x 8)
       [inode, st_mode s, 0, 0, 1, 0, datasize, 0, 0, 0, 0, of_nat olen + 1, 0])"

definition eject :: "os \<Rightarrow> stat \<Rightarrow> string \<Rightarrow> nat \<Rightarrow> bytes \<Rightarrow> u32 \<Rightarrow> boot_state \<Rightarrow> outcome" where
  "eject sys s out olen data datasize st =
     (let st = pad_loop 3 st
      in case fix_stat sys st out s of
           None \<Rightarrow> Inl (Null_dereference, st)
         | Some s \<Rightarrow>
             (let st = put (cs (newc_header (next_inode st) s datasize olen) @ cs out @ [0]) st;
                  st = st\<lparr>next_inode := next_inode st + 1, total_size := total_size st + 6 + 8 * 13 + of_nat olen + 1\<rparr>
              in if length out \<noteq> olen then Inl (ACK, st)
                 else
                   (let st = pad_loop 3 st
                    in if datasize \<noteq> 0
                       then Inr ((put (take (unat datasize) data) st)\<lparr>total_size := total_size st + datasize\<rparr>)
                       else Inr st)))"

definition eject_trailer :: "os \<Rightarrow> boot_state \<Rightarrow> outcome" where
  "eject_trailer sys st =
     (case eject sys \<lparr>st_mode = 0, st_uid = 0, st_gid = 0, st_size = 0\<rparr> ''TRAILER!!!'' 10 [] 0 st of
        Inl e \<Rightarrow> Inl e
      | Inr st \<Rightarrow> Inr (pad_loop 0xff st))"

section \<open>Walking a directory\<close>

fun collect_names :: "string list \<Rightarrow> nat \<Rightarrow> string list \<Rightarrow> string list option" where
  "collect_names [] sz names = Some names"
| "collect_names (d_name # ds) sz names =
     (if d_name \<noteq> [] \<and> hd d_name = CHR ''.'' then collect_names ds sz names
      else if d_name = ''root'' then collect_names ds sz names
      else
        (let entries = length names;
             sz = (if entries \<ge> sz then sz * 2 else sz)
         in if entries < sz then collect_names ds sz (names @ [d_name]) else None))"

definition BUF :: nat where "BUF = 8192"

text \<open>A C string written into a buffer at an offset, its zero byte included.\<close>

definition put_at :: "string \<Rightarrow> nat \<Rightarrow> string \<Rightarrow> string option" where
  "put_at buf i s = (if i + length s + 1 \<le> BUF then Some (take i buf @ s) else None)"

definition read_all :: "os \<Rightarrow> string \<Rightarrow> stat \<Rightarrow> (boot_error, bytes) sum" where
  "read_all sys inp s =
     (case open_read sys inp of
        None \<Rightarrow> Inl (Cannot_open inp)
      | Some content \<Rightarrow>
          (let tmp = take (min (st_size s) 0x7ffff000) content
           in if length tmp \<noteq> st_size s then Inl (Cannot_read (st_size s)) else Inr tmp))"

function (sequential)
  archive_entry :: "os \<Rightarrow> string \<Rightarrow> string \<Rightarrow> nat \<Rightarrow> nat \<Rightarrow> boot_state \<Rightarrow> outcome"
and archive_dir :: "os \<Rightarrow> string \<Rightarrow> string \<Rightarrow> nat \<Rightarrow> nat \<Rightarrow> boot_state \<Rightarrow> outcome"
and archive_loop :: "os \<Rightarrow> string \<Rightarrow> string \<Rightarrow> nat \<Rightarrow> nat \<Rightarrow> string list \<Rightarrow> boot_state \<Rightarrow> outcome" where
  "archive_entry sys inp out ilen olen st =
     (case lstat sys inp of
        None \<Rightarrow> Inl (Could_not_stat inp, st)
      | Some s \<Rightarrow>
          if S_ISREG (st_mode s) then
            (case read_all sys inp s of
               Inl e \<Rightarrow> Inl (e, st)
             | Inr tmp \<Rightarrow> eject sys s out olen tmp (of_nat (st_size s)) st)
          else if S_ISDIR (st_mode s) then
            (case eject sys s out olen [] 0 st of
               Inl e \<Rightarrow> Inl e
             | Inr st \<Rightarrow> archive_dir sys inp out ilen olen st)
          else if S_ISLNK (st_mode s) then
            (case readlink sys inp of
               None \<Rightarrow> Inl (Cannot_read_symlink inp, st)
             | Some target \<Rightarrow>
                 (let buf = take 1024 target in eject sys s out olen buf (of_nat (length buf)) st))
          else Inl (Unknown inp (st_mode s), st))"
| "archive_dir sys inp out ilen olen st =
     (case opendir sys inp of
        None \<Rightarrow> Inl (Cannot_open_directory inp, st)
      | Some ds \<Rightarrow>
          (case collect_names ds 32 [] of
             None \<Rightarrow> Inl (Out_of_bounds, st)
           | Some names \<Rightarrow> archive_loop sys inp out ilen olen (qsort strcmp names) st))"
| "archive_loop sys inp out ilen olen [] st = Inr st"
| "archive_loop sys inp out ilen olen (name # names) st =
     (let t = length name;
          at = (if olen > 0 then olen else 0);
          sub = (if olen > 0 then CHR ''/'' # name else name)
      in case put_at inp ilen (CHR ''/'' # name) of
           None \<Rightarrow> Inl (Out_of_bounds, st)
         | Some inp' \<Rightarrow>
             (case put_at out at sub of
                None \<Rightarrow> Inl (Out_of_bounds, st)
              | Some out' \<Rightarrow>
                  (case archive_entry sys inp' out' (ilen + t + 1) (if olen > 0 then olen + t + 1 else t) st of
                     Inl e \<Rightarrow> Inl e
                   | Inr st \<Rightarrow> archive_loop sys (take ilen inp) (take olen out) ilen olen names st)))"
  by pat_completeness auto
termination
  by (relation "measures [\<lambda>x. case x of Inl (_, _, _, ilen, _) \<Rightarrow> BUF - ilen
        | Inr (Inl (_, _, _, ilen, _)) \<Rightarrow> BUF - ilen | Inr (Inr (_, _, _, ilen, _)) \<Rightarrow> BUF - ilen,
      \<lambda>x. case x of Inl _ \<Rightarrow> 2 | Inr (Inl _) \<Rightarrow> 1 | Inr (Inr _) \<Rightarrow> 0,
      \<lambda>x. case x of Inr (Inr (_, _, _, _, _, names, _)) \<Rightarrow> length names | _ \<Rightarrow> 0]")
    (auto simp: put_at_def split: if_splits)

declare archive_entry.simps [simp del] archive_dir.simps [simp del] archive_loop.simps [simp del]

definition archive :: "os \<Rightarrow> string \<Rightarrow> string \<Rightarrow> boot_state \<Rightarrow> outcome" where
  "archive sys start prefix st =
     (case put_at [] 0 start of
        None \<Rightarrow> Inl (Out_of_bounds, st)
      | Some inp \<Rightarrow>
          (case put_at [] 0 prefix of
             None \<Rightarrow> Inl (Out_of_bounds, st)
           | Some out \<Rightarrow> archive_dir sys inp out (length inp) (length out) st))"

section \<open>Canned configuration\<close>

definition PATH_MAX :: nat where "PATH_MAX = 4096"
definition CANNED_LINE_LENGTH :: nat where "CANNED_LINE_LENGTH = PATH_MAX + 100"

definition canned_line :: "string \<Rightarrow> fs_config_entry option" where
  "canned_line line =
     (let first = (if isspace (hd line) then Some ([], line) else strtok '' \<newline>'' line)
      in case first of
           None \<Rightarrow> None
         | Some (name, line) \<Rightarrow>
             (case strtok '' \<newline>'' line of
                None \<Rightarrow> None
              | Some (uid, line) \<Rightarrow>
                  (case strtok '' \<newline>'' line of
                     None \<Rightarrow> None
                   | Some (gid, line) \<Rightarrow>
                       (case strtok '' \<newline>'' line of
                          None \<Rightarrow> None
                        | Some (mode, line) \<Rightarrow>
                            Some \<lparr>cc_name = name, cc_uid = atoi uid, cc_gid = atoi gid,
                                  cc_mode = word_of_int (strtol mode 8)\<rparr>))))"

function canned_loop :: "string \<Rightarrow> nat \<Rightarrow> fs_config_entry list \<Rightarrow> (boot_error, fs_config_entry list \<times> nat) sum" where
  "canned_loop f allocated config =
     (case fgets CANNED_LINE_LENGTH f of
        None \<Rightarrow> Inr (config, allocated)
      | Some (buf, rest) \<Rightarrow>
          (let line = takeWhile (\<lambda>c. c \<noteq> CHR 0x00) buf
           in if line = [] then Inr (config, allocated)
              else
                (let used = length config;
                     allocated = (if used \<ge> allocated then allocated * 2 else allocated)
                 in if \<not> used < allocated then Inl Out_of_bounds
                    else case canned_line line of
                           None \<Rightarrow> Inl Null_dereference
                         | Some cc \<Rightarrow> canned_loop rest allocated (config @ [cc]))))"
  by pat_completeness auto
termination
  by (relation "measure (\<lambda>(f, _, _). length f)")
    (auto simp: CANNED_LINE_LENGTH_def PATH_MAX_def intro: fgets_shorter)

declare canned_loop.simps [simp del]

definition read_canned_config :: "os \<Rightarrow> string \<Rightarrow> boot_state \<Rightarrow> outcome" where
  "read_canned_config sys filename st =
     (case open_read sys filename of
        None \<Rightarrow> Inl (No_canned_file, st)
      | Some content \<Rightarrow>
          (case canned_loop (of_bytes content) 8 [] of
             Inl e \<Rightarrow> Inl (e, st)
           | Inr (config, allocated) \<Rightarrow>
               (let used = length config;
                    allocated = (if used \<ge> allocated then allocated + 1 else allocated)
                in if used < allocated then Inr (st\<lparr>canned_config := Some config\<rparr>) else Inl (Out_of_bounds, st))))"

section \<open>The program\<close>

fun archive_args :: "os \<Rightarrow> string list \<Rightarrow> boot_state \<Rightarrow> outcome" where
  "archive_args sys [] st = Inr st"
| "archive_args sys (arg # argv) st =
     (case archive sys (takeWhile (\<lambda>c. c \<noteq> CHR ''='') arg) (tl (dropWhile (\<lambda>c. c \<noteq> CHR ''='') arg)) st of
        Inl e \<Rightarrow> Inl e
      | Inr st \<Rightarrow> archive_args sys argv st)"

definition boot_options :: "os \<Rightarrow> string list \<Rightarrow> string list \<times> outcome" where
  "boot_options sys argv =
     (let st = boot_init;
          (argv, st) = (case argv of d # path # rest \<Rightarrow>
              if d = ''-d'' then (rest, st\<lparr>target_out_path := Some path\<rparr>) else (argv, st) | _ \<Rightarrow> (argv, st))
      in case argv of f # path # rest \<Rightarrow>
           if f = ''-f'' then (rest, read_canned_config sys path st) else (argv, Inr st) | _ \<Rightarrow> (argv, Inr st))"

definition mkbootfs_main :: "os \<Rightarrow> string list \<Rightarrow> outcome" where
  "mkbootfs_main sys argv =
     (case boot_options sys argv of
        (argv, Inl e) \<Rightarrow> Inl e
      | (argv, Inr st) \<Rightarrow>
          if argv = [] then Inl (No_directories, st)
          else case archive_args sys argv st of
                 Inl e \<Rightarrow> Inl e
               | Inr st \<Rightarrow> eject_trailer sys st)"

end
