(* ===== verification/Cpio.thy ===== *)
theory Cpio
  imports Mkbootfs
begin

text \<open>
  The newc archive format as a specification: the encoding of an entry, and a reader. Reading back the
  concatenation of encoded entries gives the entries. \<open>Mkbootfs_Proofs\<close> shows that \<open>mkbootfs\<close> writes
  such encodings.
\<close>

section \<open>Format\<close>

record cpio_entry =
  c_ino :: u32
  c_mode :: u32
  c_name :: string
  c_data :: bytes

definition gap :: "nat \<Rightarrow> nat \<Rightarrow> nat" where
  "gap k n = (k - n mod k) mod k"

abbreviation zeros :: "nat \<Rightarrow> bytes" where
  "zeros n \<equiv> replicate n 0"

definition cpio_header :: "cpio_entry \<Rightarrow> bytes" where
  "cpio_header e = cs (fmt_x 6 0x070701 @ concat (map (fmt_x 8)
     [c_ino e, c_mode e, 0, 0, 1, 0, of_nat (length (c_data e)), 0, 0, 0, 0, of_nat (length (c_name e)) + 1, 0]))"

definition cpio_encode :: "cpio_entry \<Rightarrow> bytes" where
  "cpio_encode e = cpio_header e @ cs (c_name e) @ [0] @ zeros (gap 4 (110 + length (c_name e) + 1)) @
     c_data e @ zeros (gap 4 (length (c_data e)))"

text \<open>The reader takes a field out of the header as a number and skips the padding.\<close>

definition field :: "bytes \<Rightarrow> nat \<Rightarrow> nat" where
  "field bs i = read_digits 16 0 (of_bytes (take 8 (drop (6 + 8 * i) bs)))"

function cpio_parse :: "bytes \<Rightarrow> cpio_entry list option" where
  "cpio_parse bs =
     (if length bs < 110 \<or> take 6 bs \<noteq> cs ''070701'' then None
      else
        (let namesize = field bs 11;
             filesize = field bs 6;
             name = of_bytes (take (namesize - 1) (drop 110 bs));
             dpos = 110 + namesize + gap 4 (110 + namesize)
         in if name = ''TRAILER!!!'' then Some []
            else map_option ((#) \<lparr>c_ino = of_nat (field bs 0), c_mode = of_nat (field bs 1), c_name = name,
                               c_data = take filesize (drop dpos bs)\<rparr>)
                   (cpio_parse (drop (dpos + filesize + gap 4 filesize) bs))))"
  by pat_completeness auto
termination by (relation "measure length") auto

declare cpio_parse.simps [simp del]

section \<open>Fixed-width numbers\<close>

lemma length_fmt_x8 [simp]: "length (fmt_x 8 w) = 8"
  using length_to_digits [of 16 "unat w" 7] u32_lt [of w] by (simp add: fmt_x_def fmt_0_def Let_def)

lemma fmt_x_magic [simp]: "fmt_x 6 0x070701 = ''070701''"
proof -
  have "to_digits 16 0x070701 = ''70701''"
    by (simp add: to_digits.simps [of 16] hex_digit_def char_of_def bit_0)
  then show ?thesis by (simp add: fmt_x_def fmt_0_def)
qed

lemma length_cpio_header [simp]: "length (cpio_header e) = 110"
  by (simp add: cpio_header_def)

lemma take_drop_blocks:
  assumes "\<forall>x \<in> set xs. length x = n" "i < length xs"
  shows "take n (drop (n * i) (concat xs @ ys)) = xs ! i"
  using assms
proof (induction xs arbitrary: i)
  case (Cons x xs)
  then show ?case by (cases i) (simp_all add: take_append)
qed simp

lemma field_header:
  assumes "i < 13"
  shows "field (cpio_header e @ ys) i = unat ([c_ino e, c_mode e, 0, 0, 1, 0, of_nat (length (c_data e)), 0, 0, 0, 0,
    of_nat (length (c_name e)) + 1, 0] ! i)"
proof -
  let ?l = "[c_ino e, c_mode e, 0, 0, 1, 0, of_nat (length (c_data e)), 0, 0, 0, 0, of_nat (length (c_name e)) + 1, 0] :: u32 list"
  have "cpio_header e = cs ''070701'' @ concat (map (cs \<circ> fmt_x 8) ?l)"
    by (simp add: cpio_header_def cs_def)
  then have "drop (6 + 8 * i) (cpio_header e @ ys) = drop (8 * i) (concat (map (cs \<circ> fmt_x 8) ?l) @ ys)"
    by (simp only: append_assoc drop_append) simp
  moreover have "\<forall>x \<in> set (map (cs \<circ> fmt_x 8) ?l). length x = 8" "i < length (map (cs \<circ> fmt_x 8) ?l)" using assms by simp_all
  ultimately have "take 8 (drop (6 + 8 * i) (cpio_header e @ ys)) = map (cs \<circ> fmt_x 8) ?l ! i"
    by (simp only: take_drop_blocks)
  then show ?thesis
    using assms nth_map [of i ?l "cs \<circ> fmt_x 8"] by (simp only: field_def) (simp add: fmt_x_def read_digits_fmt_0)
qed

section \<open>Reading back\<close>

definition cpio_ok :: "cpio_entry \<Rightarrow> bool" where
  "cpio_ok e \<longleftrightarrow> length (c_data e) < 2 ^ 32 \<and> length (c_name e) + 1 < 2 ^ 32"

lemma cpio_fields:
  assumes "cpio_ok e"
  shows "field (cpio_header e @ ys) 0 = unat (c_ino e)" "field (cpio_header e @ ys) 1 = unat (c_mode e)"
    "field (cpio_header e @ ys) 6 = length (c_data e)" "field (cpio_header e @ ys) 11 = length (c_name e) + 1"
proof -
  have "unat (of_nat (length (c_name e)) + 1 :: u32) = length (c_name e) + 1"
  proof -
    have "unat (of_nat (length (c_name e) + 1) :: u32) = length (c_name e) + 1"
      using assms unfolding unat_of_nat cpio_ok_def by (intro mod_less) simp
    moreover have "(of_nat (length (c_name e)) + 1 :: u32) = of_nat (length (c_name e) + 1)" by simp
    ultimately show ?thesis by (simp only:)
  qed
  then show "field (cpio_header e @ ys) 11 = length (c_name e) + 1" by (simp add: field_header)
qed (use assms in \<open>simp_all add: field_header cpio_ok_def unat_of_nat\<close>)

lemma header_magic: "take 6 (cpio_header e @ ys) = cs ''070701''"
  by (simp add: cpio_header_def cs_def)

lemma cpio_parse_encode:
  assumes "cpio_ok e"
  shows "cpio_parse (cpio_encode e @ rest) =
    (if c_name e = ''TRAILER!!!'' then Some [] else map_option ((#) e) (cpio_parse rest))"
proof -
  define tl where "tl = cs (c_name e) @ [0] @ zeros (gap 4 (110 + length (c_name e) + 1)) @
     c_data e @ zeros (gap 4 (length (c_data e))) @ rest"
  have e: "cpio_encode e @ rest = cpio_header e @ tl" by (simp add: cpio_encode_def tl_def)
  have nm: "of_bytes (take (length (c_name e)) (drop 110 (cpio_header e @ tl))) = c_name e"
    by (simp add: tl_def)
  let ?d = "110 + (length (c_name e) + 1) + gap 4 (110 + (length (c_name e) + 1))"
  have d: "drop ?d (cpio_header e @ tl) = c_data e @ zeros (gap 4 (length (c_data e))) @ rest"
    by (simp add: tl_def add.assoc)
  have dd: "drop (?d + length (c_data e) + gap 4 (length (c_data e))) (cpio_header e @ tl) = rest"
  proof -
    have dr: "drop (a + b + c) xs = drop c (drop b (drop a xs))" for a b c and xs :: bytes by (simp add: ac_simps)
    show ?thesis unfolding dr [of ?d] d by simp
  qed
  have r: "\<lparr>c_ino = c_ino e, c_mode = c_mode e, c_name = c_name e, c_data = c_data e\<rparr> = e"
    by (rule cpio_entry.equality) simp_all
  show ?thesis
    unfolding e
    by (subst cpio_parse.simps)
      (simp only: header_magic cpio_fields [OF assms] Let_def nm d dd length_append length_cpio_header diff_add_inverse2, simp add: r)
qed

text \<open>Reading a sequence of entries closed by the trailer gives the entries.\<close>

lemma cpio_roundtrip:
  assumes "\<forall>e \<in> set es. cpio_ok e \<and> c_name e \<noteq> ''TRAILER!!!''" "cpio_ok t" "c_name t = ''TRAILER!!!''"
  shows "cpio_parse (concat (map cpio_encode es) @ cpio_encode t @ rest) = Some es"
  using assms(1)
proof (induction es)
  case Nil
  then show ?case using cpio_parse_encode [OF assms(2), of rest] assms(3) by simp
next
  case (Cons e es)
  then show ?case using cpio_parse_encode [of e "concat (map cpio_encode es) @ cpio_encode t @ rest"] by simp
qed

end
