(* ===== verification/Mkbootfs_Proofs.thy ===== *)
theory Mkbootfs_Proofs
  imports Cpio
begin

text \<open>
  What \<open>mkbootfs\<close> writes. The byte counter follows the output, so that every header is aligned; a directory
  tree is written as the encodings of its entries in the order of a sorted walk; and reading the whole
  output back as an archive gives that list.
\<close>

section \<open>Padding\<close>

definition synced :: "boot_state \<Rightarrow> bool" where
  "synced st \<longleftrightarrow> total_size st = of_nat (length (stdout st))"

lemma gap_0: "0 < k \<Longrightarrow> gap k n = 0 \<longleftrightarrow> n mod k = 0"
proof -
  assume k: "0 < k"
  then have "n mod k < k" by simp
  then show ?thesis unfolding gap_def by (cases "n mod k = 0") (auto simp: mod_less)
qed

lemma gap_Suc:
  assumes "0 < k" "n mod k \<noteq> 0"
  shows "gap k n = Suc (gap k (Suc n))"
proof (cases "Suc (n mod k) = k")
  case True
  then have "Suc n mod k = 0" by (simp add: mod_Suc)
  then show ?thesis using assms True by (simp add: gap_def)
next
  case False
  then have "Suc n mod k = Suc (n mod k)" by (simp add: mod_Suc)
  moreover have "Suc (n mod k) < k" using False assms(1) by (metis mod_less_divisor Suc_lessI)
  ultimately show ?thesis using assms by (simp add: gap_def)
qed

lemma gap_aligned: "0 < k \<Longrightarrow> (n + gap k n) mod k = 0"
proof (induction "gap k n" arbitrary: n)
  case 0
  then have "gap k n = 0" by simp
  then show ?case using 0(2) gap_0 [of k n] by simp
next
  case (Suc m)
  then have "n mod k \<noteq> 0" using gap_0 [of k n] by linarith
  then have g: "gap k n = Suc (gap k (Suc n))" using Suc.prems by (intro gap_Suc)
  then show ?case using Suc.hyps(1) [of "Suc n"] Suc.hyps(2) Suc.prems by simp
qed

lemma gap_add: "n mod k = 0 \<Longrightarrow> gap k (n + m) = gap k m"
  by (simp add: gap_def mod_add_eq [symmetric])

lemma gap_le: "0 < k \<Longrightarrow> (n + m) mod k = 0 \<Longrightarrow> gap k n \<le> m"
proof (induction m arbitrary: n)
  case (Suc m)
  then show ?case using gap_0 [of k n] gap_Suc [of k n] by (cases "n mod k = 0") simp_all
qed (simp add: gap_0)

lemma synced_mask:
  assumes "synced st" "j \<le> 32"
  shows "total_size st AND mask j = 0 \<longleftrightarrow> length (stdout st) mod 2 ^ j = 0"
proof -
  have "unat (total_size st AND mask j) = length (stdout st) mod 2 ^ 32 mod 2 ^ j"
    using assms(1) by (simp add: synced_def unat_and_mask unat_of_nat)
  also have "\<dots> = length (stdout st) mod 2 ^ j" by (rule mod_mod_cancel [OF le_imp_power_dvd [OF assms(2)]])
  finally show ?thesis by (metis unat_eq_zero)
qed

lemma pad_loop_val:
  assumes "synced st" "j \<le> 32"
  shows "pad_loop (mask j) st = st\<lparr>stdout := stdout st @ zeros (gap (2 ^ j) (length (stdout st))),
      total_size := of_nat (length (stdout st) + gap (2 ^ j) (length (stdout st)))\<rparr>"
  using assms
proof (induction "gap (2 ^ j) (length (stdout st))" arbitrary: st)
  case 0
  then have "length (stdout st) mod 2 ^ j = 0" by (simp add: gap_0 eq_commute [of 0])
  then have "pad_loop (mask j) st = st" using synced_mask [OF 0(2,3)] by (subst pad_loop.simps) simp
  moreover have "st\<lparr>stdout := stdout st, total_size := total_size st\<rparr> = st" by simp
  ultimately show ?case using 0(2) by (simp only: 0(1) [symmetric] synced_def) simp
next
  case (Suc m)
  let ?st = "put [0] (st\<lparr>total_size := total_size st + 1\<rparr>)"
  have n: "length (stdout st) mod 2 ^ j \<noteq> 0" using Suc.hyps(2) gap_0 [of "2 ^ j" "length (stdout st)"] by simp
  then have m: "m = gap (2 ^ j) (length (stdout ?st))" using Suc.hyps(2) gap_Suc [of "2 ^ j" "length (stdout st)"] by (simp add: put_def)
  have s: "synced ?st" using Suc.prems by (simp add: synced_def put_def)
  have "pad_loop (mask j) st = pad_loop (mask j) ?st"
    using n synced_mask [OF Suc.prems] by (subst pad_loop.simps) simp
  also have "\<dots> = ?st\<lparr>stdout := stdout ?st @ zeros m, total_size := of_nat (length (stdout ?st) + m)\<rparr>"
    using Suc.hyps(1) [OF m s Suc.prems(2)] m by simp
  finally show ?case unfolding Suc.hyps(2) [symmetric] by (simp add: put_def replicate_append_same ac_simps)
qed

lemmas pad_4 = pad_loop_val [of _ 2, simplified mask_eq_exp_minus_1, simplified]
lemmas pad_256 = pad_loop_val [of _ 8, simplified mask_eq_exp_minus_1, simplified]

section \<open>One entry\<close>

definition closed :: "boot_state \<Rightarrow> bytes" where
  "closed st = stdout st @ zeros (gap 4 (length (stdout st)))"

lemma closed_aligned: "length (closed st) mod 4 = 0"
  using gap_aligned [of 4 "length (stdout st)"] by (simp add: closed_def)

lemma fix_stat_cong:
  "canned_config st' = canned_config st \<Longrightarrow> target_out_path st' = target_out_path st \<Longrightarrow>
    fix_stat sys st' path s = fix_stat sys st path s"
  by (simp add: fix_stat_def split: option.split)

definition entry :: "u32 \<Rightarrow> string \<Rightarrow> stat \<Rightarrow> bytes \<Rightarrow> cpio_entry" where
  "entry ino out s data = \<lparr>c_ino = ino, c_mode = st_mode s, c_name = out, c_data = data\<rparr>"

lemma eject_val:
  assumes "synced st" "fix_stat sys st out s = Some s'" "length data < 2 ^ 32"
  shows "\<exists>st'. eject sys s out (length out) data (of_nat (length data)) st = Inr st' \<and> synced st' \<and>
    closed st' = closed st @ cpio_encode (entry (next_inode st) out s' data) \<and> next_inode st' = next_inode st + 1 \<and>
    canned_config st' = canned_config st \<and> target_out_path st' = target_out_path st"
proof -
  define e where "e = entry (next_inode st) out s' data"
  define L where "L = length (closed st)"
  define st1 where "st1 = st\<lparr>stdout := closed st, total_size := of_nat L\<rparr>"
  have L4: "L mod 4 = 0" unfolding L_def by (rule closed_aligned)
  have p1: "pad_loop 3 st = st1" using pad_4 [OF assms(1)] by (simp add: st1_def closed_def L_def)
  have f1: "fix_stat sys st1 out s = Some s'" using assms(2) fix_stat_cong [of st1 st] by (simp add: st1_def)
  have h: "cs (newc_header (next_inode st1) s' (of_nat (length data)) (length out)) = cpio_header e"
    by (simp add: newc_header_def cpio_header_def e_def entry_def st1_def)
  define st2 where "st2 = st1\<lparr>stdout := closed st @ cpio_header e @ cs out @ [0], next_inode := next_inode st + 1,
    total_size := of_nat (L + (110 + length out + 1))\<rparr>"
  have s2: "synced st2" by (simp add: synced_def st2_def L_def)
  define g where "g = gap 4 (110 + length out + 1)"
  have g: "gap 4 (length (stdout st2)) = g" using gap_add [OF L4, of "110 + length out + 1"] by (simp add: st2_def L_def g_def)
  define st3 where "st3 = st2\<lparr>stdout := stdout st2 @ zeros g, total_size := of_nat (length (stdout st2) + g)\<rparr>"
  have p3: "pad_loop 3 st2 = st3" using pad_4 [OF s2] g by (simp add: st3_def)
  define st4 where "st4 = st3\<lparr>stdout := stdout st3 @ data, total_size := total_size st3 + of_nat (length data)\<rparr>"
  have st2: "(put (cpio_header e @ cs out @ [0]) st1)\<lparr>next_inode := next_inode (put (cpio_header e @ cs out @ [0]) st1) + 1,
      total_size := total_size (put (cpio_header e @ cs out @ [0]) st1) + 6 + 8 * 13 + of_nat (length out) + 1\<rparr> = st2"
    by (simp add: put_def st2_def st1_def ac_simps)
  have d: "unat (of_nat (length data) :: u32) = length data" using assms(3) unfolding unat_of_nat by (intro mod_less) simp
  have "eject sys s out (length out) data (of_nat (length data)) st =
      (if (of_nat (length data) :: u32) \<noteq> 0 then Inr st4 else Inr st3)"
    by (simp only: eject_def Let_def p1 f1 option.case h st2 p3 refl simp_thms if_False d)
      (simp add: st4_def put_def)
  moreover have "of_nat (length data) = (0 :: u32) \<Longrightarrow> st4 = st3"
    using d by (simp add: st4_def)
  ultimately have ej: "eject sys s out (length out) data (of_nat (length data)) st = Inr st4" by auto
  have al: "(length (stdout st3)) mod 4 = 0"
    using gap_aligned [of 4 "length (stdout st2)"] g by (simp add: st3_def)
  have o4: "stdout st4 = stdout st3 @ data" by (simp add: st4_def)
  have "closed st4 = stdout st3 @ data @ zeros (gap 4 (length data))"
    unfolding closed_def o4 using gap_add [OF al, of "length data"] by simp
  then have "closed st4 = closed st @ cpio_encode e"
    by (simp add: st3_def st2_def cpio_encode_def e_def entry_def g_def)
  moreover have "synced st4" using s2 by (simp add: synced_def st4_def st3_def)
  ultimately show ?thesis using ej by (auto simp: e_def st4_def st3_def st2_def st1_def)
qed

section \<open>A sorted walk\<close>

definition keep :: "string \<Rightarrow> bool" where
  "keep n \<longleftrightarrow> \<not> (n \<noteq> [] \<and> hd n = CHR ''.'') \<and> n \<noteq> ''root''"

text \<open>The array of names grows in time, so that no name is written outside it.\<close>

lemma collect_names_val:
  "0 < sz \<Longrightarrow> length names \<le> sz \<Longrightarrow> collect_names ds sz names = Some (names @ filter keep ds)"
  by (induction ds sz names rule: collect_names.induct) (auto simp: keep_def Let_def)

text \<open>A file tree, and that the operating system shows it at a path.\<close>

datatype ftree = File stat bytes | Link stat bytes | Tree stat "(string \<times> ftree) list"

fun shows_tree :: "os \<Rightarrow> string \<Rightarrow> ftree \<Rightarrow> bool" where
  "shows_tree sys p (File s d) \<longleftrightarrow>
     lstat sys p = Some s \<and> S_ISREG (st_mode s) \<and> st_size s = length d \<and> open_read sys p = Some d"
| "shows_tree sys p (Link s d) \<longleftrightarrow> lstat sys p = Some s \<and> S_ISLNK (st_mode s) \<and> readlink sys p = Some d"
| "shows_tree sys p (Tree s kids) \<longleftrightarrow>
     lstat sys p = Some s \<and> S_ISDIR (st_mode s) \<and> opendir sys p = Some (map fst kids) \<and>
     (\<forall>k \<in> set kids. keep (fst k) \<longrightarrow> shows_tree sys (p @ CHR ''/'' # fst k) (snd k))"

definition sorted_kids :: "(string \<times> 'a) list \<Rightarrow> (string \<times> 'a) list" where
  "sorted_kids kids = qsort (\<lambda>a b. strcmp (fst a) (fst b)) (filter (\<lambda>k. keep (fst k)) kids)"

lemma set_sorted_kids [simp]: "set (sorted_kids kids) = {k \<in> set kids. keep (fst k)}"
  by (auto simp: sorted_kids_def)

lemma sorted_kids_fst: "map fst (sorted_kids kids) = qsort strcmp (filter keep (map fst kids))"
  unfolding sorted_kids_def filter_map o_def by (rule qsort_map [symmetric]) simp

definition join :: "string \<Rightarrow> string \<Rightarrow> string" where
  "join out n = (if out = [] then n else out @ CHR ''/'' # n)"

function walk :: "string \<Rightarrow> ftree \<Rightarrow> (string \<times> stat \<times> bytes) list" where
  "walk out (File s d) = [(out, s, d)]"
| "walk out (Link s d) = [(out, s, take 1024 d)]"
| "walk out (Tree s kids) = (out, s, []) # concat (map (\<lambda>k. walk (join out (fst k)) (snd k)) (sorted_kids kids))"
  by pat_completeness auto
termination
proof (relation "measure (\<lambda>(out, t). size t)")
  fix out s kids and k :: "string \<times> ftree"
  assume "k \<in> set (sorted_kids kids)"
  then have "k \<in> set kids" by simp
  then have "size (snd k) < size (Tree s kids)"
    by (induction kids) (auto simp: less_SucI trans_less_add2 elim!: less_SucI)
  then show "((join out (fst k), snd k), out, Tree s kids) \<in> measure (\<lambda>(out, t). size t)" by simp
qed simp

text \<open>Paths short enough for the two buffers of \<open>archive\<close>.\<close>

fun fits :: "nat \<Rightarrow> nat \<Rightarrow> ftree \<Rightarrow> bool" where
  "fits ilen olen (Tree s kids) \<longleftrightarrow>
     (\<forall>k \<in> set kids. keep (fst k) \<longrightarrow>
        (let t = length (fst k); olen' = (if olen = 0 then t else olen + 1 + t)
         in ilen + 1 + t < BUF \<and> olen' < BUF \<and> fits (ilen + 1 + t) olen' (snd k)))"
| "fits ilen olen _ \<longleftrightarrow> True"

fun number :: "os \<Rightarrow> boot_state \<Rightarrow> u32 \<Rightarrow> (string \<times> stat \<times> bytes) list \<Rightarrow> cpio_entry list" where
  "number sys st i [] = []"
| "number sys st i ((out, s, d) # es) = entry i out (the (fix_stat sys st out s)) d # number sys st (i + 1) es"

definition writable :: "os \<Rightarrow> boot_state \<Rightarrow> (string \<times> stat \<times> bytes) list \<Rightarrow> bool" where
  "writable sys st es \<longleftrightarrow> (\<forall>(out, s, d) \<in> set es. fix_stat sys st out s \<noteq> None \<and> length d \<le> 0x7ffff000)"

definition same_config :: "boot_state \<Rightarrow> boot_state \<Rightarrow> bool" where
  "same_config st st' \<longleftrightarrow> canned_config st' = canned_config st \<and> target_out_path st' = target_out_path st"

definition emits :: "os \<Rightarrow> boot_state \<Rightarrow> (string \<times> stat \<times> bytes) list \<Rightarrow> outcome \<Rightarrow> bool" where
  "emits sys st es r \<longleftrightarrow> (\<exists>st'. r = Inr st' \<and> synced st' \<and> same_config st st' \<and>
     next_inode st' = next_inode st + of_nat (length es) \<and>
     closed st' = closed st @ concat (map cpio_encode (number sys st (next_inode st) es)))"

lemma fix_stat_same: "same_config st st' \<Longrightarrow> fix_stat sys st' = fix_stat sys st"
  by (intro ext fix_stat_cong) (simp_all add: same_config_def)

lemma number_cong: "same_config st st' \<Longrightarrow> number sys st' i es = number sys st i es"
proof (induction es arbitrary: i)
  case (Cons e es)
  then show ?case by (cases e) (simp add: fix_stat_same)
qed simp

lemma number_append: "number sys st i (xs @ ys) = number sys st i xs @ number sys st (i + of_nat (length xs)) ys"
  by (induction sys st i xs rule: number.induct) (simp_all add: ac_simps)

lemma writable_cong: "same_config st st' \<Longrightarrow> writable sys st' es = writable sys st es"
  by (simp add: writable_def fix_stat_same)

lemma writable_append [simp]: "writable sys st (xs @ ys) \<longleftrightarrow> writable sys st xs \<and> writable sys st ys"
  by (simp add: writable_def ball_Un)

lemma emits_Nil: "synced st \<Longrightarrow> emits sys st [] (Inr st)"
  by (simp add: emits_def same_config_def)

lemma emits_append:
  assumes "emits sys st xs (Inr st')" "emits sys st' ys r"
  shows "emits sys st (xs @ ys) r"
proof -
  have a: "synced st'" "same_config st st'" "next_inode st' = next_inode st + of_nat (length xs)"
    "closed st' = closed st @ concat (map cpio_encode (number sys st (next_inode st) xs))"
    using assms(1) by (simp_all add: emits_def)
  obtain st2 where b: "r = Inr st2" "synced st2" "same_config st' st2" "next_inode st2 = next_inode st' + of_nat (length ys)"
    "closed st2 = closed st' @ concat (map cpio_encode (number sys st (next_inode st') ys))"
    using assms(2) by (auto simp: emits_def number_cong [OF a(2)])
  have "same_config st st2" using a(2) b(3) by (simp add: same_config_def)
  moreover have "closed st2 = closed st @ concat (map cpio_encode (number sys st (next_inode st) (xs @ ys)))"
    unfolding b(5) a(4) number_append a(3) by simp
  moreover have "next_inode st2 = next_inode st + of_nat (length (xs @ ys))" unfolding b(4) a(3) by (simp add: add.assoc)
  ultimately show ?thesis unfolding emits_def using b(1,2) by blast
qed

lemma emits_eject:
  assumes "synced st" "writable sys st [(out, s, d)]"
  shows "emits sys st [(out, s, d)] (eject sys s out (length out) d (of_nat (length d)) st)"
proof -
  have w: "fix_stat sys st out s \<noteq> None" "length d < 2 ^ 32" using assms(2) by (simp_all add: writable_def)
  then obtain s' where "fix_stat sys st out s = Some s'" by blast
  with eject_val [OF assms(1) this w(2)] show ?thesis by (simp add: emits_def same_config_def) metis
qed

lemma read_all_val:
  assumes "shows_tree sys inp (File s d)" "length d \<le> 0x7ffff000"
  shows "read_all sys inp s = Inr d"
  using assms by (simp add: read_all_def)

lemma put_at_val: "i + length s < BUF \<Longrightarrow> length buf = i \<Longrightarrow> put_at buf i s = Some (buf @ s)"
  by (simp add: put_at_def)

lemma archive_loop_emits:
  assumes "\<And>k inp out st. \<lbrakk>k \<in> set ks; shows_tree sys inp (snd k); fits (length inp) (length out) (snd k); synced st;
        writable sys st (walk out (snd k))\<rbrakk> \<Longrightarrow>
      emits sys st (walk out (snd k)) (archive_entry sys inp out (length inp) (length out) st)"
    and "\<forall>k \<in> set ks. keep (fst k) \<and> shows_tree sys (inp @ CHR ''/'' # fst k) (snd k)"
    and "fits (length inp) (length out) (Tree s ks)" "synced st"
    and "writable sys st (concat (map (\<lambda>k. walk (join out (fst k)) (snd k)) ks))"
  shows "emits sys st (concat (map (\<lambda>k. walk (join out (fst k)) (snd k)) ks))
    (archive_loop sys inp out (length inp) (length out) (map fst ks) st)"
  using assms
proof (induction ks arbitrary: st)
  case Nil
  then show ?case by (simp add: archive_loop.simps emits_Nil)
next
  case (Cons k ks)
  let ?o = "join out (fst k)" and ?i = "inp @ CHR ''/'' # fst k"
  have len: "length ?i < BUF" "length ?o < BUF" and f: "fits (length ?i) (length ?o) (snd k)"
    using Cons.prems(2,3) by (auto simp: Let_def join_def split: if_splits)
  have e: "emits sys st (walk ?o (snd k)) (archive_entry sys ?i ?o (length ?i) (length ?o) st)"
    by (rule Cons.prems(1)) (use Cons.prems f in auto)
  then obtain st' where st': "archive_entry sys ?i ?o (length ?i) (length ?o) st = Inr st'" "synced st'" "same_config st st'"
    by (auto simp: emits_def)
  have tl: "emits sys st' (concat (map (\<lambda>k. walk (join out (fst k)) (snd k)) ks))
      (archive_loop sys inp out (length inp) (length out) (map fst ks) st')"
    by (rule Cons.IH) (use Cons.prems st' in \<open>auto simp: writable_cong\<close>)
  have p: "put_at inp (length inp) (CHR ''/'' # fst k) = Some ?i" using len by (intro put_at_val) simp_all
  have q: "put_at out (if length out > 0 then length out else 0) (if length out > 0 then CHR ''/'' # fst k else fst k) = Some ?o"
    using len by (cases "out = []") (simp_all add: put_at_val join_def)
  have l: "length inp + length (fst k) + 1 = length ?i" "(if length out > 0 then length out + length (fst k) + 1 else length (fst k)) = length ?o"
    by (simp_all add: join_def)
  have "archive_loop sys inp out (length inp) (length out) (map fst (k # ks)) st =
      archive_loop sys inp out (length inp) (length out) (map fst ks) st'"
    by (simp only: list.map archive_loop.simps Let_def p q l option.case st'(1) sum.case take_all order.refl)
  then show ?case using emits_append [OF e [unfolded st'(1)] tl] by simp
qed

lemma fits_subset: "fits i o' (Tree s kids) \<Longrightarrow> set ks \<subseteq> set kids \<Longrightarrow> fits i o' (Tree s' ks)"
  by (auto simp: Let_def)

lemma archive_dir_loop:
  assumes "opendir sys inp = Some (map fst kids)"
  shows "archive_dir sys inp out ilen olen st = archive_loop sys inp out ilen olen (map fst (sorted_kids kids)) st"
  by (simp add: archive_dir.simps assms collect_names_val sorted_kids_fst)

lemma archive_entry_emits:
  "shows_tree sys inp t \<Longrightarrow> fits (length inp) (length out) t \<Longrightarrow> synced st \<Longrightarrow> writable sys st (walk out t) \<Longrightarrow>
    emits sys st (walk out t) (archive_entry sys inp out (length inp) (length out) st)"
proof (induction t arbitrary: inp out st)
  case (File s d)
  have r: "read_all sys inp s = Inr d" using File by (intro read_all_val) (simp_all add: writable_def)
  show ?case using File emits_eject [of st sys out s d] by (simp add: archive_entry.simps r)
next
  case (Link s d)
  then have "\<not> S_ISREG (st_mode s)" "\<not> S_ISDIR (st_mode s)" by (auto simp: S_ISREG_def S_ISDIR_def S_ISLNK_def)
  then show ?case using Link emits_eject [of st sys out s "take 1024 d"] by (simp add: archive_entry.simps Let_def)
next
  case (Tree s kids)
  have d: "\<not> S_ISREG (st_mode s)" "S_ISDIR (st_mode s)" "lstat sys inp = Some s" "opendir sys inp = Some (map fst kids)"
    using Tree.prems(1) by (auto simp: S_ISREG_def S_ISDIR_def)
  have e: "emits sys st [(out, s, [])] (eject sys s out (length out) [] 0 st)"
    using emits_eject [of st sys out s "[]"] Tree.prems(3,4) by (simp add: writable_def)
  then obtain st' where st': "eject sys s out (length out) [] 0 st = Inr st'" "synced st'" "same_config st st'"
    by (auto simp: emits_def)
  have "emits sys st' (concat (map (\<lambda>k. walk (join out (fst k)) (snd k)) (sorted_kids kids)))
      (archive_loop sys inp out (length inp) (length out) (map fst (sorted_kids kids)) st')"
  proof (rule archive_loop_emits)
    fix k inp out st
    assume "k \<in> set (sorted_kids kids)" and a: "shows_tree sys inp (snd k)" "fits (length inp) (length out) (snd k)" "synced st"
      "writable sys st (walk out (snd k))"
    then have "k \<in> set kids" "snd k \<in> Basic_BNFs.snds k" by (auto simp: snds.simps)
    then show "emits sys st (walk out (snd k)) (archive_entry sys inp out (length inp) (length out) st)"
      using Tree.IH a by blast
  next
    show "\<forall>k \<in> set (sorted_kids kids). keep (fst k) \<and> shows_tree sys (inp @ CHR ''/'' # fst k) (snd k)"
      using Tree.prems(1) by auto
    show "fits (length inp) (length out) (Tree s (sorted_kids kids))" by (rule fits_subset [OF Tree.prems(2)]) auto
    show "writable sys st' (concat (map (\<lambda>k. walk (join out (fst k)) (snd k)) (sorted_kids kids)))"
      unfolding writable_cong [OF st'(3)] using Tree.prems(4) by (simp add: writable_def)
  qed (rule st'(2))
  from emits_append [OF e [unfolded st'(1)] this] show ?case
    using d st'(1) by (simp add: archive_entry.simps archive_dir_loop)
qed

section \<open>Whole runs\<close>

text \<open>The arguments of the program: a directory, and a prefix after an equals sign.\<close>

definition arg_of :: "string \<times> string \<Rightarrow> string" where
  "arg_of a = fst a @ CHR ''='' # snd a"

definition root_ok :: "os \<Rightarrow> (string \<times> string) \<times> (string \<times> ftree) list \<Rightarrow> bool" where
  "root_ok sys r \<longleftrightarrow> CHR ''='' \<notin> set (fst (fst r)) \<and> length (fst (fst r)) < BUF \<and> length (snd (fst r)) < BUF \<and>
     opendir sys (fst (fst r)) = Some (map fst (snd r)) \<and>
     (\<forall>k \<in> set (snd r). keep (fst k) \<longrightarrow> shows_tree sys (fst (fst r) @ CHR ''/'' # fst k) (snd k)) \<and>
     (\<forall>s. fits (length (fst (fst r))) (length (snd (fst r))) (Tree s (snd r)))"

definition walk_root :: "(string \<times> string) \<times> (string \<times> ftree) list \<Rightarrow> (string \<times> stat \<times> bytes) list" where
  "walk_root r = concat (map (\<lambda>k. walk (join (snd (fst r)) (fst k)) (snd k)) (sorted_kids (snd r)))"

lemma archive_emits:
  assumes "root_ok sys r" "synced st" "writable sys st (walk_root r)"
  shows "emits sys st (walk_root r) (archive sys (fst (fst r)) (snd (fst r)) st)"
proof -
  have p: "put_at [] 0 s = Some s" if "length s < BUF" for s using that by (simp add: put_at_def)
  have "archive sys (fst (fst r)) (snd (fst r)) st =
      archive_loop sys (fst (fst r)) (snd (fst r)) (length (fst (fst r))) (length (snd (fst r))) (map fst (sorted_kids (snd r))) st"
    using assms(1) by (simp add: archive_def root_ok_def p archive_dir_loop)
  moreover have "emits sys st (walk_root r) \<dots>"
    unfolding walk_root_def
  proof (rule archive_loop_emits [OF archive_entry_emits])
    show "fits (length (fst (fst r))) (length (snd (fst r))) (Tree \<lparr>st_mode = 0, st_uid = 0, st_gid = 0, st_size = 0\<rparr> (sorted_kids (snd r)))"
      by (rule fits_subset [where s = "\<lparr>st_mode = 0, st_uid = 0, st_gid = 0, st_size = 0\<rparr>" and kids = "snd r"])
        (use assms(1) in \<open>auto simp: root_ok_def\<close>)
  qed (use assms in \<open>auto simp: root_ok_def walk_root_def\<close>)
  ultimately show ?thesis by simp
qed

lemma archive_args_emits:
  assumes "\<forall>r \<in> set rs. root_ok sys r" "synced st" "writable sys st (concat (map walk_root rs))"
  shows "emits sys st (concat (map walk_root rs)) (archive_args sys (map (arg_of \<circ> fst) rs) st)"
  using assms
proof (induction rs arbitrary: st)
  case Nil
  then show ?case by (simp add: emits_Nil)
next
  case (Cons r rs)
  have e: "emits sys st (walk_root r) (archive sys (fst (fst r)) (snd (fst r)) st)"
    using Cons.prems by (intro archive_emits) simp_all
  then obtain st' where st': "archive sys (fst (fst r)) (snd (fst r)) st = Inr st'" "synced st'" "same_config st st'"
    by (auto simp: emits_def)
  have "emits sys st' (concat (map walk_root rs)) (archive_args sys (map (arg_of \<circ> fst) rs) st')"
    using Cons.prems st' by (intro Cons.IH) (simp_all add: writable_cong)
  note t = emits_append [OF e [unfolded st'(1)] this]
  have "takeWhile (\<lambda>c. c \<noteq> CHR ''='') (arg_of (fst r)) = fst (fst r)" "tl (dropWhile (\<lambda>c. c \<noteq> CHR ''='') (arg_of (fst r))) = snd (fst r)"
    using Cons.prems(1) by (simp_all add: arg_of_def root_ok_def takeWhile_append dropWhile_append)
  then show ?case using t st'(1) by (simp add: o_def)
qed

definition trailer_stat :: stat where
  "trailer_stat = \<lparr>st_mode = 0, st_uid = 0, st_gid = 0, st_size = 0\<rparr>"

lemma eject_trailer_emits:
  assumes "synced st" "fix_stat sys st ''TRAILER!!!'' trailer_stat = Some s"
  shows "\<exists>st' n. eject_trailer sys st = Inr st' \<and> length (stdout st') mod 256 = 0 \<and>
    stdout st' = closed st @ cpio_encode (entry (next_inode st) ''TRAILER!!!'' s []) @ zeros n"
proof -
  have l: "length ''TRAILER!!!'' = 10" by simp
  obtain st1 where st1: "eject sys trailer_stat ''TRAILER!!!'' 10 [] 0 st = Inr st1" "synced st1"
      "closed st1 = closed st @ cpio_encode (entry (next_inode st) ''TRAILER!!!'' s [])"
    using eject_val [OF assms, of "[]", unfolded l] by auto
  define n where "n = gap 256 (length (stdout st1))"
  have "(length (stdout st1) + n) mod 256 mod 4 = 0" using gap_aligned [of 256 "length (stdout st1)"] by (simp add: n_def)
  then have g: "gap 4 (length (stdout st1)) \<le> n" by (intro gap_le) (simp_all add: mod_mod_cancel)
  have o1: "stdout st1 @ zeros n = closed st1 @ zeros (n - gap 4 (length (stdout st1)))"
    using g by (simp add: closed_def flip: replicate_add)
  define st2 where "st2 = pad_loop 0xff st1"
  have "stdout st2 = stdout st1 @ zeros n" using pad_256 [OF st1(2)] by (simp add: st2_def n_def)
  moreover have "length (stdout st1 @ zeros n) mod 256 = 0" using gap_aligned [of 256 "length (stdout st1)"] by (simp add: n_def)
  moreover have "eject_trailer sys st = Inr st2" using st1(1) by (simp add: eject_trailer_def trailer_stat_def st2_def)
  ultimately show ?thesis using o1 st1(3) by auto
qed

lemma boot_options_state:
  assumes "boot_options sys argv = (argv', Inr st)"
  shows "stdout st = []" "total_size st = 0" "next_inode st = 300000"
  using assms
  by (auto simp: boot_options_def Let_def boot_init_def read_canned_config_def split: list.splits if_splits option.splits sum.splits)

lemma walk_names_fit:
  "fits i (length out) t \<Longrightarrow> length out < BUF \<Longrightarrow> e \<in> set (walk out t) \<Longrightarrow> length (fst e) < BUF"
proof (induction out t arbitrary: i rule: walk.induct)
  case (3 out s kids)
  show ?case
  proof (cases "e = (out, s, [])")
    case True
    then show ?thesis using 3 by simp
  next
    case False
    then obtain k where k: "k \<in> set (sorted_kids kids)" "e \<in> set (walk (join out (fst k)) (snd k))" using 3 by auto
    then have "fits (i + 1 + length (fst k)) (length (join out (fst k))) (snd k)" "length (join out (fst k)) < BUF"
      using "3.prems"(1) by (auto simp: Let_def join_def split: if_splits)
    then show ?thesis using "3.IH" k by blast
  qed
qed auto

lemma walk_root_names_fit:
  assumes "root_ok sys r" "e \<in> set (walk_root r)"
  shows "length (fst e) < BUF"
proof -
  obtain k where k: "k \<in> set (sorted_kids (snd r))" "e \<in> set (walk (join (snd (fst r)) (fst k)) (snd k))"
    using assms(2) by (auto simp: walk_root_def)
  have "fits (length (fst (fst r))) (length (snd (fst r))) (Tree trailer_stat (snd r))" using assms(1) by (simp add: root_ok_def)
  then have "fits (length (fst (fst r)) + 1 + length (fst k)) (length (join (snd (fst r)) (fst k))) (snd k)" "length (join (snd (fst r)) (fst k)) < BUF"
    using k(1) by (auto simp: Let_def join_def split: if_splits)
  then show ?thesis using walk_names_fit k(2) by blast
qed

lemma number_entries:
  assumes "\<forall>(out, s, d) \<in> set es. out \<noteq> ''TRAILER!!!'' \<and> length out < BUF \<and> length d \<le> 0x7ffff000"
  shows "\<forall>e \<in> set (number sys st i es). cpio_ok e \<and> c_name e \<noteq> ''TRAILER!!!''"
  using assms
proof (induction es arbitrary: i)
  case (Cons x es)
  obtain o' s d where x: "x = (o', s, d)" by (cases x)
  have "cpio_ok (entry i o' (the (fix_stat sys st o' s)) d)" using Cons.prems by (simp add: x cpio_ok_def entry_def BUF_def)
  then show ?case using Cons by (simp add: x entry_def)
qed simp

text \<open>
  C19. A run of \<open>mkbootfs\<close> on directory trees (any number of \<open>dir=prefix\<close> arguments, with or without the options)
  ends without an error, its output is a whole number of 256-byte blocks, and reading the output back as
  a cpio archive gives the entries of the trees in sorted depth-first order, without dot files and
  entries named \<open>root\<close>, with the modes of the configuration, consecutive inode numbers and the contents of
  the files and links.
\<close>

theorem mkbootfs_archive:
  assumes "boot_options sys argv = (map (arg_of \<circ> fst) rs, Inr st)" "rs \<noteq> []" "\<forall>r \<in> set rs. root_ok sys r"
    and "writable sys st (concat (map walk_root rs))" "fix_stat sys st ''TRAILER!!!'' trailer_stat \<noteq> None"
    and "\<forall>e \<in> set (concat (map walk_root rs)). fst e \<noteq> ''TRAILER!!!''"
  shows "\<exists>st'. mkbootfs_main sys argv = Inr st' \<and> length (stdout st') mod 256 = 0 \<and>
    cpio_parse (stdout st') = Some (number sys st 300000 (concat (map walk_root rs)))"
proof -
  note i = boot_options_state [OF assms(1)]
  have "synced st" "closed st = []" using i by (simp_all add: synced_def closed_def gap_def)
  then obtain st1 where st1: "archive_args sys (map (arg_of \<circ> fst) rs) st = Inr st1" "synced st1" "same_config st st1"
      "closed st1 = concat (map cpio_encode (number sys st 300000 (concat (map walk_root rs))))"
    using archive_args_emits [OF assms(3) _ assms(4)] i(3) by (auto simp: emits_def)
  obtain s where "fix_stat sys st1 ''TRAILER!!!'' trailer_stat = Some s" using assms(5) fix_stat_same [OF st1(3)] by auto
  then obtain st' n where st': "eject_trailer sys st1 = Inr st'" "length (stdout st') mod 256 = 0"
      "stdout st' = closed st1 @ cpio_encode (entry (next_inode st1) ''TRAILER!!!'' s []) @ zeros n"
    using eject_trailer_emits [OF st1(2)] by metis
  have "cpio_parse (stdout st') = Some (number sys st 300000 (concat (map walk_root rs)))"
    unfolding st'(3) st1(4)
  proof (rule cpio_roundtrip)
    show "\<forall>e \<in> set (number sys st 300000 (concat (map walk_root rs))). cpio_ok e \<and> c_name e \<noteq> ''TRAILER!!!''"
    proof (rule number_entries)
      have "fst e \<noteq> ''TRAILER!!!'' \<and> length (fst e) < BUF \<and> length (snd (snd e)) \<le> 0x7ffff000"
        if e: "e \<in> set (concat (map walk_root rs))" for e
      proof -
        obtain r where "r \<in> set rs" "e \<in> set (walk_root r)" using e by auto
        then have "length (fst e) < BUF" using assms(3) walk_root_names_fit by blast
        moreover have "case e of (out, s, d) \<Rightarrow> fix_stat sys st out s \<noteq> None \<and> length d \<le> 0x7ffff000"
          using e assms(4) unfolding writable_def by blast
        ultimately show ?thesis using e assms(6) by (cases e) fastforce
      qed
      then show "\<forall>(out, s, d) \<in> set (concat (map walk_root rs)).
          out \<noteq> ''TRAILER!!!'' \<and> length out < BUF \<and> length d \<le> 0x7ffff000" by force
    qed
  qed (simp_all add: cpio_ok_def entry_def)
  then show ?thesis using assms(1,2) st1(1) st'(1,2) by (auto simp: mkbootfs_main_def)
qed

definition demo_stat :: "u32 \<Rightarrow> nat \<Rightarrow> stat" where
  "demo_stat mode n = \<lparr>st_mode = mode, st_uid = 0, st_gid = 0, st_size = n\<rparr>"

definition demo_fs :: os where
  "demo_fs = \<lparr>
     lstat = (\<lambda>p. if p = ''d/b'' then Some (demo_stat 0x81a4 2) else if p = ''d/a'' then Some (demo_stat 0xa1ff 1) else None),
     opendir = (\<lambda>p. if p = ''d'' then Some [''.'', ''root'', ''b'', ''a''] else None),
     open_read = (\<lambda>p. if p = ''d/b'' then Some [7, 9] else None),
     readlink = (\<lambda>p. if p = ''d/a'' then Some [98] else None),
     fs_config = (\<lambda>path dir tgt x. x)\<rparr>"

definition demo_root :: "(string \<times> string) \<times> (string \<times> ftree) list" where
  "demo_root = ((''d'', ''''), [(''.'', Link (demo_stat 0 0) []), (''root'', Link (demo_stat 0 0) []),
     (''b'', File (demo_stat 0x81a4 2) [7, 9]), (''a'', Link (demo_stat 0xa1ff 1) [98])])"

lemma demo_walk: "walk_root demo_root = [(''a'', demo_stat 0xa1ff 1, [98]), (''b'', demo_stat 0x81a4 2, [7, 9])]"
  by (simp add: walk_root_def demo_root_def sorted_kids_def keep_def qsort_def join_def)

lemma demo_root_ok: "root_ok demo_fs demo_root"
  by (simp add: root_ok_def demo_root_def demo_fs_def keep_def demo_stat_def S_ISREG_def S_ISLNK_def S_IFMT_def BUF_def Let_def)

theorem mkbootfs_archive_witness:
  "\<exists>st'. mkbootfs_main demo_fs [''d=''] = Inr st' \<and> cpio_parse (stdout st') = Some
     [\<lparr>c_ino = 300000, c_mode = 0xa1ff, c_name = ''a'', c_data = [98]\<rparr>,
      \<lparr>c_ino = 300001, c_mode = 0x81a4, c_name = ''b'', c_data = [7, 9]\<rparr>]"
proof -
  have o: "boot_options demo_fs [''d=''] = (map (arg_of \<circ> fst) [demo_root], Inr boot_init)"
    by (simp add: boot_options_def arg_of_def demo_root_def)
  have f: "fix_stat demo_fs boot_init path s = Some s" for path s
    by (simp add: fix_stat_def boot_init_def demo_fs_def)
  show ?thesis
    using mkbootfs_archive [OF o] demo_root_ok
    by (simp add: demo_walk f writable_def entry_def demo_stat_def) blast
qed

section \<open>Configuration of modes\<close>

text \<open>
  C22. With a canned configuration, the entry used for a path is the first one of that name, and for a path
  that is not listed the last one with an empty name; without such an entry \<open>fix_stat\<close> goes through a null
  pointer.
\<close>

theorem fix_stat_canned:
  assumes "canned_config st = Some config" "cstring path" "\<forall>p \<in> set config. cstring (cc_name p)"
  shows "fix_stat sys st path s = map_option (\<lambda>p. apply_entry p s)
    (case filter (\<lambda>p. cc_name p = path) config of
       p # _ \<Rightarrow> Some p
     | [] \<Rightarrow> (case rev (filter (\<lambda>p. cc_name p = []) config) of p # _ \<Rightarrow> Some p | [] \<Rightarrow> None))"
proof -
  have "canned_lookup config d path = (case filter (\<lambda>p. cc_name p = path) config of
       p # _ \<Rightarrow> Some p
     | [] \<Rightarrow> (case rev (filter (\<lambda>p. cc_name p = []) config) of p # _ \<Rightarrow> Some p | [] \<Rightarrow> d))" for d
    using assms(3)
  proof (induction config arbitrary: d)
    case (Cons p config)
    then have "strcmp (cc_name p) path = 0 \<longleftrightarrow> cc_name p = path"
      using strcmp_zero [of "cc_name p" path] assms(2) by auto
    then show ?case using Cons by (simp add: Let_def split: list.split)
  qed simp
  then show ?thesis by (simp add: fix_stat_def assms(1))
qed

definition demo_config :: "fs_config_entry list" where
  "demo_config = [\<lparr>cc_name = '''', cc_uid = 5, cc_gid = 6, cc_mode = 0x1ed\<rparr>,
     \<lparr>cc_name = ''bin'', cc_uid = 7, cc_gid = 6, cc_mode = 0x1ed\<rparr>]"

theorem fix_stat_canned_witness:
  "map_option st_uid (fix_stat demo_fs (boot_init\<lparr>canned_config := Some demo_config\<rparr>) ''sbin'' (demo_stat 0x81a4 2)) = Some 5"
  using fix_stat_canned [of "boot_init\<lparr>canned_config := Some demo_config\<rparr>" demo_config "''sbin''" demo_fs "demo_stat 0x81a4 2"]
  by (simp add: demo_config_def cstring_def apply_entry_def)

lemma pad_loop_config [simp]: "canned_config (pad_loop m st) = canned_config st"
proof (induction m st rule: pad_loop.induct)
  case (1 m st)
  then show ?case by (subst pad_loop.simps) (simp add: put_def)
qed

lemma eject_config: "eject sys s out olen data n st = Inr st' \<Longrightarrow> canned_config st' = canned_config st"
  by (auto simp: eject_def Let_def put_def split: option.splits if_splits)

text \<open>The entries that are not directories.\<close>

definition plain_entry :: "os \<Rightarrow> string \<Rightarrow> string \<Rightarrow> nat \<Rightarrow> boot_state \<Rightarrow> stat \<Rightarrow> outcome" where
  "plain_entry sys inp out olen st s =
     (if S_ISREG (st_mode s) then
        (case read_all sys inp s of
           Inl e \<Rightarrow> Inl (e, st)
         | Inr tmp \<Rightarrow> eject sys s out olen tmp (of_nat (st_size s)) st)
      else if S_ISLNK (st_mode s) then
        (case readlink sys inp of
           None \<Rightarrow> Inl (Cannot_read_symlink inp, st)
         | Some target \<Rightarrow> eject sys s out olen (take 1024 target) (of_nat (length (take 1024 target))) st)
      else Inl (Unknown inp (st_mode s), st))"

lemma archive_entry_alt:
  "archive_entry sys inp out ilen olen st =
     (case lstat sys inp of
        None \<Rightarrow> Inl (Could_not_stat inp, st)
      | Some s \<Rightarrow>
          if S_ISREG (st_mode s) \<or> \<not> S_ISDIR (st_mode s) then plain_entry sys inp out olen st s
          else (case eject sys s out olen [] 0 st of
                  Inl e \<Rightarrow> Inl e
                | Inr st \<Rightarrow> archive_dir sys inp out ilen olen st))"
proof (cases "lstat sys inp")
  case (Some s)
  show ?thesis unfolding archive_entry.simps [of sys inp] Some plain_entry_def Let_def option.case by simp
qed (simp add: archive_entry.simps)

lemma plain_entry_config: "plain_entry sys inp out olen st s = Inr st' \<Longrightarrow> canned_config st' = canned_config st"
  by (auto simp: plain_entry_def dest: eject_config split: option.splits if_splits sum.splits)

lemma archive_loop_Inr:
  assumes "archive_loop sys inp out ilen olen (name # names) st = Inr st'"
  obtains inp' out' st1 where "put_at inp ilen (CHR ''/'' # name) = Some inp'"
    "put_at out (if olen > 0 then olen else 0) (if olen > 0 then CHR ''/'' # name else name) = Some out'"
    "archive_entry sys inp' out' (ilen + length name + 1) (if olen > 0 then olen + length name + 1 else length name) st = Inr st1"
    "archive_loop sys (take ilen inp) (take olen out) ilen olen names st1 = Inr st'"
proof (cases "put_at inp ilen (CHR ''/'' # name)")
  case None
  then show ?thesis using assms unfolding archive_loop.simps [of sys inp] Let_def None by simp
next
  case i: (Some inp')
  let ?p = "put_at out (if olen > 0 then olen else 0) (if olen > 0 then CHR ''/'' # name else name)"
  show ?thesis
  proof (cases ?p)
    case None
    then show ?thesis using assms unfolding archive_loop.simps [of sys inp] Let_def None i by simp
  next
    case o': (Some out')
    let ?r = "archive_entry sys inp' out' (ilen + length name + 1) (if olen > 0 then olen + length name + 1 else length name) st"
    have "(case ?r of Inl e \<Rightarrow> Inl e | Inr st \<Rightarrow> archive_loop sys (take ilen inp) (take olen out) ilen olen names st) = Inr st'"
      using assms unfolding archive_loop.simps [of sys inp] Let_def o' i option.case .
    then show ?thesis using that [OF i o'] by (cases ?r) simp_all
  qed
qed

lemma archive_config:
  "archive_entry sys inp out ilen olen st = Inr st' \<Longrightarrow> canned_config st' = canned_config st"
  "archive_dir sys inp out ilen olen st = Inr st' \<Longrightarrow> canned_config st' = canned_config st"
  "archive_loop sys inp out ilen olen names st = Inr st' \<Longrightarrow> canned_config st' = canned_config st"
proof (induction sys inp out ilen olen st and sys inp out ilen olen st and sys inp out ilen olen names st
    arbitrary: st' and st' and st' rule: archive_entry_archive_dir_archive_loop.induct)
  case (1 sys inp out ilen olen st)
  show ?case
  proof (cases "lstat sys inp")
    case None
    then show ?thesis using "1.prems" by (simp add: archive_entry_alt)
  next
    case (Some s)
    show ?thesis
    proof (cases "S_ISREG (st_mode s) \<or> \<not> S_ISDIR (st_mode s)")
      case True
      then show ?thesis using "1.prems" Some by (intro plain_entry_config) (simp add: archive_entry_alt)
    next
      case False
      then obtain st1 where st1: "eject sys s out olen [] 0 st = Inr st1" "archive_dir sys inp out ilen olen st1 = Inr st'"
        using "1.prems" Some by (simp add: archive_entry_alt split: sum.splits)
      then show ?thesis using "1.IH" [OF Some _ _ st1] False eject_config [OF st1(1)] by simp
    qed
  qed
next
  case (2 sys inp out ilen olen st)
  obtain ds ns where ds: "opendir sys inp = Some ds" "collect_names ds 32 [] = Some ns"
      "archive_loop sys inp out ilen olen (qsort strcmp ns) st = Inr st'"
    using "2.prems" by (simp add: archive_dir.simps [of sys inp] split: option.splits)
  then show ?case using "2.IH" [OF ds] by simp
next
  case (3 sys inp out ilen olen st)
  then show ?case by (simp add: archive_loop.simps)
next
  case (4 sys inp out ilen olen name names st)
  show ?case
  proof (rule archive_loop_Inr [OF "4.prems"])
    fix inp' out' st1
    assume a: "put_at inp ilen (CHR ''/'' # name) = Some inp'"
      "put_at out (if olen > 0 then olen else 0) (if olen > 0 then CHR ''/'' # name else name) = Some out'"
      "archive_entry sys inp' out' (ilen + length name + 1) (if olen > 0 then olen + length name + 1 else length name) st = Inr st1"
      "archive_loop sys (take ilen inp) (take olen out) ilen olen names st1 = Inr st'"
    show ?thesis using "4.IH"(1) [OF refl refl refl a(1,2,3)] "4.IH"(2) [OF refl refl refl a] by simp
  qed
qed

lemma archive_args_config: "archive_args sys argv st = Inr st' \<Longrightarrow> canned_config st' = canned_config st"
  by (induction sys argv st rule: archive_args.induct)
    (auto simp: archive_def dest: archive_config split: option.splits sum.splits)

lemma no_default_fails:
  assumes "boot_options sys argv = (dirs, Inr st)" "canned_config st = Some config"
    and "\<forall>p \<in> set config. cstring (cc_name p) \<and> cc_name p \<noteq> [] \<and> cc_name p \<noteq> ''TRAILER!!!''"
  shows "\<exists>e st'. mkbootfs_main sys argv = Inl (e, st')"
proof (cases "dirs = []")
  case True
  then show ?thesis by (simp add: mkbootfs_main_def assms(1))
next
  case False
  have "canned_lookup config None ''TRAILER!!!'' = None"
    using assms(3)
  proof (induction config)
    case (Cons p config)
    then show ?case using strcmp_zero [of "cc_name p" "''TRAILER!!!''"] by (auto simp: cstring_def)
  qed simp
  then have "fix_stat sys (pad_loop 3 st') ''TRAILER!!!'' s = None" if "canned_config st' = Some config" for st' s
    using that by (simp add: fix_stat_def)
  then have "\<exists>e. eject_trailer sys st' = Inl e" if "canned_config st' = Some config" for st'
    using that by (simp add: eject_trailer_def eject_def Let_def)
  then have t: "\<exists>e. eject_trailer sys st' = Inl e" if "archive_args sys dirs st = Inr st'" for st'
    using archive_args_config [OF that] assms(2) by simp
  then show ?thesis
    using False by (cases "archive_args sys dirs st") (auto simp: mkbootfs_main_def assms(1) intro: prod.exhaust)
qed

section \<open>Independence of the directory order\<close>

definition same_files :: "os \<Rightarrow> os \<Rightarrow> bool" where
  "same_files sys sys' \<longleftrightarrow> lstat sys' = lstat sys \<and> open_read sys' = open_read sys \<and> readlink sys' = readlink sys \<and>
     fs_config sys' = fs_config sys \<and>
     (\<forall>p. (case (opendir sys p, opendir sys' p) of
             (Some ds, Some ds') \<Rightarrow> mset ds = mset ds' \<and> (\<forall>d \<in> set ds. cstring d)
           | (None, None) \<Rightarrow> True | _ \<Rightarrow> False))"

lemma eject_same_os:
  assumes "same_files sys sys'"
  shows "eject sys' = eject sys"
proof -
  have "fix_stat sys' = fix_stat sys"
    using assms by (intro ext) (simp add: fix_stat_def same_files_def split: option.split)
  then show ?thesis by (intro ext) (simp only: eject_def)
qed

lemma same_files_names:
  assumes "same_files sys sys'" "opendir sys p = Some ds"
  shows "\<exists>ds'. opendir sys' p = Some ds' \<and> qsort strcmp (filter keep ds') = qsort strcmp (filter keep ds)"
proof -
  have c: "case (opendir sys p, opendir sys' p) of
      (Some ds, Some ds') \<Rightarrow> mset ds = mset ds' \<and> (\<forall>d \<in> set ds. cstring d) | (None, None) \<Rightarrow> True | _ \<Rightarrow> False"
    using assms(1) by (simp add: same_files_def)
  then obtain ds' where ds': "opendir sys' p = Some ds'" "mset ds = mset ds'" "\<forall>d \<in> set ds. cstring d"
    using assms(2) by (auto split: option.splits)
  have "set ds' = set ds" using ds'(2) by (metis mset_eq_setD)
  then have "qsort strcmp (filter keep ds') = qsort strcmp (filter keep ds)"
    using ds' by (intro names.qsort_unique names.ordered_qsort) auto
  then show ?thesis using ds'(1) by blast
qed

lemma same_files_none:
  assumes "same_files sys sys'" "opendir sys p = None"
  shows "opendir sys' p = None"
proof -
  have "case (opendir sys p, opendir sys' p) of
      (Some ds, Some ds') \<Rightarrow> mset ds = mset ds' \<and> (\<forall>d \<in> set ds. cstring d) | (None, None) \<Rightarrow> True | _ \<Rightarrow> False"
    using assms(1) by (simp add: same_files_def)
  then show ?thesis using assms(2) by (simp split: option.splits)
qed

lemma archive_same:
  assumes "same_files sys sys'"
  shows "archive_entry sys' inp out ilen olen st = archive_entry sys inp out ilen olen st"
    "archive_dir sys' inp out ilen olen st = archive_dir sys inp out ilen olen st"
    "archive_loop sys' inp out ilen olen names st = archive_loop sys inp out ilen olen names st"
  using assms
proof (induction sys inp out ilen olen st and sys inp out ilen olen st and sys inp out ilen olen names st
    rule: archive_entry_archive_dir_archive_loop.induct)
  case (1 sys inp out ilen olen st)
  have r: "read_all sys' = read_all sys" "readlink sys' = readlink sys"
    using 1(2) by (intro ext, simp add: read_all_def same_files_def)+
  have p: "plain_entry sys' = plain_entry sys"
    by (intro ext) (simp only: plain_entry_def eject_same_os [OF 1(2)] r)
  have l: "lstat sys' inp = lstat sys inp" using 1(2) by (simp add: same_files_def)
  show ?case
  proof (cases "\<exists>s. lstat sys inp = Some s \<and> \<not> S_ISREG (st_mode s) \<and> S_ISDIR (st_mode s)")
    case True
    then obtain s where s: "lstat sys inp = Some s" "\<not> S_ISREG (st_mode s)" "S_ISDIR (st_mode s)" by blast
    then have "archive_dir sys' inp out ilen olen st1 = archive_dir sys inp out ilen olen st1"
      if "eject sys s out olen [] 0 st = Inr st1" for st1 using "1.IH" [OF s that] "1.prems" by blast
    then show ?thesis
      using s by (simp add: archive_entry_alt l eject_same_os [OF "1.prems"] split: sum.split)
  next
    case False
    then show ?thesis by (simp add: archive_entry_alt l p split: option.split)
  qed
next
  case (2 sys inp out ilen olen st)
  show ?case
  proof (cases "opendir sys inp")
    case None
    then have "opendir sys' inp = None" using same_files_none [OF 2(2)] by simp
    then show ?thesis using None by (simp add: archive_dir.simps)
  next
    case (Some ds)
    then obtain ds' where "opendir sys' inp = Some ds'" "qsort strcmp (filter keep ds') = qsort strcmp (filter keep ds)"
      using same_files_names [OF 2(2)] by blast
    then show ?thesis using 2 Some by (simp add: archive_dir.simps collect_names_val)
  qed
next
  case (3 sys inp out ilen olen st)
  then show ?case by (simp add: archive_loop.simps)
next
  case (4 sys inp out ilen olen name names st)
  show ?case
    unfolding archive_loop.simps [of sys'] archive_loop.simps [of sys] Let_def
  proof (intro option.case_cong refl)
    fix inp' out'
    assume a: "put_at inp ilen (CHR ''/'' # name) = Some inp'"
      "put_at out (if olen > 0 then olen else 0) (if olen > 0 then CHR ''/'' # name else name) = Some out'"
    let ?r = "archive_entry sys inp' out' (ilen + length name + 1) (if olen > 0 then olen + length name + 1 else length name) st"
    have e: "archive_entry sys' inp' out' (ilen + length name + 1) (if olen > 0 then olen + length name + 1 else length name) st = ?r"
      by (rule "4.IH"(1) [OF refl refl refl a "4.prems"])
    have t: "archive_loop sys' (take ilen inp) (take olen out) ilen olen names st1 =
        archive_loop sys (take ilen inp) (take olen out) ilen olen names st1" if "?r = Inr st1" for st1
      by (rule "4.IH"(2) [OF refl refl refl a that "4.prems"])
    show "(case archive_entry sys' inp' out' (ilen + length name + 1) (if olen > 0 then olen + length name + 1 else length name) st of
          Inl e \<Rightarrow> Inl e | Inr st \<Rightarrow> archive_loop sys' (take ilen inp) (take olen out) ilen olen names st) =
        (case ?r of Inl e \<Rightarrow> Inl e | Inr st \<Rightarrow> archive_loop sys (take ilen inp) (take olen out) ilen olen names st)"
      unfolding e by (rule sum.case_cong [OF refl refl t])
  qed
qed

text \<open>
  C20. The archive does not depend on the order in which the file system lists its directories: two runs on
  the same files, with every directory listed in any order, have the same output and the same errors.
\<close>

theorem mkbootfs_reproducible:
  assumes "same_files sys sys'"
  shows "mkbootfs_main sys' argv = mkbootfs_main sys argv"
proof -
  have o: "boot_options sys' argv = boot_options sys argv"
    using assms by (simp add: boot_options_def read_canned_config_def same_files_def split: list.split)
  have a: "archive_args sys' dirs st = archive_args sys dirs st" for dirs st
    by (induction dirs arbitrary: st) (simp_all add: archive_def archive_same [OF assms] split: option.split sum.split)
  note e = eject_same_os [OF assms]
  show ?thesis by (simp add: mkbootfs_main_def o a eject_trailer_def e split: prod.split sum.split)
qed

theorem mkbootfs_reproducible_witness:
  "mkbootfs_main (demo_fs\<lparr>opendir := (\<lambda>p. if p = ''d'' then Some [''a'', ''.'', ''b'', ''root''] else None)\<rparr>) [''d=x''] =
    mkbootfs_main demo_fs [''d=x'']"
  by (rule mkbootfs_reproducible) (simp add: same_files_def demo_fs_def cstring_def)

end
