(* ===== verification/Mkbootfs_Canned.thy ===== *)
theory Mkbootfs_Canned
  imports Mkbootfs_Proofs
begin

text \<open>
  Reading the canned configuration of \<open>mkbootfs\<close>: a file of lines with a path, a user, a group and an octal
  mode is read back as the entries it was printed from, and the growing array is never overrun.
\<close>

section \<open>Numbers and tokens\<close>

lemma to_digits_no_delim:
  assumes "2 \<le> bas" "bas \<le> 16"
  shows "CHR '' '' \<notin> set (to_digits bas n)" "CHR 0x0A \<notin> set (to_digits bas n)" "CHR 0x00 \<notin> set (to_digits bas n)"
  using to_digits_digits [of bas _ n] assms by (auto simp: digit_val_def dest!: to_digits_digits)

lemma strtol_to_digits:
  assumes "2 \<le> bas" "bas \<le> 10" "n < 2 ^ 63"
  shows "strtol (to_digits bas n) bas = int n"
proof -
  have d: "\<not> isspace c" "c \<noteq> CHR ''-''" "c \<noteq> CHR ''+''" if "c \<in> set (to_digits bas n)" for c
    using digit_val_not_space_sign [of bas c] to_digits_digits [of bas c n] assms that by auto
  obtain c r where c: "to_digits bas n = c # r" by (cases "to_digits bas n") auto
  have "strtol (c # r) bas = min (2 ^ 63 - 1) (int (read_digits bas 0 (c # r)))"
    using d [of c] assms(2) by (auto simp: strtol_def Let_def c skip_0x_def split: list.split)
  then show ?thesis using read_digits_to_digits [of bas n] assms by (simp add: c)
qed

lemma strtok_val:
  assumes "tok \<noteq> []" "\<forall>c \<in> set tok. c \<notin> set delim" "d \<in> set delim"
  shows "strtok delim (tok @ d # rest) = Some (tok, rest)"
proof -
  obtain c t where tok: "tok = c # t" using assms(1) by (cases tok) auto
  have "dropWhile (\<lambda>c. c \<in> set delim) (tok @ d # rest) = tok @ d # rest" using assms(2) by (simp add: tok)
  then show ?thesis using assms by (simp add: strtok_def Let_def takeWhile_append dropWhile_append)
qed

lemma strtok_skip: "d \<in> set delim \<Longrightarrow> strtok delim (d # s) = strtok delim s"
  by (simp add: strtok_def)

section \<open>Lines\<close>

definition canned_text :: "fs_config_entry \<Rightarrow> string" where
  "canned_text e = cc_name e @ CHR '' '' # to_digits 10 (unat (cc_uid e)) @ CHR '' '' # to_digits 10 (unat (cc_gid e)) @
     CHR '' '' # to_digits 8 (unat (cc_mode e)) @ [CHR 0x0A]"

definition canned_ok :: "fs_config_entry \<Rightarrow> bool" where
  "canned_ok e \<longleftrightarrow> (cc_name e \<noteq> [] \<longrightarrow> \<not> isspace (hd (cc_name e))) \<and>
     (\<forall>c \<in> set (cc_name e). c \<noteq> CHR '' '' \<and> c \<noteq> CHR 0x0A \<and> c \<noteq> CHR 0x00) \<and> length (canned_text e) < CANNED_LINE_LENGTH"

lemma canned_line_text:
  assumes "canned_ok e"
  shows "canned_line (canned_text e) = Some e"
proof -
  let ?w = "CHR '' ''" and ?n = "CHR 0x0A"
  let ?u = "to_digits 10 (unat (cc_uid e))" and ?g = "to_digits 10 (unat (cc_gid e))" and ?m = "to_digits 8 (unat (cc_mode e))"
  have tok: "strtok [?w, ?n] (to_digits bas n @ d # rest) = Some (to_digits bas n, rest)"
    if "bas \<in> {8, 10}" "d \<in> {?w, ?n}" for bas n d rest
    using that to_digits_no_delim [of bas n] by (intro strtok_val) auto
  have name: "(if isspace (hd (canned_text e)) then Some ([], canned_text e) else strtok [?w, ?n] (canned_text e)) =
      Some (cc_name e, (if cc_name e = [] then [?w] else []) @ ?u @ ?w # ?g @ ?w # ?m @ [?n])"
  proof (cases "cc_name e = []")
    case True
    then show ?thesis by (simp add: canned_text_def isspace_def)
  next
    case False
    then show ?thesis
      using assms strtok_val [of "cc_name e" "[?w, ?n]" ?w "?u @ ?w # ?g @ ?w # ?m @ [?n]"] by (auto simp: canned_ok_def canned_text_def)
  qed
  have uid: "strtok [?w, ?n] ((if cc_name e = [] then [?w] else []) @ ?u @ ?w # ?g @ ?w # ?m @ [?n]) = Some (?u, ?g @ ?w # ?m @ [?n])"
    by (simp add: strtok_skip tok)
  have v: "word_of_int (strtol (to_digits bas (unat x)) bas) = x" if "bas \<in> {8, 10}" for bas and x :: u32
  proof -
    have "strtol (to_digits bas (unat x)) bas = int (unat x)" using that u32_lt [of x] by (intro strtol_to_digits) auto
    then show ?thesis by simp
  qed
  have r: "\<lparr>cc_name = cc_name e, cc_uid = cc_uid e, cc_gid = cc_gid e, cc_mode = cc_mode e\<rparr> = e"
    by (rule fs_config_entry.equality) simp_all
  show ?thesis unfolding canned_line_def Let_def name by (simp add: uid tok v atoi_def r)
qed

lemma canned_text_chars:
  assumes "canned_ok e"
  shows "CHR 0x00 \<notin> set (canned_text e)"
    "takeWhile (\<lambda>c. c \<noteq> CHR 0x0A) (canned_text e @ rest) @ [CHR 0x0A] = canned_text e"
proof -
  let ?b = "cc_name e @ CHR '' '' # to_digits 10 (unat (cc_uid e)) @ CHR '' '' # to_digits 10 (unat (cc_gid e)) @
     CHR '' '' # to_digits 8 (unat (cc_mode e))"
  have t: "canned_text e = ?b @ [CHR 0x0A]" by (simp add: canned_text_def)
  have n: "\<forall>c \<in> set (cc_name e). c \<noteq> CHR '' '' \<and> c \<noteq> CHR 0x0A \<and> c \<noteq> CHR 0x00" using assms by (simp add: canned_ok_def)
  then show "CHR 0x00 \<notin> set (canned_text e)" unfolding t by (auto simp: to_digits_no_delim)
  have "\<forall>c \<in> set ?b. c \<noteq> CHR 0x0A" using n to_digits_no_delim(2) by fastforce
  then show "takeWhile (\<lambda>c. c \<noteq> CHR 0x0A) (canned_text e @ rest) @ [CHR 0x0A] = canned_text e"
    unfolding t append_assoc by (subst takeWhile_append2) auto
qed

lemma fgets_text:
  assumes "canned_ok e"
  shows "fgets CANNED_LINE_LENGTH (canned_text e @ rest) = Some (canned_text e, rest)"
proof -
  let ?t = "takeWhile (\<lambda>c. c \<noteq> CHR 0x0A) (canned_text e @ rest)"
  have "length ?t + 1 = length (canned_text e)" using canned_text_chars(2) [OF assms, of rest] by (metis length_append_singleton Suc_eq_plus1)
  moreover have "length (canned_text e) \<le> CANNED_LINE_LENGTH - 1" using assms unfolding canned_ok_def by linarith
  ultimately have "min (CANNED_LINE_LENGTH - 1) (length ?t + 1) = length (canned_text e)" by simp
  moreover have "canned_text e @ rest \<noteq> []" by (simp add: canned_text_def)
  ultimately show ?thesis unfolding fgets_def Let_def by simp
qed

lemma canned_loop_text:
  assumes "\<forall>e \<in> set es. canned_ok e" "0 < allocated" "length config \<le> allocated"
  shows "\<exists>allocated'. canned_loop (concat (map canned_text es)) allocated config = Inr (config @ es, allocated') \<and>
    length (config @ es) \<le> allocated'"
  using assms
proof (induction es arbitrary: allocated config)
  case Nil
  then show ?case by (subst canned_loop.simps) (simp add: fgets_def)
next
  case (Cons e es)
  let ?a = "if length config \<ge> allocated then allocated * 2 else allocated"
  have ok: "canned_ok e" using Cons.prems by simp
  have tw: "takeWhile (\<lambda>c. c \<noteq> CHR 0x00) (canned_text e) = canned_text e"
    using canned_text_chars(1) [OF ok] by (intro takeWhile_eq_all_conv [THEN iffD2]) auto
  have ne: "canned_text e \<noteq> []" by (simp add: canned_text_def)
  have "canned_loop (concat (map canned_text (e # es))) allocated config =
      canned_loop (concat (map canned_text es)) ?a (config @ [e])"
    using Cons.prems(2,3)
    by (subst canned_loop.simps) (auto simp: fgets_text [OF ok] Let_def tw ne canned_line_text [OF ok])
  moreover have "\<exists>allocated'. canned_loop (concat (map canned_text es)) ?a (config @ [e]) = Inr ((config @ [e]) @ es, allocated') \<and>
      length ((config @ [e]) @ es) \<le> allocated'"
    by (rule Cons.IH) (use Cons.prems in auto)
  ultimately show ?case by simp
qed

text \<open>
  C21. \<open>read_canned_config\<close> reads a file of lines with path, user, group and octal mode back as the list of
  entries they describe, in order, whatever their number: the array grows before it is overrun, and a
  line that starts with a space gives the entry with the empty name.
\<close>

theorem read_canned_roundtrip:
  assumes "open_read sys f = Some (cs (concat (map canned_text es)))" "\<forall>e \<in> set es. canned_ok e"
  shows "read_canned_config sys f st = Inr (st\<lparr>canned_config := Some es\<rparr>)"
proof -
  obtain a where "canned_loop (concat (map canned_text es)) 8 [] = Inr (es, a)" "length es \<le> a"
    using canned_loop_text [OF assms(2), of 8 "[]"] by auto
  then show ?thesis by (simp add: read_canned_config_def assms(1) Let_def)
qed

definition canned_os :: os where
  "canned_os = demo_fs\<lparr>open_read := (\<lambda>p. if p = ''cfg'' then Some (cs (concat (map canned_text demo_config))) else None)\<rparr>"

lemma demo_config_ok: "\<forall>e \<in> set demo_config. canned_ok e"
  by (simp add: demo_config_def canned_ok_def canned_text_def isspace_def CANNED_LINE_LENGTH_def PATH_MAX_def to_digits.simps [of 10] to_digits.simps [of 8])

theorem read_canned_roundtrip_witness:
  "read_canned_config canned_os ''cfg'' boot_init = Inr (boot_init\<lparr>canned_config := Some demo_config\<rparr>)"
  by (rule read_canned_roundtrip [OF _ demo_config_ok]) (simp add: canned_os_def)



end
