(* ===== verification/Akb_Text.thy ===== *)
theory Akb_Text
  imports Akb_Prelude
begin

text \<open>
  The string constants of \<open>cc/akb_cc.c\<close>: the texts of the options \<open>-C\<close>, \<open>-A\<close> and \<open>-h\<close>, the known shells, and the
  run-time part that is copied into every generated program.
\<close>

abbreviation TAB :: char where "TAB \<equiv> CHR 0x09"
abbreviation NL :: char where "NL \<equiv> CHR 0x0A"
abbreviation DQ :: char where "DQ \<equiv> CHR 0x22"
abbreviation SQ :: char where "SQ \<equiv> CHR 0x27"
abbreviation BS :: char where "BS \<equiv> CHR 0x5C"

section \<open>Banner\<close>

definition my_name :: string where "my_name = ''akb_cc''"
definition version :: string where "version = ''Version 1.2.0''"
definition subject :: string where "subject = ''AKB Binary builder''"
definition cpright :: string where "cpright = ''Copyright (c) 2018''"

record author_t =
  author_f :: string
  author_s :: string
  author_e :: string

definition author :: author_t where
  "author = \<lparr>author_f = ''Dmitry'', author_s = ''Fuldaros'', author_e = ''<litefros@gmail.com>''\<rparr>"

definition copying :: "string list" where
  \<open>copying = [
     ''Copying:'',
     [],
     ''    This program is free software; you can redistribute it and/or modify'',
     ''    it under the terms of the GNU General Public License as published by'',
     ''    the Free Software Foundation; either version 2 of the License, or'',
     ''    (at your option) any later version.'',
     [],
     ''    This program is distributed in the hope that it will be useful,'',
     ''    but WITHOUT ANY WARRANTY; without even the implied warranty of'',
     ''    MERCHANTABILITY or FITNESS FOR A PARTICULAR PURPOSE.  See the'',
     ''    GNU General Public License for more details.'',
     [],
     ''    You should have received a copy of the GNU General Public License'',
     ''    along with this program; if not, write to the Free Software'',
     ''    Foundation, Inc., 675 Mass Ave, Cambridge, MA 02139, USA.'',
     [],
     ''    Report problems and questions to:'',
     []]\<close>

definition abstract_lines :: "string list" where
  \<open>abstract_lines = [
     ''Abstract:'',
     [],
     ''    This tool generates AKB binary :3.'',
     []]\<close>

definition usage :: string where
  "usage = ''Usage: akb_cc [-e date] [-m addr] [-i iopt] [-x cmnd] [-l lopt] [-rvDTCAh] -f script''"

definition help_lines :: "string list" where
  \<open>help_lines = [
     [],
     ''    -e %s  Expiration date in dd/mm/yyyy format [none]'',
     ''    -m %s  Message to display upon expiration ['' @ DQ # ''Please contact your provider'' @ DQ # '']'',
     ''    -f %s  File name of the script to compile'',
     ''    -i %s  Inline option for the shell interpreter i.e: -e'',
     ''    -x %s  eXec command, as a printf format i.e: exec('' @ SQ # ''%s'' @ SQ # '',@ARGV);'',
     ''    -l %s  Last shell option i.e: --'',
     ''    -r     Relax security. Make a redistributable binary'',
     ''    -v     Verbose compilation'',
     ''    -D     Switch ON debug exec calls [OFF]'',
     ''    -T     Allow binary to be traceable [no]'',
     ''    -C     Display license and exit'',
     ''    -A     Display abstract and exit'',
     ''    -h     Display help and exit'',
     [],
     ''    Environment variables used:'',
     ''    Name    Default  Usage'',
     ''    CC      cc       C compiler command'',
     ''    CFLAGS  <none>   C compiler flags'',
     [],
     ''    Please consult the akb_cc(1) man page.'',
     []]\<close>

section \<open>Shells\<close>

record shell_entry =
  db_shll :: string
  db_inlo :: string
  db_lsto :: string
  db_xecc :: string

definition shellsDB :: "shell_entry list" where
  \<open>shellsDB = [
     \<lparr>db_shll = ''perl'', db_inlo = ''-e'', db_lsto = ''--'', db_xecc = ''exec('' @ SQ # ''%s'' @ SQ # '',@ARGV);''\<rparr>,
     \<lparr>db_shll = ''rc'', db_inlo = ''-c'', db_lsto = [], db_xecc = ''builtin exec %s $*''\<rparr>,
     \<lparr>db_shll = ''sh'', db_inlo = ''-c'', db_lsto = [], db_xecc = ''exec '' @ SQ # ''%s'' @ SQ # '' '' @ DQ # ''$@'' @ [DQ]\<rparr>,
     \<lparr>db_shll = ''bash'', db_inlo = ''-c'', db_lsto = [], db_xecc = ''exec '' @ SQ # ''%s'' @ SQ # '' '' @ DQ # ''$@'' @ [DQ]\<rparr>,
     \<lparr>db_shll = ''zsh'', db_inlo = ''-c'', db_lsto = [], db_xecc = ''exec '' @ SQ # ''%s'' @ SQ # '' '' @ DQ # ''$@'' @ [DQ]\<rparr>,
     \<lparr>db_shll = ''bsh'', db_inlo = ''-c'', db_lsto = [], db_xecc = ''exec '' @ SQ # ''%s'' @ SQ # '' '' @ DQ # ''$@'' @ [DQ]\<rparr>,
     \<lparr>db_shll = ''Rsh'', db_inlo = ''-c'', db_lsto = [], db_xecc = ''exec '' @ SQ # ''%s'' @ SQ # '' '' @ DQ # ''$@'' @ [DQ]\<rparr>,
     \<lparr>db_shll = ''ksh'', db_inlo = ''-c'', db_lsto = [], db_xecc = ''exec '' @ SQ # ''%s'' @ SQ # '' '' @ DQ # ''$@'' @ [DQ]\<rparr>,
     \<lparr>db_shll = ''tsh'', db_inlo = ''-c'', db_lsto = ''--'', db_xecc = ''exec '' @ SQ # ''%s'' @ SQ # '' '' @ DQ # ''$@'' @ [DQ]\<rparr>,
     \<lparr>db_shll = ''ash'', db_inlo = ''-c'', db_lsto = ''--'', db_xecc = ''exec '' @ SQ # ''%s'' @ SQ # '' '' @ DQ # ''$@'' @ [DQ]\<rparr>,
     \<lparr>db_shll = ''csh'', db_inlo = ''-c'', db_lsto = ''-b'', db_xecc = ''exec '' @ SQ # ''%s'' @ SQ # '' $argv''\<rparr>,
     \<lparr>db_shll = ''tcsh'', db_inlo = ''-c'', db_lsto = ''-b'', db_xecc = ''exec '' @ SQ # ''%s'' @ SQ # '' $argv''\<rparr>]\<close>

section \<open>Run-time part\<close>

definition RTC_cipher :: "string list" where
  \<open>RTC_cipher = [
     [],
     ''/* rtc.c */'',
     [],
     ''#include <sys/stat.h>'',
     ''#include <sys/types.h>'',
     [],
     ''#include <errno.h>'',
     ''#include <stdio.h>'',
     ''#include <stdlib.h>'',
     ''#include <string.h>'',
     ''#include <time.h>'',
     ''#include <unistd.h>'',
     [],
     ''/* '' @ SQ # ''Alleged RC4'' @ SQ # '' */'',
     [],
     ''static unsigned char stte[256], indx, jndx, kndx;'',
     [],
     ''/*'',
     '' * Reset arc4 stte. '',
     '' */'',
     ''void stte_0(void)'',
     ''{'',
     TAB # ''indx = jndx = kndx = 0;'',
     TAB # ''do {'',
     TAB # TAB # ''stte[indx] = indx;'',
     TAB # ''} while (++indx);'',
     ''}'',
     [],
     ''/*'',
     '' * Set key. Can be used more than once. '',
     '' */'',
     ''void key(void * str, int len)'',
     ''{'',
     TAB # ''unsigned char tmp, * ptr = (unsigned char *'' @ '')str;'',
     TAB # ''while (len > 0) {'',
     TAB # TAB # ''do {'',
     TAB # TAB # TAB # ''tmp = stte[indx];'',
     TAB # TAB # TAB # ''kndx += tmp;'',
     TAB # TAB # TAB # ''kndx += ptr[(int)indx % len];'',
     TAB # TAB # TAB # ''stte[indx] = stte[kndx];'',
     TAB # TAB # TAB # ''stte[kndx] = tmp;'',
     TAB # TAB # ''} while (++indx);'',
     TAB # TAB # ''ptr += 256;'',
     TAB # TAB # ''len -= 256;'',
     TAB # ''}'',
     ''}'',
     [],
     ''/*'',
     '' * Crypt data. '',
     '' */'',
     ''void arc4(void * str, int len)'',
     ''{'',
     TAB # ''unsigned char tmp, * ptr = (unsigned char *'' @ '')str;'',
     TAB # ''while (len > 0) {'',
     TAB # TAB # ''indx++;'',
     TAB # TAB # ''tmp = stte[indx];'',
     TAB # TAB # ''jndx += tmp;'',
     TAB # TAB # ''stte[indx] = stte[jndx];'',
     TAB # TAB # ''stte[jndx] = tmp;'',
     TAB # TAB # ''tmp += stte[indx];'',
     TAB # TAB # ''*ptr ^= stte[tmp];'',
     TAB # TAB # ''ptr++;'',
     TAB # TAB # ''len--;'',
     TAB # ''}'',
     ''}'',
     [],
     ''/* End of ARC4 */'',
     [],
     ''/*'',
     '' * Key with file invariants. '',
     '' */'',
     ''int key_with_file(char * file)'',
     ''{'',
     TAB # ''struct stat statf[1];'',
     TAB # ''struct stat control[1];'',
     [],
     TAB # ''if (stat(file, statf) < 0)'',
     TAB # TAB # ''return -1;'',
     [],
     TAB # ''/* Turn on stable fields */'',
     TAB # ''memset(control, 0, sizeof(control));'',
     TAB # ''control->st_ino = statf->st_ino;'',
     TAB # ''control->st_dev = statf->st_dev;'',
     TAB # ''control->st_rdev = statf->st_rdev;'',
     TAB # ''control->st_uid = statf->st_uid;'',
     TAB # ''control->st_gid = statf->st_gid;'',
     TAB # ''control->st_size = statf->st_size;'',
     TAB # ''control->st_mtime = statf->st_mtime;'',
     TAB # ''control->st_ctime = statf->st_ctime;'',
     TAB # ''key(control, sizeof(control));'',
     TAB # ''return 0;'',
     ''}'',
     [],
     ''#if DEBUGEXEC'',
     ''void debugexec(char * sh11, int argc, char ** argv)'',
     ''{'',
     TAB # ''int i;'',
     TAB # ''fprintf(stderr, '' @ DQ # ''shll=%s'' @ BS # ''n'' @ DQ # '', sh11 ? sh11 : '' @ DQ # ''<null>'' @ DQ # '');'',
     TAB # ''fprintf(stderr, '' @ DQ # ''argc=%d'' @ BS # ''n'' @ DQ # '', argc);'',
     TAB # ''if (!argv) {'',
     TAB # TAB # ''fprintf(stderr, '' @ DQ # ''argv=<null>'' @ BS # ''n'' @ DQ # '');'',
     TAB # ''} else { '',
     TAB # TAB # ''for (i = 0; i <= argc ; i++)'',
     TAB # TAB # TAB # ''fprintf(stderr, '' @ DQ # ''argv[%d]=%.60s'' @ BS # ''n'' @ DQ # '', i, argv[i] ? argv[i] : '' @ DQ # ''<null>'' @ DQ # '');'',
     TAB # ''}'',
     ''}'',
     ''#endif /* DEBUGEXEC */'',
     []]\<close>

definition RTC_guard :: "string list" where
  \<open>RTC_guard = [
     ''void rmarg(char ** argv, char * arg)'',
     ''{'',
     TAB # ''for (; argv && *argv && *argv != arg; argv++);'',
     TAB # ''for (; argv && *argv; argv++)'',
     TAB # TAB # ''*argv = argv[1];'',
     ''}'',
     [],
     ''void chkenv_end(void);'',
     [],
     ''int chkenv(int argc)'',
     ''{'',
     TAB # ''char buff[512];'',
     TAB # ''unsigned long mask, m;'',
     TAB # ''int l, a, c;'',
     TAB # ''char * string;'',
     TAB # ''extern char ** environ;'',
     [],
     TAB # ''mask = (unsigned long)getpid();'',
     TAB # ''stte_0();'',
     TAB # '' key(&chkenv, (void*'' @ '')&chkenv_end - (void*'' @ '')&chkenv);'',
     TAB # '' key(&data, sizeof(data));'',
     TAB # '' key(&mask, sizeof(mask));'',
     TAB # ''arc4(&mask, sizeof(mask));'',
     TAB # ''sprintf(buff, '' @ DQ # ''x%lx'' @ DQ # '', mask);'',
     TAB # ''string = getenv(buff);'',
     ''#if DEBUGEXEC'',
     TAB # ''fprintf(stderr, '' @ DQ # ''getenv(%s)=%s'' @ BS # ''n'' @ DQ # '', buff, string ? string : '' @ DQ # ''<null>'' @ DQ # '');'',
     ''#endif'',
     TAB # ''l = strlen(buff);'',
     TAB # ''if (!string) {'',
     TAB # TAB # ''/* 1st */'',
     TAB # TAB # ''sprintf(&buff[l], '' @ DQ # ''=%lu %d'' @ DQ # '', mask, argc);'',
     TAB # TAB # ''putenv(strdup(buff));'',
     TAB # TAB # ''return 0;'',
     TAB # ''}'',
     TAB # ''c = sscanf(string, '' @ DQ # ''%lu %d%c'' @ DQ # '', &m, &a, buff);'',
     TAB # ''if (c == 2 && m == mask) {'',
     TAB # TAB # ''/* 3rd */'',
     TAB # TAB # ''rmarg(environ, &string[-l - 1]);'',
     TAB # TAB # ''return 1 + (argc - a);'',
     TAB # ''}'',
     TAB # ''return -1;'',
     ''}'',
     [],
     ''void chkenv_end(void){}'',
     [],
     ''#if !TRACEABLE'',
     [],
     ''#define _LINUX_SOURCE_COMPAT'',
     ''#include <sys/ptrace.h>'',
     ''#include <sys/types.h>'',
     ''#include <sys/wait.h>'',
     ''#include <fcntl.h>'',
     ''#include <signal.h>'',
     ''#include <stdio.h>'',
     ''#include <unistd.h>'',
     [],
     ''#if !defined(PTRACE_ATTACH) && defined(PT_ATTACH)'',
     ''#'' @ TAB # ''define PTRACE_ATTACH'' @ TAB # ''PT_ATTACH'',
     ''#endif'',
     ''void untraceable(char * argv0)'',
     ''{'',
     TAB # ''char proc[80];'',
     TAB # ''int pid, mine;'',
     [],
     TAB # ''switch(pid = fork()) {'',
     TAB # ''case  0:'',
     TAB # TAB # ''pid = getppid();'',
     TAB # TAB # ''/* For problematic SunOS ptrace */'',
     ''#if defined(__FreeBSD__)'',
     TAB # TAB # ''sprintf(proc, '' @ DQ # ''/proc/%d/mem'' @ DQ # '', (int)pid);'',
     ''#else'',
     TAB # TAB # ''sprintf(proc, '' @ DQ # ''/proc/%d/as'' @ DQ # '',  (int)pid);'',
     ''#endif'',
     TAB # TAB # ''close(0);'',
     TAB # TAB # ''mine = !open(proc, O_RDWR|O_EXCL);'',
     TAB # TAB # ''if (!mine && errno != EBUSY)'',
     TAB # TAB # TAB # ''mine = !ptrace(PTRACE_ATTACH, pid, 0, 0);'',
     TAB # TAB # ''if (mine) {'',
     TAB # TAB # TAB # ''kill(pid, SIGCONT);'',
     TAB # TAB # ''} else {'',
     TAB # TAB # TAB # ''perror(argv0);'',
     TAB # TAB # TAB # ''kill(pid, SIGKILL);'',
     TAB # TAB # ''}'',
     TAB # TAB # ''_exit(mine);'',
     TAB # ''case -1:'',
     TAB # TAB # ''break;'',
     TAB # ''default:'',
     TAB # TAB # ''if (pid == waitpid(pid, 0, 0))'',
     TAB # TAB # TAB # ''return;'',
     TAB # ''}'',
     TAB # ''perror(argv0);'',
     TAB # ''_exit(1);'',
     ''}'',
     ''#endif /* !TRACEABLE */'',
     []]\<close>

definition RTC_xsh :: "string list" where
  \<open>RTC_xsh = [
     ''char * xsh(int argc, char ** argv)'',
     ''{'',
     TAB # ''char * scrpt;'',
     TAB # ''int ret, i, j;'',
     TAB # ''char ** varg;'',
     TAB # ''char * me = argv[0];'',
     TAB # ''if (me == NULL) { me = getenv('' @ DQ # ''_'' @ DQ # ''); }'',
     TAB # ''if (me == 0) { fprintf(stderr, '' @ DQ # ''E: neither argv[0] nor $_ works.'' @ DQ # ''); exit(1); }'',
     [],
     TAB # ''ret = chkenv(argc);'',
     TAB # ''stte_0();'',
     TAB # '' key(pswd, pswd_z);'',
     TAB # ''arc4(msg1, msg1_z);'',
     TAB # ''arc4(date, date_z);'',
     TAB # ''if (date[0] && (atoll(date)<time(NULL)))'',
     TAB # TAB # ''return msg1;'',
     TAB # ''arc4(shll, shll_z);'',
     TAB # ''arc4(inlo, inlo_z);'',
     TAB # ''arc4(xecc, xecc_z);'',
     TAB # ''arc4(lsto, lsto_z);'',
     TAB # ''arc4(tst1, tst1_z);'',
     TAB # '' key(tst1, tst1_z);'',
     TAB # ''arc4(chk1, chk1_z);'',
     TAB # ''if ((chk1_z != tst1_z) || memcmp(tst1, chk1, tst1_z))'',
     TAB # TAB # ''return tst1;'',
     TAB # ''arc4(msg2, msg2_z);'',
     TAB # ''if (ret < 0)'',
     TAB # TAB # ''return msg2;'',
     TAB # ''varg = (char **'' @ '')calloc(argc + 10, sizeof(char *'' @ ''));'',
     TAB # ''if (!varg)'',
     TAB # TAB # ''return 0;'',
     TAB # ''if (ret) {'',
     TAB # TAB # ''arc4(rlax, rlax_z);'',
     TAB # TAB # ''if (!rlax[0] && key_with_file(shll))'',
     TAB # TAB # TAB # ''return shll;'',
     TAB # TAB # ''arc4(opts, opts_z);'',
     TAB # TAB # ''arc4(text, text_z);'',
     TAB # TAB # ''arc4(tst2, tst2_z);'',
     TAB # TAB # '' key(tst2, tst2_z);'',
     TAB # TAB # ''arc4(chk2, chk2_z);'',
     TAB # TAB # ''if ((chk2_z != tst2_z) || memcmp(tst2, chk2, tst2_z))'',
     TAB # TAB # TAB # ''return tst2;'',
     TAB # TAB # ''/* Prepend hide_z spaces to script text to hide it. */'',
     TAB # TAB # ''scrpt = malloc(hide_z + text_z);'',
     TAB # TAB # ''if (!scrpt)'',
     TAB # TAB # TAB # ''return 0;'',
     TAB # TAB # ''memset(scrpt, (int) '' @ SQ # '' '' @ SQ # '', hide_z);'',
     TAB # TAB # ''memcpy(&scrpt[hide_z], text, text_z);'',
     TAB # ''} else {'' @ TAB # TAB # TAB # ''/* Reexecute */'',
     TAB # TAB # ''if ('' @ ''*xecc) {'',
     TAB # TAB # TAB # ''scrpt = malloc(512);'',
     TAB # TAB # TAB # ''if (!scrpt)'',
     TAB # TAB # TAB # TAB # ''return 0;'',
     TAB # TAB # TAB # ''sprintf(scrpt, xecc, me);'',
     TAB # TAB # ''} else {'',
     TAB # TAB # TAB # ''scrpt = me;'',
     TAB # TAB # ''}'',
     TAB # ''}'',
     TAB # ''j = 0;'',
     ''#if BUSYBOXON'',
     TAB # ''varg[j++] = '' @ DQ # ''busybox'' @ DQ # '';'',
     TAB # ''varg[j++] = '' @ DQ # ''sh'' @ DQ # '';'',
     ''#else'',
     TAB # ''varg[j++] = argv[0];'' @ TAB # TAB # ''/* My own name at execution */'',
     ''#endif'',
     TAB # ''if (ret && *opts)'',
     TAB # TAB # ''varg[j++] = opts;'' @ TAB # ''/* Options on 1st line of code */'',
     TAB # ''if ('' @ ''*inlo)'',
     TAB # TAB # ''varg[j++] = inlo;'' @ TAB # ''/* Option introducing inline code */'',
     TAB # ''varg[j++] = scrpt;'' @ TAB # TAB # ''/* The script itself */'',
     TAB # ''if ('' @ ''*lsto)'',
     TAB # TAB # ''varg[j++] = lsto;'' @ TAB # ''/* Option meaning last option */'',
     TAB # ''i = (ret > 1) ? ret : 0;'' @ TAB # ''/* Args numbering correction */'',
     TAB # ''while (i < argc)'',
     TAB # TAB # ''varg[j++] = argv[i++];'' @ TAB # ''/* Main run-time arguments */'',
     TAB # ''varg[j] = 0;'' @ TAB # TAB # TAB # ''/* NULL terminated array */'',
     ''#if DEBUGEXEC'',
     TAB # ''debugexec(shll, j, varg);'',
     ''#endif'',
     TAB # ''execvp(shll, varg);'',
     TAB # ''return shll;'',
     ''}'',
     [],
     ''int main(int argc, char ** argv)'',
     ''{'',
     ''#if DEBUGEXEC'',
     TAB # ''debugexec('' @ DQ # ''main'' @ DQ # '', argc, argv);'',
     ''#endif'',
     ''#if !TRACEABLE'',
     TAB # ''untraceable(argv[0]);'',
     ''#endif'',
     TAB # ''argv[1] = xsh(argc, argv);'',
     TAB # ''fprintf(stderr, '' @ DQ # ''%s%s%s: %s'' @ BS # ''n'' @ DQ # '', argv[0],'',
     TAB # TAB # ''errno ? '' @ DQ # '': '' @ DQ # '' : '' @ DQ # DQ # '','',
     TAB # TAB # ''errno ? strerror(errno) : '' @ DQ # DQ # '','',
     TAB # TAB # ''argv[1] ? argv[1] : '' @ DQ # ''<null>'' @ [DQ],
     TAB # '');'',
     TAB # ''return 1;'',
     ''}'']\<close>

definition RTC :: "string list" where
  "RTC = RTC_cipher @ RTC_guard @ RTC_xsh"

end
