(* ===== verification/Arc4.thy ===== *)
theory Arc4
  imports Akb_Prelude "HOL-Library.Multiset"
begin

text \<open>
  The cipher of \<open>cc/akb_cc.c\<close> (\<open>stte_0\<close>, \<open>key\<close>, \<open>arc4\<close>), which the generated program carries
  too: a permutation of the bytes, three indices, a key schedule that may be run more than once
  and from any index, and the keystream generator.
\<close>

section \<open>State and operations\<close>

record arc4_state =
  stte :: "u8 list"
  indx :: u8
  jndx :: u8
  kndx :: u8

text \<open>\<open>do { stte[indx] = indx; } while (++indx);\<close> from index zero.\<close>

fun stte_fill :: "nat \<Rightarrow> u8 \<Rightarrow> u8 list \<Rightarrow> u8 list" where
  "stte_fill 0 i xs = xs"
| "stte_fill (Suc n) i xs = stte_fill n (i + 1) (xs[unat i := i])"

definition stte_0 :: "arc4_state \<Rightarrow> arc4_state" where
  "stte_0 s = s\<lparr>indx := 0, jndx := 0, kndx := 0, stte := stte_fill 256 0 (stte s)\<rparr>"

text \<open>One turn of the inner loop of \<open>key\<close>; \<open>ptr\<close> is the key from the current position on.\<close>

definition key_step :: "bytes \<Rightarrow> arc4_state \<Rightarrow> arc4_state" where
  "key_step ptr s =
     (let tmp = stte s ! unat (indx s);
          k = kndx s + tmp + ptr ! (unat (indx s) mod length ptr);
          st = (stte s)[unat (indx s) := stte s ! unat k];
          st = st[unat k := tmp]
      in s\<lparr>stte := st, kndx := k\<rparr>)"

lemma u8_next: "x + 1 \<noteq> (0 :: u8) \<Longrightarrow> unat (x + 1) = Suc (unat x)"
  by (simp add: add.commute unatSuc)

text \<open>\<open>do { \<dots> } while (++indx);\<close>, which starts wherever \<open>indx\<close> stands and ends at zero.\<close>

function key_do :: "bytes \<Rightarrow> arc4_state \<Rightarrow> arc4_state" where
  "key_do ptr s =
     (let s = key_step ptr s; s = s\<lparr>indx := indx s + 1\<rparr>
      in if indx s \<noteq> 0 then key_do ptr s else s)"
  by pat_completeness auto
termination
proof (relation "measure (\<lambda>(ptr, s). 256 - unat (indx s))")
  fix ptr :: bytes and s x xa
  assume x: "x = key_step ptr s" and xa: "xa = x\<lparr>indx := indx x + 1\<rparr>" and ne: "indx xa \<noteq> 0"
  have "indx xa = indx s + 1" by (simp add: x xa key_step_def Let_def)
  then have "unat (indx xa) = Suc (unat (indx s))" using ne by (simp add: u8_next)
  then show "((ptr, xa), ptr, s) \<in> measure (\<lambda>(ptr, s). 256 - unat (indx s))"
    using u8_lt [of "indx s"] by simp
qed simp

declare key_do.simps [simp del]

text \<open>\<open>key(str, len)\<close>: a pass for every 256 bytes of the key.\<close>

function key :: "arc4_state \<Rightarrow> bytes \<Rightarrow> arc4_state" where
  "key s str = (if str = [] then s else key (key_do str s) (drop 256 str))"
  by pat_completeness auto
termination
  by (relation "measure (\<lambda>(s, str). length str)") simp_all

declare key.simps [simp del]

text \<open>One turn of the loop of \<open>arc4\<close>: the keystream byte and the next state.\<close>

definition arc4_step :: "arc4_state \<Rightarrow> u8 \<times> arc4_state" where
  "arc4_step s =
     (let i = indx s + 1;
          tmp = stte s ! unat i;
          j = jndx s + tmp;
          st = (stte s)[unat i := stte s ! unat j];
          st = st[unat j := tmp];
          tmp = tmp + st ! unat i
      in (st ! unat tmp, s\<lparr>stte := st, indx := i, jndx := j\<rparr>))"

fun arc4 :: "arc4_state \<Rightarrow> bytes \<Rightarrow> arc4_state \<times> bytes" where
  "arc4 s [] = (s, [])"
| "arc4 s (p # ps) =
     (case arc4_step s of (k, s') \<Rightarrow>
        (case arc4 s' ps of (s'', cs) \<Rightarrow> (s'', (p XOR k) # cs)))"

section \<open>The permutation\<close>

text \<open>The invariant: the 256 cells hold each byte once.\<close>

definition arc4_inv :: "arc4_state \<Rightarrow> bool" where
  "arc4_inv s \<longleftrightarrow> length (stte s) = 256 \<and> distinct (stte s)"

lemma arc4_inv_indx [simp]: "arc4_inv (s\<lparr>indx := i\<rparr>) = arc4_inv s"
  by (simp add: arc4_inv_def)

lemma arc4_inv_set: "arc4_inv s \<Longrightarrow> set (stte s) = UNIV"
proof -
  assume "arc4_inv s"
  then have "card (set (stte s)) = card (UNIV :: u8 set)"
    by (simp add: arc4_inv_def distinct_card card_word)
  then show ?thesis by (intro card_subset_eq) simp_all
qed

lemma swap_length_distinct:
  assumes "length xs = 256" and "distinct xs"
  shows "distinct (xs[unat (i :: u8) := xs ! unat (j :: u8), unat j := xs ! unat i])"
proof -
  have "unat i < length xs" "unat j < length xs" using assms(1) by (simp_all add: u8_lt)
  then have "mset (xs[unat i := xs ! unat j, unat j := xs ! unat i]) = mset xs"
    by (rule mset_swap [rotated])
  then show ?thesis using assms(2) by (metis mset_eq_imp_distinct_iff)
qed

lemma key_step_inv: "arc4_inv s \<Longrightarrow> arc4_inv (key_step ptr s)"
  by (simp add: arc4_inv_def key_step_def Let_def swap_length_distinct)

lemma key_do_inv: "arc4_inv s \<Longrightarrow> arc4_inv (key_do ptr s)"
proof (induction ptr s rule: key_do.induct)
  case (1 ptr s)
  have "arc4_inv (key_step ptr s)" by (rule key_step_inv [OF "1.prems"])
  then show ?case
    using "1.IH" by (subst key_do.simps) (simp add: Let_def)
qed

lemma key_inv: "arc4_inv s \<Longrightarrow> arc4_inv (key s str)"
proof (induction s str rule: key.induct)
  case (1 s str)
  then show ?case by (subst key.simps) (simp add: key_do_inv)
qed

lemma arc4_step_inv: "arc4_inv s \<Longrightarrow> arc4_inv (snd (arc4_step s))"
  by (simp add: arc4_inv_def arc4_step_def Let_def swap_length_distinct)

lemma arc4_keeps_inv: "arc4_inv s \<Longrightarrow> arc4_inv (fst (arc4 s ps))"
proof (induction s ps rule: arc4.induct)
  case (2 s p ps)
  then show ?case using arc4_step_inv [OF "2.prems"] by (auto split: prod.splits)
qed simp

text \<open>The fill writes \<open>i\<close> into cell \<open>i\<close> for all cells.\<close>

lemma stte_fill_nth:
  assumes "length xs = 256" and "unat i + n = 256"
  shows "length (stte_fill n i xs) = 256 \<and>
     (\<forall>m < 256. stte_fill n i xs ! m = (if unat i \<le> m then of_nat m else xs ! m))"
  using assms
proof (induction n i xs rule: stte_fill.induct)
  case (2 n i xs)
  show ?case
  proof (cases n)
    case 0
    then have "unat i = 255" using "2.prems" by simp
    then show ?thesis using "2.prems" 0
      by (auto simp: nth_list_update word_unat_eq_iff [of i] le_less)
  next
    case (Suc n')
    then have "unat i < 255" using "2.prems" by simp
    then have nxt: "unat (i + 1) = Suc (unat i)" by (simp add: unat_word_ariths)
    have "unat (i + 1) + n = 256" using nxt "2.prems" by simp
    moreover have "length (xs[unat i := i]) = 256" using "2.prems" by simp
    ultimately show ?thesis using "2.IH" "2.prems" nxt
      by (auto simp: nth_list_update Suc_le_eq le_less)
  qed
qed simp

lemma stte_0_fill:
  assumes "length (stte s) = 256"
  shows "stte (stte_0 s) = map of_nat [0..<256]"
  using stte_fill_nth [OF assms, of 0 256]
  by (intro nth_equalityI) (simp_all add: stte_0_def)

lemma stte_0_inv: "length (stte s) = 256 \<Longrightarrow> arc4_inv (stte_0 s)"
proof -
  assume "length (stte s) = 256"
  moreover have "inj_on (of_nat :: nat \<Rightarrow> u8) {0..<256}"
    by (rule inj_onI) (simp add: word_of_nat_eq_iff take_bit_eq_mod)
  ultimately show ?thesis
    by (simp add: arc4_inv_def stte_0_fill distinct_map)
qed

section \<open>Encryption and decryption\<close>

text \<open>The keystream does not depend on the data: encrypting twice from one state is the identity.\<close>

lemma arc4_twice: "arc4 s (snd (arc4 s ps)) = (fst (arc4 s ps), ps)"
  by (induction s ps rule: arc4.induct) (auto split: prod.splits simp: xor.assoc)

lemma arc4_state_by_length: "length ps = length qs \<Longrightarrow> fst (arc4 s ps) = fst (arc4 s qs)"
proof (induction ps qs arbitrary: s rule: list_induct2)
  case (Cons p ps q qs)
  have "fst (arc4 (snd (arc4_step s)) ps) = fst (arc4 (snd (arc4_step s)) qs)" by (rule Cons.IH)
  then show ?case by (auto split: prod.splits)
qed simp

lemma length_arc4 [simp]: "length (snd (arc4 s ps)) = length ps"
  by (induction s ps rule: arc4.induct) (auto split: prod.splits)

section \<open>Reachable states\<close>

text \<open>Every state the program can bring the cipher to, from the reset on.\<close>

inductive arc4_reach :: "arc4_state \<Rightarrow> bool" where
  reset: "length (stte s) = 256 \<Longrightarrow> arc4_reach (stte_0 s)"
| keyed: "arc4_reach s \<Longrightarrow> arc4_reach (key s str)"
| crypted: "arc4_reach s \<Longrightarrow> arc4_reach (fst (arc4 s ps))"

lemma arc4_reach_inv: "arc4_reach s \<Longrightarrow> arc4_inv s"
  by (induction rule: arc4_reach.induct) (simp_all add: stte_0_inv key_inv arc4_keeps_inv)

text \<open>
  C40. In every state the program can bring the cipher to, by a reset and any sequence of keys and messages, the table is
  a permutation of the 256 bytes, and decrypting a message from the state it was encrypted in gives it back and ends in
  the same state.
\<close>

theorem arc4_permutation:
  assumes "arc4_reach s"
  shows "length (stte s) = 256 \<and> distinct (stte s) \<and> set (stte s) = UNIV \<and>
    arc4 s (snd (arc4 s ps)) = (fst (arc4 s ps), ps) \<and> arc4_reach (fst (arc4 s ps))"
  using arc4_reach_inv [OF assms] arc4_inv_set arc4_twice arc4_reach.crypted [OF assms]
  by (auto simp: arc4_inv_def)

theorem arc4_permutation_witness:
  "set (stte (key (stte_0 \<lparr>stte = replicate 256 0, indx = 0, jndx = 0, kndx = 0\<rparr>) [1, 2, 3])) = UNIV"
proof -
  have "arc4_reach (key (stte_0 \<lparr>stte = replicate 256 0, indx = 0, jndx = 0, kndx = 0\<rparr>) [1, 2, 3])"
    by (intro arc4_reach.intros) simp
  from arc4_permutation [OF this] show ?thesis by blast
qed

section \<open>Stream ciphers\<close>

text \<open>
  What the compiler and the program it generates rely on: decrypting from the state of the encryption gives the message back
  and leaves the same state, so a sequence of messages is read back in the order it was written.
\<close>

locale stream_cipher =
  fixes crypt :: "'s \<Rightarrow> bytes \<Rightarrow> 's \<times> bytes"
  assumes crypt_twice: "crypt s (snd (crypt s p)) = (fst (crypt s p), p)"
    and crypt_length: "length (snd (crypt s p)) = length p"
begin

lemma inverse: "crypt s p = (s', c) \<Longrightarrow> crypt s c = (s', p)"
  using crypt_twice [of s p] by simp

lemma keeps_length: "crypt s c = (s', p) \<Longrightarrow> length c = length p"
  using crypt_length [of s c] by simp

lemma injective: "crypt s p = (s', c) \<Longrightarrow> crypt s q = (s'', c) \<Longrightarrow> p = q \<and> s' = s''"
  using inverse by (metis prod.inject)

end

interpretation rc4: stream_cipher arc4
  by unfold_locales (simp_all add: arc4_twice)

end
