(* ===== verification/Akb_Cc.thy ===== *)
theory Akb_Cc
  imports Akb_Text Cstrings Arc4
begin

text \<open>
  The script compiler \<open>cc/akb_cc.c\<close>: options, the interpreter line of the script, encryption, and the C program
  it writes and has compiled. The globals of the program are the record \<open>akb\<close>; files, the clock, the random
  numbers, the environment and the commands it runs are the functions of the record \<open>akb_os\<close>, the \<open>n\<close>-th
  result of \<open>rand()\<close> being \<open>rand sys n\<close>. \<open>None\<close> is a run that never ends, an error ends the program. The
  messages of \<open>-v\<close> are left out, and allocations succeed.
\<close>

section \<open>State\<close>

text \<open>
  An option of \<open>-i\<close>, \<open>-x\<close> or \<open>-l\<close> is a pointer into \<open>argv\<close>; \<open>inlo_at\<close>, \<open>xecc_at\<close> and \<open>lsto_at\<close> say where to, with
  \<open>None\<close> for a pointer elsewhere.
\<close>

record akb =
  file1 :: "string option"
  file2 :: "string option"
  date :: string
  mail :: string
  rlax :: u8
  shll :: string
  inlo :: "string option"
  xecc :: "string option"
  lsto :: "string option"
  inlo_at :: "(nat \<times> nat) option"
  xecc_at :: "(nat \<times> nat) option"
  lsto_at :: "(nat \<times> nat) option"
  opts :: string
  script :: string
  verbose :: nat
  DEBUGEXEC_flag :: nat
  TRACEABLE_flag :: nat
  BUSYBOXON_flag :: nat

definition akb_init :: akb where
  "akb_init = \<lparr>file1 = None, file2 = None, date = [], mail = ''Please contact your provider'', rlax = 0, shll = [],
     inlo = None, xecc = None, lsto = None, inlo_at = None, xecc_at = None, lsto_at = None, opts = [], script = [], verbose = 0,
     DEBUGEXEC_flag = 0, TRACEABLE_flag = 1, BUSYBOXON_flag = 0\<rparr>"

text \<open>The fields of \<open>struct stat\<close>; the last ones change without the file being replaced.\<close>

record file_stat =
  fs_ino :: nat
  fs_dev :: nat
  fs_rdev :: nat
  fs_uid :: nat
  fs_gid :: nat
  fs_size :: nat
  fs_mtime :: nat
  fs_ctime :: nat
  fs_mode :: nat
  fs_nlink :: nat
  fs_atime :: nat

record akb_os =
  mktime :: "int \<Rightarrow> int \<Rightarrow> int \<Rightarrow> int"
  read_bytes :: "string \<Rightarrow> bytes option"
  stat_file :: "string \<Rightarrow> file_stat option"
  stat_bytes :: "file_stat \<Rightarrow> bytes"
  can_create :: "string \<Rightarrow> bool"
  getenv :: "string \<Rightarrow> string option"
  system_rc :: "string \<Rightarrow> int"
  rand :: "nat \<Rightarrow> nat"

datatype akb_error =
    Displayed "string list"
  | Usage
  | No_script
  | Invalid_first_line string
  | Unknown_shell string
  | No_slash
  | Invalid_file_name string
  | Creating_output string
  | Argument_overrun
  | Command_overflow
  | Compile_failed

section \<open>Options\<close>

definition optstring :: string where "optstring = ''e:m:f:i:x:l:o:rvDUCABh''"

text \<open>\<open>getopt\<close>: \<open>None\<close> for an unknown letter, otherwise whether the letter takes an argument.\<close>

fun opt_kind :: "string \<Rightarrow> char \<Rightarrow> bool option" where
  "opt_kind [] c = None"
| "opt_kind (o1 # os) c =
     (if c = CHR '':'' then None
      else if o1 = c then Some (os \<noteq> [] \<and> hd os = CHR '':'')
      else opt_kind os c)"

text \<open>
  The events carry where \<open>optarg\<close> points to: the number of the argument and the offset in it. Arguments that are
  not options are skipped, as the GNU library does.
\<close>

datatype opt_event = Opt char | Arg char string "nat \<times> nat" | Question

function getopt_cluster :: "string \<Rightarrow> nat \<Rightarrow> nat \<Rightarrow> string list \<Rightarrow> opt_event list"
and getopt_args :: "nat \<Rightarrow> string list \<Rightarrow> opt_event list" where
  "getopt_cluster [] i off args = getopt_args (i + 1) args"
| "getopt_cluster (c # r) i off args =
     (case opt_kind optstring c of
        None \<Rightarrow> Question # getopt_cluster r i (off + 1) args
      | Some False \<Rightarrow> Opt c # getopt_cluster r i (off + 1) args
      | Some True \<Rightarrow>
          if r \<noteq> [] then Arg c r (i, off + 1) # getopt_args (i + 1) args
          else (case args of [] \<Rightarrow> [Question] | a # as \<Rightarrow> Arg c a (i + 1, 0) # getopt_args (i + 2) as))"
| "getopt_args i [] = []"
| "getopt_args i (a # as) =
     (if a = ''--'' then []
      else case a of
             c # r \<Rightarrow> if c = CHR ''-'' \<and> r \<noteq> [] then getopt_cluster r i 1 as else getopt_args (i + 1) as
           | [] \<Rightarrow> getopt_args (i + 1) as)"
  by pat_completeness auto
termination
  by (relation "measure (\<lambda>x. case x of Inl (r, i, off, args) \<Rightarrow> 2 * sum_list (map (\<lambda>a. Suc (length a)) args) + 2 * length r + 1
      | Inr (i, args) \<Rightarrow> 2 * sum_list (map (\<lambda>a. Suc (length a)) args))") auto

text \<open>
  The order in which \<open>getopt\<close> leaves the arguments: those that are not options go to the end. Each argument comes
  with the text it has when it is printed.
\<close>

fun takes_next :: "string \<Rightarrow> bool" where
  "takes_next [] = False"
| "takes_next (c # r) = (case opt_kind optstring c of Some True \<Rightarrow> r = [] | _ \<Rightarrow> takes_next r)"

fun getopt_order :: "(string \<times> string) list \<Rightarrow> string list \<times> string list" where
  "getopt_order [] = ([], [])"
| "getopt_order ((a, p) # as) =
     (if a = ''--'' then ([p], map snd as)
      else if take 1 a = ''-'' \<and> a \<noteq> ''-'' then
        (if takes_next (tl a)
         then (case as of
                 [] \<Rightarrow> ([p], [])
               | (b, q) # bs \<Rightarrow> (case getopt_order bs of (os, ns) \<Rightarrow> (p # q # os, ns)))
         else (case getopt_order as of (os, ns) \<Rightarrow> (p # os, ns)))
      else (case getopt_order as of (os, ns) \<Rightarrow> (os, p # ns)))"

text \<open>\<open>sscanf(optarg, "%2d/%2d/%4d%c", \<dots>) == 3\<close> and the three numbers.\<close>

definition scan_d :: "nat \<Rightarrow> string \<Rightarrow> (int \<times> string) option" where
  "scan_d width s =
     (let s = dropWhile isspace s;
          neg = (s \<noteq> [] \<and> hd s = CHR ''-'');
          sgn = (s \<noteq> [] \<and> (hd s = CHR ''-'' \<or> hd s = CHR ''+''));
          s = (if sgn then tl s else s);
          width = (if sgn then width - 1 else width);
          ds = takeWhile (\<lambda>c. digit_val 10 c \<noteq> None) (take width s);
          v = int (read_digits 10 0 ds)
      in if ds = [] then None else Some (if neg then - v else v, drop (length ds) s))"

definition scan_slash :: "string \<Rightarrow> string option" where
  "scan_slash s = (case s of c # r \<Rightarrow> if c = CHR ''/'' then Some r else None | [] \<Rightarrow> None)"

definition scan_date :: "string \<Rightarrow> (int \<times> int \<times> int) option" where
  "scan_date s =
     Option.bind (scan_d 2 s) (\<lambda>(mday, s).
     Option.bind (scan_slash s) (\<lambda>s.
     Option.bind (scan_d 2 s) (\<lambda>(mon, s).
     Option.bind (scan_slash s) (\<lambda>s.
     Option.bind (scan_d 4 s) (\<lambda>(year, s).
       if s = [] then Some (mday, mon, year) else None)))))"

datatype parse_result = Go_on akb | Bad akb | Show "string list"

definition banner :: "string list" where
  "banner = [my_name @ '' '' @ version @ '', '' @ subject,
     my_name @ '' '' @ cpright @ '' '' @ author_f author @ '' '' @ author_s author @ '' '' @ author_e author]"

definition parse_an_arg :: "akb_os \<Rightarrow> opt_event \<Rightarrow> akb \<Rightarrow> parse_result" where
  "parse_an_arg sys ev st =
     (case ev of
        Arg c optarg place \<Rightarrow>
          (if c = CHR ''e'' then
             (case scan_date optarg of
                None \<Rightarrow> Bad st
              | Some (mday, mon, year) \<Rightarrow>
                  (let expdate = mktime sys mday (mon - 1) (year - 1900)
                   in if expdate \<le> 0 then Bad st else Go_on (st\<lparr>date := fmt_d expdate\<rparr>)))
           else if c = CHR ''m'' then Go_on (st\<lparr>mail := optarg\<rparr>)
           else if c = CHR ''f'' then (if file1 st \<noteq> None then Bad st else Go_on (st\<lparr>file1 := Some optarg\<rparr>))
           else if c = CHR ''i'' then Go_on (st\<lparr>inlo := Some optarg, inlo_at := Some place\<rparr>)
           else if c = CHR ''x'' then Go_on (st\<lparr>xecc := Some optarg, xecc_at := Some place\<rparr>)
           else if c = CHR ''l'' then Go_on (st\<lparr>lsto := Some optarg, lsto_at := Some place\<rparr>)
           else if c = CHR ''o'' then Go_on (st\<lparr>file2 := Some optarg\<rparr>)
           else Bad st)
      | Opt c \<Rightarrow>
          (if c = CHR ''r'' then Go_on (st\<lparr>rlax := rlax st + 1\<rparr>)
           else if c = CHR ''v'' then Go_on (st\<lparr>verbose := verbose st + 1\<rparr>)
           else if c = CHR ''D'' then Go_on (st\<lparr>DEBUGEXEC_flag := 1\<rparr>)
           else if c = CHR ''U'' then Go_on (st\<lparr>TRACEABLE_flag := 0\<rparr>)
           else if c = CHR ''C'' then
             Show (banner @ [my_name @ '' '' @ hd copying] @ tl copying @
               [''    '' @ author_f author @ '' '' @ author_s author @ '' '' @ author_e author, []])
           else if c = CHR ''A'' then Show (banner @ [my_name @ '' '' @ hd abstract_lines] @ tl abstract_lines)
           else if c = CHR ''h'' then Show (banner @ [my_name @ '' '' @ usage] @ help_lines)
           else if c = CHR ''B'' then Go_on (st\<lparr>BUSYBOXON_flag := 1\<rparr>)
           else Bad st)
      | Question \<Rightarrow> Bad st)"

text \<open>\<open>parse_args\<close>: the loop counts the errors and goes on; without \<open>-f\<close> the end of the options is one too.\<close>

fun parse_loop :: "akb_os \<Rightarrow> opt_event list \<Rightarrow> nat \<Rightarrow> akb \<Rightarrow> (akb_error, nat \<times> akb) sum" where
  "parse_loop sys [] err st =
     (if file1 st = None then Inr (err + 1, st\<lparr>file1 := Some []\<rparr>) else Inr (err, st))"
| "parse_loop sys (ev # evs) err st =
     (case parse_an_arg sys ev st of
        Go_on st \<Rightarrow> parse_loop sys evs err st
      | Bad st \<Rightarrow> parse_loop sys evs (err + 1) st
      | Show text \<Rightarrow> Inl (Displayed text))"

definition parse_args :: "akb_os \<Rightarrow> string list \<Rightarrow> (akb_error, akb) sum" where
  "parse_args sys argv =
     (case parse_loop sys (getopt_args 1 (tl argv)) 0 akb_init of
        Inl e \<Rightarrow> Inl e
      | Inr (err, st) \<Rightarrow> if err > 0 then Inl Usage else Inr st)"

section \<open>The script\<close>

definition SIZE :: nat where "SIZE = 4096"

function read_loop :: "bytes \<Rightarrow> bytes \<Rightarrow> bytes" where
  "read_loop rest acc =
     (let cnt = min SIZE (length rest)
      in if cnt = 0 then acc else read_loop (drop cnt rest) (acc @ take cnt rest))"
  by pat_completeness auto
termination by (relation "measure (\<lambda>(rest, acc). length rest)") (auto simp: SIZE_def)

declare read_loop.simps [simp del]

text \<open>The script as the string it is used as afterwards, up to its first zero byte.\<close>

definition read_script :: "akb_os \<Rightarrow> string \<Rightarrow> string option" where
  "read_script sys f = map_option (\<lambda>content. of_bytes (cstr_read (read_loop content [] @ [0]))) (read_bytes sys f)"

text \<open>\<open>sscanf(ptr, " #!%s%s %c", shll, opts, opts)\<close> with one or two conversions.\<close>

definition scan_interp :: "string \<Rightarrow> (string \<times> string) option" where
  "scan_interp line =
     (let s = dropWhile isspace line;
          s1 = dropWhile isspace (drop 2 s);
          w1 = takeWhile (\<lambda>c. \<not> isspace c) s1;
          s2 = dropWhile isspace (dropWhile (\<lambda>c. \<not> isspace c) s1);
          w2 = takeWhile (\<lambda>c. \<not> isspace c) s2;
          s3 = dropWhile isspace (dropWhile (\<lambda>c. \<not> isspace c) s2)
      in if take 2 s \<noteq> ''#!'' \<or> w1 = [] \<or> s3 \<noteq> [] then None else Some (w1, w2))"

definition basename :: "string \<Rightarrow> string option" where
  "basename s = (if CHR ''/'' \<in> set s then Some (rev (takeWhile (\<lambda>c. c \<noteq> CHR ''/'') (rev s))) else None)"

definition set_default :: "string \<Rightarrow> string option \<Rightarrow> string option" where
  "set_default v x = (case x of None \<Rightarrow> Some v | Some w \<Rightarrow> Some w)"

definition shell_step :: "string \<Rightarrow> shell_entry \<Rightarrow> akb \<Rightarrow> akb" where
  "shell_step name e st =
     (if name = db_shll e
      then st\<lparr>inlo := set_default (db_inlo e) (inlo st), xecc := set_default (db_xecc e) (xecc st),
              lsto := set_default (db_lsto e) (lsto st)\<rparr>
      else st)"

definition eval_shell :: "string \<Rightarrow> akb \<Rightarrow> (akb_error, akb) sum" where
  "eval_shell text st =
     (let line = takeWhile (\<lambda>c. c \<noteq> NL) text
      in case scan_interp line of
           None \<Rightarrow> Inl (Invalid_first_line line)
         | Some (sh, op) \<Rightarrow>
             (case basename sh of
                None \<Rightarrow> Inl No_slash
              | Some name \<Rightarrow>
                  (let st = fold (shell_step name) shellsDB (st\<lparr>shll := sh, opts := op\<rparr>)
                   in if inlo st = None \<or> xecc st = None \<or> lsto st = None then Inl (Unknown_shell name)
                      else if op \<noteq> [] \<and> Some op = lsto st then Inr (st\<lparr>opts := []\<rparr>)
                      else if op = ''-'' then Inr (st\<lparr>opts := []\<rparr>)
                      else Inr st)))"

section \<open>Random numbers\<close>

definition RAND_MAX :: nat where "RAND_MAX = 2 ^ 31 - 1"

partial_function (option) rand_loop :: "akb_os \<Rightarrow> nat \<Rightarrow> nat \<Rightarrow> (nat \<times> nat) option" where
  "rand_loop sys tp pos =
     (let rnd = rand sys pos in if tp \<le> rnd then rand_loop sys tp (pos + 1) else Some (rnd, pos + 1))"

text \<open>The quotient of doubles, rounded down; it is exact for the small numbers the program asks for.\<close>

definition rand_mod :: "akb_os \<Rightarrow> nat \<Rightarrow> nat \<Rightarrow> (nat \<times> nat) option" where
  "rand_mod sys md pos =
     (let tp = RAND_MAX - RAND_MAX mod md
      in map_option (\<lambda>(rnd, pos). (md * rnd div (1 + tp), pos)) (rand_loop sys tp pos))"

definition rand_chr :: "akb_os \<Rightarrow> nat \<Rightarrow> (u8 \<times> nat) option" where
  "rand_chr sys pos = map_option (\<lambda>(r, pos). (of_nat r, pos)) (rand_mod sys 256 pos)"

definition isalnum :: "u8 \<Rightarrow> bool" where
  "isalnum b \<longleftrightarrow> 48 \<le> b \<and> b \<le> 57 \<or> 65 \<le> b \<and> b \<le> 90 \<or> 97 \<le> b \<and> b \<le> 122"

partial_function (option) noise_chr :: "akb_os \<Rightarrow> bool \<Rightarrow> nat \<Rightarrow> (u8 \<times> nat) option" where
  "noise_chr sys str pos =
     Option.bind (rand_chr sys pos) (\<lambda>(b, pos). if str \<and> \<not> isalnum b then noise_chr sys str pos else Some (b, pos))"

fun noise_loop :: "akb_os \<Rightarrow> bool \<Rightarrow> nat \<Rightarrow> nat \<Rightarrow> (bytes \<times> nat) option" where
  "noise_loop sys str 0 pos = Some ([], pos)"
| "noise_loop sys str (Suc n) pos =
     Option.bind (noise_chr sys str pos) (\<lambda>(b, pos).
       map_option (\<lambda>(bs, pos). (b # bs, pos)) (noise_loop sys str n pos))"

definition noise :: "akb_os \<Rightarrow> nat \<Rightarrow> nat \<Rightarrow> bool \<Rightarrow> nat \<Rightarrow> (bytes \<times> nat) option" where
  "noise sys mn xtra str pos =
     Option.bind (if xtra \<noteq> 0 then rand_mod sys xtra pos else Some (0, pos)) (\<lambda>(xtra, pos).
       map_option (\<lambda>(bs, pos). (bs @ (if str then [0] else []), pos)) (noise_loop sys str (xtra + mn) pos))"

section \<open>The generated program\<close>

text \<open>The text written so far, the length of the array \<open>data\<close> so far, and the position in the random numbers.\<close>

record gen =
  out_text :: string
  offset :: nat
  rpos :: nat

definition emit :: "string \<Rightarrow> gen \<Rightarrow> gen" where
  "emit s g = g\<lparr>out_text := out_text g @ s\<rparr>"

fun prnt_loop :: "akb_os \<Rightarrow> bytes \<Rightarrow> nat \<Rightarrow> nat \<Rightarrow> nat \<Rightarrow> nat \<Rightarrow> gen \<Rightarrow> gen option" where
  "prnt_loop sys ptr m l i 0 g = Some (if i mod 16 \<noteq> 0 then emit [DQ] g else g)"
| "prnt_loop sys ptr m l i (Suc k) g =
     (let g = (if i mod 16 = 0 then emit [NL, TAB, DQ] g else g)
      in Option.bind (if m \<le> i \<and> i < l then Some (ptr ! (i - m), rpos g) else rand_chr sys (rpos g)) (\<lambda>(b, pos).
           let g = emit (BS # fmt_0 3 8 (unat b)) (g\<lparr>rpos := pos\<rparr>);
               g = (if i mod 16 = 15 then emit [DQ] g else g)
           in prnt_loop sys ptr m l (i + 1) k g))"

definition prnt_bytes :: "akb_os \<Rightarrow> bytes \<Rightarrow> nat \<Rightarrow> nat \<Rightarrow> nat \<Rightarrow> gen \<Rightarrow> gen option" where
  "prnt_bytes sys ptr m l n g =
     (let l = l + m;
          n = n + l
      in map_option (\<lambda>g. g\<lparr>offset := offset g + n\<rparr>) (prnt_loop sys ptr m l 0 n g))"

definition prnt_array :: "akb_os \<Rightarrow> bytes \<Rightarrow> string \<Rightarrow> nat \<Rightarrow> string option \<Rightarrow> gen \<Rightarrow> gen option" where
  "prnt_array sys ptr name l cast g =
     Option.bind (rand_mod sys (1 + l div 4) (rpos g)) (\<lambda>(m, pos).
     Option.bind (rand_mod sys (1 + l div 4) pos) (\<lambda>(n, pos).
       let g = g\<lparr>rpos := pos\<rparr>;
           a = (offset g + m) mod l;
           m = (if cast \<noteq> None \<and> a \<noteq> 0 then m + (l - a) else m);
           g = emit (NL # ''#define      '' @ name @ ''_z'' @ TAB # to_digits 10 l) g;
           g = emit (NL # ''#define      '' @ name @ TAB # ''('' @ (case cast of None \<Rightarrow> [] | Some c \<Rightarrow> c) @
                  ''(&data['' @ to_digits 10 (offset g + m) @ '']))'') g
       in prnt_bytes sys ptr m l n g))"

text \<open>\<open>dump_array\<close>, which nothing calls.\<close>

definition dump_array :: "akb_os \<Rightarrow> arc4_state \<Rightarrow> bytes \<Rightarrow> string \<Rightarrow> nat \<Rightarrow> string option \<Rightarrow> gen \<Rightarrow> (arc4_state \<times> gen) option" where
  "dump_array sys s ptr name l cast g =
     (case arc4 s (take l ptr) of (s, c) \<Rightarrow> map_option (Pair s) (prnt_array sys c name l cast g))"

section \<open>Encryption\<close>

definition cz :: "string \<Rightarrow> bytes" where
  "cz s = cs s @ [0]"

definition arc4_zero :: arc4_state where
  "arc4_zero = \<lparr>stte = replicate 256 0, indx = 0, jndx = 0, kndx = 0\<rparr>"

definition stable :: "file_stat \<Rightarrow> file_stat" where
  "stable statf = \<lparr>fs_ino = fs_ino statf, fs_dev = fs_dev statf, fs_rdev = fs_rdev statf, fs_uid = fs_uid statf,
     fs_gid = fs_gid statf, fs_size = fs_size statf, fs_mtime = fs_mtime statf, fs_ctime = fs_ctime statf,
     fs_mode = 0, fs_nlink = 0, fs_atime = 0\<rparr>"

definition key_with_file :: "akb_os \<Rightarrow> string \<Rightarrow> arc4_state \<Rightarrow> arc4_state option" where
  "key_with_file sys f s = map_option (\<lambda>statf. key s (stat_bytes sys (stable statf))) (stat_file sys f)"

definition encrypt :: "akb_os \<Rightarrow> akb \<Rightarrow> bytes \<Rightarrow> (string \<times> bytes) list option" where
  "encrypt sys st pswd =
     (let s = key (stte_0 arc4_zero) pswd;
          (s, msg1) = arc4 s (cz (''has expired!\<newline>'' @ mail st));
          (s, dat) = arc4 s (cz (date st));
          (s, sh) = arc4 s (cz (shll st));
          (s, inl) = arc4 s (cz (the (inlo st)));
          (s, xec) = arc4 s (cz (the (xecc st)));
          (s, lst) = arc4 s (cz (the (lsto st)));
          (s, tst1) = arc4 s (cz ''location has changed!'');
          s = key s (cz ''location has changed!'');
          (s, chk1) = arc4 s (cz ''location has changed!'');
          (s, msg2) = arc4 s (cz ''abnormal behavior!'');
          (s, rlx) = arc4 s [rlax st]
      in map_option (\<lambda>s.
           let (s, opt) = arc4 s (cz (opts st));
               (s, txt) = arc4 s (cz (script st));
               (s, tst2) = arc4 s (cz ''shell has changed!'');
               s = key s (cz ''shell has changed!'');
               (s, chk2) = arc4 s (cz ''shell has changed!'')
           in [(''pswd'', pswd), (''msg1'', msg1), (''date'', dat), (''shll'', sh), (''inlo'', inl), (''xecc'', xec),
               (''lsto'', lst), (''tst1'', tst1), (''chk1'', chk1), (''msg2'', msg2), (''rlax'', rlx), (''opts'', opt),
               (''text'', txt), (''tst2'', tst2), (''chk2'', chk2)])
         (if rlax st = 0 then key_with_file sys (shll st) s else Some s))"

section \<open>Writing\<close>

text \<open>
  The switch falls through to the first array that has not been printed; from the end it starts again at the
  first one. An array that was printed is marked by the size \<open>- 1\<close>, here \<open>None\<close>.
\<close>

definition pick :: "'a option list \<Rightarrow> nat \<Rightarrow> nat option" where
  "pick slots i =
     (case filter (\<lambda>j. slots ! j \<noteq> None) [i..<length slots] of
        j # _ \<Rightarrow> Some j
      | [] \<Rightarrow> (case filter (\<lambda>j. slots ! j \<noteq> None) [0..<length slots] of j # _ \<Rightarrow> Some j | [] \<Rightarrow> None))"

fun emit_arrays :: "akb_os \<Rightarrow> nat \<Rightarrow> (string \<times> bytes) option list \<Rightarrow> gen \<Rightarrow> gen option" where
  "emit_arrays sys 0 slots g = Some g"
| "emit_arrays sys (Suc numd) slots g =
     Option.bind (rand_mod sys 15 (rpos g)) (\<lambda>(i, pos).
     Option.bind (pick slots i) (\<lambda>j.
       case slots ! j of
         None \<Rightarrow> None
       | Some (name, ptr) \<Rightarrow>
           Option.bind (prnt_array sys ptr name (length ptr) None (g\<lparr>rpos := pos\<rparr>)) (\<lambda>g.
             emit_arrays sys numd (slots[j := None]) g)))"

definition flag_line :: "string \<Rightarrow> nat \<Rightarrow> string \<Rightarrow> string" where
  "flag_line name v comment = ''#define '' @ name @ TAB # to_digits 10 v @ TAB # ''/* '' @ comment @ '' */'' @ [NL]"

definition prologue :: "string list \<Rightarrow> string" where
  "prologue argv = ''#if 0\<newline>'' @ TAB # my_name @ '' '' @ version @ '', '' @ subject @ [NL] @
     TAB # cpright @ '' '' @ author_f author @ '' '' @ author_s author @ '' '' @ author_e author @ [NL, NL, TAB] @
     concat (map (\<lambda>a. a @ '' '') argv) @ NL # ''#endif\<newline>\<newline>'' @ ''static  char data [] = ''"

definition epilogue :: "akb \<Rightarrow> string" where
  "epilogue st = ''/* End of data[] */;\<newline>'' @ ''#define      hide_z'' @ TAB # to_digits 10 4096 @ [NL] @
     flag_line ''DEBUGEXEC'' (DEBUGEXEC_flag st) ''Define as 1 to debug execvp calls'' @
     flag_line ''TRACEABLE'' (TRACEABLE_flag st) ''Define as 1 to enable ptrace the executable'' @
     flag_line ''BUSYBOXON'' (BUSYBOXON_flag st) ''Define as 1 to enable work with busybox'' @
     concat (map (\<lambda>l. l @ [NL]) RTC)"

text \<open>
  The options of \<open>-i\<close>, \<open>-x\<close> and \<open>-l\<close> are encrypted where they are, in \<open>argv\<close>, which is printed into the program
  afterwards. An argument whose end was encrypted to another byte than zero is read past its end.
\<close>

definition overwrite_arg :: "string list \<Rightarrow> (nat \<times> nat) option \<times> bytes \<Rightarrow> string list option \<Rightarrow> string list option" where
  "overwrite_arg argv p args =
     (case p of
        (None, c) \<Rightarrow> args
      | (Some (i, off), c) \<Rightarrow>
          if 0 \<in> set c then map_option (\<lambda>args. args[i := take off (argv ! i) @ of_bytes (cstr_read c)]) args else None)"

definition printed_args :: "string list \<Rightarrow> akb \<Rightarrow> (string \<times> bytes) list \<Rightarrow> string list option" where
  "printed_args argv st arrays =
     (let get = (\<lambda>name. the (map_of arrays name));
          args = overwrite_arg argv (inlo_at st, get ''inlo'') (Some argv);
          args = overwrite_arg argv (xecc_at st, get ''xecc'') args;
          args = overwrite_arg argv (lsto_at st, get ''lsto'') args
      in map_option (\<lambda>args. take 1 args @ (case getopt_order (tl (zip argv args)) of (os, ns) \<Rightarrow> os @ ns)) args)"

definition write_C :: "akb_os \<Rightarrow> string \<Rightarrow> string list \<Rightarrow> akb \<Rightarrow> (akb_error, string \<times> string) sum option" where
  "write_C sys f argv st =
     Option.bind (noise sys 256 0 False 0) (\<lambda>(pswd, pos).
       case encrypt sys st pswd of
         None \<Rightarrow> Some (Inl (Invalid_file_name (shll st)))
       | Some arrays \<Rightarrow>
           (let name = f @ ''.x.c''
            in if \<not> can_create sys name then Some (Inl (Creating_output name))
               else case printed_args argv st arrays of
                      None \<Rightarrow> Some (Inl Argument_overrun)
                    | Some args \<Rightarrow>
                        map_option (\<lambda>g. Inr (name, out_text (emit (epilogue st) g)))
                          (emit_arrays sys 15 (map Some arrays) \<lparr>out_text = prologue args, offset = 0, rpos = pos\<rparr>)))"

section \<open>Compiling and the whole program\<close>

text \<open>\<open>sprintf\<close> into the command buffer, then \<open>system\<close>.\<close>

definition run_cmd :: "akb_os \<Rightarrow> string \<Rightarrow> int option" where
  "run_cmd sys cmd = (if length cmd < SIZE then Some (system_rc sys cmd) else None)"

definition make_cc :: "akb_os \<Rightarrow> akb \<Rightarrow> (akb_error, string list) sum" where
  "make_cc sys st =
     (let cc = (case getenv sys ''CC'' of None \<Rightarrow> ''cc'' | Some c \<Rightarrow> c);
          cflags = (case getenv sys ''CFLAGS'' of None \<Rightarrow> [] | Some c \<Rightarrow> c);
          f = the (file1 st);
          f2 = (case file2 st of None \<Rightarrow> f @ ''.x'' | Some f2 \<Rightarrow> f2);
          cmd1 = cc @ '' '' @ cflags @ '' '' @ f @ ''.x.c -o '' @ f2;
          cmd2 = ''strip '' @ f2;
          cmd3 = ''chmod ug=rwx,o=rx '' @ f2
      in case run_cmd sys cmd1 of
           None \<Rightarrow> Inl Command_overflow
         | Some rc \<Rightarrow>
             if rc \<noteq> 0 then Inl Compile_failed
             else (case run_cmd sys cmd2 of
                     None \<Rightarrow> Inl Command_overflow
                   | Some _ \<Rightarrow>
                       (case run_cmd sys cmd3 of
                          None \<Rightarrow> Inl Command_overflow
                        | Some _ \<Rightarrow> Inr [cmd1, cmd2, cmd3])))"

text \<open>\<open>do_all\<close> and \<open>main\<close>: the name and text of the generated program and the commands that were run.\<close>

definition do_all :: "akb_os \<Rightarrow> string list \<Rightarrow> (akb_error, string \<times> string \<times> string list) sum option" where
  "do_all sys argv =
     (case parse_args sys argv of
        Inl e \<Rightarrow> Some (Inl e)
      | Inr st \<Rightarrow>
          (case read_script sys (the (file1 st)) of
             None \<Rightarrow> Some (Inl No_script)
           | Some text \<Rightarrow>
               (case eval_shell text (st\<lparr>script := text\<rparr>) of
                  Inl e \<Rightarrow> Some (Inl e)
                | Inr st \<Rightarrow>
                    (case write_C sys (the (file1 st)) argv st of
                       None \<Rightarrow> None
                     | Some (Inl e) \<Rightarrow> Some (Inl e)
                     | Some (Inr (name, prog)) \<Rightarrow>
                         (case make_cc sys st of
                            Inl e \<Rightarrow> Some (Inl e)
                          | Inr cmds \<Rightarrow> Some (Inr (name, prog, cmds)))))))"

text \<open>The exit status of \<open>main\<close>; a null pointer and an overrun buffer leave it undefined.\<close>

definition akb_exit_code :: "(akb_error, 'a) sum \<Rightarrow> nat option" where
  "akb_exit_code r =
     (case r of Inr _ \<Rightarrow> Some 0 | Inl (Displayed _) \<Rightarrow> Some 0 | Inl No_slash \<Rightarrow> None | Inl Argument_overrun \<Rightarrow> None | Inl Command_overflow \<Rightarrow> None | Inl _ \<Rightarrow> Some 1)"

end
