(* ===== verification/Akb_Rtc.thy ===== *)
theory Akb_Rtc
  imports Akb_Cc
begin

text \<open>
  The program that \<open>akb_cc\<close> generates: its fixed part is the array \<open>RTC\<close> of \<open>cc/akb_cc.c\<close>, its data the encrypted
  arrays. An image gives the bytes of each array by name. \<open>xsh\<close> decrypts, checks and ends in \<open>execvp\<close> or
  returns a message to \<open>main\<close>. The cipher and \<open>key_with_file\<close> are copies of those of the compiler. Not
  modelled: \<open>untraceable\<close>, which forks and attaches with \<open>ptrace\<close>, and the output of \<open>debugexec\<close>.
\<close>

section \<open>Environment check\<close>

record rtc_os =
  time_now :: int
  getpid :: u64
  chkenv_code :: bytes
  rtc_env :: "string list"

definition u64_bytes :: "u64 \<Rightarrow> bytes" where
  "u64_bytes w = map (\<lambda>i. ucast (drop_bit (8 * i) w)) [0..<8]"

definition bytes_u64 :: "bytes \<Rightarrow> u64" where
  "bytes_u64 bs = foldr (\<lambda>b w. push_bit 8 w OR ucast b) bs 0"

definition chkenv_mask :: "rtc_os \<Rightarrow> bytes \<Rightarrow> u64" where
  "chkenv_mask sys data =
     (let mask0 = u64_bytes (getpid sys);
          s = key (key (key (stte_0 arc4_zero) (chkenv_code sys)) data) mask0
      in bytes_u64 (snd (arc4 s mask0)))"

fun getenv_entry :: "string list \<Rightarrow> string \<Rightarrow> string option" where
  "getenv_entry [] name = None"
| "getenv_entry (e # es) name =
     (if take (length name + 1) e = name @ ''='' then Some (drop (length name + 1) e) else getenv_entry es name)"

text \<open>\<open>rmarg\<close> takes out one entry, found by its address.\<close>

fun rmarg :: "string list \<Rightarrow> string \<Rightarrow> string list" where
  "rmarg [] name = []"
| "rmarg (e # es) name = (if take (length name + 1) e = name @ ''='' then es else e # rmarg es name)"

text \<open>\<open>sscanf(string, "%lu %d%c", &m, &a, buff) == 2\<close> and the two numbers.\<close>

definition scan_lu :: "string \<Rightarrow> (u64 \<times> string) option" where
  "scan_lu s =
     (let s = dropWhile isspace s;
          neg = (s \<noteq> [] \<and> hd s = CHR ''-'');
          s = (if s \<noteq> [] \<and> (hd s = CHR ''-'' \<or> hd s = CHR ''+'') then tl s else s);
          ds = takeWhile (\<lambda>c. digit_val 10 c \<noteq> None) s;
          v = read_digits 10 0 ds
      in if ds = [] then None
         else Some (if 2 ^ 64 \<le> v then - 1 else if neg then - of_nat v else of_nat v, drop (length ds) s))"

definition scan_guard :: "string \<Rightarrow> (u64 \<times> int) option" where
  "scan_guard s =
     Option.bind (scan_lu s) (\<lambda>(m, s).
     Option.bind (scan_d (length s) (dropWhile isspace s)) (\<lambda>(a, s).
       if s = [] then Some (m, a) else None))"

definition chkenv :: "rtc_os \<Rightarrow> bytes \<Rightarrow> int \<Rightarrow> int \<times> rtc_os" where
  "chkenv sys data argc =
     (let mask = chkenv_mask sys data;
          buff = CHR ''x'' # to_digits 16 (unat mask)
      in case getenv_entry (rtc_env sys) buff of
           None \<Rightarrow>
             (0, sys\<lparr>rtc_env := rtc_env sys @ [buff @ ''='' @ to_digits 10 (unat mask) @ '' '' @ fmt_d argc]\<rparr>)
         | Some str \<Rightarrow>
             (case scan_guard str of
                None \<Rightarrow> (- 1, sys)
              | Some (m, a) \<Rightarrow>
                  if m = mask then (1 + (argc - a), sys\<lparr>rtc_env := rmarg (rtc_env sys) buff\<rparr>) else (- 1, sys)))"

section \<open>Running the script\<close>

datatype xsh_result =
    Returns string
  | Exec string "string list"
  | No_name
  | Bad_format

text \<open>\<open>sprintf(scrpt, xecc, me)\<close>: one \<open>%s\<close>, anything else is undefined.\<close>

fun fmt_s :: "string \<Rightarrow> string option \<Rightarrow> string option" where
  "fmt_s [] arg = Some []"
| "fmt_s (c # s) arg =
     (if c \<noteq> CHR ''%'' then map_option ((#) c) (fmt_s s arg)
      else case s of
             [] \<Rightarrow> None
           | d # s \<Rightarrow>
               if d = CHR ''%'' then map_option ((#) CHR ''%'') (fmt_s s arg)
               else if d = CHR ''s'' then
                 (case arg of None \<Rightarrow> None | Some a \<Rightarrow> map_option ((@) a) (fmt_s s None))
               else None)"

definition cstr :: "bytes \<Rightarrow> string" where
  "cstr bs = of_bytes (cstr_read bs)"

definition hide_z :: nat where "hide_z = 4096"

text \<open>The arguments for \<open>execvp\<close>; an empty \<open>argv\<close> puts a null pointer first, which ends the list.\<close>

definition xsh_args :: "nat \<Rightarrow> int \<Rightarrow> string list \<Rightarrow> string \<Rightarrow> string \<Rightarrow> string \<Rightarrow> string \<Rightarrow> string list" where
  "xsh_args busybox ret argv opt inl scrpt lst =
     (if busybox = 0 \<and> argv = [] then [] else
     (if busybox \<noteq> 0 then [''busybox'', ''sh''] else [hd argv]) @
     (if ret \<noteq> 0 \<and> opt \<noteq> [] then [opt] else []) @ (if inl \<noteq> [] then [inl] else []) @ [scrpt] @
     (if lst \<noteq> [] then [lst] else []) @ drop (if ret > 1 then nat ret else 0) argv)"

definition xsh_second :: "akb_os \<Rightarrow> nat \<Rightarrow> (string \<Rightarrow> bytes) \<Rightarrow> int \<Rightarrow> string list \<Rightarrow> arc4_state \<Rightarrow>
    string \<Rightarrow> string \<Rightarrow> string \<Rightarrow> xsh_result" where
  "xsh_second fs busybox img ret argv s sh inl lst =
     (let (s, rlx) = arc4 s (img ''rlax'')
      in case (if rlx ! 0 = 0 then key_with_file fs sh s else Some s) of
           None \<Rightarrow> Returns sh
         | Some s \<Rightarrow>
             (let (s, opt) = arc4 s (img ''opts'');
                  (s, txt) = arc4 s (img ''text'');
                  (s, tst2) = arc4 s (img ''tst2'');
                  s = key s tst2;
                  (s, chk2) = arc4 s (img ''chk2'')
              in if length chk2 \<noteq> length tst2 \<or> tst2 \<noteq> chk2 then Returns (cstr tst2)
                 else Exec sh (xsh_args busybox ret argv (cstr opt) inl (replicate hide_z (CHR '' '') @ cstr txt) lst)))"

definition xsh_first :: "nat \<Rightarrow> string list \<Rightarrow> string \<Rightarrow> string \<Rightarrow> string \<Rightarrow> string \<Rightarrow> string \<Rightarrow> xsh_result" where
  "xsh_first busybox argv me sh inl xec lst =
     (case (if xec \<noteq> [] then fmt_s xec (Some me) else Some me) of
        None \<Rightarrow> Bad_format
      | Some scrpt \<Rightarrow>
          if xec \<noteq> [] \<and> 512 \<le> length scrpt then Bad_format
          else Exec sh (xsh_args busybox 0 argv [] inl scrpt lst))"

definition xsh_checked :: "akb_os \<Rightarrow> nat \<Rightarrow> (string \<Rightarrow> bytes) \<Rightarrow> int \<Rightarrow> int \<Rightarrow> string list \<Rightarrow> string \<Rightarrow> xsh_result" where
  "xsh_checked fs busybox img now ret argv me =
     (let s = key (stte_0 arc4_zero) (img ''pswd'');
          (s, msg1) = arc4 s (img ''msg1'');
          (s, dat) = arc4 s (img ''date'')
      in if cstr dat \<noteq> [] \<and> strtol (cstr dat) 10 < now then Returns (cstr msg1)
         else
           (let (s, sh) = arc4 s (img ''shll'');
                (s, inl) = arc4 s (img ''inlo'');
                (s, xec) = arc4 s (img ''xecc'');
                (s, lst) = arc4 s (img ''lsto'');
                (s, tst1) = arc4 s (img ''tst1'');
                s = key s tst1;
                (s, chk1) = arc4 s (img ''chk1'')
            in if length chk1 \<noteq> length tst1 \<or> tst1 \<noteq> chk1 then Returns (cstr tst1)
               else
                 (let (s, msg2) = arc4 s (img ''msg2'')
                  in if ret < 0 then Returns (cstr msg2)
                     else if ret \<noteq> 0 then xsh_second fs busybox img ret argv s (cstr sh) (cstr inl) (cstr lst)
                     else xsh_first busybox argv me (cstr sh) (cstr inl) (cstr xec) (cstr lst))))"

definition xsh :: "akb_os \<Rightarrow> rtc_os \<Rightarrow> nat \<Rightarrow> (string \<Rightarrow> bytes) \<Rightarrow> bytes \<Rightarrow> string list \<Rightarrow> xsh_result \<times> rtc_os" where
  "xsh fs sys busybox img data argv =
     (case (case argv of [] \<Rightarrow> getenv_entry (rtc_env sys) ''_'' | me # _ \<Rightarrow> Some me) of
        None \<Rightarrow> (No_name, sys)
      | Some me \<Rightarrow>
          (case chkenv sys data (int (length argv)) of
             (ret, sys') \<Rightarrow> (xsh_checked fs busybox img (time_now sys) ret argv me, sys')))"

end
