(* ===== verification/Akb_Run.thy ===== *)
theory Akb_Run
  imports Akb_Rtc
begin

text \<open>
  Compiler and generated program together: what \<open>xsh\<close> does with the arrays \<open>write_C\<close> encrypted, and the
  environment variable by which the second start of the program recognises the first.
\<close>

section \<open>Decryption\<close>

lemma cstr_cz [simp]: "cstring s \<Longrightarrow> cstr (cz s) = s"
  by (simp add: cstr_def cz_def)

definition array_image :: "(string \<times> bytes) list \<Rightarrow> string \<Rightarrow> bytes" where
  "array_image arrays name = the (map_of arrays name)"

definition conf_ok :: "akb \<Rightarrow> bool" where
  "conf_ok st \<longleftrightarrow> cstring (mail st) \<and> cstring (date st) \<and> cstring (shll st) \<and> inlo st \<noteq> None \<and> cstring (the (inlo st)) \<and>
     xecc st \<noteq> None \<and> cstring (the (xecc st)) \<and> lsto st \<noteq> None \<and> cstring (the (lsto st)) \<and> cstring (opts st) \<and> cstring (script st)"

lemma encrypt_chain:
  assumes "encrypt fs st pswd = Some arrays"
  obtains s1 s2 s3 s4 s5 s6 s7 s8 s9 s10 s11 s12 s13 s14 s15 msg1 dat sh inl xec lst tst1 chk1 msg2 rlx opt tx tst2 chk2 where
    "arc4 (key (stte_0 arc4_zero) pswd) msg1 = (s1, cz (''has expired!\<newline>'' @ mail st))"
    "arc4 s1 dat = (s2, cz (date st))" "arc4 s2 sh = (s3, cz (shll st))" "arc4 s3 inl = (s4, cz (the (inlo st)))"
    "arc4 s4 xec = (s5, cz (the (xecc st)))" "arc4 s5 lst = (s6, cz (the (lsto st)))"
    "arc4 s6 tst1 = (s7, cz ''location has changed!'')"
    "arc4 (key s7 (cz ''location has changed!'')) chk1 = (s8, cz ''location has changed!'')"
    "arc4 s8 msg2 = (s9, cz ''abnormal behavior!'')" "arc4 s9 rlx = (s10, [rlax st])"
    "(if rlax st = 0 then key_with_file fs (shll st) s10 else Some s10) = Some s11"
    "arc4 s11 opt = (s12, cz (opts st))" "arc4 s12 tx = (s13, cz (script st))"
    "arc4 s13 tst2 = (s14, cz ''shell has changed!'')"
    "arc4 (key s14 (cz ''shell has changed!'')) chk2 = (s15, cz ''shell has changed!'')"
    "arrays = [(''pswd'', pswd), (''msg1'', msg1), (''date'', dat), (''shll'', sh), (''inlo'', inl), (''xecc'', xec),
               (''lsto'', lst), (''tst1'', tst1), (''chk1'', chk1), (''msg2'', msg2), (''rlax'', rlx), (''opts'', opt),
               (''text'', tx), (''tst2'', tst2), (''chk2'', chk2)]"
proof -
  obtain s1 msg1 where 1: "arc4 (key (stte_0 arc4_zero) pswd) (cz (''has expired!\<newline>'' @ mail st)) = (s1, msg1)" by fastforce
  obtain s2 dat where 2: "arc4 s1 (cz (date st)) = (s2, dat)" by fastforce
  obtain s3 sh where 3: "arc4 s2 (cz (shll st)) = (s3, sh)" by fastforce
  obtain s4 inl where 4: "arc4 s3 (cz (the (inlo st))) = (s4, inl)" by fastforce
  obtain s5 xec where 5: "arc4 s4 (cz (the (xecc st))) = (s5, xec)" by fastforce
  obtain s6 lst where 6: "arc4 s5 (cz (the (lsto st))) = (s6, lst)" by fastforce
  obtain s7 tst1 where 7: "arc4 s6 (cz ''location has changed!'') = (s7, tst1)" by fastforce
  obtain s8 chk1 where 8: "arc4 (key s7 (cz ''location has changed!'')) (cz ''location has changed!'') = (s8, chk1)" by fastforce
  obtain s9 msg2 where 9: "arc4 s8 (cz ''abnormal behavior!'') = (s9, msg2)" by fastforce
  obtain s10 rlx where 10: "arc4 s9 [rlax st] = (s10, rlx)" by fastforce
  have "(if rlax st = 0 then key_with_file fs (shll st) s10 else Some s10) \<noteq> None"
    using assms unfolding encrypt_def Let_def 1 2 3 4 5 6 7 8 9 10 split_conv by auto
  then obtain s11 where 11: "(if rlax st = 0 then key_with_file fs (shll st) s10 else Some s10) = Some s11" by blast
  obtain s12 opt where 12: "arc4 s11 (cz (opts st)) = (s12, opt)" by fastforce
  obtain s13 tx where 13: "arc4 s12 (cz (script st)) = (s13, tx)" by fastforce
  obtain s14 tst2 where 14: "arc4 s13 (cz ''shell has changed!'') = (s14, tst2)" by fastforce
  obtain s15 chk2 where 15: "arc4 (key s14 (cz ''shell has changed!'')) (cz ''shell has changed!'') = (s15, chk2)" by fastforce
  have "arrays = [(''pswd'', pswd), (''msg1'', msg1), (''date'', dat), (''shll'', sh), (''inlo'', inl), (''xecc'', xec),
               (''lsto'', lst), (''tst1'', tst1), (''chk1'', chk1), (''msg2'', msg2), (''rlax'', rlx), (''opts'', opt),
               (''text'', tx), (''tst2'', tst2), (''chk2'', chk2)]"
    using assms unfolding encrypt_def Let_def 1 2 3 4 5 6 7 8 9 10 split_conv 11 option.map 12 13 14 15 by simp
  then show ?thesis
    by (rule that [OF rc4.inverse [OF 1] rc4.inverse [OF 2] rc4.inverse [OF 3] rc4.inverse [OF 4] rc4.inverse [OF 5]
      rc4.inverse [OF 6] rc4.inverse [OF 7] rc4.inverse [OF 8] rc4.inverse [OF 9] rc4.inverse [OF 10] 11
      rc4.inverse [OF 12] rc4.inverse [OF 13] rc4.inverse [OF 14] rc4.inverse [OF 15]])
qed

definition same_shell :: "akb_os \<Rightarrow> akb_os \<Rightarrow> akb \<Rightarrow> bool" where
  "same_shell fs fs' st \<longleftrightarrow> rlax st \<noteq> 0 \<or>
     (map_option stable (stat_file fs' (shll st)) = map_option stable (stat_file fs (shll st)) \<and> stat_bytes fs' = stat_bytes fs)"

lemma same_shell_key:
  assumes "same_shell fs fs' st" "rlax st = 0"
  shows "key_with_file fs' (shll st) s = key_with_file fs (shll st) s"
proof -
  have "map_option stable (stat_file fs' (shll st)) = map_option stable (stat_file fs (shll st))" "stat_bytes fs' = stat_bytes fs"
    using assms by (simp_all add: same_shell_def)
  then show ?thesis
    by (cases "stat_file fs' (shll st)"; cases "stat_file fs (shll st)") (simp_all add: key_with_file_def)
qed

lemma second_run:
  assumes "arc4 s9 rlx = (s10, [rlax st])"
    "(if rlax st = 0 then key_with_file fs (shll st) s10 else Some s10) = Some s11"
    "arc4 s11 opt = (s12, cz (opts st))" "arc4 s12 tx = (s13, cz (script st))"
    "arc4 s13 tst2 = (s14, cz ''shell has changed!'')"
    "arc4 (key s14 (cz ''shell has changed!'')) chk2 = (s15, cz ''shell has changed!'')"
    "img ''rlax'' = rlx" "img ''opts'' = opt" "img ''text'' = tx" "img ''tst2'' = tst2" "img ''chk2'' = chk2"
    "same_shell fs fs' st" "conf_ok st"
  shows "xsh_second fs' busybox img ret argv s9 (shll st) inl lst =
    Exec (shll st) (xsh_args busybox ret argv (opts st) inl (replicate hide_z (CHR '' '') @ script st) lst)"
proof -
  have "(if [rlax st] ! 0 = 0 then key_with_file fs' (shll st) s10 else Some s10) = Some s11"
    using assms(2) same_shell_key [OF assms(12)] by (simp split: if_splits)
  then show ?thesis
    using assms(13)
    unfolding xsh_second_def assms(7-11) assms(1) Let_def split_conv
    by (simp only: option.case assms(3-6) split_conv) (simp add: conf_ok_def)
qed

lemma encrypted_runs:
  assumes "encrypt fs st pswd = Some arrays" "conf_ok st" "same_shell fs fs' st"
  shows "xsh_checked fs' busybox (array_image arrays) now ret argv me =
    (if date st \<noteq> [] \<and> strtol (date st) 10 < now then Returns (''has expired!\<newline>'' @ mail st)
     else if ret < 0 then Returns ''abnormal behavior!''
     else if ret \<noteq> 0 then
       Exec (shll st) (xsh_args busybox ret argv (opts st) (the (inlo st)) (replicate hide_z (CHR '' '') @ script st) (the (lsto st)))
     else xsh_first busybox argv me (shll st) (the (inlo st)) (the (xecc st)) (the (lsto st)))"
proof (rule encrypt_chain [OF assms(1)], goal_cases)
  case (1 s1 s2 s3 s4 s5 s6 s7 s8 s9 s10 s11 s12 s13 s14 s15 msg1 dat sh inl xec lst tst1 chk1 msg2 rlx opt tx tst2 chk2)
  have im: "array_image arrays ''pswd'' = pswd" "array_image arrays ''msg1'' = msg1" "array_image arrays ''date'' = dat" "array_image arrays ''shll'' = sh"
    "array_image arrays ''inlo'' = inl" "array_image arrays ''xecc'' = xec" "array_image arrays ''lsto'' = lst" "array_image arrays ''tst1'' = tst1"
    "array_image arrays ''chk1'' = chk1" "array_image arrays ''msg2'' = msg2"
    and im2: "array_image arrays ''rlax'' = rlx" "array_image arrays ''opts'' = opt" "array_image arrays ''text'' = tx" "array_image arrays ''tst2'' = tst2"
    "array_image arrays ''chk2'' = chk2"
    unfolding 1(16) array_image_def by simp_all
  have c: "cstring (''has expired!\<newline>'' @ mail st)" "cstring ''abnormal behavior!''" "cstring (date st)" "cstring (shll st)"
    "cstring (the (inlo st))" "cstring (the (xecc st))" "cstring (the (lsto st))"
    using assms(2) by (auto simp: conf_ok_def cstring_def)
  note sr = second_run [OF 1(10-15) im2 assms(3,2)]
  show ?case
    unfolding xsh_checked_def im Let_def 1(1-9) split_conv cstr_cz [OF c(1)] cstr_cz [OF c(2)] cstr_cz [OF c(3)] cstr_cz [OF c(4)]
      cstr_cz [OF c(5)] cstr_cz [OF c(6)] cstr_cz [OF c(7)] sr by simp
qed


section \<open>Two starts\<close>

definition guard_name :: "rtc_os \<Rightarrow> bytes \<Rightarrow> string" where
  "guard_name sys data = CHR ''x'' # to_digits 16 (unat (chkenv_mask sys data))"

lemma getenv_last: "getenv_entry env name = None \<Longrightarrow> getenv_entry (env @ [name @ ''='' @ v]) name = Some v"
  by (induction env) (auto split: if_splits)

lemma rmarg_last: "getenv_entry env name = None \<Longrightarrow> rmarg (env @ [name @ ''='' @ v]) name = env"
  by (induction env) (auto split: if_splits)

lemma digits_10: "c \<in> set (to_digits 10 n) \<Longrightarrow> digit_val 10 c \<noteq> None"
  by (rule to_digits_digits [of 10 c n]) simp_all

lemma digits_10_head:
  obtains c r where "to_digits 10 n = c # r" "\<not> isspace c" "c \<noteq> CHR ''-''" "c \<noteq> CHR ''+''"
proof (cases "to_digits 10 n")
  case (Cons c r)
  then have "digit_val 10 c \<noteq> None" using digits_10 [of c n] by simp
  then show ?thesis using that [OF Cons] digit_val_not_space_sign [of 10 c] by simp
qed simp

lemma takeWhile_digits:
  assumes "rest = [] \<or> digit_val 10 (hd rest) = None"
  shows "takeWhile (\<lambda>c. digit_val 10 c \<noteq> None) (to_digits 10 n @ rest) = to_digits 10 n"
  using assms digits_10 [of _ n] by (cases rest) (auto simp: takeWhile_append)

lemma scan_lu_digits:
  assumes "n < 2 ^ 64" "rest = [] \<or> digit_val 10 (hd rest) = None"
  shows "scan_lu (to_digits 10 n @ rest) = Some (of_nat n, rest)"
proof (rule digits_10_head [of n])
  fix c r
  assume c: "to_digits 10 n = c # r" "\<not> isspace c" "c \<noteq> CHR ''-''" "c \<noteq> CHR ''+''"
  have tw: "takeWhile (\<lambda>c. digit_val 10 c \<noteq> None) (c # r @ rest) = c # r" using takeWhile_digits [OF assms(2), of n] by (simp add: c(1))
  have v: "read_digits 10 0 (c # r) = n" using read_digits_to_digits [of 10 n] c(1) by simp
  show ?thesis
    unfolding scan_lu_def c(1) Let_def using c assms(1) tw v by simp
qed

lemma scan_d_digits:
  assumes "length (to_digits 10 n) \<le> w"
  shows "scan_d w (to_digits 10 n) = Some (int n, [])"
proof (rule digits_10_head [of n])
  fix c r
  assume c: "to_digits 10 n = c # r" "\<not> isspace c" "c \<noteq> CHR ''-''" "c \<noteq> CHR ''+''"
  have tw: "takeWhile (\<lambda>c. digit_val 10 c \<noteq> None) (c # r) = c # r" using takeWhile_digits [of "[]" n] by (simp add: c(1))
  have v: "read_digits 10 0 (c # r) = n" using read_digits_to_digits [of 10 n] c(1) by simp
  show ?thesis
    unfolding scan_d_def c(1) Let_def using c assms tw v by simp
qed

lemma scan_guard_val:
  assumes "n < 2 ^ 64"
  shows "scan_guard (to_digits 10 n @ '' '' @ fmt_d (int k)) = Some (of_nat n, int k)"
proof -
  have f: "fmt_d (int k) = to_digits 10 k" by (simp add: fmt_d_def)
  have l: "scan_lu (to_digits 10 n @ '' '' @ fmt_d (int k)) = Some (of_nat n, '' '' @ fmt_d (int k))"
    using assms by (intro scan_lu_digits) (simp_all add: digit_val_def)
  have d: "dropWhile isspace ('' '' @ fmt_d (int k)) = fmt_d (int k)"
    using digits_10_head [of k] by (metis append_Cons append_Nil dropWhile.simps(2) f isspace_def insertCI)
  show ?thesis unfolding scan_guard_def l Option.bind.simps split_conv d unfolding f by (simp add: scan_d_digits)
qed

lemma chkenv_mask_env [simp]: "chkenv_mask (sys\<lparr>rtc_env := env\<rparr>) data = chkenv_mask sys data"
  by (simp add: chkenv_mask_def)

lemma chkenv_twice:
  assumes "getenv_entry (rtc_env sys) (guard_name sys data) = None"
  shows "\<exists>sys'. chkenv sys data (int m) = (0, sys') \<and> getpid sys' = getpid sys \<and>
    chkenv sys' data n = (1 + (n - int m), sys)"
proof -
  let ?b = "guard_name sys data" and ?k = "unat (chkenv_mask sys data)"
  let ?v = "to_digits 10 ?k @ '' '' @ fmt_d (int m)"
  let ?s = "sys\<lparr>rtc_env := rtc_env sys @ [?b @ ''='' @ ?v]\<rparr>"
  have 1: "chkenv sys data (int m) = (0, ?s)" using assms by (simp add: chkenv_def Let_def guard_name_def)
  have "?k < 2 ^ 64" using u64_lt [of "chkenv_mask sys data"] by simp
  then have g: "scan_guard ?v = Some (chkenv_mask sys data, int m)" by (simp only: scan_guard_val) simp
  have "getenv_entry (rtc_env ?s) ?b = Some ?v" "rmarg (rtc_env ?s) ?b = rtc_env sys"
    using getenv_last [OF assms] rmarg_last [OF assms] by simp_all
  then have "chkenv ?s data n = (1 + (n - int m), sys)"
    using g by (simp add: chkenv_def Let_def guard_name_def)
  then show ?thesis using 1 by auto
qed

text \<open>
  C36. The environment variable of \<open>chkenv\<close>: the first start in a process answers 0 and sets it, the second start
  in the same process answers by how many arguments it has more, plus one, and restores the environment.
\<close>

theorem chkenv_two_starts:
  assumes "getenv_entry (rtc_env sys) (guard_name sys data) = None"
  shows "\<exists>sys'. chkenv sys data (int m) = (0, sys') \<and> getpid sys' = getpid sys \<and>
    chkenv sys' data n = (1 + (n - int m), sys)"
  by (rule chkenv_twice [OF assms])

definition demo_rtc :: rtc_os where
  "demo_rtc = \<lparr>time_now = 0, getpid = 7, chkenv_code = [1, 2], rtc_env = []\<rparr>"

theorem chkenv_two_starts_witness:
  "\<exists>sys'. chkenv demo_rtc [5] (int 3) = (0, sys') \<and> getpid sys' = 7 \<and> chkenv sys' [5] 3 = (1, demo_rtc)"
  using chkenv_two_starts [of demo_rtc "[5]" 3 3] by (simp add: demo_rtc_def)

end
