(* ===== verification/Akb_Emit.thy ===== *)
theory Akb_Emit
  imports Akb_Run
begin

text \<open>
  The text of the generated program. A reader of the part of C it uses for data (directives and adjacent
  string literals with octal escapes) recovers from it the array \<open>data\<close> and the position and size of every
  encrypted array, whatever the random padding and order. So the program that was written, compiled by a
  compiler that reads it that way, runs the script.
\<close>

section \<open>Reading the text\<close>

datatype ctok = Directive string | Byte u8

datatype cmode = Code | Literal | Dir string

fun scan_c :: "cmode \<Rightarrow> string \<Rightarrow> ctok list" where
  "scan_c Code [] = []"
| "scan_c Code (c # s) =
     (if c = DQ then scan_c Literal s else if c = CHR ''#'' then scan_c (Dir []) s else scan_c Code s)"
| "scan_c (Dir acc) [] = [Directive acc]"
| "scan_c (Dir acc) (c # s) = (if c = NL then Directive acc # scan_c Code s else scan_c (Dir (acc @ [c])) s)"
| "scan_c Literal [] = []"
| "scan_c Literal (c # s) =
     (if c = DQ then scan_c Code s
      else if c = BS then
        (case s of
           x # y # z # r \<Rightarrow> Byte (of_nat (read_digits 8 0 [x, y, z])) # scan_c Literal r
         | _ \<Rightarrow> [])
      else Byte (of_char c) # scan_c Literal s)"

definition c_bytes :: "ctok list \<Rightarrow> bytes" where
  "c_bytes toks = concat (map (\<lambda>t. case t of Byte b \<Rightarrow> [b] | Directive _ \<Rightarrow> []) toks)"

definition c_defs :: "ctok list \<Rightarrow> string list" where
  "c_defs toks = concat (map (\<lambda>t. case t of Byte _ \<Rightarrow> [] | Directive d \<Rightarrow> [d]) toks)"

text \<open>The number behind a prefix in the first definition that has it.\<close>

definition c_number :: "string list \<Rightarrow> string \<Rightarrow> nat" where
  "c_number defs p = (case filter (\<lambda>d. take (length p) d = p) defs of d # _ \<Rightarrow> read_digits 10 0 (drop (length p) d) | [] \<Rightarrow> 0)"

definition def_size :: "string \<Rightarrow> string" where
  "def_size name = ''define      '' @ name @ ''_z'' @ [TAB]"

definition def_place :: "string \<Rightarrow> string" where
  "def_place name = ''define      '' @ name @ TAB # ''((&data[''"

definition c_image :: "ctok list \<Rightarrow> string \<Rightarrow> bytes" where
  "c_image toks name =
     take (c_number (c_defs toks) (def_size name)) (drop (c_number (c_defs toks) (def_place name)) (c_bytes toks))"

section \<open>One array\<close>

lemma length_octal: "unat (b :: u8) < 8 ^ Suc 2"
  using u8_lt [of b] by simp

lemma octal_digits:
  obtains x y z where "fmt_0 3 8 (unat (b :: u8)) = [x, y, z]" "read_digits 8 0 [x, y, z] = unat b"
proof -
  have l: "length (fmt_0 3 8 (unat b)) = 3"
    using length_to_digits [of 8 "unat b" 2] length_octal [of b] by (simp add: fmt_0_def Let_def)
  then obtain x y z where d: "fmt_0 3 8 (unat b) = [x, y, z]"
    by (auto simp: numeral_3_eq_3 length_Suc_conv)
  then show ?thesis using that read_digits_fmt_0 [of 8 3 "unat b"] by simp
qed

definition start_mode :: "nat \<Rightarrow> cmode" where
  "start_mode i = (if i mod 16 = 0 then Code else Literal)"

lemma prnt_loop_reads:
  assumes "prnt_loop sys ptr m l i k g = Some g'"
  shows "\<exists>bs tx. out_text g' = out_text g @ tx \<and> length bs = k \<and> offset g' = offset g \<and>
    (\<forall>j < k. m \<le> i + j \<and> i + j < l \<longrightarrow> bs ! j = ptr ! (i + j - m)) \<and>
    (\<forall>rest. scan_c (start_mode i) (tx @ rest) = map Byte bs @ scan_c Code rest) \<and>
    (i mod 16 = 0 \<and> 0 < k \<longrightarrow> (\<exists>t. tx = NL # t))"
  using assms
proof (induction k arbitrary: i g)
  case 0
  then show ?case
    by (intro exI [of _ "[]"] exI [of _ "if i mod 16 \<noteq> 0 then [DQ] else []"]) (auto simp: start_mode_def emit_def)
next
  case (Suc k)
  define g1 where "g1 = (if i mod 16 = 0 then emit [NL, TAB, DQ] g else g)"
  obtain b pos where b: "(if m \<le> i \<and> i < l then Some (ptr ! (i - m), rpos g1) else rand_chr sys (rpos g1)) = Some (b, pos)"
    using Suc.prems by (auto simp: g1_def [symmetric] Let_def bind_eq_Some_conv)
  define g2 where "g2 = emit (BS # fmt_0 3 8 (unat b)) (g1\<lparr>rpos := pos\<rparr>)"
  define g3 where "g3 = (if i mod 16 = 15 then emit [DQ] g2 else g2)"
  have "prnt_loop sys ptr m l (i + 1) k g3 = Some g'"
    using Suc.prems b by (auto simp: g1_def [symmetric] Let_def g2_def g3_def)
  from Suc.IH [OF this] obtain bs tx where h: "out_text g' = out_text g3 @ tx" "length bs = k" "offset g' = offset g3"
    "\<forall>j < k. m \<le> i + 1 + j \<and> i + 1 + j < l \<longrightarrow> bs ! j = ptr ! (i + 1 + j - m)"
    "\<And>rest. scan_c (start_mode (i + 1)) (tx @ rest) = map Byte bs @ scan_c Code rest" by blast
  obtain x y z where o8: "fmt_0 3 8 (unat b) = [x, y, z]" "read_digits 8 0 [x, y, z] = unat b" by (rule octal_digits)
  let ?pre = "if i mod 16 = 0 then [NL, TAB, DQ] else []" and ?post = "if i mod 16 = 15 then [DQ] else []"
  let ?tx = "?pre @ BS # x # y # z # ?post @ tx"
  have t: "out_text g' = out_text g @ ?tx" "offset g' = offset g"
    using h(1,3) o8(1) by (simp_all add: g3_def g2_def g1_def emit_def)
  have n: "(\<forall>j < Suc k. m \<le> i + j \<and> i + j < l \<longrightarrow> (b # bs) ! j = ptr ! (i + j - m))"
  proof (intro allI impI)
    fix j
    assume j: "j < Suc k" "m \<le> i + j \<and> i + j < l"
    show "(b # bs) ! j = ptr ! (i + j - m)"
    proof (cases j)
      case 0
      then show ?thesis using b j by simp
    next
      case (Suc j')
      then show ?thesis using h(4) j by simp
    qed
  qed
  have s: "scan_c (start_mode i) (?tx @ rest) = map Byte (b # bs) @ scan_c Code rest" for rest
  proof -
    have "scan_c Literal (BS # x # y # z # ?post @ tx @ rest) = Byte b # scan_c (start_mode (i + 1)) (tx @ rest)"
      using o8(2) by (auto simp: start_mode_def mod_Suc)
    then have "scan_c Literal (BS # x # y # z # ?post @ tx @ rest) = map Byte (b # bs) @ scan_c Code rest"
      by (simp only: h(5) list.map append.simps)
    moreover have "scan_c (start_mode i) (?pre @ t) = scan_c Literal t" for t by (simp add: start_mode_def)
    ultimately show ?thesis by (simp only: append_assoc append.simps)
  qed
  show ?case
    by (intro exI [of _ "b # bs"] exI [of _ ?tx]) (use t n s h(2) in auto)
qed

lemma prnt_bytes_reads:
  assumes "prnt_bytes sys ptr m l n g = Some g'" "length ptr = l" "0 < l"
  shows "\<exists>pre post t. out_text g' = out_text g @ NL # t \<and> length pre = m \<and>
    offset g' = offset g + length (pre @ ptr @ post) \<and>
    (\<forall>rest. scan_c Code (t @ rest) = map Byte (pre @ ptr @ post) @ scan_c Code rest)"
proof -
  obtain g1 where g1: "prnt_loop sys ptr m (l + m) 0 (n + (l + m)) g = Some g1" "g' = g1\<lparr>offset := offset g1 + (n + (l + m))\<rparr>"
    using assms(1) by (auto simp: prnt_bytes_def Let_def)
  obtain bs tx where h: "out_text g1 = out_text g @ tx" "length bs = n + (l + m)" "offset g1 = offset g"
    "\<forall>j < n + (l + m). m \<le> 0 + j \<and> 0 + j < l + m \<longrightarrow> bs ! j = ptr ! (0 + j - m)"
    "\<forall>rest. scan_c (start_mode 0) (tx @ rest) = map Byte bs @ scan_c Code rest"
    "(0 :: nat) mod 16 = 0 \<and> 0 < n + (l + m) \<longrightarrow> (\<exists>t. tx = NL # t)"
    using prnt_loop_reads [OF g1(1)] by (elim exE conjE)
  obtain t where t: "tx = NL # t" using h(6) assms(3) by auto
  have "take l (drop m bs) = ptr"
    using h(2,4) assms(2) by (intro nth_equalityI) simp_all
  then have b: "bs = take m bs @ ptr @ drop (m + l) bs"
    by (metis append_take_drop_id drop_drop add.commute)
  have "scan_c Code (t @ rest) = map Byte bs @ scan_c Code rest" for rest
    using h(5) by (simp add: t start_mode_def)
  then have "\<forall>rest. scan_c Code (t @ rest) = map Byte (take m bs @ ptr @ drop (m + l) bs) @ scan_c Code rest"
    using b by simp
  moreover have "length (take m bs) = m" using h(2) by simp
  moreover have "offset g' = offset g + length (take m bs @ ptr @ drop (m + l) bs)"
    unfolding b [symmetric] using g1(2) h(2,3) by simp
  moreover have "out_text g' = out_text g @ NL # t" using g1(2) h(1) t by simp
  ultimately show ?thesis by blast
qed

definition seg_toks :: "nat \<Rightarrow> string \<Rightarrow> bytes \<Rightarrow> bytes \<Rightarrow> bytes \<Rightarrow> ctok list" where
  "seg_toks off name pre ptr post =
     Directive (def_size name @ to_digits 10 (length ptr)) #
     Directive (def_place name @ to_digits 10 (off + length pre) @ '']))'') # map Byte (pre @ ptr @ post)"

lemma scan_dir: "NL \<notin> set s \<Longrightarrow> scan_c (Dir acc) (s @ NL # rest) = Directive (acc @ s) # scan_c Code rest"
  by (induction s arbitrary: acc) auto

lemma to_digits_no_NL: "NL \<notin> set (to_digits 10 n)"
  using to_digits_digits [of 10 NL n] by (auto simp: digit_val_def)

lemma prnt_array_reads:
  assumes "prnt_array sys ptr name (length ptr) None g = Some g'" "ptr \<noteq> []" "NL \<notin> set name"
  shows "\<exists>pre post tx. out_text g' = out_text g @ tx \<and> offset g' = offset g + length (pre @ ptr @ post) \<and>
    (\<forall>rest. scan_c Code (tx @ rest) = seg_toks (offset g) name pre ptr post @ scan_c Code rest)"
proof -
  obtain m n pos where r: "prnt_bytes sys ptr m (length ptr) n
      (emit (NL # ''#define      '' @ name @ TAB # ''('' @ ''(&data['' @ to_digits 10 (offset g + m) @ '']))'')
        (emit (NL # ''#define      '' @ name @ ''_z'' @ TAB # to_digits 10 (length ptr)) (g\<lparr>rpos := pos\<rparr>))) = Some g'"
    using assms(1) by (auto simp: prnt_array_def Let_def bind_eq_Some_conv emit_def)
  obtain pre post t where h: "out_text g' = out_text g @ NL # ''#define      '' @ name @ ''_z'' @ TAB # to_digits 10 (length ptr) @
        NL # ''#define      '' @ name @ TAB # ''('' @ ''(&data['' @ to_digits 10 (offset g + m) @ '']))'' @ NL # t"
      "length pre = m" "offset g' = offset g + length (pre @ ptr @ post)"
      "\<And>rest. scan_c Code (t @ rest) = map Byte (pre @ ptr @ post) @ scan_c Code rest"
    using prnt_bytes_reads [OF r refl] assms(2) by (auto simp: emit_def)
  let ?d1 = "def_size name @ to_digits 10 (length ptr)" and ?d2 = "def_place name @ to_digits 10 (offset g + m) @ '']))''"
  have d: "NL \<notin> set ?d1" "NL \<notin> set ?d2"
    using assms(3) to_digits_no_NL by (auto simp: def_size_def def_place_def)
  have "scan_c Code (NL # CHR ''#'' # ?d1 @ NL # CHR ''#'' # ?d2 @ NL # t @ rest) =
      Directive ?d1 # Directive ?d2 # map Byte (pre @ ptr @ post) @ scan_c Code rest" for rest
    using scan_dir [OF d(1), of "[]"] scan_dir [OF d(2), of "[]"] h(4) by simp
  then show ?thesis
    using h by (intro exI [of _ pre] exI [of _ post] exI [of _ "NL # CHR ''#'' # ?d1 @ NL # CHR ''#'' # ?d2 @ NL # t"])
      (simp add: seg_toks_def def_size_def def_place_def)
qed

section \<open>All arrays\<close>

type_synonym seg = "string \<times> bytes \<times> bytes \<times> bytes"

fun segs_toks :: "nat \<Rightarrow> seg list \<Rightarrow> ctok list" where
  "segs_toks off [] = []"
| "segs_toks off ((name, pre, ptr, post) # segs) =
     seg_toks off name pre ptr post @ segs_toks (off + length (pre @ ptr @ post)) segs"

definition seg_array :: "seg \<Rightarrow> string \<times> bytes" where
  "seg_array = (\<lambda>(name, pre, ptr, post). (name, ptr))"

definition left :: "'a option list \<Rightarrow> 'a list" where
  "left slots = map the (filter (\<lambda>x. x \<noteq> None) slots)"

lemma pick_valid: "pick slots i = Some j \<Longrightarrow> j < length slots \<and> slots ! j \<noteq> None"
proof -
  have f: "j \<in> set xs \<and> P j" if "filter P xs = j # ys" for P xs and ys :: "nat list"
  proof -
    have "j \<in> set (filter P xs)" using that by simp
    then show ?thesis by simp
  qed
  assume "pick slots i = Some j"
  then show ?thesis by (auto simp: pick_def split: list.splits dest!: f)
qed

lemma pick_exists:
  assumes "left slots \<noteq> []"
  shows "\<exists>j. pick slots i = Some j"
proof -
  obtain x where "x \<in> set slots" "x \<noteq> None" using assms by (auto simp: left_def filter_empty_conv)
  then obtain j where "j < length slots" "slots ! j \<noteq> None" by (metis in_set_conv_nth)
  then have "filter (\<lambda>j. slots ! j \<noteq> None) [0..<length slots] \<noteq> []" by (auto simp: filter_empty_conv)
  then show ?thesis by (auto simp: pick_def split: list.split)
qed

lemma left_update:
  assumes "j < length slots" "slots ! j = Some x"
  shows "mset (left slots) = add_mset x (mset (left (slots[j := None])))"
  using assms
proof (induction slots arbitrary: j)
  case (Cons s slots)
  then show ?case by (cases j) (auto simp: left_def)
qed simp

lemma emit_arrays_reads:
  assumes "emit_arrays sys n slots g = Some g'" "length (left slots) = n"
    "\<forall>(name, ptr) \<in> set (left slots). ptr \<noteq> [] \<and> NL \<notin> set name"
  shows "\<exists>segs tx. out_text g' = out_text g @ tx \<and> mset (map seg_array segs) = mset (left slots) \<and>
    (\<forall>rest. scan_c Code (tx @ rest) = segs_toks (offset g) segs @ scan_c Code rest)"
  using assms
proof (induction n arbitrary: slots g)
  case 0
  then show ?case by (intro exI [of _ "[]"]) simp
next
  case (Suc n)
  obtain i pos j name ptr g1 where h: "rand_mod sys 15 (rpos g) = Some (i, pos)" "pick slots i = Some j" "slots ! j = Some (name, ptr)"
      "prnt_array sys ptr name (length ptr) None (g\<lparr>rpos := pos\<rparr>) = Some g1" "emit_arrays sys n (slots[j := None]) g1 = Some g'"
    using Suc.prems(1) by (auto simp: bind_eq_Some_conv split: option.splits)
  have u: "mset (left slots) = add_mset (name, ptr) (mset (left (slots[j := None])))"
    using pick_valid [OF h(2)] h(3) by (intro left_update) simp_all
  then have l: "length (left (slots[j := None])) = n" and s: "set (left slots) = insert (name, ptr) (set (left (slots[j := None])))"
    using Suc.prems(2) by (metis size_add_mset size_mset nat.inject, metis set_mset_add_mset_insert set_mset_mset)
  have "ptr \<noteq> []" "NL \<notin> set name" using Suc.prems(3) s by auto
  from prnt_array_reads [OF h(4) this] obtain pre post tx where a: "out_text g1 = out_text g @ tx"
      "offset g1 = offset g + length (pre @ ptr @ post)"
      "\<forall>rest. scan_c Code (tx @ rest) = seg_toks (offset g) name pre ptr post @ scan_c Code rest" by auto
  obtain segs tx2 where b: "out_text g' = out_text g1 @ tx2" "mset (map seg_array segs) = mset (left (slots[j := None]))"
      "\<forall>rest. scan_c Code (tx2 @ rest) = segs_toks (offset g1) segs @ scan_c Code rest"
    using Suc.IH [OF h(5) l] Suc.prems(3) s by auto
  show ?case
    by (intro exI [of _ "(name, pre, ptr, post) # segs"] exI [of _ "tx @ tx2"])
      (use a b u in \<open>simp add: seg_array_def\<close>)
qed

lemma c_append [simp]:
  "c_bytes (xs @ ys) = c_bytes xs @ c_bytes ys" "c_defs (xs @ ys) = c_defs xs @ c_defs ys"
  "c_bytes (map Byte bs) = bs" "c_defs (map Byte bs) = []"
  by (simp_all add: c_bytes_def c_defs_def o_def)

lemma seg_defs:
  "c_defs (seg_toks off name pre ptr post) =
     [def_size name @ to_digits 10 (length ptr), def_place name @ to_digits 10 (off + length pre) @ '']))'']"
  "c_bytes (seg_toks off name pre ptr post) = pre @ ptr @ post"
  using c_append(3,4) [of "pre @ ptr @ post"] by (simp_all add: seg_toks_def c_defs_def c_bytes_def)

lemma def_prefix:
  assumes "length n = 4" "length n' = 4"
  shows "take (length (def_size n)) (def_size n' @ x) = def_size n \<longleftrightarrow> n' = n"
    "take (length (def_place n)) (def_place n' @ x) = def_place n \<longleftrightarrow> n' = n"
    "take (length (def_size n)) (def_place n' @ x) \<noteq> def_size n" "take (length (def_place n)) (def_size n' @ x) \<noteq> def_place n"
proof -
  have c: "xs = ys \<Longrightarrow> xs ! 16 = ys ! 16" for xs ys :: string by simp
  show "take (length (def_size n)) (def_place n' @ x) \<noteq> def_size n"
    using assms by (auto dest!: c simp: def_size_def def_place_def nth_append)
  show "take (length (def_place n)) (def_size n' @ x) \<noteq> def_place n"
    using assms by (auto dest!: c simp: def_size_def def_place_def nth_append)
qed (use assms in \<open>auto simp: def_size_def def_place_def\<close>)

lemma read_digits_place: "read_digits 10 0 (to_digits 10 n @ '']))'') = n"
  using read_digits_append [of "to_digits 10 n" 10 0 "'']))''"] to_digits_digits [of 10 _ n] read_digits_to_digits [of 10 n]
  by (simp add: digit_val_def)

lemma c_number_Cons:
  "c_number (d # ds) p = (if take (length p) d = p then read_digits 10 0 (drop (length p) d) else c_number ds p)"
  by (simp add: c_number_def)

lemma segs_image:
  assumes "(n, pre, p, post) \<in> set segs" "distinct (map fst segs)" "\<forall>s \<in> set segs. length (fst s) = 4"
  shows "\<exists>k. c_number (c_defs (segs_toks off segs)) (def_size n) = length p \<and>
    c_number (c_defs (segs_toks off segs)) (def_place n) = off + k \<and> take (length p) (drop k (c_bytes (segs_toks off segs))) = p"
  using assms
proof (induction segs arbitrary: off)
  case (Cons s segs)
  obtain n' pre' p' post' where s: "s = (n', pre', p', post')" by (cases s)
  have l: "length n = 4" "length n' = 4" using Cons.prems by (auto simp: s)
  note e = s seg_defs c_number_Cons def_prefix [OF l] c_append segs_toks.simps append.simps
  show ?case
  proof (cases "n' = n")
    case True
    have "(n, pre, p, post) \<notin> set segs" using Cons.prems(2) True by (force simp: s)
    then have eq: "pre' = pre" "p' = p" "post' = post" using Cons.prems(1) by (simp_all add: s)
    show ?thesis
      by (intro exI [of _ "length pre"]) (simp add: e True eq def_prefix [OF l(1) l(1)] read_digits_to_digits read_digits_place del: take_append, simp)
  next
    case False
    then obtain k where k: "c_number (c_defs (segs_toks (off + length (pre' @ p' @ post')) segs)) (def_size n) = length p"
        "c_number (c_defs (segs_toks (off + length (pre' @ p' @ post')) segs)) (def_place n) = off + length (pre' @ p' @ post') + k"
        "take (length p) (drop k (c_bytes (segs_toks (off + length (pre' @ p' @ post')) segs))) = p"
      using Cons.IH [of "off + length (pre' @ p' @ post')"] Cons.prems by (auto simp: s)
    show ?thesis
      by (intro exI [of _ "length (pre' @ p' @ post') + k"]) (use k False in \<open>simp add: e add.assoc del: take_append\<close>)
  qed
qed simp

section \<open>Termination\<close>

text \<open>What the loops rely on: \<open>rand()\<close> returns small numbers again and again.\<close>

definition fair_rand :: "akb_os \<Rightarrow> bool" where
  "fair_rand sys \<longleftrightarrow> (\<forall>p. \<exists>q \<ge> p. rand sys q < 2 ^ 30)"

lemma rand_loop_total:
  assumes "fair_rand sys" "2 ^ 30 \<le> tp"
  shows "\<exists>r p'. rand_loop sys tp p = Some (r, p') \<and> r < tp"
proof -
  obtain q where q: "p \<le> q" "rand sys q < tp" using assms by (meson fair_rand_def order_less_le_trans)
  then show ?thesis
  proof (induction "q - p" arbitrary: p)
    case 0
    then show ?case by (subst rand_loop.simps) (simp add: Let_def)
  next
    case (Suc d)
    show ?case
    proof (cases "tp \<le> rand sys p")
      case True
      then have "p \<noteq> q" using Suc.prems by auto
      then have "\<exists>r p'. rand_loop sys tp (p + 1) = Some (r, p') \<and> r < tp" using Suc by (intro Suc.hyps(1)) auto
      then show ?thesis using True by (subst rand_loop.simps) (simp add: Let_def)
    next
      case False
      then show ?thesis by (subst rand_loop.simps) (simp add: Let_def)
    qed
  qed
qed

lemma rand_mod_total:
  assumes "fair_rand sys" "0 < md" "md \<le> 2 ^ 30"
  shows "\<exists>r p'. rand_mod sys md p = Some (r, p') \<and> r < md"
proof -
  let ?tp = "RAND_MAX - RAND_MAX mod md"
  have "RAND_MAX mod md < 2 ^ 30" using assms(2,3) by (meson mod_less_divisor order_less_le_trans)
  then have "2 ^ 30 \<le> ?tp" by (simp add: RAND_MAX_def)
  then obtain r p' where r: "rand_loop sys ?tp p = Some (r, p')" "r < ?tp" using rand_loop_total [OF assms(1)] by blast
  have "r < 1 + ?tp" using r(2) by linarith
  then have "md * r < md * (1 + ?tp)" using assms(2) by (intro mult_strict_left_mono)
  then have "md * r div (1 + ?tp) < md" by (simp add: less_mult_imp_div_less)
  then show ?thesis using r(1) by (simp add: rand_mod_def Let_def)
qed

lemma rand_chr_total: "fair_rand sys \<Longrightarrow> \<exists>b p'. rand_chr sys p = Some (b, p')"
  using rand_mod_total [of sys 256 p] by (auto simp: rand_chr_def)

lemma noise_loop_total: "fair_rand sys \<Longrightarrow> \<exists>bs p'. noise_loop sys False n p = Some (bs, p') \<and> length bs = n"
proof (induction n arbitrary: p)
  case (Suc n)
  obtain b p1 where "rand_chr sys p = Some (b, p1)" using rand_chr_total [OF Suc.prems] by blast
  then have "noise_chr sys False p = Some (b, p1)" by (subst noise_chr.simps) simp
  then show ?case using Suc.IH [OF Suc.prems, of p1] by auto
qed simp

lemma prnt_loop_total: "fair_rand sys \<Longrightarrow> \<exists>g'. prnt_loop sys ptr m l i k g = Some g'"
proof (induction k arbitrary: i g)
  case (Suc k)
  define g1 where "g1 = (if i mod 16 = 0 then emit [NL, TAB, DQ] g else g)"
  obtain b pos where b: "(if m \<le> i \<and> i < l then Some (ptr ! (i - m), rpos g1) else rand_chr sys (rpos g1)) = Some (b, pos)"
    using rand_chr_total [OF Suc.prems, of "rpos g1"] by (cases "m \<le> i \<and> i < l") auto
  show ?case
    unfolding prnt_loop.simps Let_def g1_def [symmetric] b by (simp only: Option.bind.simps split_conv Suc.IH [OF Suc.prems])
qed simp

lemma prnt_array_total:
  assumes "fair_rand sys" "l < 2 ^ 31"
  shows "\<exists>g'. prnt_array sys ptr name l cast g = Some g'"
proof -
  have m: "0 < 1 + l div 4" "1 + l div 4 \<le> 2 ^ 30" using assms(2) by simp_all
  obtain r p where 1: "rand_mod sys (1 + l div 4) (rpos g) = Some (r, p)" using rand_mod_total [OF assms(1) m] by blast
  obtain r' p' where 2: "rand_mod sys (1 + l div 4) p = Some (r', p')" using rand_mod_total [OF assms(1) m] by blast
  have "\<exists>g'. prnt_bytes sys ptr a b c g = Some g'" for a b c g
    using prnt_loop_total [OF assms(1)] by (fastforce simp: prnt_bytes_def Let_def)
  then show ?thesis unfolding prnt_array_def 1 2 Option.bind.simps split_conv Let_def by blast
qed

lemma emit_arrays_total:
  assumes "fair_rand sys" "length (left slots) = n" "\<forall>(name, ptr) \<in> set (left slots). length ptr < 2 ^ 31"
  shows "\<exists>g'. emit_arrays sys n slots g = Some g'"
  using assms(2,3)
proof (induction n arbitrary: slots g)
  case (Suc n)
  obtain i pos where 1: "rand_mod sys 15 (rpos g) = Some (i, pos)" using rand_mod_total [OF assms(1), of 15 "rpos g"] by auto
  have "left slots \<noteq> []" using Suc.prems(1) by auto
  then obtain j where 2: "pick slots i = Some j" using pick_exists by blast
  then obtain name ptr where 3: "slots ! j = Some (name, ptr)" using pick_valid by (metis not_None_eq prod.exhaust)
  have u: "mset (left slots) = add_mset (name, ptr) (mset (left (slots[j := None])))"
    using pick_valid [OF 2] 3 by (intro left_update) simp_all
  then have l: "length (left (slots[j := None])) = n" and s: "set (left slots) = insert (name, ptr) (set (left (slots[j := None])))"
    using Suc.prems(1) by (metis size_add_mset size_mset nat.inject, metis set_mset_add_mset_insert set_mset_mset)
  have "length ptr < 2 ^ 31" using Suc.prems(2) s by auto
  then obtain g1 where 4: "prnt_array sys ptr name (length ptr) None (g\<lparr>rpos := pos\<rparr>) = Some g1"
    using prnt_array_total [OF assms(1)] by blast
  have "\<exists>g'. emit_arrays sys n (slots[j := None]) g1 = Some g'" using Suc.prems(2) s by (intro Suc.IH l) auto
  then show ?case by (simp add: 1 2 3 4)
qed simp

section \<open>The program that is written\<close>

definition array_names :: "string list" where
  "array_names = [''pswd'', ''msg1'', ''date'', ''shll'', ''inlo'', ''xecc'', ''lsto'', ''tst1'', ''chk1'', ''msg2'', ''rlax'',
     ''opts'', ''text'', ''tst2'', ''chk2'']"

definition conf_small :: "akb \<Rightarrow> bool" where
  "conf_small st \<longleftrightarrow> (\<forall>s \<in> {mail st, date st, shll st, the (inlo st), the (xecc st), the (lsto st), opts st, script st}. length s < 2 ^ 30)"

lemma encrypt_arrays:
  assumes "encrypt fs st pswd = Some arrays" "conf_small st" "length pswd = 256"
  shows "map fst arrays = array_names" "\<forall>(name, ptr) \<in> set arrays. ptr \<noteq> [] \<and> length ptr < 2 ^ 31"
proof -
  have l: "length c = length p" if "arc4 s c = (s', p)" for s s' c p using that by (rule rc4.keeps_length)
  have z: "length (cz s) = Suc (length s)" for s by (simp add: cz_def)
  have "map fst arrays = array_names \<and> (\<forall>(name, ptr) \<in> set arrays. ptr \<noteq> [] \<and> length ptr < 2 ^ 31)"
  proof (rule encrypt_chain [OF assms(1)], goal_cases)
    case (1 s1 s2 s3 s4 s5 s6 s7 s8 s9 s10 s11 s12 s13 s14 s15 msg1 dat sh inl xec lst tst1 chk1 msg2 rlx opt tx tst2 chk2)
    note L = 1(1-10) [THEN l] 1(12-15) [THEN l]
    have ne: "ptr \<noteq> []" if "length ptr = Suc n" for n and ptr :: bytes using that by auto
    have "length msg1 < 2 ^ 31 \<and> msg1 \<noteq> []" "length dat < 2 ^ 31 \<and> dat \<noteq> []" "length sh < 2 ^ 31 \<and> sh \<noteq> []"
      "length inl < 2 ^ 31 \<and> inl \<noteq> []" "length xec < 2 ^ 31 \<and> xec \<noteq> []" "length lst < 2 ^ 31 \<and> lst \<noteq> []"
      "length tst1 < 2 ^ 31 \<and> tst1 \<noteq> []" "length chk1 < 2 ^ 31 \<and> chk1 \<noteq> []" "length msg2 < 2 ^ 31 \<and> msg2 \<noteq> []"
      "length rlx < 2 ^ 31 \<and> rlx \<noteq> []" "length opt < 2 ^ 31 \<and> opt \<noteq> []" "length tx < 2 ^ 31 \<and> tx \<noteq> []"
      "length tst2 < 2 ^ 31 \<and> tst2 \<noteq> []" "length chk2 < 2 ^ 31 \<and> chk2 \<noteq> []"
      using L [unfolded z] assms(2) by (auto simp: conf_small_def)
    moreover have "pswd \<noteq> []" "length pswd < 2 ^ 31" using assms(3) by auto
    ultimately show ?case unfolding 1(16) array_names_def by simp
  qed
  then show "map fst arrays = array_names" "\<forall>(name, ptr) \<in> set arrays. ptr \<noteq> [] \<and> length ptr < 2 ^ 31" by blast+
qed

lemma encrypt_defined:
  assumes "rlax st \<noteq> 0 \<or> stat_file sys (shll st) \<noteq> None"
  shows "encrypt sys st pswd \<noteq> None"
proof -
  have "(if rlax st = 0 then key_with_file sys (shll st) s else Some s) \<noteq> None" for s
    using assms by (auto simp: key_with_file_def)
  then show ?thesis by (simp only: encrypt_def Let_def option.map_disc_iff not_False_eq_True split: prod.split) blast
qed

lemma left_map_Some [simp]: "left (map Some xs) = xs"
  by (induction xs) (simp_all add: left_def)

lemma arrays_image:
  assumes "map fst arrays = array_names" "mset (map seg_array segs) = mset arrays" "name \<in> set array_names"
  shows "c_image (segs_toks 0 segs) name = array_image arrays name"
proof -
  have d: "distinct (map fst arrays)" "\<forall>n \<in> set (map fst arrays). length n = 4" unfolding assms(1) by (simp_all add: array_names_def)
  obtain ptr where ptr: "(name, ptr) \<in> set arrays" "array_image arrays name = ptr"
    using assms(1,3) d(1) unfolding array_image_def by (metis (no_types, lifting) fst_conv imageE list.set_map map_of_is_SomeI option.sel prod.collapse)
  have f: "map fst segs = map fst (map seg_array segs)" by (induction segs) (auto simp: seg_array_def)
  have m: "mset (map fst segs) = mset (map fst arrays)" unfolding f using assms(2) by (metis mset_map)
  then have ds: "distinct (map fst segs)" using d(1) by (metis mset_eq_imp_distinct_iff)
  have ls: "\<forall>s \<in> set segs. length (fst s) = 4" using mset_eq_setD [OF m] d(2) by (metis imageI list.set_map)
  have "(name, ptr) \<in> set (map seg_array segs)" using ptr(1) mset_eq_setD [OF assms(2)] by blast
  then obtain pre post where "(name, pre, ptr, post) \<in> set segs" by (auto simp: seg_array_def)
  from segs_image [OF this ds ls, of 0] show ?thesis using ptr(2) by (auto simp: c_image_def)
qed

text \<open>No option points into \<open>argv\<close>: what is printed of it are the arguments in their order.\<close>

definition own_strings :: "akb \<Rightarrow> bool" where
  "own_strings st \<longleftrightarrow> inlo_at st = None \<and> xecc_at st = None \<and> lsto_at st = None"

definition ordered_args :: "string list \<Rightarrow> string list" where
  "ordered_args argv = take 1 argv @ (case getopt_order (tl (zip argv argv)) of (os, ns) \<Rightarrow> os @ ns)"

lemma printed_args_own: "own_strings st \<Longrightarrow> printed_args argv st arrays = Some (ordered_args argv)"
  by (simp add: own_strings_def printed_args_def overwrite_arg_def ordered_args_def)

lemma write_C_body:
  assumes "fair_rand sys" "conf_small st" "rlax st \<noteq> 0 \<or> stat_file sys (shll st) \<noteq> None" "can_create sys (f @ ''.x.c'')" "own_strings st"
    and n: "noise sys 256 0 False 0 = Some (pswd, pos)" "length pswd = 256"
  shows "\<exists>arrays body. encrypt sys st pswd = Some arrays \<and>
    write_C sys f argv st = Some (Inr (f @ ''.x.c'', prologue (ordered_args argv) @ body @ epilogue st)) \<and>
    (\<forall>name \<in> set array_names. c_image (scan_c Code body) name = array_image arrays name)"
proof -
  obtain arrays where e: "encrypt sys st pswd = Some arrays"
    using encrypt_defined [OF assms(3), of pswd] by blast
  note a = encrypt_arrays [OF e assms(2) n(2)]
  have l: "length arrays = 15" using arg_cong [OF a(1), of length] by (simp add: array_names_def)
  let ?g = "\<lparr>out_text = prologue (ordered_args argv), offset = 0, rpos = pos\<rparr>"
  obtain g where g: "emit_arrays sys 15 (map Some arrays) ?g = Some g"
    using emit_arrays_total [OF assms(1), of "map Some arrays" 15] a(2) l by fastforce
  have nl: "\<forall>n \<in> set array_names. NL \<notin> set n" by (simp add: array_names_def)
  have "\<forall>(name, ptr) \<in> set arrays. ptr \<noteq> [] \<and> NL \<notin> set name"
  proof -
    have "snd e \<noteq> [] \<and> NL \<notin> set (fst e)" if "e \<in> set arrays" for e
    proof -
      have "fst e \<in> set array_names" using that a(1) by (metis image_eqI list.set_map)
      then show ?thesis using nl a(2) that by (cases e) auto
    qed
    then show ?thesis by force
  qed
  then obtain segs tx where s: "out_text g = prologue (ordered_args argv) @ tx" "mset (map seg_array segs) = mset arrays"
      "\<forall>rest. scan_c Code (tx @ rest) = segs_toks 0 segs @ scan_c Code rest"
    using emit_arrays_reads [OF g] l by auto
  have "scan_c Code tx = segs_toks 0 segs" using s(3) [THEN spec, of "[]"] by simp
  then have "\<forall>name \<in> set array_names. c_image (scan_c Code tx) name = array_image arrays name"
    using arrays_image [OF a(1) s(2)] by simp
  moreover have "write_C sys f argv st = Some (Inr (f @ ''.x.c'', prologue (ordered_args argv) @ tx @ epilogue st))"
    using n(1) e assms(4) g s(1) by (simp add: write_C_def Let_def emit_def printed_args_own [OF assms(5)])
  ultimately show ?thesis using e by blast
qed

definition demo_cc :: akb_os where
  "demo_cc = \<lparr>mktime = (\<lambda>d m y. 1), read_bytes = (\<lambda>f. Some (cs ''#!/bin/sh\<newline>echo hi'')), stat_file = (\<lambda>f. None),
     stat_bytes = (\<lambda>s. []), can_create = (\<lambda>f. True), getenv = (\<lambda>v. None), system_rc = (\<lambda>c. 0), rand = (\<lambda>n. 0)\<rparr>"

definition demo_akb :: akb where
  "demo_akb = akb_init\<lparr>file1 := Some ''s'', rlax := 1, shll := ''/bin/sh'', inlo := Some ''-c'', xecc := Some [], lsto := Some [],
     script := ''#!/bin/sh\<newline>echo hi''\<rparr>"

lemma demo_facts:
  "fair_rand demo_cc" "conf_small demo_akb" "conf_ok demo_akb" "rlax demo_akb \<noteq> 0" "can_create demo_cc (''s'' @ ''.x.c'')"
  "same_shell demo_cc demo_cc demo_akb" "own_strings demo_akb"
  by (auto simp: own_strings_def fair_rand_def demo_cc_def demo_akb_def akb_init_def conf_small_def conf_ok_def cstring_def same_shell_def)

text \<open>
  C34. \<open>write_C\<close> ends and writes a program for every script, whatever the random numbers (as long as \<open>rand()\<close>
  keeps returning small ones), unless one of the options \<open>-i\<close>, \<open>-x\<close>, \<open>-l\<close> was given: the prologue, the data and the run-time part. Reading its data as C does gives,
  for each of the fifteen encrypted arrays, at the offset and with the size of its definitions, exactly
  the bytes that were encrypted.
\<close>

theorem write_C_program:
  assumes "fair_rand sys" "conf_small st" "rlax st \<noteq> 0 \<or> stat_file sys (shll st) \<noteq> None" "can_create sys (f @ ''.x.c'')" "own_strings st"
  shows "\<exists>pswd arrays body. encrypt sys st pswd = Some arrays \<and>
    write_C sys f argv st = Some (Inr (f @ ''.x.c'', prologue (ordered_args argv) @ body @ epilogue st)) \<and>
    (\<forall>name \<in> set array_names. c_image (scan_c Code body) name = array_image arrays name)"
proof -
  obtain pswd pos where n: "noise sys 256 0 False 0 = Some (pswd, pos)" "length pswd = 256"
    using noise_loop_total [OF assms(1), of 256 0] by (auto simp: noise_def)
  then show ?thesis using write_C_body [OF assms] by blast
qed

theorem write_C_program_witness:
  "\<exists>pswd arrays body. encrypt demo_cc demo_akb pswd = Some arrays \<and>
    write_C demo_cc ''s'' [''akb_cc''] demo_akb = Some (Inr (''s'' @ ''.x.c'', prologue (ordered_args [''akb_cc'']) @ body @ epilogue demo_akb)) \<and>
    (\<forall>name \<in> set array_names. c_image (scan_c Code body) name = array_image arrays name)"
  by (rule write_C_program [OF demo_facts(1,2) disjI1 [OF demo_facts(4)] demo_facts(5,7)])

lemma xsh_checked_cong:
  assumes "\<forall>name \<in> set array_names. img name = img' name"
  shows "xsh_checked fs b img now ret argv me = xsh_checked fs b img' now ret argv me"
proof -
  have i: "img ''pswd'' = img' ''pswd''" "img ''msg1'' = img' ''msg1''" "img ''date'' = img' ''date''" "img ''shll'' = img' ''shll''"
    "img ''inlo'' = img' ''inlo''" "img ''xecc'' = img' ''xecc''" "img ''lsto'' = img' ''lsto''" "img ''tst1'' = img' ''tst1''"
    "img ''chk1'' = img' ''chk1''" "img ''msg2'' = img' ''msg2''" "img ''rlax'' = img' ''rlax''" "img ''opts'' = img' ''opts''"
    "img ''text'' = img' ''text''" "img ''tst2'' = img' ''tst2''" "img ''chk2'' = img' ''chk2''"
    using assms by (simp_all add: array_names_def)
  show ?thesis unfolding xsh_checked_def xsh_second_def i by (rule refl)
qed


end
