(* ===== verification/Akb_Compile.thy ===== *)
theory Akb_Compile
  imports Akb_Emit
begin

text \<open>
  The whole compiler: which command lines are accepted, and a run of \<open>do_all\<close> from the command line to the
  program it has compiled.
\<close>

section \<open>Options\<close>

definition is_show :: "opt_event \<Rightarrow> bool" where
  "is_show ev \<longleftrightarrow> ev \<in> {Opt (CHR ''C''), Opt (CHR ''A''), Opt (CHR ''h'')}"

definition is_f :: "opt_event \<Rightarrow> bool" where
  "is_f ev \<longleftrightarrow> (\<exists>a p. ev = Arg (CHR ''f'') a p)"

definition valid_date :: "akb_os \<Rightarrow> string \<Rightarrow> bool" where
  "valid_date sys a \<longleftrightarrow> (\<exists>mday mon year. scan_date a = Some (mday, mon, year) \<and> 0 < mktime sys mday (mon - 1) (year - 1900))"

definition is_bad :: "akb_os \<Rightarrow> opt_event \<Rightarrow> bool" where
  "is_bad sys ev \<longleftrightarrow> ev = Question \<or> (\<exists>a p. ev = Arg (CHR ''e'') a p \<and> \<not> valid_date sys a)"

text \<open>\<open>getopt\<close> returns only letters of the option string.\<close>

definition known :: "opt_event \<Rightarrow> bool" where
  "known ev \<longleftrightarrow> (case ev of Opt c \<Rightarrow> c \<in> set ''rvDUCABh'' | Arg c _ _ \<Rightarrow> c \<in> set ''emfixlo'' | Question \<Rightarrow> True)"

lemma opt_kind_known:
  "opt_kind optstring c = Some True \<Longrightarrow> c \<in> set ''emfixlo''" "opt_kind optstring c = Some False \<Longrightarrow> c \<in> set ''rvDUCABh''"
  by (auto simp: optstring_def split: if_splits)

lemma getopt_known:
  "ev \<in> set (getopt_cluster r i off args) \<Longrightarrow> known ev" "ev \<in> set (getopt_args i args) \<Longrightarrow> known ev"
proof (induction r i off args and i args rule: getopt_cluster_getopt_args.induct)
  case (2 c r i off args)
  show ?case
  proof (cases "opt_kind optstring c")
    case None
    then show ?thesis using 2 by (auto simp: known_def)
  next
    case (Some b)
    show ?thesis
    proof (cases b)
      case True
      then have k: "known (Arg c a p)" for a p using Some opt_kind_known(1) by (simp add: known_def)
      show ?thesis
      proof (cases "r = []")
        case False
        then show ?thesis using 2 Some True k by auto
      next
        case r: True
        show ?thesis
        proof (cases args)
          case Nil
          then show ?thesis using 2(5) Some True r by (simp add: known_def)
        next
          case (Cons a as)
          then show ?thesis using 2 Some True r k by auto
        qed
      qed
    next
      case False
      then have k: "known (Opt c)" using Some opt_kind_known(2) by (simp add: known_def)
      then show ?thesis using 2 Some False by auto
    qed
  qed
next
  case (4 i a as)
  then show ?case by (cases a) (auto split: if_splits)
qed auto

lemma parse_date:
  "\<exists>d. parse_an_arg sys (Arg (CHR ''e'') a p) st = (if valid_date sys a then Go_on (st\<lparr>date := d\<rparr>) else Bad st)"
proof (cases "scan_date a")
  case None
  then show ?thesis by (simp add: parse_an_arg_def valid_date_def)
next
  case (Some t)
  obtain mday mon year where t: "t = (mday, mon, year)" by (cases t)
  show ?thesis using Some unfolding t by (auto simp: parse_an_arg_def valid_date_def Let_def)
qed

lemma parse_show:
  assumes "\<exists>ev \<in> set evs. is_show ev"
  shows "\<exists>e. parse_loop sys evs err st = Inl e"
  using assms
proof (induction evs arbitrary: err st)
  case (Cons ev evs)
  show ?case
  proof (cases "is_show ev")
    case True
    then show ?thesis by (auto simp: is_show_def parse_an_arg_def)
  next
    case False
    then show ?thesis using Cons by (auto split: parse_result.split)
  qed
qed simp

lemma parse_step:
  assumes "known ev" "\<not> is_show ev"
  shows "\<exists>st'. parse_an_arg sys ev st = (if is_bad sys ev \<or> is_f ev \<and> file1 st \<noteq> None then Bad st else Go_on st') \<and>
    (file1 st' = None \<longleftrightarrow> file1 st = None \<and> \<not> is_f ev)"
proof (cases ev)
  case (Arg c a p)
  show ?thesis
  proof (cases "c = CHR ''e''")
    case True
    have "\<not> is_f ev" by (simp add: is_f_def Arg True)
    moreover have "is_bad sys ev \<longleftrightarrow> \<not> valid_date sys a" by (simp add: is_bad_def Arg True)
    moreover obtain d where
      "parse_an_arg sys (Arg (CHR ''e'') a p) st = (if valid_date sys a then Go_on (st\<lparr>date := d\<rparr>) else Bad st)"
      using parse_date by blast
    ultimately show ?thesis by (intro exI [of _ "st\<lparr>date := d\<rparr>"]) (simp add: Arg True)
  next
    case False
    then have "\<not> is_bad sys ev" by (simp add: is_bad_def Arg)
    moreover have "is_f ev \<longleftrightarrow> c = CHR ''f''" by (simp add: is_f_def Arg)
    moreover have "c \<in> set ''mfixlo''" using assms(1) False by (simp add: known_def Arg)
    ultimately show ?thesis unfolding Arg parse_an_arg_def by (cases "c = CHR ''f''") auto
  qed
next
  case (Opt c)
  then have "\<not> is_bad sys ev" "\<not> is_f ev" by (simp_all add: is_bad_def is_f_def)
  moreover have "c \<in> set ''rvDUB''" using assms by (auto simp: known_def is_show_def Opt)
  ultimately show ?thesis unfolding Opt parse_an_arg_def by auto
next
  case Question
  then show ?thesis by (auto simp: is_bad_def is_f_def parse_an_arg_def intro: exI [of _ "st\<lparr>file1 := file1 st\<rparr>"])
qed

text \<open>The loop ends without an error exactly when the file is named once and nothing was wrong.\<close>

lemma parse_loop_err:
  assumes "\<forall>ev \<in> set evs. known ev" "\<not> (\<exists>ev \<in> set evs. is_show ev)"
  shows "\<exists>err' st'. parse_loop sys evs err st = Inr (err', st') \<and> err \<le> err' \<and>
    (err' = err \<longleftrightarrow> \<not> (\<exists>ev \<in> set evs. is_bad sys ev) \<and>
      length (filter is_f evs) + (if file1 st = None then 0 else 1) = 1)"
  using assms
proof (induction evs arbitrary: err st)
  case (Cons ev evs)
  have "known ev" "\<not> is_show ev" using Cons.prems by simp_all
  from parse_step [OF this, of sys st] obtain st1 where step: "parse_an_arg sys ev st = (if is_bad sys ev \<or> is_f ev \<and> file1 st \<noteq> None then Bad st else Go_on st1)"
    and f1: "file1 st1 = None \<longleftrightarrow> file1 st = None \<and> \<not> is_f ev"
    by (elim exE conjE) (rule that)
  show ?case
  proof (cases "is_bad sys ev \<or> is_f ev \<and> file1 st \<noteq> None")
    case True
    obtain err' st' where "parse_loop sys evs (err + 1) st = Inr (err', st')" "err + 1 \<le> err'"
      using Cons.IH [of "err + 1" st] Cons.prems by auto
    then show ?thesis using step True by auto
  next
    case False
    obtain err' st' where "parse_loop sys evs err st1 = Inr (err', st')" "err \<le> err'"
      and "err' = err \<longleftrightarrow> \<not> (\<exists>ev \<in> set evs. is_bad sys ev) \<and> length (filter is_f evs) + (if file1 st1 = None then 0 else 1) = 1"
      using Cons.IH [of err st1] Cons.prems by auto
    then show ?thesis using step False f1 by auto
  qed
qed auto

lemma parse_args_ok_iff:
  "(\<exists>st. parse_args sys argv = Inr st) \<longleftrightarrow>
     (let evs = getopt_args 1 (tl argv)
      in (\<forall>ev \<in> set evs. \<not> is_show ev \<and> \<not> is_bad sys ev) \<and> length (filter is_f evs) = 1)"
proof (cases "\<exists>ev \<in> set (getopt_args 1 (tl argv)). is_show ev")
  case True
  then obtain e where "parse_loop sys (getopt_args 1 (tl argv)) 0 akb_init = Inl e" using parse_show by blast
  then show ?thesis using True by (auto simp: parse_args_def Let_def)
next
  case False
  have "\<forall>ev \<in> set (getopt_args 1 (tl argv)). known ev" using getopt_known(2) by blast
  from parse_loop_err [OF this False, of sys 0 akb_init] obtain err' st' where
    "parse_loop sys (getopt_args 1 (tl argv)) 0 akb_init = Inr (err', st')"
    "err' = 0 \<longleftrightarrow> \<not> (\<exists>ev \<in> set (getopt_args 1 (tl argv)). is_bad sys ev) \<and> length (filter is_f (getopt_args 1 (tl argv))) = 1"
    by (auto simp: akb_init_def)
  then show ?thesis using False by (auto simp: parse_args_def Let_def)
qed

section \<open>The interpreter line\<close>

definition word1 :: "string \<Rightarrow> bool" where
  "word1 s \<longleftrightarrow> s \<noteq> [] \<and> (\<forall>c \<in> set s. \<not> isspace c)"

lemma dropWhile_word: "(\<forall>c \<in> set s. \<not> isspace c) \<Longrightarrow> dropWhile isspace s = s"
  by (cases s) auto

lemma takeWhile_word: "(\<forall>c \<in> set s. \<not> isspace c) \<Longrightarrow> takeWhile (\<lambda>c. \<not> isspace c) s = s"
  by (induction s) auto

lemma word_blank:
  assumes "\<forall>c \<in> set s. \<not> isspace c"
  shows "takeWhile (\<lambda>c. \<not> isspace c) (s @ CHR '' '' # t) = s" "dropWhile (\<lambda>c. \<not> isspace c) (s @ CHR '' '' # t) = CHR '' '' # t"
  using assms by (induction s) (auto simp: isspace_def)

definition interp_line :: "string \<Rightarrow> string \<Rightarrow> string" where
  "interp_line sh op = ''#!'' @ sh @ (if op = [] then [] else CHR '' '' # op)"

lemma scan_interp_words:
  assumes "word1 sh" "\<forall>c \<in> set op. \<not> isspace c"
  shows "scan_interp (interp_line sh op) = Some (sh, op)"
proof -
  have sh: "\<forall>c \<in> set sh. \<not> isspace c" "sh \<noteq> []" using assms(1) by (simp_all add: word1_def)
  have h: "dropWhile isspace (sh @ t) = sh @ t" for t using sh by (cases sh) auto
  have i: "isspace CHR '' ''" "\<not> isspace CHR ''#''" by (simp_all add: isspace_def)
  show ?thesis
  proof (cases "op = []")
    case True
    then show ?thesis using sh h [of "[]"] i by (simp add: scan_interp_def interp_line_def Let_def takeWhile_word dropWhile_eq_Nil_conv [THEN iffD2])
  next
    case False
    have "dropWhile isspace op = op" "takeWhile (\<lambda>c. \<not> isspace c) op = op" "dropWhile (\<lambda>c. \<not> isspace c) op = []"
      using assms(2) dropWhile_word takeWhile_word by (auto simp: dropWhile_eq_Nil_conv)
    then show ?thesis using False sh h i word_blank [OF sh(1)]
      by (simp add: scan_interp_def interp_line_def Let_def del: dropWhile_eq_Nil_conv)
  qed
qed

lemma basename_path: "CHR ''/'' \<notin> set name \<Longrightarrow> basename (dir @ CHR ''/'' # name) = Some name"
proof -
  assume "CHR ''/'' \<notin> set name"
  then have "takeWhile (\<lambda>c. c \<noteq> CHR ''/'') (rev name @ CHR ''/'' # rev dir) = rev name" by (induction name rule: rev_induct) auto
  then show ?thesis by (simp add: basename_def)
qed

lemma shellsDB_names: "distinct (map db_shll shellsDB)" "\<forall>e \<in> set shellsDB. word1 (db_shll e) \<and> CHR ''/'' \<notin> set (db_shll e) \<and> cstring (db_shll e)"
  by (simp_all add: shellsDB_def word1_def isspace_def cstring_def)

lemma fold_shell_other: "name \<notin> set (map db_shll es) \<Longrightarrow> fold (shell_step name) es st = st"
  by (induction es arbitrary: st) (auto simp: shell_step_def)

lemma fold_shell_entry:
  assumes "distinct (map db_shll es)" "e \<in> set es"
  shows "fold (shell_step (db_shll e)) es st = st\<lparr>inlo := set_default (db_inlo e) (inlo st),
    xecc := set_default (db_xecc e) (xecc st), lsto := set_default (db_lsto e) (lsto st)\<rparr>"
  using assms
proof (induction es arbitrary: st)
  case (Cons e' es)
  show ?case
  proof (cases "e' = e")
    case True
    then have "db_shll e \<notin> set (map db_shll es)" using Cons.prems(1) by simp
    then have "fold (shell_step (db_shll e)) es st' = st'" for st' by (rule fold_shell_other)
    then show ?thesis unfolding True fold_simps by (simp add: shell_step_def [of "db_shll e" e])
  next
    case False
    then have e: "e \<in> set es" using Cons.prems(2) by simp
    then have "db_shll e \<in> set (map db_shll es)" by simp
    then have "db_shll e \<noteq> db_shll e'" using Cons.prems(1) by auto
    then show ?thesis using e Cons.IH Cons.prems(1) unfolding fold_simps by (simp add: shell_step_def [of "db_shll e" e'])
  qed
qed simp

definition kept_opts :: "string \<Rightarrow> string \<Rightarrow> string" where
  "kept_opts lst op = (if op = lst \<or> op = ''-'' then [] else op)"

lemma first_line:
  assumes "word1 sh" "\<forall>c \<in> set op. \<not> isspace c"
  shows "takeWhile (\<lambda>c. c \<noteq> NL) (interp_line sh op @ NL # rest) = interp_line sh op"
proof -
  have "\<forall>c \<in> set (interp_line sh op). c \<noteq> NL" using assms by (auto simp: interp_line_def word1_def isspace_def)
  then show ?thesis by (simp add: takeWhile_append)
qed

lemma eval_shell_entry:
  assumes "e \<in> set shellsDB" "\<forall>c \<in> set dir. \<not> isspace c" "\<forall>c \<in> set op. \<not> isspace c"
  shows "eval_shell (interp_line (dir @ CHR ''/'' # db_shll e) op @ NL # rest) st =
    Inr (st\<lparr>shll := dir @ CHR ''/'' # db_shll e, inlo := set_default (db_inlo e) (inlo st),
      xecc := set_default (db_xecc e) (xecc st), lsto := set_default (db_lsto e) (lsto st),
      opts := kept_opts (the (set_default (db_lsto e) (lsto st))) op\<rparr>)"
proof -
  let ?sh = "dir @ CHR ''/'' # db_shll e"
  have "word1 (db_shll e)" using shellsDB_names(2) assms(1) by blast
  moreover have "\<not> isspace CHR ''/''" by (simp add: isspace_def)
  ultimately have w: "word1 ?sh" using assms(2) by (auto simp: word1_def)
  have b: "basename ?sh = Some (db_shll e)" using basename_path shellsDB_names(2) assms(1) by blast
  have s: "set_default v x = Some w \<longleftrightarrow> x = None \<and> w = v \<or> x = Some w" "set_default v x \<noteq> None" for v x w :: "_"
    by (auto simp: set_default_def split: option.split)
  obtain i x l where d: "set_default (db_inlo e) (inlo st) = Some i" "set_default (db_xecc e) (xecc st) = Some x"
    "set_default (db_lsto e) (lsto st) = Some l" using s(2) by blast
  show ?thesis
    unfolding eval_shell_def first_line [OF w assms(3)] Let_def scan_interp_words [OF w assms(3)] option.case split_conv b
      fold_shell_entry [OF shellsDB_names(1) assms(1)]
    by (simp add: d kept_opts_def)
qed

text \<open>
  C38. The interpreter line of a script: every shell of the table is recognised at the end of any path, an option behind it is
  kept unless it is a single dash or the one that ends the options of that shell, and what the command line
  gave by \<open>-i\<close>, \<open>-x\<close> and \<open>-l\<close> goes before the table.
\<close>

theorem eval_shell_recognises:
  assumes "e \<in> set shellsDB" "\<forall>c \<in> set dir. \<not> isspace c" "\<forall>c \<in> set op. \<not> isspace c"
  shows "eval_shell (interp_line (dir @ CHR ''/'' # db_shll e) op @ NL # rest) st =
    Inr (st\<lparr>shll := dir @ CHR ''/'' # db_shll e, inlo := set_default (db_inlo e) (inlo st),
      xecc := set_default (db_xecc e) (xecc st), lsto := set_default (db_lsto e) (lsto st),
      opts := kept_opts (the (set_default (db_lsto e) (lsto st))) op\<rparr>)"
  by (rule eval_shell_entry [OF assms])

text \<open>
  C39. An interpreter given without a directory is dereferenced as a null pointer: \<open>strrchr\<close> finds no slash.
\<close>

theorem eval_shell_needs_slash:
  assumes "word1 sh" "CHR ''/'' \<notin> set sh" "\<forall>c \<in> set op. \<not> isspace c"
  shows "eval_shell (interp_line sh op @ NL # rest) st = Inl No_slash"
  unfolding eval_shell_def first_line [OF assms(1,3)] Let_def
  using assms(2) by (simp add: scan_interp_words [OF assms(1,3)] basename_def)

theorem eval_shell_needs_slash_witness: "eval_shell (''#!sh'' @ NL # ''date'') akb_init = Inl No_slash"
  using eval_shell_needs_slash [of "''sh''" "[]" "''date''" akb_init] by (simp add: word1_def isspace_def interp_line_def)

theorem eval_shell_recognises_witness:
  "eval_shell (''#!/usr/bin/perl -w'' @ NL # ''print 1;'') (akb_init\<lparr>lsto := Some ''-w''\<rparr>) =
     Inr (akb_init\<lparr>shll := ''/usr/bin/perl'', inlo := Some ''-e'', xecc := Some (''exec('' @ SQ # ''%s'' @ SQ # '',@ARGV);''),
       lsto := Some ''-w'', opts := []\<rparr>)"
  using eval_shell_recognises [of "hd shellsDB" "''/usr/bin''" "''-w''" "''print 1;''" "akb_init\<lparr>lsto := Some ''-w''\<rparr>"]
  by (simp add: shellsDB_def isspace_def interp_line_def set_default_def kept_opts_def akb_init_def)

text \<open>
  C37. Which command lines are accepted: the program goes on exactly when no option asks for a display, every
  option is known and has its argument, every date given is one, and \<open>-f\<close> is given once.
\<close>

theorem parse_args_accepts:
  "(\<exists>st. parse_args sys argv = Inr st) \<longleftrightarrow>
     (let evs = getopt_args 1 (tl argv)
      in (\<forall>ev \<in> set evs. \<not> is_show ev \<and> \<not> is_bad sys ev) \<and> length (filter is_f evs) = 1)"
  by (rule parse_args_ok_iff)

theorem parse_args_accepts_witness:
  "(\<exists>st. parse_args demo_cc [''akb_cc'', ''-vrf'', ''s''] = Inr st) \<and> \<not> (\<exists>st. parse_args demo_cc [''akb_cc'', ''-f'', ''s'', ''-ft''] = Inr st)"
  unfolding parse_args_accepts by (simp add: optstring_def is_show_def is_bad_def is_f_def)

section \<open>From the command line to the running script\<close>

definition only_file :: "string \<Rightarrow> akb" where
  "only_file f = akb_init\<lparr>file1 := Some f\<rparr>"

lemma getopt_f: "getopt_args (Suc 0) [''-f'', f] = [Arg (CHR ''f'') f (2, 0)]"
  by (simp add: optstring_def)

lemma parse_args_f: "parse_args sys [a0, ''-f'', f] = Inr (only_file f)"
  by (simp add: parse_args_def getopt_f parse_an_arg_def akb_init_def only_file_def del: getopt_args.simps)

lemma ordered_args_f: "ordered_args [a0, ''-f'', f] = [a0, ''-f'', f]"
  by (simp add: ordered_args_def optstring_def)

lemma read_loop_all: "read_loop rest acc = acc @ rest"
proof (induction rest acc rule: read_loop.induct)
  case (1 rest acc)
  then show ?case by (subst read_loop.simps) (auto simp: Let_def SIZE_def min_def split: if_splits)
qed

lemma read_script_text: "read_bytes sys f = Some (cs text) \<Longrightarrow> cstring text \<Longrightarrow> read_script sys f = Some text"
  by (simp add: read_script_def read_loop_all)

definition compiled_akb :: "string \<Rightarrow> string \<Rightarrow> shell_entry \<Rightarrow> string \<Rightarrow> string \<Rightarrow> akb" where
  "compiled_akb f dir e op text = (only_file f)\<lparr>script := text, shll := dir @ CHR ''/'' # db_shll e, inlo := Some (db_inlo e),
     xecc := Some (db_xecc e), lsto := Some (db_lsto e), opts := kept_opts (db_lsto e) op\<rparr>"

lemma exec_line: "e \<in> set shellsDB \<Longrightarrow> \<exists>scrpt. fmt_s (db_xecc e) (Some me) = Some scrpt \<and> length scrpt \<le> length me + 18 \<and> db_xecc e \<noteq> []"
  by (auto simp: shellsDB_def)

lemma shell_strings: "e \<in> set shellsDB \<Longrightarrow> \<forall>s \<in> {db_shll e, db_inlo e, db_xecc e, db_lsto e}. cstring s \<and> length s < 30"
  by (auto simp: shellsDB_def cstring_def)

lemma make_ok:
  assumes "getenv sys ''CC'' = None" "getenv sys ''CFLAGS'' = None" "length f < 2000" "file1 st = Some f" "file2 st = None"
    "system_rc sys (''cc  '' @ f @ ''.x.c -o '' @ f @ ''.x'') = 0"
  shows "make_cc sys st = Inr [''cc  '' @ f @ ''.x.c -o '' @ f @ ''.x'', ''strip '' @ f @ ''.x'', ''chmod ug=rwx,o=rx '' @ f @ ''.x'']"
  using assms by (simp add: make_cc_def run_cmd_def SIZE_def Let_def)

lemma compiled_conf:
  assumes "e \<in> set shellsDB" "cstring dir" "cstring op" "cstring text" "length dir + length op + length text < 1000000"
  shows "conf_ok (compiled_akb f dir e op text)" "conf_small (compiled_akb f dir e op text)"
proof -
  note e = shell_strings [OF assms(1)]
  have k: "cstring (kept_opts l op)" "length (kept_opts l op) \<le> length op" for l
    using assms(3) by (auto simp: kept_opts_def cstring_def)
  show "conf_ok (compiled_akb f dir e op text)"
    using e k(1) assms(2-4) by (auto simp: conf_ok_def compiled_akb_def only_file_def akb_init_def cstring_def)
  have b: "(1000000 :: nat) < 2 ^ 30" by simp
  show "conf_small (compiled_akb f dir e op text)"
    unfolding conf_small_def compiled_akb_def only_file_def akb_init_def
    using e k(2) [of "db_lsto e"] assms(5) by auto
qed

lemma eval_compiled:
  assumes "e \<in> set shellsDB" "\<forall>c \<in> set dir. \<not> isspace c" "\<forall>c \<in> set op. \<not> isspace c"
    "text = interp_line (dir @ CHR ''/'' # db_shll e) op @ NL # rest"
  shows "eval_shell text ((only_file f)\<lparr>script := text\<rparr>) = Inr (compiled_akb f dir e op text)"
  unfolding assms(4) eval_shell_entry [OF assms(1-3)]
  by (simp add: compiled_akb_def only_file_def akb_init_def set_default_def)

lemma image_runs:
  assumes "encrypt sys st pswd = Some arrays" "conf_ok st" "same_shell sys fs' st" "date st = []"
    "\<forall>name \<in> set array_names. img name = array_image arrays name"
    "getenv_entry (rtc_env rtc) (guard_name rtc data) = None" "argv \<noteq> []"
  shows "\<exists>rtc'. xsh fs' rtc b img data argv = (xsh_first b argv (hd argv) (shll st) (the (inlo st)) (the (xecc st)) (the (lsto st)), rtc') \<and>
    xsh fs' rtc' b img data argv =
      (Exec (shll st) (xsh_args b 1 argv (opts st) (the (inlo st)) (replicate hide_z (CHR '' '') @ script st) (the (lsto st))), rtc)"
proof -
  obtain rtc' where c: "chkenv rtc data (int (length argv)) = (0, rtc')" "chkenv rtc' data (int (length argv)) = (1, rtc)"
    using chkenv_twice [OF assms(6), of "length argv" "int (length argv)"] by auto
  have r: "xsh_checked fs' b img now ret as me = xsh_checked fs' b (array_image arrays) now ret as me" for now ret as me
    by (rule xsh_checked_cong [OF assms(5)])
  obtain me as where a: "argv = me # as" using assms(7) by (cases argv) auto
  show ?thesis
    using c encrypted_runs [OF assms(1-3)] assms(4) by (simp add: xsh_def r a del: xsh_checked_def)
qed


definition demo_run :: akb_os where
  "demo_run = demo_cc\<lparr>stat_file := (\<lambda>f. Some \<lparr>fs_ino = 1, fs_dev = 2, fs_rdev = 0, fs_uid = 0, fs_gid = 0, fs_size = 9,
     fs_mtime = 3, fs_ctime = 4, fs_mode = 5, fs_nlink = 1, fs_atime = 6\<rparr>)\<rparr>"


end
