(* ===== verification/Spec2Isabelle.thy ===== *)
theory Spec2Isabelle
  imports Unmkbootimg Rsa_Verify Dsa_Sig Ecdsa Mkbootfs_Canned Akb_Compile
begin

text \<open>
  Verification of the Automatic Kernel Builder sources: the boot image tools under \<open>src/bootimg_tools\<close> with
  the signature library they carry, and the script compiler \<open>src/cc/akb_cc.c\<close>.

  \<^bold>\<open>The program.\<close> \<open>mkbootimg\<close> packs a kernel, a ramdisk and a second stage into an Android boot image with an
  identifier computed by SHA-1; \<open>unmkbootimg\<close> takes such an image apart and prints the command that rebuilds
  it; \<open>mkbootfs\<close> writes the cpio archive used as ramdisk. \<open>libmincrypt\<close> verifies signatures: SHA-1 and
  SHA-256, RSA with PKCS #1 v1.5 padding, and ECDSA on P-256 with its integers, its field and its curve.
  \<open>akb_cc\<close> turns a shell script into a C program that holds it encrypted by ARC4, has that program compiled,
  and the program runs the script. The tools share no state but files; the library parts call each other
  (hash \<open>\<rightarrow>\<close> RSA, integers \<open>\<rightarrow>\<close> curve \<open>\<rightarrow>\<close> ECDSA), and the compiler shares the cipher with the program it generates.

  \<^bold>\<open>Theories.\<close>
  \<^item> \<open>Akb_Prelude\<close>: machine integers, byte orders, values of digit arrays, carry arithmetic. \<open>Cstd\<close> and \<open>Cstrings\<close>:
    what the sources use of the C library (\<open>strtoul\<close>, \<open>printf\<close> conversions, \<open>strcmp\<close>, \<open>qsort\<close>, \<open>strtok\<close>,
    \<open>fgets\<close>). The locale \<open>comparator\<close> shows that every sorting algorithm gives the result of the one used here.
  \<^item> \<open>Hash\<close>: \<open>sha.c\<close>, \<open>sha256.c\<close> and the dispatch macros of \<open>hash-internal.h\<close>, a context record and its
    operations. The locale \<open>md_hash\<close>, interpreted for both, shows that cutting the input does not matter; the digests are those
    of FIPS 180-4. \<open>Hash_Eval\<close> evaluates the hashes inside the logic.
  \<^item> \<open>Bootimg\<close>, \<open>Mkbootimg\<close>, \<open>Unmkbootimg\<close>: the header of \<open>bootimg.h\<close> with its byte layout, and both \<open>main\<close>
    functions over a file system with failing writes. mkbootimg leaves the specified image or reports the failure;
    unmkbootimg gives back what was packed, except for the second stage, whose position it computes wrongly.
  \<^item> \<open>Mkbootfs\<close>: all of \<open>mkbootfs.c\<close> over an abstract operating system. \<open>Cpio\<close>: the archive format as a specification with a reader.
    \<open>Mkbootfs_Proofs\<close>, \<open>Mkbootfs_Canned\<close>: the archive read back is the directory tree, it does not depend on the
    order of directory listings, and what the canned configuration does.
  \<^item> \<open>Montgomery\<close>: the interface of a Montgomery multiplication as a locale, with a field extension; interpreted in \<open>Rsa\<close>
    and in \<open>P256_Felem\<close>. \<open>Rsa\<close>, \<open>Rsa_Padding\<close>, \<open>Rsa_Verify\<close>: \<open>rsa.c\<close>, down to which signatures are accepted.
  \<^item> \<open>P256\<close>, \<open>P256_Arith\<close>, \<open>P256_Inverse\<close>, \<open>P256_Curve\<close>: the 256-bit integers of \<open>p256.c\<close> with their assertions, the
    modular product and inverse, the curve test. \<open>Dsa_Sig\<close>: the ASN.1 decoder \<open>dsa_sig.c\<close> with every read explicit.
  \<^item> \<open>P256_Field\<close> and \<open>P256_Group\<close>: all of \<open>p256_ec.c\<close>. \<open>P256_Limbs\<close>, \<open>P256_Split\<close>, \<open>P256_Eliminate\<close>,
    \<open>P256_Bounds\<close>, \<open>P256_Reduce\<close>, \<open>P256_Product\<close>, \<open>P256_Felem\<close>: the limb arithmetic is the field
    arithmetic and never overflows. \<open>P256_Points\<close>, \<open>P256_Invariant\<close>, \<open>P256_Theorems\<close>: the point operations are the chord and
    tangent laws and keep the curve equation.
  \<^item> \<open>P256_Prime\<close>: Fermat's theorem and Pocklington's criterion, with certificates that the prime of the curve is one.
    \<open>P256_Multiples\<close>: the relation \<open>comb G Q k m A\<close>, that \<open>A\<close> is reached from \<open>k\<close> copies of \<open>G\<close> and \<open>m\<close> of \<open>Q\<close> by
    chords and tangents, and how Jacobian triples follow it. \<open>P256_Scalar\<close>, \<open>P256_BaseTable\<close>, \<open>P256_ScalarMult\<close>: the masks and
    windows of both scalar multiplications; the locales \<open>multiples\<close> and \<open>base_multiples\<close> state what they need of the
    points and of the table. \<open>P256_Table\<close>: the precomputed table holds the documented multiples, by certificates.
    \<open>P256_Convert\<close>: Montgomery form and affine coordinates, the inverse, and the carry \<open>from_montgomery\<close> loses.
    \<open>P256_Multiply\<close>: interpretations of the locales, and both exported multiplications.
  \<^item> \<open>Ecdsa\<close>: \<open>p256_ecdsa.c\<close>. The check always returns, and decides the verification equation.
  \<^item> \<open>Arc4\<close>: the cipher, its invariant over the reachable states, and the locale \<open>stream_cipher\<close>. \<open>Akb_Text\<close>:
    the texts of \<open>akb_cc.c\<close>, with the run-time part it emits. \<open>Akb_Cc\<close>: the compiler. \<open>Akb_Rtc\<close>: the
    meaning of the emitted program (\<open>chkenv\<close>, \<open>xsh\<close>). \<open>Akb_Run\<close>: what it does with the encrypted arrays.
    \<open>Akb_Emit\<close>: reading the emitted text as C recovers these arrays. \<open>Akb_Compile\<close>: accepted command lines,
    interpreter lines, and the whole way from the command line to the running script.

  \<^bold>\<open>Conventions.\<close> A C structure is a record, globals are a record passed along, an early return or \<open>die\<close> is a
  constructor of an error type on the left of a sum. Machine integers are words and wrap. A read or
  write outside an object, a null pointer and an overrun buffer are errors of the model, never silently total. A loop the
  sources bound is structural or has a measure; the loops that need not end (\<open>modinv_loop\<close>, \<open>minimal_loop\<close>,
  \<open>rand_loop\<close>, \<open>noise_chr\<close>) are partial functions whose value \<open>None\<close> is a run without end, and the theorems
  about them state that they end. No fuel is used. Operating system calls, the clock, \<open>rand\<close>, and \<open>fs_config\<close>, which
  is defined outside the repository, are parameters.

  \<^bold>\<open>Not modelled.\<close> That chords and tangents form a group of prime order, which is what excludes a vanishing third
  coordinate for scalars below the order: the theorems on multiplications and on ECDSA name that case (\<open>has_affine\<close>,
  \<open>regular_mul\<close>), and name the few coordinates the lost carry can spoil (\<open>fragile\<close>). The order being prime is not shown, so
  that \<open>s\<close> is assumed to be coprime to it. Of the emitted program, \<open>untraceable\<close> (fork and ptrace) and
  \<open>debugexec\<close> (messages) are only text. Failing allocations, messages of \<open>-v\<close>, the test drivers under \<open>libmincrypt/test\<close>, and the
  Android platform headers, which hold no code the tools run.
\<close>

end
